(* ===== verification/Prelude.thy ===== *)
theory Prelude
  imports Main "HOL-Library.List_Lexorder" "HOL-Library.Char_ord" "HOL-Library.Sublist"
    "HOL-Library.Word" "HOL-Library.AList"
begin

text \<open>
  Shared vocabulary of the development.

  Go strings are byte strings: the type \<^typ>\<open>string\<close> with one \<^typ>\<open>char\<close> per
  byte, ordered bytewise (\<open>HOL-Library.List_Lexorder\<close> with \<open>HOL-Library.Char_ord\<close>),
  which is the order of Go's \<open><\<close> on strings. A Go function that returns
  \<open>(value, error)\<close> becomes a function into \<open>fail + 'a\<close>: \<open>Inl (Err msg)\<close>
  for a non-nil error, \<open>Inl Panic\<close> where the code would panic (an index out of
  range), \<open>Inr v\<close> for a nil error.

  The second part models the pieces of the packages \<open>strings\<close>, \<open>unicode/utf8\<close>
  and \<open>time\<close> that the code uses.
\<close>

section \<open>Results\<close>

datatype fail = Err string | Panic

type_synonym 'a res = "fail + 'a"

fun res_bind :: "'a res \<Rightarrow> ('a \<Rightarrow> 'b res) \<Rightarrow> 'b res" where
  "res_bind (Inl e) f = Inl e"
| "res_bind (Inr x) f = f x"

lemma res_bind_Inr_iff: "res_bind m f = Inr y \<longleftrightarrow> (\<exists>x. m = Inr x \<and> f x = Inr y)"
  by (cases m) auto

lemma res_bind_cong [fundef_cong]:
  "m = m' \<Longrightarrow> (\<And>x. m' = Inr x \<Longrightarrow> f x = g x) \<Longrightarrow> res_bind m f = res_bind m' g"
  by (cases m') auto

text \<open>Looking up rows.\<close>

lemma find_append: "find P (xs @ ys) = (case find P xs of None \<Rightarrow> find P ys | r \<Rightarrow> r)"
  by (induction xs) auto

lemma find_map_keep: "(\<And>x. P (f x) = P x) \<Longrightarrow> find P (map f xs) = map_option f (find P xs)"
  by (induction xs) auto

lemma find_filter_keep: "(\<And>x. P x \<Longrightarrow> Q x) \<Longrightarrow> find P (filter Q xs) = find P xs"
  by (induction xs) auto

lemma find_SomeD: "find P xs = Some x \<Longrightarrow> x \<in> set xs \<and> P x"
  by (auto simp: find_Some_iff)

named_theorems go_defs \<open>definitions of the Go library functions used by the code\<close>

type_synonym bytes = "8 word list"

section \<open>Strings\<close>

text \<open>\<open>strings.Index(s, sub)\<close>: the first position of \<open>sub\<close> in \<open>s\<close>, or -1.\<close>

fun strings_Index :: "string \<Rightarrow> string \<Rightarrow> int" where
  "strings_Index [] sub = (if sub = [] then 0 else -1)"
| "strings_Index (c # s) sub =
     (if prefix sub (c # s) then 0
      else let r = strings_Index s sub in if r < 0 then -1 else r + 1)"

definition strings_HasSuffix :: "string \<Rightarrow> string \<Rightarrow> bool" where
  "strings_HasSuffix s suf = suffix suf s"

definition strings_HasPrefix :: "string \<Rightarrow> string \<Rightarrow> bool" where
  "strings_HasPrefix s pre = prefix pre s"

text \<open>
  The length in bytes of the first UTF-8 sequence of a non-empty string, 1 for an invalid
  first byte or a truncated sequence (\<open>utf8.DecodeRuneInString\<close>).
\<close>

definition byte_in :: "nat \<Rightarrow> nat \<Rightarrow> char \<Rightarrow> bool" where
  "byte_in lo hi c \<longleftrightarrow> lo \<le> of_char c \<and> of_char c \<le> hi"

definition utf8_width :: "string \<Rightarrow> nat" where
  "utf8_width s =
     (case s of
        [] \<Rightarrow> 0
      | c0 # r \<Rightarrow>
          let b = (of_char c0 :: nat); ok = (\<lambda>i lo hi. i < length r \<and> byte_in lo hi (r ! i)) in
          if b < 128 then 1
          else if 194 \<le> b \<and> b \<le> 223 then (if ok 0 128 191 then 2 else 1)
          else if b = 224 then (if ok 0 160 191 \<and> ok 1 128 191 then 3 else 1)
          else if b = 237 then (if ok 0 128 159 \<and> ok 1 128 191 then 3 else 1)
          else if 225 \<le> b \<and> b \<le> 239 then (if ok 0 128 191 \<and> ok 1 128 191 then 3 else 1)
          else if b = 240 then (if ok 0 144 191 \<and> ok 1 128 191 \<and> ok 2 128 191 then 4 else 1)
          else if 241 \<le> b \<and> b \<le> 243 then
            (if ok 0 128 191 \<and> ok 1 128 191 \<and> ok 2 128 191 then 4 else 1)
          else if b = 244 then (if ok 0 128 143 \<and> ok 1 128 191 \<and> ok 2 128 191 then 4 else 1)
          else 1)"

lemma utf8_width_pos: "s \<noteq> [] \<Longrightarrow> 0 < utf8_width s"
  by (cases s) (auto simp: utf8_width_def Let_def)

text \<open>\<open>strings.Split(s, "")\<close>: one string per UTF-8 sequence.\<close>

function strings_explode :: "string \<Rightarrow> string list" where
  "strings_explode s =
     (if s = [] then [] else take (utf8_width s) s # strings_explode (drop (utf8_width s) s))"
  by pat_completeness auto
termination
  by (relation "measure length") (auto simp: utf8_width_pos)

declare strings_explode.simps [simp del]

definition ascii :: "string \<Rightarrow> bool" where
  "ascii s \<longleftrightarrow> list_all (\<lambda>c. (of_char c :: nat) < 128) s"

lemma ascii_simps [simp]:
  "ascii []" "ascii (c # s) \<longleftrightarrow> (of_char c :: nat) < 128 \<and> ascii s"
  "ascii (s @ t) \<longleftrightarrow> ascii s \<and> ascii t"
  by (auto simp: ascii_def)

lemma strings_explode_ascii: "ascii s \<Longrightarrow> strings_explode s = map (\<lambda>c. [c]) s"
  by (induction s) (simp_all add: strings_explode.simps utf8_width_def)

lemma concat_singletons [simp]: "concat (map (\<lambda>c. [c]) s) = s"
  by (induction s) auto

section \<open>Order of strings\<close>

text \<open>Facts on the bytewise order that every comparison of keys rests on.\<close>

lemma str_less_append [simp]: "(p @ x :: string) < p @ y \<longleftrightarrow> x < y"
  by (induction p) auto

lemma str_nil_less [simp]: "([] :: string) < x \<longleftrightarrow> x \<noteq> []"
  by (cases x) auto

lemma str_prefix_less: "y \<noteq> [] \<Longrightarrow> (x :: string) < x @ y"
  using str_less_append [of x "[]" y] by simp

lemma str_less_by_head: "c < d \<Longrightarrow> (c # x :: string) < d # y"
  by simp

lemma str_less_extend:
  "(x :: string) < y \<Longrightarrow> \<not> prefix x y \<Longrightarrow> x @ u < y @ v"
proof (induction x arbitrary: y)
  case Nil
  then show ?case by simp
next
  case (Cons a x)
  then show ?case by (cases y) auto
qed

lemma str_less_extend_right: "(x :: string) < y \<Longrightarrow> x < y @ v"
  by (metis order_less_trans str_prefix_less append_Nil2)

section \<open>Text helpers of the package strings\<close>

text \<open>
  The UTF-8 encodings of the white space runes of \<open>unicode.IsSpace\<close>; \<open>strings.TrimSpace\<close>
  removes them at both ends.
\<close>

definition space_sequences :: "string list" where
  "space_sequences =
     map (\<lambda>b. [char_of b]) [9, 10, 11, 12, 13, 32 :: nat] @
     map (map char_of) ([[194, 133], [194, 160], [225, 154, 128]] @
       map (\<lambda>b. [226, 128, b]) [128 ..< 139] @
       [[226, 128, 168], [226, 128, 169], [226, 128, 175], [226, 129, 159], [227, 128, 128 :: nat]])"

function trim_left :: "string \<Rightarrow> string" where
  "trim_left s =
     (case find (\<lambda>w. w \<noteq> [] \<and> prefix w s) space_sequences of
        None \<Rightarrow> s
      | Some w \<Rightarrow> trim_left (drop (length w) s))"
  by pat_completeness auto
termination
  by (relation "measure length") (auto simp: find_Some_iff prefix_def)

declare trim_left.simps [simp del]

function trim_right :: "string \<Rightarrow> string" where
  "trim_right s =
     (case find (\<lambda>w. w \<noteq> [] \<and> suffix w s) space_sequences of
        None \<Rightarrow> s
      | Some w \<Rightarrow> trim_right (take (length s - length w) s))"
  by pat_completeness auto
termination
  by (relation "measure length") (auto simp: find_Some_iff suffix_def)

declare trim_right.simps [simp del]

definition strings_TrimSpace :: "string \<Rightarrow> string" where
  "strings_TrimSpace s = trim_right (trim_left s)"

lemma strings_TrimSpace_Nil [simp]: "strings_TrimSpace [] = []"
proof -
  have "find (\<lambda>w. w \<noteq> [] \<and> prefix w []) space_sequences = None"
    "find (\<lambda>w. w \<noteq> [] \<and> suffix w []) space_sequences = None"
    by (simp_all add: find_None_iff)
  then show ?thesis
    by (simp add: strings_TrimSpace_def trim_left.simps [of "[]"] trim_right.simps [of "[]"])
qed

text \<open>
  ASCII case mapping, the part of \<open>strings.ToLower\<close>, \<open>ToUpper\<close> and \<open>EqualFold\<close> the code relies on for its own
  words (roles, modes, kinds, schemes). Go maps the letters of all alphabets: for texts outside ASCII the
  functions here leave letters alone that the code changes, which matters for the search in messages and the names
  in mentions, and in a few spellings of the words themselves (the Kelvin sign is lowered to \<open>k\<close>).
\<close>

definition ascii_lower :: "char \<Rightarrow> char" where
  "ascii_lower c = (if byte_in 65 90 c then char_of (of_char c + 32 :: nat) else c)"

definition ascii_upper :: "char \<Rightarrow> char" where
  "ascii_upper c = (if byte_in 97 122 c then char_of (of_char c - 32 :: nat) else c)"

definition strings_ToLower :: "string \<Rightarrow> string" where
  "strings_ToLower = map ascii_lower"

definition strings_ToUpper :: "string \<Rightarrow> string" where
  "strings_ToUpper = map ascii_upper"

definition strings_EqualFold :: "string \<Rightarrow> string \<Rightarrow> bool" where
  "strings_EqualFold s t \<longleftrightarrow> strings_ToLower s = strings_ToLower t"

text \<open>\<open>strings.FieldsFunc\<close>: the maximal non-empty runs of bytes that are not separators.\<close>

fun fields_from :: "(char \<Rightarrow> bool) \<Rightarrow> string \<Rightarrow> string \<Rightarrow> string list" where
  "fields_from sep cur [] = (if cur = [] then [] else [cur])"
| "fields_from sep cur (c # s) =
     (if sep c then (if cur = [] then fields_from sep [] s else cur # fields_from sep [] s)
      else fields_from sep (cur @ [c]) s)"

definition strings_FieldsFunc :: "string \<Rightarrow> (char \<Rightarrow> bool) \<Rightarrow> string list" where
  "strings_FieldsFunc s sep = fields_from sep [] s"

text \<open>\<open>strings.Split\<close> and \<open>strings.SplitN\<close> at a single separator byte.\<close>

fun split_at :: "char \<Rightarrow> string \<Rightarrow> string list" where
  "split_at sep [] = [[]]"
| "split_at sep (c # s) =
     (if c = sep then [] # split_at sep s
      else (case split_at sep s of [] \<Rightarrow> [[c]] | f # fs \<Rightarrow> (c # f) # fs))"

fun splitn_at :: "char \<Rightarrow> nat \<Rightarrow> string \<Rightarrow> string list" where
  "splitn_at sep 0 s = []"
| "splitn_at sep (Suc 0) s = [s]"
| "splitn_at sep (Suc (Suc n)) s =
     (if sep \<in> set s
      then takeWhile (\<lambda>c. c \<noteq> sep) s # splitn_at sep (Suc n) (tl (dropWhile (\<lambda>c. c \<noteq> sep) s))
      else [s])"

text \<open>Decimal printing of a natural number.\<close>

definition digit_char :: "nat \<Rightarrow> char" where
  "digit_char d = char_of (48 + d)"

fun show_nat :: "nat \<Rightarrow> string" where
  "show_nat n = (if n < 10 then [digit_char n] else show_nat (n div 10) @ [digit_char (n mod 10)])"

declare show_nat.simps [simp del]

definition show_int :: "int \<Rightarrow> string" where
  "show_int i = (if i < 0 then CHR ''-'' # show_nat (nat (- i)) else show_nat (nat i))"

definition decimal :: "char \<Rightarrow> bool" where
  "decimal c = byte_in 48 57 c"

definition read_nat :: "string \<Rightarrow> nat" where
  "read_nat ds = foldl (\<lambda>n c. n * 10 + (of_char c - 48)) 0 ds"

lemma digit_char_value: "d < 10 \<Longrightarrow> of_char (digit_char d) - 48 = d"
  by (simp add: digit_char_def)

lemma show_nat_decimal: "list_all decimal (show_nat n) \<and> show_nat n \<noteq> []"
proof (induction n rule: show_nat.induct)
  case (1 n)
  have d: "d < 10 \<Longrightarrow> decimal (digit_char d)" for d
    by (simp add: decimal_def digit_char_def byte_in_def)
  show ?case
    using 1 d [of n] d [of "n mod 10"] by (subst (1 2) show_nat.simps) simp
qed

lemma read_show_nat: "read_nat (show_nat n) = n"
proof (induction n rule: show_nat.induct)
  case (1 n)
  show ?case
    using 1 digit_char_value [of n] digit_char_value [of "n mod 10"]
    by (subst show_nat.simps) (simp add: read_nat_def)
qed

lemma decimal_not_sign: "decimal c \<Longrightarrow> c \<noteq> CHR ''-'' \<and> c \<noteq> CHR ''+'' \<and> c \<noteq> CHR ''.''"
  by (auto simp: decimal_def byte_in_def)

lemma show_nat_nonempty [simp]: "show_nat n \<noteq> []"
  using show_nat_decimal by simp

lemma show_nat_inj: "show_nat m = show_nat n \<longleftrightarrow> m = n"
  by (metis read_show_nat)

section \<open>Bytes\<close>

text \<open>The conversions \<open>[]byte(s)\<close> and \<open>string(b)\<close>, and facts on single bytes.\<close>

definition bytes_of :: "string \<Rightarrow> bytes" where
  "bytes_of = map (\<lambda>c. of_nat (of_char c))"

definition string_of :: "bytes \<Rightarrow> string" where
  "string_of = map (\<lambda>b. char_of (unat b))"

lemma bytes_string [simp]: "bytes_of (string_of b) = b" "string_of (bytes_of s) = s"
proof -
  have "unat x < 256" for x :: "8 word" using unsigned_less [of x] by simp
  then show "bytes_of (string_of b) = b"
    by (simp add: bytes_of_def string_of_def map_idI)
  have "unat (of_nat (of_char c) :: 8 word) = of_char c" for c :: char
    by (simp add: unat_of_nat)
  then show "string_of (bytes_of s) = s"
    by (simp add: bytes_of_def string_of_def map_idI)
qed

unbundle bit_operations_syntax

lemma byte_low: "unat ((x :: 8 word) AND 127) = unat x mod 128"
proof -
  have "(127 :: 8 word) = mask 7" by (simp add: mask_eq_exp_minus_1)
  then have "x AND 127 = take_bit 7 x" by (simp add: take_bit_eq_mask)
  then have "unat (x AND 127) = take_bit 7 (unat x)" by (simp only: unsigned_take_bit_eq)
  then show ?thesis by (simp add: take_bit_eq_mod)
qed

lemma byte_bit7: "bit (x :: 8 word) 7 \<longleftrightarrow> 128 \<le> unat x"
proof -
  have "bit x 7 \<longleftrightarrow> bit (unat x) 7" by (simp only: bit_unsigned_iff) simp
  then have "bit x 7 \<longleftrightarrow> odd (unat x div 128)" by (simp add: bit_iff_odd)
  moreover have "unat x < 256" using unsigned_less [of x] by simp
  then have "unat x div 128 = (if 128 \<le> unat x then 1 else 0)" by (simp add: div_nat_eqI)
  ultimately show ?thesis by simp
qed

lemma bit_128: "bit (128 :: 8 word) n \<longleftrightarrow> n = 7"
  using bit_exp_iff [of 7 n, where ?'a = "8 word"] by auto

lemma byte_high: "(x :: 8 word) AND 128 = 0 \<longleftrightarrow> unat x < 128"
proof -
  have "x AND 128 = 0 \<longleftrightarrow> \<not> bit x 7"
  proof
    assume "x AND 128 = 0"
    then have "bit (x AND 128) 7 = bit (0 :: 8 word) 7" by simp
    then show "\<not> bit x 7" by (simp only: bit_and_iff bit_128) simp
  next
    assume "\<not> bit x 7"
    then show "x AND 128 = 0" by (intro bit_eqI) (simp only: bit_and_iff bit_128, auto)
  qed
  then show ?thesis by (simp add: byte_bit7 not_le)
qed

lemma byte_more:
  assumes "m < 128"
  shows "unat ((of_nat m :: 8 word) OR 128) = m + 128"
proof -
  have m: "unat (of_nat m :: 8 word) = m" using assms by (simp add: unat_of_nat)
  have "\<not> bit (of_nat m :: 8 word) 7" using m assms by (simp add: byte_bit7)
  then have "(of_nat m :: 8 word) OR 128 = of_nat m + 128"
    by (intro disjunctive_add [symmetric]) (auto simp only: bit_128)
  then show ?thesis using assms m by (simp add: unat_word_ariths)
qed

lemma Uint16_bytes:
  fixes id :: "16 word"
  shows "(ucast (ucast id :: 8 word) :: 16 word) OR push_bit 8 (ucast (ucast (drop_bit 8 id) :: 8 word)) = id"
  by (rule bit_word_eqI) (auto simp: bit_simps)

lemma Uint16_of_nat:
  assumes "n < 65536"
  shows "unat ((ucast (of_nat n :: 8 word) :: 16 word) OR push_bit 8 (ucast (of_nat (n div 256) :: 8 word))) = n"
proof -
  let ?w = "of_nat n :: 16 word"
  have u: "unat ?w = n" using assms by (simp add: unat_of_nat)
  have "(of_nat n :: 8 word) = of_nat (unat ?w)" by (simp only: u)
  then have "(of_nat n :: 8 word) = ucast ?w" by simp
  moreover have "(of_nat (n div 256) :: 8 word) = of_nat (unat (drop_bit 8 ?w))"
    by (simp only: unsigned_drop_bit_eq u) (simp add: drop_bit_eq_div take_bit_eq_mod assms)
  then have "(of_nat (n div 256) :: 8 word) = ucast (drop_bit 8 ?w)" by simp
  ultimately show ?thesis using u by (simp add: Uint16_bytes)
qed

section \<open>Time\<close>

text \<open>
  A \<open>time.Time\<close> is its instant in nanoseconds since the Unix epoch; the zero
  \<open>time.Time\<close> is the first of January of the year 1. A \<open>time.Duration\<close> is an
  \<open>int64\<close> of nanoseconds: \<open>Sub\<close> saturates at its bounds, arithmetic on durations
  wraps, and division truncates towards zero.
\<close>

type_synonym time = int
type_synonym duration = int

definition zero_time :: time where
  "zero_time = - 62135596800 * 1000000000"

definition min_int64 :: int where "min_int64 = - (2 ^ 63)"
definition max_int64 :: int where "max_int64 = 2 ^ 63 - 1"

definition wrap64 :: "int \<Rightarrow> int" where
  "wrap64 i = (i + 2 ^ 63) mod 2 ^ 64 - 2 ^ 63"

definition time_Sub :: "time \<Rightarrow> time \<Rightarrow> duration" where
  "time_Sub t u = max min_int64 (min max_int64 (t - u))"

definition trunc_div :: "int \<Rightarrow> int \<Rightarrow> int" where
  "trunc_div a b = sgn a * sgn b * (\<bar>a\<bar> div \<bar>b\<bar>)"

definition second :: duration where "second = 1000000000"
definition minute :: duration where "minute = 60 * second"
definition hour :: duration where "hour = 60 * minute"

definition time_Unix :: "time \<Rightarrow> int" where
  "time_Unix t = t div second"

lemma wrap64_id: "min_int64 \<le> i \<Longrightarrow> i \<le> max_int64 \<Longrightarrow> wrap64 i = i"
  by (simp add: wrap64_def min_int64_def max_int64_def)

lemma time_Sub_id: "min_int64 \<le> t - u \<Longrightarrow> t - u \<le> max_int64 \<Longrightarrow> time_Sub t u = t - u"
  by (simp add: time_Sub_def)

lemma trunc_div_nonneg: "0 \<le> a \<Longrightarrow> 0 < b \<Longrightarrow> trunc_div a b = a div b"
  by (cases "a = 0") (auto simp: trunc_div_def)

lemma time_Sub_ge: "w \<le> max_int64 \<Longrightarrow> w > min_int64 \<Longrightarrow> time_Sub t u \<ge> w \<longleftrightarrow> t - u \<ge> w"
  by (auto simp: time_Sub_def)

end
