(* ===== verification/Fracdex.thy ===== *)
theory Fracdex
  imports Prelude
begin

text \<open>
  The package \<open>fracdex\<close> (\<open>src/fracdex/fracdex.go\<close>): fractional indexing. A key is an
  integer part, whose head letter encodes the sign and the number of digits, followed by
  a fraction, all in base 62. \<open>KeyBetween\<close> returns a key strictly between two keys; the
  database layer uses it for the sort keys of applications.
\<close>

section \<open>The code\<close>

definition base62Digits :: string where
  "base62Digits = ''0123456789ABCDEFGHIJKLMNOPQRSTUVWXYZabcdefghijklmnopqrstuvwxyz''"

definition smallestInt :: string where
  "smallestInt = ''A00000000000000000000000000''"

definition zero_key :: string where
  "zero_key = ''a0''"

text \<open>\<open>base62Digits[i]\<close>, a panic outside the string.\<close>

definition base62_at :: "int \<Rightarrow> char res" where
  "base62_at i =
     (if 0 \<le> i \<and> i < int (length base62Digits) then Inr (base62Digits ! nat i) else Inl Panic)"

definition getIntLen :: "char \<Rightarrow> nat res" where
  "getIntLen head =
     (if CHR ''a'' \<le> head \<and> head \<le> CHR ''z''
      then Inr (of_char head - of_char (CHR ''a'') + 2)
      else if CHR ''A'' \<le> head \<and> head \<le> CHR ''Z''
      then Inr (of_char (CHR ''Z'') - of_char head + 2)
      else Inl (Err (''invalid order key head: '' @ [head])))"

definition validateInt :: "string \<Rightarrow> unit res" where
  "validateInt i =
     (case i of
        [] \<Rightarrow> Inl Panic
      | h # _ \<Rightarrow> res_bind (getIntLen h) (\<lambda>exp.
          if length i \<noteq> exp then Inl (Err (''invalid integer part of order key: '' @ i))
          else Inr ()))"

definition getIntPart :: "string \<Rightarrow> string res" where
  "getIntPart key =
     (case key of
        [] \<Rightarrow> Inl Panic
      | h # _ \<Rightarrow> res_bind (getIntLen h) (\<lambda>intPartLen.
          if intPartLen > length key then Inl (Err (''invalid order key: '' @ key))
          else Inr (take intPartLen key)))"

definition validateOrderKey :: "string \<Rightarrow> unit res" where
  "validateOrderKey key =
     (if key = smallestInt then Inl (Err (''invalid order key: '' @ key))
      else res_bind (getIntPart key) (\<lambda>i.
        let f = drop (length i) key in
        if strings_HasSuffix f ''0'' then Inl (Err (''invalid order key: '' @ key)) else Inr ()))"

text \<open>
  The loop of \<open>midpoint\<close> that removes the longest common prefix, padding \<open>a\<close> with
  zeros: the number of bytes of \<open>b\<close> it walks over.
\<close>

fun common_prefix_len :: "string \<Rightarrow> string \<Rightarrow> nat" where
  "common_prefix_len a [] = 0"
| "common_prefix_len a (d # b) =
     (let c = (case a of [] \<Rightarrow> CHR ''0'' | x # _ \<Rightarrow> x)
      in if c \<noteq> d then 0 else Suc (common_prefix_len (tl a) b))"

text \<open>
  \<open>math.Round(0.5 * float64(n))\<close> rounds half away from zero; it is applied to
  \<open>n = digitA + digitB\<close> with \<open>digitB - digitA > 1\<close> and \<open>digitA \<ge> -1\<close>, so \<open>n \<ge> 0\<close>.
\<close>

definition round_half :: "int \<Rightarrow> int" where
  "round_half n = (n + 1) div 2"

function midpoint :: "string \<Rightarrow> string \<Rightarrow> string res" where
  "midpoint a b =
     (let i = (if b \<noteq> [] then common_prefix_len a b else 0) in
      if i > 0 then
        (if i > length a
         then res_bind (midpoint [] (drop i b)) (\<lambda>m. Inr (take i b @ m))
         else res_bind (midpoint (drop i a) (drop i b)) (\<lambda>m. Inr (take i b @ m)))
      else
        let digitA = (if a \<noteq> [] then strings_Index base62Digits [hd a] else 0);
            digitB = (if b \<noteq> [] then strings_Index base62Digits [hd b]
                      else int (length base62Digits)) in
        if digitB - digitA > 1 then
          res_bind (base62_at (round_half (digitA + digitB))) (\<lambda>c. Inr [c])
        else if length b > 1 then Inr (take 1 b)
        else
          let sa = (if length a > 0 then tl a else []) in
          res_bind (base62_at digitA) (\<lambda>c.
            res_bind (midpoint sa []) (\<lambda>m. Inr ([c] @ m))))"
  by pat_completeness auto
termination
proof (relation "measure (\<lambda>(a, b). length a + length b)", goal_cases)
  case 1
  then show ?case by simp
next
  case (2 a b x)
  then show ?case by (cases b) (auto split: if_splits)
next
  case (3 a b x)
  then show ?case by (cases b) (auto split: if_splits)
next
  case (4 a b x xa xb xc xd)
  then show ?case
    by (cases a; cases b) (auto simp: base62Digits_def)
qed

declare midpoint.simps [simp del]

text \<open>
  The loops of \<open>incrementInt\<close> and \<open>decrementInt\<close> run from the last digit to the first
  while there is a carry; here over the reversed list, returning the final carry.
\<close>

fun inc_digits :: "string list \<Rightarrow> bool \<times> string list" where
  "inc_digits [] = (True, [])"
| "inc_digits (g # gs) =
     (let d = strings_Index base62Digits g + 1 in
      if d = int (length base62Digits)
      then (let (carry, r) = inc_digits gs in (carry, ''0'' # r))
      else (False, [base62Digits ! nat d] # gs))"

fun dec_digits :: "string list \<Rightarrow> (bool \<times> string list) res" where
  "dec_digits [] = Inr (True, [])"
| "dec_digits (g # gs) =
     (let d = strings_Index base62Digits g - 1 in
      if d = -1
      then res_bind (dec_digits gs) (\<lambda>(borrow, r). Inr (borrow, [last base62Digits] # r))
      else res_bind (base62_at d) (\<lambda>c. Inr (False, [c] # gs)))"

definition char_add :: "char \<Rightarrow> int \<Rightarrow> char" where
  "char_add c n = char_of (nat ((int (of_char c) + n) mod 256))"

definition incrementInt :: "string \<Rightarrow> string res" where
  "incrementInt x =
     res_bind (validateInt x) (\<lambda>_.
       let digs0 = strings_explode x; head = hd digs0;
           (carry, r) = inc_digits (rev (tl digs0)); digs = rev r in
       if carry then
         if head = ''Z'' then Inr ''a0''
         else if head = ''z'' then Inr ''''
         else
           let h = [char_add (hd head) 1] in
           if h > ''a'' then Inr (h @ concat (digs @ [''0'']))
           else if digs = [] then Inl Panic
           else Inr (h @ concat (tl digs))
       else Inr (head @ concat digs))"

definition decrementInt :: "string \<Rightarrow> string res" where
  "decrementInt x =
     res_bind (validateInt x) (\<lambda>_.
       let digs0 = strings_explode x; head = hd digs0 in
       res_bind (dec_digits (rev (tl digs0))) (\<lambda>(borrow, r).
         let digs = rev r in
         if borrow then
           if head = ''a'' then Inr (''Z'' @ [last base62Digits])
           else if head = ''A'' then Inr ''''
           else
             let h = char_add (hd head) (-1) in
             if h < CHR ''Z'' then Inr ([h] @ concat (digs @ [[last base62Digits]]))
             else if digs = [] then Inl Panic
             else Inr ([h] @ concat (tl digs))
         else Inr (head @ concat digs)))"

definition KeyBetween :: "string \<Rightarrow> string \<Rightarrow> string res" where
  "KeyBetween a b =
     res_bind (if a \<noteq> '''' then validateOrderKey a else Inr ()) (\<lambda>_.
     res_bind (if b \<noteq> '''' then validateOrderKey b else Inr ()) (\<lambda>_.
     if a \<noteq> '''' \<and> b \<noteq> '''' \<and> a \<ge> b then Inl (Err (a @ '' >= '' @ b))
     else if a = '''' then
       if b = '''' then Inr zero_key
       else
         res_bind (getIntPart b) (\<lambda>ib.
         let fb = drop (length ib) b in
         if ib = smallestInt then res_bind (midpoint '''' fb) (\<lambda>m. Inr (ib @ m))
         else if ib < b then Inr ib
         else
           res_bind (decrementInt ib) (\<lambda>r.
           if r = '''' then Inl (Err ''range underflow'') else Inr r))
     else if b = '''' then
       res_bind (getIntPart a) (\<lambda>ia.
       let fa = drop (length ia) a in
       res_bind (incrementInt ia) (\<lambda>i.
       if i = '''' then res_bind (midpoint fa '''') (\<lambda>m. Inr (ia @ m)) else Inr i))
     else
       res_bind (getIntPart a) (\<lambda>ia.
       let fa = drop (length ia) a in
       res_bind (getIntPart b) (\<lambda>ib.
       let fb = drop (length ib) b in
       if ia = ib then res_bind (midpoint fa fb) (\<lambda>m. Inr (ia @ m))
       else
         res_bind (incrementInt ia) (\<lambda>i.
         if i = '''' then Inl (Err ''range overflow'')
         else if i < b then Inr i
         else res_bind (midpoint fa '''') (\<lambda>m. Inr (ia @ m)))))))"

text \<open>
  The two loops of \<open>NKeysBetween\<close> that walk from one key to the next: \<open>c\<close> is the key
  found last, \<open>n\<close> the number of keys still to find.
\<close>

fun key_chain :: "(string \<Rightarrow> string res) \<Rightarrow> string \<Rightarrow> nat \<Rightarrow> string list res" where
  "key_chain step c 0 = Inr [c]"
| "key_chain step c (Suc n) =
     res_bind (step c) (\<lambda>c'. res_bind (key_chain step c' n) (\<lambda>ks. Inr (c # ks)))"

function NKeysBetween :: "string \<Rightarrow> string \<Rightarrow> nat \<Rightarrow> string list res" where
  "NKeysBetween a b n =
     (if n = 0 then Inr []
      else if n = 1 then res_bind (KeyBetween a b) (\<lambda>c. Inr [c])
      else if b = '''' then
        res_bind (KeyBetween a b) (\<lambda>c. key_chain (\<lambda>c. KeyBetween c b) c (n - 1))
      else if a = '''' then
        res_bind (KeyBetween a b) (\<lambda>c.
        res_bind (key_chain (\<lambda>c. KeyBetween a c) c (n - 1)) (\<lambda>ks. Inr (rev ks)))
      else
        let mid = n div 2 in
        res_bind (KeyBetween a b) (\<lambda>c.
        res_bind (NKeysBetween a c mid) (\<lambda>l.
        res_bind (NKeysBetween c b (n - mid - 1)) (\<lambda>r. Inr (l @ [c] @ r)))))"
  by pat_completeness auto
termination
  by (relation "measure (\<lambda>(a, b, n). n)") auto

declare NKeysBetween.simps [simp del]

end
