(* ===== verification/Fracdex_Order.thy ===== *)
theory Fracdex_Order
  imports Fracdex
begin

text \<open>
  Correctness of \<open>fracdex\<close>: digits and their values, the order of integer parts as the
  order of integers, the midpoint of two fractions, and the specification of
  \<open>KeyBetween\<close> and \<open>NKeysBetween\<close>.
\<close>

section \<open>Digits\<close>

definition is_digit :: "char \<Rightarrow> bool" where
  "is_digit c \<longleftrightarrow> c \<in> set base62Digits"

definition digits :: "string \<Rightarrow> bool" where
  "digits s = list_all is_digit s"

definition dval :: "char \<Rightarrow> int" where
  "dval c = strings_Index base62Digits [c]"

lemma digits_simps [simp]:
  "digits []" "digits (c # s) \<longleftrightarrow> is_digit c \<and> digits s"
  "digits (s @ t) \<longleftrightarrow> digits s \<and> digits t" "digits (rev s) \<longleftrightarrow> digits s"
  by (auto simp: digits_def list_all_iff)

lemma digits_take_drop [simp]:
  "digits s \<Longrightarrow> digits (take n s)" "digits s \<Longrightarrow> digits (drop n s)" "digits s \<Longrightarrow> digits (tl s)"
  by (auto simp: digits_def list_all_iff dest: in_set_takeD in_set_dropD list.set_sel(2))
    (metis list.sel(2) list.set_sel(2))

lemma digits_hd [simp]: "digits s \<Longrightarrow> s \<noteq> [] \<Longrightarrow> is_digit (hd s)"
  by (cases s) auto

lemma base62_length [simp]: "length base62Digits = 62"
  by (simp add: base62Digits_def)

lemma base62_sorted: "sorted_wrt (<) base62Digits"
  by (simp add: base62Digits_def)

lemma base62_ascii: "ascii base62Digits"
  by (simp add: base62Digits_def)

lemma base62_index: "list_all (\<lambda>i. dval (base62Digits ! i) = int i) [0..<62]"
  by code_simp

lemma dval_nth [simp]: "i < 62 \<Longrightarrow> dval (base62Digits ! i) = int i"
  using base62_index by (simp add: list_all_iff)

lemma is_digitE:
  assumes "is_digit c"
  obtains i where "i < 62" "c = base62Digits ! i"
  using assms by (auto simp: is_digit_def in_set_conv_nth)

lemma is_digit_nth [simp]: "i < 62 \<Longrightarrow> is_digit (base62Digits ! i)"
  by (simp add: is_digit_def)

lemma dval_bounds: "is_digit c \<Longrightarrow> 0 \<le> dval c \<and> dval c < 62"
  by (auto elim!: is_digitE)

lemma dval_digit: "is_digit c \<Longrightarrow> base62Digits ! nat (dval c) = c"
  by (auto elim!: is_digitE)

lemma base62_nth_less: "i < 62 \<Longrightarrow> j < 62 \<Longrightarrow> base62Digits ! i < base62Digits ! j \<longleftrightarrow> i < j"
proof -
  assume i: "i < 62" and j: "j < 62"
  have "i < j \<Longrightarrow> base62Digits ! i < base62Digits ! j" if "j < 62" for i j
    using that base62_sorted by (simp add: sorted_wrt_nth_less)
  with i j show ?thesis by (metis linorder_less_linear order_less_asym)
qed

lemma dval_less: "is_digit c \<Longrightarrow> is_digit d \<Longrightarrow> c < d \<longleftrightarrow> dval c < dval d"
  by (auto elim!: is_digitE simp: base62_nth_less)

lemma dval_inj: "is_digit c \<Longrightarrow> is_digit d \<Longrightarrow> dval c = dval d \<longleftrightarrow> c = d"
  by (metis dval_digit)

lemma digit_zero [simp]: "is_digit (CHR ''0'')" "dval (CHR ''0'') = 0"
  by (simp_all add: is_digit_def dval_def base62Digits_def)

lemma dval_zero_iff: "is_digit c \<Longrightarrow> dval c = 0 \<longleftrightarrow> c = CHR ''0''"
  using dval_inj [of c "CHR ''0''"] by simp

lemma base62_at_dval [simp]: "is_digit c \<Longrightarrow> base62_at (dval c) = Inr c"
  using dval_bounds [of c] by (simp add: base62_at_def dval_digit)

lemma digits_ascii: "digits s \<Longrightarrow> ascii s"
  using base62_ascii by (auto simp: digits_def list_all_iff is_digit_def ascii_def)

section \<open>The midpoint of two fractions\<close>

lemma common_prefix_len_le: "common_prefix_len a b \<le> length b"
  by (induction a b rule: common_prefix_len.induct) (auto simp: Let_def)

text \<open>What the common-prefix loop finds: \<open>b\<close> starts with \<open>a\<close> padded by zeros.\<close>

lemma common_prefix_short:
  "common_prefix_len a b \<le> length a \<Longrightarrow> take (common_prefix_len a b) b = take (common_prefix_len a b) a"
  by (induction a b rule: common_prefix_len.induct) (auto simp: Let_def split: list.splits)

lemma common_prefix_long:
  "length a < common_prefix_len a b \<Longrightarrow>
   take (common_prefix_len a b) b = a @ replicate (common_prefix_len a b - length a) (CHR ''0'')"
proof (induction a b rule: common_prefix_len.induct)
  case (1 a)
  then show ?case by simp
next
  case (2 a d b)
  show ?case
  proof (cases a)
    case Nil
    with 2 show ?thesis
      by (cases "common_prefix_len [] b") (auto simp: Let_def split: if_splits)
  next
    case (Cons x a')
    with 2 show ?thesis by (auto simp: Let_def split: if_splits)
  qed
qed

lemma common_prefix_proper:
  assumes "a < b" "last b \<noteq> CHR ''0''"
  shows "common_prefix_len a b < length b"
proof (rule ccontr)
  assume "\<not> ?thesis"
  then have len: "common_prefix_len a b = length b"
    using common_prefix_len_le [of a b] by simp
  show False
  proof (cases "length b \<le> length a")
    case True
    then have "b = take (length b) a"
      using common_prefix_short [of a b] len by simp
    then have "b \<le> a"
      by (metis append_Nil2 append_take_drop_id leI order_less_le order_less_trans
          str_prefix_less)
    with assms show False by simp
  next
    case False
    then have "b = a @ replicate (length b - length a) (CHR ''0'')"
      using common_prefix_long [of a b] len by simp
    moreover have "length b - length a \<noteq> 0"
      using False by simp
    ultimately have "last b = CHR ''0''"
      by (metis last_appendR last_replicate replicate_empty)
    with assms show False by simp
  qed
qed

lemma common_prefix_zero:
  "common_prefix_len a b = 0 \<Longrightarrow> b \<noteq> [] \<Longrightarrow>
   (case a of [] \<Rightarrow> CHR ''0'' | x # _ \<Rightarrow> x) \<noteq> hd b"
  by (cases b) (auto simp: Let_def split: if_splits)

definition fraction :: "string \<Rightarrow> bool" where
  "fraction f \<longleftrightarrow> digits f \<and> (f = [] \<or> last f \<noteq> CHR ''0'')"

definition between_fractions :: "string \<Rightarrow> string \<Rightarrow> string \<Rightarrow> bool" where
  "between_fractions a m b \<longleftrightarrow> fraction m \<and> a < m \<and> (b \<noteq> [] \<longrightarrow> m < b)"

lemma between_nonempty: "between_fractions a m b \<Longrightarrow> m \<noteq> []"
  by (auto simp: between_fractions_def)

lemma between_prefixed:
  assumes "between_fractions a m b" "b \<noteq> []" "digits p"
  shows "between_fractions (p @ a) (p @ m) (p @ b)"
  using assms between_nonempty [OF assms(1)] by (auto simp: between_fractions_def fraction_def)

lemma round_half_between:
  "0 \<le> x \<Longrightarrow> y - x > 1 \<Longrightarrow> x < round_half (x + y) \<and> round_half (x + y) < y"
  unfolding round_half_def by presburger

text \<open>The first digits, or lack of a digit, of the two arguments.\<close>

definition first_digit :: "string \<Rightarrow> int" where
  "first_digit a = (if a \<noteq> [] then dval (hd a) else 0)"

definition last_digit :: "string \<Rightarrow> int" where
  "last_digit b = (if b \<noteq> [] then dval (hd b) else 62)"

lemma first_digits_less:
  assumes "digits a" "digits b" "b \<noteq> [] \<longrightarrow> a < b"
    and "b \<noteq> [] \<longrightarrow> common_prefix_len a b = 0"
  shows "0 \<le> first_digit a" "first_digit a < last_digit b" "last_digit b \<le> 62"
proof -
  show "0 \<le> first_digit a" "last_digit b \<le> 62"
    using assms dval_bounds [of "hd a"] dval_bounds [of "hd b"]
    by (auto simp: first_digit_def last_digit_def)
  show "first_digit a < last_digit b"
  proof (cases b)
    case Nil
    then show ?thesis
      using assms(1) dval_bounds [of "hd a"] by (auto simp: first_digit_def last_digit_def)
  next
    case (Cons d b')
    then have d: "is_digit d" "0 \<le> dval d" using assms(2) dval_bounds by auto
    show ?thesis
    proof (cases a)
      case Nil
      with Cons assms(4) have "d \<noteq> CHR ''0''" by (auto simp: Let_def split: if_splits)
      with d have "0 < dval d" using dval_zero_iff [of d] by simp
      with Nil Cons show ?thesis by (simp add: first_digit_def last_digit_def)
    next
      case (Cons c a')
      note a = this
      with \<open>b = d # b'\<close> assms(4) have "c \<noteq> d" by (auto simp: Let_def split: if_splits)
      with a \<open>b = d # b'\<close> assms(3) have "c < d" by auto
      with a \<open>b = d # b'\<close> d assms(1) show ?thesis
        by (simp add: first_digit_def last_digit_def dval_less)
    qed
  qed
qed

lemma midpoint_unfold:
  "midpoint a b =
     (let i = (if b \<noteq> [] then common_prefix_len a b else 0) in
      if i > 0 then res_bind (midpoint (drop i a) (drop i b)) (\<lambda>m. Inr (take i b @ m))
      else if last_digit b - first_digit a > 1
      then res_bind (base62_at (round_half (first_digit a + last_digit b))) (\<lambda>c. Inr [c])
      else if length b > 1 then Inr (take 1 b)
      else res_bind (base62_at (first_digit a)) (\<lambda>c.
             res_bind (midpoint (tl a) []) (\<lambda>m. Inr (c # m))))"
  by (subst midpoint.simps) (simp add: Let_def first_digit_def last_digit_def dval_def)

lemma midpoint_correct:
  assumes "digits a" "digits b" "b \<noteq> [] \<longrightarrow> a < b \<and> last b \<noteq> CHR ''0''"
  shows "\<exists>m. midpoint a b = Inr m \<and> between_fractions a m b"
  using assms
proof (induction "length a + length b" arbitrary: a b rule: less_induct)
  case less
  define i where "i = (if b \<noteq> [] then common_prefix_len a b else 0)"
  show ?case
  proof (cases "i > 0")
    case True
    then have b: "b \<noteq> []" and i: "i = common_prefix_len a b" "i < length b"
      using less.prems common_prefix_proper [of a b] by (auto simp: i_def split: if_splits)
    define p a' b' where "p = take i b" and "a' = drop i a" and "b' = drop i b"
    have bp: "b = p @ b'" and b': "b' \<noteq> []" "last b' = last b"
      using i by (auto simp: p_def b'_def)
    have rel: "a' < b' \<and> (\<forall>m. a' < m \<longrightarrow> a < p @ m)"
    proof (cases "i \<le> length a")
      case True
      then have "a = p @ a'"
        using common_prefix_short [of a b] i by (simp add: p_def a'_def)
      then show ?thesis using less.prems b bp by auto
    next
      case False
      then obtain z where "p = a @ z" "a' = []"
        using common_prefix_long [of a b] i by (auto simp: p_def a'_def)
      moreover have "a < (a @ z) @ m" if "m \<noteq> []" for m
        using str_prefix_less [of "z @ m" a] that by simp
      ultimately show ?thesis using b' by simp
    qed
    have "length a' + length b' < length a + length b"
      using True i by (simp add: a'_def b'_def)
    moreover have "digits a'" "digits b'" "digits p"
      using less.prems by (auto simp: a'_def b'_def p_def)
    ultimately obtain m where m: "midpoint a' b' = Inr m" "between_fractions a' m b'"
      using less.hyps [of a' b'] rel b' less.prems b by auto
    have "between_fractions a (p @ m) b"
      using between_prefixed [OF m(2) b'(1) \<open>digits p\<close>] rel m(2) bp
      by (auto simp: between_fractions_def)
    moreover have "midpoint a b = Inr (p @ m)"
      using True m b i by (subst midpoint_unfold) (simp add: Let_def p_def a'_def b'_def)
    ultimately show ?thesis by blast
  next
    case False
    let ?x = "first_digit a" and ?y = "last_digit b"
    have xy: "0 \<le> ?x" "?x < ?y" "?y \<le> 62"
      using first_digits_less [of a b] less.prems False by (auto simp: i_def split: if_splits)
    have hd_a: "a = [] \<or> (\<exists>c a'. a = c # a' \<and> is_digit c \<and> dval c = ?x)"
      using less.prems by (cases a) (auto simp: first_digit_def)
    have hd_b: "b = [] \<or> (\<exists>d b'. b = d # b' \<and> is_digit d \<and> dval d = ?y)"
      using less.prems by (cases b) (auto simp: last_digit_def)
    have eq: "midpoint a b =
      (if ?y - ?x > 1
       then res_bind (base62_at (round_half (?x + ?y))) (\<lambda>c. Inr [c])
       else if length b > 1 then Inr (take 1 b)
       else res_bind (base62_at ?x) (\<lambda>c. res_bind (midpoint (tl a) []) (\<lambda>m. Inr (c # m))))"
      using False by (subst midpoint_unfold) (auto simp: Let_def i_def split: if_splits)
    have head_rule: "between_fractions a [c] b"
      if "is_digit c" "?x < dval c" "dval c < ?y" for c
      using that hd_a hd_b xy dval_less dval_zero_iff
      by (auto simp: between_fractions_def fraction_def)
    consider (gap) "?y - ?x > 1" | (long) "\<not> ?y - ?x > 1" "length b > 1"
      | (short) "\<not> ?y - ?x > 1" "\<not> length b > 1" by blast
    then show ?thesis
    proof cases
      case gap
      let ?c = "base62Digits ! nat (round_half (?x + ?y))"
      have r: "?x < round_half (?x + ?y)" "round_half (?x + ?y) < ?y"
        using round_half_between [of ?x ?y] xy gap by auto
      then have "is_digit ?c" "dval ?c = round_half (?x + ?y)"
        "base62_at (round_half (?x + ?y)) = Inr ?c"
        using xy by (auto simp: base62_at_def)
      with r gap eq head_rule [of ?c] show ?thesis by auto
    next
      case long
      then obtain d e b' where b: "b = d # e # b'" and d: "is_digit d" "dval d = ?y"
        using hd_b by (cases b; cases "tl b") auto
      have "?y = ?x + 1" using long xy by simp
      then have "between_fractions a [d] b"
        using d b hd_a xy dval_less [of _ d] dval_zero_iff [of d]
        by (auto simp: between_fractions_def fraction_def)
      with long eq b show ?thesis by simp
    next
      case short
      then have y: "?y = ?x + 1" using xy by simp
      have nonempty: "a \<noteq> [] \<or> b \<noteq> []"
        using y by (auto simp: first_digit_def last_digit_def)
      obtain c where c: "is_digit c" "dval c = ?x" "a \<noteq> [] \<longrightarrow> hd a = c"
        using hd_a by (metis digit_zero first_digit_def list.sel(1))
      have "length (tl a) + length ([] :: string) < length a + length b"
        using nonempty by (cases a; cases b) auto
      then obtain m where m: "midpoint (tl a) [] = Inr m" "between_fractions (tl a) m []"
        using less.hyps [of "tl a" "[]"] less.prems by auto
      have "a < c # m"
        using m c by (cases a) (auto simp: between_fractions_def)
      moreover have "b \<noteq> [] \<longrightarrow> c # m < b"
        using hd_b c y dval_less by fastforce
      moreover have "fraction (c # m)"
        using m c between_nonempty [OF m(2)] by (auto simp: between_fractions_def fraction_def)
      moreover have "midpoint a b = Inr (c # m)"
        using eq short m base62_at_dval [OF c(1)] c(2) by simp
      ultimately show ?thesis by (auto simp: between_fractions_def)
    qed
  qed
qed

section \<open>Integer parts\<close>

text \<open>
  The level of a head letter counts \<open>A..Z a..z\<close> from -26 to 25. \<open>level_digits\<close> is
  the number of digits a head announces, \<open>level_base\<close> the number of the first integer
  of that level; \<open>int_number\<close> numbers the integer parts in their order.
\<close>

definition level :: "char \<Rightarrow> int" where
  "level h = (if CHR ''a'' \<le> h then int (of_char h) - 97 else int (of_char h) - 91)"

definition level_digits :: "int \<Rightarrow> nat" where
  "level_digits l = (if 0 \<le> l then nat (l + 1) else nat (- l))"

definition level_sum :: "nat \<Rightarrow> int" where
  "level_sum n = (\<Sum>j = 1..n. 62 ^ j)"

definition level_base :: "int \<Rightarrow> int" where
  "level_base l = (if 0 \<le> l then level_sum (nat l) else - level_sum (nat (- l)))"

fun digits_value :: "string \<Rightarrow> int" where
  "digits_value [] = 0"
| "digits_value (c # s) = dval c * 62 ^ length s + digits_value s"

definition is_head :: "char \<Rightarrow> bool" where
  "is_head h \<longleftrightarrow> (CHR ''a'' \<le> h \<and> h \<le> CHR ''z'') \<or> (CHR ''A'' \<le> h \<and> h \<le> CHR ''Z'')"

definition int_key :: "string \<Rightarrow> bool" where
  "int_key x \<longleftrightarrow> (case x of [] \<Rightarrow> False
     | h # ds \<Rightarrow> is_head h \<and> length ds = level_digits (level h) \<and> digits ds)"

definition int_number :: "string \<Rightarrow> int" where
  "int_number x = (case x of [] \<Rightarrow> 0 | h # ds \<Rightarrow> level_base (level h) + digits_value ds)"

lemma char_le_iff: "(c :: char) \<le> d \<longleftrightarrow> (of_char c :: nat) \<le> of_char d"
  by (simp add: less_eq_char_def)

lemma char_less_iff: "(c :: char) < d \<longleftrightarrow> (of_char c :: nat) < of_char d"
  by (simp add: less_char_def)

lemmas char_order = char_le_iff char_less_iff

lemma getIntLen_head: "is_head h \<Longrightarrow> getIntLen h = Inr (Suc (level_digits (level h)))"
  by (auto simp: is_head_def getIntLen_def level_digits_def level_def char_order)

lemma level_bounds: "is_head h \<Longrightarrow> -26 \<le> level h \<and> level h \<le> 25"
  by (auto simp: is_head_def level_def char_order)

lemma level_less: "is_head h \<Longrightarrow> is_head k \<Longrightarrow> level h < level k \<longleftrightarrow> h < k"
  by (auto simp: is_head_def level_def char_order)

lemma level_inj: "is_head h \<Longrightarrow> is_head k \<Longrightarrow> level h = level k \<longleftrightarrow> h = k"
  by (metis level_less linorder_less_linear order_less_irrefl)

lemma level_digits_pos: "0 < level_digits l"
  by (auto simp: level_digits_def)

lemma level_base_step: "level_base (l + 1) = level_base l + 62 ^ level_digits l"
proof -
  have S: "level_sum (Suc n) = level_sum n + 62 ^ Suc n" for n
    by (simp add: level_sum_def)
  show ?thesis
  proof (cases "0 \<le> l")
    case True
    then show ?thesis
      using S [of "nat l"] by (simp add: level_base_def level_digits_def Suc_nat_eq_nat_zadd1 add.commute)
  next
    case False
    then obtain n where "nat (- l) = Suc n" by (metis nat_int not_gr_zero
        zero_less_nat_eq neg_0_less_iff_less not_le gr0_implies_Suc)
    then have l: "l = - int (Suc n)" by simp
    show ?thesis
      using S [of n] by (cases n) (auto simp: l level_base_def level_digits_def level_sum_def nat_add_distrib)
  qed
qed

lemma level_base_mono: "l < k \<Longrightarrow> level_base l + 62 ^ level_digits l \<le> level_base k"
proof -
  assume "l < k"
  then obtain n where k: "k = l + 1 + int n" using zle_iff_zadd [of "l + 1" k] by auto
  have "level_base (l + 1) \<le> level_base (l + 1 + int n)"
  proof (induction n)
    case 0
    then show ?case by simp
  next
    case (Suc n)
    then show ?case using level_base_step [of "l + 1 + int n"]
      by (simp add: add.assoc) (smt (verit) zero_le_power)
  qed
  then show ?thesis by (simp add: k level_base_step)
qed

lemma digits_value_bounds: "digits s \<Longrightarrow> 0 \<le> digits_value s \<and> digits_value s < 62 ^ length s"
proof (induction s)
  case Nil
  then show ?case by simp
next
  case (Cons c s)
  then have c: "0 \<le> dval c" "dval c \<le> 61" and s: "0 \<le> digits_value s" "digits_value s < 62 ^ length s"
    using dval_bounds [of c] by auto
  have "dval c * 62 ^ length s \<le> 61 * (62 :: int) ^ length s"
    using c by (intro mult_right_mono) auto
  with s have "dval c * 62 ^ length s + digits_value s < 62 * 62 ^ length s" by linarith
  with c s show ?case by simp
qed

lemma digits_value_less:
  "length s = length t \<Longrightarrow> digits s \<Longrightarrow> digits t \<Longrightarrow> digits_value s < digits_value t \<longleftrightarrow> s < t"
proof (induction s t rule: list_induct2)
  case Nil
  then show ?case by simp
next
  case (Cons c s d t)
  have s: "0 \<le> digits_value s" "digits_value s < 62 ^ length t"
    and t: "0 \<le> digits_value t" "digits_value t < 62 ^ length t"
    using Cons digits_value_bounds [of s] digits_value_bounds [of t] by auto
  have step: "x * 62 ^ length t + u < y * 62 ^ length t + v"
    if "x < y" "0 \<le> v" "u < 62 ^ length t" for x y u v :: int
  proof -
    have "(x + 1) * 62 ^ length t \<le> y * (62 :: int) ^ length t"
      using that by (intro mult_right_mono) auto
    with that show ?thesis by (simp add: distrib_right)
  qed
  consider "dval c < dval d" | "dval c = dval d" | "dval d < dval c" by linarith
  then show ?case
  proof cases
    case 1
    then show ?thesis
      using step [OF 1 t(1) s(2)] Cons dval_less [of c d] by simp
  next
    case 2
    then have "c = d" using Cons.prems dval_inj by simp
    then show ?thesis using Cons by simp
  next
    case 3
    then show ?thesis
      using step [OF 3 s(1) t(2)] Cons dval_less [of d c] by auto
  qed
qed

text \<open>The order of integer parts is the order of their numbers.\<close>

lemma int_number_less:
  assumes "int_key x" "int_key y"
  shows "int_number x < int_number y \<longleftrightarrow> x < y"
proof -
  obtain h ds k es where x: "x = h # ds" and y: "y = k # es"
    using assms by (cases x; cases y) (auto simp: int_key_def)
  have hk: "is_head h" "is_head k"
    and ds: "digits ds" "length ds = level_digits (level h)"
    and es: "digits es" "length es = level_digits (level k)"
    using assms x y by (auto simp: int_key_def)
  have v: "0 \<le> digits_value ds" "digits_value ds < 62 ^ level_digits (level h)"
    "0 \<le> digits_value es" "digits_value es < 62 ^ level_digits (level k)"
    using digits_value_bounds [of ds] digits_value_bounds [of es] ds es by auto
  consider "level h < level k" | "level h = level k" | "level k < level h" by linarith
  then show ?thesis
  proof cases
    case 1
    then show ?thesis
      using level_base_mono [OF 1] v hk level_less [of h k] by (simp add: x y int_number_def)
  next
    case 2
    then have "h = k" using hk level_inj by simp
    then show ?thesis
      using digits_value_less [of ds es] ds es by (simp add: x y int_number_def)
  next
    case 3
    then show ?thesis
      using level_base_mono [OF 3] v hk level_less [of k h] by (auto simp: x y int_number_def)
  qed
qed

lemma int_number_inj: "int_key x \<Longrightarrow> int_key y \<Longrightarrow> int_number x = int_number y \<longleftrightarrow> x = y"
  by (metis int_number_less linorder_less_linear order_less_irrefl)

lemma int_key_ascii: "int_key x \<Longrightarrow> ascii x"
  by (cases x) (auto simp: int_key_def digits_ascii is_head_def char_order)

lemma validateInt_int_key: "int_key x \<Longrightarrow> validateInt x = Inr ()"
  by (cases x) (auto simp: int_key_def validateInt_def getIntLen_head)

text \<open>Two different integer parts are never prefixes of one another.\<close>

lemma int_key_prefix: "int_key x \<Longrightarrow> int_key y \<Longrightarrow> prefix x y \<Longrightarrow> x = y"
  by (cases x; cases y) (auto simp: int_key_def prefix_def)

lemma int_key_less_extend: "int_key x \<Longrightarrow> int_key y \<Longrightarrow> x < y \<Longrightarrow> x @ u < y @ v"
  using str_less_extend [of x y u v] int_key_prefix [of x y] by auto

lemma getIntPart_int_key: "int_key x \<Longrightarrow> getIntPart (x @ f) = Inr x"
  by (cases x) (auto simp: int_key_def getIntPart_def getIntLen_head)

subsection \<open>The carry and borrow loops\<close>

fun low_value :: "string \<Rightarrow> int" where
  "low_value [] = 0"
| "low_value (c # s) = dval c + 62 * low_value s"

lemma low_value_append: "low_value (s @ t) = low_value s + 62 ^ length s * low_value t"
  by (induction s) (auto simp: algebra_simps)

lemma low_value_rev: "low_value (rev s) = digits_value s"
  by (induction s) (auto simp: low_value_append algebra_simps)

lemma base62_at_nat: "0 \<le> i \<Longrightarrow> i < 62 \<Longrightarrow> base62_at i = Inr (base62Digits ! nat i)"
  by (simp add: base62_at_def)

lemma last_base62: "last base62Digits = base62Digits ! 61"
  by (simp add: base62Digits_def)

lemma inc_digits_spec:
  assumes "digits cs"
  shows "\<exists>carry cs'. inc_digits (map (\<lambda>c. [c]) cs) = (carry, map (\<lambda>c. [c]) cs') \<and> digits cs' \<and>
    length cs' = length cs \<and> low_value cs' + (if carry then 62 ^ length cs else 0) = low_value cs + 1 \<and>
    (carry \<longrightarrow> cs' = replicate (length cs) (CHR ''0''))"
  using assms
proof (induction cs)
  case Nil
  then show ?case by auto
next
  case (Cons c cs)
  then have c: "0 \<le> dval c" "dval c < 62" using dval_bounds [of c] by auto
  show ?case
  proof (cases "dval c = 61")
    case True
    from Cons obtain k cs' where "inc_digits (map (\<lambda>c. [c]) cs) = (k, map (\<lambda>c. [c]) cs')"
      "digits cs'" "length cs' = length cs"
      "low_value cs' + (if k then 62 ^ length cs else 0) = low_value cs + 1"
      "k \<longrightarrow> cs' = replicate (length cs) (CHR ''0'')" by auto
    with True show ?thesis
      by (intro exI [of _ k] exI [of _ "CHR ''0'' # cs'"])
        (auto simp: Let_def dval_def [symmetric] algebra_simps)
  next
    case False
    with c have "base62Digits ! nat (dval c + 1) = base62Digits ! (nat (dval c) + 1)"
      "nat (dval c) + 1 < 62" by (auto simp: nat_add_distrib)
    with False c Cons.prems show ?thesis
      by (intro exI [of _ False] exI [of _ "base62Digits ! (nat (dval c) + 1) # cs"])
        (auto simp: Let_def dval_def [symmetric])
  qed
qed

lemma dec_digits_spec:
  assumes "digits cs"
  shows "\<exists>borrow cs'. dec_digits (map (\<lambda>c. [c]) cs) = Inr (borrow, map (\<lambda>c. [c]) cs') \<and> digits cs' \<and>
    length cs' = length cs \<and> low_value cs' = low_value cs - 1 + (if borrow then 62 ^ length cs else 0) \<and>
    (borrow \<longrightarrow> cs' = replicate (length cs) (last base62Digits))"
  using assms
proof (induction cs)
  case Nil
  then show ?case by auto
next
  case (Cons c cs)
  then have c: "0 \<le> dval c" "dval c < 62" using dval_bounds [of c] by auto
  show ?case
  proof (cases "dval c = 0")
    case True
    from Cons obtain k cs' where "dec_digits (map (\<lambda>c. [c]) cs) = Inr (k, map (\<lambda>c. [c]) cs')"
      "digits cs'" "length cs' = length cs"
      "low_value cs' = low_value cs - 1 + (if k then 62 ^ length cs else 0)"
      "k \<longrightarrow> cs' = replicate (length cs) (last base62Digits)" by auto
    with True show ?thesis
      by (intro exI [of _ k] exI [of _ "last base62Digits # cs'"])
        (auto simp: Let_def dval_def [symmetric] algebra_simps last_base62)
  next
    case False
    then have "base62_at (dval c - 1) = Inr (base62Digits ! (nat (dval c) - 1))"
      "nat (dval c) - 1 < 62" using c by (auto simp: base62_at_nat nat_diff_distrib)
    with False c Cons.prems show ?thesis
      by (intro exI [of _ False] exI [of _ "base62Digits ! (nat (dval c) - 1) # cs"])
        (auto simp: Let_def dval_def [symmetric])
  qed
qed

subsection \<open>Incrementing and decrementing an integer part\<close>

lemma int_keyE:
  assumes "int_key x"
  obtains h ds where "x = h # ds" "is_head h" "digits ds" "length ds = level_digits (level h)"
  using assms by (cases x) (auto simp: int_key_def)

lemma explode_int_key: "int_key x \<Longrightarrow> strings_explode x = map (\<lambda>c. [c]) x"
  by (simp add: int_key_ascii strings_explode_ascii)

lemma char_add_head:
  assumes "is_head h"
  shows "h \<noteq> CHR ''z'' \<Longrightarrow> h \<noteq> CHR ''Z'' \<Longrightarrow>
      is_head (char_add h 1) \<and> level (char_add h 1) = level h + 1"
    and "h \<noteq> CHR ''a'' \<Longrightarrow> h \<noteq> CHR ''A'' \<Longrightarrow>
      is_head (char_add h (-1)) \<and> level (char_add h (-1)) = level h - 1"
proof -
  have eq: "h = c \<longleftrightarrow> (of_char h :: nat) = of_char c" for c
    by (metis char_of_char)
  obtain n where n: "n < 256" "h = char_of n" "(of_char h :: nat) = n"
    using range_nat_of_char by (metis char_of_char lessThan_iff atLeastLessThan_iff rangeI)
  show "h \<noteq> CHR ''z'' \<Longrightarrow> h \<noteq> CHR ''Z'' \<Longrightarrow>
      is_head (char_add h 1) \<and> level (char_add h 1) = level h + 1"
    using assms eq [of "CHR ''z''"] eq [of "CHR ''Z''"] n
    by (auto simp: is_head_def level_def char_add_def char_order nat_mod_distrib)
  show "h \<noteq> CHR ''a'' \<Longrightarrow> h \<noteq> CHR ''A'' \<Longrightarrow>
      is_head (char_add h (-1)) \<and> level (char_add h (-1)) = level h - 1"
    using assms eq [of "CHR ''a''"] eq [of "CHR ''A''"] n
    by (auto simp: is_head_def level_def char_add_def char_order nat_mod_distrib)
qed

lemma concat_single: "concat (map (\<lambda>c. [c]) s @ [[d]]) = s @ [d]"
  by simp

lemma concat_replicate_single [simp]: "concat (replicate n [c]) = replicate n c"
  by (induction n) auto

lemma digits_replicate: "is_digit c \<Longrightarrow> digits (replicate n c)"
  by (induction n) auto

lemma digits_value_zeros: "digits_value (replicate n (CHR ''0'')) = 0"
  by (induction n) auto

lemma digits_value_nines: "digits_value (replicate n (last base62Digits)) = 62 ^ n - 1"
  by (induction n) (auto simp: last_base62)

lemma is_digit_last [simp]: "is_digit (last base62Digits)"
  by (simp add: last_base62)

lemma head_Z: "is_head h \<Longrightarrow> h = CHR ''Z'' \<longleftrightarrow> level h = -1"
  using level_inj [of h "CHR ''Z''"] by (simp add: is_head_def level_def char_order)

lemma head_z: "is_head h \<Longrightarrow> h = CHR ''z'' \<longleftrightarrow> level h = 25"
  using level_inj [of h "CHR ''z''"] by (simp add: is_head_def level_def char_order)

lemma head_a: "is_head h \<Longrightarrow> h = CHR ''a'' \<longleftrightarrow> level h = 0"
  using level_inj [of h "CHR ''a''"] by (simp add: is_head_def level_def char_order)

lemma head_A: "is_head h \<Longrightarrow> h = CHR ''A'' \<longleftrightarrow> level h = -26"
  using level_inj [of h "CHR ''A''"] by (simp add: is_head_def level_def char_order)

lemmas head_levels = head_Z head_z head_a head_A

lemma head_greater_a: "is_head h \<Longrightarrow> [h] > ''a'' \<longleftrightarrow> level h > 0"
  using level_less [of "CHR ''a''" h] by (simp add: is_head_def level_def char_order)

lemma head_less_Z: "is_head h \<Longrightarrow> h < CHR ''Z'' \<longleftrightarrow> level h < -1"
  using level_less [of h "CHR ''Z''"] by (simp add: is_head_def level_def char_order)

definition first_of_level :: "char \<Rightarrow> string" where
  "first_of_level h = h # replicate (level_digits (level h)) (CHR ''0'')"

definition last_of_level :: "char \<Rightarrow> string" where
  "last_of_level h = h # replicate (level_digits (level h)) (last base62Digits)"

lemma first_of_level:
  "is_head h \<Longrightarrow> int_key (first_of_level h) \<and> int_number (first_of_level h) = level_base (level h)"
  by (simp add: first_of_level_def int_key_def int_number_def digits_replicate digits_value_zeros)

lemma last_of_level:
  "is_head h \<Longrightarrow> int_key (last_of_level h) \<and>
     int_number (last_of_level h) = level_base (level h + 1) - 1"
  by (simp add: last_of_level_def int_key_def int_number_def digits_replicate digits_value_nines
      level_base_step)

text \<open>
  \<open>incrementInt\<close> refines the successor: it returns the integer part numbered one higher,
  or the empty string when the argument is the largest one.
\<close>

lemma incrementInt_number:
  assumes "int_key x"
  shows "(\<exists>y. incrementInt x = Inr y \<and> int_key y \<and> int_number y = int_number x + 1) \<or>
         (incrementInt x = Inr [] \<and> int_number x = level_base 26 - 1)"
proof -
  obtain h ds where x: "x = h # ds" and h: "is_head h" and ds: "digits ds"
    and len: "length ds = level_digits (level h)" using assms by (rule int_keyE)
  obtain carry cs' where c: "inc_digits (map (\<lambda>c. [c]) (rev ds)) = (carry, map (\<lambda>c. [c]) cs')"
    "digits cs'" "length cs' = length (rev ds)"
    "low_value cs' + (if carry then 62 ^ length (rev ds) else 0) = low_value (rev ds) + 1"
    "carry \<longrightarrow> cs' = replicate (length (rev ds)) (CHR ''0'')"
    using inc_digits_spec [of "rev ds"] ds digits_simps(4) by blast
  note c = c [unfolded low_value_rev length_rev]
  have explode: "strings_explode x = [h] # map (\<lambda>c. [c]) ds"
    using explode_int_key [OF assms] x by simp
  note unfold = incrementInt_def validateInt_int_key [OF assms] explode Let_def c(1)
    rev_map
  show ?thesis
  proof (cases carry)
    case False
    have "incrementInt x = Inr (h # rev cs')"
      using False by (simp add: unfold)
    moreover have "int_key (h # rev cs')" "int_number (h # rev cs') = int_number x + 1"
      using c False h len x low_value_rev [of "rev cs'"]
      by (auto simp: int_key_def int_number_def)
    ultimately show ?thesis by blast
  next
    case True
    then have top: "digits_value ds = 62 ^ level_digits (level h) - 1"
      using c len digits_value_zeros low_value_rev [of cs']
      by (simp add: low_value_rev [symmetric, of "replicate _ _"])
    then have number: "int_number x + 1 = level_base (level h + 1)"
      by (simp add: x int_number_def level_base_step)
    show ?thesis
    proof (cases "h = CHR ''z''")
      case z: True
      then show ?thesis
        using True number head_z [OF h] by (simp add: unfold)
    next
      case not_z: False
      show ?thesis
      proof (cases "h = CHR ''Z''")
        case Z: True
        have "incrementInt x = Inr ''a0''"
          using True Z by (simp add: unfold)
        moreover have "int_key ''a0''" "int_number ''a0'' = level_base 0"
          using first_of_level [of "CHR ''a''"]
          by (simp_all add: first_of_level_def is_head_def level_def level_digits_def char_order)
        ultimately show ?thesis using number head_Z [OF h] Z by auto
      next
        case not_Z: False
        define k where "k = char_add h 1"
        have k: "is_head k" "level k = level h + 1"
          using char_add_head [OF h] not_z not_Z by (auto simp: k_def)
        have zeros: "cs' = replicate (level_digits (level h)) (CHR ''0'')"
          using True c len by simp
        have "incrementInt x = Inr (first_of_level k)"
        proof (cases "level k > 0")
          case pos: True
          then have "level_digits (level k) = Suc (level_digits (level h))"
            using k by (simp add: level_digits_def nat_add_distrib)
          then show ?thesis
            using True not_z not_Z pos head_greater_a [OF k(1)]
            by (simp add: unfold zeros first_of_level_def k_def [symmetric] replicate_append_same)
        next
          case neg: False
          then have "level_digits (level h) = Suc (level_digits (level k))"
            using k head_Z [OF h] not_Z by (simp add: level_digits_def nat_add_distrib Suc_nat_eq_nat_zadd1)
          then show ?thesis
            using True not_z not_Z neg head_greater_a [OF k(1)]
            by (simp add: unfold zeros first_of_level_def k_def [symmetric] replicate_append_same)
        qed
        with first_of_level [OF k(1)] number k show ?thesis by auto
      qed
    qed
  qed
qed

lemma decrementInt_number:
  assumes "int_key x"
  shows "(\<exists>y. decrementInt x = Inr y \<and> int_key y \<and> int_number y = int_number x - 1) \<or>
         (decrementInt x = Inr [] \<and> int_number x = level_base (-26))"
proof -
  obtain h ds where x: "x = h # ds" and h: "is_head h" and ds: "digits ds"
    and len: "length ds = level_digits (level h)" using assms by (rule int_keyE)
  obtain borrow cs' where c: "dec_digits (map (\<lambda>c. [c]) (rev ds)) = Inr (borrow, map (\<lambda>c. [c]) cs')"
    "digits cs'" "length cs' = length (rev ds)"
    "low_value cs' = low_value (rev ds) - 1 + (if borrow then 62 ^ length (rev ds) else 0)"
    "borrow \<longrightarrow> cs' = replicate (length (rev ds)) (last base62Digits)"
    using dec_digits_spec [of "rev ds"] ds digits_simps(4) by blast
  note c = c [unfolded low_value_rev length_rev]
  have explode: "strings_explode x = [h] # map (\<lambda>c. [c]) ds"
    using explode_int_key [OF assms] x by simp
  note unfold = decrementInt_def validateInt_int_key [OF assms] explode Let_def c(1)
    rev_map
  show ?thesis
  proof (cases borrow)
    case False
    have "decrementInt x = Inr (h # rev cs')"
      using False by (simp add: unfold)
    moreover have "int_key (h # rev cs')" "int_number (h # rev cs') = int_number x - 1"
      using c False h len x low_value_rev [of "rev cs'"]
      by (auto simp: int_key_def int_number_def)
    ultimately show ?thesis by blast
  next
    case True
    then have "digits_value ds = 0"
      using c len digits_value_nines low_value_rev [of cs']
      by (simp add: low_value_rev [symmetric, of "replicate _ _"])
    then have number: "int_number x = level_base (level h)"
      by (simp add: x int_number_def)
    show ?thesis
    proof (cases "h = CHR ''A''")
      case A: True
      then show ?thesis
        using True number head_A [OF h] by (simp add: unfold)
    next
      case not_A: False
      show ?thesis
      proof (cases "h = CHR ''a''")
        case a: True
        have "decrementInt x = Inr (''Z'' @ [last base62Digits])"
          using True a by (simp add: unfold)
        moreover have "last_of_level (CHR ''Z'') = ''Z'' @ [last base62Digits]"
          by (simp add: last_of_level_def level_def level_digits_def char_order)
        ultimately show ?thesis
          using number head_a [OF h] a last_of_level [of "CHR ''Z''"]
          by (auto simp: is_head_def level_def char_order)
      next
        case not_a: False
        define k where "k = char_add h (-1)"
        have k: "is_head k" "level k = level h - 1"
          using char_add_head [OF h] not_a not_A by (auto simp: k_def)
        have nines: "cs' = replicate (level_digits (level h)) (last base62Digits)"
          using True c len by simp
        have "decrementInt x = Inr (last_of_level k)"
        proof (cases "level k < -1")
          case neg: True
          then have "level_digits (level k) = Suc (level_digits (level h))"
            using k by (simp add: level_digits_def nat_diff_distrib Suc_nat_eq_nat_zadd1)
          then show ?thesis
            using True not_a not_A neg head_less_Z [OF k(1)]
            by (simp add: unfold nines last_of_level_def k_def [symmetric] replicate_append_same)
        next
          case pos: False
          then have "level_digits (level h) = Suc (level_digits (level k))"
            using k head_a [OF h] not_a by (simp add: level_digits_def Suc_nat_eq_nat_zadd1)
          then show ?thesis
            using True not_a not_A pos head_less_Z [OF k(1)]
            by (simp add: unfold nines last_of_level_def k_def [symmetric] replicate_append_same)
        qed
        with last_of_level [OF k(1)] number k show ?thesis by auto
      qed
    qed
  qed
qed

section \<open>Order keys\<close>

text \<open>
  A well-formed order key: an integer part of base-62 digits followed by a fraction that
  does not end in \<open>0\<close>, and not the reserved smallest integer.
\<close>

definition order_key :: "string \<Rightarrow> bool" where
  "order_key k = (case getIntPart k of Inl _ \<Rightarrow> False
     | Inr x \<Rightarrow> k \<noteq> smallestInt \<and> digits (tl x) \<and> fraction (drop (length x) k))"

lemma getIntLen_InrD: "getIntLen h = Inr n \<Longrightarrow> is_head h \<and> n = Suc (level_digits (level h))"
  using getIntLen_head [of h] by (auto simp: getIntLen_def is_head_def split: if_splits)

lemma order_keyI: "int_key x \<Longrightarrow> fraction f \<Longrightarrow> x @ f \<noteq> smallestInt \<Longrightarrow> order_key (x @ f)"
  by (auto simp: order_key_def getIntPart_int_key elim!: int_keyE)

lemma order_keyE:
  assumes "order_key k"
  obtains x f where "k = x @ f" "int_key x" "fraction f" "k \<noteq> smallestInt"
proof -
  from assms obtain x where x: "getIntPart k = Inr x" and k: "k \<noteq> smallestInt"
    and d: "digits (tl x)" "fraction (drop (length x) k)"
    by (auto simp: order_key_def split: sum.splits)
  from x obtain h ds where hd: "k = h # ds" by (cases k) (auto simp: getIntPart_def)
  with x have h: "is_head h" and len: "Suc (level_digits (level h)) \<le> length k"
    and tk: "x = take (Suc (level_digits (level h))) k"
    by (auto simp: getIntPart_def res_bind_Inr_iff dest!: getIntLen_InrD split: if_splits)
  have "int_key x"
    using h len tk d hd by (auto simp: int_key_def)
  moreover have "k = x @ drop (length x) k"
    using tk len by simp
  ultimately show ?thesis using that k d by blast
qed

lemma validateOrderKey_order_key: "order_key k \<Longrightarrow> validateOrderKey k = Inr ()"
  by (elim order_keyE)
    (auto simp: validateOrderKey_def getIntPart_int_key Let_def strings_HasSuffix_def fraction_def
      suffix_def)

lemma smallestInt_first: "smallestInt = first_of_level (CHR ''A'')"
  by (simp add: smallestInt_def first_of_level_def level_def level_digits_def char_order
      numeral_eq_Suc)

lemma head_A_is_head: "is_head (CHR ''A'')" "level (CHR ''A'') = -26"
  by (simp_all add: is_head_def level_def char_order)

lemma smallestInt_int_key: "int_key smallestInt" "int_number smallestInt = level_base (-26)"
  using first_of_level [of "CHR ''A''"] head_A_is_head by (simp_all add: smallestInt_first)

lemma int_number_bounds:
  assumes "int_key x"
  shows "level_base (-26) \<le> int_number x" "int_number x < level_base 26"
proof -
  obtain h ds where x: "x = h # ds" "is_head h" "digits ds" "length ds = level_digits (level h)"
    using assms by (rule int_keyE)
  have v: "0 \<le> digits_value ds" "digits_value ds < 62 ^ level_digits (level h)"
    using digits_value_bounds [of ds] x by auto
  have "-26 \<le> level h" "level h < 26" using level_bounds [OF x(2)] by auto
  moreover have "level_base (-26) \<le> level_base (level h)" if "-26 < level h"
    using level_base_mono [OF that] by (smt (verit) zero_le_power)
  ultimately show "level_base (-26) \<le> int_number x"
    using v by (cases "level h = -26") (auto simp: x int_number_def)
  show "int_number x < level_base 26"
    using level_base_mono [OF \<open>level h < 26\<close>] v by (simp add: x int_number_def)
qed

definition secondInt :: string where
  "secondInt = ''A00000000000000000000000001''"

lemma secondInt_int_key: "int_key secondInt" "int_number secondInt = int_number smallestInt + 1"
proof -
  have s: "secondInt = CHR ''A'' # replicate 25 (CHR ''0'') @ ''1''"
    by (simp add: secondInt_def numeral_eq_Suc)
  have one: "is_digit (CHR ''1'')" "dval (CHR ''1'') = 1"
    by (simp_all add: is_digit_def dval_def base62Digits_def)
  have v: "digits_value (replicate n (CHR ''0'') @ ''1'') = 1" for n
    using one by (induction n) auto
  show "int_key secondInt"
    using one by (simp add: s int_key_def head_A_is_head digits_replicate level_digits_def)
  show "int_number secondInt = int_number smallestInt + 1"
    by (simp add: s int_number_def v head_A_is_head smallestInt_int_key(2) [unfolded int_number_def]
        smallestInt_int_key)
qed

lemma int_key_nonempty: "int_key x \<Longrightarrow> x \<noteq> []"
  by (auto simp: int_key_def)

lemma fraction_nil [simp]: "fraction []"
  by (simp add: fraction_def)

lemma midpoint_fraction:
  assumes "fraction f" "fraction g" "g \<noteq> [] \<longrightarrow> f < g"
  obtains m where "midpoint f g = Inr m" "between_fractions f m g"
  using midpoint_correct [of f g] assms by (auto simp: fraction_def)

lemma order_key_midpoint:
  assumes "int_key x" "between_fractions f m g"
  shows "order_key (x @ m)"
proof (rule order_keyI [OF assms(1)])
  show "fraction m" using assms(2) by (simp add: between_fractions_def)
  show "x @ m \<noteq> smallestInt"
  proof
    assume eq: "x @ m = smallestInt"
    then have "x = smallestInt"
      using int_key_prefix [OF assms(1) smallestInt_int_key(1)] by (metis prefixI)
    with eq between_nonempty [OF assms(2)] show False by simp
  qed
qed

lemma order_key_int: "int_key x \<Longrightarrow> x \<noteq> smallestInt \<Longrightarrow> order_key x"
  using order_keyI [of x "[]"] by simp

lemma order_key_parts:
  assumes "order_key k"
  obtains x f where "k = x @ f" "int_key x" "fraction f" "k \<noteq> smallestInt"
    "getIntPart k = Inr x" "drop (length x) k = f" "k \<noteq> []" "validateOrderKey k = Inr ()"
proof -
  obtain x f where k: "k = x @ f" "int_key x" "fraction f" "k \<noteq> smallestInt"
    using assms by (rule order_keyE)
  have "getIntPart k = Inr x" "drop (length x) k = f" "k \<noteq> []"
    using k getIntPart_int_key int_key_nonempty by auto
  with that k validateOrderKey_order_key [OF assms] show ?thesis by blast
qed

text \<open>Stepping up from an order key, and down from one.\<close>

lemma incrementInt_above:
  assumes "int_key x" "incrementInt x = Inr y" "y \<noteq> []"
  shows "order_key y" "x @ f < y"
proof -
  have y: "int_key y" "int_number y = int_number x + 1"
    using incrementInt_number [OF assms(1)] assms by auto
  then have "x < y" using int_number_less [OF assms(1) y(1)] by simp
  then show "x @ f < y" using int_key_less_extend [of x y f "[]"] assms y by simp
  have "int_number y > level_base (-26)" using y int_number_bounds [OF assms(1)] by simp
  then have "y \<noteq> smallestInt" using smallestInt_int_key by auto
  then show "order_key y" using y order_key_int by simp
qed

lemma KeyBetween_up:
  assumes "order_key a"
  shows "\<exists>k. KeyBetween a [] = Inr k \<and> order_key k \<and> a < k"
proof -
  obtain x f where a: "a = x @ f" "int_key x" "fraction f"
    and parts: "getIntPart a = Inr x" "drop (length x) a = f" "a \<noteq> []" "validateOrderKey a = Inr ()"
    using assms by (rule order_key_parts)
  have eq: "KeyBetween a [] = res_bind (incrementInt x)
      (\<lambda>i. if i = [] then res_bind (midpoint (drop (length x) a) []) (\<lambda>m. Inr (x @ m)) else Inr i)"
    using parts by (simp add: KeyBetween_def Let_def)
  note eq = eq [unfolded parts(2)]
  obtain m where m: "midpoint f [] = Inr m" "between_fractions f m []"
    using midpoint_fraction [of f "[]"] a by auto
  from incrementInt_number [OF a(2)] obtain i where i: "incrementInt x = Inr i" by blast
  show ?thesis
  proof (cases "i = []")
    case True
    then show ?thesis
      using eq i m a order_key_midpoint [OF a(2) m(2)] by (auto simp: between_fractions_def)
  next
    case False
    then show ?thesis
      using eq i a incrementInt_above(1) [OF a(2) i] incrementInt_above(2) [OF a(2) i, of f]
      by simp
  qed
qed

lemma KeyBetween_down:
  assumes "order_key b"
  shows "\<exists>k. KeyBetween [] b = Inr k \<and> k < b \<and>
     (if b = secondInt then k = smallestInt else order_key k)"
proof -
  obtain x f where b: "b = x @ f" "int_key x" "fraction f" "b \<noteq> smallestInt"
    and parts: "getIntPart b = Inr x" "drop (length x) b = f" "b \<noteq> []" "validateOrderKey b = Inr ()"
    using assms by (rule order_key_parts)
  have eq: "KeyBetween [] b =
      (if x = smallestInt then res_bind (midpoint [] (drop (length x) b)) (\<lambda>m. Inr (x @ m))
       else if x < b then Inr x
       else res_bind (decrementInt x)
         (\<lambda>r. if r = [] then Inl (Err ''range underflow'') else Inr r))"
    using parts by (simp add: KeyBetween_def Let_def)
  note eq = eq [unfolded parts(2)]
  have second: "b = secondInt \<Longrightarrow> f = [] \<and> x = secondInt"
    using int_key_prefix [OF b(2) secondInt_int_key(1)] b(1) by (metis append_self_conv prefixI)
  consider (small) "x = smallestInt" | (frac) "x \<noteq> smallestInt" "f \<noteq> []"
    | (int) "x \<noteq> smallestInt" "f = []" by blast
  then show ?thesis
  proof cases
    case small
    then have "f \<noteq> []" using b by auto
    then obtain m where m: "midpoint [] f = Inr m" "between_fractions [] m f"
      using midpoint_fraction [of "[]" f] b by auto
    have "KeyBetween [] b = Inr (x @ m)" using eq small m by simp
    moreover have "x @ m < b" using m \<open>f \<noteq> []\<close> b(1) by (simp add: between_fractions_def)
    moreover have "b \<noteq> secondInt" using second \<open>f \<noteq> []\<close> by blast
    ultimately show ?thesis using order_key_midpoint [OF b(2) m(2)] by simp
  next
    case frac
    have less: "x < b" using str_prefix_less [OF frac(2), of x] b(1) by simp
    have "KeyBetween [] b = Inr x" by (simp only: eq frac(1) less if_False if_True)
    moreover have "b \<noteq> secondInt" using second frac by blast
    ultimately show ?thesis using less order_key_int [OF b(2) frac(1)] by simp
  next
    case int
    then have "int_number x \<noteq> level_base (-26)"
      using int_number_inj [OF b(2) smallestInt_int_key(1)] smallestInt_int_key(2) by simp
    then obtain y where y: "decrementInt x = Inr y" "int_key y" "int_number y = int_number x - 1"
      using decrementInt_number [OF b(2)] by auto
    have "y < x" using int_number_less [OF y(2) b(2)] y by simp
    moreover have "y = smallestInt \<longleftrightarrow> x = secondInt"
      using int_number_inj [OF y(2) smallestInt_int_key(1)] y
        int_number_inj [OF b(2) secondInt_int_key(1)] secondInt_int_key by auto
    moreover have "KeyBetween [] b = Inr y"
      using eq int b y int_key_nonempty [OF y(2)] by simp
    ultimately show ?thesis using int b order_key_int [OF y(2)] by auto
  qed
qed

lemma KeyBetween_inside:
  assumes "order_key a" "order_key b" "a < b"
  shows "\<exists>k. KeyBetween a b = Inr k \<and> order_key k \<and> a < k \<and> k < b"
proof -
  obtain x f where a: "a = x @ f" "int_key x" "fraction f"
    and pa: "getIntPart a = Inr x" "drop (length x) a = f" "a \<noteq> []" "validateOrderKey a = Inr ()"
    using assms(1) by (rule order_key_parts)
  obtain y g where b: "b = y @ g" "int_key y" "fraction g"
    and pb: "getIntPart b = Inr y" "drop (length y) b = g" "b \<noteq> []" "validateOrderKey b = Inr ()"
    using assms(2) by (rule order_key_parts)
  have eq: "KeyBetween a b =
      (if x = y then res_bind (midpoint (drop (length x) a) (drop (length y) b)) (\<lambda>m. Inr (x @ m))
       else res_bind (incrementInt x) (\<lambda>i.
         if i = [] then Inl (Err ''range overflow'')
         else if i < b then Inr i
         else res_bind (midpoint (drop (length x) a) []) (\<lambda>m. Inr (x @ m))))"
    using assms(3) [unfolded linorder_not_le [symmetric]] pa pb
    by (simp add: KeyBetween_def Let_def)
  note eq = eq [unfolded pa(2) pb(2)]
  show ?thesis
  proof (cases "x = y")
    case True
    then have "f < g" using assms a b by simp
    then obtain m where m: "midpoint f g = Inr m" "between_fractions f m g"
      using midpoint_fraction [of f g] a b by auto
    with \<open>f < g\<close> have "f < m" "m < g" by (auto simp: between_fractions_def)
    then show ?thesis
      using eq True m a b order_key_midpoint [OF a(2) m(2)] by auto
  next
    case False
    then have "x < y"
      using int_key_less_extend [OF b(2) a(2), of g f] assms a b
      by (metis linorder_less_linear order_less_asym)
    then have below: "x @ m < b" for m using int_key_less_extend [OF a(2) b(2)] b by simp
    have "int_number x < int_number y" using \<open>x < y\<close> int_number_less a b by simp
    then have "int_number x \<noteq> level_base 26 - 1" using int_number_bounds [OF b(2)] by simp
    then obtain i where i: "incrementInt x = Inr i" "int_key i"
      using incrementInt_number [OF a(2)] by auto
    obtain m where m: "midpoint f [] = Inr m" "between_fractions f m []"
      using midpoint_fraction [of f "[]"] a by auto
    show ?thesis
    proof (cases "i < b")
      case True
      then show ?thesis
        using eq False i a incrementInt_above(1) [OF a(2) i(1)]
          incrementInt_above(2) [OF a(2) i(1), of f] int_key_nonempty [OF i(2)] by simp
    next
      case not_less: False
      then show ?thesis
        using eq False i a m below order_key_midpoint [OF a(2) m(2)] int_key_nonempty [OF i(2)]
        by (auto simp: between_fractions_def)
    qed
  qed
qed

section \<open>Keys in sequence\<close>

text \<open>
  The interface the two loops of \<open>NKeysBetween\<close> use: a step from one key to the next
  that moves every good key strictly in one direction.
\<close>

locale key_walk =
  fixes step :: "string \<Rightarrow> string res" and good :: "string \<Rightarrow> bool"
    and before :: "string \<Rightarrow> string \<Rightarrow> bool"
  assumes step_moves: "good c \<Longrightarrow> step c = Inr c' \<Longrightarrow> good c' \<and> before c c'"
    and before_trans: "before x y \<Longrightarrow> before y z \<Longrightarrow> before x z"
begin

lemma chain:
  assumes "good c" "key_chain step c n = Inr ks"
  shows "length ks = Suc n \<and> sorted_wrt before ks \<and> list_all good ks \<and>
    (\<exists>r. ks = c # r \<and> list_all (before c) r)"
  using assms
proof (induction n arbitrary: c ks)
  case 0
  then show ?case by auto
next
  case (Suc n)
  from Suc.prems(2) obtain c' ks' where c': "step c = Inr c'"
    and k: "key_chain step c' n = Inr ks'" "ks = c # ks'"
    by (auto simp: res_bind_Inr_iff)
  have "good c'" "before c c'" using step_moves [OF Suc.prems(1) c'] by auto
  with Suc.IH [OF _ k(1)] Suc.prems(1) k(2) before_trans show ?case
    by (auto simp: list_all_iff)
qed

end

locale total_key_walk = key_walk +
  assumes step_total: "good c \<Longrightarrow> \<exists>c'. step c = Inr c'"
begin

lemma chain_total: "good c \<Longrightarrow> \<exists>ks. key_chain step c n = Inr ks"
proof (induction n arbitrary: c)
  case 0
  then show ?case by simp
next
  case (Suc n)
  then obtain c' where "step c = Inr c'" using step_total by blast
  with Suc.IH [of c'] step_moves [OF Suc.prems] show ?case by auto
qed

end

definition small_key :: "string \<Rightarrow> bool" where
  "small_key k \<longleftrightarrow> order_key k \<or> k = smallestInt"

lemma KeyBetween_smallest: "KeyBetween [] smallestInt = Inl (Err (''invalid order key: '' @ smallestInt))"
proof -
  have "smallestInt \<noteq> []" by (simp add: smallestInt_def)
  then show ?thesis by (simp add: KeyBetween_def validateOrderKey_def)
qed

interpretation up: total_key_walk "\<lambda>c. KeyBetween c []" order_key "(<)"
proof
  fix c c' assume "order_key c" "KeyBetween c [] = Inr c'"
  then show "order_key c' \<and> c < c'" using KeyBetween_up [of c] by auto
next
  fix c assume "order_key c"
  then show "\<exists>c'. KeyBetween c [] = Inr c'" using KeyBetween_up [of c] by auto
qed auto

interpretation down: key_walk "\<lambda>c. KeyBetween [] c" small_key "(>)"
proof
  fix c c' assume "small_key c" "KeyBetween [] c = Inr c'"
  then show "small_key c' \<and> c > c'"
    using KeyBetween_down [of c] by (auto simp: small_key_def KeyBetween_smallest split: if_splits)
qed auto

definition key_sequence :: "string \<Rightarrow> string \<Rightarrow> string list \<Rightarrow> bool" where
  "key_sequence a b ks \<longleftrightarrow>
     sorted_wrt (<) ks \<and> list_all small_key ks \<and> list_all (\<lambda>k. a = [] \<or> a < k) ks \<and>
     list_all (\<lambda>k. b = [] \<or> k < b) ks"

lemma key_sequence_append:
  assumes "key_sequence a c l" "key_sequence c b r" "small_key c" "c \<noteq> []" "a = [] \<or> a < c" "b = [] \<or> c < b"
  shows "key_sequence a b (l @ [c] @ r)"
  using assms by (fastforce simp: key_sequence_def list_all_iff sorted_wrt_append)

lemma order_key_nonempty: "order_key k \<Longrightarrow> k \<noteq> []"
  by (auto simp: order_key_def getIntPart_def)

definition key_bound :: "string \<Rightarrow> bool" where
  "key_bound a \<longleftrightarrow> a = [] \<or> order_key a"

definition key_gap :: "string \<Rightarrow> string \<Rightarrow> bool" where
  "key_gap a b \<longleftrightarrow> key_bound a \<and> key_bound b \<and> (a \<noteq> [] \<and> b \<noteq> [] \<longrightarrow> a < b)"

lemma KeyBetween_zero: "KeyBetween [] [] = Inr ''a0'' \<and> order_key ''a0''"
  using first_of_level [of "CHR ''a''"] order_key_int [of "''a0''"]
  by (simp add: KeyBetween_def zero_key_def first_of_level_def is_head_def level_def
      level_digits_def char_order smallestInt_def)

lemma KeyBetween_gap:
  assumes "key_gap a b" "KeyBetween a b = Inr k"
  shows "small_key k \<and> (a = [] \<or> a < k) \<and> (b = [] \<or> k < b)"
    and "a \<noteq> [] \<or> b = [] \<Longrightarrow> order_key k"
  using assms KeyBetween_up [of a] KeyBetween_down [of b] KeyBetween_inside [of a b] KeyBetween_zero
  by (auto simp: key_gap_def key_bound_def small_key_def split: if_splits)

lemma KeyBetween_total:
  "key_gap a b \<Longrightarrow> \<exists>k. KeyBetween a b = Inr k"
  using KeyBetween_up [of a] KeyBetween_down [of b] KeyBetween_inside [of a b] KeyBetween_zero
  by (auto simp: key_gap_def key_bound_def)

lemma NKeysBetween_sequence:
  "key_gap a b \<Longrightarrow> NKeysBetween a b n = Inr ks \<Longrightarrow> length ks = n \<and> key_sequence a b ks"
proof (induction a b n arbitrary: ks rule: NKeysBetween.induct)
  case (1 a b n)
  note gap = KeyBetween_gap [OF "1.prems"(1)]
  consider "n = 0" | "n = 1" | (up) "n > 1" "b = []" | (down) "n > 1" "b \<noteq> []" "a = []"
    | (inside) "n > 1" "b \<noteq> []" "a \<noteq> []" by linarith
  then show ?case
  proof cases
    case 1
    then show ?thesis using "1.prems" by (simp add: NKeysBetween.simps key_sequence_def)
  next
    case 2
    then show ?thesis
      using "1.prems"(2) gap by (auto simp: NKeysBetween.simps key_sequence_def res_bind_Inr_iff)
  next
    case up
    then obtain c where c: "KeyBetween a [] = Inr c" "key_chain (\<lambda>c. KeyBetween c []) c (n - 1) = Inr ks"
      using "1.prems"(2) by (subst (asm) NKeysBetween.simps) (auto simp: res_bind_Inr_iff)
    then have "order_key c" "a = [] \<or> a < c" using gap up by auto
    then obtain r where l: "length ks = n" "sorted_wrt (<) ks" "list_all order_key ks"
      "ks = c # r" "list_all ((<) c) r"
      using up.chain [OF _ c(2)] up(1) by auto
    have "\<forall>k \<in> set ks. a = [] \<or> a < k"
      using l(4,5) \<open>a = [] \<or> a < c\<close> by (auto simp: list_all_iff intro: order_less_trans)
    with l(1-3) up show ?thesis
      by (simp add: key_sequence_def list_all_iff small_key_def)
  next
    case down
    then obtain c l where c: "KeyBetween [] b = Inr c"
      "key_chain (\<lambda>c. KeyBetween [] c) c (n - 1) = Inr l" "ks = rev l"
      using "1.prems"(2) by (subst (asm) NKeysBetween.simps) (auto simp: res_bind_Inr_iff)
    then have "small_key c" "c < b" using gap down by auto
    then obtain r where l: "length l = n" "sorted_wrt (\<lambda>x y. y < x) l" "list_all small_key l"
      "l = c # r" "list_all (\<lambda>k. k < c) r"
      using down.chain [OF _ c(2)] down(1) by auto
    have "\<forall>k \<in> set l. k < b"
      using l(4,5) \<open>c < b\<close> by (auto simp: list_all_iff intro: order_less_trans)
    with l(1-3) down c(3) show ?thesis
      by (simp add: key_sequence_def list_all_iff sorted_wrt_rev)
  next
    case inside
    then obtain c l r where c: "KeyBetween a b = Inr c" "NKeysBetween a c (n div 2) = Inr l"
      "NKeysBetween c b (n - n div 2 - 1) = Inr r" "ks = l @ [c] @ r"
      using "1.prems"(2) by (subst (asm) NKeysBetween.simps) (auto simp: Let_def res_bind_Inr_iff)
    then have k: "order_key c" "a < c" "c < b" using gap inside by auto
    then have gaps: "key_gap a c" "key_gap c b"
      using "1.prems"(1) by (auto simp: key_gap_def key_bound_def)
    have l: "length l = n div 2 \<and> key_sequence a c l" and r: "length r = n - n div 2 - 1 \<and> key_sequence c b r"
      using "1.IH"(1) [OF _ _ _ _ refl c(1) gaps(1) c(2)]
        "1.IH"(2) [OF _ _ _ _ refl c(1,2) gaps(2) c(3)] inside by auto
    then have "key_sequence a b (l @ [c] @ r)"
      using key_sequence_append k order_key_nonempty by (auto simp: small_key_def)
    with l r c(4) inside show ?thesis by simp
  qed
qed

lemma NKeysBetween_total:
  "key_gap a b \<Longrightarrow> a \<noteq> [] \<or> b = [] \<Longrightarrow> \<exists>ks. NKeysBetween a b n = Inr ks"
proof (induction a b n rule: NKeysBetween.induct)
  case (1 a b n)
  obtain c where c: "KeyBetween a b = Inr c" using KeyBetween_total [OF "1.prems"(1)] by blast
  note gap = KeyBetween_gap [OF "1.prems"(1) c]
  have k: "order_key c" using gap(2) "1.prems"(2) by blast
  consider "n \<le> 1" | (up) "n > 1" "b = []" | (inside) "n > 1" "b \<noteq> []" "a \<noteq> []"
    using "1.prems"(2) by linarith
  then show ?case
  proof cases
    case 1
    then show ?thesis using c by (subst NKeysBetween.simps) auto
  next
    case up
    then show ?thesis
      using c up.chain_total [OF k, of "n - 1"] by (subst NKeysBetween.simps) auto
  next
    case inside
    have gaps: "key_gap a c" "key_gap c b"
      using "1.prems"(1) gap(1) k inside by (auto simp: key_gap_def key_bound_def)
    obtain l r where "NKeysBetween a c (n div 2) = Inr l" "NKeysBetween c b (n - n div 2 - 1) = Inr r"
      using "1.IH"(1) [OF _ _ _ _ refl c gaps(1)] "1.IH"(2) [OF _ _ _ _ refl c _ gaps(2)] inside
        order_key_nonempty [OF k] by fastforce
    then show ?thesis using c inside by (subst NKeysBetween.simps) (auto simp: Let_def)
  qed
qed

end
