(* ===== verification/Fracdex_Keys.thy ===== *)
theory Fracdex_Keys
  imports Fracdex_Order
begin

text \<open>
  What the callers of the package \<open>fracdex\<close> rely on: the key between two keys, the list of
  keys between two keys, and the arithmetic on integer parts. An order key (\<open>order_key\<close>) is
  a key that the package itself accepts and whose bytes are base-62 digits.
\<close>

lemma order_key_valid: "order_key k \<Longrightarrow> validateOrderKey k = Inr ()"
  by (rule order_key_parts) auto

lemma smallestInt_least:
  assumes "order_key k"
  shows "smallestInt < k"
proof -
  obtain x f where k: "k = x @ f" "int_key x" "fraction f" "k \<noteq> smallestInt"
    using assms by (rule order_keyE)
  show ?thesis
  proof (cases "x = smallestInt")
    case True
    then show ?thesis using k str_prefix_less [of f smallestInt] by auto
  next
    case False
    then have "int_number smallestInt < int_number x"
      using int_number_bounds(1) [OF k(2)] int_number_inj [OF smallestInt_int_key(1) k(2)]
        smallestInt_int_key(2) by auto
    then have "smallestInt < x" using int_number_less [OF smallestInt_int_key(1) k(2)] by simp
    then show ?thesis using int_key_less_extend [OF smallestInt_int_key(1) k(2), of "[]" f] k by simp
  qed
qed

lemma small_key_above: "small_key k \<Longrightarrow> small_key a \<Longrightarrow> a < k \<Longrightarrow> order_key k"
  using smallestInt_least by (auto simp: small_key_def dest: order_less_asym)

lemma NKeysBetween_unbounded:
  assumes "NKeysBetween [] [] n = Inr ks" "k \<in> set ks"
  shows "order_key k"
proof -
  consider "n = 0" | "n = 1" | "n > 1" by linarith
  then show ?thesis
  proof cases
    case 3
    then have "key_chain (\<lambda>c. KeyBetween c []) ''a0'' (n - 1) = Inr ks"
      using assms(1) KeyBetween_zero by (subst (asm) NKeysBetween.simps) simp
    then show ?thesis
      using up.chain [of "''a0''"] KeyBetween_zero assms(2) by (auto simp: list_all_iff)
  qed (use assms KeyBetween_zero in \<open>auto simp: NKeysBetween.simps\<close>)
qed

lemmas demo_key_simps = order_key_def getIntPart_def getIntLen_def digits_def fraction_def
  smallestInt_def is_digit_def base62Digits_def char_order

text \<open>
  Property C21. \<open>KeyBetween\<close> never fails on keys in order, and its result is strictly between
  the two bounds (an empty bound stands for no bound). The result is an order key again, which
  later calls accept, in every case but one: just below the second smallest integer it is the
  reserved smallest integer.
\<close>

theorem key_between_strict:
  assumes "key_gap a b"
  shows "\<exists>k. KeyBetween a b = Inr k \<and> (a \<noteq> [] \<longrightarrow> a < k) \<and> (b \<noteq> [] \<longrightarrow> k < b) \<and>
     (if a = [] \<and> b = secondInt then k = smallestInt
      else order_key k \<and> validateOrderKey k = Inr ())"
proof -
  obtain k where k: "KeyBetween a b = Inr k" using KeyBetween_total [OF assms] by blast
  note gap = KeyBetween_gap [OF assms k]
  have "secondInt \<noteq> []" by (simp add: secondInt_def)
  show ?thesis
  proof (cases "a = [] \<and> b \<noteq> []")
    case True
    then have "order_key b" using assms by (simp add: key_gap_def key_bound_def)
    from KeyBetween_down [OF this] k True gap show ?thesis by (auto simp: order_key_valid)
  next
    case False
    then show ?thesis using k gap \<open>secondInt \<noteq> []\<close> by (auto simp: order_key_valid)
  qed
qed

lemma demo_gap: "key_gap ''a0'' ''a1''"
  by (simp add: key_gap_def key_bound_def demo_key_simps)

theorem key_between_strict_witness:
  "\<exists>k. KeyBetween ''a0'' ''a1'' = Inr k \<and> (''a0'' \<noteq> [] \<longrightarrow> ''a0'' < k) \<and> (''a1'' \<noteq> [] \<longrightarrow> k < ''a1'') \<and>
     (if ''a0'' = [] \<and> ''a1'' = secondInt then k = smallestInt
      else order_key k \<and> validateOrderKey k = Inr ())"
  by (rule key_between_strict [OF demo_gap])

text \<open>
  Property C22. \<open>NKeysBetween\<close> returns exactly \<open>n\<close> keys, strictly increasing and strictly
  inside the bounds; when there is a lower bound or no upper bound it always succeeds and all its
  keys are order keys. It can fail only when counting down from an upper bound alone.
\<close>

theorem nkeys_between_sequence:
  assumes "key_gap a b"
  shows "case NKeysBetween a b n of
       Inl e \<Rightarrow> a = [] \<and> b \<noteq> []
     | Inr ks \<Rightarrow> length ks = n \<and> sorted_wrt (<) ks \<and>
         (\<forall>k \<in> set ks. (a = [] \<or> a < k) \<and> (b = [] \<or> k < b) \<and>
            (order_key k \<or> a = [] \<and> b \<noteq> [] \<and> k = smallestInt))"
proof (cases "NKeysBetween a b n")
  case (Inl e)
  then show ?thesis using NKeysBetween_total [OF assms, of n] by auto
next
  case (Inr ks)
  then have ks: "length ks = n" "key_sequence a b ks"
    using NKeysBetween_sequence [OF assms] by auto
  have "order_key k" if "k \<in> set ks" "a \<noteq> []" for k
    using ks(2) that assms small_key_above [of k a]
    by (auto simp: key_sequence_def list_all_iff key_gap_def key_bound_def small_key_def)
  moreover have "order_key k" if "k \<in> set ks" "a = []" "b = []" for k
    using NKeysBetween_unbounded Inr that by blast
  ultimately show ?thesis
    using ks Inr by (auto simp: key_sequence_def list_all_iff small_key_def)
qed

theorem nkeys_between_sequence_witness:
  "case NKeysBetween ''a0'' ''a1'' 5 of
       Inl e \<Rightarrow> ''a0'' = [] \<and> ''a1'' \<noteq> []
     | Inr ks \<Rightarrow> length ks = 5 \<and> sorted_wrt (<) ks \<and>
         (\<forall>k \<in> set ks. (''a0'' = [] \<or> ''a0'' < k) \<and> (''a1'' = [] \<or> k < ''a1'') \<and>
            (order_key k \<or> ''a0'' = [] \<and> ''a1'' \<noteq> [] \<and> k = smallestInt))"
  by (rule nkeys_between_sequence [OF demo_gap])

text \<open>
  Property C37. The integer parts of keys are numbers: \<open>incrementInt\<close> adds one, reports the
  largest integer by the empty string and nothing else, and \<open>decrementInt\<close> undoes it.
\<close>

theorem increment_decrement:
  assumes "int_key x"
  shows "\<exists>y. incrementInt x = Inr y \<and>
     (if int_number x = level_base 26 - 1 then y = []
      else int_key y \<and> int_number y = int_number x + 1 \<and> x < y \<and> decrementInt y = Inr x)"
proof (cases "int_number x = level_base 26 - 1")
  case True
  have "int_number y \<noteq> level_base 26" if "int_key y" for y using int_number_bounds(2) [OF that] by simp
  then show ?thesis using incrementInt_number [OF assms] True by auto
next
  case False
  then obtain y where y: "incrementInt x = Inr y" "int_key y" "int_number y = int_number x + 1"
    using incrementInt_number [OF assms] by auto
  have "int_number y \<noteq> level_base (-26)" using int_number_bounds(1) [OF assms] y(3) by simp
  then obtain z where z: "decrementInt y = Inr z" "int_key z" "int_number z = int_number y - 1"
    using decrementInt_number [OF y(2)] by auto
  then have "z = x" using int_number_inj [OF z(2) assms] y(3) by simp
  moreover have "x < y" using int_number_less [OF assms y(2)] y(3) by simp
  ultimately show ?thesis using False y z(1) by auto
qed

theorem increment_decrement_witness:
  "\<exists>y. incrementInt ''az'' = Inr y \<and>
     (if int_number ''az'' = level_base 26 - 1 then y = []
      else int_key y \<and> int_number y = int_number ''az'' + 1 \<and> ''az'' < y \<and> decrementInt y = Inr ''az'')"
  by (rule increment_decrement)
    (simp add: int_key_def is_head_def level_def level_digits_def digits_def is_digit_def
      base62Digits_def char_order)

text \<open>
  A defect of the downward walk: below the second smallest integer \<open>KeyBetween\<close>
  returns the reserved smallest integer without an error, although its own validation rejects that
  key, so every later call with it as a bound fails; its sibling branch reports
  \<open>range underflow\<close> only one step later.
\<close>

theorem key_between_returns_reserved_key:
  "KeyBetween '''' ''A00000000000000000000000001'' = Inr smallestInt \<and>
   validateOrderKey smallestInt = Inl (Err (''invalid order key: '' @ smallestInt)) \<and>
   KeyBetween smallestInt ''a0'' = Inl (Err (''invalid order key: '' @ smallestInt)) \<and>
   KeyBetween '''' smallestInt = Inl (Err (''invalid order key: '' @ smallestInt))"
proof -
  have s: "smallestInt \<noteq> []" by (simp add: smallestInt_def)
  have "order_key secondInt"
    using order_key_int [OF secondInt_int_key(1)] by (simp add: secondInt_def smallestInt_def)
  then have "KeyBetween [] secondInt = Inr smallestInt" using KeyBetween_down [of secondInt] by auto
  moreover have "validateOrderKey smallestInt = Inl (Err (''invalid order key: '' @ smallestInt))"
    by (simp add: validateOrderKey_def)
  ultimately show ?thesis
    using KeyBetween_smallest s by (simp add: secondInt_def KeyBetween_def)
qed

end
