(* ===== verification/DecayMap.thy ===== *)
theory DecayMap
  imports Prelude
begin

text \<open>
  The package \<open>decaymap\<close> (\<open>src/decaymap/decaymap.go\<close>): a map whose entries are
  freed in bulk. Two Go maps are indexed by the parity of the generation, the number of
  periods since the epoch; the API keeps the pending OIDC sessions in one. The mutex makes
  each operation atomic, so operations are functions on the state.
\<close>

section \<open>The code\<close>

record ('k, 'v) decay_map =
  maps :: "nat \<Rightarrow> 'k \<rightharpoonup> 'v"
  epoch :: time
  lastInsert :: time
  generation :: "64 word"
  period :: duration

definition NewDecayMap :: "time \<Rightarrow> duration \<Rightarrow> ('k, 'v) decay_map" where
  "NewDecayMap ep per =
     \<lparr>maps = (\<lambda>_. Map.empty), epoch = ep, lastInsert = zero_time, generation = 0, period = per\<rparr>"

definition Pop :: "'k \<Rightarrow> ('k, 'v) decay_map \<Rightarrow> 'v option \<times> ('k, 'v) decay_map" where
  "Pop key m =
     (case maps m 0 key of
        Some res \<Rightarrow> (Some res, m\<lparr>maps := (maps m)(0 := (maps m 0)(key := None))\<rparr>)
      | None \<Rightarrow>
          (case maps m 1 key of
             Some res \<Rightarrow> (Some res, m\<lparr>maps := (maps m)(1 := (maps m 1)(key := None))\<rparr>)
           | None \<Rightarrow> (None, m)))"

definition slot :: "64 word \<Rightarrow> nat" where
  "slot g = unat (g AND 1)"

definition other_slot :: "64 word \<Rightarrow> nat" where
  "other_slot g = unat ((g AND 1) XOR 1)"

text \<open>A zero period panics: integer division by zero.\<close>

definition Set :: "time \<Rightarrow> 'k \<Rightarrow> 'v \<Rightarrow> ('k, 'v) decay_map \<Rightarrow> ('k, 'v) decay_map res" where
  "Set now key value m =
     (if now < lastInsert m then Inr m
      else let m = m\<lparr>lastInsert := now\<rparr> in
      if period m = 0 then Inl Panic
      else
        let curGen = word_of_int (trunc_div (time_Sub now (epoch m)) (period m)) :: 64 word;
            genDelta = curGen - generation m;
            m = (if genDelta \<ge> 2 then
                   m\<lparr>maps := (maps m)(0 := Map.empty, 1 := Map.empty), generation := curGen\<rparr>
                 else if genDelta = 1 then
                   m\<lparr>maps := (maps m)(slot curGen := Map.empty), generation := curGen\<rparr>
                 else m);
            m = m\<lparr>maps := (maps m)(other_slot curGen := (maps m (other_slot curGen))(key := None))\<rparr>
        in Inr (m\<lparr>maps := (maps m)(slot curGen := (maps m (slot curGen))(key \<mapsto> value))\<rparr>))"

section \<open>The abstract map\<close>

text \<open>
  The abstract value of a decay map: each key with its value and the generation that
  stored it, recovered from the slot the entry is in.
\<close>

definition gen_now :: "time \<Rightarrow> ('k, 'v) decay_map \<Rightarrow> int" where
  "gen_now now m = (now - epoch m) div period m"

definition entries :: "int \<Rightarrow> ('k, 'v) decay_map \<Rightarrow> 'k \<rightharpoonup> 'v \<times> int" where
  "entries G m k =
     (case maps m (nat (G mod 2)) k of
        Some v \<Rightarrow> Some (v, G)
      | None \<Rightarrow> map_option (\<lambda>v. (v, G - 1)) (maps m (nat ((G + 1) mod 2)) k))"

text \<open>
  The invariant: the stored generation is the one of the last insertion (0 before the
  first), in range, and no key is in both slots.
\<close>

definition dm_inv :: "int \<Rightarrow> ('k, 'v) decay_map \<Rightarrow> bool" where
  "dm_inv G m \<longleftrightarrow> 0 < period m \<and> generation m = word_of_int G \<and> 0 \<le> G \<and> G < 2 ^ 63 \<and>
     G * period m \<le> max 0 (lastInsert m - epoch m) \<and>
     (\<forall>k. maps m 0 k = None \<or> maps m 1 k = None)"

definition in_range :: "time \<Rightarrow> ('k, 'v) decay_map \<Rightarrow> bool" where
  "in_range now m \<longleftrightarrow> epoch m \<le> now \<and> lastInsert m \<le> now \<and> now - epoch m \<le> max_int64"

definition forget_before :: "int \<Rightarrow> ('k \<rightharpoonup> 'v \<times> int) \<Rightarrow> ('k \<rightharpoonup> 'v \<times> int)" where
  "forget_before g e k = (case e k of Some (v, h) \<Rightarrow> if g \<le> h then Some (v, h) else None | None \<Rightarrow> None)"

lemma slot_mod: "slot g = unat g mod 2"
  by (simp add: slot_def and_one_eq unat_mod)

lemma other_slot_mod: "other_slot g = (unat g + 1) mod 2"
proof -
  have u: "unat (g AND 1) = unat g mod 2" using slot_mod [of g] by (simp add: slot_def)
  show ?thesis
  proof (cases "unat g mod 2 = 0")
    case True
    then have "g AND 1 = 0" using u by (simp only: unat_eq_zero)
    with True show ?thesis by (simp add: other_slot_def mod_Suc)
  next
    case False
    then have "unat (g AND 1) = unat (1 :: 64 word)" using u by simp
    then have "g AND 1 = 1" by (simp only: word_unat_eq_iff)
    with False show ?thesis by (simp add: other_slot_def mod_Suc)
  qed
qed

lemma unat_gen: "0 \<le> G \<Longrightarrow> G < 2 ^ 63 \<Longrightarrow> unat (word_of_int G :: 64 word) = nat G"
  by (simp add: unsigned_of_int take_bit_int_eq_self)

lemma slot_gen:
  assumes "0 \<le> G" "G < 2 ^ 63"
  shows "slot (word_of_int G) = nat (G mod 2)" "other_slot (word_of_int G) = nat ((G + 1) mod 2)"
  using assms by (simp_all add: slot_mod other_slot_mod unat_gen nat_mod_distrib nat_add_distrib)

lemma delta_gen:
  assumes "0 \<le> G" "G \<le> H" "H < 2 ^ 63"
  shows "(word_of_int H - word_of_int G :: 64 word) \<ge> 2 \<longleftrightarrow> H - G \<ge> 2"
    and "(word_of_int H - word_of_int G :: 64 word) = 1 \<longleftrightarrow> H - G = 1"
proof -
  have u: "uint (word_of_int H - word_of_int G :: 64 word) = H - G"
    unfolding wi_hom_sub uint_word_of_int_eq using assms by (simp add: take_bit_int_eq_self)
  show "(word_of_int H - word_of_int G :: 64 word) \<ge> 2 \<longleftrightarrow> H - G \<ge> 2"
    using u by (simp add: word_le_def)
  show "(word_of_int H - word_of_int G :: 64 word) = 1 \<longleftrightarrow> H - G = 1"
    by (simp only: word_uint_eq_iff u) simp
qed


text \<open>\<open>Set\<close> computes the generation of \<open>now\<close>.\<close>

lemma gen_now_bounds:
  assumes "dm_inv G m" "in_range now m"
  shows "G \<le> gen_now now m" "gen_now now m < 2 ^ 63" "gen_now now m * period m \<le> now - epoch m"
    "trunc_div (time_Sub now (epoch m)) (period m) = gen_now now m"
proof -
  have p: "0 < period m" and r: "0 \<le> now - epoch m" "now - epoch m \<le> max_int64"
    using assms by (auto simp: dm_inv_def in_range_def)
  then have sub: "time_Sub now (epoch m) = now - epoch m"
    by (simp add: time_Sub_id min_int64_def)
  show t: "trunc_div (time_Sub now (epoch m)) (period m) = gen_now now m"
    using p r sub by (simp add: trunc_div_nonneg gen_now_def)
  have "G * period m \<le> now - epoch m"
    using assms by (auto simp: dm_inv_def in_range_def)
  then show "G \<le> gen_now now m"
    using p zdiv_mono1 [of "G * period m" "now - epoch m" "period m"] by (simp add: gen_now_def)
  have "gen_now now m \<le> now - epoch m"
    using p r unfolding gen_now_def by (metis div_by_1 int_one_le_iff_zero_less zdiv_mono2 zero_less_one)
  then show "gen_now now m < 2 ^ 63" using r by (simp add: max_int64_def)
  show "gen_now now m * period m \<le> now - epoch m"
    using p by (simp add: gen_now_def) (metis minus_mod_eq_div_mult diff_le_eq le_add_same_cancel1 pos_mod_sign)
qed

text \<open>The state \<open>Set\<close> leaves, with the generations as integers.\<close>

definition advance :: "int \<Rightarrow> int \<Rightarrow> (nat \<Rightarrow> 'k \<rightharpoonup> 'v) \<Rightarrow> (nat \<Rightarrow> 'k \<rightharpoonup> 'v)" where
  "advance G H ms =
     (if H - G \<ge> 2 then ms(0 := Map.empty, 1 := Map.empty)
      else if H - G = 1 then ms(nat (H mod 2) := Map.empty) else ms)"

lemma Set_eq:
  fixes k :: 'k and m :: "('k, 'v) decay_map"
  assumes inv: "dm_inv G m" and r: "in_range now m"
  defines "H \<equiv> gen_now now m"
  defines "ms \<equiv> advance G H (maps m)"
  defines "ms' \<equiv> ms(nat ((H + 1) mod 2) := (ms (nat ((H + 1) mod 2)))(k := None))"
  shows "Set now k v m = Inr (m\<lparr>maps := ms'(nat (H mod 2) := (ms' (nat (H mod 2)))(k \<mapsto> v)),
     lastInsert := now, generation := word_of_int H\<rparr>)"
proof -
  note b = gen_now_bounds [OF inv r, folded H_def]
  have G: "0 \<le> G" "generation m = word_of_int G" "period m \<noteq> 0" "\<not> now < lastInsert m"
    using inv r by (auto simp: dm_inv_def in_range_def)
  have sl: "slot (word_of_int H) = nat (H mod 2)" "other_slot (word_of_int H) = nat ((H + 1) mod 2)"
    using slot_gen [of H] G(1) b by auto
  note d = delta_gen [OF G(1) b(1,2)]
  have same: "\<not> H - G \<ge> 2 \<Longrightarrow> H - G \<noteq> 1 \<Longrightarrow> generation m = word_of_int H"
    using b(1) G(2) by (cases "H = G") auto
  consider "H - G \<ge> 2" | "H - G = 1" | "\<not> H - G \<ge> 2" "H - G \<noteq> 1" by blast
  then show ?thesis
  proof cases
    case 1
    then show ?thesis
      unfolding Set_def Let_def by (simp add: G b(4) d sl ms'_def ms_def advance_def)
  next
    case 2
    then show ?thesis
      unfolding Set_def Let_def by (simp add: G b(4) d sl ms'_def ms_def advance_def)
  next
    case 3
    then show ?thesis
      unfolding Set_def Let_def using same [OF 3]
      by (simp add: G(3,4) b(4) d [folded G(2)] sl ms'_def ms_def advance_def)
  qed
qed


lemma parity_cases:
  fixes G :: int
  obtains "nat (G mod 2) = 0" "nat ((G + 1) mod 2) = 1" | "nat (G mod 2) = 1" "nat ((G + 1) mod 2) = 0"
proof (cases "even G")
  case True
  then have "G mod 2 = 0" "(G + 1) mod 2 = 1" by presburger+
  then show ?thesis using that(1) by simp
next
  case False
  then have "G mod 2 = 1" "(G + 1) mod 2 = 0" by presburger+
  then show ?thesis using that(2) by simp
qed

text \<open>\<open>Set\<close> refines: forget what is two generations old, then store.\<close>

lemma Set_refines:
  assumes "dm_inv G m" "in_range now m"
  obtains m' where "Set now k v m = Inr m'" "dm_inv (gen_now now m) m'"
    "entries (gen_now now m) m' =
       (forget_before (gen_now now m - 1) (entries G m))(k \<mapsto> (v, gen_now now m))"
    "epoch m' = epoch m" "period m' = period m" "lastInsert m' = now"
proof -
  define H where "H = gen_now now m"
  define ms where "ms = advance G H (maps m)"
  define ms' where "ms' = ms(nat ((H + 1) mod 2) := (ms (nat ((H + 1) mod 2)))(k := None))"
  define m' where "m' = m\<lparr>maps := ms'(nat (H mod 2) := (ms' (nat (H mod 2)))(k \<mapsto> v)),
     lastInsert := now, generation := word_of_int H\<rparr>"
  note b = gen_now_bounds [OF assms, folded H_def]
  have run: "Set now k v m = Inr m'"
    using Set_eq [OF assms, of k v] by (simp only: m'_def ms'_def ms_def H_def)
  have disj: "maps m 0 j = None \<or> maps m 1 j = None" for j
    using assms(1) by (simp add: dm_inv_def)
  have G0: "0 \<le> G" using assms(1) by (simp add: dm_inv_def)
  have disj': "maps m' 0 j = None \<or> maps m' 1 j = None" for j
    using disj [of j] by (cases rule: parity_cases [of H]) (auto simp: m'_def ms'_def ms_def advance_def)
  have "dm_inv H m'"
    using assms b G0 disj' by (auto simp: dm_inv_def m'_def in_range_def)
  moreover have "entries H m' j =
      ((forget_before (H - 1) (entries G m))(k \<mapsto> (v, H))) j" for j
  proof -
    note defs = entries_def m'_def ms'_def ms_def advance_def forget_before_def
    consider "H = G" | "H = G + 1" | "H \<ge> G + 2" using b(1) by linarith
    then show ?thesis
    proof cases
      case 1
      then show ?thesis using disj [of j]
        by (cases rule: parity_cases [of G]) (auto simp: defs split: option.splits)
    next
      case 2
      then show ?thesis using disj [of j]
        by (cases rule: parity_cases [of G]) (auto simp: defs split: option.splits)
    next
      case 3
      then show ?thesis using disj [of j]
        by (cases rule: parity_cases [of H]) (auto simp: defs split: option.splits)
    qed
  qed
  ultimately show ?thesis
    using that [OF run] by (auto simp: H_def fun_eq_iff m'_def)
qed


lemma Pop_refines:
  assumes "dm_inv G m"
  obtains m' where "Pop k m = (map_option fst (entries G m k), m')" "dm_inv G m'"
    "entries G m' = (entries G m)(k := None)"
    "epoch m' = epoch m" "period m' = period m" "lastInsert m' = lastInsert m"
proof -
  have disj: "maps m 0 j = None \<or> maps m 1 j = None" for j
    using assms by (simp add: dm_inv_def)
  obtain r m' where run: "Pop k m = (r, m')" by fastforce
  have inv: "dm_inv G m'"
    using assms run by (auto simp: Pop_def dm_inv_def split: option.splits if_splits)
  have r: "r = map_option fst (entries G m k)"
    using run disj [of k]
    by (cases rule: parity_cases [of G]) (auto simp: Pop_def entries_def option.map_comp comp_def option.map_ident split: option.splits)
  have e: "entries G m' = (entries G m)(k := None)"
    using run disj [of k]
    by (cases rule: parity_cases [of G]) (auto simp: Pop_def entries_def fun_eq_iff split: option.splits if_splits)
  have "epoch m' = epoch m" "period m' = period m" "lastInsert m' = lastInsert m"
    using run by (auto simp: Pop_def split: option.splits)
  with that run inv r e show ?thesis by simp
qed

lemma NewDecayMap_inv:
  "0 < per \<Longrightarrow> dm_inv 0 (NewDecayMap ep per)" "entries G (NewDecayMap ep per) = Map.empty"
  by (auto simp: dm_inv_def NewDecayMap_def entries_def fun_eq_iff)

section \<open>Life time of an entry\<close>

text \<open>A run of insertions, in the order the callers made them.\<close>

fun set_all :: "(time \<times> 'k \<times> 'v) list \<Rightarrow> ('k, 'v) decay_map \<Rightarrow> ('k, 'v) decay_map res" where
  "set_all [] m = Inr m"
| "set_all ((t, k, v) # ops) m = res_bind (Set t k v m) (\<lambda>m. set_all ops m)"

definition lookup :: "'k \<Rightarrow> ('k, 'v) decay_map \<Rightarrow> 'v option" where
  "lookup k m = fst (Pop k m)"

lemma lookup_entries: "dm_inv G m \<Longrightarrow> lookup k m = map_option fst (entries G m k)"
  by (erule Pop_refines [where k = k]) (simp add: lookup_def)

text \<open>
  An entry of generation \<open>g\<close> stays while the insertions that follow (of other keys, in
  time order) are of generation at most \<open>g + 1\<close>, and is gone after one of a later
  generation.
\<close>

lemma set_all_entry:
  assumes "dm_inv G m" "0 < period m"
    and "sorted_wrt (\<le>) (lastInsert m # map fst ops)"
    and "\<forall>(t, j, w) \<in> set ops. j \<noteq> k \<and> epoch m \<le> t \<and> t - epoch m \<le> max_int64"
  shows "\<exists>H m'. set_all ops m = Inr m' \<and> dm_inv H m' \<and> G \<le> H \<and>
    entries H m' k = forget_before (H - 1) (entries G m) k \<and>
    (ops \<noteq> [] \<longrightarrow> H = (fst (last ops) - epoch m) div period m) \<and> (ops = [] \<longrightarrow> H = G)"
  using assms
proof (induction ops arbitrary: m G)
  case Nil
  have "entries G m k = forget_before (G - 1) (entries G m) k"
    by (auto simp: forget_before_def entries_def split: option.splits)
  with Nil show ?case by auto
next
  case (Cons op ops)
  obtain t j w where op: "op = (t, j, w)" by (cases op)
  have r: "in_range t m" "j \<noteq> k"
    using Cons.prems by (auto simp: op in_range_def)
  obtain m1 where m1: "Set t j w m = Inr m1" "dm_inv (gen_now t m) m1"
    "entries (gen_now t m) m1 = (forget_before (gen_now t m - 1) (entries G m))(j \<mapsto> (w, gen_now t m))"
    "epoch m1 = epoch m" "period m1 = period m" "lastInsert m1 = t"
    using Set_refines [OF Cons.prems(1) r(1)] by blast
  have "sorted_wrt (\<le>) (lastInsert m1 # map fst ops)" "0 < period m1"
    "\<forall>(t, j, w) \<in> set ops. j \<noteq> k \<and> epoch m1 \<le> t \<and> t - epoch m1 \<le> max_int64"
    using Cons.prems by (auto simp: op m1)
  from Cons.IH [OF m1(2) this(2,1,3)] obtain H m' where m': "set_all ops m1 = Inr m'" "dm_inv H m'"
    "gen_now t m \<le> H" "entries H m' k = forget_before (H - 1) (entries (gen_now t m) m1) k"
    "ops \<noteq> [] \<longrightarrow> H = (fst (last ops) - epoch m1) div period m1" "ops = [] \<longrightarrow> H = gen_now t m"
    by blast
  note m' = m' [unfolded m1(4,5)]
  have "entries H m' k = forget_before (H - 1) (entries G m) k"
    using m'(3,4) r(2) by (auto simp: m1(3) forget_before_def split: option.splits)
  moreover have "G \<le> H" using gen_now_bounds(1) [OF Cons.prems(1) r(1)] m'(3) by simp
  ultimately show ?case
    using m' m1(1) by (intro exI [of _ H] exI [of _ m']) (auto simp: op gen_now_def)
qed


section \<open>Properties\<close>

text \<open>
  On a decay map whose invariant holds, with a clock that has not gone back
  and is in the range of a duration after the epoch, \<open>Set\<close> succeeds, keeps the
  invariant, and refines the abstract map: entries two generations old or older are
  forgotten, the key is stored with the current generation, every other entry is kept.
\<close>

theorem decaymap_set_abstract:
  assumes "dm_inv G m" "in_range now m"
  shows "\<exists>m'. Set now k v m = Inr m' \<and> dm_inv (gen_now now m) m' \<and> lastInsert m' = now \<and>
     entries (gen_now now m) m' =
       (forget_before (gen_now now m - 1) (entries G m))(k \<mapsto> (v, gen_now now m))"
  using Set_refines [OF assms, of k v] by blast

theorem decaymap_set_abstract_witness:
  "\<exists>m'. Set 25 ''k'' (1 :: nat) (NewDecayMap 5 10) = Inr m' \<and>
     dm_inv (gen_now 25 (NewDecayMap 5 10 :: (string, nat) decay_map)) m' \<and> lastInsert m' = 25 \<and>
     entries (gen_now 25 (NewDecayMap 5 10 :: (string, nat) decay_map)) m' =
       (forget_before (gen_now 25 (NewDecayMap 5 10 :: (string, nat) decay_map) - 1)
         (entries 0 (NewDecayMap 5 10)))
       (''k'' \<mapsto> (1, gen_now 25 (NewDecayMap 5 10 :: (string, nat) decay_map)))"
  by (rule decaymap_set_abstract)
    (simp_all add: dm_inv_def in_range_def NewDecayMap_def zero_time_def max_int64_def)

text \<open>
  \<open>Pop\<close> returns the abstract value of the key and removes exactly that key;
  popping the same key again returns nothing.
\<close>

theorem decaymap_pop_abstract:
  assumes "dm_inv G m"
  shows "\<exists>m'. Pop k m = (map_option fst (entries G m k), m') \<and> dm_inv G m' \<and>
     entries G m' = (entries G m)(k := None) \<and> fst (Pop k m') = None"
  using assms
proof (rule Pop_refines [where k = k])
  fix m' assume m': "Pop k m = (map_option fst (entries G m k), m')" "dm_inv G m'"
    "entries G m' = (entries G m)(k := None)"
  then have "lookup k m' = None" by (simp add: lookup_entries)
  with m' show ?thesis by (simp add: lookup_def)
qed

theorem decaymap_pop_abstract_witness:
  "\<exists>m m'. Set 7 ''k'' (1 :: nat) (NewDecayMap 5 10) = Inr m \<and> Pop ''k'' m = (Some 1, m') \<and>
     fst (Pop ''k'' m') = None"
proof -
  let ?m = "NewDecayMap 5 10 :: (string, nat) decay_map"
  have pre: "dm_inv 0 ?m" "in_range 7 ?m"
    by (simp_all add: dm_inv_def in_range_def NewDecayMap_def zero_time_def max_int64_def)
  obtain m1 where m1: "Set 7 ''k'' 1 ?m = Inr m1" "dm_inv (gen_now 7 ?m) m1"
    "entries (gen_now 7 ?m) m1 = (forget_before (gen_now 7 ?m - 1) (entries 0 ?m))(''k'' \<mapsto> (1, gen_now 7 ?m))"
    using Set_refines [OF pre, of "''k''" 1] by blast
  obtain m' where m': "Pop ''k'' m1 = (map_option fst (entries (gen_now 7 ?m) m1 ''k''), m')"
    "fst (Pop ''k'' m') = None"
    using decaymap_pop_abstract [OF m1(2)] by blast
  have "map_option fst (entries (gen_now 7 ?m) m1 ''k'') = Some 1" by (simp only: m1(3)) simp
  with m' m1(1) show ?thesis by metis
qed

text \<open>
  Property C40. The life time of an entry depends on later insertions, not on the clock: after \<open>Set\<close> at
  \<open>t0\<close> and any further insertions of other keys in time order, the entry is still there exactly
  when the last insertion is at most one generation (period of the map) later than its own. So insertions
  within one full period never remove it, an insertion two generations later does, and without a later
  insertion the entry stays however old it is: as the comment on \<open>Pop\<close> says, an entry that
  is found may be expired.
\<close>

theorem decaymap_lifetime:
  assumes "dm_inv G m" "in_range t0 m" "Set t0 k v m = Inr m1"
    and "sorted_wrt (\<le>) (t0 # map fst ops)"
    and "\<forall>(t, j, w) \<in> set ops. j \<noteq> k \<and> t - epoch m \<le> max_int64"
  shows "\<exists>m2. set_all ops m1 = Inr m2 \<and>
    lookup k m2 = (if (last (t0 # map fst ops) - epoch m) div period m \<le> (t0 - epoch m) div period m + 1
                   then Some v else None)"
proof -
  obtain m' where m': "Set t0 k v m = Inr m'" "dm_inv (gen_now t0 m) m'"
    "entries (gen_now t0 m) m' = (forget_before (gen_now t0 m - 1) (entries G m))(k \<mapsto> (v, gen_now t0 m))"
    "epoch m' = epoch m" "period m' = period m" "lastInsert m' = t0"
    using Set_refines [OF assms(1,2)] by blast
  have eq: "m1 = m'" using m'(1) assms(3) by simp
  have "0 < period m1" using m'(2) eq by (simp add: dm_inv_def)
  moreover have "\<forall>(t, j, w) \<in> set ops. j \<noteq> k \<and> epoch m1 \<le> t \<and> t - epoch m1 \<le> max_int64"
    using assms(2,4,5) m'(4) eq by (fastforce simp: in_range_def)
  ultimately obtain H m2 where m2: "set_all ops m1 = Inr m2" "dm_inv H m2"
    "entries H m2 k = forget_before (H - 1) (entries (gen_now t0 m) m1) k"
    "ops \<noteq> [] \<longrightarrow> H = (fst (last ops) - epoch m1) div period m1" "ops = [] \<longrightarrow> H = gen_now t0 m"
    using set_all_entry [of "gen_now t0 m" m1 ops k] m' assms(4) eq by auto
  have H: "H = (last (t0 # map fst ops) - epoch m) div period m"
    using m2(4,5) m'(4,5) eq by (auto simp: gen_now_def last_map)
  have "lookup k m2 = (if H \<le> gen_now t0 m + 1 then Some v else None)"
    using m'(3) eq by (simp add: lookup_entries [OF m2(2)] m2(3) forget_before_def)
  then show ?thesis using m2(1) by (simp only: H gen_now_def) blast
qed

theorem decaymap_lifetime_witness:
  "\<exists>m1 m2. Set 7 ''k'' (1 :: nat) (NewDecayMap 5 10) = Inr m1 \<and>
     set_all [(26, ''j'', 2)] m1 = Inr m2 \<and> lookup ''k'' m2 = None"
proof -
  let ?m = "NewDecayMap 5 10 :: (string, nat) decay_map"
  have pre: "dm_inv 0 ?m" "in_range 7 ?m"
    by (simp_all add: dm_inv_def in_range_def NewDecayMap_def zero_time_def max_int64_def)
  obtain m1 where m1: "Set 7 ''k'' 1 ?m = Inr m1" using Set_refines [OF pre] by blast
  have "\<exists>m2. set_all [(26, ''j'', 2)] m1 = Inr m2 \<and>
    lookup ''k'' m2 = (if (last (7 # map fst [(26, ''j'', 2 :: nat)]) - epoch ?m) div period ?m
      \<le> (7 - epoch ?m) div period ?m + 1 then Some 1 else None)"
    by (rule decaymap_lifetime [OF pre m1]) (simp_all add: NewDecayMap_def max_int64_def)
  with m1 show ?thesis by (auto simp: NewDecayMap_def)
qed

end
