(* ===== verification/Limiter.thy ===== *)
theory Limiter
  imports Prelude
begin

text \<open>
  The rate limiters of \<open>src/security/ratelimit.go\<close> and the replay cache of
  \<open>src/security/replay.go\<close>. Both keep a Go map from strings under a mutex; the map is an
  association list with distinct keys, so that its size, which triggers the eviction of
  old entries, computes. The clock \<open>now\<close> is an argument. The request counter is an
  unbounded integer: it restarts with every window and cannot reach \<open>2^63\<close>.
\<close>

section \<open>Rate limiters: the code\<close>

record limiterEntry =
  WindowStart :: time
  Count :: int
  LastSeen :: time

definition zero_entry :: limiterEntry where
  "zero_entry = \<lparr>WindowStart = zero_time, Count = 0, LastSeen = zero_time\<rparr>"

type_synonym limiter_map = "(string \<times> limiterEntry) list"

record FixedWindowLimiter =
  entries :: limiter_map
  limit :: int
  window :: duration

definition NewFixedWindowLimiter :: "int \<Rightarrow> duration \<Rightarrow> FixedWindowLimiter" where
  "NewFixedWindowLimiter lim win = \<lparr>entries = [], limit = lim, window = win\<rparr>"

definition map_read :: "limiter_map \<Rightarrow> string \<Rightarrow> limiterEntry" where
  "map_read es key = (case map_of es key of None \<Rightarrow> zero_entry | Some e \<Rightarrow> e)"

definition Allow :: "time \<Rightarrow> string \<Rightarrow> FixedWindowLimiter \<Rightarrow> (bool \<times> duration) \<times> FixedWindowLimiter" where
  "Allow now key l =
     (let entry = map_read (entries l) key;
          entry = (if WindowStart entry = zero_time \<or> time_Sub now (WindowStart entry) \<ge> window l
                   then entry\<lparr>WindowStart := now, Count := 0\<rparr> else entry);
          entry = entry\<lparr>Count := Count entry + 1, LastSeen := now\<rparr>;
          es = AList.update key entry (entries l);
          es = (if length es > 4096
                then let cutoff = now + wrap64 (- 2 * window l)
                     in filter (\<lambda>(k, candidate). \<not> LastSeen candidate < cutoff) es
                else es);
          l = l\<lparr>entries := es\<rparr>
      in if Count entry \<le> limit l then ((True, 0), l)
         else let retry = wrap64 (window l - time_Sub now (WindowStart entry));
                  retry = (if retry < second then second else retry)
              in ((False, retry), l))"

text \<open>
  The middleware: the request goes on, or is answered with status 429 and a
  \<open>Retry-After\<close> header of whole seconds (\<open>Duration.Round\<close> rounds half away from zero).
\<close>

datatype middleware_result = Next | TooManyRequests int

definition round_seconds :: "duration \<Rightarrow> int" where
  "round_seconds d = trunc_div (d + sgn d * (second div 2)) second"

definition RateLimitMiddleware ::
  "time \<Rightarrow> string \<Rightarrow> FixedWindowLimiter \<Rightarrow> middleware_result \<times> FixedWindowLimiter" where
  "RateLimitMiddleware now key limiter =
     (let ((allowed, retry), limiter) = Allow now key limiter in
      if allowed then (Next, limiter)
      else let seconds = round_seconds retry;
               seconds = (if seconds < 1 then 1 else seconds)
           in (TooManyRequests seconds, limiter))"

definition NewDynamicLimiter :: limiter_map where
  "NewDynamicLimiter = []"

definition DynamicAllow ::
  "time \<Rightarrow> string \<Rightarrow> int \<Rightarrow> duration \<Rightarrow> limiter_map \<Rightarrow> (bool \<times> duration) \<times> limiter_map" where
  "DynamicAllow now key lim win es =
     (if lim \<le> 0 then ((True, 0), es)
      else
        let entry = map_read es key;
            entry = (if WindowStart entry = zero_time \<or> time_Sub now (WindowStart entry) \<ge> win
                     then entry\<lparr>WindowStart := now, Count := 0\<rparr> else entry);
            entry = entry\<lparr>Count := Count entry + 1, LastSeen := now\<rparr>;
            es = AList.update key entry es;
            es = (if length es > 4096
                  then let cutoff = now + wrap64 (- 2 * win)
                       in filter (\<lambda>(k, candidate). \<not> LastSeen candidate < cutoff) es
                  else es)
        in if Count entry \<le> lim then ((True, 0), es)
           else let retry = wrap64 (win - time_Sub now (WindowStart entry));
                    retry = (if retry < second then second else retry)
                in ((False, retry), es))"

section \<open>The contract of a limiter\<close>

text \<open>
  One key on its own: the start and the count of its window. \<open>window_step\<close> is what one
  request does to it.
\<close>

type_synonym key_window = "(time \<times> int) option"

fun window_step :: "int \<Rightarrow> duration \<Rightarrow> time \<Rightarrow> key_window \<Rightarrow> bool \<times> key_window" where
  "window_step lim win now None = (1 \<le> lim, Some (now, 1))"
| "window_step lim win now (Some (s, c)) =
     (if now - s \<ge> win then (1 \<le> lim, Some (now, 1)) else (c + 1 \<le> lim, Some (s, c + 1)))"

fun window_run :: "int \<Rightarrow> duration \<Rightarrow> time list \<Rightarrow> key_window \<Rightarrow> bool list" where
  "window_run lim win [] w = []"
| "window_run lim win (t # ts) w =
     (let (ok, w') = window_step lim win t w in ok # window_run lim win ts w')"

text \<open>A run of requests on a limiter: the key and the answer of each.\<close>

fun limiter_run ::
  "(time \<Rightarrow> string \<Rightarrow> 's \<Rightarrow> (bool \<times> duration) \<times> 's) \<Rightarrow> (time \<times> string) list \<Rightarrow> 's \<Rightarrow> (string \<times> bool) list" where
  "limiter_run allow [] s = []"
| "limiter_run allow ((t, k) # evs) s =
     (let ((ok, retry), s') = allow t k s in (k, ok) # limiter_run allow evs s')"

definition answers :: "string \<Rightarrow> (string \<times> bool) list \<Rightarrow> bool list" where
  "answers k rs = map snd (filter (\<lambda>r. fst r = k) rs)"

definition times_of :: "string \<Rightarrow> (time \<times> string) list \<Rightarrow> time list" where
  "times_of k evs = map fst (filter (\<lambda>e. snd e = k) evs)"

definition stale :: "duration \<Rightarrow> time \<Rightarrow> key_window \<Rightarrow> bool" where
  "stale win now w \<longleftrightarrow> (case w of None \<Rightarrow> True | Some (s, c) \<Rightarrow> now - s \<ge> win)"

lemma stale_step: "stale win now w \<Longrightarrow> window_step lim win now w = (1 \<le> lim, Some (now, 1))"
  by (cases w) (auto simp: stale_def)

lemma stale_mono: "stale win t w \<Longrightarrow> t \<le> t' \<Longrightarrow> stale win t' w"
  by (auto simp: stale_def split: option.splits)

locale keyed_limiter =
  fixes allow :: "time \<Rightarrow> string \<Rightarrow> 's \<Rightarrow> (bool \<times> duration) \<times> 's"
    and view :: "'s \<Rightarrow> string \<Rightarrow> key_window"
    and inv :: "time \<Rightarrow> 's \<Rightarrow> bool"
    and lim :: int and win :: duration
  assumes allow_key: "inv T s \<Longrightarrow> T \<le> now \<Longrightarrow> allow now k s = ((ok, retry), s') \<Longrightarrow>
      (ok, view s' k) = window_step lim win now (view s k) \<and> inv now s'"
    and allow_other: "inv T s \<Longrightarrow> T \<le> now \<Longrightarrow> allow now k s = ((ok, retry), s') \<Longrightarrow> j \<noteq> k \<Longrightarrow>
      view s' j = view s j \<or> view s' j = None \<and> stale win now (view s j)"
begin

definition agrees :: "time \<Rightarrow> 's \<Rightarrow> string \<Rightarrow> key_window \<Rightarrow> bool" where
  "agrees T s k w \<longleftrightarrow> view s k = w \<or> view s k = None \<and> stale win T w"

lemma agrees_step: "agrees T s k w \<Longrightarrow> T \<le> now \<Longrightarrow>
    window_step lim win now (view s k) = window_step lim win now w"
  using stale_step [of win now w lim] by (auto simp: agrees_def dest: stale_mono)

lemma run_key:
  assumes "inv T s" "agrees T s k w" "sorted_wrt (\<le>) (T # map fst evs)"
  shows "answers k (limiter_run allow evs s) = window_run lim win (times_of k evs) w"
  using assms
proof (induction evs arbitrary: T s w)
  case Nil
  then show ?case by (simp add: answers_def times_of_def)
next
  case (Cons ev evs)
  obtain t j where ev: "ev = (t, j)" by (cases ev)
  obtain ok retry s' where run: "allow t j s = ((ok, retry), s')" by (metis surj_pair)
  have t: "T \<le> t" "sorted_wrt (\<le>) (t # map fst evs)" using Cons.prems ev by auto
  note key = allow_key [OF Cons.prems(1) t(1) run]
  show ?case
  proof (cases "j = k")
    case True
    have "window_step lim win t w = (ok, view s' k)"
      using key agrees_step [OF Cons.prems(2) t(1)] True by simp
    moreover have "agrees t s' k (view s' k)" by (simp add: agrees_def)
    ultimately show ?thesis
      using Cons.IH [of t s' "view s' k"] conjunct2 [OF key] t(2) run True
      by (simp add: ev answers_def times_of_def)
  next
    case False
    have "agrees t s' k w"
      using allow_other [OF Cons.prems(1) t(1) run, of k] False Cons.prems(2) stale_mono [OF _ t(1)]
      by (auto simp: agrees_def)
    then show ?thesis
      using Cons.IH [of t s' w] key t(2) run False by (simp add: ev answers_def times_of_def)
  qed
qed

lemma run_from:
  assumes "inv T s" "sorted_wrt (\<le>) (T # map fst evs)"
  shows "answers k (limiter_run allow evs s) = window_run lim win (times_of k evs) (view s k)"
  using run_key [OF assms(1) _ assms(2), of k "view s k"] by (simp add: agrees_def)

end

section \<open>Both limiters keep the contract\<close>

definition entry_view :: "limiter_map \<Rightarrow> string \<Rightarrow> key_window" where
  "entry_view es k = map_option (\<lambda>e. (WindowStart e, Count e)) (map_of es k)"

definition limiter_inv :: "duration \<Rightarrow> time \<Rightarrow> limiter_map \<Rightarrow> bool" where
  "limiter_inv win T es \<longleftrightarrow> 0 < win \<and> 2 * win \<le> max_int64 \<and> zero_time < T \<and> distinct (map fst es) \<and>
     (\<forall>e \<in> snd ` set es. zero_time < WindowStart e \<and> WindowStart e \<le> LastSeen e \<and> LastSeen e \<le> T)"

definition dyn_state :: "duration \<Rightarrow> time \<Rightarrow> string \<Rightarrow> limiter_map \<Rightarrow> limiterEntry" where
  "dyn_state win now key es =
     (let entry = map_read es key;
          entry = (if WindowStart entry = zero_time \<or> time_Sub now (WindowStart entry) \<ge> win
                   then entry\<lparr>WindowStart := now, Count := 0\<rparr> else entry)
      in entry\<lparr>Count := Count entry + 1, LastSeen := now\<rparr>)"

definition evict :: "duration \<Rightarrow> time \<Rightarrow> limiter_map \<Rightarrow> limiter_map" where
  "evict win now es = (if length es > 4096
     then filter (\<lambda>(k, candidate). \<not> LastSeen candidate < now + wrap64 (- 2 * win)) es else es)"

lemma DynamicAllow_eq:
  "0 < lim \<Longrightarrow> DynamicAllow now key lim win es =
     (let e = dyn_state win now key es; es' = evict win now (AList.update key e es) in
      if Count e \<le> lim then ((True, 0), es')
      else ((False, max second (wrap64 (win - time_Sub now (WindowStart e)))), es'))"
  by (simp add: DynamicAllow_def dyn_state_def evict_def Let_def max_def)

lemma Allow_eq:
  "Allow now key l =
     (let e = dyn_state (window l) now key (entries l);
          l' = l\<lparr>entries := evict (window l) now (AList.update key e (entries l))\<rparr> in
      if Count e \<le> limit l then ((True, 0), l')
      else ((False, max second (wrap64 (window l - time_Sub now (WindowStart e)))), l'))"
  by (simp add: Allow_def dyn_state_def evict_def Let_def max_def)

lemma map_of_filter_distinct:
  "distinct (map fst es) \<Longrightarrow> map_of (filter (\<lambda>(k, v). P v) es) j =
     (case map_of es j of None \<Rightarrow> None | Some v \<Rightarrow> if P v then Some v else None)"
  by (induction es) (auto split: option.splits dest: map_of_SomeD simp: image_iff)

lemma distinct_filter_keys: "distinct (map fst es) \<Longrightarrow> distinct (map fst (filter P es))"
  by (induction es) auto

lemma update_values: "snd ` set (AList.update k e es) \<subseteq> insert e (snd ` set es)"
  by (induction es) auto

lemma time_Sub_window:
  "0 < win \<Longrightarrow> 2 * win \<le> max_int64 \<Longrightarrow> time_Sub t u \<ge> win \<longleftrightarrow> t - u \<ge> win"
  by (rule time_Sub_ge) (simp_all add: min_int64_def max_int64_def)

lemma dyn_state_window:
  fixes k :: string
  assumes "limiter_inv win T es" "T \<le> now"
  defines "e \<equiv> dyn_state win now k es"
  shows "(Count e \<le> lim, Some (WindowStart e, Count e)) = window_step lim win now (entry_view es k)"
    and "LastSeen e = now \<and> zero_time < WindowStart e \<and> WindowStart e \<le> now"
proof -
  have w: "0 < win" "2 * win \<le> max_int64" "zero_time < now"
    using assms by (auto simp: limiter_inv_def)
  note sub = time_Sub_window [OF w(1,2)]
  have "(Count e \<le> lim, Some (WindowStart e, Count e)) = window_step lim win now (entry_view es k) \<and>
    LastSeen e = now \<and> zero_time < WindowStart e \<and> WindowStart e \<le> now"
  proof (cases "map_of es k")
    case None
    then show ?thesis
      using w by (simp add: e_def dyn_state_def map_read_def entry_view_def zero_entry_def Let_def)
  next
    case (Some v)
    then have "v \<in> snd ` set es" by (force dest: map_of_SomeD)
    then have "zero_time < WindowStart v" "WindowStart v \<le> now"
      using assms by (auto simp: limiter_inv_def)
    with Some show ?thesis
      using w by (auto simp: e_def dyn_state_def map_read_def entry_view_def sub Let_def)
  qed
  then show "(Count e \<le> lim, Some (WindowStart e, Count e)) = window_step lim win now (entry_view es k)"
    "LastSeen e = now \<and> zero_time < WindowStart e \<and> WindowStart e \<le> now" by auto
qed

lemma limiter_step:
  fixes k :: string
  assumes "limiter_inv win T es" "T \<le> now"
  defines "e \<equiv> dyn_state win now k es"
  defines "es' \<equiv> evict win now (AList.update k e es)"
  shows "(Count e \<le> lim, entry_view es' k) = window_step lim win now (entry_view es k)"
    and "limiter_inv win now es'"
    and "j \<noteq> k \<Longrightarrow> entry_view es' j = entry_view es j \<or>
      entry_view es' j = None \<and> stale win now (entry_view es j)"
proof -
  have w: "0 < win" "2 * win \<le> max_int64" "zero_time < now" and d: "distinct (map fst es)"
    and es: "\<forall>e \<in> snd ` set es. zero_time < WindowStart e \<and> WindowStart e \<le> LastSeen e \<and> LastSeen e \<le> T"
    using assms by (auto simp: limiter_inv_def)
  have cut: "wrap64 (- 2 * win) = - 2 * win"
    using w by (simp add: wrap64_id min_int64_def max_int64_def)
  have e: "LastSeen e = now" "zero_time < WindowStart e" "WindowStart e \<le> now"
    using dyn_state_window(2) [OF assms(1,2), of k] by (auto simp: e_def)
  have d': "distinct (map fst (AList.update k e es))" using d by (rule distinct_update)
  have view: "map_of es' j = (case map_of (AList.update k e es) j of None \<Rightarrow> None
      | Some v \<Rightarrow> if length (AList.update k e es) > 4096 \<and> LastSeen v < now - 2 * win then None else Some v)" for j
    using map_of_filter_distinct [OF d'] cut
    by (auto simp: es'_def evict_def split: option.splits)
  have "map_of es' k = Some e" using e w by (simp add: view update_conv)
  then show "(Count e \<le> lim, entry_view es' k) = window_step lim win now (entry_view es k)"
    using dyn_state_window(1) [OF assms(1,2), of k lim] by (simp add: entry_view_def e_def)
  have "snd ` set es' \<subseteq> insert e (snd ` set es)"
    using update_values [of k e es] by (auto simp: es'_def evict_def)
  then show "limiter_inv win now es'"
    using w d' e es \<open>T \<le> now\<close> distinct_filter_keys [OF d']
    by (auto simp: limiter_inv_def es'_def evict_def) fastforce+
  assume j: "j \<noteq> k"
  have "map_of (AList.update k e es) j = map_of es j" using j by (simp add: update_conv)
  moreover have "stale win now (entry_view es j)" if "map_of es j = Some v" "LastSeen v < now - 2 * win" for v
    using that es w by (auto simp: stale_def entry_view_def dest!: map_of_SomeD)
  ultimately show "entry_view es' j = entry_view es j \<or>
      entry_view es' j = None \<and> stale win now (entry_view es j)"
    by (auto simp: entry_view_def view split: option.splits)
qed


interpretation fixed: keyed_limiter Allow "\<lambda>l. entry_view (entries l)"
  "\<lambda>T l. limiter_inv win T (entries l) \<and> limit l = lim \<and> window l = win" lim win for lim win
proof (unfold_locales, goal_cases)
  case (1 T l now k ok retry l')
  then show ?case
    using limiter_step(1) [of win T "entries l" now k lim] limiter_step(2) [of win T "entries l" now k]
    by (auto simp: Allow_eq Let_def split: if_splits)
next
  case (2 T l now k ok retry l' j)
  then show ?case
    using limiter_step(3) [of win T "entries l" now j k]
    by (auto simp: Allow_eq Let_def split: if_splits)
qed

interpretation dynamic: keyed_limiter "\<lambda>t k. DynamicAllow t k (int n + 1) win" entry_view
  "limiter_inv win" "int n + 1" win for n win
proof (unfold_locales, goal_cases)
  case (1 T es now k ok retry es')
  then show ?case
    using limiter_step(1) [of win T es now k "int n + 1"] limiter_step(2) [of win T es now k]
    by (auto simp: DynamicAllow_eq Let_def split: if_splits)
next
  case (2 T es now k ok retry es' j)
  then show ?case
    using limiter_step(3) [of win T es now j k]
    by (auto simp: DynamicAllow_eq Let_def split: if_splits)
qed

section \<open>What a window admits\<close>

lemma window_run_open:
  assumes "\<forall>t \<in> set ts. t < s + win"
  shows "window_run lim win ts (Some (s, c)) = map (\<lambda>i. c + int i < lim) [0..<length ts]"
  using assms
proof (induction ts arbitrary: c)
  case Nil
  then show ?case by simp
next
  case (Cons t ts)
  then have "window_run lim win (t # ts) (Some (s, c)) =
      (c + 1 \<le> lim) # map (\<lambda>i. c + 1 + int i < lim) [0..<length ts]" by simp
  also have "\<dots> = map (\<lambda>i. c + int i < lim) [0..<Suc (length ts)]"
    by (simp add: upt_conv_Cons map_Suc_upt [symmetric] comp_def algebra_simps del: upt_Suc) auto
  finally show ?case by simp
qed

text \<open>The accepted requests of a run with times in \<open>[a, b)\<close>.\<close>

definition accepted :: "time \<Rightarrow> time \<Rightarrow> time list \<Rightarrow> bool list \<Rightarrow> int" where
  "accepted a b ts oks = int (length (filter (\<lambda>(t, ok). ok \<and> a \<le> t \<and> t < b) (zip ts oks)))"

lemma accepted_Cons [simp]:
  "accepted a b (t # ts) (ok # oks) = (if ok \<and> a \<le> t \<and> t < b then 1 else 0) + accepted a b ts oks"
  by (simp add: accepted_def)

lemma accepted_Nil [simp]: "accepted a b [] oks = 0"
  by (simp add: accepted_def)

lemma accepted_in_window:
  assumes "b \<le> s + win" "sorted ts"
  shows "accepted a b ts (window_run lim win ts (Some (s, c))) \<le> max 0 (lim - c)"
  using assms
proof (induction ts arbitrary: c)
  case Nil
  then show ?case by simp
next
  case (Cons t ts)
  show ?case
  proof (cases "t < s + win")
    case True
    then show ?thesis using Cons.IH [of "c + 1"] Cons.prems by auto
  next
    case False
    have "accepted a b ts oks = 0" for oks
      using Cons.prems False by (auto simp: accepted_def filter_empty_conv dest!: set_zip_leftD)
    then show ?thesis using Cons.prems False by auto
  qed
qed

lemma accepted_after:
  assumes "0 \<le> lim" "sorted ts" "\<forall>t \<in> set ts. a \<le> t"
  shows "accepted a (a + win) ts (window_run lim win ts w) \<le>
    (case w of None \<Rightarrow> lim | Some (s, c) \<Rightarrow> max 0 (lim - c) + lim)"
  using assms
proof (induction ts arbitrary: w)
  case Nil
  then show ?case by (auto split: option.splits)
next
  case (Cons t ts)
  have new: "accepted a (a + win) ts (window_run lim win ts (Some (t, 1))) \<le> max 0 (lim - 1)"
    using accepted_in_window [of "a + win" t win ts a lim 1] Cons.prems by auto
  show ?case
  proof (cases w)
    case None
    then show ?thesis using new Cons.prems by auto
  next
    case (Some sc)
    obtain s c where w: "w = Some (s, c)" using Some by (cases sc) auto
    then show ?thesis using new Cons.IH [of "Some (s, c + 1)"] Cons.prems by auto
  qed
qed

lemma accepted_bound:
  assumes "0 \<le> lim" "sorted ts" "\<forall>s c. w = Some (s, c) \<longrightarrow> 0 \<le> c"
  shows "accepted a (a + win) ts (window_run lim win ts w) \<le> 2 * lim"
  using assms
proof (induction ts arbitrary: w)
  case Nil
  then show ?case by simp
next
  case (Cons t ts)
  show ?case
  proof (cases "a \<le> t")
    case True
    then have "\<forall>x \<in> set (t # ts). a \<le> x" using Cons.prems(2) by auto
    from accepted_after [OF Cons.prems(1,2) this, of win w] Cons.prems(1,3) show ?thesis
      by (cases w) auto
  next
    case False
    obtain ok w' where st: "window_step lim win t w = (ok, w')" by fastforce
    have "\<forall>s c. w' = Some (s, c) \<longrightarrow> 0 \<le> c"
      using st Cons.prems(3) by (cases w) (auto split: if_splits)
    then show ?thesis using Cons.IH [of w'] Cons.prems st False by simp
  qed
qed

section \<open>The replay cache\<close>

type_synonym ReplayCache = "(string \<times> time) list"

definition NewReplayCache :: ReplayCache where
  "NewReplayCache = []"

definition Remember :: "time \<Rightarrow> string \<Rightarrow> duration \<Rightarrow> ReplayCache \<Rightarrow> bool \<times> ReplayCache" where
  "Remember now key ttl es =
     (if (case map_of es key of Some expires \<Rightarrow> expires > now | None \<Rightarrow> False) then (False, es)
      else
        let es = AList.update key (now + ttl) es;
            es = (if length es > 4096 then filter (\<lambda>(k, expires). \<not> \<not> expires > now) es else es)
        in (True, es))"

text \<open>A run of \<open>Remember\<close> calls: time, key and time to live of each.\<close>

fun remember_run :: "(time \<times> string \<times> duration) list \<Rightarrow> ReplayCache \<Rightarrow> bool list \<times> ReplayCache" where
  "remember_run [] es = ([], es)"
| "remember_run ((t, k, ttl) # ops) es =
     (let (ok, es) = Remember t k ttl es; (oks, es) = remember_run ops es in (ok # oks, es))"

definition live_until :: "time \<Rightarrow> string \<Rightarrow> ReplayCache \<Rightarrow> bool" where
  "live_until e k es \<longleftrightarrow> distinct (map fst es) \<and> map_of es k = Some e"

lemma map_of_filter_pairs:
  "distinct (map fst es) \<Longrightarrow> map_of (filter (\<lambda>(k, v). P v) es) j =
     (case map_of es j of None \<Rightarrow> None | Some v \<Rightarrow> if P v then Some v else None)"
  by (induction es) (auto split: option.splits dest: map_of_SomeD simp: image_iff)

lemma Remember_distinct: "distinct (map fst es) \<Longrightarrow> distinct (map fst (snd (Remember t k ttl es)))"
  using distinct_filter_keys distinct_update [of es k "t + ttl"]
  by (auto simp: Remember_def Let_def split: option.splits)

lemma Remember_lookup:
  assumes "distinct (map fst es)"
  shows "map_of (snd (Remember t k ttl es)) j =
    (if j = k \<and> fst (Remember t k ttl es) then (if length (AList.update k (t + ttl) es) > 4096 \<and> ttl \<le> 0 then None else Some (t + ttl))
     else if fst (Remember t k ttl es) \<and> length (AList.update k (t + ttl) es) > 4096
     then (case map_of es j of Some e \<Rightarrow> if e > t then Some e else None | None \<Rightarrow> None)
     else map_of es j)"
  using map_of_filter_pairs [OF distinct_update [OF assms], of "\<lambda>v. \<not> \<not> v > t" k "t + ttl" j]
  by (auto simp: Remember_def Let_def update_conv split: option.splits)

lemma Remember_live:
  assumes "live_until e k es" "t < e"
  shows "live_until e k (snd (Remember t j ttl es))" "j = k \<Longrightarrow> \<not> fst (Remember t j ttl es)"
proof -
  have d: "distinct (map fst es)" and e: "map_of es k = Some e"
    using assms by (auto simp: live_until_def)
  show dup: "j = k \<Longrightarrow> \<not> fst (Remember t j ttl es)"
    using e \<open>t < e\<close> by (simp add: Remember_def)
  show "live_until e k (snd (Remember t j ttl es))"
    using Remember_distinct [OF d, of t j ttl] Remember_lookup [OF d, of t j ttl k] e \<open>t < e\<close> dup
    by (auto simp: live_until_def)
qed

lemma remember_run_live:
  "live_until e k es \<Longrightarrow> \<forall>(t, j, ttl) \<in> set ops. t < e \<Longrightarrow>
   live_until e k (snd (remember_run ops es)) \<and>
   (\<forall>i < length ops. fst (snd (ops ! i)) = k \<longrightarrow> \<not> fst (remember_run ops es) ! i)"
proof (induction ops arbitrary: es)
  case Nil
  then show ?case by simp
next
  case (Cons op ops)
  obtain t j ttl where op: "op = (t, j, ttl)" by (cases op)
  obtain ok es1 where r: "Remember t j ttl es = (ok, es1)" by fastforce
  have "live_until e k es1" "j = k \<Longrightarrow> \<not> ok"
    using Remember_live [of e k es t j ttl] Cons.prems r op by auto
  with Cons.IH [of es1] Cons.prems r op show ?case
    by (auto simp: split_beta nth_Cons split: nat.splits)
qed

lemma Remember_new:
  assumes "distinct (map fst es)" "fst (Remember t k ttl es)" "0 < ttl"
  shows "live_until (t + ttl) k (snd (Remember t k ttl es))"
  using Remember_distinct [OF assms(1)] Remember_lookup [OF assms(1), of t k ttl k] assms(2,3)
  by (auto simp: live_until_def)

section \<open>Properties\<close>

text \<open>
  Rate limiting is per key: whatever the other keys do and whatever the eviction of old
  entries removes, the answers a key gets from a \<open>FixedWindowLimiter\<close> are those of its
  own window counter, from any starting state made by \<open>NewFixedWindowLimiter\<close>.
\<close>

theorem limiter_isolates_keys:
  assumes "0 < win" "2 * win \<le> max_int64" "zero_time < t0" "sorted_wrt (\<le>) (t0 # map fst evs)"
  shows "answers k (limiter_run Allow evs (NewFixedWindowLimiter lim win)) =
         window_run lim win (times_of k evs) None"
proof -
  let ?l = "NewFixedWindowLimiter lim win"
  have "limiter_inv win t0 (entries ?l) \<and> limit ?l = lim \<and> window ?l = win"
    using assms by (simp add: limiter_inv_def NewFixedWindowLimiter_def)
  from fixed.run_from [OF this assms(4), of k] show ?thesis
    by (simp add: NewFixedWindowLimiter_def entry_view_def)
qed

theorem limiter_isolates_keys_witness:
  "answers ''a'' (limiter_run Allow [(1, ''a''), (2, ''b''), (3, ''a''), (4, ''a'')]
     (NewFixedWindowLimiter 2 10)) = [True, True, False]"
  using limiter_isolates_keys [of 10 1 "[(1, ''a''), (2, ''b''), (3, ''a''), (4, ''a'')]" "''a''" 2]
  by (simp add: max_int64_def zero_time_def times_of_def)

text \<open>
  Property C39. The bound that both rate limiters give, with a positive limit that stays the same: in every
  interval as long as the window a key is admitted at most twice the limit (not: at most the limit, as
  the window starts with a request), and when all its requests lie within one window of the first
  one exactly the first \<open>lim\<close> of them are admitted. The fixed limiter (\<open>Allow\<close>) and the
  limiter of the webhooks (\<open>DynamicAllow\<close>) give the same answers.
\<close>

theorem limiter_admission_bound:
  fixes k :: string
  assumes "0 < lim" "0 < win" "2 * win \<le> max_int64" "zero_time < t0"
    and "sorted_wrt (\<le>) (t0 # map fst evs)"
  defines "oks \<equiv> answers k (limiter_run (\<lambda>t k. DynamicAllow t k lim win) evs NewDynamicLimiter)"
  shows "answers k (limiter_run Allow evs (NewFixedWindowLimiter lim win)) = oks \<and>
    accepted a (a + win) (times_of k evs) oks \<le> 2 * lim \<and>
    ((\<forall>t \<in> set (times_of k evs). t < hd (times_of k evs) + win) \<longrightarrow>
       oks = map (\<lambda>i. int i < lim) [0..<length (times_of k evs)])"
proof -
  define n where "n = nat (lim - 1)"
  have n: "lim = int n + 1" using assms(1) by (simp add: n_def)
  have "limiter_inv win t0 NewDynamicLimiter"
    using assms by (simp add: limiter_inv_def NewDynamicLimiter_def)
  from dynamic.run_from [OF this assms(5), of k n]
  have oks: "oks = window_run lim win (times_of k evs) None"
    by (simp add: oks_def n entry_view_def NewDynamicLimiter_def)
  have sorted: "sorted (times_of k evs)"
    using assms(5) by (auto simp: times_of_def intro: sorted_filter)
  have "oks = map (\<lambda>i. int i < lim) [0..<length (times_of k evs)]"
    if "\<forall>t \<in> set (times_of k evs). t < hd (times_of k evs) + win"
  proof (cases "times_of k evs")
    case Nil
    then show ?thesis by (simp add: oks)
  next
    case (Cons t ts)
    then have "oks = (1 \<le> lim) # map (\<lambda>i. 1 + int i < lim) [0..<length ts]"
      using that window_run_open [of ts t win lim 1] by (simp add: oks)
    also have "\<dots> = map (\<lambda>i. int i < lim) [0..<Suc (length ts)]"
      by (simp add: upt_conv_Cons map_Suc_upt [symmetric] comp_def del: upt_Suc) auto
    finally show ?thesis using Cons by simp
  qed
  moreover have "answers k (limiter_run Allow evs (NewFixedWindowLimiter lim win)) = oks"
    unfolding oks by (rule limiter_isolates_keys [OF assms(2-5)])
  ultimately show ?thesis
    using accepted_bound [OF _ sorted, of lim None a win] assms(1) by (simp add: oks)
qed

theorem limiter_admission_bound_witness:
  "answers ''a'' (limiter_run (\<lambda>t k. DynamicAllow t k 2 10)
     [(1, ''a''), (2, ''b''), (3, ''a''), (4, ''a'')] NewDynamicLimiter) = [True, True, False] \<and>
   answers ''a'' (limiter_run Allow [(1, ''a''), (2, ''b''), (3, ''a''), (4, ''a'')]
     (NewFixedWindowLimiter 2 10)) = [True, True, False]"
  using limiter_admission_bound [of 2 10 1 "[(1, ''a''), (2, ''b''), (3, ''a''), (4, ''a'')]" "''a''" 0]
  by (simp add: max_int64_def zero_time_def times_of_def)

text \<open>
  Replay protection: once a key with a positive time to live has been accepted, it is
  refused at every later time before its expiry, whatever other keys are remembered in
  between and whatever the clean-up removes, and accepted again from its expiry on.
\<close>

theorem replay_refused_until_expiry:
  assumes "distinct (map fst es)" "fst (Remember t k ttl es)" "0 < ttl"
    and "\<forall>(t', j, ttl') \<in> set ops. t' < t + ttl"
  defines "es' \<equiv> snd (remember_run ops (snd (Remember t k ttl es)))"
  shows "(\<forall>i < length ops. fst (snd (ops ! i)) = k \<longrightarrow>
            \<not> fst (remember_run ops (snd (Remember t k ttl es))) ! i) \<and>
         (fst (Remember t'' k ttl'' es') \<longleftrightarrow> t + ttl \<le> t'')"
proof -
  have "live_until (t + ttl) k es' \<and> (\<forall>i < length ops. fst (snd (ops ! i)) = k \<longrightarrow>
      \<not> fst (remember_run ops (snd (Remember t k ttl es))) ! i)"
    unfolding es'_def by (rule remember_run_live [OF Remember_new [OF assms(1-3)] assms(4)])
  moreover have "fst (Remember t'' k ttl'' es') \<longleftrightarrow> t + ttl \<le> t''" if "map_of es' k = Some (t + ttl)"
    by (simp add: Remember_def that Let_def)
  ultimately show ?thesis by (simp add: live_until_def)
qed

theorem replay_refused_until_expiry_witness:
  "fst (remember_run [(3, ''x'', 5), (4, ''k'', 9)] (snd (Remember 1 ''k'' 10 NewReplayCache))) = [True, False]"
  using replay_refused_until_expiry [of "[]" 1 "''k''" 10 "[(3, ''x'', 5), (4, ''k'', 9)]"]
  by (simp add: Remember_def NewReplayCache_def)

end
