(* ===== verification/Model.thy ===== *)
theory Model
  imports Complex_Main Prelude
begin

text \<open>
  The data of the server, one record per \<open>struct\<close> of \<open>src/model\<close>, with the fields in the order
  of the source and a short prefix per record. A \<open>uint\<close> is a \<^typ>\<open>nat\<close>, an \<open>int\<close> an
  \<^typ>\<open>int\<close>, a pointer to a value an option, a slice a list; a \<open>map[string]any\<close> is the association
  list of its entries, with the values \<open>encoding/json\<close> decodes to.
\<close>

text \<open>
  \<open>JInt\<close> is a number written as an integer (digits, perhaps after a minus), which alone decodes to an integer type;
  \<open>JNum\<close> is any other number, such as \<open>1.0\<close>, \<open>1e2\<close> or \<open>-0\<close>. An object that was decoded has each key
  once: \<open>encoding/json\<close> keeps the last value of a repeated key.
\<close>

datatype json = JNull | JBool bool | JInt int | JNum rat | JStr string | JArr "json list"
  | JObj "(string \<times> json) list"

type_synonym json_object = "(string \<times> json) list"

record message_attachment_view =
  mav_ID :: nat
  mav_Filename :: string
  mav_ContentType :: string
  mav_Size :: int
  mav_URL :: string

record message_reaction_summary =
  mrs_Emoji :: string
  mrs_Count :: int
  mrs_ReactedByMe :: bool

record message_collaboration =
  col_Attachments :: "message_attachment_view list"
  col_Reactions :: "message_reaction_summary list"
  col_AssignedUserID :: nat
  col_AssignedUserName :: string
  col_Status :: string
  col_ResolvedBy :: nat
  col_ResolvedByName :: string
  col_ResolvedAt :: "time option"
  col_Read :: bool
  col_Mentioned :: bool
  col_ReplyCount :: int

record message_external =
  mx_ID :: nat
  mx_ApplicationID :: nat
  mx_Message :: string
  mx_Title :: string
  mx_Priority :: "int option"
  mx_Extras :: json_object
  mx_Date :: time
  mx_SenderUserID :: nat
  mx_SenderName :: string
  mx_ParentMessageID :: nat
  mx_RootMessageID :: nat
  mx_EscalationRuleID :: nat
  mx_EscalationDepth :: int
  mx_ReplyToMessageID :: nat
  mx_ThreadRootMessageID :: nat
  mx_Collaboration :: message_collaboration
  mx_Acknowledged :: bool
  mx_AcknowledgedByAnyone :: bool
  mx_AcknowledgementCount :: int
  mx_LastAcknowledgedBy :: string
  mx_LastAcknowledgedAt :: "time option"

record application =
  app_ID :: nat
  app_Token :: string
  app_UserID :: nat
  app_Name :: string
  app_Description :: string
  app_Internal :: bool
  app_AutoAssign :: bool
  app_AllowMemberPost :: bool
  app_ChannelType :: string
  app_ReceiveNotifications :: "bool option"
  app_CurrentRole :: string
  app_Image :: string
  app_Messages :: "message_external list"
  app_DefaultPriority :: int
  app_RetentionDays :: int
  app_CreatedAt :: time
  app_LastUsed :: "time option"
  app_SortKey :: string

record application_membership =
  mem_ApplicationID :: nat
  mem_UserID :: nat
  mem_ReceiveNotifications :: bool
  mem_NotificationOverride :: "bool option"
  mem_AutoAssigned :: bool
  mem_Role :: string
  mem_GroupRole :: string
  mem_GroupAssigned :: bool
  mem_GroupReceiveNotifications :: bool
  mem_EffectiveRole :: string
  mem_CreatedAt :: time
  mem_UpdatedAt :: time

record group_assignment =
  gra_ApplicationID :: nat
  gra_GroupID :: nat
  gra_Role :: string
  gra_ReceiveNotifications :: bool
  gra_CreatedAt :: time
  gra_UpdatedAt :: time

record client =
  cl_ID :: nat
  cl_Token :: string
  cl_UserID :: nat
  cl_Name :: string
  cl_CreatedAt :: time
  cl_LastUsed :: "time option"
  cl_ElevatedUntil :: "time option"
  cl_MFAAuthenticated :: bool
  cl_ExpiresAfterInactivitySeconds :: nat
  cl_ExpiresAt :: "time option"

record plugin_conf =
  plg_ID :: nat
  plg_UserID :: nat
  plg_ModulePath :: string
  plg_Token :: string
  plg_ApplicationID :: nat
  plg_Enabled :: bool
  plg_CreatedAt :: time
  plg_Config :: bytes
  plg_Storage :: bytes

record user =
  usr_ID :: nat
  usr_Name :: string
  usr_DisplayName :: string
  usr_Pass :: bytes
  usr_Admin :: bool
  usr_CreatedAt :: time
  usr_Applications :: "application list"
  usr_Clients :: "client list"
  usr_Plugins :: "plugin_conf list"
  usr_OIDCID :: "string option"
  usr_LDAPID :: "string option"

record create_user_external =
  cue_Name :: string
  cue_DisplayName :: string
  cue_Admin :: bool
  cue_Pass :: string

record user_external =
  uex_ID :: nat
  uex_Name :: string
  uex_DisplayName :: string
  uex_Admin :: bool
  uex_CreatedAt :: time

record user_mfa =
  mfa_UserID :: nat
  mfa_Secret :: string
  mfa_RecoveryHashes :: string
  mfa_Enabled :: bool
  mfa_EnrolledAt :: "time option"
  mfa_UpdatedAt :: time

record security_policy =
  pol_MinimumPasswordLength :: int
  pol_SessionInactivityMinutes :: int
  pol_ElevationMinutes :: int
  pol_RequireMFAForAdmins :: bool
  pol_RequireMFAForAllLocalUsers :: bool
  pol_AuditRetentionDays :: int

record service_account =
  sa_ID :: nat
  sa_Name :: string
  sa_Scopes :: string
  sa_AllowedApplicationIDs :: string
  sa_Enabled :: bool
  sa_CreatedBy :: nat
  sa_CreatedAt :: time
  sa_UpdatedAt :: time
  sa_LastUsedAt :: "time option"

record service_account_token =
  sat_ID :: nat
  sat_AccountID :: nat
  sat_TokenHash :: string
  sat_TokenPrefix :: string
  sat_Name :: string
  sat_CreatedAt :: time
  sat_ExpiresAt :: "time option"
  sat_LastUsedAt :: "time option"

record user_group =
  grp_ID :: nat
  grp_Name :: string
  grp_Description :: string
  grp_CreatedAt :: time
  grp_UpdatedAt :: time

record user_group_membership =
  grm_GroupID :: nat
  grm_UserID :: nat
  grm_CreatedAt :: time

record message =
  msg_ID :: nat
  msg_ApplicationID :: nat
  msg_Message :: string
  msg_Title :: string
  msg_Priority :: int
  msg_Extras :: bytes
  msg_Date :: time
  msg_SenderUserID :: nat
  msg_SenderName :: string
  msg_DeduplicationKey :: string
  msg_ParentMessageID :: nat
  msg_RootMessageID :: nat
  msg_EscalationRuleID :: nat
  msg_EscalationDepth :: int
  msg_ReplyToMessageID :: nat
  msg_ThreadRootMessageID :: nat
  msg_Collaboration :: message_collaboration
  msg_Acknowledged :: bool
  msg_AcknowledgedByAnyone :: bool
  msg_AcknowledgementCount :: int
  msg_LastAcknowledgedBy :: string
  msg_LastAcknowledgedAt :: "time option"

record mqtt_integration =
  mqi_ID :: nat
  mqi_Name :: string
  mqi_ApplicationID :: nat
  mqi_BrokerURL :: string
  mqi_ClientID :: string
  mqi_Username :: string
  mqi_Password :: string
  mqi_ProtocolVersion :: int
  mqi_QoS :: int
  mqi_CACertificate :: string
  mqi_ClientCertificate :: string
  mqi_ClientKey :: string
  mqi_Topic :: string
  mqi_Enabled :: bool
  mqi_Status :: string
  mqi_LastConnectedAt :: "time option"
  mqi_LastMessageAt :: "time option"
  mqi_LastError :: string
  mqi_LastErrorAt :: "time option"
  mqi_ReconnectCount :: int
  mqi_CreatedAt :: time
  mqi_UpdatedAt :: time

record home_assistant_integration =
  ha_ID :: nat
  ha_Name :: string
  ha_ApplicationID :: nat
  ha_ConnectionMode :: string
  ha_BaseURL :: string
  ha_Token :: string
  ha_NativeWebhookURL :: string
  ha_NativeSecret :: string
  ha_PairingCodeHash :: string
  ha_PairingExpiresAt :: "time option"
  ha_EventType :: string
  ha_EntityIDs :: string
  ha_DataField :: string
  ha_DataValue :: string
  ha_Enabled :: bool
  ha_Status :: string
  ha_LastConnectedAt :: "time option"
  ha_LastEventAt :: "time option"
  ha_LastError :: string
  ha_LastErrorAt :: "time option"
  ha_ReconnectCount :: int
  ha_CreatedAt :: time
  ha_UpdatedAt :: time

record scheduled_notification =
  sch_ID :: nat
  sch_Name :: string
  sch_ApplicationID :: nat
  sch_Title :: string
  sch_Message :: string
  sch_Priority :: int
  sch_ScheduleType :: string
  sch_RunAt :: "time option"
  sch_Hour :: int
  sch_Minute :: int
  sch_Weekday :: int
  sch_CronExpression :: string
  sch_ExcludedDates :: string
  sch_Timezone :: string
  sch_EndAt :: "time option"
  sch_MaxRuns :: int
  sch_RunCount :: int
  sch_MisfirePolicy :: string
  sch_Enabled :: bool
  sch_LastRunAt :: "time option"
  sch_NextRunAt :: "time option"
  sch_LastStatus :: string
  sch_LastError :: string
  sch_CreatedAt :: time
  sch_UpdatedAt :: time

record scheduled_notification_run =
  run_ID :: nat
  run_ScheduleID :: nat
  run_ScheduledFor :: time
  run_StartedAt :: time
  run_FinishedAt :: "time option"
  run_Status :: string
  run_MessageID :: nat
  run_Error :: string

record quiet_hours_policy =
  qh_ID :: nat
  qh_UserID :: nat
  qh_Enabled :: bool
  qh_StartMinute :: int
  qh_EndMinute :: int
  qh_Timezone :: string
  qh_AllowPriority :: int
  qh_Mode :: string
  qh_CreatedAt :: time
  qh_UpdatedAt :: time

record digest_policy =
  dp_ID :: nat
  dp_UserID :: nat
  dp_Enabled :: bool
  dp_IntervalMinutes :: int
  dp_ImmediatePriority :: int
  dp_LastSentAt :: "time option"
  dp_NextRunAt :: "time option"
  dp_CreatedAt :: time
  dp_UpdatedAt :: time

record digest_item =
  di_ID :: nat
  di_UserID :: nat
  di_MessageID :: nat
  di_ApplicationID :: nat
  di_Title :: string
  di_Message :: string
  di_Priority :: int
  di_CreatedAt :: time

record escalation_rule =
  er_ID :: nat
  er_Name :: string
  er_SourceApplicationID :: nat
  er_TargetApplicationID :: nat
  er_TargetType :: string
  er_TargetID :: nat
  er_MinPriority :: int
  er_DelayMinutes :: int
  er_RepeatMinutes :: int
  er_MaxRepeats :: int
  er_Enabled :: bool
  er_CreatedAt :: time
  er_UpdatedAt :: time

record escalation_state =
  es_ID :: nat
  es_RuleID :: nat
  es_MessageID :: nat
  es_DueAt :: time
  es_RepeatCount :: int
  es_LastEscalatedMessageID :: nat
  es_Completed :: bool
  es_CreatedAt :: time
  es_DoneAt :: "time option"

record deferred_notification =
  dn_UserID :: nat
  dn_MessageID :: nat
  dn_CreatedAt :: time

record automation_lease =
  ls_Name :: string
  ls_Holder :: string
  ls_ExpiresAt :: time
  ls_UpdatedAt :: time

record message_dismissal =
  dis_UserID :: nat
  dis_MessageID :: nat
  dis_Archived :: bool
  dis_CreatedAt :: time

record message_acknowledgement =
  ack_UserID :: nat
  ack_MessageID :: nat
  ack_AcknowledgedAt :: time

record escalation_target =
  eta_TargetType :: string
  eta_TargetID :: nat
  eta_ApplicationID :: nat
  eta_CreatedAt :: time
  eta_UpdatedAt :: time

record message_attachment =
  mat_ID :: nat
  mat_MessageID :: nat
  mat_Filename :: string
  mat_ContentType :: string
  mat_Size :: int
  mat_StorageName :: string
  mat_CreatedAt :: time

record message_reaction =
  mre_MessageID :: nat
  mre_UserID :: nat
  mre_Emoji :: string
  mre_CreatedAt :: time

record message_workflow =
  mwf_MessageID :: nat
  mwf_AssignedUserID :: nat
  mwf_Status :: string
  mwf_ResolvedBy :: nat
  mwf_ResolvedAt :: "time option"
  mwf_UpdatedAt :: time

record message_read =
  mrd_UserID :: nat
  mrd_MessageID :: nat
  mrd_ReadAt :: time

record message_mention =
  mmn_MessageID :: nat
  mmn_UserID :: nat

record create_message =
  cm_ApplicationID :: nat
  cm_Message :: string
  cm_Title :: string
  cm_Priority :: "int option"
  cm_Extras :: "json_object option"

record paging =
  pg_Next :: string
  pg_Size :: int
  pg_Since :: nat
  pg_Limit :: int

record paged_messages =
  pgm_Paging :: paging
  pgm_Messages :: "message_external list"

section \<open>Client expiry\<close>

text \<open>\<open>src/model/client.go\<close>: sessions expire after a time of inactivity.\<close>

definition calculateExpiresAt :: "client \<Rightarrow> time option" where
  "calculateExpiresAt c =
     (if cl_ExpiresAfterInactivitySeconds c = 0 then None
      else
        let reference = (case cl_LastUsed c of Some t \<Rightarrow> t | None \<Rightarrow> cl_CreatedAt c) in
        Some (reference + wrap64 (wrap64 (int (cl_ExpiresAfterInactivitySeconds c)) * second)))"

definition PopulateExpiresAt :: "client \<Rightarrow> client" where
  "PopulateExpiresAt c = c\<lparr>cl_ExpiresAt := calculateExpiresAt c\<rparr>"

section \<open>Channel roles\<close>

text \<open>\<open>src/model/application_membership.go\<close>\<close>

definition ChannelRoleReadOnly :: string where "ChannelRoleReadOnly = ''readonly''"
definition ChannelRoleMember :: string where "ChannelRoleMember = ''member''"
definition ChannelRolePublisher :: string where "ChannelRolePublisher = ''publisher''"
definition ChannelRoleManager :: string where "ChannelRoleManager = ''manager''"
definition ChannelRoleOwner :: string where "ChannelRoleOwner = ''owner''"

lemmas role_defs = ChannelRoleReadOnly_def ChannelRoleMember_def ChannelRolePublisher_def
  ChannelRoleManager_def ChannelRoleOwner_def

definition ChannelRoleRank :: "string \<Rightarrow> int" where
  "ChannelRoleRank role =
     (if role = ChannelRoleOwner then 5
      else if role = ChannelRoleManager then 4
      else if role = ChannelRolePublisher then 3
      else if role = ChannelRoleMember then 2
      else if role = ChannelRoleReadOnly then 1
      else 0)"

definition NormalizeChannelRole :: "string \<Rightarrow> string" where
  "NormalizeChannelRole role =
     (if role = ChannelRoleReadOnly \<or> role = ChannelRoleMember \<or> role = ChannelRolePublisher \<or>
         role = ChannelRoleManager
      then role else ChannelRoleMember)"

definition EffectiveChannelRole :: "bool \<Rightarrow> application_membership option \<Rightarrow> string" where
  "EffectiveChannelRole owner membership =
     (if owner then ChannelRoleOwner
      else
        case membership of
          None \<Rightarrow> ''''
        | Some m \<Rightarrow>
            let best = (if mem_Role m \<noteq> '''' then NormalizeChannelRole (mem_Role m) else '''');
                best = (if mem_AutoAssigned m \<and> ChannelRoleRank best < ChannelRoleRank ChannelRoleMember
                        then ChannelRoleMember else best);
                best = (if mem_GroupAssigned m \<and> ChannelRoleRank (mem_GroupRole m) > ChannelRoleRank best
                        then NormalizeChannelRole (mem_GroupRole m) else best)
            in if best = '''' \<and> \<not> mem_GroupAssigned m then ChannelRoleMember else best)"

lemma rank_normalize:
  "ChannelRoleRank (NormalizeChannelRole r) =
     (if r = ChannelRoleOwner \<or> ChannelRoleRank r = 0 then 2 else ChannelRoleRank r)"
  by (simp add: ChannelRoleRank_def NormalizeChannelRole_def role_defs)

lemma rank_simps [simp]:
  "ChannelRoleRank '''' = 0" "ChannelRoleRank ChannelRoleMember = 2"
  "ChannelRoleRank ChannelRoleOwner = 5" "0 \<le> ChannelRoleRank r" "ChannelRoleRank r \<le> 5"
  by (simp_all add: ChannelRoleRank_def role_defs)

lemma normalize_idem [simp]: "NormalizeChannelRole (NormalizeChannelRole r) = NormalizeChannelRole r"
  by (simp add: NormalizeChannelRole_def)

lemma rank_zero_iff: "NormalizeChannelRole r \<noteq> ''''"
  by (simp add: NormalizeChannelRole_def role_defs)

text \<open>
  The effective role of a member who is not the owner is the best of the sources that grant
  one: the direct role, membership by auto-assignment and the role of a group. A membership
  without any source grants the role of a member, one through a group alone nothing beyond the
  group's role; nobody but the owner gets the owner's rank.
\<close>

theorem effective_role_is_best_source:
  assumes "mem_GroupRole m \<noteq> ChannelRoleOwner"
  shows "ChannelRoleRank (EffectiveChannelRole False (Some m)) =
     Max {if mem_Role m \<noteq> '''' then ChannelRoleRank (NormalizeChannelRole (mem_Role m)) else 0,
          if mem_AutoAssigned m then ChannelRoleRank ChannelRoleMember else 0,
          if mem_GroupAssigned m then ChannelRoleRank (mem_GroupRole m) else 0,
          if mem_Role m = '''' \<and> \<not> mem_GroupAssigned m then ChannelRoleRank ChannelRoleMember else 0} \<and>
     ChannelRoleRank (EffectiveChannelRole False (Some m)) < ChannelRoleRank ChannelRoleOwner \<and>
     EffectiveChannelRole True (Some m) = ChannelRoleOwner \<and> EffectiveChannelRole False None = ''''"
proof -
  define r where "r = ChannelRoleRank (NormalizeChannelRole (mem_Role m))"
  define g where "g = ChannelRoleRank (mem_GroupRole m)"
  have r: "1 \<le> r" "r \<le> 4"
    by (simp_all add: r_def NormalizeChannelRole_def ChannelRoleRank_def role_defs)
  have g: "0 \<le> g" "g \<le> 4" using assms by (simp_all add: g_def ChannelRoleRank_def role_defs)
  have n: "g > 0 \<Longrightarrow> ChannelRoleRank (NormalizeChannelRole (mem_GroupRole m)) = g"
    using assms by (simp add: rank_normalize g_def)
  have ne: "NormalizeChannelRole (mem_Role m) \<noteq> ''''" "NormalizeChannelRole (mem_GroupRole m) \<noteq> ''''"
    "ChannelRoleMember \<noteq> ''''"
    using rank_zero_iff by (simp_all add: role_defs)
  show ?thesis
    using r g n ne
    by (cases "mem_Role m = ''''"; cases "mem_AutoAssigned m"; cases "mem_GroupAssigned m")
      (auto simp: EffectiveChannelRole_def Let_def r_def [symmetric] g_def [symmetric])
qed

definition demo_membership :: application_membership where
  "demo_membership = \<lparr>mem_ApplicationID = 1, mem_UserID = 2, mem_ReceiveNotifications = True,
     mem_NotificationOverride = None, mem_AutoAssigned = True, mem_Role = ''readonly'',
     mem_GroupRole = ''publisher'', mem_GroupAssigned = True, mem_GroupReceiveNotifications = True,
     mem_EffectiveRole = '''', mem_CreatedAt = 0, mem_UpdatedAt = 0\<rparr>"

theorem effective_role_is_best_source_witness:
  "ChannelRoleRank (EffectiveChannelRole False (Some demo_membership)) = 3"
  using effective_role_is_best_source [of demo_membership]
  by (simp add: demo_membership_def role_defs ChannelRoleRank_def NormalizeChannelRole_def)

end
