(* ===== verification/Schedule.thy ===== *)
theory Schedule
  imports Model
begin

text \<open>
  Scheduled notifications: the functions on schedules of \<open>src/automation/engine.go\<close>
  (\<open>scheduleLocation\<close> to \<open>NextScheduleRun\<close>, \<open>quietNow\<close>, \<open>clamp\<close>), with the part of the package
  \<open>time\<close> they use. A location is the look-up of \<open>time.Location\<close>: for an instant in Unix seconds the
  offset in force and the bounds of its validity. The time zone database and the cron
  parser are parameters (record \<open>zone_env\<close>).
\<close>

section \<open>Local time\<close>

type_synonym location = "int \<Rightarrow> int \<times> int \<times> int"

definition UTC :: location where
  "UTC = (\<lambda>_. (0, min_int64, max_int64))"

definition local_seconds :: "location \<Rightarrow> time \<Rightarrow> int" where
  "local_seconds loc t = time_Unix t + fst (loc (time_Unix t))"

definition local_day :: "location \<Rightarrow> time \<Rightarrow> int" where
  "local_day loc t = local_seconds loc t div 86400"

definition local_Hour :: "location \<Rightarrow> time \<Rightarrow> int" where
  "local_Hour loc t = local_seconds loc t mod 86400 div 3600"

definition local_Minute :: "location \<Rightarrow> time \<Rightarrow> int" where
  "local_Minute loc t = local_seconds loc t mod 3600 div 60"

text \<open>The first of January 1970 was a Thursday.\<close>

definition local_Weekday :: "location \<Rightarrow> time \<Rightarrow> int" where
  "local_Weekday loc t = (local_day loc t + 4) mod 7"

text \<open>
  \<open>time.Date\<close>, with year, month and day replaced by the day number: the offset is looked up as if
  the local time were UTC, and again where that guess is outside its validity.
\<close>

definition time_Date :: "int \<Rightarrow> int \<Rightarrow> int \<Rightarrow> int \<Rightarrow> location \<Rightarrow> time" where
  "time_Date day hr mi sec loc =
     (let unix = day * 86400 + hr * 3600 + mi * 60 + sec;
          (offset, start, end) = loc unix in
      if offset \<noteq> 0 then
        let utc = unix - offset;
            offset = (if utc < start \<or> utc \<ge> end then fst (loc utc) else offset)
        in (unix - offset) * second
      else unix * second)"

definition time_AddDate :: "location \<Rightarrow> time \<Rightarrow> int \<Rightarrow> time" where
  "time_AddDate loc t days =
     time_Date (local_day loc t + days) (local_Hour loc t) (local_Minute loc t)
       (local_seconds loc t mod 60) loc + t mod second"

text \<open>\<open>Format("2006-01-02")\<close>: the Gregorian date of a day number.\<close>

definition civil :: "int \<Rightarrow> int \<times> int \<times> int" where
  "civil days =
     (let z = days + 719468; era = z div 146097; doe = z mod 146097;
          yoe = (doe - doe div 1460 + doe div 36524 - doe div 146096) div 365;
          doy = doe - (365 * yoe + yoe div 4 - yoe div 100);
          mp = (5 * doy + 2) div 153;
          d = doy - (153 * mp + 2) div 5 + 1;
          m = (if mp < 10 then mp + 3 else mp - 9);
          y = yoe + era * 400 + (if m \<le> 2 then 1 else 0)
      in (y, m, d))"

definition pad_zero :: "nat \<Rightarrow> int \<Rightarrow> string" where
  "pad_zero n i = (let s = show_nat (nat \<bar>i\<bar>) in
     (if i < 0 then ''-'' else '''') @ replicate (n - length s) (CHR ''0'') @ s)"

definition format_date :: "int \<Rightarrow> string" where
  "format_date day = (case civil day of (y, m, d) \<Rightarrow>
     pad_zero 4 y @ ''-'' @ pad_zero 2 m @ ''-'' @ pad_zero 2 d)"

section \<open>The code\<close>

record zone_env =
  LoadLocation :: "string \<Rightarrow> location option"
  cron_Parse :: "string \<Rightarrow> (location \<Rightarrow> time \<Rightarrow> time) option"

definition clamp :: "int \<Rightarrow> int \<Rightarrow> int \<Rightarrow> int" where
  "clamp v lo hi = (if v < lo then lo else if v > hi then hi else v)"

definition zone_of :: "zone_env \<Rightarrow> string \<Rightarrow> location" where
  "zone_of z name =
     (if name \<noteq> '''' then (case LoadLocation z name of Some loc \<Rightarrow> loc | None \<Rightarrow> UTC) else UTC)"

definition quietNow :: "zone_env \<Rightarrow> quiet_hours_policy \<Rightarrow> time \<Rightarrow> bool" where
  "quietNow z policy now =
     (let loc = zone_of z (qh_Timezone policy);
          mi = local_Hour loc now * 60 + local_Minute loc now;
          start = clamp (qh_StartMinute policy) 0 1439;
          end = clamp (qh_EndMinute policy) 0 1439 in
      if start = end then True
      else if start < end then mi \<ge> start \<and> mi < end
      else mi \<ge> start \<or> mi < end)"

definition scheduleLocation :: "zone_env \<Rightarrow> scheduled_notification \<Rightarrow> location" where
  "scheduleLocation z item = zone_of z (sch_Timezone item)"

definition excludedScheduleDate :: "zone_env \<Rightarrow> scheduled_notification \<Rightarrow> time \<Rightarrow> bool" where
  "excludedScheduleDate z item candidate =
     (if strings_TrimSpace (sch_ExcludedDates item) = '''' then False
      else
        let localDate = format_date (local_day (scheduleLocation z item) candidate) in
        list_ex (\<lambda>raw. strings_TrimSpace raw = localDate)
          (strings_FieldsFunc (sch_ExcludedDates item)
            (\<lambda>c. c \<in> {CHR '','', CHR '';'', CHR 0x0A, CHR '' '', CHR 0x09})))"

definition scheduleWithinLimits :: "scheduled_notification \<Rightarrow> time \<Rightarrow> bool" where
  "scheduleWithinLimits item candidate =
     (if sch_MaxRuns item > 0 \<and> sch_RunCount item \<ge> sch_MaxRuns item then False
      else if (case sch_EndAt item of None \<Rightarrow> False | Some t \<Rightarrow> candidate > t) then False
      else True)"

definition nextScheduleCandidate :: "zone_env \<Rightarrow> scheduled_notification \<Rightarrow> time \<Rightarrow> time option" where
  "nextScheduleCandidate z item now =
     (let loc = scheduleLocation z item in
      if sch_ScheduleType item = ''once'' then
        (case sch_RunAt item of
           Some t \<Rightarrow> if t > now then Some t else None
         | None \<Rightarrow> None)
      else if sch_ScheduleType item = ''hourly'' then
        let candidate = time_Date (local_day loc now) (local_Hour loc now) (clamp (sch_Minute item) 0 59) 0 loc
        in Some (if \<not> candidate > now then candidate + hour else candidate)
      else if sch_ScheduleType item = ''daily'' then
        let candidate = time_Date (local_day loc now) (clamp (sch_Hour item) 0 23) (clamp (sch_Minute item) 0 59) 0 loc
        in Some (if \<not> candidate > now then time_AddDate loc candidate 1 else candidate)
      else if sch_ScheduleType item = ''weekly'' then
        let weekday = clamp (sch_Weekday item) 0 6;
            days = (weekday - local_Weekday loc now + 7) mod 7;
            candidate = time_AddDate loc
              (time_Date (local_day loc now) (clamp (sch_Hour item) 0 23) (clamp (sch_Minute item) 0 59) 0 loc) days
        in Some (if \<not> candidate > now then time_AddDate loc candidate 7 else candidate)
      else if sch_ScheduleType item = ''cron'' then
        (case cron_Parse z (strings_TrimSpace (sch_CronExpression item)) of
           None \<Rightarrow> None
         | Some next_time \<Rightarrow> Some (next_time loc now))
      else None)"

text \<open>The loop of \<open>NextScheduleRun\<close>, with the number of attempts left.\<close>

fun next_run_loop :: "nat \<Rightarrow> zone_env \<Rightarrow> scheduled_notification \<Rightarrow> time \<Rightarrow> time option" where
  "next_run_loop 0 z item searchFrom = None"
| "next_run_loop (Suc attempts) z item searchFrom =
     (case nextScheduleCandidate z item searchFrom of
        None \<Rightarrow> None
      | Some candidate \<Rightarrow>
          if \<not> scheduleWithinLimits item candidate then None
          else if \<not> excludedScheduleDate z item candidate then Some candidate
          else next_run_loop attempts z item (candidate + second))"

definition NextScheduleRun :: "zone_env \<Rightarrow> scheduled_notification \<Rightarrow> time \<Rightarrow> time option" where
  "NextScheduleRun z item now = next_run_loop 10000 z item now"

section \<open>Schedules of a fixed offset\<close>

text \<open>
  In a zone without transitions a recurring schedule is the set of instants at a phase of a
  period: \<open>schedule_period\<close> and \<open>schedule_phase\<close> in seconds of local time.
\<close>

definition fixed_offset :: "location \<Rightarrow> int \<Rightarrow> bool" where
  "fixed_offset loc off \<longleftrightarrow> (\<forall>u. fst (loc u) = off)"

definition schedule_period :: "scheduled_notification \<Rightarrow> int" where
  "schedule_period item = (if sch_ScheduleType item = ''hourly'' then 3600
     else if sch_ScheduleType item = ''daily'' then 86400 else 604800)"

definition schedule_phase :: "scheduled_notification \<Rightarrow> int" where
  "schedule_phase item =
     (let sod = clamp (sch_Hour item) 0 23 * 3600 + clamp (sch_Minute item) 0 59 * 60 in
      if sch_ScheduleType item = ''hourly'' then clamp (sch_Minute item) 0 59 * 60
      else if sch_ScheduleType item = ''daily'' then sod
      else (clamp (sch_Weekday item) 0 6 - 4) mod 7 * 86400 + sod)"

definition recurring :: "scheduled_notification \<Rightarrow> bool" where
  "recurring item \<longleftrightarrow> sch_ScheduleType item \<in> {''hourly'', ''daily'', ''weekly''}"

definition on_schedule :: "int \<Rightarrow> scheduled_notification \<Rightarrow> time \<Rightarrow> bool" where
  "on_schedule off item t \<longleftrightarrow> t mod second = 0 \<and>
     (time_Unix t + off) mod schedule_period item = schedule_phase item"

lemma clamp_bounds: "lo \<le> hi \<Longrightarrow> lo \<le> clamp v lo hi \<and> clamp v lo hi \<le> hi"
  by (simp add: clamp_def)

lemma phase_bounds: "0 \<le> schedule_phase item \<and> schedule_phase item < schedule_period item"
proof -
  define w where "w = (clamp (sch_Weekday item) 0 6 - 4) mod 7"
  have "0 \<le> w" "w < 7" by (simp_all add: w_def)
  then show ?thesis
    using clamp_bounds [of 0 23 "sch_Hour item"] clamp_bounds [of 0 59 "sch_Minute item"]
    by (simp add: schedule_phase_def schedule_period_def Let_def w_def [symmetric])
qed

lemma second_pos [simp]: "0 < second"
  by (simp add: second_def)

lemma time_Date_fixed:
  "fixed_offset loc off \<Longrightarrow> time_Date d h m s loc = (d * 86400 + h * 3600 + m * 60 + s - off) * second"
  by (auto simp: time_Date_def fixed_offset_def Let_def split: prod.splits) (metis fst_conv)+

lemma local_seconds_fixed: "fixed_offset loc off \<Longrightarrow> local_seconds loc t = time_Unix t + off"
  by (simp add: local_seconds_def fixed_offset_def)

lemma time_Unix_mult [simp]: "time_Unix (u * second) = u"
  by (simp add: time_Unix_def second_def)

lemma sod_split: "(x :: int) div 86400 * 86400 + x mod 86400 div 3600 * 3600 + x mod 3600 div 60 * 60 + x mod 60 = x"
proof -
  have "x mod 86400 mod 3600 = x mod 3600" by (rule mod_mod_cancel) simp
  moreover have "x mod 3600 mod 60 = x mod 60" by (rule mod_mod_cancel) simp
  ultimately show ?thesis
    using div_mult_mod_eq [of x 86400] div_mult_mod_eq [of "x mod 86400" 3600]
      div_mult_mod_eq [of "x mod 3600" 60] by linarith
qed

lemma AddDate_fixed:
  assumes "fixed_offset loc off"
  shows "time_AddDate loc (u * second) n = (u + n * 86400) * second"
proof -
  have "(u + off) div 86400 * 86400 + (u + off) mod 86400 div 3600 * 3600 +
      (u + off) mod 3600 div 60 * 60 + (u + off) mod 60 = u + off"
    by (rule sod_split)
  then have "((u + off) div 86400 + n) * 86400 + (u + off) mod 86400 div 3600 * 3600 +
      (u + off) mod 3600 div 60 * 60 + (u + off) mod 60 - off = u + n * 86400"
    by (simp add: algebra_simps)
  then show ?thesis
    using assms
    by (simp add: time_AddDate_def time_Date_fixed local_seconds_fixed local_day_def local_Hour_def
        local_Minute_def)
qed

text \<open>Two instants on the schedule are whole periods apart, so nothing lies within a period of one.\<close>

lemma on_schedule_gap:
  assumes "on_schedule off item t" "on_schedule off item c" "t < c"
  shows "t + schedule_period item * second \<le> c"
proof -
  let ?P = "schedule_period item"
  have P: "0 < ?P" by (simp add: schedule_period_def)
  have eq: "t = time_Unix t * second" "c = time_Unix c * second"
    using assms(1,2) div_mult_mod_eq [of t second] div_mult_mod_eq [of c second]
    by (simp_all add: on_schedule_def time_Unix_def)
  then have less: "time_Unix t < time_Unix c" using assms(3) by (simp add: second_def)
  have "(time_Unix c + off) mod ?P = (time_Unix t + off) mod ?P"
    using assms(1,2) by (simp add: on_schedule_def)
  then have "?P dvd time_Unix c + off - (time_Unix t + off)" by (rule mod_eq_dvd_iff [THEN iffD1])
  then have "?P dvd time_Unix c - time_Unix t" by simp
  then have "?P \<le> time_Unix c - time_Unix t" using less by (intro zdvd_imp_le) auto
  then have "(time_Unix t + ?P) * second \<le> time_Unix c * second" by (simp add: second_def)
  then show ?thesis using eq by (simp add: distrib_right)
qed

text \<open>The choice each recurring schedule makes between an instant and the one a period later.\<close>

lemma next_of_period:
  assumes "u - P \<le> time_Unix now" "time_Unix now < u + P"
    and "c = (if \<not> u * second > now then (u + P) * second else u * second)"
  shows "now < c \<and> c - P * second \<le> now"
proof -
  have low: "time_Unix now * second \<le> now" and up: "now < (time_Unix now + 1) * second"
    by (simp_all add: time_Unix_def second_def)
  have "(u - P) * second \<le> time_Unix now * second" "(time_Unix now + 1) * second \<le> (u + P) * second"
    using assms(1,2) by (simp_all add: second_def)
  then have "(u - P) * second \<le> now" "now < (u + P) * second" using low up by linarith+
  then show ?thesis using assms(3) by (auto simp: algebra_simps)
qed

lemma week_phase:
  assumes "0 \<le> s" "s < (86400 :: int)"
  shows "(a * 86400 + s) mod 604800 = a mod 7 * 86400 + s"
proof -
  have "a * 86400 + s = (a mod 7 * 86400 + s) + a div 7 * 604800"
    using div_mult_mod_eq [of a 7] by linarith
  then have "(a * 86400 + s) mod 604800 = (a mod 7 * 86400 + s) mod 604800"
    by (simp only: mod_mult_self1)
  moreover have "0 \<le> a mod 7 * 86400 + s" "a mod 7 * 86400 + s < 604800"
  proof -
    have "0 \<le> a mod 7" "a mod 7 \<le> 6" using pos_mod_bound [of 7 a] by simp_all
    then show "0 \<le> a mod 7 * 86400 + s" "a mod 7 * 86400 + s < 604800" using assms by linarith+
  qed
  ultimately show ?thesis by simp
qed

lemma candidate_recurring:
  assumes "recurring item" "fixed_offset (scheduleLocation z item) off"
  shows "\<exists>c. nextScheduleCandidate z item now = Some c \<and> on_schedule off item c \<and> now < c \<and>
     c - schedule_period item * second \<le> now"
proof -
  let ?loc = "scheduleLocation z item"
  define m where "m = clamp (sch_Minute item) 0 59"
  define h where "h = clamp (sch_Hour item) 0 23"
  define w where "w = clamp (sch_Weekday item) 0 6"
  define x where "x = time_Unix now + off"
  have mh: "0 \<le> m" "m \<le> 59" "0 \<le> h" "h \<le> 23"
    using clamp_bounds [of 0 59] clamp_bounds [of 0 23] by (simp_all add: m_def h_def)
  have loc: "local_day ?loc now = x div 86400" "local_Hour ?loc now = x mod 86400 div 3600"
    "local_Weekday ?loc now = (x div 86400 + 4) mod 7"
    using assms(2) by (simp_all add: local_day_def local_Hour_def local_Weekday_def local_seconds_fixed x_def)
  have day: "x div 86400 * 86400 \<le> x" "x < x div 86400 * 86400 + 86400"
    using div_mult_mod_eq [of x 86400] pos_mod_sign [of 86400 x] pos_mod_bound [of 86400 x] by linarith+
  note defs = m_def [symmetric] h_def [symmetric] w_def [symmetric]
  from assms(1) consider (hourly) "sch_ScheduleType item = ''hourly''"
    | (daily) "sch_ScheduleType item = ''daily''" | (weekly) "sch_ScheduleType item = ''weekly''"
    by (auto simp: recurring_def)
  then show ?thesis
  proof cases
    case hourly
    define u where "u = x div 3600 * 3600 + m * 60 - off"
    have "x mod 86400 mod 3600 = x mod 3600" by (rule mod_mod_cancel) simp
    then have hr: "x div 86400 * 86400 + x mod 86400 div 3600 * 3600 = x div 3600 * 3600"
      using div_mult_mod_eq [of x 86400] div_mult_mod_eq [of "x mod 86400" 3600] div_mult_mod_eq [of x 3600]
      by linarith
    have cand: "time_Date (local_day ?loc now) (local_Hour ?loc now) m 0 ?loc = u * second"
      using assms(2) hr by (simp add: time_Date_fixed loc u_def)
    define c where "c = (if \<not> u * second > now then (u + 3600) * second else u * second)"
    have "x div 3600 * 3600 \<le> x" "x < x div 3600 * 3600 + 3600"
      using div_mult_mod_eq [of x 3600] pos_mod_sign [of 3600 x] pos_mod_bound [of 3600 x] by linarith+
    then have "u - 3600 \<le> time_Unix now" "time_Unix now < u + 3600" using mh by (simp_all add: u_def x_def)
    note between = next_of_period [OF this c_def]
    have "nextScheduleCandidate z item now = Some c"
      using hourly cand
      by (simp add: nextScheduleCandidate_def defs c_def hour_def minute_def second_def algebra_simps)
    moreover have "on_schedule off item c"
      using hourly mh by (auto simp: on_schedule_def c_def schedule_period_def schedule_phase_def defs u_def)
    moreover have "schedule_period item = 3600" using hourly by (simp add: schedule_period_def)
    ultimately show ?thesis using between by auto
  next
    case daily
    define u where "u = x div 86400 * 86400 + h * 3600 + m * 60 - off"
    have cand: "time_Date (local_day ?loc now) h m 0 ?loc = u * second"
      using assms(2) by (simp add: time_Date_fixed loc u_def)
    define c where "c = (if \<not> u * second > now then (u + 86400) * second else u * second)"
    have "u - 86400 \<le> time_Unix now" "time_Unix now < u + 86400" using mh day by (simp_all add: u_def x_def)
    note between = next_of_period [OF this c_def]
    have "nextScheduleCandidate z item now = Some c"
      using daily cand AddDate_fixed [OF assms(2), of u 1] by (simp add: nextScheduleCandidate_def defs c_def)
    moreover have "on_schedule off item c"
    proof -
      have "(k * 86400 + (h * 3600 + m * 60)) mod 86400 = h * 3600 + m * 60" for k using mh by simp
      moreover have "time_Unix c + off = x div 86400 * 86400 + (h * 3600 + m * 60) \<or>
          time_Unix c + off = (x div 86400 + 1) * 86400 + (h * 3600 + m * 60)"
        by (auto simp: c_def u_def simp del: distrib_right)
      ultimately have "(time_Unix c + off) mod 86400 = h * 3600 + m * 60" by metis
      moreover have "c mod second = 0" by (simp add: c_def)
      ultimately show ?thesis
        using daily by (simp add: on_schedule_def schedule_period_def schedule_phase_def defs)
    qed
    moreover have "schedule_period item = 86400" using daily by (simp add: schedule_period_def)
    ultimately show ?thesis using between by auto
  next
    case weekly
    define days where "days = (w - (x div 86400 + 4) mod 7 + 7) mod 7"
    define s where "s = h * 3600 + m * 60"
    define u where "u = (x div 86400 + days) * 86400 + s - off"
    have d: "0 \<le> days" "days < 7" by (simp_all add: days_def)
    have s: "0 \<le> s" "s < 86400" using mh by (simp_all add: s_def)
    have base: "time_Date (local_day ?loc now) h m 0 ?loc = (x div 86400 * 86400 + s - off) * second"
      using assms(2) by (simp add: time_Date_fixed loc s_def)
    have cand: "time_AddDate ?loc (time_Date (local_day ?loc now) h m 0 ?loc) days = u * second"
    proof -
      have "x div 86400 * 86400 + s - off + days * 86400 = u" by (simp add: u_def algebra_simps)
      then show ?thesis using base by (simp only: AddDate_fixed [OF assms(2)])
    qed
    define c where "c = (if \<not> u * second > now then (u + 604800) * second else u * second)"
    have "u - 604800 \<le> time_Unix now" "time_Unix now < u + 604800"
      using d s day by (simp_all add: u_def x_def)
    note between = next_of_period [OF this c_def]
    have "nextScheduleCandidate z item now = Some c"
      using weekly cand AddDate_fixed [OF assms(2), of u 7]
      by (simp add: nextScheduleCandidate_def defs c_def loc days_def)
    moreover have "on_schedule off item c"
    proof -
      have "(x div 86400 + days) mod 7 = (w - 4) mod 7"
        by (simp add: days_def mod_simps)
      moreover have "(x div 86400 + days + 7) mod 7 = (x div 86400 + days) mod 7" by simp
      moreover have "time_Unix c + off = (x div 86400 + days) * 86400 + s \<or>
          time_Unix c + off = (x div 86400 + days + 7) * 86400 + s"
        by (auto simp: c_def u_def)
      ultimately have "(time_Unix c + off) mod 604800 = (w - 4) mod 7 * 86400 + s"
        using week_phase [OF s] by metis
      moreover have "c mod second = 0" by (simp add: c_def)
      ultimately show ?thesis
        using weekly by (simp add: on_schedule_def schedule_period_def schedule_phase_def defs s_def)
    qed
    moreover have "schedule_period item = 604800" using weekly by (simp add: schedule_period_def)
    ultimately show ?thesis using between by auto
  qed
qed

lemma next_run_loop_least:
  assumes "recurring item" "fixed_offset (scheduleLocation z item) off"
    and "next_run_loop n z item from = Some r"
  shows "from < r \<and> on_schedule off item r \<and> \<not> excludedScheduleDate z item r \<and> scheduleWithinLimits item r \<and>
     (\<forall>t. from < t \<and> t < r \<and> on_schedule off item t \<longrightarrow> excludedScheduleDate z item t)"
  using assms(3)
proof (induction n arbitrary: "from")
  case 0
  then show ?case by simp
next
  case (Suc n)
  obtain c where c: "nextScheduleCandidate z item from = Some c" "on_schedule off item c" "from < c"
    "c - schedule_period item * second \<le> from"
    using candidate_recurring [OF assms(1,2)] by blast
  have first: "\<not> t < c" if "from < t" "on_schedule off item t" for t
    using on_schedule_gap [OF that(2) c(2)] that(1) c(4) by auto
  show ?case
  proof (cases "excludedScheduleDate z item c")
    case False
    then show ?thesis using Suc.prems c first by (auto split: if_splits)
  next
    case True
    then have "next_run_loop n z item (c + second) = Some r" using Suc.prems c(1) by (simp split: if_splits)
    note ih = Suc.IH [OF this]
    have "excludedScheduleDate z item t" if "from < t" "t < r" "on_schedule off item t" for t
    proof (cases "t = c")
      case False
      then have "c < t" using first [OF that(1,3)] by simp
      then have "c + schedule_period item * second \<le> t" using on_schedule_gap [OF c(2) that(3)] by simp
      moreover have "second < schedule_period item * second"
        by (simp add: schedule_period_def second_def)
      ultimately have "c + second < t" by linarith
      then show ?thesis using ih that by blast
    qed (use True in simp)
    then show ?thesis using ih c(3) second_pos by (smt (verit))
  qed
qed

section \<open>Properties\<close>

text \<open>
  Property C34. In a zone without transitions the next run of an hourly, daily or weekly schedule is the earliest
  instant after now at its minute, time of day or weekday that is not on an excluded date: later
  than now, on the schedule, within the limits of the schedule, and every instant of the schedule in between is
  excluded.
\<close>

theorem next_schedule_run_least:
  assumes "recurring item" "fixed_offset (scheduleLocation z item) off"
    and "NextScheduleRun z item now = Some r"
  shows "now < r \<and> on_schedule off item r \<and> \<not> excludedScheduleDate z item r \<and> scheduleWithinLimits item r \<and>
     (\<forall>t. now < t \<and> t < r \<and> on_schedule off item t \<longrightarrow> excludedScheduleDate z item t)"
  using next_run_loop_least [OF assms(1,2)] assms(3) by (simp add: NextScheduleRun_def)

definition demo_zones :: zone_env where
  "demo_zones = \<lparr>LoadLocation = (\<lambda>n. if n = ''Fixed/One'' then Some (\<lambda>_. (3600, min_int64, max_int64)) else None),
     cron_Parse = (\<lambda>s. Some (\<lambda>loc t. zero_time))\<rparr>"

definition demo_schedule :: scheduled_notification where
  "demo_schedule = \<lparr>sch_ID = 1, sch_Name = ''backup'', sch_ApplicationID = 3, sch_Title = ''t'', sch_Message = ''m'',
     sch_Priority = 5, sch_ScheduleType = ''daily'', sch_RunAt = None, sch_Hour = 1, sch_Minute = 30,
     sch_Weekday = 0, sch_CronExpression = ''0 0 0 30 2 *'', sch_ExcludedDates = '''', sch_Timezone = ''Fixed/One'',
     sch_EndAt = None, sch_MaxRuns = 0, sch_RunCount = 0, sch_MisfirePolicy = '''', sch_Enabled = True,
     sch_LastRunAt = None, sch_NextRunAt = None, sch_LastStatus = '''', sch_LastError = '''',
     sch_CreatedAt = 0, sch_UpdatedAt = 0\<rparr>"

lemma no_exclusions: "sch_ExcludedDates item = '''' \<Longrightarrow> \<not> excludedScheduleDate z item t"
proof -
  have "strings_TrimSpace '''' = ''''" by simp
  then show "sch_ExcludedDates item = '''' \<Longrightarrow> \<not> excludedScheduleDate z item t"
    by (simp add: excludedScheduleDate_def)
qed

lemma no_limits: "sch_MaxRuns item = 0 \<Longrightarrow> sch_EndAt item = None \<Longrightarrow> scheduleWithinLimits item t"
  by (simp add: scheduleWithinLimits_def)

theorem next_schedule_run_least_witness:
  "\<exists>r. NextScheduleRun demo_zones demo_schedule (3600 * second) = Some r \<and> 3600 * second < r \<and>
     (time_Unix r + 3600) mod 86400 = 5400"
proof -
  have loc: "fixed_offset (scheduleLocation demo_zones demo_schedule) 3600"
    by (simp add: fixed_offset_def scheduleLocation_def zone_of_def demo_zones_def demo_schedule_def)
  have rec: "recurring demo_schedule" by (simp add: recurring_def demo_schedule_def)
  obtain c where c: "nextScheduleCandidate demo_zones demo_schedule (3600 * second) = Some c"
    using candidate_recurring [OF rec loc] by blast
  have ex: "sch_ExcludedDates demo_schedule = ''''" by (simp add: demo_schedule_def)
  have "(10000 :: nat) = Suc 9999" by simp
  then have "NextScheduleRun demo_zones demo_schedule (3600 * second) = Some c"
    using c no_exclusions [OF ex] no_limits [of demo_schedule]
    by (simp only: NextScheduleRun_def next_run_loop.simps) (simp add: demo_schedule_def)
  with next_schedule_run_least [OF rec loc this] show ?thesis
    by (auto simp: on_schedule_def schedule_period_def schedule_phase_def demo_schedule_def clamp_def)
qed

text \<open>
  In a zone with transitions this fails. \<open>time.Date\<close> takes a local time of the hour that New York repeats on
  3 November 2024 for its first occurrence, so an hourly schedule that ran in the repetition gets the same
  instant as its next run (\<open>runSchedules\<close> searches from one second after the run): it never
  advances.
\<close>

definition New_York_2024 :: location where
  "New_York_2024 = (\<lambda>u. if u < 1730613600 then (- 14400, 1710054000, 1730613600) else (- 18000, 1730613600, 1741503600))"

definition half_past :: scheduled_notification where
  "half_past = demo_schedule\<lparr>sch_ScheduleType := ''hourly'', sch_Minute := 30, sch_Timezone := ''America/New_York''\<rparr>"

lemma hourly_schedule_stuck_in_repeated_hour:
  assumes "LoadLocation z ''America/New_York'' = Some New_York_2024"
  shows "NextScheduleRun z half_past (1730611800 * second) = Some (1730615400 * second)"
    and "NextScheduleRun z half_past (1730615400 * second + second) = Some (1730615400 * second)"
proof -
  have loc: "scheduleLocation z half_past = New_York_2024"
    using assms by (simp add: scheduleLocation_def zone_of_def half_past_def)
  have item: "sch_ScheduleType half_past = ''hourly''" "clamp (sch_Minute half_past) 0 59 = 30"
    "sch_ExcludedDates half_past = ''''" "sch_MaxRuns half_past = 0" "sch_EndAt half_past = None"
    by (simp_all add: half_past_def demo_schedule_def clamp_def)
  note code = nextScheduleCandidate_def loc item time_Date_def local_day_def local_Hour_def local_seconds_def
    time_Unix_def New_York_2024_def second_def hour_def minute_def
  have c: "nextScheduleCandidate z half_past (1730611800 * second) = Some (1730615400 * second)"
    "nextScheduleCandidate z half_past (1730615400 * second + second) = Some (1730615400 * second)"
    by (simp_all add: code)
  have step: "NextScheduleRun z half_past now = Some t" if "nextScheduleCandidate z half_past now = Some t" for now t
  proof -
    have "(10000 :: nat) = Suc 9999" by simp
    then show ?thesis using that no_exclusions [OF item(3)] no_limits [OF item(4,5)]
      by (simp only: NextScheduleRun_def next_run_loop.simps) simp
  qed
  show "NextScheduleRun z half_past (1730611800 * second) = Some (1730615400 * second)"
    "NextScheduleRun z half_past (1730615400 * second + second) = Some (1730615400 * second)"
    by (rule step, rule c)+
qed

text \<open>
  Quiet hours are the cyclic interval of the day from start to end, past midnight too, in any zone:
  the minutes since the start are fewer than the length of the interval; equal bounds mean the
  whole day.
\<close>

theorem quiet_now_cyclic:
  "quietNow z policy now \<longleftrightarrow>
     (let loc = zone_of z (qh_Timezone policy); mi = local_seconds loc now mod 86400 div 60;
          start = clamp (qh_StartMinute policy) 0 1439; end = clamp (qh_EndMinute policy) 0 1439
      in start = end \<or> (mi - start) mod 1440 < (end - start) mod 1440)"
proof -
  define x where "x = local_seconds (zone_of z (qh_Timezone policy)) now"
  define mi where "mi = x mod 86400 div 60"
  define s where "s = clamp (qh_StartMinute policy) 0 1439"
  define e where "e = clamp (qh_EndMinute policy) 0 1439"
  have se: "0 \<le> s" "s \<le> 1439" "0 \<le> e" "e \<le> 1439"
    using clamp_bounds [of 0 1439] by (simp_all add: s_def e_def)
  have "x mod 86400 mod 3600 = x mod 3600" by (rule mod_mod_cancel) simp
  then have hm: "x mod 86400 div 3600 * 60 + x mod 3600 div 60 = mi"
  proof -
    define y where "y = x mod 86400"
    have "y = y mod 3600 + y div 3600 * 60 * 60" using div_mult_mod_eq [of y 3600] by linarith
    then have "y div 60 = (y mod 3600 + y div 3600 * 60 * 60) div 60" by simp
    also have "\<dots> = y div 3600 * 60 + y mod 3600 div 60" by (rule div_mult_self1) simp
    finally show ?thesis using \<open>x mod 86400 mod 3600 = x mod 3600\<close> by (simp add: mi_def y_def)
  qed
  have mi: "0 \<le> mi" "mi < 1440"
    using pos_mod_bound [of 86400 x] pos_mod_sign [of 86400 x] unfolding mi_def by linarith+
  have m: "a mod 1440 = (if 0 \<le> a then a else a + 1440)" if "-1440 \<le> a" "a < 1440" for a :: int
  proof (cases "0 \<le> a")
    case False
    then have "(a + 1440) mod 1440 = a + 1440" using that by (intro mod_pos_pos_trivial) auto
    then show ?thesis using False by simp
  qed (use that in simp)
  have "quietNow z policy now \<longleftrightarrow> (if s = e then True else if s < e then mi \<ge> s \<and> mi < e else mi \<ge> s \<or> mi < e)"
    using hm by (simp add: quietNow_def local_Hour_def local_Minute_def Let_def x_def s_def e_def)
  also have "\<dots> \<longleftrightarrow> s = e \<or> (mi - s) mod 1440 < (e - s) mod 1440"
  proof -
    have a: "(mi - s) mod 1440 = (if s \<le> mi then mi - s else mi - s + 1440)"
      using mi se by (subst m) auto
    have b: "(e - s) mod 1440 = (if s \<le> e then e - s else e - s + 1440)"
      using se by (subst m) auto
    show ?thesis unfolding a b using mi se by presburger
  qed
  finally show ?thesis by (simp add: Let_def mi_def x_def s_def e_def)
qed

text \<open>
  A defect: the cron library reports that an expression has no activation by the zero time, and the
  code takes it for a time. The next run of such a schedule, without limits, is then in the year 1, at any moment
  in the past, so the schedule stays due for ever instead of ending.
\<close>

theorem cron_without_activation_stays_due:
  assumes "sch_ScheduleType item = ''cron''" "cron_Parse z (strings_TrimSpace (sch_CronExpression item)) = Some next_time"
    and "next_time (scheduleLocation z item) now = zero_time"
    and "sch_ExcludedDates item = ''''" "sch_MaxRuns item = 0" "sch_EndAt item = None" "0 \<le> now"
  shows "\<exists>r. NextScheduleRun z item now = Some r \<and> r < now \<and> r = zero_time"
proof -
  have "nextScheduleCandidate z item now = Some zero_time"
    using assms(1-3) by (simp add: nextScheduleCandidate_def Let_def)
  moreover have "(10000 :: nat) = Suc 9999" by simp
  ultimately have "NextScheduleRun z item now = Some zero_time"
    using no_exclusions [OF assms(4)] no_limits [OF assms(5,6)]
    by (simp only: NextScheduleRun_def next_run_loop.simps) simp
  then show ?thesis using assms(7) by (simp add: zero_time_def)
qed

theorem cron_without_activation_stays_due_witness:
  "\<exists>r. NextScheduleRun demo_zones (demo_schedule\<lparr>sch_ScheduleType := ''cron''\<rparr>) 5 = Some r \<and> r < 5"
  using cron_without_activation_stays_due [of "demo_schedule\<lparr>sch_ScheduleType := ''cron''\<rparr>" demo_zones
      "\<lambda>loc t. zero_time" 5]
  by (auto simp: demo_schedule_def demo_zones_def)

end
