(* ===== verification/Engine.thy ===== *)
theory Engine
  imports Schedule
begin

text \<open>
  The automation engine: \<open>src/automation/engine.go\<close>, without the network clients. The \<open>Database\<close>
  interface, the notifier, the clock, the JSON decoder and the time zones are fields of the record
  \<open>engine_env\<close> over a world \<open>'w\<close>; reading operations do not change the world. The state of the
  engine adds the post-store hooks and a record of the calls the engine makes to deliver, defer or
  escalate messages (\<open>en_trace\<close>), in their order.
\<close>

section \<open>Environment and state\<close>

record 'w engine_env =
  CreateMessageOnce :: "message \<Rightarrow> 'w \<Rightarrow> (bool \<times> message) res \<times> 'w"
  DeleteMessageByID :: "nat \<Rightarrow> 'w \<Rightarrow> unit res \<times> 'w"
  GetMessageByID :: "nat \<Rightarrow> 'w \<Rightarrow> message option res"
  GetApplicationByID :: "nat \<Rightarrow> 'w \<Rightarrow> application option res"
  GetApplicationRecipientUserIDs :: "nat \<Rightarrow> 'w \<Rightarrow> nat list res"
  GetApplicationMembership :: "nat \<Rightarrow> nat \<Rightarrow> 'w \<Rightarrow> application_membership option res"
  GetQuietHoursPolicy :: "nat \<Rightarrow> 'w \<Rightarrow> quiet_hours_policy option res"
  GetDigestPolicy :: "nat \<Rightarrow> 'w \<Rightarrow> digest_policy option res"
  QueueDigestItem :: "digest_item \<Rightarrow> 'w \<Rightarrow> unit res \<times> 'w"
  GetDigestItems :: "nat \<Rightarrow> 'w \<Rightarrow> digest_item list res"
  DeleteDigestItems :: "nat \<Rightarrow> 'w \<Rightarrow> unit res \<times> 'w"
  GetDueDigestPolicies :: "time \<Rightarrow> 'w \<Rightarrow> digest_policy list res"
  SaveDigestPolicy :: "digest_policy \<Rightarrow> 'w \<Rightarrow> unit res \<times> 'w"
  GetDueScheduledNotifications :: "time \<Rightarrow> 'w \<Rightarrow> scheduled_notification list res"
  SaveScheduledNotification :: "scheduled_notification \<Rightarrow> 'w \<Rightarrow> unit res \<times> 'w"
  CreateScheduledNotificationRun ::
    "scheduled_notification_run \<Rightarrow> 'w \<Rightarrow> scheduled_notification_run res \<times> 'w"
  SaveScheduledNotificationRun :: "scheduled_notification_run \<Rightarrow> 'w \<Rightarrow> unit res \<times> 'w"
  GetEscalationRulesForMessage :: "nat \<Rightarrow> int \<Rightarrow> 'w \<Rightarrow> escalation_rule list res"
  GetEscalationRuleByID :: "nat \<Rightarrow> 'w \<Rightarrow> escalation_rule option res"
  ResolveEscalationTargetApplication :: "escalation_rule \<Rightarrow> 'w \<Rightarrow> application option res \<times> 'w"
  QueueEscalation :: "escalation_state \<Rightarrow> 'w \<Rightarrow> unit res \<times> 'w"
  GetDueEscalations :: "time \<Rightarrow> 'w \<Rightarrow> escalation_state list res"
  SaveEscalationState :: "escalation_state \<Rightarrow> 'w \<Rightarrow> unit res \<times> 'w"
  IsMessageAcknowledged :: "nat \<Rightarrow> 'w \<Rightarrow> bool res"
  QueueDeferredNotification :: "nat \<Rightarrow> nat \<Rightarrow> 'w \<Rightarrow> unit res \<times> 'w"
  GetDeferredNotifications :: "'w \<Rightarrow> deferred_notification list res"
  DeleteDeferredNotification :: "nat \<Rightarrow> nat \<Rightarrow> 'w \<Rightarrow> unit res \<times> 'w"
  GetOrCreateDigestApplication :: "nat \<Rightarrow> 'w \<Rightarrow> application res \<times> 'w"
  TryAcquireAutomationLease :: "string \<Rightarrow> string \<Rightarrow> time \<Rightarrow> duration \<Rightarrow> 'w \<Rightarrow> bool res \<times> 'w"
  Notifier_Notify :: "nat \<Rightarrow> message_external \<Rightarrow> 'w \<Rightarrow> 'w"
  time_Now :: "'w \<Rightarrow> time"
  json_Unmarshal :: "bytes \<Rightarrow> json res"
  zones :: zone_env

datatype event = Stored message | Notified nat message_external | DigestQueued digest_item
  | DeferredQueued nat nat | EscalationQueued escalation_state | HooksRun message
  | EscalationSaved escalation_state | DigestCleared nat | DigestSaved digest_policy
  | DeferredCleared nat nat | RunSaved scheduled_notification_run | ScheduleSaved scheduled_notification

record 'w engine =
  en_world :: 'w
  en_hooks :: "(message \<Rightarrow> 'w \<Rightarrow> 'w) list"
  en_instanceID :: string
  en_trace :: "event list"

text \<open>A call of the database that may fail and is recorded, or not.\<close>

definition call :: "event list \<Rightarrow> ('w \<Rightarrow> 'a res \<times> 'w) \<Rightarrow> 'w engine \<Rightarrow> 'a res \<times> 'w engine" where
  "call evs f s = (let (r, w) = f (en_world s) in (r, s\<lparr>en_world := w, en_trace := en_trace s @ evs\<rparr>))"

text \<open>\<open>CreateMessageOnce\<close> reports whether it stored a new message; it fills in fields of the message.\<close>

definition create_once ::
  "'w engine_env \<Rightarrow> message \<Rightarrow> 'w engine \<Rightarrow> (bool \<times> message) res \<times> 'w engine" where
  "create_once env msg s =
     (case call [] (CreateMessageOnce env msg) s of
        (Inr (True, msg), s) \<Rightarrow> (Inr (True, msg), s\<lparr>en_trace := en_trace s @ [Stored msg]\<rparr>)
      | (r, s) \<Rightarrow> (r, s))"

definition notify :: "'w engine_env \<Rightarrow> nat \<Rightarrow> message_external \<Rightarrow> 'w engine \<Rightarrow> 'w engine" where
  "notify env userID ext s =
     s\<lparr>en_world := Notifier_Notify env userID ext (en_world s), en_trace := en_trace s @ [Notified userID ext]\<rparr>"

definition now_of :: "'w engine_env \<Rightarrow> 'w engine \<Rightarrow> time" where
  "now_of env s = time_Now env (en_world s)"

section \<open>Messages\<close>

text \<open>\<open>externalMessage\<close>; the two conversations fields that it does not copy stay zero.\<close>

definition decoded_extras :: "'w engine_env \<Rightarrow> bytes \<Rightarrow> json_object" where
  "decoded_extras env extras =
     (if extras = [] then []
      else case json_Unmarshal env extras of Inr (JObj o') \<Rightarrow> o' | _ \<Rightarrow> [])"

definition externalMessage :: "'w engine_env \<Rightarrow> message \<Rightarrow> message_external" where
  "externalMessage env msg = \<lparr>mx_ID = msg_ID msg, mx_ApplicationID = msg_ApplicationID msg,
     mx_Message = msg_Message msg, mx_Title = msg_Title msg, mx_Priority = Some (msg_Priority msg),
     mx_Extras = decoded_extras env (msg_Extras msg), mx_Date = msg_Date msg,
     mx_SenderUserID = msg_SenderUserID msg, mx_SenderName = msg_SenderName msg,
     mx_ParentMessageID = msg_ParentMessageID msg, mx_RootMessageID = msg_RootMessageID msg,
     mx_EscalationRuleID = msg_EscalationRuleID msg, mx_EscalationDepth = msg_EscalationDepth msg,
     mx_ReplyToMessageID = 0, mx_ThreadRootMessageID = 0, mx_Collaboration = msg_Collaboration msg,
     mx_Acknowledged = msg_Acknowledged msg, mx_AcknowledgedByAnyone = msg_AcknowledgedByAnyone msg,
     mx_AcknowledgementCount = msg_AcknowledgementCount msg,
     mx_LastAcknowledgedBy = msg_LastAcknowledgedBy msg,
     mx_LastAcknowledgedAt = msg_LastAcknowledgedAt msg\<rparr>"

text \<open>\<open>toExternalMessage\<close> of \<open>src/api/message.go\<close>, which answers the requests for messages.\<close>

definition toExternalMessage :: "'w engine_env \<Rightarrow> message \<Rightarrow> message_external" where
  "toExternalMessage env msg = \<lparr>mx_ID = msg_ID msg, mx_ApplicationID = msg_ApplicationID msg,
     mx_Message = msg_Message msg, mx_Title = msg_Title msg, mx_Priority = Some (msg_Priority msg),
     mx_Extras = decoded_extras env (msg_Extras msg), mx_Date = msg_Date msg,
     mx_SenderUserID = msg_SenderUserID msg, mx_SenderName = msg_SenderName msg,
     mx_ParentMessageID = msg_ParentMessageID msg, mx_RootMessageID = msg_RootMessageID msg,
     mx_EscalationRuleID = msg_EscalationRuleID msg, mx_EscalationDepth = msg_EscalationDepth msg,
     mx_ReplyToMessageID = msg_ReplyToMessageID msg, mx_ThreadRootMessageID = msg_ThreadRootMessageID msg,
     mx_Collaboration = msg_Collaboration msg,
     mx_Acknowledged = msg_Acknowledged msg, mx_AcknowledgedByAnyone = msg_AcknowledgedByAnyone msg,
     mx_AcknowledgementCount = msg_AcknowledgementCount msg,
     mx_LastAcknowledgedBy = msg_LastAcknowledgedBy msg,
     mx_LastAcknowledgedAt = msg_LastAcknowledgedAt msg\<rparr>"

text \<open>A JSON array as \<open>[]uint\<close>; \<open>null\<close> leaves an element, or the whole slice, at its zero value.\<close>

definition json_uint :: "json \<Rightarrow> nat option" where
  "json_uint j =
     (case j of
        JNull \<Rightarrow> Some 0
      | JInt i \<Rightarrow> if 0 \<le> i \<and> i < 2 ^ 64 then Some (nat i) else None
      | _ \<Rightarrow> None)"

definition json_uints :: "json \<Rightarrow> nat list" where
  "json_uints j =
     (case j of
        JArr xs \<Rightarrow> if list_all (\<lambda>x. json_uint x \<noteq> None) xs then map (\<lambda>x. the (json_uint x)) xs else []
      | _ \<Rightarrow> [])"

definition mentionRecipientUserIDs :: "'w engine_env \<Rightarrow> message \<Rightarrow> nat list" where
  "mentionRecipientUserIDs env msg =
     (if msg_Extras msg = [] then []
      else case json_Unmarshal env (msg_Extras msg) of
        Inr (JObj extras) \<Rightarrow>
          (case map_of extras ''gotify::mu::mentionUserIds'' of None \<Rightarrow> [] | Some raw \<Rightarrow> json_uints raw)
      | _ \<Rightarrow> [])"

section \<open>Delivery\<close>

definition deliver ::
  "'w engine_env \<Rightarrow> nat \<Rightarrow> message \<Rightarrow> message_external \<Rightarrow> 'w engine \<Rightarrow> unit res \<times> 'w engine" where
  "deliver env userID msg external s =
     (case GetDigestPolicy env userID (en_world s) of
        Inl e \<Rightarrow> (Inl e, s)
      | Inr digest \<Rightarrow>
          if (case digest of None \<Rightarrow> False
              | Some d \<Rightarrow> dp_Enabled d \<and> msg_Priority msg < dp_ImmediatePriority d)
          then
            let item = \<lparr>di_ID = 0, di_UserID = userID, di_MessageID = msg_ID msg,
                  di_ApplicationID = msg_ApplicationID msg, di_Title = msg_Title msg,
                  di_Message = msg_Message msg, di_Priority = msg_Priority msg, di_CreatedAt = zero_time\<rparr>
            in call [DigestQueued item] (QueueDigestItem env item) s
          else case GetQuietHoursPolicy env userID (en_world s) of
            Inl e \<Rightarrow> (Inl e, s)
          | Inr quiet \<Rightarrow>
              (case quiet of
                 Some q \<Rightarrow>
                   if qh_Enabled q \<and> msg_Priority msg < qh_AllowPriority q \<and>
                      quietNow (zones env) q (now_of env s)
                   then if strings_EqualFold (qh_Mode q) ''defer''
                        then call [DeferredQueued userID (msg_ID msg)]
                               (QueueDeferredNotification env userID (msg_ID msg)) s
                        else (Inr (), s)
                   else (Inr (), notify env userID external s)
               | None \<Rightarrow> (Inr (), notify env userID external s)))"

text \<open>The mentioned members, in order; a failing look-up ends the delivery.\<close>

fun mentioned_members :: "'w engine_env \<Rightarrow> message \<Rightarrow> nat list \<Rightarrow> 'w \<Rightarrow> nat list res" where
  "mentioned_members env msg [] w = Inr []"
| "mentioned_members env msg (userID # ids) w =
     (if userID = msg_SenderUserID msg then mentioned_members env msg ids w
      else case GetApplicationMembership env (msg_ApplicationID msg) userID w of
        Inl e \<Rightarrow> Inl e
      | Inr membership \<Rightarrow> res_bind (mentioned_members env msg ids w) (\<lambda>us.
          Inr (if membership \<noteq> None then userID # us else us)))"

text \<open>The loop over the recipients, with the set \<open>delivered\<close> of users served so far.\<close>

fun deliver_loop ::
  "'w engine_env \<Rightarrow> message \<Rightarrow> message_external \<Rightarrow> nat set \<Rightarrow> nat list \<Rightarrow> 'w engine \<Rightarrow> 'w engine" where
  "deliver_loop env msg external delivered [] s = s"
| "deliver_loop env msg external delivered (userID # us) s =
     (if msg_SenderUserID msg \<noteq> 0 \<and> userID = msg_SenderUserID msg
      then deliver_loop env msg external delivered us s
      else if userID \<in> delivered then deliver_loop env msg external delivered us s
      else deliver_loop env msg external (insert userID delivered) us
        (case deliver env userID msg external s of
           (Inr _, s) \<Rightarrow> s
         | (Inl _, s) \<Rightarrow> notify env userID external s))"

text \<open>\<open>escalationWouldCycle\<close> follows at most eight messages of the chain.\<close>

fun cycle_loop :: "nat \<Rightarrow> 'w engine_env \<Rightarrow> nat \<Rightarrow> message \<Rightarrow> 'w \<Rightarrow> bool" where
  "cycle_loop 0 env targetID current w = False"
| "cycle_loop (Suc depth) env targetID current w =
     (if msg_ApplicationID current = targetID then True
      else if msg_ParentMessageID current = 0 then False
      else case GetMessageByID env (msg_ParentMessageID current) w of
        Inr (Some parent) \<Rightarrow> cycle_loop depth env targetID parent w
      | _ \<Rightarrow> False)"

definition escalationWouldCycle :: "'w engine_env \<Rightarrow> message \<Rightarrow> escalation_rule \<Rightarrow> 'w \<Rightarrow> bool" where
  "escalationWouldCycle env msg rule w =
     (let targetType = strings_ToLower (strings_TrimSpace (er_TargetType rule)) in
      if targetType \<noteq> '''' \<and> targetType \<noteq> ''channel'' then False
      else
        let targetID = (if er_TargetApplicationID rule = 0 then er_TargetID rule
                        else er_TargetApplicationID rule) in
        if targetID = 0 then True else cycle_loop 8 env targetID msg w)"

fun queue_rules :: "'w engine_env \<Rightarrow> message \<Rightarrow> escalation_rule list \<Rightarrow> 'w engine \<Rightarrow> unit res \<times> 'w engine" where
  "queue_rules env msg [] s = (Inr (), s)"
| "queue_rules env msg (rule # rules) s =
     (if escalationWouldCycle env msg rule (en_world s) then queue_rules env msg rules s
      else
        let delay = (if er_DelayMinutes rule < 1 then 1 else er_DelayMinutes rule);
            st = \<lparr>es_ID = 0, es_RuleID = er_ID rule, es_MessageID = msg_ID msg,
              es_DueAt = now_of env s + wrap64 (delay * minute), es_RepeatCount = 0,
              es_LastEscalatedMessageID = 0, es_Completed = False, es_CreatedAt = zero_time,
              es_DoneAt = None\<rparr> in
        case call [EscalationQueued st] (QueueEscalation env st) s of
          (Inl e, s) \<Rightarrow> (Inl e, s)
        | (Inr _, s) \<Rightarrow> queue_rules env msg rules s)"

definition queueEscalations :: "'w engine_env \<Rightarrow> message \<Rightarrow> 'w engine \<Rightarrow> unit res \<times> 'w engine" where
  "queueEscalations env msg s =
     (if msg_EscalationDepth msg \<ge> 5 then (Inr (), s)
      else case GetEscalationRulesForMessage env (msg_ApplicationID msg) (msg_Priority msg) (en_world s) of
        Inl e \<Rightarrow> (Inl e, s)
      | Inr rules \<Rightarrow> queue_rules env msg rules s)"

definition AddPostStoreHook :: "(message \<Rightarrow> 'w \<Rightarrow> 'w) option \<Rightarrow> 'w engine \<Rightarrow> 'w engine" where
  "AddPostStoreHook hook s = (case hook of None \<Rightarrow> s | Some h \<Rightarrow> s\<lparr>en_hooks := en_hooks s @ [h]\<rparr>)"

definition runPostStoreHooks :: "message \<Rightarrow> 'w engine \<Rightarrow> 'w engine" where
  "runPostStoreHooks msg s =
     s\<lparr>en_world := fold (\<lambda>hook w. hook msg w) (en_hooks s) (en_world s), en_trace := en_trace s @ [HooksRun msg]\<rparr>"

definition deliverStored ::
  "'w engine_env \<Rightarrow> message \<Rightarrow> bool \<Rightarrow> 'w engine \<Rightarrow> message_external res \<times> 'w engine" where
  "deliverStored env msg allowEscalation s =
     (let external = externalMessage env msg in
      case GetApplicationRecipientUserIDs env (msg_ApplicationID msg) (en_world s) of
        Inl e \<Rightarrow> (Inl e, s)
      | Inr recipients \<Rightarrow>
          case (if msg_SenderUserID msg \<noteq> 0
                then mentioned_members env msg (mentionRecipientUserIDs env msg) (en_world s)
                else Inr []) of
            Inl e \<Rightarrow> (Inl e, s)
          | Inr mentioned \<Rightarrow>
              let s = deliver_loop env msg external {} (recipients @ mentioned) s;
                  s = (if allowEscalation then snd (queueEscalations env msg s) else s)
              in (Inr external, runPostStoreHooks msg s))"

definition dated :: "'w engine_env \<Rightarrow> message \<Rightarrow> 'w engine \<Rightarrow> message" where
  "dated env msg s = (if msg_Date msg = zero_time then msg\<lparr>msg_Date := now_of env s\<rparr> else msg)"

text \<open>
  Both ways to store a message return it as the database has filled it in (the code changes it through
  the pointer it was given), with its external form.
\<close>

definition storeAndDeliver ::
  "'w engine_env \<Rightarrow> message \<Rightarrow> bool \<Rightarrow> 'w engine \<Rightarrow> (message \<times> message_external) res \<times> 'w engine" where
  "storeAndDeliver env msg0 allowEscalation s =
     (case create_once env (dated env msg0 s) s of
        (Inl e, s) \<Rightarrow> (Inl e, s)
      | (Inr (created, msg), s) \<Rightarrow>
          if \<not> created then (Inr (msg, externalMessage env msg), s)
          else case deliverStored env msg allowEscalation s of
            (Inl e, s) \<Rightarrow> (Inl e, s)
          | (Inr external, s) \<Rightarrow> (Inr (msg, external), s))"

definition StoreAndDeliver ::
  "'w engine_env \<Rightarrow> message \<Rightarrow> 'w engine \<Rightarrow> (message \<times> message_external) res \<times> 'w engine" where
  "StoreAndDeliver env msg = storeAndDeliver env msg True"

text \<open>\<open>prepare\<close> may change the message it is given and the world.\<close>

definition StorePreparedAndDeliver ::
  "'w engine_env \<Rightarrow> message \<Rightarrow> (message \<Rightarrow> 'w \<Rightarrow> message res \<times> 'w) option \<Rightarrow> 'w engine \<Rightarrow>
     (message \<times> message_external) res \<times> 'w engine" where
  "StorePreparedAndDeliver env msg0 prepare s =
     (case create_once env (dated env msg0 s) s of
        (Inl e, s) \<Rightarrow> (Inl e, s)
      | (Inr (created, msg), s) \<Rightarrow>
          if \<not> created then (Inr (msg, externalMessage env msg), s)
          else
            let (r, s) = (case prepare of None \<Rightarrow> (Inr msg, s) | Some p \<Rightarrow> call [] (p msg) s) in
            case r of
              Inl e \<Rightarrow> (Inl e, snd (call [] (DeleteMessageByID env (msg_ID msg)) s))
            | Inr msg \<Rightarrow>
                (case deliverStored env msg True s of
                   (Inl e, s) \<Rightarrow> (Inl e, s)
                 | (Inr external, s) \<Rightarrow> (Inr (msg, external), s)))"

definition new_message :: message where
  "new_message = \<lparr>msg_ID = 0, msg_ApplicationID = 0, msg_Message = '''', msg_Title = '''', msg_Priority = 0,
     msg_Extras = [], msg_Date = zero_time, msg_SenderUserID = 0, msg_SenderName = '''',
     msg_DeduplicationKey = '''', msg_ParentMessageID = 0, msg_RootMessageID = 0, msg_EscalationRuleID = 0,
     msg_EscalationDepth = 0, msg_ReplyToMessageID = 0, msg_ThreadRootMessageID = 0,
     msg_Collaboration = \<lparr>col_Attachments = [], col_Reactions = [], col_AssignedUserID = 0,
       col_AssignedUserName = '''', col_Status = '''', col_ResolvedBy = 0, col_ResolvedByName = '''',
       col_ResolvedAt = None, col_Read = False, col_Mentioned = False, col_ReplyCount = 0\<rparr>,
     msg_Acknowledged = False, msg_AcknowledgedByAnyone = False, msg_AcknowledgementCount = 0,
     msg_LastAcknowledgedBy = '''', msg_LastAcknowledgedAt = None\<rparr>"

definition Publish ::
  "'w engine_env \<Rightarrow> nat \<Rightarrow> string \<Rightarrow> string \<Rightarrow> int \<Rightarrow> 'w engine \<Rightarrow> message res \<times> 'w engine" where
  "Publish env applicationID title message priority s =
     (case GetApplicationByID env applicationID (en_world s) of
        Inl e \<Rightarrow> (Inl e, s)
      | Inr None \<Rightarrow> (Inl (Err ''channel not found''), s)
      | Inr (Some app) \<Rightarrow>
          let title = (if strings_TrimSpace title = '''' then app_Name app else title)
          in case storeAndDeliver env (new_message\<lparr>msg_ApplicationID := applicationID, msg_Title := title,
               msg_Message := message, msg_Priority := priority, msg_Date := now_of env s\<rparr>) True s of
               (Inl e, s) \<Rightarrow> (Inl e, s)
             | (Inr (msg, _), s) \<Rightarrow> (Inr msg, s))"

end
