(* ===== verification/Tables.thy ===== *)
theory Tables
  imports Engine
begin

text \<open>
  The tables behind the integrations, the connectors and the accounts: the rows of
  \<open>src/model/automation.go\<close>, \<open>src/model/connectors.go\<close>, \<open>src/model/passkey.go\<close> and
  \<open>src/model/collaboration.go\<close> that only the database layer and the handlers know, and tables whose
  identifiers the server gives out.
\<close>

section \<open>Rows\<close>

record webhook_route =
  wr_ID :: nat
  wr_Name :: string
  wr_ApplicationID :: nat
  wr_Secret :: string
  wr_SecretHash :: string
  wr_Enabled :: bool
  wr_RequireSignature :: bool
  wr_AllowedCIDRs :: string
  wr_RateLimitPerMinute :: int
  wr_TitleField :: string
  wr_MessageField :: string
  wr_PriorityField :: string
  wr_MatchField :: string
  wr_MatchValue :: string
  wr_TitleTemplate :: string
  wr_MessageTemplate :: string
  wr_DefaultTitle :: string
  wr_DefaultPriority :: int
  wr_CreatedAt :: time
  wr_UpdatedAt :: time

record webhook_delivery =
  wd_ID :: nat
  wd_WebhookRouteID :: nat
  wd_IPAddress :: string
  wd_Status :: string
  wd_Detail :: string
  wd_MessageID :: nat
  wd_CreatedAt :: time

record email_gateway =
  eg_ID :: nat
  eg_Name :: string
  eg_SourceApplicationID :: nat
  eg_SMTPHost :: string
  eg_SMTPPort :: int
  eg_TLSMode :: string
  eg_Username :: string
  eg_Password :: string
  eg_FromAddress :: string
  eg_ToAddresses :: string
  eg_MinPriority :: int
  eg_Enabled :: bool
  eg_Status :: string
  eg_LastSentAt :: "time option"
  eg_LastError :: string
  eg_LastErrorAt :: "time option"
  eg_CreatedAt :: time
  eg_UpdatedAt :: time

record smtp_route =
  sr_ID :: nat
  sr_Name :: string
  sr_ApplicationID :: nat
  sr_Recipient :: string
  sr_AllowedCIDRs :: string
  sr_SenderContains :: string
  sr_SubjectContains :: string
  sr_MaxMessageBytes :: int
  sr_Username :: string
  sr_Password :: string
  sr_Enabled :: bool
  sr_CreatedAt :: time
  sr_UpdatedAt :: time

record rss_monitor =
  rss_ID :: nat
  rss_Name :: string
  rss_ApplicationID :: nat
  rss_URL :: string
  rss_IntervalMinutes :: int
  rss_TitleContains :: string
  rss_CategoryContains :: string
  rss_Priority :: int
  rss_Enabled :: bool
  rss_Status :: string
  rss_ETag :: string
  rss_LastModified :: string
  rss_LastCheckedAt :: "time option"
  rss_LastItemAt :: "time option"
  rss_LastError :: string
  rss_LastErrorAt :: "time option"
  rss_CreatedAt :: time
  rss_UpdatedAt :: time

record syslog_route =
  slr_ID :: nat
  slr_Name :: string
  slr_ApplicationID :: nat
  slr_Facility :: int
  slr_MaxSeverity :: int
  slr_AllowedCIDRs :: string
  slr_DeduplicateSeconds :: int
  slr_Enabled :: bool
  slr_CreatedAt :: time
  slr_UpdatedAt :: time

record calendar_monitor =
  cal_ID :: nat
  cal_Name :: string
  cal_ApplicationID :: nat
  cal_URL :: string
  cal_IntervalMinutes :: int
  cal_NotifyBeforeMinutes :: int
  cal_TitleContains :: string
  cal_LocationContains :: string
  cal_Priority :: int
  cal_Enabled :: bool
  cal_Status :: string
  cal_LastCheckedAt :: "time option"
  cal_LastEventAt :: "time option"
  cal_LastError :: string
  cal_LastErrorAt :: "time option"
  cal_CreatedAt :: time
  cal_UpdatedAt :: time

record connector_seen_item =
  csi_ConnectorType :: string
  csi_ConnectorID :: nat
  csi_ItemKey :: string
  csi_SeenAt :: time

record passkey_credential =
  pk_ID :: nat
  pk_UserID :: nat
  pk_Name :: string
  pk_CredentialID :: string
  pk_PublicKeyX :: bytes
  pk_PublicKeyY :: bytes
  pk_SignCount :: nat
  pk_CreatedAt :: time
  pk_LastUsedAt :: "time option"

record webauthn_challenge =
  wac_Challenge :: string
  wac_UserID :: nat
  wac_Purpose :: string
  wac_RPID :: string
  wac_Origin :: string
  wac_ClientName :: string
  wac_ClientID :: nat
  wac_ExpiresAt :: time
  wac_CreatedAt :: time

record message_template =
  tpl_ID :: nat
  tpl_Name :: string
  tpl_UserID :: nat
  tpl_ApplicationID :: nat
  tpl_Title :: string
  tpl_Message :: string
  tpl_Priority :: int
  tpl_Extras :: bytes
  tpl_CreatedAt :: time
  tpl_UpdatedAt :: time

record saved_message_search =
  sms_ID :: nat
  sms_UserID :: nat
  sms_Name :: string
  sms_Query :: string
  sms_ApplicationID :: nat
  sms_MinPriority :: int
  sms_MaxPriority :: int
  sms_Sender :: string
  sms_Status :: string
  sms_Acknowledged :: string
  sms_CreatedAt :: time
  sms_UpdatedAt :: time
section \<open>Tables with an identifier\<close>

text \<open>
  A table with \<open>autoIncrement\<close>: its rows in the order of insertion and the next identifier. Identifiers are
  never given out twice.
\<close>

record 'a table =
  tb_rows :: "'a list"
  tb_next :: nat

definition no_rows :: "'a table" where
  "no_rows = \<lparr>tb_rows = [], tb_next = 1\<rparr>"

definition delete_rows :: "('a \<Rightarrow> bool) \<Rightarrow> 'a table \<Rightarrow> 'a table" where
  "delete_rows P t = t\<lparr>tb_rows := filter (\<lambda>r. \<not> P r) (tb_rows t)\<rparr>"

definition update_rows :: "('a \<Rightarrow> bool) \<Rightarrow> ('a \<Rightarrow> 'a) \<Rightarrow> 'a table \<Rightarrow> 'a table" where
  "update_rows P f t = t\<lparr>tb_rows := map (\<lambda>r. if P r then f r else r) (tb_rows t)\<rparr>"

text \<open>
  \<open>Save\<close>: a row without an identifier gets the next one; a row with an identifier replaces the row that has
  it, or is added. The result is the identifier.
\<close>

definition save_row :: "('a \<Rightarrow> nat) \<Rightarrow> (nat \<Rightarrow> 'a) \<Rightarrow> nat \<Rightarrow> 'a table \<Rightarrow> nat \<times> 'a table" where
  "save_row key row i t =
     (if i = 0 then (tb_next t, \<lparr>tb_rows = tb_rows t @ [row (tb_next t)], tb_next = tb_next t + 1\<rparr>)
      else if i \<in> key ` set (tb_rows t) then (i, t\<lparr>tb_rows := map (\<lambda>r. if key r = i then row i else r) (tb_rows t)\<rparr>)
      else (i, \<lparr>tb_rows = tb_rows t @ [row i], tb_next = max (tb_next t) (i + 1)\<rparr>))"

text \<open>The tables of the automation and the connectors.\<close>

record automation_tables =
  at_rules :: "escalation_rule table"
  at_targets :: "escalation_target list"
  at_webhooks :: "webhook_route table"
  at_deliveries :: "webhook_delivery table"
  at_mqtt :: "mqtt_integration table"
  at_hass :: "home_assistant_integration table"
  at_schedules :: "scheduled_notification table"
  at_runs :: "scheduled_notification_run table"
  at_gateways :: "email_gateway table"
  at_smtp :: "smtp_route table"
  at_rss :: "rss_monitor table"
  at_syslog :: "syslog_route table"
  at_calendars :: "calendar_monitor table"
  at_seen :: "connector_seen_item list"

text \<open>The tables of the accounts.\<close>

record account_tables =
  ac_clients :: "client table"
  ac_plugins :: "plugin_conf table"
  ac_digests :: "digest_policy table"
  ac_quiet :: "quiet_hours_policy table"
  ac_mfa :: "user_mfa list"
  ac_passkeys :: "passkey_credential table"
  ac_challenges :: "webauthn_challenge list"
  ac_templates :: "message_template table"
  ac_searches :: "saved_message_search table"

definition no_automation :: automation_tables where
  "no_automation = \<lparr>at_rules = no_rows, at_targets = [], at_webhooks = no_rows, at_deliveries = no_rows,
     at_mqtt = no_rows, at_hass = no_rows, at_schedules = no_rows, at_runs = no_rows, at_gateways = no_rows,
     at_smtp = no_rows, at_rss = no_rows, at_syslog = no_rows, at_calendars = no_rows, at_seen = []\<rparr>"

definition no_accounts :: account_tables where
  "no_accounts = \<lparr>ac_clients = no_rows, ac_plugins = no_rows, ac_digests = no_rows, ac_quiet = no_rows,
     ac_mfa = [], ac_passkeys = no_rows, ac_challenges = [], ac_templates = no_rows, ac_searches = no_rows\<rparr>"

section \<open>Laws\<close>

definition table_ok :: "('a \<Rightarrow> nat) \<Rightarrow> 'a table \<Rightarrow> bool" where
  "table_ok key t \<longleftrightarrow> distinct (map key (tb_rows t)) \<and> (\<forall>r\<in>set (tb_rows t). 0 < key r \<and> key r < tb_next t) \<and> 0 < tb_next t"

lemma table_ok_empty [simp]: "table_ok key no_rows" "tb_rows no_rows = []"
  by (simp_all add: table_ok_def no_rows_def)

lemma table_ok_delete: "table_ok key t \<Longrightarrow> table_ok key (delete_rows P t)"
  by (auto simp: table_ok_def delete_rows_def distinct_map_filter)

lemma table_ok_update: "(\<And>r. key (f r) = key r) \<Longrightarrow> table_ok key t \<Longrightarrow> table_ok key (update_rows P f t)"
proof -
  assume k: "\<And>r. key (f r) = key r" and ok: "table_ok key t"
  have "map key (tb_rows (update_rows P f t)) = map key (tb_rows t)"
    using k by (simp add: update_rows_def)
  moreover from this have "key ` set (tb_rows (update_rows P f t)) = key ` set (tb_rows t)"
    by (metis image_set)
  moreover have "tb_next (update_rows P f t) = tb_next t" by (simp add: update_rows_def)
  moreover have "(\<forall>r\<in>set (tb_rows u). 0 < key r \<and> key r < n) \<longleftrightarrow> (\<forall>i\<in>key ` set (tb_rows u). 0 < i \<and> i < n)" for u n by simp
  ultimately show ?thesis using ok unfolding table_ok_def by metis
qed

text \<open>A saved row is found under its identifier, the others as before, and identifiers stay distinct.\<close>

lemma save_row_ok:
  assumes "table_ok key t" and "\<And>j. key (row j) = j" and "save_row key row i t = (j, t')"
  shows "table_ok key t' \<and> find (\<lambda>r. key r = j) (tb_rows t') = Some (row j) \<and>
    (\<forall>k. k \<noteq> j \<longrightarrow> find (\<lambda>r. key r = k) (tb_rows t') = find (\<lambda>r. key r = k) (tb_rows t)) \<and> (i \<noteq> 0 \<longrightarrow> j = i)"
proof -
  have other: "find (\<lambda>r. key r = k) (tb_rows t @ [row n]) = find (\<lambda>r. key r = k) (tb_rows t)" if "k \<noteq> n" for k n
    using assms(2) that by (simp add: find_append split: option.split)
  consider "i = 0" | "i \<noteq> 0" "i \<in> key ` set (tb_rows t)" | "i \<noteq> 0" "i \<notin> key ` set (tb_rows t)" by blast
  then show ?thesis
  proof cases
    case 1
    then have j: "j = tb_next t" "t' = \<lparr>tb_rows = tb_rows t @ [row (tb_next t)], tb_next = tb_next t + 1\<rparr>"
      using assms(3) by (auto simp: save_row_def)
    have "tb_next t \<notin> key ` set (tb_rows t)" using assms(1) by (auto simp: table_ok_def)
    then have "find (\<lambda>r. key r = tb_next t) (tb_rows t) = None" by (auto simp: find_None_iff intro: rev_image_eqI)
    moreover have "table_ok key t'"
      using assms(1,2) \<open>tb_next t \<notin> _\<close> unfolding j table_ok_def by (auto simp: less_Suc_eq)
    ultimately show ?thesis using 1 other assms(2) by (simp add: j find_append)
  next
    case 2
    then have j: "j = i" "t' = t\<lparr>tb_rows := map (\<lambda>r. if key r = i then row i else r) (tb_rows t)\<rparr>"
      using assms(3) by (auto simp: save_row_def)
    have "t' = update_rows (\<lambda>r. key r = i) (\<lambda>r. if key r = i then row i else r) t"
      unfolding j update_rows_def by (simp add: if_distrib cong: if_cong)
    then have "table_ok key t'" using assms(1,2) by (simp add: table_ok_update)
    moreover have F: "find (\<lambda>r. key r = k) (tb_rows t') =
        map_option (\<lambda>r. if key r = i then row i else r) (find (\<lambda>r. key r = k) (tb_rows t))" for k
    proof -
      have "find (\<lambda>r. key r = k) (map (\<lambda>r. if key r = i then row i else r) (tb_rows t)) =
          map_option (\<lambda>r. if key r = i then row i else r) (find (\<lambda>r. key r = k) (tb_rows t))"
        by (rule find_map_keep) (simp add: assms(2))
      then show ?thesis by (simp add: j(2))
    qed
    moreover have "find (\<lambda>r. key r = i) (tb_rows t') = Some (row i)"
    proof -
      have "find (\<lambda>r. key r = i) (tb_rows t) \<noteq> None" using 2(2) by (auto simp: find_None_iff)
      then obtain r where "find (\<lambda>r. key r = i) (tb_rows t) = Some r" by blast
      moreover from this have "key r = i" by (auto dest: find_SomeD)
      ultimately show ?thesis unfolding F by simp
    qed
    moreover have "find (\<lambda>r. key r = k) (tb_rows t') = find (\<lambda>r. key r = k) (tb_rows t)" if "k \<noteq> i" for k
    proof (cases "find (\<lambda>r. key r = k) (tb_rows t)")
      case (Some r)
      then have "key r = k" by (auto dest: find_SomeD)
      then show ?thesis using Some that unfolding F by simp
    qed (simp add: F)
    ultimately show ?thesis by (simp add: j(1))
  next
    case 3
    then have j: "j = i" "t' = \<lparr>tb_rows = tb_rows t @ [row i], tb_next = max (tb_next t) (i + 1)\<rparr>"
      using assms(3) by (auto simp: save_row_def)
    have "find (\<lambda>r. key r = i) (tb_rows t) = None" using 3(2) by (auto simp: find_None_iff intro: rev_image_eqI)
    moreover have "table_ok key t'"
      using assms(1,2) 3 unfolding j table_ok_def by (auto simp: max_def)
    ultimately show ?thesis using other assms(2) by (simp add: j find_append)
  qed
qed

end
