(* ===== verification/Database.thy ===== *)
theory Database
  imports Tables
begin

text \<open>
  The message side of the database layer: \<open>src/database/message.go\<close> and the reads, reactions, mentions,
  workflows and searches of \<open>src/database/collaboration.go\<close>. The tables are lists of rows in the order of
  insertion; a statement of the code, built with the mapper GORM from the clauses \<open>Where\<close>, \<open>Order\<close>, \<open>Limit\<close>,
  \<open>Joins\<close>, \<open>Create\<close>, \<open>Delete\<close> and \<open>OnConflict\<close>, is read as SQL defines these clauses. Every statement may fail:
  the session holds the answers of the server to the statements to come, so that all error returns
  of the code are branches of the model. Joins over a primary key match at most one row and are filters.
\<close>

section \<open>Tables and statements\<close>

record gorm_db =
  tb_users :: "user list"
  tb_applications :: "application list"
  tb_memberships :: "application_membership list"
  tb_assignments :: "group_assignment list"
  tb_groups :: "user_group list"
  tb_group_members :: "user_group_membership list"
  tb_messages :: "message list"
  tb_dismissals :: "message_dismissal list"
  tb_acks :: "message_acknowledgement list"
  tb_attachments :: "message_attachment list"
  tb_reactions :: "message_reaction list"
  tb_workflows :: "message_workflow list"
  tb_reads :: "message_read list"
  tb_mentions :: "message_mention list"
  tb_digest_items :: "digest_item list"
  tb_states :: "escalation_state list"
  tb_deferred :: "deferred_notification list"
  tb_leases :: "automation_lease list"
  tb_automation :: automation_tables
  tb_accounts :: account_tables
  sq_messages :: nat
  sq_applications :: nat
  sq_users :: nat
  sq_groups :: nat
  db_now :: time

definition duplicated_key :: fail where
  "duplicated_key = Err ''duplicated key not allowed''"

definition record_not_found :: fail where
  "record_not_found = Err ''record not found''"

text \<open>
  A session: the tables, and for each statement to come the failure it meets, if any; beyond the end
  of the list no statement fails.
\<close>

record session =
  tables :: gorm_db
  faults :: "fail option list"

type_synonym 'a db = "session \<Rightarrow> 'a res \<times> session"

definition statement :: "(gorm_db \<Rightarrow> 'a res \<times> gorm_db) \<Rightarrow> 'a db" where
  "statement f s =
     (case faults s of
        Some e # fs \<Rightarrow> (Inl e, s\<lparr>faults := fs\<rparr>)
      | fs \<Rightarrow> (case f (tables s) of (r, t) \<Rightarrow> (r, \<lparr>tables = t, faults = tl fs\<rparr>)))"

definition query :: "(gorm_db \<Rightarrow> 'a) \<Rightarrow> 'a db" where
  "query q = statement (\<lambda>t. (Inr (q t), t))"

definition exec :: "(gorm_db \<Rightarrow> gorm_db) \<Rightarrow> unit db" where
  "exec f = statement (\<lambda>t. (Inr (), f t))"

definition db_return :: "'a \<Rightarrow> 'a db" where
  "db_return x s = (Inr x, s)"

definition db_fail :: "fail \<Rightarrow> 'a db" where
  "db_fail e s = (Inl e, s)"

definition db_bind :: "'a db \<Rightarrow> ('a \<Rightarrow> 'b db) \<Rightarrow> 'b db" where
  "db_bind m f s = (case m s of (Inl e, s) \<Rightarrow> (Inl e, s) | (Inr x, s) \<Rightarrow> f x s)"

definition db_then :: "unit db \<Rightarrow> 'b db \<Rightarrow> 'b db" where
  "db_then m k = db_bind m (\<lambda>_. k)"

fun db_foreach :: "('a \<Rightarrow> unit db) \<Rightarrow> 'a list \<Rightarrow> unit db" where
  "db_foreach f [] = db_return ()"
| "db_foreach f (x # xs) = db_then (f x) (db_foreach f xs)"

definition exec_all :: "(gorm_db \<Rightarrow> gorm_db) list \<Rightarrow> unit db" where
  "exec_all fs = db_foreach exec fs"

text \<open>\<open>DB.Transaction\<close>: begin, the body, commit; after an error the tables are as before.\<close>

definition transaction :: "'a db \<Rightarrow> 'a db" where
  "transaction body s =
     (case db_then (exec id) (db_bind body (\<lambda>x. db_then (exec id) (db_return x))) s of
        (Inl e, s') \<Rightarrow> (Inl e, s'\<lparr>tables := tables s\<rparr>)
      | (Inr x, s') \<Rightarrow> (Inr x, s'))"

text \<open>Rows in descending order of a key.\<close>

definition order_desc :: "('a \<Rightarrow> nat) \<Rightarrow> 'a list \<Rightarrow> 'a list" where
  "order_desc k xs = rev (sort_key k xs)"

section \<open>Messages\<close>

text \<open>What the table keeps of a message: not the fields marked \<open>gorm:"-"\<close>.\<close>

abbreviation no_collaboration :: message_collaboration where
  "no_collaboration \<equiv> msg_Collaboration new_message"

definition message_row :: "message \<Rightarrow> message" where
  "message_row m = m\<lparr>msg_Collaboration := no_collaboration, msg_Acknowledged := False,
     msg_AcknowledgedByAnyone := False, msg_AcknowledgementCount := 0, msg_LastAcknowledgedBy := '''',
     msg_LastAcknowledgedAt := None\<rparr>"

text \<open>Reading into an empty structure: for identifier 0 a missing row looks like a found one.\<close>

definition db_GetMessageByID :: "nat \<Rightarrow> message option db" where
  "db_GetMessageByID i =
     db_bind (query (\<lambda>t. find (\<lambda>m. msg_ID m = i) (tb_messages t))) (\<lambda>row.
       let msg = (case row of Some m \<Rightarrow> m | None \<Rightarrow> new_message) in
       db_return (if msg_ID msg = i then Some msg else None))"

text \<open>
  \<open>Create\<close> fails on a taken identifier or deduplication key; an empty key is left out of the row and
  never collides.
\<close>

definition insert_message :: "message \<Rightarrow> gorm_db \<Rightarrow> message res \<times> gorm_db" where
  "insert_message m t =
     (let i = (if msg_ID m = 0 then sq_messages t else msg_ID m); key = msg_DeduplicationKey m in
      if \<exists>r\<in>set (tb_messages t). msg_ID r = i \<or> key \<noteq> '''' \<and> msg_DeduplicationKey r = key
      then (Inl duplicated_key, t)
      else (Inr (m\<lparr>msg_ID := i\<rparr>), t\<lparr>tb_messages := tb_messages t @ [message_row (m\<lparr>msg_ID := i\<rparr>)],
        sq_messages := max (sq_messages t) (i + 1)\<rparr>))"

definition db_CreateMessage :: "message \<Rightarrow> message db" where
  "db_CreateMessage m = statement (insert_message m)"

definition db_CreateMessageOnce :: "message \<Rightarrow> (bool \<times> message) db" where
  "db_CreateMessageOnce m s =
     (if msg_DeduplicationKey m = '''' then db_bind (db_CreateMessage m) (\<lambda>m. db_return (True, m)) s
      else case statement (insert_message m) s of
        (Inr m, s) \<Rightarrow> (Inr (True, m), s)
      | (Inl e, s) \<Rightarrow>
          if e \<noteq> duplicated_key then (Inl e, s)
          else db_bind (query (\<lambda>t. find (\<lambda>r. msg_DeduplicationKey r = msg_DeduplicationKey m) (tb_messages t)))
            (\<lambda>row. case row of None \<Rightarrow> db_fail record_not_found | Some existing \<Rightarrow> db_return (False, existing)) s)"

definition db_GetMessageByDeduplicationKey :: "string \<Rightarrow> message option db" where
  "db_GetMessageByDeduplicationKey key =
     (if key = '''' then db_return None
      else query (\<lambda>t. find (\<lambda>m. msg_DeduplicationKey m = key) (tb_messages t)))"

section \<open>What a user sees\<close>

definition is_member :: "gorm_db \<Rightarrow> nat \<Rightarrow> nat \<Rightarrow> bool" where
  "is_member db app u \<longleftrightarrow> (\<exists>am\<in>set (tb_memberships db). mem_ApplicationID am = app \<and> mem_UserID am = u)"

definition dismissal_of :: "gorm_db \<Rightarrow> nat \<Rightarrow> nat \<Rightarrow> message_dismissal option" where
  "dismissal_of db u i = find (\<lambda>d. dis_UserID d = u \<and> dis_MessageID d = i) (tb_dismissals db)"

definition visibleMessages :: "gorm_db \<Rightarrow> nat \<Rightarrow> message list" where
  "visibleMessages db u =
     filter (\<lambda>m. is_member db (msg_ApplicationID m) u \<and> dismissal_of db u (msg_ID m) = None) (tb_messages db)"

definition archivedMessages :: "gorm_db \<Rightarrow> nat \<Rightarrow> message list" where
  "archivedMessages db u =
     filter (\<lambda>m. is_member db (msg_ApplicationID m) u \<and>
       (case dismissal_of db u (msg_ID m) of None \<Rightarrow> False | Some d \<Rightarrow> dis_Archived d)) (tb_messages db)"

text \<open>\<open>uintString\<close> fills its buffer from the end.\<close>

function uintString_loop :: "nat \<Rightarrow> string \<Rightarrow> string" where
  "uintString_loop v buf = (if v > 0 then uintString_loop (v div 10) (digit_char (v mod 10) # buf) else buf)"
  by pat_completeness auto
termination by (relation "measure fst") auto

definition uintString :: "nat \<Rightarrow> string" where
  "uintString v = (if v = 0 then ''0'' else uintString_loop v '''')"

definition attachment_view :: "message_attachment \<Rightarrow> message_attachment_view" where
  "attachment_view a = \<lparr>mav_ID = mat_ID a, mav_Filename = mat_Filename a, mav_ContentType = mat_ContentType a,
     mav_Size = mat_Size a,
     mav_URL = ''/message/'' @ uintString (mat_MessageID a) @ ''/attachment/'' @ uintString (mat_ID a)\<rparr>"

text \<open>The grouped reactions of one message, in the order of their emojis.\<close>

definition reaction_rows :: "nat \<Rightarrow> nat \<Rightarrow> message_reaction list \<Rightarrow> message_reaction_summary list" where
  "reaction_rows u i all =
     (let rs = filter (\<lambda>r. mre_MessageID r = i) all in
      map (\<lambda>e. let es = filter (\<lambda>r. mre_Emoji r = e) rs in
           \<lparr>mrs_Emoji = e, mrs_Count = int (length es), mrs_ReactedByMe = list_ex (\<lambda>r. mre_UserID r = u) es\<rparr>)
        (sort (remdups (map mre_Emoji rs))))"

text \<open>A column of the user a row refers to, empty when there is none (\<open>LEFT JOIN\<close>).\<close>

definition user_column :: "(user \<Rightarrow> string) \<Rightarrow> user list \<Rightarrow> nat \<Rightarrow> string" where
  "user_column f us i = (case find (\<lambda>u. usr_ID u = i) us of Some u \<Rightarrow> f u | None \<Rightarrow> '''')"

definition set_workflow :: "user list \<Rightarrow> message_workflow \<Rightarrow> message_collaboration \<Rightarrow> message_collaboration" where
  "set_workflow us w c = c\<lparr>col_AssignedUserID := mwf_AssignedUserID w,
     col_AssignedUserName := user_column usr_DisplayName us (mwf_AssignedUserID w), col_Status := mwf_Status w,
     col_ResolvedBy := mwf_ResolvedBy w, col_ResolvedByName := user_column usr_DisplayName us (mwf_ResolvedBy w),
     col_ResolvedAt := mwf_ResolvedAt w\<rparr>"

text \<open>
  The loops reach a message through a map from its identifier, so of several copies of one message in
  the list only the last is changed.
\<close>

fun update_last :: "(message \<Rightarrow> message) \<Rightarrow> message list \<Rightarrow> message list" where
  "update_last f [] = []"
| "update_last f (m # ms) = (if msg_ID m \<in> msg_ID ` set ms then m else f m) # update_last f ms"

definition collaborate :: "(nat \<Rightarrow> message_collaboration \<Rightarrow> message_collaboration) \<Rightarrow> message list \<Rightarrow> message list" where
  "collaborate g = update_last (\<lambda>m. m\<lparr>msg_Collaboration := g (msg_ID m) (msg_Collaboration m)\<rparr>)"

definition EnrichMessageCollaboration :: "nat \<Rightarrow> message list \<Rightarrow> message list db" where
  "EnrichMessageCollaboration u ms =
     (if ms = [] then db_return []
      else
        let ms = map (\<lambda>m. m\<lparr>msg_Collaboration := no_collaboration\<rparr>) ms in
        db_bind (query (\<lambda>t. sort_key mat_ID (tb_attachments t))) (\<lambda>attachments.
          let ms = collaborate (\<lambda>i c. c\<lparr>col_Attachments :=
            col_Attachments c @ map attachment_view (filter (\<lambda>a. mat_MessageID a = i) attachments)\<rparr>) ms in
        db_bind (query (\<lambda>t. \<lambda>i. reaction_rows u i (tb_reactions t))) (\<lambda>reactions.
          let ms = collaborate (\<lambda>i c. c\<lparr>col_Reactions := col_Reactions c @ reactions i\<rparr>) ms in
        db_bind (query (\<lambda>t. (tb_users t, tb_workflows t))) (\<lambda>(users, workflows).
          let ms = collaborate (\<lambda>i. fold (set_workflow users) (filter (\<lambda>w. mwf_MessageID w = i) workflows)) ms in
        db_bind (query (\<lambda>t. map mrd_MessageID (filter (\<lambda>r. mrd_UserID r = u) (tb_reads t)))) (\<lambda>readIDs.
          let ms = collaborate (\<lambda>i c. if i \<in> set readIDs then c\<lparr>col_Read := True\<rparr> else c) ms in
        db_bind (query (\<lambda>t. map mmn_MessageID (filter (\<lambda>r. mmn_UserID r = u) (tb_mentions t)))) (\<lambda>mentionIDs.
          let ms = collaborate (\<lambda>i c. if i \<in> set mentionIDs then c\<lparr>col_Mentioned := True\<rparr> else c) ms in
        db_bind (query (\<lambda>t. filter (\<lambda>m. msg_ReplyToMessageID m \<noteq> 0) (tb_messages t))) (\<lambda>replies.
          let count = (\<lambda>i. length (filter (\<lambda>m. msg_ThreadRootMessageID m = i) replies)) in
          db_return (collaborate (\<lambda>i c. if count i > 0 then c\<lparr>col_ReplyCount := int (count i)\<rparr> else c) ms))))))))"

definition acknowledge :: "nat \<Rightarrow> user list \<Rightarrow> message_acknowledgement \<Rightarrow> message \<Rightarrow> message" where
  "acknowledge u us a m =
     (let m = m\<lparr>msg_AcknowledgedByAnyone := True, msg_AcknowledgementCount := msg_AcknowledgementCount m + 1,
        msg_Acknowledged := msg_Acknowledged m \<or> ack_UserID a = u\<rparr> in
      if msg_LastAcknowledgedAt m = None
      then m\<lparr>msg_LastAcknowledgedAt := Some (ack_AcknowledgedAt a),
        msg_LastAcknowledgedBy := (if user_column usr_DisplayName us (ack_UserID a) \<noteq> ''''
          then user_column usr_DisplayName us (ack_UserID a) else user_column usr_Name us (ack_UserID a))\<rparr>
      else m)"

definition markAcknowledged :: "nat \<Rightarrow> message list \<Rightarrow> message list db" where
  "markAcknowledged u ms =
     (if ms = [] then db_return []
      else db_bind (query (\<lambda>t. (tb_users t, sort_key (\<lambda>a. - ack_AcknowledgedAt a) (tb_acks t)))) (\<lambda>(users, rows).
        EnrichMessageCollaboration u
          (update_last (\<lambda>m. fold (acknowledge u users) (filter (\<lambda>a. ack_MessageID a = msg_ID m) rows) m) ms)))"

section \<open>Pages\<close>

text \<open>\<open>LIMIT\<close>: a negative limit does not limit.\<close>

definition limited :: "int \<Rightarrow> 'a list \<Rightarrow> 'a list" where
  "limited n xs = (if n < 0 then xs else take (nat n) xs)"

definition page :: "int \<Rightarrow> nat \<Rightarrow> message list \<Rightarrow> message list" where
  "page limit since ms =
     limited limit (order_desc msg_ID (if since \<noteq> 0 then filter (\<lambda>m. msg_ID m < since) ms else ms))"

definition GetMessagesByUser :: "nat \<Rightarrow> message list db" where
  "GetMessagesByUser u = db_bind (query (\<lambda>t. order_desc msg_ID (visibleMessages t u))) (markAcknowledged u)"

definition GetMessagesByUserSince :: "nat \<Rightarrow> int \<Rightarrow> nat \<Rightarrow> message list db" where
  "GetMessagesByUserSince u limit since =
     db_bind (query (\<lambda>t. page limit since (visibleMessages t u))) (markAcknowledged u)"

definition GetArchivedMessagesByUserSince :: "nat \<Rightarrow> int \<Rightarrow> nat \<Rightarrow> message list db" where
  "GetArchivedMessagesByUserSince u limit since =
     db_bind (query (\<lambda>t. page limit since (archivedMessages t u))) (markAcknowledged u)"

definition of_channel :: "nat \<Rightarrow> message list \<Rightarrow> message list" where
  "of_channel app = filter (\<lambda>m. msg_ApplicationID m = app)"

definition GetMessagesByApplication :: "nat \<Rightarrow> message list db" where
  "GetMessagesByApplication app = query (\<lambda>t. order_desc msg_ID (of_channel app (tb_messages t)))"

definition GetMessagesByApplicationSince :: "nat \<Rightarrow> int \<Rightarrow> nat \<Rightarrow> message list db" where
  "GetMessagesByApplicationSince app limit since = query (\<lambda>t. page limit since (of_channel app (tb_messages t)))"

definition GetMessagesByApplicationForUserSince :: "nat \<Rightarrow> nat \<Rightarrow> int \<Rightarrow> nat \<Rightarrow> message list db" where
  "GetMessagesByApplicationForUserSince u app limit since =
     db_bind (query (\<lambda>t. page limit since (of_channel app (visibleMessages t u)))) (markAcknowledged u)"

definition GetArchivedMessagesByApplicationForUserSince :: "nat \<Rightarrow> nat \<Rightarrow> int \<Rightarrow> nat \<Rightarrow> message list db" where
  "GetArchivedMessagesByApplicationForUserSince u app limit since =
     db_bind (query (\<lambda>t. page limit since (of_channel app (archivedMessages t u)))) (markAcknowledged u)"

definition GetThreadMessagesForUser :: "nat \<Rightarrow> nat \<Rightarrow> message list db" where
  "GetThreadMessagesForUser u rootID =
     db_bind (query (\<lambda>t. sort_key msg_ID
       (filter (\<lambda>m. msg_ID m = rootID \<or> msg_ThreadRootMessageID m = rootID) (visibleMessages t u))))
     (markAcknowledged u)"

section \<open>Dismissing and archiving\<close>

text \<open>
  \<open>INSERT ... ON CONFLICT (user_id, message_id)\<close> of one row, updating \<open>archived\<close> or doing nothing; the
  creation time is stamped by the mapper.
\<close>

definition put_dismissal :: "bool \<Rightarrow> nat \<Rightarrow> bool \<Rightarrow> nat \<Rightarrow> gorm_db \<Rightarrow> gorm_db" where
  "put_dismissal update u archived i t =
     (if dismissal_of t u i = None
      then t\<lparr>tb_dismissals := tb_dismissals t @ [\<lparr>dis_UserID = u, dis_MessageID = i, dis_Archived = archived,
                dis_CreatedAt = db_now t\<rparr>]\<rparr>
      else if update
      then t\<lparr>tb_dismissals := map (\<lambda>d. if dis_UserID d = u \<and> dis_MessageID d = i then d\<lparr>dis_Archived := archived\<rparr> else d)
                (tb_dismissals t)\<rparr>
      else t)"

definition DismissMessageForUser :: "nat \<Rightarrow> nat \<Rightarrow> unit db" where
  "DismissMessageForUser u i = exec (put_dismissal True u False i)"

definition ArchiveMessageForUser :: "nat \<Rightarrow> nat \<Rightarrow> unit db" where
  "ArchiveMessageForUser u i = exec (put_dismissal True u True i)"

definition UnarchiveMessageForUser :: "nat \<Rightarrow> nat \<Rightarrow> unit db" where
  "UnarchiveMessageForUser u i = exec (\<lambda>t. t\<lparr>tb_dismissals :=
     filter (\<lambda>d. \<not> (dis_UserID d = u \<and> dis_MessageID d = i \<and> dis_Archived d)) (tb_dismissals t)\<rparr>)"

definition createDismissals :: "nat \<Rightarrow> nat list \<Rightarrow> unit db" where
  "createDismissals u ids =
     (if ids = [] then db_return () else exec (fold (put_dismissal False u False) ids))"

definition createArchives :: "nat \<Rightarrow> nat list \<Rightarrow> unit db" where
  "createArchives u ids =
     (if ids = [] then db_return () else exec (fold (put_dismissal True u True) ids))"

definition ArchiveMessagesByUser :: "nat \<Rightarrow> unit db" where
  "ArchiveMessagesByUser u =
     transaction (db_bind (query (\<lambda>t. map msg_ID (visibleMessages t u))) (createArchives u))"

definition ArchiveMessagesByApplicationForUser :: "nat \<Rightarrow> nat \<Rightarrow> unit db" where
  "ArchiveMessagesByApplicationForUser u app =
     transaction (db_bind (query (\<lambda>t. map msg_ID (of_channel app (visibleMessages t u)))) (createArchives u))"

definition UnarchiveMessagesByUser :: "nat \<Rightarrow> unit db" where
  "UnarchiveMessagesByUser u = exec (\<lambda>t. t\<lparr>tb_dismissals :=
     filter (\<lambda>d. \<not> (dis_UserID d = u \<and> dis_Archived d)) (tb_dismissals t)\<rparr>)"

definition UnarchiveMessagesByApplicationForUser :: "nat \<Rightarrow> nat \<Rightarrow> unit db" where
  "UnarchiveMessagesByApplicationForUser u app = exec (\<lambda>t.
     let ids = msg_ID ` set (of_channel app (tb_messages t)) in
     t\<lparr>tb_dismissals := filter (\<lambda>d. \<not> (dis_UserID d = u \<and> dis_Archived d \<and> dis_MessageID d \<in> ids)) (tb_dismissals t)\<rparr>)"

definition DismissMessagesByUser :: "nat \<Rightarrow> unit db" where
  "DismissMessagesByUser u =
     transaction (db_bind (query (\<lambda>t. map msg_ID (visibleMessages t u))) (createDismissals u))"

definition DismissMessagesByApplicationForUser :: "nat \<Rightarrow> nat \<Rightarrow> unit db" where
  "DismissMessagesByApplicationForUser u app =
     transaction (db_bind (query (\<lambda>t. map msg_ID (of_channel app (tb_messages t)))) (createDismissals u))"

section \<open>Deleting\<close>

text \<open>The deletes that every removal of messages starts with, in the order of the code.\<close>

definition delete_dependents :: "(nat \<Rightarrow> gorm_db \<Rightarrow> bool) \<Rightarrow> unit db" where
  "delete_dependents ids = exec_all [
     \<lambda>t. t\<lparr>tb_dismissals := filter (\<lambda>r. \<not> ids (dis_MessageID r) t) (tb_dismissals t)\<rparr>,
     \<lambda>t. t\<lparr>tb_acks := filter (\<lambda>r. \<not> ids (ack_MessageID r) t) (tb_acks t)\<rparr>,
     \<lambda>t. t\<lparr>tb_digest_items := filter (\<lambda>r. \<not> ids (di_MessageID r) t) (tb_digest_items t)\<rparr>,
     \<lambda>t. t\<lparr>tb_states := filter (\<lambda>r. \<not> ids (es_MessageID r) t) (tb_states t)\<rparr>,
     \<lambda>t. t\<lparr>tb_deferred := filter (\<lambda>r. \<not> ids (dn_MessageID r) t) (tb_deferred t)\<rparr>,
     \<lambda>t. t\<lparr>tb_reactions := filter (\<lambda>r. \<not> ids (mre_MessageID r) t) (tb_reactions t)\<rparr>,
     \<lambda>t. t\<lparr>tb_workflows := filter (\<lambda>r. \<not> ids (mwf_MessageID r) t) (tb_workflows t)\<rparr>,
     \<lambda>t. t\<lparr>tb_reads := filter (\<lambda>r. \<not> ids (mrd_MessageID r) t) (tb_reads t)\<rparr>,
     \<lambda>t. t\<lparr>tb_mentions := filter (\<lambda>r. \<not> ids (mmn_MessageID r) t) (tb_mentions t)\<rparr>,
     \<lambda>t. t\<lparr>tb_attachments := filter (\<lambda>r. \<not> ids (mat_MessageID r) t) (tb_attachments t)\<rparr>]"

definition thread_ids :: "nat \<Rightarrow> gorm_db \<Rightarrow> nat list" where
  "thread_ids i t = map msg_ID (filter (\<lambda>m. msg_ID m = i \<or> msg_ReplyToMessageID m = i \<or> msg_ThreadRootMessageID m = i)
     (tb_messages t))"

definition GetMessageAttachmentStorageNamesForDelete :: "nat \<Rightarrow> string list db" where
  "GetMessageAttachmentStorageNamesForDelete i = query (\<lambda>t.
     map mat_StorageName (filter (\<lambda>a. mat_MessageID a \<in> set (thread_ids i t) \<and> mat_StorageName a \<noteq> '''')
       (tb_attachments t)))"

definition db_DeleteMessageByID :: "nat \<Rightarrow> unit db" where
  "db_DeleteMessageByID i = transaction (db_bind (query (thread_ids i)) (\<lambda>ids.
     if ids = [] then db_return ()
     else db_then (delete_dependents (\<lambda>j t. j \<in> set ids))
       (exec (\<lambda>t. t\<lparr>tb_messages := filter (\<lambda>m. msg_ID m \<notin> set ids) (tb_messages t)\<rparr>))))"

definition DeleteMessagesByApplication :: "nat \<Rightarrow> unit db" where
  "DeleteMessagesByApplication app = transaction (
     db_then (delete_dependents (\<lambda>j t. j \<in> msg_ID ` set (of_channel app (tb_messages t))))
       (exec (\<lambda>t. t\<lparr>tb_messages := filter (\<lambda>m. msg_ApplicationID m \<noteq> app) (tb_messages t)\<rparr>)))"

text \<open>Errors of the single channels, and of listing them, are ignored.\<close>

definition GetApplicationsByUser :: "nat \<Rightarrow> application list db" where
  "GetApplicationsByUser u =
     query (\<lambda>t. sort_key app_SortKey (sort_key app_ID (filter (\<lambda>a. app_UserID a = u) (tb_applications t))))"

definition DeleteMessagesByUser :: "nat \<Rightarrow> unit db" where
  "DeleteMessagesByUser u s =
     (case GetApplicationsByUser u s of
        (Inl _, s) \<Rightarrow> (Inr (), s)
      | (Inr apps, s) \<Rightarrow> (Inr (), fold (\<lambda>app s. snd (DeleteMessagesByApplication (app_ID app) s)) apps s))"

text \<open>
  \<open>ApplyMessageRetention\<close> returns the number of deletions with an error or without one. A message
  that went with the thread of an earlier one is counted again.
\<close>

definition retention_start :: "time \<Rightarrow> application \<Rightarrow> time" where
  "retention_start now app = now + wrap64 (wrap64 (- app_RetentionDays app * 24) * hour)"

fun retention_deletes :: "int \<Rightarrow> nat list \<Rightarrow> session \<Rightarrow> (int \<times> fail option) \<times> session" where
  "retention_deletes n [] s = ((n, None), s)"
| "retention_deletes n (i # ids) s =
     (case db_DeleteMessageByID i s of
        (Inl e, s) \<Rightarrow> ((n, Some e), s)
      | (Inr _, s) \<Rightarrow> retention_deletes (n + 1) ids s)"

fun retention_channels :: "time \<Rightarrow> int \<Rightarrow> application list \<Rightarrow> session \<Rightarrow> (int \<times> fail option) \<times> session" where
  "retention_channels now n [] s = ((n, None), s)"
| "retention_channels now n (app # apps) s =
     (case query (\<lambda>t. sort (map msg_ID (filter (\<lambda>m. msg_Date m < retention_start now app)
              (of_channel (app_ID app) (tb_messages t))))) s of
        (Inl e, s) \<Rightarrow> ((n, Some e), s)
      | (Inr ids, s) \<Rightarrow>
          case retention_deletes n ids s of
            ((n, Some e), s) \<Rightarrow> ((n, Some e), s)
          | ((n, None), s) \<Rightarrow> retention_channels now n apps s)"

definition ApplyMessageRetention :: "time \<Rightarrow> session \<Rightarrow> (int \<times> fail option) \<times> session" where
  "ApplyMessageRetention now s =
     (case query (\<lambda>t. filter (\<lambda>a. app_RetentionDays a > 0) (tb_applications t)) s of
        (Inl e, s) \<Rightarrow> ((0, Some e), s)
      | (Inr apps, s) \<Rightarrow> retention_channels now 0 apps s)"

text \<open>\<open>IsMessageAcknowledged\<close> and the acknowledgements of \<open>src/database/automation.go\<close>.\<close>

definition SetMessageAcknowledgement :: "nat \<Rightarrow> nat \<Rightarrow> bool \<Rightarrow> time \<Rightarrow> unit db" where
  "SetMessageAcknowledgement u i acknowledged now = exec (\<lambda>t.
     if \<not> acknowledged
     then t\<lparr>tb_acks := filter (\<lambda>a. \<not> (ack_UserID a = u \<and> ack_MessageID a = i)) (tb_acks t)\<rparr>
     else if \<exists>a\<in>set (tb_acks t). ack_UserID a = u \<and> ack_MessageID a = i
     then t\<lparr>tb_acks := map (\<lambda>a. if ack_UserID a = u \<and> ack_MessageID a = i then a\<lparr>ack_AcknowledgedAt := now\<rparr> else a)
            (tb_acks t)\<rparr>
     else t\<lparr>tb_acks := tb_acks t @ [\<lparr>ack_UserID = u, ack_MessageID = i, ack_AcknowledgedAt = now\<rparr>]\<rparr>)"

definition db_IsMessageAcknowledgedByUser :: "nat \<Rightarrow> nat \<Rightarrow> bool db" where
  "db_IsMessageAcknowledgedByUser u i =
     db_bind (query (\<lambda>t. length (filter (\<lambda>a. ack_UserID a = u \<and> ack_MessageID a = i) (tb_acks t))))
       (\<lambda>count. db_return (count > 0))"

definition db_IsMessageAcknowledged :: "nat \<Rightarrow> bool db" where
  "db_IsMessageAcknowledged i =
     db_bind (query (\<lambda>t. length (filter (\<lambda>a. ack_MessageID a = i) (tb_acks t)))) (\<lambda>count. db_return (count > 0))"

section \<open>Collaboration\<close>

definition AddMessageReaction :: "nat \<Rightarrow> nat \<Rightarrow> string \<Rightarrow> unit db" where
  "AddMessageReaction i u emoji = exec (\<lambda>t.
     let e = strings_TrimSpace emoji in
     if \<exists>r\<in>set (tb_reactions t). mre_MessageID r = i \<and> mre_UserID r = u \<and> mre_Emoji r = e then t
     else t\<lparr>tb_reactions := tb_reactions t @
       [\<lparr>mre_MessageID = i, mre_UserID = u, mre_Emoji = e, mre_CreatedAt = db_now t\<rparr>]\<rparr>)"

definition DeleteMessageReaction :: "nat \<Rightarrow> nat \<Rightarrow> string \<Rightarrow> unit db" where
  "DeleteMessageReaction i u emoji = exec (\<lambda>t. t\<lparr>tb_reactions := filter
     (\<lambda>r. \<not> (mre_MessageID r = i \<and> mre_UserID r = u \<and> mre_Emoji r = strings_TrimSpace emoji)) (tb_reactions t)\<rparr>)"

definition SaveMessageWorkflow :: "message_workflow \<Rightarrow> unit db" where
  "SaveMessageWorkflow item = exec (\<lambda>t.
     if mwf_MessageID item \<in> mwf_MessageID ` set (tb_workflows t)
     then t\<lparr>tb_workflows := map (\<lambda>w. if mwf_MessageID w = mwf_MessageID item then item else w) (tb_workflows t)\<rparr>
     else t\<lparr>tb_workflows := tb_workflows t @ [item]\<rparr>)"

definition GetMessageWorkflow :: "nat \<Rightarrow> message_workflow option db" where
  "GetMessageWorkflow i = query (\<lambda>t. find (\<lambda>w. mwf_MessageID w = i) (tb_workflows t))"

definition MarkMessageRead :: "nat \<Rightarrow> nat \<Rightarrow> time \<Rightarrow> unit db" where
  "MarkMessageRead u i now = exec (\<lambda>t.
     if \<exists>r\<in>set (tb_reads t). mrd_UserID r = u \<and> mrd_MessageID r = i
     then t\<lparr>tb_reads := map (\<lambda>r. if mrd_UserID r = u \<and> mrd_MessageID r = i then r\<lparr>mrd_ReadAt := now\<rparr> else r) (tb_reads t)\<rparr>
     else t\<lparr>tb_reads := tb_reads t @ [\<lparr>mrd_UserID = u, mrd_MessageID = i, mrd_ReadAt = now\<rparr>]\<rparr>)"

definition MarkMessageUnread :: "nat \<Rightarrow> nat \<Rightarrow> unit db" where
  "MarkMessageUnread u i = exec (\<lambda>t. t\<lparr>tb_reads :=
     filter (\<lambda>r. \<not> (mrd_UserID r = u \<and> mrd_MessageID r = i)) (tb_reads t)\<rparr>)"

definition add_mention :: "nat \<Rightarrow> nat \<Rightarrow> gorm_db \<Rightarrow> gorm_db" where
  "add_mention i u t =
     (let row = \<lparr>mmn_MessageID = i, mmn_UserID = u\<rparr> in
      if row \<in> set (tb_mentions t) then t else t\<lparr>tb_mentions := tb_mentions t @ [row]\<rparr>)"

definition ReplaceMessageMentions :: "nat \<Rightarrow> nat list \<Rightarrow> unit db" where
  "ReplaceMessageMentions i us = transaction (
     db_then (exec (\<lambda>t. t\<lparr>tb_mentions := filter (\<lambda>r. mmn_MessageID r \<noteq> i) (tb_mentions t)\<rparr>))
       (db_foreach (\<lambda>u. if u = 0 then db_return () else exec (add_mention i u)) us))"

section \<open>Searching\<close>

record message_search_filter =
  sf_Query :: string
  sf_ApplicationID :: nat
  sf_MinPriority :: "int option"
  sf_MaxPriority :: "int option"
  sf_Sender :: string
  sf_Status :: string
  sf_Acknowledged :: string
  sf_From :: "time option"
  sf_To :: "time option"
  sf_Limit :: int

text \<open>The pattern matching of \<open>LIKE\<close>: a percent sign stands for any text, an underscore for one character.\<close>

fun like :: "string \<Rightarrow> string \<Rightarrow> bool" where
  "like [] s = (s = [])"
| "like (p # ps) s =
     (if p = CHR ''%'' then like ps s \<or> (case s of [] \<Rightarrow> False | _ # cs \<Rightarrow> like (p # ps) cs)
      else case s of [] \<Rightarrow> False | c # cs \<Rightarrow> (p = CHR ''_'' \<or> p = c) \<and> like ps cs)"

definition contains_text :: "string \<Rightarrow> string \<Rightarrow> bool" where
  "contains_text needle s = like (''%'' @ needle @ ''%'') (strings_ToLower s)"

definition search_match :: "gorm_db \<Rightarrow> message_search_filter \<Rightarrow> message \<Rightarrow> bool" where
  "search_match t f m \<longleftrightarrow>
     (sf_Query f = '''' \<or> contains_text (strings_ToLower (strings_TrimSpace (sf_Query f))) (msg_Title m) \<or>
        contains_text (strings_ToLower (strings_TrimSpace (sf_Query f))) (msg_Message m)) \<and>
     (sf_ApplicationID f = 0 \<or> msg_ApplicationID m = sf_ApplicationID f) \<and>
     (case sf_MinPriority f of None \<Rightarrow> True | Some p \<Rightarrow> msg_Priority m \<ge> p) \<and>
     (case sf_MaxPriority f of None \<Rightarrow> True | Some p \<Rightarrow> msg_Priority m \<le> p) \<and>
     (sf_Sender f = '''' \<or> contains_text (strings_ToLower (sf_Sender f)) (msg_SenderName m)) \<and>
     (case sf_From f of None \<Rightarrow> True | Some d \<Rightarrow> msg_Date m \<ge> d) \<and>
     (case sf_To f of None \<Rightarrow> True | Some d \<Rightarrow> msg_Date m \<le> d) \<and>
     (sf_Status f = '''' \<or>
        (case find (\<lambda>w. mwf_MessageID w = msg_ID m) (tb_workflows t) of None \<Rightarrow> '''' | Some w \<Rightarrow> mwf_Status w) = sf_Status f)"

text \<open>
  The join with the acknowledgements: for \<open>yes\<close> one row for each acknowledgement of a message, for \<open>no\<close>
  the messages without one.
\<close>

definition join_acknowledged :: "gorm_db \<Rightarrow> string \<Rightarrow> message list \<Rightarrow> message list" where
  "join_acknowledged t mode ms =
     (if mode = ''yes'' then concat (map (\<lambda>m. map (\<lambda>_. m) (filter (\<lambda>a. ack_MessageID a = msg_ID m) (tb_acks t))) ms)
      else if mode = ''no'' then filter (\<lambda>m. \<not> (\<exists>a\<in>set (tb_acks t). ack_MessageID a = msg_ID m)) ms
      else ms)"

definition SearchMessages :: "nat \<Rightarrow> message_search_filter \<Rightarrow> message list db" where
  "SearchMessages u f =
     (let limit = (if sf_Limit f \<le> 0 \<or> sf_Limit f > 500 then 100 else sf_Limit f) in
      db_bind (query (\<lambda>t. limited limit (order_desc msg_ID
        (join_acknowledged t (sf_Acknowledged f) (filter (search_match t f) (visibleMessages t u))))))
      (markAcknowledged u))"

end
