(* ===== verification/Database_Laws.thy ===== *)
theory Database_Laws
  imports Database
begin

text \<open>
  What the message side of the database keeps: statements and transactions, deletion of messages with
  everything that refers to them, retention, deduplication, and the personal archive.
\<close>

named_theorems db_run \<open>what a successful or failed run of an operation says\<close>

section \<open>Running statements\<close>

lemma statement_Inr:
  "statement f s = (Inr x, s') \<Longrightarrow> fst (f (tables s)) = Inr x \<and> tables s' = snd (f (tables s))"
  by (auto simp: statement_def split: list.splits option.splits prod.splits)

lemma statement_Inl:
  "statement f s = (Inl e, s') \<Longrightarrow>
     tables s' = tables s \<or> fst (f (tables s)) = Inl e \<and> tables s' = snd (f (tables s))"
  by (auto simp: statement_def split: list.splits option.splits prod.splits)

lemma statement_tables:
  "statement f s = (r, s') \<Longrightarrow> tables s' = tables s \<or> tables s' = snd (f (tables s))"
  by (auto simp: statement_def split: list.splits option.splits prod.splits)

lemma query_Inr [db_run]: "query q s = (Inr x, s') \<Longrightarrow> x = q (tables s) \<and> tables s' = tables s"
  by (auto simp: query_def dest: statement_Inr)

lemma query_tables [db_run]: "query q s = (r, s') \<Longrightarrow> tables s' = tables s"
  by (auto simp: query_def statement_def split: list.splits option.splits)

lemma exec_Inr [db_run]: "exec f s = (Inr x, s') \<Longrightarrow> tables s' = f (tables s)"
  by (auto simp: exec_def dest: statement_Inr)

lemma exec_Inl [db_run]: "exec f s = (Inl e, s') \<Longrightarrow> tables s' = tables s"
  by (auto simp: exec_def dest: statement_Inl)

lemma db_bind_Inr [db_run]:
  "db_bind m f s = (Inr y, s') \<longleftrightarrow> (\<exists>x s1. m s = (Inr x, s1) \<and> f x s1 = (Inr y, s'))"
  by (auto simp: db_bind_def split: prod.splits sum.splits)

lemma db_bind_Inl [db_run]:
  "db_bind m f s = (Inl e, s') \<longleftrightarrow>
     m s = (Inl e, s') \<or> (\<exists>x s1. m s = (Inr x, s1) \<and> f x s1 = (Inl e, s'))"
  by (auto simp: db_bind_def split: prod.splits sum.splits)

lemma db_then_Inr [db_run]:
  "db_then m k s = (Inr y, s') \<longleftrightarrow> (\<exists>s1. m s = (Inr (), s1) \<and> k s1 = (Inr y, s'))"
  by (auto simp: db_then_def db_bind_Inr)

lemma db_return_simp [simp]: "db_return x s = (Inr x, s)" "db_fail e s = (Inl e, s)"
  by (simp_all add: db_return_def db_fail_def)

lemma exec_all_Inr: "exec_all fs s = (Inr x, s') \<Longrightarrow> tables s' = fold (\<lambda>f. f) fs (tables s)"
proof (induction fs arbitrary: s)
  case (Cons f fs)
  then obtain s1 where "exec f s = (Inr (), s1)" "exec_all fs s1 = (Inr x, s')"
    by (auto simp: exec_all_def db_then_Inr)
  then show ?case using Cons.IH [of s1] exec_Inr [of f s "()" s1] by simp
qed (simp add: exec_all_def)

text \<open>A transaction does everything or nothing.\<close>

lemma transaction_Inl: "transaction b s = (Inl e, s') \<Longrightarrow> tables s' = tables s"
  by (auto simp: transaction_def split: prod.splits sum.splits)

lemma transaction_Inr:
  assumes "transaction b s = (Inr x, s')"
  obtains s1 s2 where "tables s1 = tables s" "b s1 = (Inr x, s2)" "tables s' = tables s2"
proof -
  from assms have "db_then (exec id) (db_bind b (\<lambda>x. db_then (exec id) (db_return x))) s = (Inr x, s')"
    by (auto simp: transaction_def split: prod.splits sum.splits)
  then obtain s1 s2 where "exec id s = (Inr (), s1)" "b s1 = (Inr x, s2)" "exec id s2 = (Inr (), s')"
    by (auto simp: db_run)
  then show thesis using that [of s1 s2] exec_Inr [of id s "()" s1] exec_Inr [of id s2 "()" s'] by simp
qed

text \<open>
  What an operation keeps of the tables, whether it succeeds or fails. The rules follow the structure of the
  operation.
\<close>

definition keeps :: "(gorm_db \<Rightarrow> bool) \<Rightarrow> 'a db \<Rightarrow> bool" where
  "keeps P m \<longleftrightarrow> (\<forall>s. P (tables s) \<longrightarrow> P (tables (snd (m s))))"

named_theorems keeps_rules \<open>operations that keep a predicate on the tables\<close>

lemma keepsD: "keeps P m \<Longrightarrow> m s = (r, s') \<Longrightarrow> P (tables s) \<Longrightarrow> P (tables s')"
  by (metis keeps_def snd_conv)

lemma keeps_statement [keeps_rules]: "(\<And>t. P t \<Longrightarrow> P (snd (f t))) \<Longrightarrow> keeps P (statement f)"
  unfolding keeps_def by (metis prod.collapse statement_tables)

lemma keeps_query [keeps_rules]: "keeps P (query q)"
  unfolding keeps_def by (metis prod.collapse query_tables)

lemma keeps_exec [keeps_rules]: "(\<And>t. P t \<Longrightarrow> P (f t)) \<Longrightarrow> keeps P (exec f)"
  unfolding exec_def by (rule keeps_statement) simp

lemma keeps_return [keeps_rules]: "keeps P (db_return x)" "keeps P (db_fail e)"
  by (simp_all add: keeps_def)

lemma keeps_bind [keeps_rules]: "keeps P m \<Longrightarrow> (\<And>x. keeps P (f x)) \<Longrightarrow> keeps P (db_bind m f)"
  unfolding keeps_def db_bind_def by (auto split: prod.splits sum.splits)

lemma keeps_then [keeps_rules]: "keeps P m \<Longrightarrow> keeps P k \<Longrightarrow> keeps P (db_then m k)"
  unfolding db_then_def by (rule keeps_bind)

lemma keeps_foreach [keeps_rules]: "(\<And>x. keeps P (f x)) \<Longrightarrow> keeps P (db_foreach f xs)"
  by (induction xs) (simp_all add: keeps_rules)

lemma keeps_transaction [keeps_rules]: "keeps P b \<Longrightarrow> keeps P (transaction b)"
proof -
  assume b: "keeps P b"
  have "keeps P (db_then (exec id) (db_bind b (\<lambda>x. db_then (exec id) (db_return x))))"
    by (intro keeps_rules b) simp_all
  then show ?thesis
    unfolding keeps_def transaction_def by (auto split: prod.splits sum.splits)
qed

text \<open>Operations that change nothing, and operations that change nothing when they fail.\<close>

definition reads :: "'a db \<Rightarrow> bool" where
  "reads m \<longleftrightarrow> (\<forall>s. tables (snd (m s)) = tables s)"

definition all_or_nothing :: "'a db \<Rightarrow> bool" where
  "all_or_nothing m \<longleftrightarrow> (\<forall>s e s'. m s = (Inl e, s') \<longrightarrow> tables s' = tables s)"

named_theorems atomic_rules \<open>operations that change nothing, or nothing when they fail\<close>

lemma readsD: "reads m \<Longrightarrow> m s = (r, s') \<Longrightarrow> tables s' = tables s"
  by (metis reads_def snd_conv)

lemma all_or_nothingD: "all_or_nothing m \<Longrightarrow> m s = (Inl e, s') \<Longrightarrow> tables s' = tables s"
  by (auto simp: all_or_nothing_def)

lemma reads_query [atomic_rules]: "reads (query q)"
  unfolding reads_def by (metis prod.collapse query_tables)

lemma reads_return [atomic_rules]: "reads (db_return x)" "reads (db_fail e)"
  by (simp_all add: reads_def)

lemma reads_bind [atomic_rules]: "reads m \<Longrightarrow> (\<And>x. reads (f x)) \<Longrightarrow> reads (db_bind m f)"
  unfolding reads_def db_bind_def by (auto split: prod.splits sum.splits) (metis snd_conv)+

lemma atomic_reads: "reads m \<Longrightarrow> all_or_nothing m"
  by (auto simp: all_or_nothing_def dest: readsD)

lemma atomic_exec [atomic_rules]: "all_or_nothing (exec f)"
  by (auto simp: all_or_nothing_def dest: exec_Inl)

lemma atomic_transaction [atomic_rules]: "all_or_nothing (transaction b)"
  by (auto simp: all_or_nothing_def dest: transaction_Inl)

lemma atomic_bind [atomic_rules]:
  assumes "reads m" and "\<And>x. all_or_nothing (f x)" shows "all_or_nothing (db_bind m f)"
  unfolding all_or_nothing_def
proof (intro allI impI)
  fix s e s' assume "db_bind m f s = (Inl e, s')"
  then show "tables s' = tables s"
    using readsD [OF assms(1)] all_or_nothingD [OF assms(2)] unfolding db_bind_Inl by metis
qed

text \<open>Without failures the operations are functions of the tables.\<close>

lemma no_faults [simp]:
  "faults s = [] \<Longrightarrow> query q s = (Inr (q (tables s)), s)"
  "faults s = [] \<Longrightarrow> exec f s = (Inr (), s\<lparr>tables := f (tables s)\<rparr>)"
  by (simp_all add: query_def exec_def statement_def)

lemma db_bind_run: "m s = (Inr x, s1) \<Longrightarrow> db_bind m f s = f x s1"
  by (simp add: db_bind_def)

lemma transaction_no_faults:
  assumes "faults s = []" and "b s = (Inr x, s1)" and "faults s1 = []"
  shows "transaction b s = (Inr x, s1)"
  using assms by (simp add: transaction_def db_then_def db_bind_def)

section \<open>Deletion\<close>

text \<open>The tables without some messages and all that refers to them.\<close>

definition without_messages :: "nat set \<Rightarrow> gorm_db \<Rightarrow> gorm_db" where
  "without_messages ids t = t\<lparr>
     tb_messages := filter (\<lambda>m. msg_ID m \<notin> ids) (tb_messages t),
     tb_dismissals := filter (\<lambda>r. dis_MessageID r \<notin> ids) (tb_dismissals t),
     tb_acks := filter (\<lambda>r. ack_MessageID r \<notin> ids) (tb_acks t),
     tb_attachments := filter (\<lambda>r. mat_MessageID r \<notin> ids) (tb_attachments t),
     tb_reactions := filter (\<lambda>r. mre_MessageID r \<notin> ids) (tb_reactions t),
     tb_workflows := filter (\<lambda>r. mwf_MessageID r \<notin> ids) (tb_workflows t),
     tb_reads := filter (\<lambda>r. mrd_MessageID r \<notin> ids) (tb_reads t),
     tb_mentions := filter (\<lambda>r. mmn_MessageID r \<notin> ids) (tb_mentions t),
     tb_digest_items := filter (\<lambda>r. di_MessageID r \<notin> ids) (tb_digest_items t),
     tb_states := filter (\<lambda>r. es_MessageID r \<notin> ids) (tb_states t),
     tb_deferred := filter (\<lambda>r. dn_MessageID r \<notin> ids) (tb_deferred t)\<rparr>"

definition message_refs :: "gorm_db \<Rightarrow> nat set" where
  "message_refs t =
     dis_MessageID ` set (tb_dismissals t) \<union> ack_MessageID ` set (tb_acks t) \<union>
     mat_MessageID ` set (tb_attachments t) \<union> mre_MessageID ` set (tb_reactions t) \<union>
     mwf_MessageID ` set (tb_workflows t) \<union> mrd_MessageID ` set (tb_reads t) \<union>
     mmn_MessageID ` set (tb_mentions t) \<union> di_MessageID ` set (tb_digest_items t) \<union>
     es_MessageID ` set (tb_states t) \<union> dn_MessageID ` set (tb_deferred t)"

definition message_ids :: "gorm_db \<Rightarrow> nat set" where
  "message_ids t = msg_ID ` set (tb_messages t)"

definition dependents_have_messages :: "gorm_db \<Rightarrow> bool" where
  "dependents_have_messages t \<longleftrightarrow> message_refs t \<subseteq> message_ids t"

lemma filter_in_map_filter [simp]: "filter (\<lambda>x. x \<notin> A) (map f xs) = map f (filter (\<lambda>x. f x \<notin> A) xs)"
  by (simp add: filter_map comp_def)

lemma image_filter_notin: "f ` set (filter (\<lambda>x. f x \<notin> A) xs) = f ` set xs - A"
  by auto

lemma without_messages_refs:
  "message_refs (without_messages A t) = message_refs t - A"
  "message_ids (without_messages A t) = message_ids t - A"
  by (auto simp: message_refs_def message_ids_def without_messages_def)

lemma without_messages_dependents: "dependents_have_messages t \<Longrightarrow> dependents_have_messages (without_messages A t)"
  by (auto simp: dependents_have_messages_def without_messages_refs)

lemma without_messages_empty [simp]: "without_messages {} t = t"
  by (simp add: without_messages_def)

lemma delete_dependents_tables:
  assumes "delete_dependents ids s = (Inr x, s')"
    and "\<And>j t u. tb_messages t = tb_messages u \<Longrightarrow> ids j t = ids j u"
  shows "tables s' = (without_messages {j. ids j (tables s)} (tables s))\<lparr>tb_messages := tb_messages (tables s)\<rparr>"
proof -
  have frame:
    "ids j (t\<lparr>tb_dismissals := a\<rparr>) = ids j t" "ids j (t\<lparr>tb_acks := b\<rparr>) = ids j t"
    "ids j (t\<lparr>tb_digest_items := c\<rparr>) = ids j t" "ids j (t\<lparr>tb_states := d\<rparr>) = ids j t"
    "ids j (t\<lparr>tb_deferred := e\<rparr>) = ids j t" "ids j (t\<lparr>tb_reactions := f\<rparr>) = ids j t"
    "ids j (t\<lparr>tb_workflows := g\<rparr>) = ids j t" "ids j (t\<lparr>tb_reads := h\<rparr>) = ids j t"
    "ids j (t\<lparr>tb_mentions := k\<rparr>) = ids j t" for j t a b c d e f g h k
    by (rule assms(2), simp)+
  show ?thesis
    unfolding exec_all_Inr [OF assms(1) [unfolded delete_dependents_def]]
    by (simp add: frame without_messages_def)
qed

lemma delete_thread_tables:
  assumes "db_DeleteMessageByID i s = (Inr x, s')"
  shows "tables s' = without_messages (set (thread_ids i (tables s))) (tables s)"
  using assms unfolding db_DeleteMessageByID_def
proof (rule transaction_Inr)
  fix s1 s2
  let ?ids = "thread_ids i (tables s)"
  assume t: "tables s1 = tables s" "tables s' = tables s2"
    and run: "db_bind (query (thread_ids i)) (\<lambda>ids. if ids = [] then db_return ()
      else db_then (delete_dependents (\<lambda>j t. j \<in> set ids))
        (exec (\<lambda>t. t\<lparr>tb_messages := filter (\<lambda>m. msg_ID m \<notin> set ids) (tb_messages t)\<rparr>))) s1 = (Inr x, s2)"
  then obtain ids s3 where i: "query (thread_ids i) s1 = (Inr ids, s3)" and
      r: "(if ids = [] then db_return () else db_then (delete_dependents (\<lambda>j t. j \<in> set ids))
        (exec (\<lambda>t. t\<lparr>tb_messages := filter (\<lambda>m. msg_ID m \<notin> set ids) (tb_messages t)\<rparr>))) s3 = (Inr x, s2)"
    unfolding db_bind_Inr by blast
  note q = query_Inr [OF i, unfolded t(1)]
  note r = r [unfolded q [THEN conjunct1]]
  show ?thesis
  proof (cases "?ids = []")
    case False
    then obtain s4 where d: "delete_dependents (\<lambda>j t. j \<in> set ?ids) s3 = (Inr (), s4)"
        and e: "exec (\<lambda>t. t\<lparr>tb_messages := filter (\<lambda>m. msg_ID m \<notin> set ?ids) (tb_messages t)\<rparr>) s4 = (Inr x, s2)"
      using r by (auto simp: db_then_Inr)
    show ?thesis
      using exec_Inr [OF e] delete_dependents_tables [OF d] t q by (simp add: without_messages_def)
  qed (use r t q in simp)
qed

lemma delete_channel_tables:
  assumes "DeleteMessagesByApplication app s = (Inr x, s')" and "distinct (map msg_ID (tb_messages (tables s)))"
  shows "tables s' = without_messages (msg_ID ` set (of_channel app (tb_messages (tables s)))) (tables s)"
  using assms(1) unfolding DeleteMessagesByApplication_def
proof (rule transaction_Inr)
  fix s1 s2
  let ?gone = "msg_ID ` set (of_channel app (tb_messages (tables s)))"
  assume t: "tables s1 = tables s" "tables s' = tables s2"
    and "db_then (delete_dependents (\<lambda>j t. j \<in> msg_ID ` set (of_channel app (tb_messages t))))
      (exec (\<lambda>t. t\<lparr>tb_messages := filter (\<lambda>m. msg_ApplicationID m \<noteq> app) (tb_messages t)\<rparr>)) s1 = (Inr x, s2)"
  then obtain s3 where
      d: "delete_dependents (\<lambda>j t. j \<in> msg_ID ` set (of_channel app (tb_messages t))) s1 = (Inr (), s3)"
      and e: "exec (\<lambda>t. t\<lparr>tb_messages := filter (\<lambda>m. msg_ApplicationID m \<noteq> app) (tb_messages t)\<rparr>) s3 = (Inr x, s2)"
    by (auto simp: db_then_Inr)
  have "filter (\<lambda>m. msg_ApplicationID m \<noteq> app) (tb_messages (tables s)) =
      filter (\<lambda>m. msg_ID m \<notin> ?gone) (tb_messages (tables s))"
  proof (rule filter_cong [OF refl])
    fix m assume "m \<in> set (tb_messages (tables s))"
    then show "(msg_ApplicationID m \<noteq> app) = (msg_ID m \<notin> ?gone)"
      using assms(2) by (auto simp: of_channel_def distinct_map inj_on_def)
  qed
  then show ?thesis
    using exec_Inr [OF e] delete_dependents_tables [OF d] t by (simp add: without_messages_def)
qed

text \<open>
  Property C16. Deleting a message, or the messages of a channel, does everything or nothing: with an
  error the tables are as before; otherwise exactly the message with its replies and its thread, or the
  messages of the channel, are gone, together with every dismissal, acknowledgement, digest item, escalation,
  deferred notification, reaction, workflow, read mark, mention and attachment that refers to them, and no
  other row. So rows of these ten tables never refer to a missing message. (Messages that name the
  deleted one as parent, or reply to one of its replies, keep their reference: see
  \<open>deletion_leaves_reply_to_deleted\<close>.)
\<close>

theorem message_deletion_all_or_nothing:
  assumes "distinct (map msg_ID (tb_messages (tables s)))"
    and "dependents_have_messages (tables s)"
    and "(r, s') = db_DeleteMessageByID i s \<and> ids = set (thread_ids i (tables s)) \<or>
         (r, s') = DeleteMessagesByApplication i s \<and> ids = msg_ID ` set (of_channel i (tb_messages (tables s)))"
  shows "tables s' = (if r = Inr () then without_messages ids (tables s) else tables s) \<and> dependents_have_messages (tables s')"
proof -
  have "tables s' = (if r = Inr () then without_messages ids (tables s) else tables s)"
  proof (cases r)
    case (Inl e)
    then show ?thesis
      using assms(3) by (auto simp: db_DeleteMessageByID_def DeleteMessagesByApplication_def dest!: sym [of "(Inl e, s')"] transaction_Inl)
  next
    case (Inr x)
    then show ?thesis
      using assms(3) delete_thread_tables [of i s "()" s'] delete_channel_tables [of i s "()" s', OF _ assms(1)]
      by (auto simp: eq_commute [of "(Inr (), s')"])
  qed
  then show ?thesis using without_messages_dependents [OF assms(2)] assms(2) by simp
qed

text \<open>A channel 7 of user 1 with member 2: message 1, its reply 2, the reply 3 to that, and another message 4.\<close>

definition demo_tables :: gorm_db where
  "demo_tables = \<lparr>tb_users = [], tb_applications = [], tb_memberships = [], tb_assignments = [], tb_groups = [],
     tb_group_members = [],
     tb_messages = [new_message\<lparr>msg_ID := 1, msg_ApplicationID := 7\<rparr>,
       new_message\<lparr>msg_ID := 2, msg_ApplicationID := 7, msg_ReplyToMessageID := 1, msg_ThreadRootMessageID := 1\<rparr>,
       new_message\<lparr>msg_ID := 3, msg_ApplicationID := 7, msg_ReplyToMessageID := 2, msg_ThreadRootMessageID := 1\<rparr>,
       new_message\<lparr>msg_ID := 4, msg_ApplicationID := 7\<rparr>],
     tb_dismissals = [], tb_acks = [\<lparr>ack_UserID = 2, ack_MessageID = 3, ack_AcknowledgedAt = 5\<rparr>],
     tb_attachments = [], tb_reactions = [], tb_workflows = [],
     tb_reads = [\<lparr>mrd_UserID = 1, mrd_MessageID = 4, mrd_ReadAt = 6\<rparr>], tb_mentions = [], tb_digest_items = [],
     tb_states = [], tb_deferred = [], tb_leases = [], tb_automation = no_automation,
     tb_accounts = no_accounts, sq_messages = 5, sq_applications = 8, sq_users = 3, sq_groups = 1,
     db_now = 0\<rparr>"

definition demo_session :: session where
  "demo_session = \<lparr>tables = demo_tables, faults = []\<rparr>"

theorem message_deletion_all_or_nothing_witness:
  "map msg_ID (tb_messages (tables (snd (db_DeleteMessageByID 1 demo_session)))) = [4] \<and>
   dependents_have_messages (tables (snd (db_DeleteMessageByID 1 demo_session)))"
proof -
  have ids: "thread_ids 1 demo_tables = [1, 2, 3]"
    by (simp add: demo_tables_def thread_ids_def new_message_def)
  have ok: "fst (db_DeleteMessageByID 1 demo_session) = Inr ()"
    by (simp add: db_DeleteMessageByID_def demo_session_def transaction_def db_then_def db_bind_def ids
        delete_dependents_def exec_all_def)
  have "distinct (map msg_ID (tb_messages (tables demo_session)))" "dependents_have_messages (tables demo_session)"
    by (simp_all add: demo_session_def demo_tables_def new_message_def dependents_have_messages_def message_refs_def message_ids_def)
  note ok_tables = this
  have run: "(fst (db_DeleteMessageByID 1 demo_session), snd (db_DeleteMessageByID 1 demo_session)) =
        db_DeleteMessageByID 1 demo_session \<and> {1, 2, 3} = set (thread_ids 1 (tables demo_session)) \<or>
      (fst (db_DeleteMessageByID 1 demo_session), snd (db_DeleteMessageByID 1 demo_session)) =
        DeleteMessagesByApplication 1 demo_session \<and>
        {1, 2, 3} = msg_ID ` set (of_channel 1 (tb_messages (tables demo_session)))"
    by (rule disjI1) (use ids in \<open>simp add: demo_session_def\<close>)
  have "tables (snd (db_DeleteMessageByID 1 demo_session)) = without_messages {1, 2, 3} demo_tables \<and>
      dependents_have_messages (tables (snd (db_DeleteMessageByID 1 demo_session)))"
    using message_deletion_all_or_nothing [OF ok_tables run] unfolding ok
    by (elim conjE) (simp add: demo_session_def del: One_nat_def)
  moreover have "map msg_ID (tb_messages (without_messages {1, 2, 3} demo_tables)) = [4]"
    by (simp add: without_messages_def demo_tables_def new_message_def)
  ultimately show ?thesis by (elim conjE) simp
qed

text \<open>
  A reply to a reply goes with neither: deleting the second of four messages that answer one another takes
  the third, and leaves the fourth, which replies to the third.
\<close>

lemma deletion_leaves_reply_to_deleted:
  "thread_ids 2 (demo_tables\<lparr>tb_messages := tb_messages demo_tables @
     [new_message\<lparr>msg_ID := 5, msg_ApplicationID := 7, msg_ReplyToMessageID := 3, msg_ThreadRootMessageID := 1\<rparr>]\<rparr>) = [2, 3]"
  by (simp add: demo_tables_def thread_ids_def new_message_def)

section \<open>Retention\<close>

definition in_thread :: "nat \<Rightarrow> message \<Rightarrow> bool" where
  "in_thread i m \<longleftrightarrow> msg_ID m = i \<or> msg_ReplyToMessageID m = i \<or> msg_ThreadRootMessageID m = i"

definition expired :: "time \<Rightarrow> application \<Rightarrow> message \<Rightarrow> bool" where
  "expired now app m \<longleftrightarrow> msg_ApplicationID m = app_ID app \<and> msg_Date m < retention_start now app"

text \<open>What a run of deletions keeps: the other tables, and all messages outside the threads of some identifiers.\<close>

definition retained :: "nat set \<Rightarrow> gorm_db \<Rightarrow> gorm_db \<Rightarrow> bool" where
  "retained ids t t' \<longleftrightarrow> tb_applications t' = tb_applications t \<and> set (tb_messages t') \<subseteq> set (tb_messages t) \<and>
     (inj_on msg_ID (set (tb_messages t)) \<longrightarrow>
        (\<forall>m\<in>set (tb_messages t). (\<forall>i\<in>ids. \<not> in_thread i m) \<longrightarrow> m \<in> set (tb_messages t'))) \<and>
     (dependents_have_messages t \<longrightarrow> dependents_have_messages t')"

lemma retained_refl: "retained {} t t"
  by (simp add: retained_def)

lemma retained_trans: "retained I t u \<Longrightarrow> retained J u v \<Longrightarrow> retained (I \<union> J) t v"
  unfolding retained_def using inj_on_subset [of msg_ID "set (tb_messages t)" "set (tb_messages u)"] by auto

lemma retained_delete: "db_DeleteMessageByID i s = (r, s') \<Longrightarrow> retained {i} (tables s) (tables s')"
proof (cases r)
  case (Inr x)
  moreover assume "db_DeleteMessageByID i s = (r, s')"
  ultimately have "tables s' = without_messages (set (thread_ids i (tables s))) (tables s)"
    using delete_thread_tables by blast
  moreover have "m \<in> set (tb_messages (without_messages (set (thread_ids i (tables s))) (tables s)))"
    if "inj_on msg_ID (set (tb_messages (tables s)))" "m \<in> set (tb_messages (tables s))" "\<not> in_thread i m" for m
    using that by (auto simp: without_messages_def thread_ids_def in_thread_def inj_on_def)
  ultimately show ?thesis
    using without_messages_dependents [of "tables s"]
    by (auto simp: retained_def) (simp_all add: without_messages_def)
qed (auto simp: db_DeleteMessageByID_def retained_def dest: transaction_Inl)

lemma retention_deletes_retained:
  "retention_deletes n ids s = ((k, e), s') \<Longrightarrow> retained (set ids) (tables s) (tables s') \<and>
     (e = None \<longrightarrow> k = n + int (length ids) \<and> message_ids (tables s') \<inter> set ids = {})"
proof (induction n ids s rule: retention_deletes.induct)
  case (2 n i ids s)
  obtain r s1 where d: "db_DeleteMessageByID i s = (r, s1)" by fastforce
  note k = retained_delete [OF d]
  show ?case
  proof (cases r)
    case (Inl f)
    then show ?thesis using 2 d k by (auto simp: retained_def)
  next
    case (Inr x)
    have "i \<notin> message_ids (tables s1)"
      using delete_thread_tables [of i s x s1] d Inr
      by (auto simp: without_messages_def message_ids_def thread_ids_def)
    then show ?thesis
      using 2 d k Inr retained_trans [OF k, of "set ids" "tables s'"]
      by (auto simp: retained_def message_ids_def)
  qed
qed (simp add: retained_refl)

lemma retention_channels_retained:
  "retention_channels now n apps s = ((k, e), s') \<Longrightarrow>
     (\<exists>ids. retained ids (tables s) (tables s') \<and>
       (\<forall>i\<in>ids. \<exists>m\<in>set (tb_messages (tables s)). \<exists>app\<in>set apps. msg_ID m = i \<and> expired now app m)) \<and>
     (e = None \<longrightarrow> \<not> (\<exists>m\<in>set (tb_messages (tables s')). \<exists>app\<in>set apps. expired now app m))"
proof (induction now n apps s rule: retention_channels.induct)
  case (1 now n s)
  then show ?case using retained_refl by fastforce
next
  case (2 now n app apps s)
  let ?q = "\<lambda>t. sort (map msg_ID (filter (\<lambda>m. msg_Date m < retention_start now app)
    (of_channel (app_ID app) (tb_messages t))))"
  obtain r s1 where q: "query ?q s = (r, s1)" by fastforce
  have t1: "tables s1 = tables s" using query_tables [OF q] .
  show ?case
  proof (cases r)
    case (Inl f)
    then show ?thesis using 2 q t1 retained_refl [of "tables s"] by auto
  next
    case (Inr ids)
    have ids: "set ids = msg_ID ` {m \<in> set (tb_messages (tables s)). expired now app m}"
      using query_Inr [OF q [unfolded Inr]] by (auto simp: of_channel_def expired_def)
    obtain j f s2 where d: "retention_deletes n ids s1 = ((j, f), s2)" by (metis surj_pair)
    note k = retention_deletes_retained [OF d, unfolded t1]
    show ?thesis
    proof (cases f)
      case (Some g)
      have "e = Some g" "s' = s2" using 2(2) q Inr d Some by auto
      moreover have "\<forall>i\<in>set ids. \<exists>m\<in>set (tb_messages (tables s)). \<exists>a\<in>set (app # apps). msg_ID m = i \<and> expired now a m"
        using ids by auto
      ultimately show ?thesis using k by auto
    next
      case None
      have rest: "retention_channels now j apps s2 = ((k, e), s')" using 2(2) q Inr d None by simp
      from 2(1) [OF q [unfolded Inr, symmetric] _ d [symmetric]] None rest
      obtain js where js: "retained js (tables s2) (tables s')"
          "\<forall>i\<in>js. \<exists>m\<in>set (tb_messages (tables s2)). \<exists>a\<in>set apps. msg_ID m = i \<and> expired now a m"
          "e = None \<longrightarrow> \<not> (\<exists>m\<in>set (tb_messages (tables s')). \<exists>a\<in>set apps. expired now a m)"
        by fastforce
      have sub: "set (tb_messages (tables s2)) \<subseteq> set (tb_messages (tables s))"
          "set (tb_messages (tables s')) \<subseteq> set (tb_messages (tables s2))"
        using k js(1) by (auto simp: retained_def)
      have "retained (set ids \<union> js) (tables s) (tables s')" using retained_trans k js(1) by blast
      moreover have "\<forall>i\<in>set ids \<union> js. \<exists>m\<in>set (tb_messages (tables s)). \<exists>a\<in>set (app # apps). msg_ID m = i \<and> expired now a m"
        using ids js(2) sub(1) by fastforce
      moreover have "\<not> (\<exists>m\<in>set (tb_messages (tables s')). expired now app m)"
        using k None sub ids by (fastforce simp: message_ids_def)
      ultimately show ?thesis using js(3) by fastforce
    qed
  qed
qed

text \<open>
  Property C17. The retention of channels: after a run without an error no message of a channel with a
  retention is older than it allows; with or without an error, every message that went was expired itself or
  belongs to the thread of an expired one, whatever its own age, and nothing is left that refers to a
  missing message.
\<close>

theorem retention_removes_expired_threads:
  assumes run: "ApplyMessageRetention now s = ((n, e), s')"
    and ids: "distinct (map msg_ID (tb_messages (tables s)))"
    and "dependents_have_messages (tables s)"
  shows "(e = None \<longrightarrow> (\<forall>m\<in>set (tb_messages (tables s')). \<forall>app\<in>set (tb_applications (tables s)).
       app_RetentionDays app > 0 \<longrightarrow> \<not> expired now app m)) \<and>
     set (tb_messages (tables s')) \<subseteq> set (tb_messages (tables s)) \<and>
     (\<forall>m\<in>set (tb_messages (tables s)) - set (tb_messages (tables s')).
       \<exists>x\<in>set (tb_messages (tables s)). \<exists>app\<in>set (tb_applications (tables s)).
         app_RetentionDays app > 0 \<and> expired now app x \<and> in_thread (msg_ID x) m) \<and>
     dependents_have_messages (tables s')"
proof -
  let ?q = "\<lambda>t. filter (\<lambda>a. app_RetentionDays a > 0) (tb_applications t)"
  obtain r s1 where q: "query ?q s = (r, s1)" by fastforce
  have t1: "tables s1 = tables s" using query_tables [OF q] .
  show ?thesis
  proof (cases r)
    case (Inl f)
    then show ?thesis using run q t1 assms(3) by (auto simp: ApplyMessageRetention_def)
  next
    case (Inr apps)
    have apps: "set apps = {a \<in> set (tb_applications (tables s)). app_RetentionDays a > 0}"
      using query_Inr [OF q [unfolded Inr]] by simp
    have "retention_channels now 0 apps s1 = ((n, e), s')"
      using run q Inr by (simp add: ApplyMessageRetention_def)
    from retention_channels_retained [OF this, unfolded t1]
    obtain js where js: "retained js (tables s) (tables s')"
        "\<forall>i\<in>js. \<exists>m\<in>set (tb_messages (tables s)). \<exists>app\<in>set apps. msg_ID m = i \<and> expired now app m"
        "e = None \<longrightarrow> \<not> (\<exists>m\<in>set (tb_messages (tables s')). \<exists>app\<in>set apps. expired now app m)" by blast
    have "inj_on msg_ID (set (tb_messages (tables s)))" using ids by (simp add: distinct_map)
    then have lost: "\<exists>i\<in>js. in_thread i m"
      if "m \<in> set (tb_messages (tables s)) - set (tb_messages (tables s'))" for m
      using js(1) that by (auto simp: retained_def)
    show ?thesis
    proof (intro conjI)
      show "\<forall>m\<in>set (tb_messages (tables s)) - set (tb_messages (tables s')).
         \<exists>x\<in>set (tb_messages (tables s)). \<exists>app\<in>set (tb_applications (tables s)).
           app_RetentionDays app > 0 \<and> expired now app x \<and> in_thread (msg_ID x) m"
      proof
        fix m assume "m \<in> set (tb_messages (tables s)) - set (tb_messages (tables s'))"
        then obtain i where i: "i \<in> js" "in_thread i m" using lost by blast
        then obtain x app where x: "x \<in> set (tb_messages (tables s))" "app \<in> set apps" "msg_ID x = i" "expired now app x"
          using js(2) by blast
        from x(2) have "app \<in> set (tb_applications (tables s))" "app_RetentionDays app > 0" by (simp_all add: apps)
        then show "\<exists>x\<in>set (tb_messages (tables s)). \<exists>app\<in>set (tb_applications (tables s)).
            app_RetentionDays app > 0 \<and> expired now app x \<and> in_thread (msg_ID x) m"
          using x(1,4) i(2) unfolding x(3) [symmetric] by blast
      qed
      show "e = None \<longrightarrow> (\<forall>m\<in>set (tb_messages (tables s')). \<forall>app\<in>set (tb_applications (tables s)).
          app_RetentionDays app > 0 \<longrightarrow> \<not> expired now app m)"
        using js(3) unfolding apps by blast
      show "set (tb_messages (tables s')) \<subseteq> set (tb_messages (tables s))" "dependents_have_messages (tables s')"
        using js(1) assms(3) unfolding retained_def by blast+
    qed
  qed
qed

text \<open>A channel that keeps messages for a day: an old message with a reply of this minute.\<close>

definition demo_retention :: session where
  "demo_retention = \<lparr>tables = demo_tables\<lparr>
     tb_applications := [\<lparr>app_ID = 7, app_Token = '''', app_UserID = 1, app_Name = '''', app_Description = '''',
       app_Internal = False, app_AutoAssign = False, app_AllowMemberPost = False, app_ChannelType = '''',
       app_ReceiveNotifications = None, app_CurrentRole = '''', app_Image = '''', app_Messages = [],
       app_DefaultPriority = 0, app_RetentionDays = 1, app_CreatedAt = 0, app_LastUsed = None, app_SortKey = ''''\<rparr>],
     tb_messages := [new_message\<lparr>msg_ID := 1, msg_ApplicationID := 7, msg_Date := 0\<rparr>,
       new_message\<lparr>msg_ID := 4, msg_ApplicationID := 7, msg_Date := 50 * hour, msg_ThreadRootMessageID := 1,
         msg_ReplyToMessageID := 1\<rparr>],
     tb_acks := [], tb_reads := []\<rparr>, faults = []\<rparr>"


theorem retention_removes_expired_threads_witness:
  "tb_messages (tables (snd (ApplyMessageRetention (50 * hour) demo_retention))) = [] \<and>
   dependents_have_messages (tables (snd (ApplyMessageRetention (50 * hour) demo_retention)))"
proof -
  let ?run = "ApplyMessageRetention (50 * hour) demo_retention"
  have "tb_messages (tables (snd ?run)) = []"
    by (simp add: ApplyMessageRetention_def demo_retention_def retention_start_def wrap64_def of_channel_def demo_tables_def
        new_message_def db_DeleteMessageByID_def transaction_def db_then_def db_bind_def thread_ids_def
        delete_dependents_def exec_all_def hour_def minute_def second_def)
  moreover have "distinct (map msg_ID (tb_messages (tables demo_retention)))" "dependents_have_messages (tables demo_retention)"
    by (simp_all add: demo_retention_def demo_tables_def new_message_def dependents_have_messages_def message_refs_def message_ids_def)
  ultimately show ?thesis
    using retention_removes_expired_threads [of "50 * hour" demo_retention "fst (fst ?run)" "snd (fst ?run)" "snd ?run"]
    by simp
qed

section \<open>Deduplication\<close>

text \<open>Identifiers are distinct and below the sequence; deduplication keys that are set are distinct.\<close>

definition keys_ok :: "gorm_db \<Rightarrow> bool" where
  "keys_ok t \<longleftrightarrow> distinct (map msg_ID (tb_messages t)) \<and> (\<forall>m\<in>set (tb_messages t). msg_ID m < sq_messages t) \<and>
     distinct (filter (\<lambda>k. k \<noteq> '''') (map msg_DeduplicationKey (tb_messages t))) \<and> 0 < sq_messages t"

lemma message_row_simps [simp]:
  "msg_ID (message_row m) = msg_ID m" "msg_DeduplicationKey (message_row m) = msg_DeduplicationKey m"
  "msg_ApplicationID (message_row m) = msg_ApplicationID m"
  by (simp_all add: message_row_def)

lemma keys_ok_find:
  assumes "keys_ok t" "r \<in> set (tb_messages t)" "msg_DeduplicationKey r \<noteq> ''''"
  shows "find (\<lambda>m. msg_DeduplicationKey m = msg_DeduplicationKey r) (tb_messages t) = Some r"
proof -
  have "find (\<lambda>m. msg_DeduplicationKey m = msg_DeduplicationKey r) ms = Some r"
    if "distinct (filter (\<lambda>k. k \<noteq> '''') (map msg_DeduplicationKey ms))" "r \<in> set ms" for ms
    using that assms(3) by (induction ms) (auto split: if_splits)
  then show ?thesis using assms by (simp add: keys_ok_def)
qed

lemma insert_message_keys_ok: "keys_ok t \<Longrightarrow> keys_ok (snd (insert_message m t))"
  by (auto simp: insert_message_def keys_ok_def Let_def max_def)

lemma insert_message_fst:
  "fst (insert_message m t) = Inr x \<Longrightarrow> snd (insert_message m t) =
     t\<lparr>tb_messages := tb_messages t @ [message_row x], sq_messages := max (sq_messages t) (msg_ID x + 1)\<rparr> \<and>
     msg_DeduplicationKey x = msg_DeduplicationKey m \<and>
     (\<forall>r\<in>set (tb_messages t). msg_ID r \<noteq> msg_ID x)"
  "fst (insert_message m t) = Inl e \<Longrightarrow> snd (insert_message m t) = t \<and> e = duplicated_key"
proof -
  define i where "i = (if msg_ID m = 0 then sq_messages t else msg_ID m)"
  define taken where "taken \<longleftrightarrow> (\<exists>r\<in>set (tb_messages t). msg_ID r = i \<or>
    msg_DeduplicationKey m \<noteq> '''' \<and> msg_DeduplicationKey r = msg_DeduplicationKey m)"
  have eq: "insert_message m t = (if taken then (Inl duplicated_key, t)
      else (Inr (m\<lparr>msg_ID := i\<rparr>), t\<lparr>tb_messages := tb_messages t @ [message_row (m\<lparr>msg_ID := i\<rparr>)],
        sq_messages := max (sq_messages t) (i + 1)\<rparr>))"
    unfolding insert_message_def Let_def i_def [symmetric] taken_def [symmetric] by simp
  {
    assume "fst (insert_message m t) = Inr x"
    then have "\<not> taken" "x = m\<lparr>msg_ID := i\<rparr>" using eq by (simp_all split: if_split_asm)
    then show "snd (insert_message m t) =
         t\<lparr>tb_messages := tb_messages t @ [message_row x], sq_messages := max (sq_messages t) (msg_ID x + 1)\<rparr> \<and>
         msg_DeduplicationKey x = msg_DeduplicationKey m \<and> (\<forall>r\<in>set (tb_messages t). msg_ID r \<noteq> msg_ID x)"
      using eq by (simp only: if_False simp_thms snd_conv) (auto simp: taken_def)
  }
  {
    assume "fst (insert_message m t) = Inl e"
    then have "taken" using eq by (cases taken) simp_all
    then show "snd (insert_message m t) = t \<and> e = duplicated_key"
      using \<open>fst (insert_message m t) = Inl e\<close> unfolding eq by simp
  }
qed

lemma new_message_simps [simp]:
  "msg_ID new_message = 0" "msg_ApplicationID new_message = 0" "msg_DeduplicationKey new_message = ''''"
  "msg_ReplyToMessageID new_message = 0" "msg_ThreadRootMessageID new_message = 0"
  by (simp_all add: new_message_def)

lemma create_message_once_cases:
  assumes "db_CreateMessageOnce m s = (Inr (created, x), s')"
  obtains (stored) "created" "tables s' = snd (insert_message m (tables s))" "fst (insert_message m (tables s)) = Inr x"
  | (existing) "\<not> created" "tables s' = tables s" "msg_DeduplicationKey m \<noteq> ''''"
      "find (\<lambda>r. msg_DeduplicationKey r = msg_DeduplicationKey m) (tb_messages (tables s)) = Some x"
proof (cases "msg_DeduplicationKey m = ''''")
  case True
  then show thesis
    using assms stored by (auto simp: db_CreateMessageOnce_def db_bind_Inr db_CreateMessage_def dest!: statement_Inr)
next
  case False
  obtain r s1 where st: "statement (insert_message m) s = (r, s1)" by fastforce
  show thesis
  proof (cases r)
    case (Inr y)
    then show thesis using assms st False stored statement_Inr by (fastforce simp: db_CreateMessageOnce_def)
  next
    case (Inl e)
    have t: "tables s1 = tables s"
      using statement_Inl [OF st [unfolded Inl]] insert_message_fst(2) [of m "tables s" e] by auto
    obtain q s2 where q: "query (\<lambda>t. find (\<lambda>r. msg_DeduplicationKey r = msg_DeduplicationKey m) (tb_messages t)) s1 = (q, s2)"
      by fastforce
    show thesis
    proof (cases q)
      case (Inr row)
      then show thesis
        using assms st False Inl q existing query_Inr [OF q [unfolded Inr]] t \<open>r = Inl e\<close>
        by (auto simp: db_CreateMessageOnce_def db_bind_def split: if_splits option.splits)
    qed (use assms st False q \<open>r = Inl e\<close> in \<open>auto simp: db_CreateMessageOnce_def db_bind_def split: if_splits\<close>)
  qed
qed

lemma create_message_once_keys_ok:
  assumes "db_CreateMessageOnce m s = (r, s')" "keys_ok (tables s)"
  shows "keys_ok (tables s')"
proof (cases r)
  case (Inr p)
  obtain created x where "p = (created, x)" by fastforce
  with assms(1) Inr have "db_CreateMessageOnce m s = (Inr (created, x), s')" by simp
  then show ?thesis
    using assms(2) insert_message_keys_ok by (cases rule: create_message_once_cases) auto
next
  case (Inl e)
  have keep: "statement (insert_message m) s = (q, s1) \<Longrightarrow>
      tables s1 = tables s \<or> tables s1 = snd (insert_message m (tables s))" for q s1
    by (rule statement_tables)
  have q: "query f s1 = (q, s2) \<Longrightarrow> tables s2 = tables s1" for f :: "gorm_db \<Rightarrow> message option" and q s1 s2
    by (rule query_tables)
  show ?thesis
    using assms insert_message_keys_ok [OF assms(2), of m] Inl
    by (auto simp: db_CreateMessageOnce_def db_CreateMessage_def db_bind_def split: if_splits prod.splits sum.splits option.splits
        dest!: keep q)
qed

text \<open>An operation fails with an error of the server or of its own statements.\<close>

lemma statement_error:
  "statement f s = (Inl e, s') \<Longrightarrow> Some e \<in> set (faults s) \<or> fst (f (tables s)) = Inl e"
  by (auto simp: statement_def split: list.splits option.splits prod.splits)

lemma statement_faults: "statement f s = (r, s') \<Longrightarrow> set (faults s') \<subseteq> set (faults s)"
  by (auto simp: statement_def split: list.splits option.splits prod.splits)

lemma query_error: "query q s = (Inl e, s') \<Longrightarrow> Some e \<in> set (faults s)"
  unfolding query_def by (drule statement_error) simp

lemma create_message_once_error:
  assumes run: "db_CreateMessageOnce m s = (Inl e, s')" and "msg_DeduplicationKey m \<noteq> ''''"
    and taken: "insert_message m (tables s) = (Inl duplicated_key, tables s)"
    and find: "find (\<lambda>r. msg_DeduplicationKey r = msg_DeduplicationKey m) (tb_messages (tables s)) = Some x"
  shows "Some e \<in> set (faults s)"
proof -
  obtain q s1 where st: "statement (insert_message m) s = (q, s1)" by fastforce
  have t: "tables s1 = tables s" using statement_tables [OF st] taken by auto
  have "q \<noteq> Inr y" for y using statement_Inr [of "insert_message m" s y s1] st taken by auto
  then obtain d where d: "q = Inl d" by (cases q) auto
  show ?thesis
  proof (cases "d = duplicated_key")
    case False
    then have "e = d" using run assms(2) st d by (simp add: db_CreateMessageOnce_def)
    then show ?thesis using statement_error [OF st [unfolded d]] taken False by auto
  next
    case True
    let ?q = "query (\<lambda>t. find (\<lambda>r. msg_DeduplicationKey r = msg_DeduplicationKey m) (tb_messages t))"
    obtain p s2 where p: "?q s1 = (p, s2)" by fastforce
    have "p \<noteq> Inr None"
    proof
      assume "p = Inr None"
      from query_Inr [OF p [unfolded this]] show False using find t by simp
    qed
    then have "?q s1 = (Inl e, s2)"
      using run assms(2) st d True p by (auto simp: db_CreateMessageOnce_def db_bind_def split: sum.splits option.splits)
    then show ?thesis using query_error statement_faults [OF st] by blast
  qed
qed

text \<open>
  Property C18. Creating a message once: whatever happens between two attempts with the same deduplication
  key, as long as the stored row stays, the second attempt creates nothing and answers with the stored
  message. Only an error that the server itself reports for a statement takes the place of this answer, and
  the keys of the table stay distinct.
\<close>

theorem message_created_once:
  assumes first: "db_CreateMessageOnce m s = (Inr (True, x), s1)"
    and second: "db_CreateMessageOnce m' s2 = (r, s3)"
    and "msg_DeduplicationKey m \<noteq> ''''" and "msg_DeduplicationKey m' = msg_DeduplicationKey m"
    and "keys_ok (tables s)" and "keys_ok (tables s2)"
    and "message_row x \<in> set (tb_messages (tables s2))"
  shows "message_row x \<in> set (tb_messages (tables s1)) \<and> keys_ok (tables s1) \<and>
    (r = Inr (False, message_row x) \<or> (\<exists>e. r = Inl e \<and> Some e \<in> set (faults s2))) \<and> tables s3 = tables s2"
proof -
  have x: "message_row x \<in> set (tb_messages (tables s1))" "msg_DeduplicationKey x = msg_DeduplicationKey m"
    using first insert_message_fst(1) by (cases rule: create_message_once_cases; force)+
  have find: "find (\<lambda>r. msg_DeduplicationKey r = msg_DeduplicationKey m') (tb_messages (tables s2)) = Some (message_row x)"
    using keys_ok_find [OF assms(6,7)] assms(3,4) x(2) by simp
  have taken: "insert_message m' (tables s2) = (Inl duplicated_key, tables s2)"
    using assms(3,4,7) x(2) by (auto simp: insert_message_def Let_def intro!: bexI [of _ "message_row x"])
  have "(r = Inr (False, message_row x) \<or> (\<exists>e. r = Inl e \<and> Some e \<in> set (faults s2))) \<and> tables s3 = tables s2"
  proof (cases r)
    case (Inr p)
    obtain created y where "p = (created, y)" by fastforce
    with second Inr have "db_CreateMessageOnce m' s2 = (Inr (created, y), s3)" by simp
    then show ?thesis using Inr \<open>p = (created, y)\<close> find taken by (cases rule: create_message_once_cases) auto
  next
    case (Inl e)
    have keep: "statement (insert_message m') s2 = (q, s4) \<Longrightarrow> tables s4 = tables s2" for q s4
      using statement_tables [of "insert_message m'" s2] taken by auto
    have q: "query f s4 = (q, s5) \<Longrightarrow> tables s5 = tables s4" for f :: "gorm_db \<Rightarrow> message option" and q s4 s5
      by (rule query_tables)
    have "msg_DeduplicationKey m' \<noteq> ''''" using assms(3,4) by simp
    from create_message_once_error [OF second [unfolded Inl] this taken find] have "Some e \<in> set (faults s2)" .
    moreover have "tables s3 = tables s2"
      using second Inl assms(3,4)
      by (auto simp: db_CreateMessageOnce_def db_bind_def split: if_splits prod.splits sum.splits option.splits
          dest!: keep q)
    ultimately show ?thesis using Inl by simp
  qed
  then show ?thesis using x(1) create_message_once_keys_ok [OF first assms(5)] by simp
qed

text \<open>Two attempts of a schedule run.\<close>

definition demo_keyed :: message where
  "demo_keyed = new_message\<lparr>msg_ApplicationID := 7, msg_DeduplicationKey := ''k''\<rparr>"

theorem message_created_once_witness:
  "fst (db_CreateMessageOnce demo_keyed (snd (db_CreateMessageOnce demo_keyed demo_session))) =
     Inr (False, message_row (demo_keyed\<lparr>msg_ID := 5\<rparr>))"
proof -
  let ?s1 = "snd (db_CreateMessageOnce demo_keyed demo_session)"
  let ?x = "demo_keyed\<lparr>msg_ID := 5\<rparr>"
  note unf = demo_keyed_def demo_session_def demo_tables_def
  have s1: "db_CreateMessageOnce demo_keyed demo_session = (Inr (True, ?x), ?s1)"
      "tables ?s1 = demo_tables\<lparr>tb_messages := tb_messages demo_tables @ [message_row ?x], sq_messages := 6\<rparr>"
      "faults ?s1 = []"
    by (simp_all add: db_CreateMessageOnce_def statement_def insert_message_def Let_def unf)
  have ok: "keys_ok (tables demo_session)" "keys_ok (tables ?s1)"
    by (simp add: keys_ok_def unf) (subst s1(2), simp add: keys_ok_def unf)
  show ?thesis
    using message_created_once [OF s1(1), of demo_keyed ?s1 "fst (db_CreateMessageOnce demo_keyed ?s1)"
        "snd (db_CreateMessageOnce demo_keyed ?s1)"] ok s1(2,3)
    by (auto simp: demo_keyed_def)
qed

section \<open>The personal archive\<close>

text \<open>
  An operation of one user on the dismissals: it changes that table only, and in it only rows of the user.
\<close>

locale personal_operation =
  fixes run :: "unit db" and u :: nat
  assumes effect: "run s = (r, s') \<Longrightarrow>
    (\<exists>d. tables s' = (tables s)\<lparr>tb_dismissals := d\<rparr>) \<and>
    (\<forall>v i. v \<noteq> u \<longrightarrow> dismissal_of (tables s') v i = dismissal_of (tables s) v i)"
begin

lemma others_keep_their_view:
  assumes "run s = (r, s')" "v \<noteq> u"
  shows "visibleMessages (tables s') v = visibleMessages (tables s) v \<and>
    archivedMessages (tables s') v = archivedMessages (tables s) v"
proof -
  obtain d where d: "tables s' = (tables s)\<lparr>tb_dismissals := d\<rparr>" using effect [OF assms(1)] by blast
  have "dismissal_of (tables s') v i = dismissal_of (tables s) v i" for i
    using effect [OF assms(1)] assms(2) by blast
  then show ?thesis by (simp add: visibleMessages_def archivedMessages_def is_member_def d)
qed

lemma messages_stay: "run s = (r, s') \<Longrightarrow> tb_messages (tables s') = tb_messages (tables s)"
  using effect by fastforce

end

lemma dismissal_of_update [simp]:
  "dismissal_of (t\<lparr>tb_dismissals := ds\<rparr>) u i = find (\<lambda>d. dis_UserID d = u \<and> dis_MessageID d = i) ds"
  by (simp add: dismissal_of_def)

lemma dismissal_of_key: "dismissal_of t v j = Some d \<Longrightarrow> dis_UserID d = v \<and> dis_MessageID d = j"
  unfolding dismissal_of_def by (auto simp: find_Some_iff)

lemma own_dismissals: "\<exists>d. t = t\<lparr>tb_dismissals := d\<rparr>"
  by (rule exI [of _ "tb_dismissals t"]) simp

lemma dismissal_of_put:
  "dismissal_of (put_dismissal upd u a i t) v j =
     (if v = u \<and> j = i
      then Some (case dismissal_of t u i of None \<Rightarrow> \<lparr>dis_UserID = u, dis_MessageID = i, dis_Archived = a, dis_CreatedAt = db_now t\<rparr>
        | Some d \<Rightarrow> if upd then d\<lparr>dis_Archived := a\<rparr> else d)
      else dismissal_of t v j)"
proof (cases "dismissal_of t u i")
  case None
  then show ?thesis
    by (auto simp: put_dismissal_def find_append dismissal_of_def split: option.splits)
next
  case (Some d)
  have key: "dis_UserID d = u" "dis_MessageID d = i"
    using dismissal_of_key [OF Some] by simp_all
  let ?f = "\<lambda>d. if dis_UserID d = u \<and> dis_MessageID d = i then d\<lparr>dis_Archived := a\<rparr> else d"
  have "find (\<lambda>d. dis_UserID d = v \<and> dis_MessageID d = j) (map ?f (tb_dismissals t)) = map_option ?f (dismissal_of t v j)"
    by (simp add: dismissal_of_def find_map_keep)
  moreover have "map_option ?f (dismissal_of t v j) = dismissal_of t v j" if "\<not> (v = u \<and> j = i)"
    using that dismissal_of_key [of t v j] by (cases "dismissal_of t v j") auto
  ultimately show ?thesis using Some key by (cases "v = u \<and> j = i") (auto simp: put_dismissal_def)
qed

lemma put_dismissal_only: "\<exists>d. put_dismissal upd u a i t = t\<lparr>tb_dismissals := d\<rparr>"
  by (cases "dismissal_of t u i = None"; cases upd) (auto simp: put_dismissal_def intro: exI [of _ "tb_dismissals t"])

text \<open>What a user did to a message: nothing, dismissed (\<open>Some False\<close>) or archived (\<open>Some True\<close>).\<close>

definition mark :: "gorm_db \<Rightarrow> nat \<Rightarrow> nat \<Rightarrow> bool option" where
  "mark t u i = map_option dis_Archived (dismissal_of t u i)"

lemma mark_put:
  "mark (put_dismissal True u a i t) v j = (if v = u \<and> j = i then Some a else mark t v j)"
  "mark (put_dismissal False u a i t) v j = (if v = u \<and> j = i \<and> mark t u i = None then Some a else mark t v j)"
  by (auto simp: mark_def dismissal_of_put split: option.splits)

lemma put_all:
  "(\<exists>d. fold (put_dismissal upd u a) is t = t\<lparr>tb_dismissals := d\<rparr>) \<and>
   (v \<noteq> u \<longrightarrow> dismissal_of (fold (put_dismissal upd u a) is t) v j = dismissal_of t v j)"
proof (induction "is" arbitrary: t)
  case (Cons i "is")
  obtain d where d: "put_dismissal upd u a i t = t\<lparr>tb_dismissals := d\<rparr>" using put_dismissal_only by blast
  obtain d' where "fold (put_dismissal upd u a) is (t\<lparr>tb_dismissals := d\<rparr>) = t\<lparr>tb_dismissals := d, tb_dismissals := d'\<rparr>"
    using Cons [of "t\<lparr>tb_dismissals := d\<rparr>"] by blast
  moreover have "v \<noteq> u \<longrightarrow> dismissal_of (fold (put_dismissal upd u a) is (put_dismissal upd u a i t)) v j = dismissal_of t v j"
    using Cons [of "put_dismissal upd u a i t"] by (simp add: dismissal_of_put)
  ultimately show ?case using d by auto
qed (simp add: own_dismissals)

lemma mark_put_all: "mark (fold (put_dismissal True u a) is t) u j = (if j \<in> set is then Some a else mark t u j)"
  by (induction "is" arbitrary: t) (auto simp: mark_put)

lemma exec_personal:
  assumes "\<And>t. (\<exists>d. f t = t\<lparr>tb_dismissals := d\<rparr>) \<and> (\<forall>v i. v \<noteq> u \<longrightarrow> dismissal_of (f t) v i = dismissal_of t v i)"
  shows "personal_operation (exec f) u"
proof
  fix s r s'
  assume "exec f s = (r, s')"
  then have "tables s' = f (tables s) \<or> tables s' = tables s" by (cases r) (auto dest: exec_Inr exec_Inl)
  then show "(\<exists>d. tables s' = (tables s)\<lparr>tb_dismissals := d\<rparr>) \<and>
      (\<forall>v i. v \<noteq> u \<longrightarrow> dismissal_of (tables s') v i = dismissal_of (tables s) v i)"
    using assms [of "tables s"] own_dismissals [of "tables s"] by auto
qed

lemma bulk_personal: "personal_operation (transaction (db_bind (query q)
    (\<lambda>ids. if ids = [] then db_return () else exec (fold (put_dismissal upd u a) ids)))) u"
proof
  fix s r s'
  assume run: "transaction (db_bind (query q)
    (\<lambda>ids. if ids = [] then db_return () else exec (fold (put_dismissal upd u a) ids))) s = (r, s')"
  have "tables s' = tables s \<or> (\<exists>ids. tables s' = fold (put_dismissal upd u a) ids (tables s))"
  proof (cases r)
    case (Inl e)
    then show ?thesis using run transaction_Inl by blast
  next
    case (Inr x)
    show ?thesis
      using run [unfolded Inr]
      by (rule transaction_Inr) (auto simp: db_bind_Inr dest!: query_tables exec_Inr split: if_splits)
  qed
  then show "(\<exists>d. tables s' = (tables s)\<lparr>tb_dismissals := d\<rparr>) \<and>
      (\<forall>v i. v \<noteq> u \<longrightarrow> dismissal_of (tables s') v i = dismissal_of (tables s) v i)"
    using put_all [of upd u a _ "tables s"] own_dismissals [of "tables s"] by auto
qed

lemma put_personal: "personal_operation (exec (put_dismissal upd u a i)) u"
  by (rule exec_personal) (use put_all [of upd u a "[i]"] in auto)

lemma drop_personal: "personal_operation (exec (\<lambda>t. t\<lparr>tb_dismissals :=
    filter (\<lambda>d. \<not> (dis_UserID d = u \<and> P t d)) (tb_dismissals t)\<rparr>)) u"
  by (rule exec_personal) (auto simp: dismissal_of_def intro!: find_filter_keep)

interpretation dismiss_one: personal_operation "DismissMessageForUser u i" u for u i
  unfolding DismissMessageForUser_def by (rule put_personal)

interpretation archive_one: personal_operation "ArchiveMessageForUser u i" u for u i
  unfolding ArchiveMessageForUser_def by (rule put_personal)

interpretation unarchive_one: personal_operation "UnarchiveMessageForUser u i" u for u i
  unfolding UnarchiveMessageForUser_def by (rule drop_personal)

interpretation unarchive_all: personal_operation "UnarchiveMessagesByUser u" u for u
  unfolding UnarchiveMessagesByUser_def by (rule drop_personal)

interpretation unarchive_channel: personal_operation "UnarchiveMessagesByApplicationForUser u app" u for u app
  unfolding UnarchiveMessagesByApplicationForUser_def Let_def by (rule drop_personal)

interpretation archive_all: personal_operation "ArchiveMessagesByUser u" u for u
  unfolding ArchiveMessagesByUser_def createArchives_def by (rule bulk_personal)

interpretation archive_channel: personal_operation "ArchiveMessagesByApplicationForUser u app" u for u app
  unfolding ArchiveMessagesByApplicationForUser_def createArchives_def by (rule bulk_personal)

interpretation dismiss_all: personal_operation "DismissMessagesByUser u" u for u
  unfolding DismissMessagesByUser_def createDismissals_def by (rule bulk_personal)

interpretation dismiss_channel: personal_operation "DismissMessagesByApplicationForUser u app" u for u app
  unfolding DismissMessagesByApplicationForUser_def createDismissals_def by (rule bulk_personal)

text \<open>
  Property C19. Dismissing and archiving are personal: whatever a user dismisses, archives or restores, one
  message, a channel or all, with or without an error, no message is deleted and every other user sees the
  same messages as before.
\<close>

theorem archive_is_personal:
  assumes "run \<in> {DismissMessageForUser u i, ArchiveMessageForUser u i, UnarchiveMessageForUser u i,
      DismissMessagesByUser u, ArchiveMessagesByUser u, UnarchiveMessagesByUser u,
      DismissMessagesByApplicationForUser u i, ArchiveMessagesByApplicationForUser u i,
      UnarchiveMessagesByApplicationForUser u i}"
    and "run s = (r, s')" and "v \<noteq> u"
  shows "tb_messages (tables s') = tb_messages (tables s) \<and>
    visibleMessages (tables s') v = visibleMessages (tables s) v \<and>
    archivedMessages (tables s') v = archivedMessages (tables s) v"
proof -
  have "personal_operation run u"
    using assms(1) dismiss_one.personal_operation_axioms archive_one.personal_operation_axioms
      unarchive_one.personal_operation_axioms unarchive_all.personal_operation_axioms
      unarchive_channel.personal_operation_axioms archive_all.personal_operation_axioms
      archive_channel.personal_operation_axioms dismiss_all.personal_operation_axioms
      dismiss_channel.personal_operation_axioms by blast
  from personal_operation.others_keep_their_view [OF this assms(2,3)] personal_operation.messages_stay [OF this assms(2)]
  show ?thesis by simp
qed

definition demo_members :: session where
  "demo_members = \<lparr>tables = demo_tables\<lparr>tb_memberships := [
     demo_membership\<lparr>mem_ApplicationID := 7, mem_UserID := 1\<rparr>, demo_membership\<lparr>mem_ApplicationID := 7, mem_UserID := 2\<rparr>]\<rparr>,
     faults = []\<rparr>"

lemma demo_visible: "map msg_ID (visibleMessages (tables demo_members) u) = (if u = 1 \<or> u = 2 then [1, 2, 3, 4] else [])"
  by (simp add: visibleMessages_def demo_members_def demo_tables_def is_member_def dismissal_of_def)

theorem archive_is_personal_witness:
  "map msg_ID (visibleMessages (tables (snd (ArchiveMessagesByUser 2 demo_members))) 1) = [1, 2, 3, 4]"
  using archive_is_personal [of "ArchiveMessagesByUser 2" 2 0 demo_members "fst (ArchiveMessagesByUser 2 demo_members)"
      "snd (ArchiveMessagesByUser 2 demo_members)" 1] demo_visible [of 1] by simp

text \<open>The primary key of the dismissals.\<close>

definition dismissals_ok :: "gorm_db \<Rightarrow> bool" where
  "dismissals_ok t \<longleftrightarrow> distinct (map (\<lambda>d. (dis_UserID d, dis_MessageID d)) (tb_dismissals t))"

lemma put_dismissal_ok: "dismissals_ok t \<Longrightarrow> dismissals_ok (put_dismissal upd u a i t)"
proof -
  assume ok: "dismissals_ok t"
  have [simp]: "dis_UserID (if c then d\<lparr>dis_Archived := a\<rparr> else d) = dis_UserID d"
      "dis_MessageID (if c then d\<lparr>dis_Archived := a\<rparr> else d) = dis_MessageID d" for c d
    by simp_all
  have "dismissal_of t u i = None \<Longrightarrow> (u, i) \<notin> (\<lambda>d. (dis_UserID d, dis_MessageID d)) ` set (tb_dismissals t)"
    by (auto simp: dismissal_of_def find_None_iff)
  then show ?thesis
    using ok unfolding put_dismissal_def
    by (cases "dismissal_of t u i = None"; cases upd) (simp_all add: dismissals_ok_def comp_def)
qed

lemma put_dismissals_ok: "dismissals_ok t \<Longrightarrow> dismissals_ok (fold (put_dismissal upd u a) is t)"
  by (induction "is" arbitrary: t) (auto simp: put_dismissal_ok)

lemma find_filter_unique:
  assumes "distinct (map k xs)"
  shows "find (\<lambda>x. k x = c) (filter Q xs) = (case find (\<lambda>x. k x = c) xs of Some x \<Rightarrow> if Q x then Some x else None | None \<Rightarrow> None)"
  using assms by (induction xs) (auto simp: find_None_iff image_iff split: option.splits dest!: find_SomeD)

lemma mark_unarchive:
  assumes "dismissals_ok t"
  shows "mark (t\<lparr>tb_dismissals := filter (\<lambda>d. \<not> (dis_UserID d = u \<and> dis_Archived d)) (tb_dismissals t)\<rparr>) u i =
    (if mark t u i = Some True then None else mark t u i)"
proof -
  have pair: "find (\<lambda>d. dis_UserID d = u \<and> dis_MessageID d = i) ds = find (\<lambda>d. (dis_UserID d, dis_MessageID d) = (u, i)) ds"
    for ds by simp
  have "dismissal_of (t\<lparr>tb_dismissals := filter (\<lambda>d. \<not> (dis_UserID d = u \<and> dis_Archived d)) (tb_dismissals t)\<rparr>) u i =
      (case dismissal_of t u i of Some d \<Rightarrow> if \<not> (dis_UserID d = u \<and> dis_Archived d) then Some d else None | None \<Rightarrow> None)"
    unfolding dismissal_of_update pair dismissal_of_def [of t]
    by (rule find_filter_unique [OF assms [unfolded dismissals_ok_def]])
  then show ?thesis
    using dismissal_of_key [of t u i] by (cases "dismissal_of t u i") (simp_all add: mark_def)
qed

lemma visible_mark:
  "visibleMessages t u = filter (\<lambda>m. is_member t (msg_ApplicationID m) u \<and> mark t u (msg_ID m) = None) (tb_messages t)"
  "archivedMessages t u = filter (\<lambda>m. is_member t (msg_ApplicationID m) u \<and> mark t u (msg_ID m) = Some True) (tb_messages t)"
  by (auto simp: visibleMessages_def archivedMessages_def mark_def intro!: filter_cong split: option.splits)

lemma archive_all_tables:
  assumes "ArchiveMessagesByUser u s = (Inr (), s')"
  shows "tables s' = fold (put_dismissal True u True) (map msg_ID (visibleMessages (tables s) u)) (tables s)"
  using assms unfolding ArchiveMessagesByUser_def createArchives_def
  by (rule transaction_Inr) (auto simp: db_bind_Inr dest!: query_Inr exec_Inr split: if_splits)

text \<open>
  Archiving everything empties the list of a user and restoring brings it back: after
  \<open>ArchiveMessagesByUser\<close> the archive holds, in order, what was visible and what was archived before; after
  \<open>UnarchiveMessagesByUser\<close> exactly these messages are visible and the archive is empty. What the user had
  dismissed stays dismissed.
\<close>

theorem archive_restores:
  assumes "dismissals_ok (tables s)"
    and archive: "ArchiveMessagesByUser u s = (Inr (), s1)"
    and restore: "UnarchiveMessagesByUser u s1 = (Inr (), s2)"
    and seen: "seen = filter (\<lambda>m. m \<in> set (visibleMessages (tables s) u) \<or> m \<in> set (archivedMessages (tables s) u))
      (tb_messages (tables s))"
  shows "visibleMessages (tables s1) u = [] \<and> archivedMessages (tables s1) u = seen \<and>
    visibleMessages (tables s2) u = seen \<and> archivedMessages (tables s2) u = []"
proof -
  let ?ids = "map msg_ID (visibleMessages (tables s) u)"
  have t1: "tables s1 = fold (put_dismissal True u True) ?ids (tables s)"
    using archive_all_tables [OF archive] .
  obtain d where d: "tables s1 = (tables s)\<lparr>tb_dismissals := d\<rparr>" using put_all t1 by metis
  have mem [simp]: "is_member (tables s1) = is_member (tables s)" "tb_messages (tables s1) = tb_messages (tables s)"
    by (simp_all add: d is_member_def fun_eq_iff)
  have ok: "dismissals_ok (tables s1)" using put_dismissals_ok assms(1) t1 by simp
  have t2: "tables s2 = (tables s1)\<lparr>tb_dismissals :=
      filter (\<lambda>d. \<not> (dis_UserID d = u \<and> dis_Archived d)) (tb_dismissals (tables s1))\<rparr>"
    using exec_Inr [OF restore [unfolded UnarchiveMessagesByUser_def]] .
  have mem2 [simp]: "is_member (tables s2) = is_member (tables s)" "tb_messages (tables s2) = tb_messages (tables s)"
    using mem by (simp_all add: t2 is_member_def fun_eq_iff d)
  have m1: "mark (tables s1) u i = (if i \<in> set ?ids then Some True else mark (tables s) u i)" for i
    unfolding t1 by (rule mark_put_all)
  have m2: "mark (tables s2) u i = (if mark (tables s1) u i = Some True then None else mark (tables s1) u i)" for i
    unfolding t2 by (rule mark_unarchive [OF ok])
  have vis: "m \<in> set (tb_messages (tables s)) \<Longrightarrow> is_member (tables s) (msg_ApplicationID m) u \<Longrightarrow>
      msg_ID m \<in> set ?ids \<longleftrightarrow> mark (tables s) u (msg_ID m) = None" for m
    by (auto simp: visible_mark)
  show ?thesis
    using m1 m2 vis unfolding seen visible_mark mem mem2
    by (auto simp: filter_empty_conv intro!: filter_cong)
qed

theorem archive_restores_witness:
  "map msg_ID (archivedMessages (tables (snd (ArchiveMessagesByUser 2 demo_members))) 2) = [1, 2, 3, 4] \<and>
   map msg_ID (visibleMessages (tables (snd (UnarchiveMessagesByUser 2 (snd (ArchiveMessagesByUser 2 demo_members))))) 2) =
     [1, 2, 3, 4]"
proof -
  have f: "faults demo_members = []" "dismissals_ok (tables demo_members)"
    by (simp_all add: demo_members_def demo_tables_def dismissals_ok_def)
  let ?a = "ArchiveMessagesByUser 2 demo_members"
  have a: "?a = (Inr (), snd ?a)" and fa: "faults (snd ?a) = []"
    using f by (simp_all add: ArchiveMessagesByUser_def transaction_def db_then_def db_bind_def createArchives_def)
  have b: "UnarchiveMessagesByUser 2 (snd ?a) = (Inr (), snd (UnarchiveMessagesByUser 2 (snd ?a)))"
    using fa by (simp add: UnarchiveMessagesByUser_def)
  have "visibleMessages (tables demo_members) 2 = tb_messages (tables demo_members)"
    by (simp add: visibleMessages_def demo_members_def demo_tables_def is_member_def dismissal_of_def)
  then have seen: "filter (\<lambda>m. m \<in> set (visibleMessages (tables demo_members) 2) \<or> m \<in> set (archivedMessages (tables demo_members) 2))
      (tb_messages (tables demo_members)) = visibleMessages (tables demo_members) 2" by simp
  show ?thesis
    using archive_restores [OF f(2) a b refl] demo_visible [of 2] unfolding seen by simp
qed

text \<open>A message that two users acknowledged comes back twice from a search for acknowledged messages.\<close>

lemma search_repeats_messages:
  "join_acknowledged (demo_tables\<lparr>tb_acks := [\<lparr>ack_UserID = 1, ack_MessageID = 4, ack_AcknowledgedAt = 5\<rparr>,
       \<lparr>ack_UserID = 2, ack_MessageID = 4, ack_AcknowledgedAt = 6\<rparr>]\<rparr>) ''yes'' [new_message\<lparr>msg_ID := 4\<rparr>] =
     [new_message\<lparr>msg_ID := 4\<rparr>, new_message\<lparr>msg_ID := 4\<rparr>]"
  by (simp add: join_acknowledged_def)

end
