(* ===== verification/Membership.thy ===== *)
theory Membership
  imports Database_Laws Fracdex_Keys "HOL-Library.AList"
begin

text \<open>
  Who belongs to a channel: \<open>src/database/application_membership.go\<close>, \<open>src/database/group.go\<close> and the
  channel side of \<open>src/database/application.go\<close> and \<open>src/database/user.go\<close>. A membership collects the
  grants of three sources: a role given by hand, the automatic assignment of a channel to everybody, and the
  assignment of groups, which \<open>SyncApplicationGroupAssignments\<close> writes into the memberships.
\<close>

section \<open>Channels and users\<close>

definition no_application :: application where
  "no_application = \<lparr>app_ID = 0, app_Token = '''', app_UserID = 0, app_Name = '''', app_Description = '''',
     app_Internal = False, app_AutoAssign = False, app_AllowMemberPost = False, app_ChannelType = '''',
     app_ReceiveNotifications = None, app_CurrentRole = '''', app_Image = '''', app_Messages = [],
     app_DefaultPriority = 0, app_RetentionDays = 0, app_CreatedAt = zero_time, app_LastUsed = None, app_SortKey = ''''\<rparr>"

definition db_GetApplicationByID :: "nat \<Rightarrow> application option db" where
  "db_GetApplicationByID i =
     db_bind (query (\<lambda>t. find (\<lambda>a. app_ID a = i) (tb_applications t))) (\<lambda>row.
       let app = (case row of Some a \<Rightarrow> a | None \<Rightarrow> no_application) in
       db_return (if app_ID app = i then Some app else None))"

text \<open>\<open>First\<close>: the row, or the error that there is none.\<close>

definition first_row :: "(gorm_db \<Rightarrow> 'a option) \<Rightarrow> 'a db" where
  "first_row q = db_bind (query q) (\<lambda>row. case row of None \<Rightarrow> db_fail record_not_found | Some x \<Rightarrow> db_return x)"

definition update_applications :: "nat \<Rightarrow> (application \<Rightarrow> application) \<Rightarrow> gorm_db \<Rightarrow> gorm_db" where
  "update_applications i f t = t\<lparr>tb_applications := map (\<lambda>a. if app_ID a = i then f a else a) (tb_applications t)\<rparr>"

definition GetAccessibleApplicationsByUser :: "nat \<Rightarrow> application list db" where
  "GetAccessibleApplicationsByUser u = query (\<lambda>t. sort_key app_SortKey (sort_key app_ID
     (filter (\<lambda>a. is_member t (app_ID a) u) (tb_applications t))))"

section \<open>Memberships\<close>

text \<open>A membership as the code creates it: only the fields it names are set.\<close>

definition new_membership :: "nat \<Rightarrow> nat \<Rightarrow> application_membership" where
  "new_membership app u = \<lparr>mem_ApplicationID = app, mem_UserID = u, mem_ReceiveNotifications = True,
     mem_NotificationOverride = None, mem_AutoAssigned = False, mem_Role = '''', mem_GroupRole = '''',
     mem_GroupAssigned = False, mem_GroupReceiveNotifications = False, mem_EffectiveRole = '''',
     mem_CreatedAt = zero_time, mem_UpdatedAt = zero_time\<rparr>"

definition mem_key :: "application_membership \<Rightarrow> nat \<times> nat" where
  "mem_key m = (mem_ApplicationID m, mem_UserID m)"

definition membership_row :: "gorm_db \<Rightarrow> application_membership \<Rightarrow> application_membership" where
  "membership_row t m = m\<lparr>mem_EffectiveRole := '''', mem_CreatedAt := db_now t, mem_UpdatedAt := db_now t\<rparr>"

definition find_membership :: "gorm_db \<Rightarrow> nat \<Rightarrow> nat \<Rightarrow> application_membership option" where
  "find_membership t app u = find (\<lambda>m. mem_key m = (app, u)) (tb_memberships t)"

text \<open>\<open>Create\<close> with \<open>membershipConflict\<close>, and without it.\<close>

definition keep_membership :: "application_membership \<Rightarrow> gorm_db \<Rightarrow> gorm_db" where
  "keep_membership m t =
     (if mem_key m \<in> mem_key ` set (tb_memberships t) then t
      else t\<lparr>tb_memberships := tb_memberships t @ [membership_row t m]\<rparr>)"

definition insert_membership :: "application_membership \<Rightarrow> gorm_db \<Rightarrow> unit res \<times> gorm_db" where
  "insert_membership m t =
     (if mem_key m \<in> mem_key ` set (tb_memberships t) then (Inl duplicated_key, t)
      else (Inr (), t\<lparr>tb_memberships := tb_memberships t @ [membership_row t m]\<rparr>))"

text \<open>\<open>Save\<close> of a row that was read.\<close>

definition save_membership :: "application_membership \<Rightarrow> gorm_db \<Rightarrow> gorm_db" where
  "save_membership m t = t\<lparr>tb_memberships := map (\<lambda>r. if mem_key r = mem_key m
     then m\<lparr>mem_EffectiveRole := '''', mem_UpdatedAt := db_now t\<rparr> else r) (tb_memberships t)\<rparr>"

definition delete_membership :: "nat \<Rightarrow> nat \<Rightarrow> gorm_db \<Rightarrow> gorm_db" where
  "delete_membership app u t = t\<lparr>tb_memberships := filter (\<lambda>m. mem_key m \<noteq> (app, u)) (tb_memberships t)\<rparr>"

definition assignApplicationToAllUsers :: "nat \<Rightarrow> nat \<Rightarrow> unit db" where
  "assignApplicationToAllUsers app owner =
     db_bind (query (\<lambda>t. map usr_ID (tb_users t))) (\<lambda>userIDs.
       let memberships = map (\<lambda>u. (new_membership app u)\<lparr>mem_AutoAssigned := True\<rparr>) (filter (\<lambda>u. u \<noteq> owner) userIDs) in
       if memberships = [] then db_return () else exec (fold keep_membership memberships))"

definition assignUserToAutoApplications :: "nat \<Rightarrow> unit db" where
  "assignUserToAutoApplications u =
     db_bind (query (\<lambda>t. filter app_AutoAssign (tb_applications t))) (db_foreach (\<lambda>app.
       if app_UserID app = u then db_return ()
       else exec (keep_membership ((new_membership (app_ID app) u)\<lparr>mem_AutoAssigned := True\<rparr>))))"

definition backfillApplicationMemberships :: "unit db" where
  "backfillApplicationMemberships =
     db_bind (query tb_applications) (db_foreach (\<lambda>app.
       db_then (if app_UserID app \<noteq> 0 then exec (keep_membership (new_membership (app_ID app) (app_UserID app)))
                else db_return ())
         (if app_AutoAssign app then assignApplicationToAllUsers (app_ID app) (app_UserID app) else db_return ())))"

definition db_GetApplicationMembership :: "nat \<Rightarrow> nat \<Rightarrow> application_membership option db" where
  "db_GetApplicationMembership app u =
     db_bind (query (\<lambda>t. find_membership t app u)) (\<lambda>row.
       let m = (case row of Some m \<Rightarrow> m | None \<Rightarrow> (new_membership 0 0)\<lparr>mem_ReceiveNotifications := False\<rparr>) in
       if mem_ApplicationID m \<noteq> app \<or> mem_UserID m \<noteq> u then db_return None
       else db_bind (db_GetApplicationByID app) (\<lambda>a.
         let owner = (case a of None \<Rightarrow> False | Some a \<Rightarrow> app_UserID a = u) in
         db_return (Some (m\<lparr>mem_EffectiveRole := EffectiveChannelRole owner (Some m)\<rparr>))))"

definition GetApplicationMemberships :: "nat \<Rightarrow> application_membership list db" where
  "GetApplicationMemberships app =
     db_bind (query (\<lambda>t. sort_key mem_UserID (filter (\<lambda>m. mem_ApplicationID m = app) (tb_memberships t)))) (\<lambda>ms.
     db_bind (db_GetApplicationByID app) (\<lambda>a.
       db_return (map (\<lambda>m. m\<lparr>mem_EffectiveRole := EffectiveChannelRole
         (case a of None \<Rightarrow> False | Some a \<Rightarrow> app_UserID a = mem_UserID m) (Some m)\<rparr>) ms)))"

definition UpsertApplicationMembership :: "application_membership \<Rightarrow> unit db" where
  "UpsertApplicationMembership m =
     (let m = m\<lparr>mem_AutoAssigned := False\<rparr>;
          m = (if mem_Role m = '''' then m\<lparr>mem_Role := ChannelRoleMember\<rparr> else m);
          m = m\<lparr>mem_Role := NormalizeChannelRole (mem_Role m)\<rparr> in
      exec (\<lambda>t. if mem_key m \<in> mem_key ` set (tb_memberships t)
        then t\<lparr>tb_memberships := map (\<lambda>r. if mem_key r = mem_key m
          then r\<lparr>mem_ReceiveNotifications := mem_ReceiveNotifications m, mem_Role := mem_Role m,
            mem_AutoAssigned := mem_AutoAssigned m, mem_UpdatedAt := db_now t\<rparr> else r) (tb_memberships t)\<rparr>
        else t\<lparr>tb_memberships := tb_memberships t @ [membership_row t m]\<rparr>))"

definition DeleteApplicationMembership :: "nat \<Rightarrow> nat \<Rightarrow> unit db" where
  "DeleteApplicationMembership app u = exec (delete_membership app u)"

definition CountApplicationMemberships :: "nat \<Rightarrow> nat db" where
  "CountApplicationMemberships app = query (\<lambda>t. length (filter (\<lambda>m. mem_ApplicationID m = app) (tb_memberships t)))"

definition db_GetApplicationRecipientUserIDs :: "nat \<Rightarrow> nat list db" where
  "db_GetApplicationRecipientUserIDs app = query (\<lambda>t. sort (map mem_UserID
     (filter (\<lambda>m. mem_ApplicationID m = app \<and> mem_ReceiveNotifications m) (tb_memberships t))))"

text \<open>An update answers with the number of rows it met.\<close>

definition SetApplicationMembershipNotifications :: "nat \<Rightarrow> nat \<Rightarrow> bool \<Rightarrow> unit db" where
  "SetApplicationMembershipNotifications app u enabled =
     db_bind (statement (\<lambda>t. (Inr (length (filter (\<lambda>m. mem_key m = (app, u)) (tb_memberships t))),
       t\<lparr>tb_memberships := map (\<lambda>m. if mem_key m = (app, u)
         then m\<lparr>mem_ReceiveNotifications := enabled, mem_NotificationOverride := Some enabled, mem_UpdatedAt := db_now t\<rparr>
         else m) (tb_memberships t)\<rparr>))) (\<lambda>rows.
     if rows \<noteq> 0 then db_return ()
     else db_bind (query (\<lambda>t. length (filter (\<lambda>m. mem_key m = (app, u)) (tb_memberships t)))) (\<lambda>count.
       if count = 0 then db_fail record_not_found else db_return ()))"

section \<open>Creating channels and changing their owner\<close>

text \<open>The greatest sort key among some channels of a user, empty when there is none.\<close>

definition last_sort_key :: "(application \<Rightarrow> bool) \<Rightarrow> nat \<Rightarrow> gorm_db \<Rightarrow> string" where
  "last_sort_key P u t =
     (case rev (sort (map app_SortKey (filter (\<lambda>a. app_UserID a = u \<and> P a) (tb_applications t)))) of
        [] \<Rightarrow> '''' | k # _ \<Rightarrow> k)"

definition db_lift :: "'a res \<Rightarrow> 'a db" where
  "db_lift r s = (r, s)"

definition application_row :: "application \<Rightarrow> application" where
  "application_row a = a\<lparr>app_ReceiveNotifications := None, app_CurrentRole := '''', app_Messages := []\<rparr>"

definition insert_application :: "application \<Rightarrow> gorm_db \<Rightarrow> application res \<times> gorm_db" where
  "insert_application a t =
     (let i = (if app_ID a = 0 then sq_applications t else app_ID a); a = a\<lparr>app_ID := i\<rparr> in
      if \<exists>r\<in>set (tb_applications t). app_ID r = i \<or> app_Token r = app_Token a \<or>
           app_UserID r = app_UserID a \<and> app_SortKey r = app_SortKey a
      then (Inl duplicated_key, t)
      else (Inr a, t\<lparr>tb_applications := tb_applications t @ [application_row a],
        sq_applications := max (sq_applications t) (i + 1)\<rparr>))"

definition CreateApplication :: "application \<Rightarrow> application db" where
  "CreateApplication app = transaction (
     db_bind (if app_SortKey app = ''''
       then db_bind (query (last_sort_key (\<lambda>_. True) (app_UserID app))) (\<lambda>k.
         db_bind (db_lift (KeyBetween k '''')) (\<lambda>k. db_return (app\<lparr>app_SortKey := k\<rparr>)))
       else db_return app) (\<lambda>app.
     db_bind (statement (insert_application app)) (\<lambda>app.
     db_then (if app_UserID app \<noteq> 0 then statement (insert_membership (new_membership (app_ID app) (app_UserID app)))
              else db_return ())
     (db_then (if app_AutoAssign app then assignApplicationToAllUsers (app_ID app) (app_UserID app) else db_return ())
       (db_return app)))))"

definition TransferApplicationOwnership :: "nat \<Rightarrow> nat \<Rightarrow> unit db" where
  "TransferApplicationOwnership app u = transaction (
     db_bind (first_row (\<lambda>t. find (\<lambda>a. app_ID a = app) (tb_applications t))) (\<lambda>_.
     db_bind (first_row (\<lambda>t. find (\<lambda>x. usr_ID x = u) (tb_users t))) (\<lambda>_.
     db_bind (query (\<lambda>t. find_membership t app u)) (\<lambda>row.
     db_then (case row of
         Some _ \<Rightarrow> exec (\<lambda>t. t\<lparr>tb_memberships := map (\<lambda>m. if mem_key m = (app, u)
           then m\<lparr>mem_AutoAssigned := False, mem_UpdatedAt := db_now t\<rparr> else m) (tb_memberships t)\<rparr>)
       | None \<Rightarrow> statement (insert_membership (new_membership app u)))
     (db_bind (query (last_sort_key (\<lambda>a. app_ID a \<noteq> app) u)) (\<lambda>lastSortKey.
      db_bind (db_lift (KeyBetween lastSortKey '''')) (\<lambda>newSortKey.
      statement (\<lambda>t. if \<exists>r\<in>set (tb_applications t). app_ID r \<noteq> app \<and> app_UserID r = u \<and> app_SortKey r = newSortKey
        then (Inl duplicated_key, t)
        else (Inr (), update_applications app (\<lambda>a. a\<lparr>app_UserID := u, app_SortKey := newSortKey\<rparr>) t)))))))))"

definition SetApplicationMemberPosting :: "nat \<Rightarrow> bool \<Rightarrow> unit db" where
  "SetApplicationMemberPosting app enabled = exec (update_applications app (\<lambda>a. a\<lparr>app_AllowMemberPost := enabled\<rparr>))"

definition SetApplicationAutoAssign :: "nat \<Rightarrow> bool \<Rightarrow> unit db" where
  "SetApplicationAutoAssign i enabled = transaction (
     db_bind (first_row (\<lambda>t. find (\<lambda>a. app_ID a = i) (tb_applications t))) (\<lambda>app.
     db_then (exec (update_applications i (\<lambda>a. a\<lparr>app_AutoAssign := enabled\<rparr>)))
     (if enabled then assignApplicationToAllUsers i (app_UserID app)
      else exec (\<lambda>t. t\<lparr>tb_memberships :=
        filter (\<lambda>m. \<not> (mem_ApplicationID m = i \<and> mem_AutoAssigned m)) (tb_memberships t)\<rparr>))))"

section \<open>Groups\<close>

definition GetApplicationGroupAssignments :: "nat \<Rightarrow> group_assignment list db" where
  "GetApplicationGroupAssignments app =
     query (\<lambda>t. sort_key gra_GroupID (filter (\<lambda>g. gra_ApplicationID g = app) (tb_assignments t)))"

definition GetUserGroupMembers :: "nat \<Rightarrow> user list db" where
  "GetUserGroupMembers g = query (\<lambda>t. sort_key usr_Name
     (filter (\<lambda>u. \<exists>m\<in>set (tb_group_members t). grm_UserID m = usr_ID u \<and> grm_GroupID m = g) (tb_users t)))"

text \<open>
  \<open>groupAccess\<close>: the role and whether to receive notifications; the map \<open>desired\<close> of the code is an
  association list. Go visits its maps in any order; every visit concerns another row.
\<close>

type_synonym group_access = "string \<times> bool"

definition add_access :: "group_assignment \<Rightarrow> nat \<Rightarrow> (nat \<times> group_access) list \<Rightarrow> (nat \<times> group_access) list" where
  "add_access a u desired =
     (let (role, receive) = (case map_of desired u of None \<Rightarrow> ('''', False) | Some c \<Rightarrow> c);
          role = (if ChannelRoleRank (gra_Role a) > ChannelRoleRank role then NormalizeChannelRole (gra_Role a) else role)
      in AList.update u (role, receive \<or> gra_ReceiveNotifications a) desired)"

fun collect_access :: "group_assignment list \<Rightarrow> (nat \<times> group_access) list \<Rightarrow> (nat \<times> group_access) list db" where
  "collect_access [] desired = db_return desired"
| "collect_access (a # as) desired =
     db_bind (GetUserGroupMembers (gra_GroupID a)) (\<lambda>members.
       collect_access as (fold (\<lambda>u. add_access a (usr_ID u)) members desired))"

fun sync_existing ::
  "application \<Rightarrow> application_membership list \<Rightarrow> (nat \<times> group_access) list \<Rightarrow> (nat \<times> group_access) list db" where
  "sync_existing app [] desired = db_return desired"
| "sync_existing app (m # ms) desired =
     (let u = mem_UserID m; personal = mem_Role m = '''' \<and> \<not> mem_AutoAssigned m \<and> u \<noteq> app_UserID app in
      case map_of desired u of
        Some (role, receive) \<Rightarrow>
          let m = m\<lparr>mem_GroupAssigned := True, mem_GroupRole := role, mem_GroupReceiveNotifications := receive\<rparr>;
              m = (case mem_NotificationOverride m of
                     Some b \<Rightarrow> m\<lparr>mem_ReceiveNotifications := b\<rparr>
                   | None \<Rightarrow> if personal then m\<lparr>mem_ReceiveNotifications := receive\<rparr> else m)
          in db_then (exec (save_membership m)) (sync_existing app ms (AList.delete u desired))
      | None \<Rightarrow>
          if \<not> mem_GroupAssigned m then sync_existing app ms desired
          else
            let m = m\<lparr>mem_GroupAssigned := False, mem_GroupRole := '''', mem_GroupReceiveNotifications := False\<rparr> in
            if personal then db_then (exec (delete_membership (app_ID app) u)) (sync_existing app ms desired)
            else
              let m = (case mem_NotificationOverride m of Some b \<Rightarrow> m\<lparr>mem_ReceiveNotifications := b\<rparr> | None \<Rightarrow> m)
              in db_then (exec (save_membership m)) (sync_existing app ms desired))"

definition group_membership :: "nat \<Rightarrow> nat \<times> group_access \<Rightarrow> application_membership" where
  "group_membership app d = (case d of (u, role, receive) \<Rightarrow> (new_membership app u)\<lparr>mem_ReceiveNotifications := receive,
     mem_GroupAssigned := True, mem_GroupRole := role, mem_GroupReceiveNotifications := receive\<rparr>)"

definition SyncApplicationGroupAssignments :: "nat \<Rightarrow> unit db" where
  "SyncApplicationGroupAssignments i =
     db_bind (db_GetApplicationByID i) (\<lambda>row. case row of
         None \<Rightarrow> db_return ()
       | Some app \<Rightarrow>
           db_bind (GetApplicationGroupAssignments i) (\<lambda>assignments.
           db_bind (collect_access assignments []) (\<lambda>desired.
           db_bind (query (\<lambda>t. filter (\<lambda>m. mem_ApplicationID m = i) (tb_memberships t))) (\<lambda>memberships.
           transaction (
             db_bind (sync_existing app memberships desired) (db_foreach (\<lambda>d.
               statement (insert_membership (group_membership i d)))))))))"

definition SyncGroupAssignmentsForGroup :: "nat \<Rightarrow> unit db" where
  "SyncGroupAssignmentsForGroup g =
     db_bind (query (\<lambda>t. remdups (map gra_ApplicationID (filter (\<lambda>a. gra_GroupID a = g) (tb_assignments t)))))
       (db_foreach SyncApplicationGroupAssignments)"

definition UpsertApplicationGroupAssignment :: "group_assignment \<Rightarrow> unit db" where
  "UpsertApplicationGroupAssignment a =
     (let a = a\<lparr>gra_Role := NormalizeChannelRole (gra_Role a)\<rparr>;
          same = (\<lambda>r. gra_ApplicationID r = gra_ApplicationID a \<and> gra_GroupID r = gra_GroupID a) in
      db_then (exec (\<lambda>t. if \<exists>r\<in>set (tb_assignments t). same r
          then t\<lparr>tb_assignments := map (\<lambda>r. if same r then r\<lparr>gra_Role := gra_Role a,
            gra_ReceiveNotifications := gra_ReceiveNotifications a, gra_UpdatedAt := db_now t\<rparr> else r) (tb_assignments t)\<rparr>
          else t\<lparr>tb_assignments := tb_assignments t @ [a\<lparr>gra_CreatedAt := db_now t, gra_UpdatedAt := db_now t\<rparr>]\<rparr>))
        (SyncApplicationGroupAssignments (gra_ApplicationID a)))"

definition DeleteApplicationGroupAssignment :: "nat \<Rightarrow> nat \<Rightarrow> unit db" where
  "DeleteApplicationGroupAssignment app g =
     db_then (exec (\<lambda>t. t\<lparr>tb_assignments :=
         filter (\<lambda>a. \<not> (gra_ApplicationID a = app \<and> gra_GroupID a = g)) (tb_assignments t)\<rparr>))
       (SyncApplicationGroupAssignments app)"

definition DeleteUserGroup :: "nat \<Rightarrow> unit db" where
  "DeleteUserGroup g =
     db_bind (query (\<lambda>t. remdups (map gra_ApplicationID (filter (\<lambda>a. gra_GroupID a = g) (tb_assignments t))))) (\<lambda>appIDs.
     db_then (transaction (exec_all [
         \<lambda>t. t\<lparr>tb_assignments := filter (\<lambda>a. gra_GroupID a \<noteq> g) (tb_assignments t)\<rparr>,
         \<lambda>t. t\<lparr>tb_group_members := filter (\<lambda>m. grm_GroupID m \<noteq> g) (tb_group_members t)\<rparr>,
         \<lambda>t. t\<lparr>tb_groups := filter (\<lambda>x. grp_ID x \<noteq> g) (tb_groups t)\<rparr>]))
       (db_foreach SyncApplicationGroupAssignments appIDs))"

definition AddUserGroupMember :: "nat \<Rightarrow> nat \<Rightarrow> unit db" where
  "AddUserGroupMember g u =
     db_bind (first_row (\<lambda>t. find (\<lambda>x. grp_ID x = g) (tb_groups t))) (\<lambda>_.
     db_bind (first_row (\<lambda>t. find (\<lambda>x. usr_ID x = u) (tb_users t))) (\<lambda>_.
     db_then (exec (\<lambda>t. if \<exists>m\<in>set (tb_group_members t). grm_GroupID m = g \<and> grm_UserID m = u then t
       else t\<lparr>tb_group_members := tb_group_members t @ [\<lparr>grm_GroupID = g, grm_UserID = u, grm_CreatedAt = db_now t\<rparr>]\<rparr>))
     (SyncGroupAssignmentsForGroup g)))"

definition RemoveUserGroupMember :: "nat \<Rightarrow> nat \<Rightarrow> unit db" where
  "RemoveUserGroupMember g u =
     db_then (exec (\<lambda>t. t\<lparr>tb_group_members :=
         filter (\<lambda>m. \<not> (grm_GroupID m = g \<and> grm_UserID m = u)) (tb_group_members t)\<rparr>))
       (SyncGroupAssignmentsForGroup g)"

definition DeleteUserGroupMembershipsForUser :: "nat \<Rightarrow> unit db" where
  "DeleteUserGroupMembershipsForUser u =
     db_bind (query (\<lambda>t. map grm_GroupID (filter (\<lambda>m. grm_UserID m = u) (tb_group_members t)))) (\<lambda>groupIDs.
     db_then (exec (\<lambda>t. t\<lparr>tb_group_members := filter (\<lambda>m. grm_UserID m \<noteq> u) (tb_group_members t)\<rparr>))
       (db_foreach SyncGroupAssignmentsForGroup groupIDs))"

definition insert_user :: "user \<Rightarrow> gorm_db \<Rightarrow> user res \<times> gorm_db" where
  "insert_user u t =
     (let i = (if usr_ID u = 0 then sq_users t else usr_ID u);
          u = u\<lparr>usr_ID := i, usr_CreatedAt := (if usr_CreatedAt u = zero_time then db_now t else usr_CreatedAt u)\<rparr> in
      if \<exists>r\<in>set (tb_users t). usr_ID r = i \<or> usr_Name r = usr_Name u \<or>
           usr_OIDCID u \<noteq> None \<and> usr_OIDCID r = usr_OIDCID u \<or> usr_LDAPID u \<noteq> None \<and> usr_LDAPID r = usr_LDAPID u
      then (Inl duplicated_key, t)
      else (Inr u, t\<lparr>tb_users := tb_users t @ [u], sq_users := max (sq_users t) (i + 1)\<rparr>))"

definition db_CreateUser :: "user \<Rightarrow> user db" where
  "db_CreateUser u = transaction (
     db_bind (statement (insert_user u)) (\<lambda>u. db_then (assignUserToAutoApplications (usr_ID u)) (db_return u)))"

end
