(* ===== verification/Membership_Laws.thy ===== *)
theory Membership_Laws
  imports Membership
begin

text \<open>
  What the memberships of a channel say after a change: the synchronisation with the groups grants each
  member exactly the best of the assigned roles and takes back what no group grants any more; owners stay
  members; sort keys stay distinct.
\<close>

section \<open>Rows\<close>

lemma find_membership_unique:
  assumes "distinct (map mem_key (tb_memberships t))" "m \<in> set (tb_memberships t)"
  shows "find_membership t (mem_ApplicationID m) (mem_UserID m) = Some m"
proof -
  have "find (\<lambda>x. mem_key x = mem_key m) xs = Some m" if "distinct (map mem_key xs)" "m \<in> set xs" for xs
    using that by (induction xs) auto
  then show ?thesis using assms by (simp add: find_membership_def mem_key_def)
qed

lemma find_membership_key: "find_membership t a u = Some m \<Longrightarrow> mem_key m = (a, u) \<and> m \<in> set (tb_memberships t)"
  unfolding find_membership_def by (drule find_SomeD) simp

lemma find_membership_None: "find_membership t a u = None \<longleftrightarrow> (a, u) \<notin> mem_key ` set (tb_memberships t)"
  by (auto simp: find_membership_def find_None_iff intro: rev_image_eqI)

lemma find_membership_update:
  "find_membership (t\<lparr>tb_memberships := ms\<rparr>) a u = find (\<lambda>m. mem_key m = (a, u)) ms"
  by (simp add: find_membership_def)

lemma find_membership_append:
  "find_membership (t\<lparr>tb_memberships := tb_memberships t @ [r]\<rparr>) a u =
     (case find_membership t a u of None \<Rightarrow> if mem_key r = (a, u) then Some r else None | Some x \<Rightarrow> Some x)"
  unfolding find_membership_update find_append by (simp add: find_membership_def split: option.split)

lemma mem_key_updates [simp]:
  "mem_key (m\<lparr>mem_EffectiveRole := x\<rparr>) = mem_key m" "mem_key (m\<lparr>mem_UpdatedAt := y\<rparr>) = mem_key m"
  "mem_key (m\<lparr>mem_AutoAssigned := b\<rparr>) = mem_key m" "mem_key (m\<lparr>mem_GroupAssigned := b\<rparr>) = mem_key m"
  "mem_key (m\<lparr>mem_GroupRole := x\<rparr>) = mem_key m" "mem_key (m\<lparr>mem_GroupReceiveNotifications := b\<rparr>) = mem_key m"
  "mem_key (m\<lparr>mem_ReceiveNotifications := b\<rparr>) = mem_key m" "mem_key (m\<lparr>mem_CreatedAt := y\<rparr>) = mem_key m"
  "mem_key (m\<lparr>mem_Role := x\<rparr>) = mem_key m" "mem_key (m\<lparr>mem_NotificationOverride := z\<rparr>) = mem_key m"
  by (simp_all add: mem_key_def)

lemma mem_key_new [simp]:
  "mem_key (new_membership a u) = (a, u)" "mem_key (membership_row t m) = mem_key m"
  "mem_key (group_membership a (u, acc)) = (a, u)"
  by (simp_all add: new_membership_def membership_row_def mem_key_def group_membership_def split: prod.splits)

lemma find_save:
  "find_membership (save_membership m t) a u =
     (if mem_key m = (a, u) \<and> find_membership t a u \<noteq> None
      then Some (m\<lparr>mem_EffectiveRole := '''', mem_UpdatedAt := db_now t\<rparr>) else find_membership t a u)"
proof -
  let ?f = "\<lambda>r. if mem_key r = mem_key m then m\<lparr>mem_EffectiveRole := '''', mem_UpdatedAt := db_now t\<rparr> else r"
  have "find (\<lambda>m. mem_key m = (a, u)) (map ?f (tb_memberships t)) = map_option ?f (find_membership t a u)"
    unfolding find_membership_def by (rule find_map_keep) auto
  then show ?thesis
    using find_membership_key [of t a u] unfolding save_membership_def find_membership_update
    by (cases "find_membership t a u") auto
qed

lemma find_delete:
  "find_membership (delete_membership b v t) a u = (if (a, u) = (b, v) then None else find_membership t a u)"
proof (cases "(a, u) = (b, v)")
  case False
  then show ?thesis
    by (auto simp: delete_membership_def find_membership_def intro!: find_filter_keep)
qed (auto simp: delete_membership_def find_membership_update find_None_iff)

lemma find_keep:
  "find_membership (keep_membership m t) a u =
     (if mem_key m = (a, u) \<and> find_membership t a u = None then Some (membership_row t m) else find_membership t a u)"
proof (cases "mem_key m \<in> mem_key ` set (tb_memberships t)")
  case True
  then have "mem_key m = (a, u) \<Longrightarrow> find_membership t a u \<noteq> None" by (simp add: find_membership_None)
  then show ?thesis using True by (auto simp: keep_membership_def)
next
  case False
  then have "mem_key m = (a, u) \<Longrightarrow> find_membership t a u = None" by (simp add: find_membership_None)
  then show ?thesis using False by (auto simp: keep_membership_def find_membership_append split: option.splits)
qed

lemma insert_membership_Inr:
  assumes "fst (insert_membership m t) = Inr x"
  shows "find_membership (snd (insert_membership m t)) a u =
      (if mem_key m = (a, u) then Some (membership_row t m) else find_membership t a u) \<and>
    find_membership t (fst (mem_key m)) (snd (mem_key m)) = None"
proof -
  have new: "mem_key m \<notin> mem_key ` set (tb_memberships t)"
    using assms by (auto simp: insert_membership_def split: if_splits)
  then have "find_membership t (fst (mem_key m)) (snd (mem_key m)) = None" by (simp add: find_membership_None)
  then show ?thesis
    using new by (auto simp: insert_membership_def find_membership_append split: option.splits)
qed

text \<open>Operations on memberships change no other table.\<close>

lemma membership_only:
  "save_membership m t = t\<lparr>tb_memberships := tb_memberships (save_membership m t)\<rparr>"
  "delete_membership a u t = t\<lparr>tb_memberships := tb_memberships (delete_membership a u t)\<rparr>"
  by (simp_all add: save_membership_def delete_membership_def)

section \<open>The access that groups grant\<close>

text \<open>The assignments of a channel that reach a user, in the order of the groups.\<close>

definition in_group :: "gorm_db \<Rightarrow> nat \<Rightarrow> nat \<Rightarrow> bool" where
  "in_group t g u \<longleftrightarrow> (\<exists>m\<in>set (tb_group_members t). grm_GroupID m = g \<and> grm_UserID m = u) \<and> u \<in> usr_ID ` set (tb_users t)"

definition grants :: "gorm_db \<Rightarrow> nat \<Rightarrow> nat \<Rightarrow> group_assignment list" where
  "grants t app u = filter (\<lambda>a. in_group t (gra_GroupID a) u)
     (sort_key gra_GroupID (filter (\<lambda>a. gra_ApplicationID a = app) (tb_assignments t)))"

definition grant :: "group_assignment \<Rightarrow> group_access option \<Rightarrow> group_access option" where
  "grant a cur =
     (let (role, receive) = (case cur of None \<Rightarrow> ('''', False) | Some c \<Rightarrow> c) in
      Some (if ChannelRoleRank (gra_Role a) > ChannelRoleRank role then NormalizeChannelRole (gra_Role a) else role,
            receive \<or> gra_ReceiveNotifications a))"

lemma map_of_add_access: "map_of (add_access a v d) u = (if u = v then grant a (map_of d u) else map_of d u)"
  by (auto simp: add_access_def grant_def Let_def update_conv' split: prod.splits)

lemma distinct_add_access: "distinct (map fst d) \<Longrightarrow> distinct (map fst (add_access a v d))"
  by (simp add: add_access_def Let_def distinct_update split: prod.splits)

lemma map_of_members:
  "distinct us \<Longrightarrow> map_of (fold (add_access a) us d) u = (if u \<in> set us then grant a (map_of d u) else map_of d u)"
  by (induction us arbitrary: d) (auto simp: map_of_add_access)

lemma collect_access_Inr:
  assumes "collect_access as d s = (Inr d', s')" and "distinct (map usr_ID (tb_users (tables s)))"
  shows "tables s' = tables s \<and> (distinct (map fst d) \<longrightarrow> distinct (map fst d')) \<and>
    map_of d' u = fold grant (filter (\<lambda>a. in_group (tables s) (gra_GroupID a) u) as) (map_of d u)"
  using assms
proof (induction as arbitrary: d s)
  case (Cons a as)
  let ?q = "\<lambda>t. sort_key usr_Name (filter (\<lambda>u. \<exists>m\<in>set (tb_group_members t). grm_UserID m = usr_ID u \<and>
    grm_GroupID m = gra_GroupID a) (tb_users t))"
  obtain members s1 where q: "query ?q s = (Inr members, s1)"
      and rest: "collect_access as (fold (\<lambda>u. add_access a (usr_ID u)) members d) s1 = (Inr d', s')"
    using Cons.prems(1) by (auto simp: db_bind_Inr GetUserGroupMembers_def)
  note m = query_Inr [OF q]
  let ?ids = "map usr_ID members"
  have fold: "fold (\<lambda>u. add_access a (usr_ID u)) members d = fold (add_access a) ?ids d"
    by (simp add: fold_map comp_def)
  have ids: "distinct ?ids" "set ?ids = {u. in_group (tables s) (gra_GroupID a) u}"
    using Cons.prems(2) m by (auto simp: in_group_def distinct_map intro: inj_on_subset)
  have "distinct (map fst d) \<Longrightarrow> distinct (map fst (fold (add_access a) us d))" for us
    by (induction us arbitrary: d) (simp_all add: distinct_add_access)
  then show ?case
    using Cons.IH [OF rest] Cons.prems(2) m map_of_members [OF ids(1), of a d u] ids(2) fold by simp
qed simp

lemma fold_grant_Some:
  assumes "\<forall>a\<in>set as. NormalizeChannelRole (gra_Role a) = gra_Role a"
  shows "\<exists>role'. fold grant as (Some (role, receive)) = Some (role', receive \<or> (\<exists>a\<in>set as. gra_ReceiveNotifications a)) \<and>
     ChannelRoleRank role' = Max (insert (ChannelRoleRank role) (ChannelRoleRank ` gra_Role ` set as))"
  using assms
proof (induction as arbitrary: role receive)
  case (Cons a as)
  define role1 where "role1 = (if ChannelRoleRank (gra_Role a) > ChannelRoleRank role
    then NormalizeChannelRole (gra_Role a) else role)"
  have r1: "ChannelRoleRank role1 = max (ChannelRoleRank role) (ChannelRoleRank (gra_Role a))"
    using Cons.prems by (auto simp: role1_def)
  have step: "grant a (Some (role, receive)) = Some (role1, receive \<or> gra_ReceiveNotifications a)"
    by (simp add: grant_def role1_def)
  obtain role' where "fold grant as (Some (role1, receive \<or> gra_ReceiveNotifications a)) =
      Some (role', (receive \<or> gra_ReceiveNotifications a) \<or> (\<exists>b\<in>set as. gra_ReceiveNotifications b))"
      "ChannelRoleRank role' = Max (insert (ChannelRoleRank role1) (ChannelRoleRank ` gra_Role ` set as))"
    using Cons.IH [of role1 "receive \<or> gra_ReceiveNotifications a"] Cons.prems by auto
  moreover have "Max (insert (max x y) A) = Max (insert x (insert y A))" if "finite A" for x y :: int and A
    using that by (cases "A = {}") (auto simp: max.assoc)
  ultimately show ?case using r1 by (auto simp: step)
qed simp

text \<open>Users whom no group reaches have no access; the others the best role and the notifications of any.\<close>

lemma fold_grant:
  assumes "\<forall>a\<in>set as. NormalizeChannelRole (gra_Role a) = gra_Role a"
  shows "(as = [] \<longrightarrow> fold grant as None = None) \<and>
    (as \<noteq> [] \<longrightarrow> (\<exists>role. fold grant as None = Some (role, \<exists>a\<in>set as. gra_ReceiveNotifications a) \<and>
       ChannelRoleRank role = Max (ChannelRoleRank ` gra_Role ` set as)))"
proof (cases as)
  case (Cons a as')
  have nonneg: "0 \<le> ChannelRoleRank r" for r by (simp add: ChannelRoleRank_def)
  have norm: "NormalizeChannelRole (gra_Role a) = gra_Role a" using assms Cons by simp
  have "ChannelRoleRank (gra_Role a) \<noteq> 0" using rank_normalize [of "gra_Role a"] norm by auto
  with nonneg [of "gra_Role a"] have pos: "0 < ChannelRoleRank (gra_Role a)" by linarith
  have "ChannelRoleRank '''' = 0" by (simp add: ChannelRoleRank_def role_defs)
  with pos norm have "grant a None = Some (gra_Role a, gra_ReceiveNotifications a)"
    by (simp add: grant_def)
  then show ?thesis using fold_grant_Some [of as' "gra_Role a" "gra_ReceiveNotifications a"] assms Cons by auto
qed simp

section \<open>Synchronising one channel\<close>

text \<open>Whether only the groups hold a membership, and the row it becomes for the access a user has.\<close>

definition only_groups :: "application \<Rightarrow> application_membership \<Rightarrow> bool" where
  "only_groups app m \<longleftrightarrow> mem_Role m = '''' \<and> \<not> mem_AutoAssigned m \<and> mem_UserID m \<noteq> app_UserID app"

definition received :: "application \<Rightarrow> application_membership \<Rightarrow> bool \<Rightarrow> bool" where
  "received app m receive = (case mem_NotificationOverride m of Some b \<Rightarrow> b
     | None \<Rightarrow> if only_groups app m then receive else mem_ReceiveNotifications m)"

definition synced :: "application \<Rightarrow> time \<Rightarrow> application_membership \<Rightarrow> group_access option \<Rightarrow> application_membership option" where
  "synced app now m access =
     (case access of
        Some (role, receive) \<Rightarrow> Some (m\<lparr>mem_GroupAssigned := True, mem_GroupRole := role,
          mem_GroupReceiveNotifications := receive, mem_ReceiveNotifications := received app m receive,
          mem_EffectiveRole := '''', mem_UpdatedAt := now\<rparr>)
      | None \<Rightarrow>
          if \<not> mem_GroupAssigned m then Some m
          else if only_groups app m then None
          else Some (m\<lparr>mem_GroupAssigned := False, mem_GroupRole := '''', mem_GroupReceiveNotifications := False,
            mem_ReceiveNotifications := received app m (mem_ReceiveNotifications m), mem_EffectiveRole := '''',
            mem_UpdatedAt := now\<rparr>))"

text \<open>One step of the loop over the existing memberships.\<close>

definition sync_row :: "application \<Rightarrow> application_membership \<Rightarrow> group_access option \<Rightarrow> unit db" where
  "sync_row app m access =
     (if access = None \<and> \<not> mem_GroupAssigned m then db_return ()
      else exec (\<lambda>t. case synced app (db_now t) m access of
        None \<Rightarrow> delete_membership (app_ID app) (mem_UserID m) t
      | Some m' \<Rightarrow> save_membership m' t))"

lemma save_membership_cong:
  "m\<lparr>mem_EffectiveRole := '''', mem_UpdatedAt := x\<rparr> = m'\<lparr>mem_EffectiveRole := '''', mem_UpdatedAt := x\<rparr> \<Longrightarrow>
     mem_key m = mem_key m' \<Longrightarrow> db_now t = x \<Longrightarrow> save_membership m t = save_membership m' t"
  by (simp add: save_membership_def)

lemma sync_existing_step:
  "sync_existing app (m # ms) desired =
     db_then (sync_row app m (map_of desired (mem_UserID m))) (sync_existing app ms (AList.delete (mem_UserID m) desired))"
proof -
  have idle: "db_then (db_return ()) k = k" for k :: "'a db"
    by (simp add: db_then_def db_bind_def fun_eq_iff)
  have del: "map_of desired (mem_UserID m) = None \<Longrightarrow> AList.delete (mem_UserID m) desired = desired"
    by (simp add: map_of_eq_None_iff delete_id)
  have saved: "exec (save_membership m1) = exec (\<lambda>t. save_membership (m2 (db_now t)) t)"
    if "\<And>x. mem_key (m2 x) = mem_key m1"
       "\<And>x. m1\<lparr>mem_EffectiveRole := '''', mem_UpdatedAt := x\<rparr> = (m2 x)\<lparr>mem_EffectiveRole := '''', mem_UpdatedAt := x\<rparr>"
    for m1 m2
    by (rule arg_cong [of _ _ exec], rule ext, rule save_membership_cong) (use that in simp_all)
  show ?thesis
  proof (cases "map_of desired (mem_UserID m)")
    case (Some access)
    obtain role receive where a: "access = (role, receive)" by fastforce
    show ?thesis
      unfolding sync_row_def
      by (cases "mem_NotificationOverride m")
        (auto simp: Some a Let_def synced_def received_def only_groups_def intro!: arg_cong2 [of _ _ _ _ db_then] saved)
  next
    case None
    show ?thesis
    proof (cases "mem_GroupAssigned m")
      case False
      then show ?thesis by (simp add: None sync_row_def idle del)
    next
      case True
      show ?thesis
        unfolding sync_row_def
        by (cases "mem_NotificationOverride m"; cases "only_groups app m")
          (auto simp: None True del Let_def synced_def received_def only_groups_def
            intro!: arg_cong2 [of _ _ _ _ db_then] saved)
    qed
  qed
qed

lemma sync_row_Inr:
  assumes "sync_row app m access s = (Inr x, s')"
    and "mem_ApplicationID m = app_ID app" and "find_membership (tables s) (app_ID app) (mem_UserID m) = Some m"
  shows "tables s' = (tables s)\<lparr>tb_memberships := tb_memberships (tables s')\<rparr> \<and>
    find_membership (tables s') a u = (if a = app_ID app \<and> u = mem_UserID m
      then synced app (db_now (tables s)) m access else find_membership (tables s) a u)"
proof (cases "access = None \<and> \<not> mem_GroupAssigned m")
  case True
  then show ?thesis using assms by (simp add: sync_row_def synced_def)
next
  case False
  let ?f = "\<lambda>t. case synced app (db_now t) m access of None \<Rightarrow> delete_membership (app_ID app) (mem_UserID m) t
    | Some m' \<Rightarrow> save_membership m' t"
  have t: "tables s' = ?f (tables s)"
    using assms(1) False exec_Inr [of ?f s x s'] by (simp add: sync_row_def)
  have saved: "m'\<lparr>mem_EffectiveRole := '''', mem_UpdatedAt := db_now (tables s)\<rparr> = m' \<and> mem_key m' = (app_ID app, mem_UserID m)"
    if "synced app (db_now (tables s)) m access = Some m'" for m'
    using that False assms(2) by (auto simp: synced_def mem_key_def split: option.splits if_splits)
  have "tables s' = (tables s)\<lparr>tb_memberships := tb_memberships (tables s')\<rparr>"
    unfolding t by (auto split: option.split intro: membership_only)
  moreover have "find_membership (tables s') a u = (if a = app_ID app \<and> u = mem_UserID m
      then synced app (db_now (tables s)) m access else find_membership (tables s) a u)"
    unfolding t using saved assms(3) by (auto simp: find_delete find_save split: option.split)
  ultimately show ?thesis by blast
qed

lemma sync_existing_Inr:
  assumes "sync_existing app ms desired s = (Inr d, s')"
    and "\<forall>m\<in>set ms. mem_ApplicationID m = app_ID app \<and> find_membership (tables s) (app_ID app) (mem_UserID m) = Some m"
    and "distinct (map mem_UserID ms)" and "distinct (map fst desired)"
  shows "tables s' = (tables s)\<lparr>tb_memberships := tb_memberships (tables s')\<rparr> \<and> distinct (map fst d) \<and>
    (\<forall>u. map_of d u = (if u \<in> mem_UserID ` set ms then None else map_of desired u)) \<and>
    (\<forall>a u. \<not> (a = app_ID app \<and> u \<in> mem_UserID ` set ms) \<longrightarrow> find_membership (tables s') a u = find_membership (tables s) a u) \<and>
    (\<forall>m\<in>set ms. find_membership (tables s') (app_ID app) (mem_UserID m) =
       synced app (db_now (tables s)) m (map_of desired (mem_UserID m)))"
  using assms
proof (induction ms arbitrary: desired s)
  case (Cons m ms)
  obtain s1 where row: "sync_row app m (map_of desired (mem_UserID m)) s = (Inr (), s1)"
      and rest: "sync_existing app ms (AList.delete (mem_UserID m) desired) s1 = (Inr d, s')"
    using Cons.prems(1) unfolding sync_existing_step by (auto simp: db_then_Inr)
  have m: "mem_ApplicationID m = app_ID app" "find_membership (tables s) (app_ID app) (mem_UserID m) = Some m"
    using Cons.prems(2) by simp_all
  note step = sync_row_Inr [OF row m]
  have t1: "tables s1 = (tables s)\<lparr>tb_memberships := tb_memberships (tables s1)\<rparr>" using step by blast
  then have now: "db_now (tables s1) = db_now (tables s)" by (metis gorm_db.select_convs gorm_db.surjective gorm_db.update_convs)
  have keep: "\<forall>x\<in>set ms. mem_ApplicationID x = app_ID app \<and> find_membership (tables s1) (app_ID app) (mem_UserID x) = Some x"
    using Cons.prems(2,3) step by (auto simp: image_iff)
  have dist: "distinct (map mem_UserID ms)" "distinct (map fst (AList.delete (mem_UserID m) desired))"
    using Cons.prems(3,4) by (simp_all add: distinct_delete)
  note IH = Cons.IH [OF rest keep dist]
  have del: "map_of (AList.delete (mem_UserID m) desired) u = (if u = mem_UserID m then None else map_of desired u)" for u
    by (simp add: delete_conv')
  show ?case
  proof (intro conjI)
    have "tables s' = (tables s1)\<lparr>tb_memberships := tb_memberships (tables s')\<rparr>" using IH by blast
    then show "tables s' = (tables s)\<lparr>tb_memberships := tb_memberships (tables s')\<rparr>"
      by (subst (asm) t1) simp
    show "distinct (map fst d)" using IH by blast
    show "\<forall>u. map_of d u = (if u \<in> mem_UserID ` set (m # ms) then None else map_of desired u)"
      using IH del by auto
    show "\<forall>a u. \<not> (a = app_ID app \<and> u \<in> mem_UserID ` set (m # ms)) \<longrightarrow>
        find_membership (tables s') a u = find_membership (tables s) a u"
      using IH step by auto
    have other: "mem_UserID x \<noteq> mem_UserID m" if "x \<in> set ms" for x
      using that Cons.prems(3) by (auto simp: image_iff)
    have "find_membership (tables s') (app_ID app) (mem_UserID m) = synced app (db_now (tables s)) m (map_of desired (mem_UserID m))"
      using IH step Cons.prems(3) by auto
    moreover have "\<forall>x\<in>set ms. find_membership (tables s') (app_ID app) (mem_UserID x) =
        synced app (db_now (tables s)) x (map_of desired (mem_UserID x))"
      using IH other now del by auto
    ultimately show "\<forall>x\<in>set (m # ms). find_membership (tables s') (app_ID app) (mem_UserID x) =
        synced app (db_now (tables s)) x (map_of desired (mem_UserID x))" by simp
  qed
qed simp

lemma insert_all_Inr:
  assumes "db_foreach (\<lambda>d. statement (insert_membership (group_membership i d))) ds s = (Inr x, s')"
    and "distinct (map fst ds)"
  shows "tables s' = (tables s)\<lparr>tb_memberships := tb_memberships (tables s')\<rparr> \<and>
    find_membership (tables s') a u = (case map_of ds u of
      Some access \<Rightarrow> if a = i then Some (membership_row (tables s) (group_membership i (u, access))) else find_membership (tables s) a u
    | None \<Rightarrow> find_membership (tables s) a u)"
  using assms
proof (induction ds arbitrary: s)
  case (Cons d ds)
  obtain v access where d: "d = (v, access)" by (rule prod.exhaust)
  obtain s1 where row: "statement (insert_membership (group_membership i d)) s = (Inr (), s1)"
      and rest: "db_foreach (\<lambda>d. statement (insert_membership (group_membership i d))) ds s1 = (Inr x, s')"
    using Cons.prems(1) by (auto simp: db_then_Inr)
  have ins: "fst (insert_membership (group_membership i d) (tables s)) = Inr ()"
      "tables s1 = snd (insert_membership (group_membership i d) (tables s))"
    using statement_Inr [OF row] by simp_all
  have t1: "tables s1 = (tables s)\<lparr>tb_memberships := tb_memberships (tables s1)\<rparr>"
    using ins by (auto simp: insert_membership_def split: if_splits)
  have fresh: "map_of ds v = None" using Cons.prems(2) d by (simp add: map_of_eq_None_iff)
  have row_eq: "membership_row (tables s1) m = membership_row (tables s) m" for m
    by (subst t1) (simp add: membership_row_def)
  note IH = Cons.IH [OF rest] Cons.prems(2)
  have found: "find_membership (tables s1) a u =
      (if (i, v) = (a, u) then Some (membership_row (tables s) (group_membership i d)) else find_membership (tables s) a u)"
    using insert_membership_Inr [OF ins(1), of a u] ins(2) d by simp
  have "tables s' = (tables s1)\<lparr>tb_memberships := tb_memberships (tables s')\<rparr>" using IH by simp
  then have "tables s' = (tables s)\<lparr>tb_memberships := tb_memberships (tables s')\<rparr>" by (subst (asm) t1) simp
  then show ?case using IH found fresh d row_eq by (auto split: option.splits)
qed simp

text \<open>The keys the database enforces and the roles that \<open>UpsertApplicationGroupAssignment\<close> stores.\<close>

definition members_ok :: "gorm_db \<Rightarrow> bool" where
  "members_ok t \<longleftrightarrow> distinct (map mem_key (tb_memberships t)) \<and> distinct (map usr_ID (tb_users t)) \<and>
     distinct (map app_ID (tb_applications t)) \<and>
     (\<forall>a\<in>set (tb_assignments t). NormalizeChannelRole (gra_Role a) = gra_Role a)"

definition access_of :: "gorm_db \<Rightarrow> nat \<Rightarrow> nat \<Rightarrow> group_access option" where
  "access_of t app u = fold grant (grants t app u) None"

definition application_of :: "gorm_db \<Rightarrow> nat \<Rightarrow> application option" where
  "application_of t i = find (\<lambda>a. app_ID a = i) (tb_applications t)"

text \<open>What the code loads: for identifier 0 the empty structure looks like a found row.\<close>

definition loaded :: "gorm_db \<Rightarrow> nat \<Rightarrow> application option" where
  "loaded t i = (case application_of t i of Some a \<Rightarrow> Some a | None \<Rightarrow> if i = 0 then Some no_application else None)"

lemma loaded_simps:
  "application_of t i = Some a \<Longrightarrow> loaded t i = Some a" "i \<noteq> 0 \<Longrightarrow> loaded t i = application_of t i"
  "loaded t i = Some a \<Longrightarrow> app_ID a = i"
  by (auto simp: loaded_def application_of_def no_application_def split: option.splits if_splits dest: find_SomeD)

lemma get_application_Inr:
  assumes "db_GetApplicationByID i s = (Inr row, s')"
  shows "tables s' = tables s \<and> row = loaded (tables s) i"
proof -
  obtain a s1 where q: "query (\<lambda>t. find (\<lambda>a. app_ID a = i) (tb_applications t)) s = (Inr a, s1)"
      and r: "s' = s1" "row = (let app = (case a of Some a \<Rightarrow> a | None \<Rightarrow> no_application) in if app_ID app = i then Some app else None)"
    using assms(1) by (auto simp: db_GetApplicationByID_def db_bind_Inr Let_def split: if_splits)
  have "a = application_of (tables s) i" using query_Inr [OF q] by (simp add: application_of_def)
  then show ?thesis
    using r query_Inr [OF q] by (auto simp: loaded_def application_of_def no_application_def split: option.splits dest: find_SomeD)
qed

lemma channel_rows:
  assumes "distinct (map mem_key (tb_memberships t))"
  shows "\<forall>m\<in>set (filter (\<lambda>m. mem_ApplicationID m = i) (tb_memberships t)).
      mem_ApplicationID m = i \<and> find_membership t i (mem_UserID m) = Some m"
    "distinct (map mem_UserID (filter (\<lambda>m. mem_ApplicationID m = i) (tb_memberships t)))"
    "u \<in> mem_UserID ` set (filter (\<lambda>m. mem_ApplicationID m = i) (tb_memberships t)) \<longleftrightarrow> find_membership t i u \<noteq> None"
proof -
  let ?ms = "filter (\<lambda>m. mem_ApplicationID m = i) (tb_memberships t)"
  show "\<forall>m\<in>set ?ms. mem_ApplicationID m = i \<and> find_membership t i (mem_UserID m) = Some m"
    using find_membership_unique [OF assms] by fastforce
  have "inj_on mem_UserID (set ?ms)" using assms by (auto simp: distinct_map inj_on_def mem_key_def)
  then show "distinct (map mem_UserID ?ms)" using assms by (simp add: distinct_map)
  show "u \<in> mem_UserID ` set ?ms \<longleftrightarrow> find_membership t i u \<noteq> None"
    unfolding find_membership_None by (auto simp: mem_key_def intro: rev_image_eqI)
qed

lemma sync_memberships:
  assumes run: "SyncApplicationGroupAssignments i s = (Inr (), s')"
    and ok: "members_ok (tables s)" and app: "loaded (tables s) i = Some app"
  shows "tables s' = (tables s)\<lparr>tb_memberships := tb_memberships (tables s')\<rparr> \<and>
    find_membership (tables s') a u =
      (if a \<noteq> i then find_membership (tables s) a u
       else case find_membership (tables s) i u of
         Some m \<Rightarrow> synced app (db_now (tables s)) m (access_of (tables s) i u)
       | None \<Rightarrow> map_option (\<lambda>access. membership_row (tables s) (group_membership i (u, access))) (access_of (tables s) i u))"
proof -
  have id: "app_ID app = i" using app by (rule loaded_simps)
  obtain row s1 where g0: "db_GetApplicationByID i s = (Inr row, s1)"
      and rest0: "(case row of None \<Rightarrow> db_return () | Some app \<Rightarrow> db_bind (GetApplicationGroupAssignments i) (\<lambda>assignments.
           db_bind (collect_access assignments []) (\<lambda>desired.
           db_bind (query (\<lambda>t. filter (\<lambda>m. mem_ApplicationID m = i) (tb_memberships t))) (\<lambda>memberships.
           transaction (
             db_bind (sync_existing app memberships desired) (db_foreach (\<lambda>d.
               statement (insert_membership (group_membership i d))))))))) s1 = (Inr (), s')"
    using run unfolding SyncApplicationGroupAssignments_def db_bind_Inr by blast
  have g: "tables s1 = tables s" "row = Some app"
    using get_application_Inr [OF g0] app by simp_all
  from rest0 have "db_bind (GetApplicationGroupAssignments i) (\<lambda>assignments.
           db_bind (collect_access assignments []) (\<lambda>desired.
           db_bind (query (\<lambda>t. filter (\<lambda>m. mem_ApplicationID m = i) (tb_memberships t))) (\<lambda>memberships.
           transaction (
             db_bind (sync_existing app memberships desired) (db_foreach (\<lambda>d.
               statement (insert_membership (group_membership i d)))))))) s1 = (Inr (), s')"
    unfolding g(2) option.case .
  then obtain as s2 desired s3 ms s4 where
      q2: "GetApplicationGroupAssignments i s1 = (Inr as, s2)" and
      q3: "collect_access as [] s2 = (Inr desired, s3)" and
      q4: "query (\<lambda>t. filter (\<lambda>m. mem_ApplicationID m = i) (tb_memberships t)) s3 = (Inr ms, s4)" and
      tx: "transaction (db_bind (sync_existing app ms desired) (db_foreach (\<lambda>d.
               statement (insert_membership (group_membership i d))))) s4 = (Inr (), s')"
    unfolding db_bind_Inr by blast
  have as: "as = sort_key gra_GroupID (filter (\<lambda>a. gra_ApplicationID a = i) (tb_assignments (tables s)))"
      and t2: "tables s2 = tables s"
    using query_Inr [OF q2 [unfolded GetApplicationGroupAssignments_def]] g(1) by simp_all
  have users: "distinct (map usr_ID (tb_users (tables s2)))" using ok t2 by (simp add: members_ok_def)
  have t3: "tables s3 = tables s" and dist: "distinct (map fst desired)"
    using collect_access_Inr [OF q3 users] t2 by simp_all
  have acc: "map_of desired u = access_of (tables s) i u" for u
    using collect_access_Inr [OF q3 users, of u] t2 as by (simp add: access_of_def grants_def)
  have ms: "ms = filter (\<lambda>m. mem_ApplicationID m = i) (tb_memberships (tables s))" and t4: "tables s4 = tables s"
    using query_Inr [OF q4] t3 by simp_all
  obtain s5 s6 d s7 where t5: "tables s5 = tables s" and
      ex: "sync_existing app ms desired s5 = (Inr d, s7)" and
      ins: "db_foreach (\<lambda>d. statement (insert_membership (group_membership i d))) d s7 = (Inr (), s6)" and
      t': "tables s' = tables s6"
    using tx t4 by (elim transaction_Inr) (auto simp: db_bind_Inr)
  have keys: "distinct (map mem_key (tb_memberships (tables s)))" using ok by (simp add: members_ok_def)
  have rows: "\<forall>m\<in>set ms. mem_ApplicationID m = app_ID app \<and> find_membership (tables s5) (app_ID app) (mem_UserID m) = Some m"
    using channel_rows(1) [OF keys, of i] id t5 by (simp add: ms)
  have us: "distinct (map mem_UserID ms)" using channel_rows(2) [OF keys, of i] by (simp add: ms)
  note E = sync_existing_Inr [OF ex rows us dist]
  have I: "tables s6 = (tables s7)\<lparr>tb_memberships := tb_memberships (tables s6)\<rparr> \<and>
    find_membership (tables s6) a u = (case map_of d u of
      Some access \<Rightarrow> if a = i then Some (membership_row (tables s7) (group_membership i (u, access))) else find_membership (tables s7) a u
    | None \<Rightarrow> find_membership (tables s7) a u)" for a u
    by (rule insert_all_Inr [OF ins]) (use E in blast)
  have t7: "tables s7 = (tables s)\<lparr>tb_memberships := tb_memberships (tables s7)\<rparr>" using E t5 by simp
  have "db_now (tables s7) = db_now (tables s)" using arg_cong [OF t7, of db_now] by simp
  then have row: "membership_row (tables s7) m = membership_row (tables s) m" for m
    by (simp add: membership_row_def)
  have only: "tables s' = (tables s)\<lparr>tb_memberships := tb_memberships (tables s')\<rparr>"
    using I t' by (subst (asm) t7) auto
  have mem: "u \<in> mem_UserID ` set ms \<longleftrightarrow> find_membership (tables s) i u \<noteq> None"
    unfolding ms by (rule channel_rows(3) [OF keys])
  have "find_membership (tables s') a u =
      (if a \<noteq> i then find_membership (tables s) a u
       else case find_membership (tables s) i u of
         Some m \<Rightarrow> synced app (db_now (tables s)) m (access_of (tables s) i u)
       | None \<Rightarrow> map_option (\<lambda>access. membership_row (tables s) (group_membership i (u, access))) (access_of (tables s) i u))"
  proof (cases "a = i \<and> find_membership (tables s) i u \<noteq> None")
    case True
    then obtain m where m: "find_membership (tables s) i u = Some m" by blast
    then have "m \<in> set ms" "mem_UserID m = u"
      using find_membership_key [OF m] by (auto simp: ms mem_key_def)
    then have "find_membership (tables s7) i u = synced app (db_now (tables s)) m (access_of (tables s) i u)"
      using E id t5 acc by auto
    then show ?thesis using I [of a u] t' E True mem m acc by simp
  next
    case False
    have "map_of d u = (if u \<in> mem_UserID ` set ms then None else access_of (tables s) i u)" using E acc by simp
    moreover have "find_membership (tables s7) a u = find_membership (tables s) a u"
      using E id t5 False mem by auto
    ultimately show ?thesis
      using I [of a u] t' row False mem by (auto split: option.splits)
  qed
  with only show ?thesis by blast
qed

lemma reads_GetUserGroupMembers [atomic_rules]: "reads (GetUserGroupMembers g)" "reads (GetApplicationGroupAssignments i)"
  "reads (db_GetApplicationByID i)"
  unfolding GetUserGroupMembers_def GetApplicationGroupAssignments_def db_GetApplicationByID_def Let_def
  by (intro atomic_rules; simp add: atomic_rules split: option.split)+

lemma reads_collect_access [atomic_rules]: "reads (collect_access as d)"
  by (induction as arbitrary: d) (auto intro!: atomic_rules)

lemma atomic_sync: "all_or_nothing (SyncApplicationGroupAssignments i)"
proof -
  have "all_or_nothing (case row of None \<Rightarrow> db_return () | Some app \<Rightarrow> db_bind (GetApplicationGroupAssignments i) (\<lambda>as.
      db_bind (collect_access as []) (\<lambda>d. db_bind (query (\<lambda>t. filter (\<lambda>m. mem_ApplicationID m = i) (tb_memberships t)))
      (\<lambda>ms. transaction (h app d ms)))))" for row :: "application option" and h
    by (cases row) (auto intro!: atomic_rules intro: atomic_reads)
  then show ?thesis unfolding SyncApplicationGroupAssignments_def by (intro atomic_rules)
qed

text \<open>Without failures of the server the synchronisation succeeds: it never meets the unique index.\<close>

lemma sync_existing_ok:
  "faults s = [] \<Longrightarrow> \<exists>d s'. sync_existing app ms desired s = (Inr d, s') \<and> faults s' = []"
proof (induction ms arbitrary: desired s)
  case (Cons m ms)
  obtain s1 where "sync_row app m (map_of desired (mem_UserID m)) s = (Inr (), s1)" "faults s1 = []"
    using Cons.prems by (cases "map_of desired (mem_UserID m) = None \<and> \<not> mem_GroupAssigned m") (simp_all add: sync_row_def)
  then show ?case
    using Cons.IH [of s1] unfolding sync_existing_step db_then_Inr by blast
qed simp

lemma insert_all_ok:
  "faults s = [] \<Longrightarrow> distinct (map fst ds) \<Longrightarrow> \<forall>d\<in>set ds. find_membership (tables s) i (fst d) = None \<Longrightarrow>
     \<exists>s'. db_foreach (\<lambda>d. statement (insert_membership (group_membership i d))) ds s = (Inr (), s') \<and> faults s' = []"
proof (induction ds arbitrary: s)
  case (Cons d ds)
  obtain v access where d: "d = (v, access)" by (rule prod.exhaust)
  let ?r = "insert_membership (group_membership i d) (tables s)"
  let ?s1 = "s\<lparr>tables := snd ?r\<rparr>"
  have "find_membership (tables s) i v = None" using Cons.prems(3) d by simp
  then have ins: "fst ?r = Inr ()" using d by (simp add: insert_membership_def find_membership_None)
  then have "statement (insert_membership (group_membership i d)) s = (Inr (), ?s1)"
    using Cons.prems(1) by (simp add: statement_def case_prod_beta)
  moreover have "\<forall>x\<in>set ds. find_membership (tables ?s1) i (fst x) = None"
  proof
    fix x assume "x \<in> set ds"
    then have "fst x \<noteq> v" "find_membership (tables s) i (fst x) = None" using Cons.prems(2,3) d by (auto simp: image_iff)
    then show "find_membership (tables ?s1) i (fst x) = None"
      using insert_membership_Inr [OF ins, of i "fst x"] d by simp
  qed
  ultimately show ?case
    using Cons.IH [of ?s1] Cons.prems unfolding db_foreach.simps db_then_Inr by auto
qed simp

lemma collect_access_ok: "faults s = [] \<Longrightarrow> \<exists>d. collect_access as d0 s = (Inr d, s)"
  by (induction as arbitrary: d0) (simp_all add: GetUserGroupMembers_def db_bind_def)

lemma sync_ok:
  assumes free: "faults s = []" and ok: "members_ok (tables s)" and app: "application_of (tables s) i = Some app"
  shows "\<exists>s'. SyncApplicationGroupAssignments i s = (Inr (), s')"
proof -
  have id: "app_ID app = i" using app by (auto simp: application_of_def dest: find_SomeD)
  have g: "db_GetApplicationByID i s = (Inr (Some app), s)"
    using free app id by (simp add: db_GetApplicationByID_def db_bind_def application_of_def)
  obtain d where c: "collect_access (sort_key gra_GroupID (filter (\<lambda>g. gra_ApplicationID g = i) (tb_assignments (tables s)))) [] s =
      (Inr d, s)" using collect_access_ok [OF free] by blast
  let ?ms = "filter (\<lambda>m. mem_ApplicationID m = i) (tb_memberships (tables s))"
  obtain d' s1 where e: "sync_existing app ?ms d s = (Inr d', s1)" "faults s1 = []"
    using sync_existing_ok [OF free] by blast
  have users: "distinct (map usr_ID (tb_users (tables s)))" and keys: "distinct (map mem_key (tb_memberships (tables s)))"
    using ok by (simp_all add: members_ok_def)
  have dist: "distinct (map fst d)" using collect_access_Inr [OF c users] by simp
  note rows = channel_rows [OF keys, where i = i]
  have here: "\<forall>m\<in>set ?ms. mem_ApplicationID m = app_ID app \<and>
      find_membership (tables s) (app_ID app) (mem_UserID m) = Some m" using rows(1) id by simp
  note E = sync_existing_Inr [OF e(1) here rows(2) dist]
  have "find_membership (tables s1) i (fst x) = None" if "x \<in> set d'" for x
  proof -
    have "map_of d' (fst x) \<noteq> None" using that by (auto simp: map_of_eq_None_iff)
    then have new: "fst x \<notin> mem_UserID ` set ?ms" using E by metis
    then have "find_membership (tables s1) i (fst x) = find_membership (tables s) i (fst x)" using E by blast
    then show ?thesis using new unfolding rows(3) by simp
  qed
  then obtain s2 where "db_foreach (\<lambda>d. statement (insert_membership (group_membership i d))) d' s1 = (Inr (), s2)"
      "faults s2 = []"
    using insert_all_ok [OF e(2), of d' i] E by blast
  then have "db_bind (sync_existing app ?ms d) (db_foreach (\<lambda>d. statement (insert_membership (group_membership i d)))) s = (Inr (), s2)"
      "faults s2 = []" using e by (simp_all add: db_bind_def)
  note run = this
  have tx: "transaction (db_bind (sync_existing app ?ms d)
      (db_foreach (\<lambda>d. statement (insert_membership (group_membership i d))))) s = (Inr (), s2)"
    by (rule transaction_no_faults) (fact free, fact run, fact run)
  have a: "GetApplicationGroupAssignments i s =
      (Inr (sort_key gra_GroupID (filter (\<lambda>g. gra_ApplicationID g = i) (tb_assignments (tables s)))), s)"
    using free by (simp add: GetApplicationGroupAssignments_def)
  have q: "query (\<lambda>t. filter (\<lambda>m. mem_ApplicationID m = i) (tb_memberships t)) s = (Inr ?ms, s)"
    using free by simp
  have "SyncApplicationGroupAssignments i s = (Inr (), s2)"
    unfolding SyncApplicationGroupAssignments_def
    by (rule trans [OF db_bind_run], rule g, unfold option.case, rule trans [OF db_bind_run], rule a,
        rule trans [OF db_bind_run], rule c, rule trans [OF db_bind_run], rule q, rule tx)
  then show ?thesis ..
qed

text \<open>What a membership shows of the groups: their best role and the notifications of any, or nothing.\<close>

definition shows_groups :: "group_assignment list \<Rightarrow> application_membership option \<Rightarrow> bool" where
  "shows_groups gs row =
     (case row of None \<Rightarrow> gs = []
      | Some m \<Rightarrow> mem_GroupAssigned m = (gs \<noteq> []) \<and>
          (gs \<noteq> [] \<longrightarrow> ChannelRoleRank (mem_GroupRole m) = Max (ChannelRoleRank ` gra_Role ` set gs) \<and>
             mem_GroupReceiveNotifications m = (\<exists>g\<in>set gs. gra_ReceiveNotifications g)))"

text \<open>What a member holds himself: a role given by hand, the automatic assignment, his own choice.\<close>

definition own_rights :: "application_membership \<Rightarrow> string \<times> bool \<times> bool option" where
  "own_rights m = (mem_Role m, mem_AutoAssigned m, mem_NotificationOverride m)"

text \<open>
  The membership of a user before and after: it shows the groups, it ends only when nothing but groups held
  it, and the rights of the member himself stay.
\<close>

definition regranted :: "application \<Rightarrow> group_assignment list \<Rightarrow> application_membership option \<Rightarrow>
    application_membership option \<Rightarrow> bool" where
  "regranted app gs old new \<longleftrightarrow> shows_groups gs new \<and>
     (case old of
        None \<Rightarrow> (new = None \<longleftrightarrow> gs = []) \<and> (\<forall>m'. new = Some m' \<longrightarrow> own_rights m' = ('''', False, None))
      | Some m \<Rightarrow> (new = None \<longleftrightarrow> gs = [] \<and> mem_GroupAssigned m \<and> only_groups app m) \<and>
          (\<forall>m'. new = Some m' \<longrightarrow> own_rights m' = own_rights m))"

lemma regranted_synced:
  assumes "\<forall>a\<in>set gs. NormalizeChannelRole (gra_Role a) = gra_Role a"
  shows "regranted app gs old (case old of
      Some m \<Rightarrow> synced app now m (fold grant gs None)
    | None \<Rightarrow> map_option (\<lambda>access. membership_row t (group_membership i (u, access))) (fold grant gs None))"
proof (cases old)
  case None
  then show ?thesis
    using fold_grant [OF assms]
    by (cases "gs = []") (auto simp: regranted_def shows_groups_def own_rights_def group_membership_def
        new_membership_def membership_row_def)
next
  case (Some m)
  then show ?thesis
    using fold_grant [OF assms]
    by (cases "gs = []") (auto simp: regranted_def shows_groups_def own_rights_def synced_def)
qed

text \<open>
  Property C8. Synchronising a channel with its groups gives every user exactly what the assigned groups grant:
  a member shows the best role and the notifications of the groups that reach him, or nothing of groups; a new
  member has no other rights; a membership ends only when no group reaches the user any more and nothing else
  held it; a role given by hand, the automatic assignment and the choice of notifications stay. Other
  channels and all other tables stay the same. A failed synchronisation changes nothing, and without a
  failure of the server there is none.
\<close>

theorem group_sync_exact:
  assumes "SyncApplicationGroupAssignments i s = (r, s')" and "members_ok (tables s)"
    and "application_of (tables s) i = Some app"
  shows "(faults s = [] \<longrightarrow> r = Inr ()) \<and> (case r of
      Inl e \<Rightarrow> tables s' = tables s
    | Inr _ \<Rightarrow> tables s' = (tables s)\<lparr>tb_memberships := tb_memberships (tables s')\<rparr> \<and>
        (\<forall>a u. find_membership (tables s') a u =
           (if a = i then find_membership (tables s') i u else find_membership (tables s) a u)) \<and>
        (\<forall>u. regranted app (grants (tables s) i u) (find_membership (tables s) i u) (find_membership (tables s') i u)))"
proof (cases r)
  case (Inl e)
  then have "faults s \<noteq> []" using sync_ok [OF _ assms(2,3)] assms(1) by auto
  then show ?thesis using Inl all_or_nothingD [OF atomic_sync] assms(1) by auto
next
  case (Inr x)
  then have run: "SyncApplicationGroupAssignments i s = (Inr (), s')" using assms(1) by simp
  note S = sync_memberships [OF run assms(2) loaded_simps(1) [OF assms(3)]]
  have "regranted app (grants (tables s) i u) (find_membership (tables s) i u) (find_membership (tables s') i u)" for u
  proof -
    have "\<forall>a\<in>set (grants (tables s) i u). NormalizeChannelRole (gra_Role a) = gra_Role a"
      using assms(2) by (auto simp: grants_def members_ok_def)
    from regranted_synced [OF this] show ?thesis
      using S [of i u] unfolding access_of_def by simp
  qed
  then show ?thesis using S Inr by auto
qed


text \<open>
  Channel 7 of user 1: group 3 grants user 2 the role of a publisher, group 4 notifications; user 5 left
  the groups.
\<close>

definition demo_groups :: session where
  "demo_groups = \<lparr>tables = demo_tables\<lparr>
     tb_users := map (\<lambda>i. \<lparr>usr_ID = i, usr_Name = '''', usr_DisplayName = '''', usr_Pass = [], usr_Admin = False,
       usr_CreatedAt = 0, usr_Applications = [], usr_Clients = [], usr_Plugins = [], usr_OIDCID = None, usr_LDAPID = None\<rparr>) [1, 2, 5],
     tb_applications := [no_application\<lparr>app_ID := 7, app_UserID := 1\<rparr>],
     tb_memberships := [new_membership 7 1, (new_membership 7 5)\<lparr>mem_GroupAssigned := True, mem_GroupRole := ChannelRoleMember\<rparr>],
     tb_groups := [], tb_group_members := [\<lparr>grm_GroupID = 3, grm_UserID = 2, grm_CreatedAt = 0\<rparr>, \<lparr>grm_GroupID = 4, grm_UserID = 2, grm_CreatedAt = 0\<rparr>],
     tb_assignments := [
       \<lparr>gra_ApplicationID = 7, gra_GroupID = 4, gra_Role = ChannelRoleReadOnly, gra_ReceiveNotifications = True, gra_CreatedAt = 0, gra_UpdatedAt = 0\<rparr>,
       \<lparr>gra_ApplicationID = 7, gra_GroupID = 3, gra_Role = ChannelRolePublisher, gra_ReceiveNotifications = False, gra_CreatedAt = 0, gra_UpdatedAt = 0\<rparr>]\<rparr>,
     faults = []\<rparr>"

theorem group_sync_exact_witness:
  "let t = tables (snd (SyncApplicationGroupAssignments 7 demo_groups)) in
   find_membership t 7 5 = None \<and>
   map_option (\<lambda>m. (ChannelRoleRank (mem_GroupRole m), mem_GroupReceiveNotifications m)) (find_membership t 7 2) = Some (3, True)"
  unfolding Let_def
proof -
  let ?r = "SyncApplicationGroupAssignments 7 demo_groups"
  let ?t = "tables demo_groups"
  note unf = demo_groups_def demo_tables_def new_membership_def no_application_def mem_key_def
  have ok: "members_ok ?t"
    by (simp add: members_ok_def unf) (simp add: NormalizeChannelRole_def role_defs)
  have app: "application_of ?t 7 = Some (no_application\<lparr>app_ID := 7, app_UserID := 1\<rparr>)"
    by (simp add: application_of_def unf)
  have fst: "fst ?r = Inr ()"
    using group_sync_exact [OF prod.collapse [symmetric] ok app] by (simp add: demo_groups_def)
  have all: "regranted (no_application\<lparr>app_ID := 7, app_UserID := 1\<rparr>) (grants ?t 7 u) (find_membership ?t 7 u)
      (find_membership (tables (snd ?r)) 7 u)" for u
    using group_sync_exact [OF prod.collapse [symmetric] ok app] unfolding fst sum.case by blast
  have g: "grants ?t 7 5 = []" "map gra_Role (grants ?t 7 2) = [ChannelRolePublisher, ChannelRoleReadOnly]"
      "map gra_ReceiveNotifications (grants ?t 7 2) = [False, True]"
    by (simp_all add: grants_def in_group_def unf)
  have old: "find_membership ?t 7 2 = None" "find_membership ?t 7 5 =
      Some ((new_membership 7 5)\<lparr>mem_GroupAssigned := True, mem_GroupRole := ChannelRoleMember\<rparr>)"
    by (simp_all add: find_membership_def unf)
  have "find_membership (tables (snd ?r)) 7 5 = None"
    using all [of 5] g(1) unfolding old by (simp add: regranted_def only_groups_def new_membership_def no_application_def)
  moreover obtain m where m: "find_membership (tables (snd ?r)) 7 2 = Some m" "shows_groups (grants ?t 7 2) (Some m)"
    using all [of 2] g(2) unfolding old by (auto simp: regranted_def)
  have "gra_Role ` set (grants ?t 7 2) = set (map gra_Role (grants ?t 7 2))"
      "(\<exists>x\<in>set (grants ?t 7 2). gra_ReceiveNotifications x) = (True \<in> set (map gra_ReceiveNotifications (grants ?t 7 2)))"
    by auto
  then have "ChannelRoleRank (mem_GroupRole m) = 3 \<and> mem_GroupReceiveNotifications m"
    using m(2) g(2,3) unfolding shows_groups_def option.case
    by (cases "grants ?t 7 2 = []") (simp_all add: ChannelRoleRank_def role_defs)
  then have "map_option (\<lambda>m. (ChannelRoleRank (mem_GroupRole m), mem_GroupReceiveNotifications m))
      (find_membership (tables (snd ?r)) 7 2) = Some (3, True)" unfolding m(1) by simp
  ultimately show "find_membership (tables (snd ?r)) 7 5 = None \<and> map_option (\<lambda>m. (ChannelRoleRank (mem_GroupRole m),
      mem_GroupReceiveNotifications m)) (find_membership (tables (snd ?r)) 7 2) = Some (3, True)" by blast
qed

end
