(* ===== verification/Accounts.thy ===== *)
theory Accounts
  imports Membership
begin

text \<open>
  Users, channels, clients and groups as a whole: \<open>src/database/user.go\<close>, the rest of
  \<open>src/database/application.go\<close>, \<open>src/database/group.go\<close> and \<open>src/database/automation.go\<close> (the internal
  channels), \<open>src/database/client.go\<close> and \<open>src/database/plugin.go\<close>.
\<close>

section \<open>Statements on the other tables\<close>

definition on_automation :: "(automation_tables \<Rightarrow> automation_tables) \<Rightarrow> gorm_db \<Rightarrow> gorm_db" where
  "on_automation f t = t\<lparr>tb_automation := f (tb_automation t)\<rparr>"

definition on_accounts :: "(account_tables \<Rightarrow> account_tables) \<Rightarrow> gorm_db \<Rightarrow> gorm_db" where
  "on_accounts f t = t\<lparr>tb_accounts := f (tb_accounts t)\<rparr>"

text \<open>A call whose error is ignored.\<close>

definition db_try :: "'a \<Rightarrow> 'a db \<Rightarrow> 'a db" where
  "db_try x m s = (case m s of (Inl _, s) \<Rightarrow> (Inr x, s) | (Inr y, s) \<Rightarrow> (Inr y, s))"

section \<open>Users\<close>

definition no_user :: user where
  "no_user = \<lparr>usr_ID = 0, usr_Name = '''', usr_DisplayName = '''', usr_Pass = [], usr_Admin = False,
     usr_CreatedAt = zero_time, usr_Applications = [], usr_Clients = [], usr_Plugins = [], usr_OIDCID = None,
     usr_LDAPID = None\<rparr>"

definition user_by :: "(user \<Rightarrow> bool) \<Rightarrow> user option db" where
  "user_by P =
     db_bind (query (\<lambda>t. find P (tb_users t))) (\<lambda>row.
       let user = (case row of Some u \<Rightarrow> u | None \<Rightarrow> no_user) in
       db_return (if P user then Some user else None))"

definition db_GetUserByName :: "string \<Rightarrow> user option db" where
  "db_GetUserByName name = user_by (\<lambda>u. usr_Name u = name)"

definition GetUserByOIDC :: "string \<Rightarrow> user option db" where
  "GetUserByOIDC i = user_by (\<lambda>u. usr_OIDCID u = Some i)"

definition GetUserByLDAP :: "string \<Rightarrow> user option db" where
  "GetUserByLDAP i = user_by (\<lambda>u. usr_LDAPID u = Some i)"

definition db_GetUserByID :: "nat \<Rightarrow> user option db" where
  "db_GetUserByID i = user_by (\<lambda>u. usr_ID u = i)"

definition CountUser :: "(user \<Rightarrow> bool) \<Rightarrow> int db" where
  "CountUser P = query (\<lambda>t. int (length (filter P (tb_users t))))"

definition GetUsers :: "user list db" where
  "GetUsers = query tb_users"

definition users_clash :: "user \<Rightarrow> user \<Rightarrow> bool" where
  "users_clash u r \<longleftrightarrow> usr_Name r = usr_Name u \<or> usr_OIDCID u \<noteq> None \<and> usr_OIDCID r = usr_OIDCID u \<or>
     usr_LDAPID u \<noteq> None \<and> usr_LDAPID r = usr_LDAPID u"

text \<open>
  \<open>Save\<close> of a user that was read: the row with his identifier is replaced, or written again when it is gone.
  A user without an identifier, which \<open>GetUserByID(0)\<close> returns, is created with a new one.
\<close>

definition update_user_row :: "user \<Rightarrow> gorm_db \<Rightarrow> unit res \<times> gorm_db" where
  "update_user_row u t =
     (if usr_ID u = 0 \<or> usr_ID u \<notin> usr_ID ` set (tb_users t)
      then (case insert_user u t of (Inl e, t) \<Rightarrow> (Inl e, t) | (Inr _, t) \<Rightarrow> (Inr (), t))
      else if \<exists>r\<in>set (tb_users t). usr_ID r \<noteq> usr_ID u \<and> users_clash u r then (Inl duplicated_key, t)
      else (Inr (), t\<lparr>tb_users := map (\<lambda>r. if usr_ID r = usr_ID u then u else r) (tb_users t)\<rparr>))"

definition db_UpdateUser :: "user \<Rightarrow> unit db" where
  "db_UpdateUser u = statement (update_user_row u)"

section \<open>Channels\<close>

definition application_by_token :: "string \<Rightarrow> application option db" where
  "application_by_token token =
     db_bind (query (\<lambda>t. find (\<lambda>a. app_Token a = token) (tb_applications t))) (\<lambda>row.
       let app = (case row of Some a \<Rightarrow> a | None \<Rightarrow> no_application) in
       db_return (if app_Token app = token then Some app else None))"

definition GetApplications :: "application list db" where
  "GetApplications = query (\<lambda>t. sort_key app_Name (sort_key app_ID (filter (\<lambda>a. \<not> app_Internal a) (tb_applications t))))"

text \<open>\<open>Save\<close> of a channel; one without an identifier is created.\<close>

definition update_application_row :: "application \<Rightarrow> gorm_db \<Rightarrow> unit res \<times> gorm_db" where
  "update_application_row a t =
     (if app_ID a = 0 then (case insert_application a t of (Inl e, t) \<Rightarrow> (Inl e, t) | (Inr _, t) \<Rightarrow> (Inr (), t))
      else if \<exists>r\<in>set (tb_applications t). app_ID r \<noteq> app_ID a \<and>
           (app_Token r = app_Token a \<or> app_UserID r = app_UserID a \<and> app_SortKey r = app_SortKey a)
      then (Inl duplicated_key, t)
      else (Inr (), t\<lparr>tb_applications := (if app_ID a \<in> app_ID ` set (tb_applications t)
        then map (\<lambda>r. if app_ID r = app_ID a then application_row a else r) (tb_applications t)
        else tb_applications t @ [application_row a])\<rparr>))"

definition db_UpdateApplication :: "application \<Rightarrow> unit db" where
  "db_UpdateApplication a = statement (update_application_row a)"

definition application_last_used :: "string \<Rightarrow> time option \<Rightarrow> unit db" where
  "application_last_used token now = exec (\<lambda>t. t\<lparr>tb_applications :=
     map (\<lambda>a. if app_Token a = token then a\<lparr>app_LastUsed := now\<rparr> else a) (tb_applications t)\<rparr>)"

text \<open>Deleting a channel: the escalation rules with their states, the schedules with their runs, and all else.\<close>

definition delete_rules :: "nat list \<Rightarrow> unit db" where
  "delete_rules ruleIDs = (if ruleIDs = [] then db_return () else exec_all [
     \<lambda>t. t\<lparr>tb_states := filter (\<lambda>e. es_RuleID e \<notin> set ruleIDs) (tb_states t)\<rparr>,
     on_automation (\<lambda>a. a\<lparr>at_rules := delete_rows (\<lambda>r. er_ID r \<in> set ruleIDs) (at_rules a)\<rparr>)])"

definition delete_runs :: "nat list \<Rightarrow> unit db" where
  "delete_runs scheduleIDs = (if scheduleIDs = [] then db_return () else
     exec (on_automation (\<lambda>a. a\<lparr>at_runs := delete_rows (\<lambda>r. run_ScheduleID r \<in> set scheduleIDs) (at_runs a)\<rparr>)))"

definition delete_sources :: "nat \<Rightarrow> (gorm_db \<Rightarrow> gorm_db) list" where
  "delete_sources i = [
     on_automation (\<lambda>a. a\<lparr>at_webhooks := delete_rows (\<lambda>r. wr_ApplicationID r = i) (at_webhooks a)\<rparr>),
     on_automation (\<lambda>a. a\<lparr>at_mqtt := delete_rows (\<lambda>r. mqi_ApplicationID r = i) (at_mqtt a)\<rparr>),
     on_automation (\<lambda>a. a\<lparr>at_hass := delete_rows (\<lambda>r. ha_ApplicationID r = i) (at_hass a)\<rparr>)]"

definition delete_links :: "nat \<Rightarrow> (gorm_db \<Rightarrow> gorm_db) list" where
  "delete_links i = [
     on_automation (\<lambda>a. a\<lparr>at_schedules := delete_rows (\<lambda>r. sch_ApplicationID r = i) (at_schedules a)\<rparr>),
     on_automation (\<lambda>a. a\<lparr>at_gateways := delete_rows (\<lambda>r. eg_SourceApplicationID r = i) (at_gateways a)\<rparr>),
     on_automation (\<lambda>a. a\<lparr>at_smtp := delete_rows (\<lambda>r. sr_ApplicationID r = i) (at_smtp a)\<rparr>),
     on_automation (\<lambda>a. a\<lparr>at_rss := delete_rows (\<lambda>r. rss_ApplicationID r = i) (at_rss a)\<rparr>),
     on_automation (\<lambda>a. a\<lparr>at_syslog := delete_rows (\<lambda>r. slr_ApplicationID r = i) (at_syslog a)\<rparr>),
     on_automation (\<lambda>a. a\<lparr>at_calendars := delete_rows (\<lambda>r. cal_ApplicationID r = i) (at_calendars a)\<rparr>),
     \<lambda>t. t\<lparr>tb_assignments := filter (\<lambda>r. gra_ApplicationID r \<noteq> i) (tb_assignments t)\<rparr>,
     \<lambda>t. t\<lparr>tb_digest_items := filter (\<lambda>r. di_ApplicationID r \<noteq> i) (tb_digest_items t)\<rparr>,
     \<lambda>t. t\<lparr>tb_memberships := filter (\<lambda>r. mem_ApplicationID r \<noteq> i) (tb_memberships t)\<rparr>,
     \<lambda>t. t\<lparr>tb_applications := filter (\<lambda>r. app_ID r \<noteq> i) (tb_applications t)\<rparr>]"

definition rules_of :: "nat \<Rightarrow> gorm_db \<Rightarrow> nat list" where
  "rules_of i t = map er_ID (filter (\<lambda>r. er_SourceApplicationID r = i \<or> er_TargetApplicationID r = i)
     (tb_rows (at_rules (tb_automation t))))"

definition schedules_of :: "nat \<Rightarrow> gorm_db \<Rightarrow> nat list" where
  "schedules_of i t = map sch_ID (filter (\<lambda>r. sch_ApplicationID r = i) (tb_rows (at_schedules (tb_automation t))))"

definition delete_channel :: "nat \<Rightarrow> unit db" where
  "delete_channel i =
     db_bind (query (rules_of i)) (\<lambda>ruleIDs.
     db_then (delete_rules ruleIDs)
     (db_then (exec_all (delete_sources i))
     (db_bind (query (schedules_of i)) (\<lambda>scheduleIDs.
     db_then (delete_runs scheduleIDs) (exec_all (delete_links i))))))"

definition db_DeleteApplicationByID :: "nat \<Rightarrow> unit db" where
  "db_DeleteApplicationByID i = db_then (DeleteMessagesByApplication i) (transaction (delete_channel i))"

section \<open>Groups\<close>

definition GetUserGroups :: "user_group list db" where
  "GetUserGroups = query (\<lambda>t. sort_key grp_Name (tb_groups t))"

definition GetUserGroupByID :: "nat \<Rightarrow> user_group option db" where
  "GetUserGroupByID i = query (\<lambda>t. find (\<lambda>g. grp_ID g = i) (tb_groups t))"

definition insert_group :: "user_group \<Rightarrow> gorm_db \<Rightarrow> user_group res \<times> gorm_db" where
  "insert_group g t =
     (let i = (if grp_ID g = 0 then sq_groups t else grp_ID g);
          g = g\<lparr>grp_ID := i, grp_CreatedAt := db_now t, grp_UpdatedAt := db_now t\<rparr> in
      if \<exists>r\<in>set (tb_groups t). grp_ID r = i \<or> grp_Name r = grp_Name g then (Inl duplicated_key, t)
      else (Inr g, t\<lparr>tb_groups := tb_groups t @ [g], sq_groups := max (sq_groups t) (i + 1)\<rparr>))"

definition CreateUserGroup :: "user_group \<Rightarrow> user_group db" where
  "CreateUserGroup g = statement (insert_group g)"

definition UpdateUserGroup :: "user_group \<Rightarrow> user_group db" where
  "UpdateUserGroup g = statement (\<lambda>t.
     let g = g\<lparr>grp_UpdatedAt := db_now t\<rparr> in
     if \<exists>r\<in>set (tb_groups t). grp_ID r \<noteq> grp_ID g \<and> grp_Name r = grp_Name g then (Inl duplicated_key, t)
     else (Inr g, t\<lparr>tb_groups := (if grp_ID g \<in> grp_ID ` set (tb_groups t)
       then map (\<lambda>r. if grp_ID r = grp_ID g then g else r) (tb_groups t) else tb_groups t @ [g])\<rparr>))"

definition CountUserGroupMembers :: "nat \<Rightarrow> int db" where
  "CountUserGroupMembers g = query (\<lambda>t. int (length (filter (\<lambda>m. grm_GroupID m = g) (tb_group_members t))))"

section \<open>Clients\<close>

definition no_client :: client where
  "no_client = \<lparr>cl_ID = 0, cl_Token = '''', cl_UserID = 0, cl_Name = '''', cl_CreatedAt = zero_time, cl_LastUsed = None,
     cl_ElevatedUntil = None, cl_MFAAuthenticated = False, cl_ExpiresAfterInactivitySeconds = 0, cl_ExpiresAt = None\<rparr>"

abbreviation clients :: "gorm_db \<Rightarrow> client list" where
  "clients t \<equiv> tb_rows (ac_clients (tb_accounts t))"

definition notExpired :: "gorm_db \<Rightarrow> client \<Rightarrow> bool" where
  "notExpired t c \<longleftrightarrow> (case cl_ExpiresAt c of None \<Rightarrow> True | Some e \<Rightarrow> e > db_now t)"

definition client_by :: "(client \<Rightarrow> bool) \<Rightarrow> client option db" where
  "client_by P =
     db_bind (query (\<lambda>t. find (\<lambda>c. P c \<and> notExpired t c) (clients t))) (\<lambda>row.
       let client = (case row of Some c \<Rightarrow> c | None \<Rightarrow> no_client) in
       db_return (if P client then Some client else None))"

definition GetClientByID :: "nat \<Rightarrow> client option db" where
  "GetClientByID i = client_by (\<lambda>c. cl_ID c = i)"

definition db_GetClientByToken :: "string \<Rightarrow> client option db" where
  "db_GetClientByToken token = client_by (\<lambda>c. cl_Token c = token)"

definition CreateClient :: "client \<Rightarrow> client db" where
  "CreateClient c = statement (\<lambda>t.
     let c = (if cl_CreatedAt c = zero_time then c\<lparr>cl_CreatedAt := db_now t\<rparr> else c);
         c = PopulateExpiresAt c;
         cs = ac_clients (tb_accounts t) in
     if \<exists>r\<in>set (tb_rows cs). cl_Token r = cl_Token c \<or> cl_ID c \<noteq> 0 \<and> cl_ID r = cl_ID c then (Inl duplicated_key, t)
     else (case save_row cl_ID (\<lambda>i. c\<lparr>cl_ID := i\<rparr>) (cl_ID c) cs of
       (i, cs) \<Rightarrow> (Inr (c\<lparr>cl_ID := i\<rparr>), on_accounts (\<lambda>a. a\<lparr>ac_clients := cs\<rparr>) t)))"

text \<open>Descending in the time of the last use, the never used ones last, then in the identifier.\<close>

definition GetAllClients :: "client list db" where
  "GetAllClients = db_bind (query (\<lambda>t. filter (notExpired t) (clients t))) (\<lambda>cs.
     db_return (map PopulateExpiresAt (sort_key (\<lambda>c. if cl_LastUsed c = None then 1 else 0 :: nat)
       (sort_key (\<lambda>c. case cl_LastUsed c of None \<Rightarrow> 0 | Some u \<Rightarrow> - u) (rev (sort_key cl_ID cs))))))"

definition GetClientsByUser :: "nat \<Rightarrow> client list db" where
  "GetClientsByUser u = query (\<lambda>t. filter (\<lambda>c. cl_UserID c = u \<and> notExpired t c) (clients t))"

definition DeleteClientByID :: "nat \<Rightarrow> unit db" where
  "DeleteClientByID i = exec (on_accounts (\<lambda>a. a\<lparr>ac_clients := delete_rows (\<lambda>c. cl_ID c = i) (ac_clients a)\<rparr>))"

definition save_client :: "client \<Rightarrow> unit db" where
  "save_client c = statement (\<lambda>t.
     if \<exists>r\<in>set (clients t). cl_ID r \<noteq> cl_ID c \<and> cl_Token r = cl_Token c then (Inl duplicated_key, t)
     else (Inr (), on_accounts (\<lambda>a. a\<lparr>ac_clients :=
       snd (save_row cl_ID (\<lambda>i. c\<lparr>cl_ID := i\<rparr>) (cl_ID c) (ac_clients a))\<rparr>) t))"

definition UpdateClient :: "client \<Rightarrow> unit db" where
  "UpdateClient c = save_client (PopulateExpiresAt c)"

definition db_touch_clients :: "string list \<Rightarrow> time option \<Rightarrow> unit db" where
  "db_touch_clients tokens now = transaction (
     db_bind (query (\<lambda>t. filter (\<lambda>c. cl_Token c \<in> set tokens) (clients t))) (db_foreach (\<lambda>c.
       save_client (PopulateExpiresAt (c\<lparr>cl_LastUsed := now\<rparr>)))))"

definition UpdateClientElevatedUntil :: "nat \<Rightarrow> time option \<Rightarrow> unit db" where
  "UpdateClientElevatedUntil i until = exec (on_accounts (\<lambda>a. a\<lparr>ac_clients :=
     update_rows (\<lambda>c. cl_ID c = i) (\<lambda>c. c\<lparr>cl_ElevatedUntil := until\<rparr>) (ac_clients a)\<rparr>))"

definition CleanupExpiredClients :: "time \<Rightarrow> client list db" where
  "CleanupExpiredClients now =
     db_bind (query (\<lambda>t. filter (\<lambda>c. case cl_ExpiresAt c of None \<Rightarrow> False | Some e \<Rightarrow> e \<le> now) (clients t))) (\<lambda>expired.
     if expired = [] then db_return []
     else db_then (exec (on_accounts (\<lambda>a. a\<lparr>ac_clients := delete_rows (\<lambda>c. cl_ID c \<in> cl_ID ` set expired) (ac_clients a)\<rparr>)))
       (db_return expired))"

section \<open>Plugin settings\<close>

definition no_plugin :: plugin_conf where
  "no_plugin = \<lparr>plg_ID = 0, plg_UserID = 0, plg_ModulePath = '''', plg_Token = '''', plg_ApplicationID = 0,
     plg_Enabled = False, plg_CreatedAt = zero_time, plg_Config = [], plg_Storage = []\<rparr>"

abbreviation plugins :: "gorm_db \<Rightarrow> plugin_conf list" where
  "plugins t \<equiv> tb_rows (ac_plugins (tb_accounts t))"

text \<open>The row that \<open>P\<close> selects, if it, or the empty structure, passes the test \<open>Q\<close>.\<close>

definition plugin_by :: "(plugin_conf \<Rightarrow> bool) \<Rightarrow> (plugin_conf \<Rightarrow> bool) \<Rightarrow> plugin_conf option db" where
  "plugin_by P Q =
     db_bind (query (\<lambda>t. find P (sort_key plg_ID (plugins t)))) (\<lambda>row.
       let plugin = (case row of Some p \<Rightarrow> p | None \<Rightarrow> no_plugin) in
       db_return (if Q plugin then Some plugin else None))"

definition GetPluginConfByUser :: "nat \<Rightarrow> plugin_conf list db" where
  "GetPluginConfByUser u = query (\<lambda>t. filter (\<lambda>p. plg_UserID p = u) (plugins t))"

definition GetPluginConfByUserAndPath :: "nat \<Rightarrow> string \<Rightarrow> plugin_conf option db" where
  "GetPluginConfByUserAndPath u path =
     plugin_by (\<lambda>p. plg_UserID p = u \<and> plg_ModulePath p = path) (\<lambda>p. plg_ModulePath p = path)"

definition GetPluginConfByApplicationID :: "nat \<Rightarrow> plugin_conf option db" where
  "GetPluginConfByApplicationID i = plugin_by (\<lambda>p. plg_ApplicationID p = i) (\<lambda>p. plg_ApplicationID p = i)"

definition GetPluginConfByToken :: "string \<Rightarrow> plugin_conf option db" where
  "GetPluginConfByToken token = plugin_by (\<lambda>p. plg_Token p = token) (\<lambda>p. plg_Token p = token)"

definition GetPluginConfByID :: "nat \<Rightarrow> plugin_conf option db" where
  "GetPluginConfByID i = plugin_by (\<lambda>p. plg_ID p = i) (\<lambda>p. plg_ID p = i)"

definition DeletePluginConfByID :: "nat \<Rightarrow> unit db" where
  "DeletePluginConfByID i = exec (on_accounts (\<lambda>a. a\<lparr>ac_plugins := delete_rows (\<lambda>p. plg_ID p = i) (ac_plugins a)\<rparr>))"

section \<open>Deleting a user\<close>

text \<open>\<open>%q\<close> of a name of printable characters.\<close>

definition quoted :: "string \<Rightarrow> string" where
  "quoted s = ''\"'' @ s @ ''\"''"

definition check_unshared :: "nat \<Rightarrow> application \<Rightarrow> unit db" where
  "check_unshared i app = db_bind (CountApplicationMemberships (app_ID app)) (\<lambda>memberCount.
     if memberCount > 1 then db_fail (Err (''cannot delete user '' @ show_nat i @ '': shared channel '' @
       quoted (app_Name app) @ '' must be transferred first''))
     else db_return ())"

definition personal_rows :: "nat \<Rightarrow> (gorm_db \<Rightarrow> gorm_db) list" where
  "personal_rows i = [
     \<lambda>t. t\<lparr>tb_memberships := filter (\<lambda>r. mem_UserID r \<noteq> i) (tb_memberships t)\<rparr>,
     \<lambda>t. t\<lparr>tb_dismissals := filter (\<lambda>r. dis_UserID r \<noteq> i) (tb_dismissals t)\<rparr>,
     \<lambda>t. t\<lparr>tb_acks := filter (\<lambda>r. ack_UserID r \<noteq> i) (tb_acks t)\<rparr>,
     \<lambda>t. t\<lparr>tb_digest_items := filter (\<lambda>r. di_UserID r \<noteq> i) (tb_digest_items t)\<rparr>,
     on_accounts (\<lambda>a. a\<lparr>ac_digests := delete_rows (\<lambda>r. dp_UserID r = i) (ac_digests a)\<rparr>),
     on_accounts (\<lambda>a. a\<lparr>ac_quiet := delete_rows (\<lambda>r. qh_UserID r = i) (ac_quiet a)\<rparr>),
     on_accounts (\<lambda>a. a\<lparr>ac_mfa := filter (\<lambda>r. mfa_UserID r \<noteq> i) (ac_mfa a)\<rparr>),
     on_accounts (\<lambda>a. a\<lparr>ac_passkeys := delete_rows (\<lambda>r. pk_UserID r = i) (ac_passkeys a)\<rparr>),
     on_accounts (\<lambda>a. a\<lparr>ac_challenges := filter (\<lambda>r. wac_UserID r \<noteq> i) (ac_challenges a)\<rparr>),
     \<lambda>t. t\<lparr>tb_deferred := filter (\<lambda>r. dn_UserID r \<noteq> i) (tb_deferred t)\<rparr>]"

text \<open>What follows the channels: clients and plugins, whose errors are ignored, the rows of the user and the user.\<close>

definition delete_account :: "nat \<Rightarrow> unit db" where
  "delete_account i =
     db_bind (db_try [] (GetClientsByUser i)) (\<lambda>cs.
     db_then (db_foreach (\<lambda>c. db_try () (DeleteClientByID (cl_ID c))) cs)
     (db_bind (db_try [] (GetPluginConfByUser i)) (\<lambda>pluginConfs.
     db_then (db_foreach (\<lambda>p. db_try () (DeletePluginConfByID (plg_ID p))) pluginConfs)
     (db_then (exec_all (personal_rows i))
     (db_then (DeleteUserGroupMembershipsForUser i)
       (exec (\<lambda>t. t\<lparr>tb_users := filter (\<lambda>u. usr_ID u \<noteq> i) (tb_users t)\<rparr>)))))))"

definition db_DeleteUserByID :: "nat \<Rightarrow> unit db" where
  "db_DeleteUserByID i =
     db_bind (GetApplicationsByUser i) (\<lambda>apps.
     db_then (db_foreach (check_unshared i) apps)
     (db_then (db_foreach (\<lambda>app. db_DeleteApplicationByID (app_ID app)) apps) (delete_account i)))"

section \<open>Internal channels\<close>

text \<open>
  The channel of a user's digests and the channels that escalations to users and groups use. The token of a
  new channel comes from a random key.
\<close>

definition internal_application :: "nat \<Rightarrow> string \<Rightarrow> string \<Rightarrow> string \<Rightarrow> application" where
  "internal_application owner name description token = no_application\<lparr>app_UserID := owner, app_Name := name,
     app_Description := description, app_Token := token, app_Internal := True\<rparr>"

definition digest_row :: "nat \<Rightarrow> application \<Rightarrow> bool" where
  "digest_row u a \<longleftrightarrow> app_UserID a = u \<and> app_Internal a \<and> app_Name a = ''Notification Digest''"

definition db_GetOrCreateDigestApplication :: "string res \<Rightarrow> nat \<Rightarrow> application db" where
  "db_GetOrCreateDigestApplication token u s =
     (case first_row (\<lambda>t. find (digest_row u) (sort_key app_ID (tb_applications t))) s of
        (Inr app, s) \<Rightarrow> (Inr app, s)
      | (Inl e, s) \<Rightarrow>
          if e \<noteq> record_not_found then (Inl e, s)
          else case token of
            Inl e \<Rightarrow> (Inl e, s)
          | Inr publicToken \<Rightarrow>
              case CreateApplication (internal_application u ''Notification Digest''
                     ''Periodic notification summaries'' publicToken) s of
                (Inr app, s) \<Rightarrow> (Inr app, s)
              | (Inl e, s) \<Rightarrow>
                  case first_row (\<lambda>t. find (digest_row u) (sort_key app_ID (tb_applications t))) s of
                    (Inr existing, s) \<Rightarrow> (Inr existing, s)
                  | (Inl _, s) \<Rightarrow>
                      (Inl (case e of Err m \<Rightarrow> Err (''create digest application: '' @ m) | Panic \<Rightarrow> Panic), s))"

definition escalations_prefix :: string where
  "escalations_prefix = ''Escalations '' @ [CHR 0xC2, CHR 0xB7] @ '' ''"

definition target_name :: "string \<Rightarrow> nat \<Rightarrow> (nat \<times> string \<times> string) db" where
  "target_name targetType targetID =
     (if targetType = ''user''
      then db_bind (db_GetUserByID targetID) (\<lambda>user. case user of
          None \<Rightarrow> db_fail (Err ''escalation user not found'')
        | Some u \<Rightarrow> db_return (usr_ID u, escalations_prefix @ usr_Name u, ''Escalated notifications for '' @ usr_Name u))
      else db_bind (GetUserGroupByID targetID) (\<lambda>group. case group of
          None \<Rightarrow> db_fail (Err ''escalation group not found'')
        | Some g \<Rightarrow> db_return (0, escalations_prefix @ grp_Name g, ''Escalated notifications for Group '' @ grp_Name g)))"

text \<open>\<open>Save\<close> of the mapping; its key is the kind and the identifier of the target.\<close>

definition put_target :: "escalation_target \<Rightarrow> gorm_db \<Rightarrow> unit res \<times> gorm_db" where
  "put_target m t =
     (let ts = at_targets (tb_automation t); same = (\<lambda>r. eta_TargetType r = eta_TargetType m \<and> eta_TargetID r = eta_TargetID m);
          row = m\<lparr>eta_CreatedAt := db_now t, eta_UpdatedAt := db_now t\<rparr> in
      if \<exists>r\<in>set ts. \<not> same r \<and> eta_ApplicationID r = eta_ApplicationID m then (Inl duplicated_key, t)
      else (Inr (), on_automation (\<lambda>a. a\<lparr>at_targets :=
        (if \<exists>r\<in>set ts. same r then map (\<lambda>r. if same r then row else r) ts else ts @ [row])\<rparr>) t))"

definition create_target :: "string res \<Rightarrow> string \<Rightarrow> nat \<Rightarrow> application db" where
  "create_target token targetType targetID =
     db_bind (target_name targetType targetID) (\<lambda>(ownerID, name, description).
     db_bind (db_lift token) (\<lambda>publicToken.
     db_bind (CreateApplication (internal_application ownerID name description publicToken)) (\<lambda>app s.
       case statement (put_target \<lparr>eta_TargetType = targetType, eta_TargetID = targetID, eta_ApplicationID = app_ID app,
              eta_CreatedAt = zero_time, eta_UpdatedAt = zero_time\<rparr>) s of
         (Inr _, s) \<Rightarrow> (Inr app, s)
       | (Inl e, s) \<Rightarrow> (Inl e, snd (db_DeleteApplicationByID (app_ID app) s)))))"

definition db_ResolveEscalationTargetApplication :: "string res \<Rightarrow> escalation_rule \<Rightarrow> application option db" where
  "db_ResolveEscalationTargetApplication token rule =
     (let targetType = strings_ToLower (strings_TrimSpace (er_TargetType rule)); targetID = er_TargetID rule in
      if targetType = '''' \<or> targetType = ''channel''
      then db_GetApplicationByID (if er_TargetApplicationID rule = 0 then targetID else er_TargetApplicationID rule)
      else if targetType \<noteq> ''user'' \<and> targetType \<noteq> ''group''
      then db_fail (Err (''unsupported escalation target type '' @ quoted (er_TargetType rule)))
      else if targetID = 0 then db_fail (Err ''escalation target is required'')
      else
        db_bind (query (\<lambda>t. find (\<lambda>m. eta_TargetType m = targetType \<and> eta_TargetID m = targetID)
          (at_targets (tb_automation t)))) (\<lambda>mapping.
        db_bind (case mapping of None \<Rightarrow> db_return None | Some m \<Rightarrow> db_GetApplicationByID (eta_ApplicationID m)) (\<lambda>app.
        db_bind (case app of Some app \<Rightarrow> db_return app | None \<Rightarrow> create_target token targetType targetID) (\<lambda>app.
        if targetType = ''user''
        then db_then (UpsertApplicationMembership (new_membership (app_ID app) targetID)) (db_return (Some app))
        else
          db_bind (GetUserGroupMembers targetID) (\<lambda>members.
          db_then (db_foreach (\<lambda>u. UpsertApplicationMembership (new_membership (app_ID app) (usr_ID u))) members)
          (db_bind (GetApplicationMemberships (app_ID app)) (\<lambda>current.
          db_then (db_foreach (\<lambda>m. if mem_UserID m \<in> usr_ID ` set members then db_return ()
            else DeleteApplicationMembership (app_ID app) (mem_UserID m)) current)
          (db_return (Some app)))))))))"

definition DeleteEscalationTargetApplication :: "string \<Rightarrow> nat \<Rightarrow> unit db" where
  "DeleteEscalationTargetApplication targetType targetID =
     (let same = (\<lambda>m. eta_TargetType m = targetType \<and> eta_TargetID m = targetID) in
      db_bind (query (\<lambda>t. find same (at_targets (tb_automation t)))) (\<lambda>mapping.
      case mapping of
        None \<Rightarrow> db_return ()
      | Some m \<Rightarrow>
          db_then (exec (on_automation (\<lambda>a. a\<lparr>at_targets := filter (\<lambda>m. \<not> same m) (at_targets a)\<rparr>)))
            (if eta_ApplicationID m \<noteq> 0 then db_DeleteApplicationByID (eta_ApplicationID m) else db_return ())))"

end
