(* ===== verification/Base64.thy ===== *)
theory Base64
  imports Prelude
begin

text \<open>
  The package \<open>encoding/base64\<close> without padding, as the code uses it: the URL alphabet for
  tokens and the standard alphabet for stored secrets. As in Go, decoding ignores the line
  breaks \<open>\\r\<close> and \<open>\\n\<close> and the unused low bits of an incomplete last group, and
  \<open>DecodedLen\<close> is computed from the length of the text alone.
\<close>

definition url_alphabet :: string where
  "url_alphabet = ''ABCDEFGHIJKLMNOPQRSTUVWXYZabcdefghijklmnopqrstuvwxyz0123456789-_''"

definition std_alphabet :: string where
  "std_alphabet = ''ABCDEFGHIJKLMNOPQRSTUVWXYZabcdefghijklmnopqrstuvwxyz0123456789+/''"

fun b64_encode :: "string \<Rightarrow> bytes \<Rightarrow> string" where
  "b64_encode al [] = []"
| "b64_encode al [a] = (let n = unat a in [al ! (n div 4), al ! (n mod 4 * 16)])"
| "b64_encode al [a, b] =
     (let n = unat a * 256 + unat b
      in [al ! (n div 1024), al ! (n div 16 mod 64), al ! (n mod 16 * 4)])"
| "b64_encode al (a # b # c # r) =
     (let n = unat a * 65536 + unat b * 256 + unat c
      in [al ! (n div 262144), al ! (n div 4096 mod 64), al ! (n div 64 mod 64), al ! (n mod 64)]
         @ b64_encode al r)"

definition b64_index :: "string \<Rightarrow> char \<Rightarrow> nat option" where
  "b64_index al c = map_of (zip al [0 ..< 64]) c"

fun b64_bytes :: "nat list \<Rightarrow> bytes res" where
  "b64_bytes [] = Inr []"
| "b64_bytes [v] = Inl (Err ''illegal base64 data'')"
| "b64_bytes [v, w] = Inr [of_nat ((v * 64 + w) div 16)]"
| "b64_bytes [v, w, x] =
     (let n = v * 4096 + w * 64 + x in Inr [of_nat (n div 1024), of_nat (n div 4 mod 256)])"
| "b64_bytes (v # w # x # y # r) =
     (let n = v * 262144 + w * 4096 + x * 64 + y
      in res_bind (b64_bytes r) (\<lambda>bs.
           Inr ([of_nat (n div 65536), of_nat (n div 256 mod 256), of_nat (n mod 256)] @ bs)))"

definition b64_decode :: "string \<Rightarrow> string \<Rightarrow> bytes res" where
  "b64_decode al s =
     (let t = filter (\<lambda>c. c \<noteq> CHR 0x0D \<and> c \<noteq> CHR 0x0A) s in
      if list_all (\<lambda>c. b64_index al c \<noteq> None) t
      then b64_bytes (map (\<lambda>c. the (b64_index al c)) t)
      else Inl (Err ''illegal base64 data''))"

definition b64_DecodedLen :: "nat \<Rightarrow> nat" where
  "b64_DecodedLen n = n div 4 * 3 + n mod 4 * 6 div 8"

section \<open>Round trip\<close>

definition alphabet :: "string \<Rightarrow> bool" where
  "alphabet al \<longleftrightarrow> length al = 64 \<and> distinct al \<and> CHR 0x0D \<notin> set al \<and> CHR 0x0A \<notin> set al"

lemma alphabets: "alphabet url_alphabet" "alphabet std_alphabet"
  by (simp_all add: alphabet_def url_alphabet_def std_alphabet_def)

fun b64_values :: "bytes \<Rightarrow> nat list" where
  "b64_values [] = []"
| "b64_values [a] = (let n = unat a in [n div 4, n mod 4 * 16])"
| "b64_values [a, b] =
     (let n = unat a * 256 + unat b in [n div 1024, n div 16 mod 64, n mod 16 * 4])"
| "b64_values (a # b # c # r) =
     (let n = unat a * 65536 + unat b * 256 + unat c
      in [n div 262144, n div 4096 mod 64, n div 64 mod 64, n mod 64] @ b64_values r)"

lemma b64_encode_values: "b64_encode al bs = map ((!) al) (b64_values bs)"
  by (induction bs rule: b64_values.induct) (simp_all add: Let_def)

lemma byte_less: "unat (a :: 8 word) < 256"
  using unsigned_less [of a] by simp

lemma b64_values_bound: "v \<in> set (b64_values bs) \<Longrightarrow> v < 64"
proof (induction bs rule: b64_values.induct)
  case (2 a)
  then show ?case using byte_less [of a] by (auto simp: Let_def)
next
  case (3 a b)
  then show ?case using byte_less [of a] byte_less [of b] by (auto simp: Let_def)
next
  case (4 a b c r)
  then show ?case using byte_less [of a] byte_less [of b] byte_less [of c] by (auto simp: Let_def)
qed simp

lemma b64_group3:
  fixes a b c :: nat
  assumes "a < 256" "b < 256" "c < 256" "n = a * 65536 + b * 256 + c"
  shows "n div 262144 * 262144 + n div 4096 mod 64 * 4096 + n div 64 mod 64 * 64 + n mod 64 = n"
    and "n div 65536 = a" "n div 256 mod 256 = b" "n mod 256 = c"
proof -
  have "n div 262144 = n div 4096 div 64" "n div 4096 = n div 64 div 64"
    by (simp_all add: div_mult2_eq [symmetric])
  then show "n div 262144 * 262144 + n div 4096 mod 64 * 4096 + n div 64 mod 64 * 64 + n mod 64 = n"
    using div_mult_mod_eq [of "n div 4096" 64] div_mult_mod_eq [of "n div 64" 64]
      div_mult_mod_eq [of n 64] by linarith
  show "n div 65536 = a" using assms by simp
  have "n = c + 256 * (a * 256 + b)" using assms by simp
  then have "n mod 256 = c mod 256" by (simp only: mod_mult_self2)
  then show "n mod 256 = c" using assms(3) by simp
  have "n div 256 = a * 256 + b" using assms by simp
  then show "n div 256 mod 256 = b" using assms(2) by simp
qed

lemma b64_group2:
  fixes a b :: nat
  assumes "a < 256" "b < 256" "n = a * 256 + b"
  defines "m \<equiv> n div 1024 * 4096 + n div 16 mod 64 * 64 + n mod 16 * 4"
  shows "m div 1024 = a" "m div 4 mod 256 = b"
proof -
  have "n div 1024 = n div 16 div 64" by (simp add: div_mult2_eq [symmetric])
  then have "m = n * 4"
    using div_mult_mod_eq [of "n div 16" 64] div_mult_mod_eq [of n 16] unfolding m_def by linarith
  then show "m div 1024 = a" "m div 4 mod 256 = b" using assms by simp_all
qed

lemma b64_bytes_values: "b64_bytes (b64_values bs) = Inr bs"
proof (induction bs rule: b64_values.induct)
  case (2 a)
  have "(unat a div 4 * 64 + unat a mod 4 * 16) div 16 = unat a" by simp
  then show ?case by (simp add: Let_def)
next
  case (3 a b)
  note g = b64_group2 [OF byte_less [of a] byte_less [of b] refl]
  show ?case by (simp only: b64_values.simps Let_def b64_bytes.simps g) simp
next
  case (4 a b c r)
  note g = b64_group3 [OF byte_less [of a] byte_less [of b] byte_less [of c] refl]
  show ?case using 4 by (simp only: b64_values.simps Let_def append.simps b64_bytes.simps g) simp
qed simp

lemma b64_index_nth:
  assumes "alphabet al" "v < 64"
  shows "b64_index al (al ! v) = Some v"
  using assms map_of_zip_nth [of al "[0 ..< 64]" v] by (simp add: b64_index_def alphabet_def)

lemma b64_roundtrip:
  assumes "alphabet al"
  shows "b64_decode al (b64_encode al bs) = Inr bs"
proof -
  let ?t = "map ((!) al) (b64_values bs)"
  have mem: "al ! v \<in> set al" if "v \<in> set (b64_values bs)" for v
    using b64_values_bound [OF that] assms by (auto simp: alphabet_def)
  then have f: "filter (\<lambda>c. c \<noteq> CHR 0x0D \<and> c \<noteq> CHR 0x0A) ?t = ?t"
    using assms by (intro filter_True) (force simp: alphabet_def)
  have i: "b64_index al (al ! v) = Some v" if "v \<in> set (b64_values bs)" for v
    using b64_index_nth [OF assms b64_values_bound [OF that]] .
  then have "map (\<lambda>c. the (b64_index al c)) ?t = b64_values bs" by (simp add: map_idI)
  moreover have "list_all (\<lambda>c. b64_index al c \<noteq> None) ?t" using i by (auto simp: list_all_iff)
  ultimately show ?thesis
    by (simp add: b64_decode_def b64_encode_values f b64_bytes_values)
qed

lemma b64_DecodedLen_encode: "b64_DecodedLen (length (b64_encode al bs)) = length bs"
proof (induction bs rule: b64_values.induct)
  case (4 a b c r)
  have "length (b64_encode al (a # b # c # r)) = 4 + length (b64_encode al r)" by (simp add: Let_def)
  moreover have "(4 + k) div 4 = Suc (k div 4)" "(4 + k) mod 4 = k mod 4" for k :: nat by simp_all
  ultimately show ?case using 4 by (simp only: b64_DecodedLen_def) simp
qed (simp_all add: b64_DecodedLen_def Let_def)

lemma b64_encode_alphabet:
  assumes "alphabet al" "c \<in> set (b64_encode al bs)"
  shows "c \<in> set al"
  using assms b64_values_bound by (fastforce simp: b64_encode_values alphabet_def)

end
