(* ===== verification/Token.thy ===== *)
theory Token
  imports Base64
begin

text \<open>
  Access tokens: \<open>src/auth/token.go\<close>. A private token carries an Ed25519 seed; the public
  form, which the database stores, carries the public key; a signed token proves knowledge of
  the seed at a time. Ed25519 and SHA-512 are parameters (record \<open>ed25519\<close>, laws \<open>ed25519_ok\<close>);
  base64, decimal numbers and string splitting are modelled. The two error values
  the callers tell apart are \<open>errCannotParseToken\<close>, whose details are dropped, and
  \<open>errInvalidToken\<close>.
\<close>

section \<open>Parameters and text helpers\<close>

record ed25519 =
  ed_public :: "bytes \<Rightarrow> bytes"
  ed_sign :: "bytes \<Rightarrow> bytes \<Rightarrow> bytes"
  ed_verify :: "bytes \<Rightarrow> bytes \<Rightarrow> bytes \<Rightarrow> bool"
  sha512 :: "string \<Rightarrow> bytes"

definition ed25519_ok :: "ed25519 \<Rightarrow> bool" where
  "ed25519_ok ed \<longleftrightarrow> (\<forall>seed. length (ed_public ed seed) = 32) \<and>
     (\<forall>seed d. length (ed_sign ed seed d) = 64 \<and> ed_verify ed (ed_public ed seed) d (ed_sign ed seed d))"

text \<open>\<open>NewKeyFromSeed\<close> and \<open>VerifyWithOptions\<close> panic on a key of the wrong length.\<close>

definition public_of_seed :: "ed25519 \<Rightarrow> bytes \<Rightarrow> bytes res" where
  "public_of_seed ed seed = (if length seed = 32 then Inr (ed_public ed seed) else Inl Panic)"

definition verify_signature :: "ed25519 \<Rightarrow> bytes \<Rightarrow> bytes \<Rightarrow> bytes \<Rightarrow> bool res" where
  "verify_signature ed pk d sig = (if length pk = 32 then Inr (ed_verify ed pk d sig) else Inl Panic)"

text \<open>\<open>strconv.ParseInt(s, 10, 64)\<close>\<close>

definition ParseInt64 :: "string \<Rightarrow> int res" where
  "ParseInt64 s =
     (let neg = (s \<noteq> [] \<and> hd s = CHR ''-'');
          ds = (if s \<noteq> [] \<and> (hd s = CHR ''-'' \<or> hd s = CHR ''+'') then tl s else s) in
      if ds = [] \<or> \<not> list_all decimal ds then Inl (Err ''invalid syntax'')
      else
        let v = (if neg then - int (read_nat ds) else int (read_nat ds)) in
        if min_int64 \<le> v \<and> v \<le> max_int64 then Inr v else Inl (Err ''value out of range''))"

section \<open>The code\<close>

definition maxTimestampDiffSeconds :: int where "maxTimestampDiffSeconds = 15 * 60"
definition errInvalidToken :: fail where "errInvalidToken = Err ''invalid token''"
definition errCannotParseToken :: fail where "errCannotParseToken = Err ''cannot parse token''"
definition errNoPrivateKey :: fail where "errNoPrivateKey = Err ''no private key''"
definition enhancedTokenPrefix :: string where "enhancedTokenPrefix = ''gtfy''"

record enhanced_token =
  et_ident :: string
  et_key :: bytes
  et_timestamp :: int
  et_signature :: bytes

definition b64url :: "bytes \<Rightarrow> string" where
  "b64url = b64_encode url_alphabet"

definition PublicForm :: "ed25519 \<Rightarrow> enhanced_token \<Rightarrow> string res" where
  "PublicForm ed c =
     (if et_timestamp c \<noteq> 0 \<or> length (et_signature c) \<noteq> 0
      then Inr (enhancedTokenPrefix @ et_ident c @ ''.'' @ b64url (et_key c))
      else res_bind (public_of_seed ed (et_key c)) (\<lambda>pk.
        Inr (enhancedTokenPrefix @ et_ident c @ ''.'' @ b64url pk)))"

definition Sign :: "ed25519 \<Rightarrow> enhanced_token \<Rightarrow> int \<Rightarrow> enhanced_token res" where
  "Sign ed c timestamp =
     (if et_timestamp c \<noteq> 0 \<or> length (et_signature c) \<noteq> 0 \<or> length (et_key c) \<noteq> 32
      then Inl errNoPrivateKey
      else
        let digest = sha512 ed (''iat='' @ show_int timestamp) in
        Inr \<lparr>et_ident = et_ident c, et_key = ed_public ed (et_key c), et_timestamp = timestamp,
             et_signature = ed_sign ed (et_key c) digest\<rparr>)"

definition ValidateTimestamp :: "enhanced_token \<Rightarrow> int \<Rightarrow> bool" where
  "ValidateTimestamp c now =
     (if et_timestamp c = 0 \<and> length (et_signature c) = 0 then True
      else if et_timestamp c < wrap64 (now - maxTimestampDiffSeconds) then False
      else if et_timestamp c > wrap64 (now + maxTimestampDiffSeconds) then False
      else True)"

definition token_String :: "enhanced_token \<Rightarrow> string" where
  "token_String c =
     enhancedTokenPrefix @ et_ident c @ ''.'' @ b64url (et_key c) @
     (if et_timestamp c \<noteq> 0 \<or> length (et_signature c) \<noteq> 0
      then ''.'' @ show_int (et_timestamp c) @ ''.'' @ b64url (et_signature c) else [])"

text \<open>\<open>seed\<close> is what \<open>rand.Read\<close> filled in.\<close>

definition NewEnhancedToken :: "bytes \<Rightarrow> string \<Rightarrow> enhanced_token" where
  "NewEnhancedToken seed ident =
     \<lparr>et_ident = map (\<lambda>c. if c = CHR ''.'' then CHR ''_'' else c) ident, et_key = seed,
      et_timestamp = 0, et_signature = []\<rparr>"

definition ParseEnhancedToken :: "ed25519 \<Rightarrow> string \<Rightarrow> enhanced_token res" where
  "ParseEnhancedToken ed token0 =
     (if \<not> prefix enhancedTokenPrefix token0 then Inl errCannotParseToken
      else
        let token = drop (length enhancedTokenPrefix) token0;
            fields = splitn_at (CHR ''.'') 4 token in
        if length fields \<noteq> 2 \<and> length fields \<noteq> 4 then Inl errCannotParseToken
        else
          let ident = fields ! 0; keyB64 = fields ! 1; keyLen = b64_DecodedLen (length keyB64) in
          case b64_decode url_alphabet keyB64 of
            Inl _ \<Rightarrow> Inl errCannotParseToken
          | Inr key \<Rightarrow>
              if length fields = 2 then
                if keyLen \<noteq> 32 then Inl errCannotParseToken
                else Inr \<lparr>et_ident = ident, et_key = key, et_timestamp = 0, et_signature = []\<rparr>
              else if keyLen \<noteq> 32 then Inl errCannotParseToken
              else case ParseInt64 (fields ! 2) of
                Inl _ \<Rightarrow> Inl errCannotParseToken
              | Inr timestamp \<Rightarrow>
                  let sigB64 = fields ! 3 in
                  if b64_DecodedLen (length sigB64) \<noteq> 64 then Inl errCannotParseToken
                  else case b64_decode url_alphabet sigB64 of
                    Inl _ \<Rightarrow> Inl errCannotParseToken
                  | Inr sig \<Rightarrow>
                      res_bind (verify_signature ed key (sha512 ed (''iat='' @ show_int timestamp)) sig)
                        (\<lambda>ok. if ok then Inr \<lparr>et_ident = ident, et_key = key,
                                               et_timestamp = timestamp, et_signature = sig\<rparr>
                              else Inl errInvalidToken))"

text \<open>The public form, which the database stores, and the private form, which the client gets.\<close>

definition GenerateToken :: "ed25519 \<Rightarrow> bytes \<Rightarrow> string \<Rightarrow> (string \<times> string) res" where
  "GenerateToken ed seed ident =
     (let token = NewEnhancedToken seed ident in
      res_bind (PublicForm ed token) (\<lambda>p. Inr (p, token_String token)))"

definition GenerateApplicationToken :: "ed25519 \<Rightarrow> bytes \<Rightarrow> (string \<times> string) res" where
  "GenerateApplicationToken ed seed = GenerateToken ed seed ''a''"

definition GenerateClientToken :: "ed25519 \<Rightarrow> bytes \<Rightarrow> (string \<times> string) res" where
  "GenerateClientToken ed seed = GenerateToken ed seed ''c''"

section \<open>Lemmas\<close>

lemma ParseInt64_show_int:
  assumes "min_int64 \<le> i" "i \<le> max_int64"
  shows "ParseInt64 (show_int i) = Inr i"
proof -
  note d = show_nat_decimal [of "nat i"] show_nat_decimal [of "nat (- i)"]
  have "hd (show_nat (nat i)) \<noteq> CHR ''-'' \<and> hd (show_nat (nat i)) \<noteq> CHR ''+''"
    using d(1) decimal_not_sign [of "hd (show_nat (nat i))"] by (cases "show_nat (nat i)") auto
  then show ?thesis
    using assms d by (simp add: ParseInt64_def show_int_def read_show_nat Let_def)
qed

lemma show_int_no_dot: "CHR ''.'' \<notin> set (show_int i)"
proof -
  have "CHR ''.'' \<notin> set (show_nat n)" for n
    using show_nat_decimal [of n] decimal_not_sign by (auto simp: list_all_iff)
  then show ?thesis by (simp add: show_int_def)
qed

lemma b64url_no_dot: "CHR ''.'' \<notin> set (b64url bs)"
proof -
  have "CHR ''.'' \<notin> set url_alphabet" by (simp add: url_alphabet_def)
  then show ?thesis using b64_encode_alphabet [OF alphabets(1)] by (auto simp: b64url_def)
qed

lemma splitn_at_last: "sep \<notin> set s \<Longrightarrow> splitn_at sep (Suc n) s = [s]"
  by (cases n) auto

lemma splitn_at_first:
  assumes "sep \<notin> set s"
  shows "splitn_at sep (Suc (Suc n)) (s @ sep # r) = s # splitn_at sep (Suc n) r"
proof -
  have "takeWhile (\<lambda>c. c \<noteq> sep) (s @ sep # r) = s" "dropWhile (\<lambda>c. c \<noteq> sep) (s @ sep # r) = sep # r"
    using assms by (auto simp: takeWhile_append dropWhile_append)
  then show ?thesis by simp
qed

lemmas splitn_rules = splitn_at_first splitn_at_last b64url_no_dot show_int_no_dot
lemmas b64url_rules = b64_roundtrip [OF alphabets(1), folded b64url_def]
  b64_DecodedLen_encode [of url_alphabet, folded b64url_def]

lemma prefix_drop: "prefix enhancedTokenPrefix (enhancedTokenPrefix @ s) \<and>
    drop (length enhancedTokenPrefix) (enhancedTokenPrefix @ s) = s"
  by simp

lemma four: "(4::nat) = Suc (Suc (Suc (Suc 0)))" by simp

lemma parse_private:
  assumes "CHR ''.'' \<notin> set ident" "length key = 32"
  shows "ParseEnhancedToken ed (enhancedTokenPrefix @ ident @ ''.'' @ b64url key) =
     Inr \<lparr>et_ident = ident, et_key = key, et_timestamp = 0, et_signature = []\<rparr>"
proof -
  have "splitn_at (CHR ''.'') 4 (ident @ ''.'' @ b64url key) = [ident, b64url key]"
    using assms(1) by (simp add: four splitn_rules del: splitn_at.simps)
  then show ?thesis
    using assms(2) b64url_rules [of key] by (simp add: ParseEnhancedToken_def prefix_drop)
qed

lemma parse_signed:
  assumes "CHR ''.'' \<notin> set ident" "length key = 32" "length sig = 64"
    and "min_int64 \<le> ts" "ts \<le> max_int64"
  shows "ParseEnhancedToken ed
       (enhancedTokenPrefix @ ident @ ''.'' @ b64url key @ ''.'' @ show_int ts @ ''.'' @ b64url sig) =
     (if ed_verify ed key (sha512 ed (''iat='' @ show_int ts)) sig
      then Inr \<lparr>et_ident = ident, et_key = key, et_timestamp = ts, et_signature = sig\<rparr>
      else Inl errInvalidToken)"
proof -
  have "splitn_at (CHR ''.'') 4 (ident @ ''.'' @ b64url key @ ''.'' @ show_int ts @ ''.'' @ b64url sig)
      = [ident, b64url key, show_int ts, b64url sig]"
    using assms(1) by (simp add: four splitn_rules del: splitn_at.simps)
  then show ?thesis
    using assms b64url_rules [of key] b64url_rules [of sig] ParseInt64_show_int [OF assms(4,5)]
    by (simp add: ParseEnhancedToken_def prefix_drop verify_signature_def)
qed

definition demo_ed :: ed25519 where
  "demo_ed = \<lparr>ed_public = (\<lambda>s. replicate 32 (foldr (+) s 1)), ed_sign = (\<lambda>s d. replicate 64 (foldr (+) s 1)),
     ed_verify = (\<lambda>p d s. hd p = hd s), sha512 = (\<lambda>s. [])\<rparr>"

lemma demo_ed_ok: "ed25519_ok demo_ed"
  by (simp add: ed25519_ok_def demo_ed_def numeral_eq_Suc)

lemma b64_zeros: "b64_encode al (replicate (3 * k + 1) 0) = replicate (4 * k + 2) (al ! 0)"
proof (induction k)
  case 0
  then show ?case by (simp add: numeral_2_eq_2)
next
  case (Suc k)
  have "replicate (3 * Suc k + 1) (0 :: 8 word) = 0 # 0 # 0 # replicate (3 * k + 1) 0"
    "replicate (4 * Suc k + 2) (al ! 0) = [al ! 0, al ! 0, al ! 0, al ! 0] @ replicate (4 * k + 2) (al ! 0)"
    by (simp_all add: numeral_eq_Suc)
  then show ?case using Suc by (simp only: b64_encode.simps Let_def) simp
qed

section \<open>Properties\<close>

text \<open>
  A generated client token reads back: parsing its private form gives the token with the
  seed it was made from, valid at any time, and its public form is the one stored, so the
  look-up finds the stored client.
\<close>

theorem token_private_roundtrip:
  assumes "length seed = 32"
  shows "\<exists>p t. GenerateClientToken ed seed = Inr (p, t) \<and>
     ParseEnhancedToken ed t = Inr (NewEnhancedToken seed ''c'') \<and>
     PublicForm ed (NewEnhancedToken seed ''c'') = Inr p \<and>
     ValidateTimestamp (NewEnhancedToken seed ''c'') now \<and> strings_HasPrefix t enhancedTokenPrefix"
  using assms parse_private [of "''c''" seed ed]
  by (simp add: GenerateClientToken_def GenerateToken_def NewEnhancedToken_def PublicForm_def
      public_of_seed_def token_String_def ValidateTimestamp_def strings_HasPrefix_def)

theorem token_private_roundtrip_witness:
  "\<exists>p t. GenerateClientToken demo_ed (replicate 32 5) = Inr (p, t) \<and>
     ParseEnhancedToken demo_ed t = Inr (NewEnhancedToken (replicate 32 5) ''c'')"
  using token_private_roundtrip [of "replicate 32 5" demo_ed 0] by auto

text \<open>
  Property C31. A token signed at time \<open>ts\<close> reads back with its signature verified, stands for the same
  stored token as the private token it was made from, and is accepted exactly in the
  fifteen minutes around \<open>ts\<close>, by a clock that is not within fifteen minutes of the ends of \<open>int64\<close> (where the
  bounds wrap around).
\<close>

theorem token_signed_roundtrip:
  assumes "ed25519_ok ed" "length (et_key t) = 32" "CHR ''.'' \<notin> set (et_ident t)"
    and "Sign ed t ts = Inr s" "min_int64 \<le> ts" "ts \<le> max_int64"
    and "min_int64 + 900 \<le> now" "now \<le> max_int64 - 900"
  shows "ParseEnhancedToken ed (token_String s) = Inr s \<and> PublicForm ed s = PublicForm ed t \<and>
     (ValidateTimestamp s now \<longleftrightarrow> \<bar>ts - now\<bar> \<le> 900)"
proof -
  have t: "et_timestamp t = 0" "et_signature t = []"
    and s: "s = \<lparr>et_ident = et_ident t, et_key = ed_public ed (et_key t), et_timestamp = ts,
      et_signature = ed_sign ed (et_key t) (sha512 ed (''iat='' @ show_int ts))\<rparr>"
    using assms(4) by (auto simp: Sign_def Let_def split: if_splits)
  have len: "length (et_key s) = 32" "length (et_signature s) = 64"
    and ver: "ed_verify ed (et_key s) (sha512 ed (''iat='' @ show_int ts)) (et_signature s)"
    using assms(1) by (auto simp: s ed25519_ok_def)
  then have sig: "et_signature s \<noteq> []" by auto
  have "ParseEnhancedToken ed (token_String s) = Inr s"
    using parse_signed [OF assms(3) len assms(5,6), of ed] ver sig by (simp add: token_String_def s)
  moreover have "PublicForm ed s = PublicForm ed t"
    using sig t assms(2) by (simp add: PublicForm_def s public_of_seed_def)
  moreover have "ValidateTimestamp s now \<longleftrightarrow> \<bar>ts - now\<bar> \<le> 900"
    using sig assms(7,8) by (auto simp: ValidateTimestamp_def maxTimestampDiffSeconds_def wrap64_id s)
  ultimately show ?thesis by blast
qed

theorem token_signed_roundtrip_witness:
  "\<exists>s. Sign demo_ed (NewEnhancedToken (replicate 32 5) ''a'') 77 = Inr s \<and>
     ParseEnhancedToken demo_ed (token_String s) = Inr s \<and> ValidateTimestamp s 100"
proof -
  obtain s where s: "Sign demo_ed (NewEnhancedToken (replicate 32 5) ''a'') 77 = Inr s"
    by (simp add: Sign_def NewEnhancedToken_def)
  then show ?thesis
    using token_signed_roundtrip [OF demo_ed_ok _ _ s, of 100]
    by (simp add: NewEnhancedToken_def min_int64_def max_int64_def)
qed

text \<open>
  What parsing accepts is authentic: a token that carries a time or a signature is returned
  only after its signature over that time was verified with its own key.
\<close>

theorem token_parse_verified:
  assumes "ParseEnhancedToken ed tok = Inr t" "et_timestamp t \<noteq> 0 \<or> et_signature t \<noteq> []"
  shows "length (et_key t) = 32 \<and>
     ed_verify ed (et_key t) (sha512 ed (''iat='' @ show_int (et_timestamp t))) (et_signature t) \<and>
     min_int64 \<le> et_timestamp t \<and> et_timestamp t \<le> max_int64"
  using assms
  by (auto simp: ParseEnhancedToken_def Let_def res_bind_Inr_iff verify_signature_def ParseInt64_def
      split: if_splits sum.splits)

theorem token_parse_verified_witness:
  "\<exists>t. ParseEnhancedToken demo_ed
     (enhancedTokenPrefix @ ''c'' @ ''.'' @ b64url (replicate 32 5) @ ''.'' @ show_int 9 @ ''.'' @
        b64url (replicate 64 5)) = Inr t \<and>
     ed_verify demo_ed (et_key t) (sha512 demo_ed (''iat='' @ show_int 9)) (et_signature t)"
proof -
  define t :: enhanced_token where
    "t = \<lparr>et_ident = ''c'', et_key = replicate 32 5, et_timestamp = 9, et_signature = replicate 64 5\<rparr>"
  have "ParseEnhancedToken demo_ed
     (enhancedTokenPrefix @ ''c'' @ ''.'' @ b64url (replicate 32 5) @ ''.'' @ show_int 9 @ ''.'' @
        b64url (replicate 64 5)) = Inr t"
    using parse_signed [of "''c''" "replicate 32 5" "replicate 64 5" 9 demo_ed]
    by (simp add: t_def min_int64_def max_int64_def demo_ed_def)
  then show ?thesis using token_parse_verified [of demo_ed _ t] by (auto simp: t_def)
qed

text \<open>
  A defect: the length check of the private key looks at the length of the text, not of the
  decoded bytes, and decoding skips line breaks. So a token of 42 letters and a line break
  parses without error to a key of 31 bytes and passes the time check, and building its public form,
  which the middleware does next for an unauthenticated request, panics.
\<close>

theorem token_short_key_panics:
  "\<exists>t. ParseEnhancedToken ed (''gtfyc.'' @ replicate 42 (CHR ''A'') @ [CHR 0x0A]) = Inr t \<and>
     ValidateTimestamp t now \<and> length (et_key t) = 31 \<and> PublicForm ed t = Inl Panic"
proof -
  let ?b = "replicate 42 (CHR ''A'') @ [CHR 0x0A]"
  have s: "splitn_at (CHR ''.'') 4 (''c'' @ ''.'' @ ?b) = [''c'', ?b]"
    using splitn_at_first [of "CHR ''.''" "''c''" 2 ?b] splitn_at_last [of "CHR ''.''" ?b 2]
    by (simp add: four numeral_3_eq_3 numeral_2_eq_2)
  have "b64_decode url_alphabet ?b = b64_decode url_alphabet (replicate 42 (CHR ''A''))"
    by (simp add: b64_decode_def)
  also have "\<dots> = Inr (replicate 31 0)"
    using b64_roundtrip [OF alphabets(1), of "replicate 31 0"] b64_zeros [of url_alphabet 10]
    by (simp add: url_alphabet_def)
  finally have "b64_decode url_alphabet ?b = Inr (replicate 31 0)" .
  then have "ParseEnhancedToken ed (enhancedTokenPrefix @ ''c'' @ ''.'' @ ?b) =
      Inr \<lparr>et_ident = ''c'', et_key = replicate 31 0, et_timestamp = 0, et_signature = []\<rparr>"
    using s by (simp add: ParseEnhancedToken_def prefix_drop b64_DecodedLen_def)
  then show ?thesis
    by (simp add: enhancedTokenPrefix_def ValidateTimestamp_def PublicForm_def public_of_seed_def)
qed

end
