(* ===== verification/Secrets.thy ===== *)
theory Secrets
  imports Base64
begin

text \<open>
  One-time codes and stored secrets: \<open>src/security/totp.go\<close> and
  \<open>src/security/secretstore.go\<close>. The cryptographic functions are parameters, collected in
  the record \<open>crypto\<close>; what the code relies on is stated by \<open>crypto_ok\<close>: HMAC-SHA1 has
  20 bytes, opening a sealed box gives the plain text. Random
  bytes are arguments.
\<close>

section \<open>Parameters\<close>

record crypto =
  hmac_sha1 :: "bytes \<Rightarrow> bytes \<Rightarrow> bytes"
  sha256 :: "string \<Rightarrow> bytes"
  base32_decode :: "string \<Rightarrow> bytes res"
  nonce_size :: nat
  aead_seal :: "bytes \<Rightarrow> bytes \<Rightarrow> bytes"
  aead_open :: "bytes \<Rightarrow> bytes \<Rightarrow> bytes res"

definition crypto_ok :: "crypto \<Rightarrow> bool" where
  "crypto_ok cr \<longleftrightarrow> (\<forall>k m. length (hmac_sha1 cr k m) = 20) \<and>
     (\<forall>n p. aead_open cr n (aead_seal cr n p) = Inr p \<and> aead_seal cr n p \<noteq> [])"

section \<open>Time-based one-time codes\<close>

definition byte_at :: "bytes \<Rightarrow> nat \<Rightarrow> (8 word) res" where
  "byte_at s i = (if i < length s then Inr (s ! i) else Inl Panic)"

text \<open>The loop that fills \<open>msg\<close> from its last byte to its first.\<close>

fun counter_bytes :: "nat \<Rightarrow> 64 word \<Rightarrow> bytes \<Rightarrow> bytes" where
  "counter_bytes 0 counter msg = msg"
| "counter_bytes (Suc i) counter msg = counter_bytes i (drop_bit 8 counter) (ucast counter # msg)"

text \<open>\<open>fmt.Sprintf("%06d", v)\<close>\<close>

definition format06 :: "nat \<Rightarrow> string" where
  "format06 v = replicate (6 - length (show_nat v)) (CHR ''0'') @ show_nat v"

definition pad_secret :: "string \<Rightarrow> string" where
  "pad_secret secret0 =
     (let secret = strings_ToUpper (strings_TrimSpace secret0); padding = length secret mod 8 in
      if padding \<noteq> 0 then secret @ replicate (8 - padding) (CHR ''='') else secret)"

definition truncate_mac :: "bytes \<Rightarrow> (32 word) res" where
  "truncate_mac mac =
     (if mac = [] then Inl Panic
      else
        let offset = unat (last mac AND 0x0f) in
        res_bind (byte_at mac offset) (\<lambda>b0.
        res_bind (byte_at mac (offset + 1)) (\<lambda>b1.
        res_bind (byte_at mac (offset + 2)) (\<lambda>b2.
        res_bind (byte_at mac (offset + 3)) (\<lambda>b3.
          Inr (push_bit 24 (ucast b0 AND 0x7f) OR push_bit 16 (ucast b1) OR
               push_bit 8 (ucast b2) OR ucast b3))))))"

definition TOTPCode :: "crypto \<Rightarrow> string \<Rightarrow> time \<Rightarrow> string res" where
  "TOTPCode cr secret now =
     res_bind (base32_decode cr (pad_secret secret)) (\<lambda>key.
       let counter = word_of_int (trunc_div (time_Unix now) 30) :: 64 word;
           msg = counter_bytes 8 counter [];
           mac = hmac_sha1 cr key msg
       in res_bind (truncate_mac mac) (\<lambda>value. Inr (format06 (unat (value mod 1000000)))))"

text \<open>\<open>strconv.Atoi\<close> on a short string: an optional sign and at least one decimal digit.\<close>

definition Atoi_ok :: "string \<Rightarrow> bool" where
  "Atoi_ok s =
     (let ds = (case s of [] \<Rightarrow> [] | c # r \<Rightarrow> if c = CHR ''+'' \<or> c = CHR ''-'' then r else s)
      in ds \<noteq> [] \<and> list_all decimal ds)"

definition VerifyTOTP :: "crypto \<Rightarrow> string \<Rightarrow> string \<Rightarrow> time \<Rightarrow> bool" where
  "VerifyTOTP cr secret code0 now =
     (let code = strings_TrimSpace code0 in
      if length code \<noteq> 6 then False
      else if \<not> Atoi_ok code then False
      else list_ex (\<lambda>step. TOTPCode cr secret (now + wrap64 (wrap64 (step * 30) * second)) = Inr code)
             [-1, 0, 1])"

definition hex_digit :: "nat \<Rightarrow> char" where
  "hex_digit d = ''0123456789abcdef'' ! d"

definition hex_encode :: "bytes \<Rightarrow> string" where
  "hex_encode bs = concat (map (\<lambda>b. [hex_digit (unat b div 16), hex_digit (unat b mod 16)]) bs)"

text \<open>One recovery code from its six random bytes; the list from the random source.\<close>

definition recovery_code :: "bytes \<Rightarrow> string" where
  "recovery_code raw = (let encoded = strings_ToUpper (hex_encode raw)
     in take 6 encoded @ ''-'' @ drop 6 encoded)"

fun recovery_codes :: "nat \<Rightarrow> bytes res list \<Rightarrow> string list res" where
  "recovery_codes 0 rand = Inr []"
| "recovery_codes (Suc n) [] = Inl (Err ''random source exhausted'')"
| "recovery_codes (Suc n) (r # rand) =
     res_bind r (\<lambda>raw. res_bind (recovery_codes n rand) (\<lambda>cs. Inr (recovery_code raw # cs)))"

definition GenerateRecoveryCodes :: "int \<Rightarrow> bytes res list \<Rightarrow> string list res" where
  "GenerateRecoveryCodes count rand =
     (let count = (if count \<le> 0 then 10 else count) in recovery_codes (nat count) rand)"

definition HashRecoveryCode :: "crypto \<Rightarrow> string \<Rightarrow> string" where
  "HashRecoveryCode cr code =
     hex_encode (sha256 cr (strings_ToUpper (filter (\<lambda>c. c \<noteq> CHR ''-'') (strings_TrimSpace code))))"

section \<open>The secret store\<close>

definition encryptedPrefix :: string where
  "encryptedPrefix = ''enc:v1:''"

text \<open>\<open>nonce\<close> is what \<open>io.ReadFull(rand.Reader, nonce)\<close> delivers.\<close>

definition Encrypt :: "crypto \<Rightarrow> bytes res \<Rightarrow> string \<Rightarrow> string res" where
  "Encrypt cr nonce_read value =
     (if value = '''' \<or> strings_HasPrefix value encryptedPrefix then Inr value
      else res_bind nonce_read (\<lambda>nonce.
        let sealed = aead_seal cr nonce (bytes_of value); payload = nonce @ sealed
        in Inr (encryptedPrefix @ b64_encode std_alphabet payload)))"

definition Decrypt :: "crypto \<Rightarrow> string \<Rightarrow> string res" where
  "Decrypt cr value =
     (if value = '''' \<or> \<not> strings_HasPrefix value encryptedPrefix then Inr value
      else res_bind (b64_decode std_alphabet (drop (length encryptedPrefix) value)) (\<lambda>payload.
        let nonceSize = nonce_size cr in
        if length payload \<le> nonceSize then Inl (Err ''encrypted secret payload is truncated'')
        else res_bind (aead_open cr (take nonceSize payload) (drop nonceSize payload)) (\<lambda>plain.
          Inr (string_of plain))))"

section \<open>Lemmas\<close>

lemma show_nat_length: "0 < k \<Longrightarrow> n < 10 ^ k \<Longrightarrow> 0 < length (show_nat n) \<and> length (show_nat n) \<le> k"
proof (induction n arbitrary: k rule: show_nat.induct)
  case (1 n)
  show ?case
  proof (cases "n < 10")
    case True
    then show ?thesis using 1 by (subst (1 2) show_nat.simps) simp
  next
    case False
    obtain j where k: "k = Suc j" using "1.prems" by (cases k) auto
    have "j \<noteq> 0" using False "1.prems" k by (cases j) auto
    with k have j: "k = Suc j" "0 < j" by auto
    then have "n div 10 < 10 ^ j" using "1.prems" by (simp add: less_mult_imp_div_less mult.commute)
    then show ?thesis
      using "1.IH" [OF False, of j] j False by (subst (1 2) show_nat.simps) simp
  qed
qed

lemma format06_six: "v < 1000000 \<Longrightarrow> length (format06 v) = 6 \<and> list_all decimal (format06 v)"
  using show_nat_length [of 6 v] show_nat_decimal [of v]
  by (auto simp: format06_def list_all_iff decimal_def byte_in_def)

lemma truncate_mac_total:
  assumes "length mac = 20"
  shows "\<exists>v. truncate_mac mac = Inr v"
proof -
  have "last mac AND 0x0f \<le> 0x0f" by (rule word_and_le1)
  then have "unat (last mac AND 0x0f) \<le> 15" by (simp add: word_le_nat_alt)
  moreover have "mac \<noteq> []" using assms by auto
  ultimately show ?thesis using assms by (simp add: truncate_mac_def byte_at_def Let_def)
qed

text \<open>\<open>TrimSpace\<close> leaves a string of decimal digits alone.\<close>

lemma decimal_not_space:
  assumes "decimal c" "w \<in> set space_sequences" "w \<noteq> []"
  shows "hd w \<noteq> c" "last w \<noteq> c"
proof -
  have "list_all (\<lambda>w. w \<noteq> [] \<and> \<not> decimal (hd w) \<and> \<not> decimal (last w)) space_sequences"
    by code_simp
  then show "hd w \<noteq> c" "last w \<noteq> c" using assms by (auto simp: list_all_iff)
qed

lemma trim_between_decimals:
  assumes "s \<noteq> []" "decimal (hd s)" "decimal (last s)"
  shows "strings_TrimSpace s = s"
proof -
  have "\<not> prefix w s" if "w \<in> set space_sequences" "w \<noteq> []" for w
    using decimal_not_space(1) [OF assms(2) that] that(2) by (auto simp: prefix_def)
  then have "find (\<lambda>w. w \<noteq> [] \<and> prefix w s) space_sequences = None" by (auto simp: find_None_iff)
  then have l: "trim_left s = s" by (subst trim_left.simps) simp
  have "\<not> suffix w s" if "w \<in> set space_sequences" "w \<noteq> []" for w
    using decimal_not_space(2) [OF assms(3) that] that(2) by (auto simp: suffix_def)
  then have "find (\<lambda>w. w \<noteq> [] \<and> suffix w s) space_sequences = None" by (auto simp: find_None_iff)
  then have "trim_right s = s" by (subst trim_right.simps) simp
  with l show ?thesis by (simp add: strings_TrimSpace_def)
qed

lemma trim_decimal:
  assumes "list_all decimal s"
  shows "strings_TrimSpace s = s"
  using assms trim_between_decimals [of s] by (cases "s = []") (auto simp: list_all_iff)

lemma Atoi_ok_decimal:
  assumes "list_all decimal s" "s \<noteq> []"
  shows "Atoi_ok s"
proof -
  have "\<not> decimal (CHR ''+'')" "\<not> decimal (CHR ''-'')"
    by (simp_all add: decimal_def byte_in_def)
  with assms show ?thesis by (cases s) (auto simp: Atoi_ok_def)
qed

lemma TOTPCode_six:
  assumes "TOTPCode cr secret t = Inr c"
  shows "length c = 6 \<and> list_all decimal c"
proof -
  obtain v :: "32 word" where "c = format06 (unat (v mod 1000000))"
    using assms by (auto simp: TOTPCode_def Let_def res_bind_Inr_iff)
  moreover have "unat (v mod 1000000) < 1000000" by (simp add: unat_mod)
  ultimately show ?thesis using format06_six by blast
qed

text \<open>A code depends on the time only through the 30-second step.\<close>

definition totp_step :: "time \<Rightarrow> int" where
  "totp_step t = time_Unix t div 30"

lemma TOTPCode_step:
  assumes "0 \<le> t" "0 \<le> t'" "totp_step t = totp_step t'"
  shows "TOTPCode cr secret t = TOTPCode cr secret t'"
proof -
  have "0 \<le> time_Unix t" "0 \<le> time_Unix t'"
    using assms by (simp_all add: time_Unix_def second_def)
  then show ?thesis using assms(3) by (simp add: TOTPCode_def totp_step_def trunc_div_nonneg)
qed

lemma totp_step_shift: "totp_step (t + d * 30 * second) = totp_step t + d"
proof -
  have "time_Unix (t + d * 30 * second) = time_Unix t + d * 30"
    by (simp add: time_Unix_def second_def)
  then show ?thesis by (simp add: totp_step_def)
qed

section \<open>Properties\<close>

text \<open>
  The acceptance window of one-time codes: a code computed at time \<open>t\<close> is accepted at
  every time \<open>t'\<close> whose 30-second step is at most one away from that of \<open>t\<close>, also with
  surrounding white space removed; so a code lives at least 30 seconds after its step began.
\<close>

theorem totp_accepts_adjacent_steps:
  assumes "TOTPCode cr secret t = Inr c" "0 \<le> t" "30 * second \<le> t'"
    and "\<bar>totp_step t - totp_step t'\<bar> \<le> 1" "strings_TrimSpace typed = c"
  shows "VerifyTOTP cr secret typed t'"
proof -
  define d where "d = totp_step t - totp_step t'"
  have d: "d \<in> {-1, 0, 1}" using assms(4) by (auto simp: d_def)
  have w: "wrap64 (wrap64 (d * 30) * second) = d * 30 * second"
    using d by (auto simp: wrap64_def second_def)
  have "0 \<le> t' + d * 30 * second" using d assms(3) by (auto simp: second_def)
  moreover have "totp_step (t' + d * 30 * second) = totp_step t"
    using totp_step_shift [of t' d] by (simp add: d_def)
  ultimately have "TOTPCode cr secret (t' + d * 30 * second) = Inr c"
    using TOTPCode_step [of "t' + d * 30 * second" t] assms(1,2) by simp
  moreover have six: "length c = 6" "list_all decimal c"
    using TOTPCode_six [OF assms(1)] by auto
  moreover have "Atoi_ok c" using six by (intro Atoi_ok_decimal) auto
  ultimately show ?thesis
    using d assms(5) w by (auto simp: VerifyTOTP_def Let_def)
qed

definition demo_crypto :: crypto where
  "demo_crypto = \<lparr>hmac_sha1 = (\<lambda>k m. replicate 20 (7 :: 8 word)), sha256 = bytes_of,
     base32_decode = (\<lambda>s. Inr (bytes_of s)), nonce_size = 2,
     aead_seal = (\<lambda>n p. 1 # p), aead_open = (\<lambda>n c. Inr (tl c))\<rparr>"

lemma demo_crypto_ok: "crypto_ok demo_crypto"
  by (simp add: crypto_ok_def demo_crypto_def)

lemma digit_chars: "digit_char 0 = CHR ''0''" "digit_char (Suc 0) = CHR ''1''" "digit_char 3 = CHR ''3''"
    "digit_char 6 = CHR ''6''" "digit_char 9 = CHR ''9''"
  by (simp_all add: digit_char_def char_of_def bit_0)

lemma demo_code: "TOTPCode demo_crypto ''AB'' t = Inr ''901063''"
proof -
  have "truncate_mac (replicate 20 7) = Inr 117901063" by code_simp
  moreover have "format06 901063 = ''901063''"
    by (simp add: format06_def show_nat.simps digit_chars)
  ultimately show ?thesis by (simp add: TOTPCode_def demo_crypto_def Let_def)
qed

theorem totp_accepts_adjacent_steps_witness:
  "VerifyTOTP demo_crypto ''AB'' ''901063'' (130 * second)"
proof (rule totp_accepts_adjacent_steps [OF demo_code [of "100 * second"]])
  show "\<bar>totp_step (100 * second) - totp_step (130 * second)\<bar> \<le> 1"
    by (simp add: totp_step_def time_Unix_def second_def)
  show "strings_TrimSpace ''901063'' = ''901063''"
    by (rule trim_decimal) (simp add: decimal_def byte_in_def)
qed (simp_all add: second_def)

text \<open>
  Every code computed is six decimal digits, and with a decodable secret and a 20-byte MAC
  the computation never fails: the dynamic truncation reads inside the MAC.
\<close>

theorem totp_code_total:
  assumes "crypto_ok cr" "base32_decode cr (pad_secret secret) = Inr key"
  shows "\<exists>c. TOTPCode cr secret now = Inr c \<and> length c = 6 \<and> list_all decimal c"
proof -
  define m where "m = hmac_sha1 cr key
      (counter_bytes 8 (word_of_int (trunc_div (time_Unix now) 30)) [])"
  have "length m = 20" using assms(1) by (simp add: m_def crypto_ok_def)
  from truncate_mac_total [OF this] obtain v where "truncate_mac m = Inr v" ..
  then have "\<exists>c. TOTPCode cr secret now = Inr c" by (simp add: TOTPCode_def assms(2) Let_def m_def)
  then show ?thesis using TOTPCode_six by blast
qed

theorem totp_code_total_witness:
  "\<exists>c. TOTPCode demo_crypto ''AB'' 5 = Inr c \<and> length c = 6 \<and> list_all decimal c"
  by (rule totp_code_total [OF demo_crypto_ok]) (simp add: demo_crypto_def)

text \<open>
  A stored secret reads back: for a non-empty value that does not carry the store's own
  prefix, \<open>Encrypt\<close> with a nonce of the right size returns a prefixed value that
  \<open>Decrypt\<close> maps to the original, and encrypting the result again changes nothing.
\<close>

theorem secret_roundtrip:
  assumes "crypto_ok cr" "length nonce = nonce_size cr" "\<not> strings_HasPrefix value encryptedPrefix"
  shows "\<exists>e. Encrypt cr (Inr nonce) value = Inr e \<and> Decrypt cr e = Inr value \<and>
     Encrypt cr n' e = Inr e \<and> (value \<noteq> '''' \<longrightarrow> strings_HasPrefix e encryptedPrefix)"
proof (cases "value = ''''")
  case True
  then show ?thesis by (simp add: Encrypt_def Decrypt_def)
next
  case False
  define e where "e = encryptedPrefix @ b64_encode std_alphabet (nonce @ aead_seal cr nonce (bytes_of value))"
  have e: "e \<noteq> ''''" "strings_HasPrefix e encryptedPrefix"
    by (simp_all add: e_def encryptedPrefix_def strings_HasPrefix_def)
  have "Encrypt cr (Inr nonce) value = Inr e"
    using False assms(3) by (simp add: Encrypt_def e_def)
  moreover have "Encrypt cr n' e = Inr e" using e(2) by (simp add: Encrypt_def)
  moreover have "Decrypt cr e = Inr value"
    using e assms b64_roundtrip [OF alphabets(2)]
    by (simp add: Decrypt_def crypto_ok_def e_def Let_def encryptedPrefix_def)
  ultimately show ?thesis using e by blast
qed

theorem secret_roundtrip_witness:
  "\<exists>e. Encrypt demo_crypto (Inr [5, 6]) ''pw'' = Inr e \<and> Decrypt demo_crypto e = Inr ''pw'' \<and>
     Encrypt demo_crypto (Inr [8, 9]) e = Inr e \<and> (''pw'' \<noteq> '''' \<longrightarrow> strings_HasPrefix e encryptedPrefix)"
  by (rule secret_roundtrip [OF demo_crypto_ok])
    (simp_all add: demo_crypto_def strings_HasPrefix_def encryptedPrefix_def)

end
