(* ===== verification/Auth.thy ===== *)
theory Auth
  imports Model Token Secrets
begin

text \<open>
  Authentication middleware: \<open>src/auth/authentication.go\<close>, \<open>util.go\<close>, \<open>cookie.go\<close> and
  \<open>service.go\<close>. The \<open>Database\<close> interface, bcrypt, the cross-origin check of
  \<open>net/http\<close> and the clock are fields of the record \<open>auth_env\<close>, over a world \<open>'w\<close> that only
  the writing operations change. A request is what gin and \<open>net/http\<close> deliver of it.
  A handler's \<open>(authState, error)\<close> is \<open>Inl e\<close> for an error, whose state the code never reads
  as anything but \<open>authStateSkip\<close>, and \<open>Inr state\<close> otherwise. What the middleware does to the
  gin context is recorded: the registered authentication, every \<open>AbortWithError\<close>, every
  cookie set, and for each \<open>ctx.Next()\<close> the authentication that the next handler sees.
\<close>

section \<open>Requests, context and environment\<close>

datatype authState = authStateSkip | authStateForbidden | authStateNotElevated | authStateOk
  | authStateLocalAuthDisabled | authStateMFARequired

record request =
  rq_query :: "string \<Rightarrow> string"
  rq_header :: "string \<Rightarrow> string"
  rq_cookie :: "string \<Rightarrow> string option"
  rq_basic :: "(string \<times> string) option"
  rq_path :: string

record authentication =
  au_client :: "client option"
  au_app :: "application option"
  au_user :: "user option"

record 'w gin =
  ctx_request :: request
  ctx_auth :: "authentication option"
  ctx_service :: "service_account option"
  ctx_aborts :: "(nat \<times> fail) list"
  ctx_cookies :: "(string \<times> int \<times> bool) list"
  ctx_nexts :: "authentication list"
  ctx_world :: 'w

record 'w auth_env =
  GetApplicationByToken :: "string \<Rightarrow> 'w \<Rightarrow> application option res"
  GetClientByToken :: "string \<Rightarrow> 'w \<Rightarrow> client option res"
  GetUserByName :: "string \<Rightarrow> 'w \<Rightarrow> user option res"
  GetUserByID :: "nat \<Rightarrow> 'w \<Rightarrow> user option res"
  UpdateClientTokensLastUsedAndExpiresAt :: "string list \<Rightarrow> time \<Rightarrow> 'w \<Rightarrow> unit res \<times> 'w"
  UpdateApplicationTokenLastUsed :: "string \<Rightarrow> time \<Rightarrow> 'w \<Rightarrow> unit res \<times> 'w"
  GetUserMFA :: "nat \<Rightarrow> 'w \<Rightarrow> user_mfa option res"
  ConsumeRecoveryCode :: "nat \<Rightarrow> string \<Rightarrow> 'w \<Rightarrow> bool res \<times> 'w"
  GetSecurityPolicy :: "'w \<Rightarrow> security_policy res"
  timeNow :: "'w \<Rightarrow> time"
  ComparePassword :: "bytes \<Rightarrow> string \<Rightarrow> bool"
  CrossOriginCheck :: "request \<Rightarrow> fail option"
  SecureCookie :: bool
  LocalAuthEnabled :: bool
  env_crypto :: crypto
  env_ed :: ed25519

section \<open>The registered authentication\<close>

text \<open>\<open>src/auth/util.go\<close>\<close>

definition no_auth :: authentication where
  "no_auth = \<lparr>au_client = None, au_app = None, au_user = None\<rparr>"

definition RegisterUser :: "user \<Rightarrow> 'w gin \<Rightarrow> 'w gin" where
  "RegisterUser user s = s\<lparr>ctx_auth := Some (no_auth\<lparr>au_user := Some user\<rparr>)\<rparr>"

definition RegisterClient :: "client \<Rightarrow> 'w gin \<Rightarrow> 'w gin" where
  "RegisterClient client s = s\<lparr>ctx_auth := Some (no_auth\<lparr>au_client := Some client\<rparr>)\<rparr>"

definition RegisterApplication :: "application \<Rightarrow> 'w gin \<Rightarrow> 'w gin" where
  "RegisterApplication app s = s\<lparr>ctx_auth := Some (no_auth\<lparr>au_app := Some app\<rparr>)\<rparr>"

definition getInfo :: "'w gin \<Rightarrow> authentication" where
  "getInfo s = (case ctx_auth s of Some v \<Rightarrow> v | None \<Rightarrow> no_auth)"

definition info_user_id :: "authentication \<Rightarrow> nat option" where
  "info_user_id info =
     (case au_user info of Some u \<Rightarrow> Some (usr_ID u)
      | None \<Rightarrow> case au_client info of Some c \<Rightarrow> Some (cl_UserID c)
      | None \<Rightarrow> case au_app info of Some a \<Rightarrow> Some (app_UserID a)
      | None \<Rightarrow> None)"

definition TryGetUserID :: "'w gin \<Rightarrow> nat option" where
  "TryGetUserID s = info_user_id (getInfo s)"

definition GetUserID :: "'w gin \<Rightarrow> nat res" where
  "GetUserID s = (case TryGetUserID s of None \<Rightarrow> Inl Panic | Some i \<Rightarrow> Inr i)"

section \<open>Reading the token\<close>

definition headerName :: string where "headerName = ''X-Gotify-Key''"
definition cookieName :: string where "cookieName = ''gotify-client-token''"
definition CookieMaxAge :: int where "CookieMaxAge = 7 * 24 * 60 * 60"

definition tokenFromQuery :: "request \<Rightarrow> string" where
  "tokenFromQuery r = rq_query r ''token''"

definition tokenFromXGotifyHeader :: "request \<Rightarrow> string" where
  "tokenFromXGotifyHeader r = rq_header r headerName"

definition tokenFromAuthorizationHeader :: "request \<Rightarrow> string" where
  "tokenFromAuthorizationHeader r =
     (let authHeader = rq_header r ''Authorization'' in
      if authHeader = '''' then ''''
      else if length authHeader < length ''Bearer '' \<or>
           \<not> strings_EqualFold ''Bearer '' (take (length ''Bearer '') authHeader) then ''''
      else drop (length ''Bearer '') authHeader)"

definition tokenFromCookie :: "request \<Rightarrow> string" where
  "tokenFromCookie r = (case rq_cookie r cookieName of None \<Rightarrow> '''' | Some token \<Rightarrow> token)"

definition readTokenFromRequest :: "request \<Rightarrow> string \<times> bool" where
  "readTokenFromRequest r =
     (if tokenFromQuery r \<noteq> '''' then (tokenFromQuery r, False)
      else if tokenFromXGotifyHeader r \<noteq> '''' then (tokenFromXGotifyHeader r, False)
      else if tokenFromAuthorizationHeader r \<noteq> '''' then (tokenFromAuthorizationHeader r, False)
      else if tokenFromCookie r \<noteq> '''' then (tokenFromCookie r, True)
      else ('''', False))"

text \<open>The token as the database knows it; \<open>None\<close> where the code skips the handler without an error.\<close>

definition stored_token :: "'w auth_env \<Rightarrow> string \<Rightarrow> 'w \<Rightarrow> string option res" where
  "stored_token env token w =
     (if prefix enhancedTokenPrefix token
      then case ParseEnhancedToken (env_ed env) token of
             Inl e \<Rightarrow> Inl e
           | Inr complexToken \<Rightarrow>
               if \<not> ValidateTimestamp complexToken (time_Unix (timeNow env w)) then Inr None
               else res_bind (PublicForm (env_ed env) complexToken) (\<lambda>p. Inr (Some p))
      else Inr (Some token))"

section \<open>Checks\<close>

definition checkClientAdmin :: "'w auth_env \<Rightarrow> client \<Rightarrow> 'w \<Rightarrow> authState res" where
  "checkClientAdmin env client w =
     (case GetUserByID env (cl_UserID client) w of
        Inl e \<Rightarrow> Inl e
      | Inr None \<Rightarrow> Inr authStateForbidden
      | Inr (Some user) \<Rightarrow>
          if \<not> usr_Admin user then Inr authStateForbidden
          else if usr_OIDCID user = None \<and> usr_LDAPID user = None then
            res_bind (GetSecurityPolicy env w) (\<lambda>policy.
              if pol_RequireMFAForAdmins policy \<and> \<not> cl_MFAAuthenticated client
              then Inr authStateMFARequired else Inr authStateOk)
          else Inr authStateOk)"

definition checkClientElevated :: "'w auth_env \<Rightarrow> client \<Rightarrow> 'w \<Rightarrow> authState res" where
  "checkClientElevated env client w =
     (case cl_ElevatedUntil client of
        None \<Rightarrow> Inr authStateNotElevated
      | Some t \<Rightarrow> if \<not> timeNow env w < t then Inr authStateNotElevated else Inr authStateOk)"

definition checkUserAdmin :: "'w auth_env \<Rightarrow> user \<Rightarrow> 'w \<Rightarrow> authState res" where
  "checkUserAdmin env user w =
     (if \<not> usr_Admin user then Inr authStateForbidden
      else if usr_OIDCID user = None then
        res_bind (GetSecurityPolicy env w) (\<lambda>policy.
          if pol_RequireMFAForAdmins policy then
            res_bind (GetUserMFA env (usr_ID user) w) (\<lambda>mfa.
              case mfa of
                None \<Rightarrow> Inr authStateMFARequired
              | Some m \<Rightarrow> if \<not> mfa_Enabled m then Inr authStateMFARequired else Inr authStateOk)
          else Inr authStateOk)
      else Inr authStateOk)"

fun run_checks :: "('a \<Rightarrow> 'w \<Rightarrow> authState res) list \<Rightarrow> 'a \<Rightarrow> 'w \<Rightarrow> authState res" where
  "run_checks [] x w = Inr authStateOk"
| "run_checks (check # checks) x w =
     (case check x w of
        Inl e \<Rightarrow> Inl e
      | Inr state \<Rightarrow> if state \<noteq> authStateOk then Inr state else run_checks checks x w)"

section \<open>Handlers\<close>

definition finish_user ::
  "(user \<Rightarrow> 'w \<Rightarrow> authState res) list \<Rightarrow> user \<Rightarrow> 'w gin \<Rightarrow> authState res \<times> 'w gin" where
  "finish_user checks user s =
     (let s = RegisterUser user s in (run_checks checks user (ctx_world s), s))"

definition handleUser ::
  "'w auth_env \<Rightarrow> (user \<Rightarrow> 'w \<Rightarrow> authState res) list \<Rightarrow> 'w gin \<Rightarrow> authState res \<times> 'w gin" where
  "handleUser env checks s =
     (case rq_basic (ctx_request s) of
        None \<Rightarrow> (Inr authStateSkip, s)
      | Some (name, pass) \<Rightarrow>
          if \<not> LocalAuthEnabled env then (Inr authStateLocalAuthDisabled, s)
          else case GetUserByName env name (ctx_world s) of
            Inl e \<Rightarrow> (Inl e, s)
          | Inr None \<Rightarrow> (Inr authStateSkip, s)
          | Inr (Some user) \<Rightarrow>
              if \<not> ComparePassword env (usr_Pass user) pass then (Inr authStateSkip, s)
              else case GetUserMFA env (usr_ID user) (ctx_world s) of
                Inl e \<Rightarrow> (Inl e, s)
              | Inr None \<Rightarrow> finish_user checks user s
              | Inr (Some mfa) \<Rightarrow>
                  if \<not> mfa_Enabled mfa then finish_user checks user s
                  else
                    let code = strings_TrimSpace (rq_header (ctx_request s) ''X-Gotify-MFA-Code'');
                        valid = VerifyTOTP (env_crypto env) (mfa_Secret mfa) code
                          (timeNow env (ctx_world s)) in
                    if \<not> valid \<and> code \<noteq> '''' then
                      (case ConsumeRecoveryCode env (usr_ID user)
                              (HashRecoveryCode (env_crypto env) code) (ctx_world s) of
                         (Inl e, w) \<Rightarrow> (Inl e, s\<lparr>ctx_world := w\<rparr>)
                       | (Inr valid, w) \<Rightarrow>
                           if \<not> valid then (Inr authStateMFARequired, s\<lparr>ctx_world := w\<rparr>)
                           else finish_user checks user (s\<lparr>ctx_world := w\<rparr>))
                    else if \<not> valid then (Inr authStateMFARequired, s)
                    else finish_user checks user s)"

definition mfa_exempt_path :: "string \<Rightarrow> bool" where
  "mfa_exempt_path path \<longleftrightarrow> strings_HasPrefix path ''/current/user/mfa'' \<or>
     strings_HasPrefix path ''/current/user/passkeys'' \<or> strings_HasPrefix path ''/auth/logout''"

definition set_cookie :: "'w auth_env \<Rightarrow> bool \<Rightarrow> string \<Rightarrow> 'w gin \<Rightarrow> 'w gin" where
  "set_cookie env isCookie token s =
     (if isCookie then s\<lparr>ctx_cookies := ctx_cookies s @ [(token, CookieMaxAge, SecureCookie env)]\<rparr> else s)"

text \<open>The part of \<open>handleClient\<close> after the MFA policy: last use, cookie renewal, checks.\<close>

definition finish_client ::
  "'w auth_env \<Rightarrow> (client \<Rightarrow> 'w \<Rightarrow> authState res) list \<Rightarrow> client \<Rightarrow> string \<Rightarrow> bool \<Rightarrow> 'w gin \<Rightarrow>
     authState res \<times> 'w gin" where
  "finish_client env checks client originalToken isCookie s =
     (let now = timeNow env (ctx_world s) in
      if (case cl_LastUsed client of None \<Rightarrow> True | Some t \<Rightarrow> t + 5 * minute < now)
      then case UpdateClientTokensLastUsedAndExpiresAt env [cl_Token client] now (ctx_world s) of
             (Inl e, w) \<Rightarrow> (Inl e, s\<lparr>ctx_world := w\<rparr>)
           | (Inr _, w) \<Rightarrow>
               (run_checks checks client w, set_cookie env isCookie originalToken (s\<lparr>ctx_world := w\<rparr>))
      else (run_checks checks client (ctx_world s), s))"

definition handleClient ::
  "'w auth_env \<Rightarrow> (client \<Rightarrow> 'w \<Rightarrow> authState res) list \<Rightarrow> 'w gin \<Rightarrow> authState res \<times> 'w gin" where
  "handleClient env checks s =
     (let (token, isCookie) = readTokenFromRequest (ctx_request s) in
      if token = '''' then (Inr authStateSkip, s)
      else case stored_token env token (ctx_world s) of
        Inl e \<Rightarrow> (Inl e, s)
      | Inr None \<Rightarrow> (Inr authStateSkip, s)
      | Inr (Some stored) \<Rightarrow>
          case GetClientByToken env stored (ctx_world s) of
            Inl e \<Rightarrow> (Inl e, s)
          | Inr None \<Rightarrow> (Inr authStateSkip, s)
          | Inr (Some client) \<Rightarrow>
              let s = RegisterClient client s in
              case GetSecurityPolicy env (ctx_world s) of
                Inl e \<Rightarrow> (Inl e, s)
              | Inr policy \<Rightarrow>
                  if pol_RequireMFAForAllLocalUsers policy \<and> \<not> cl_MFAAuthenticated client \<and>
                     \<not> mfa_exempt_path (rq_path (ctx_request s))
                  then case GetUserByID env (cl_UserID client) (ctx_world s) of
                         Inl e \<Rightarrow> (Inl e, s)
                       | Inr user \<Rightarrow>
                           if (case user of None \<Rightarrow> False
                                | Some u \<Rightarrow> usr_OIDCID u = None \<and> usr_LDAPID u = None)
                           then (Inr authStateMFARequired, s)
                           else finish_client env checks client token isCookie s
                  else finish_client env checks client token isCookie s)"

definition handleApplication :: "'w auth_env \<Rightarrow> 'w gin \<Rightarrow> authState res \<times> 'w gin" where
  "handleApplication env s =
     (let (token, isCookie) = readTokenFromRequest (ctx_request s) in
      if token = '''' then (Inr authStateSkip, s)
      else case stored_token env token (ctx_world s) of
        Inl e \<Rightarrow> (Inl e, s)
      | Inr None \<Rightarrow> (Inr authStateSkip, s)
      | Inr (Some stored) \<Rightarrow>
          case GetApplicationByToken env stored (ctx_world s) of
            Inl e \<Rightarrow> (Inl e, s)
          | Inr None \<Rightarrow> (Inr authStateSkip, s)
          | Inr (Some app) \<Rightarrow>
              let s = RegisterApplication app s; now = timeNow env (ctx_world s) in
              if (case app_LastUsed app of None \<Rightarrow> True | Some t \<Rightarrow> t + 5 * minute < now)
              then case UpdateApplicationTokenLastUsed env (app_Token app) now (ctx_world s) of
                     (Inl e, w) \<Rightarrow> (Inl e, s\<lparr>ctx_world := w\<rparr>)
                   | (Inr _, w) \<Rightarrow> (Inr authStateOk, set_cookie env isCookie token (s\<lparr>ctx_world := w\<rparr>))
              else (Inr authStateOk, s))"

section \<open>Evaluation and the middleware\<close>

definition abort :: "nat \<Rightarrow> fail \<Rightarrow> 'w gin \<Rightarrow> 'w gin" where
  "abort code err s = s\<lparr>ctx_aborts := ctx_aborts s @ [(code, err)]\<rparr>"

definition ctx_Next :: "'w gin \<Rightarrow> 'w gin" where
  "ctx_Next s = s\<lparr>ctx_nexts := ctx_nexts s @ [getInfo s]\<rparr>"

definition abort401 :: "'w gin \<Rightarrow> 'w gin" where
  "abort401 = abort 401
     (Err ''you need to provide a valid access token or user credentials to access this api'')"

definition abort403 :: "'w gin \<Rightarrow> 'w gin" where
  "abort403 = abort 403 (Err ''you are not allowed to access this api'')"

definition rejectForeignOrigin :: "'w auth_env \<Rightarrow> 'w gin \<Rightarrow> bool \<times> 'w gin" where
  "rejectForeignOrigin env s =
     (if \<not> snd (readTokenFromRequest (ctx_request s)) then (False, s)
      else case CrossOriginCheck env (ctx_request s) of
             Some err \<Rightarrow> (True, abort 403 err s)
           | None \<Rightarrow> (False, s))"

text \<open>
  The loop over the handlers. The \<open>switch\<close> has no case for \<open>authStateMFARequired\<close> and no default, so
  that state goes on with the next handler, as \<open>authStateSkip\<close> does.
\<close>

fun evaluate_loop :: "('w gin \<Rightarrow> authState res \<times> 'w gin) list \<Rightarrow> 'w gin \<Rightarrow> bool res \<times> 'w gin" where
  "evaluate_loop [] s = (Inr False, s)"
| "evaluate_loop (h # hs) s =
     (case h s of
        (Inl Panic, s) \<Rightarrow> (Inl Panic, s)
      | (Inl (Err m), s) \<Rightarrow>
          if Err m = errCannotParseToken then (Inr True, abort 401 (Err m) s)
          else (Inr True, abort 500 (Err m) s)
      | (Inr authStateForbidden, s) \<Rightarrow> (Inr True, abort403 s)
      | (Inr authStateNotElevated, s) \<Rightarrow>
          (Inr True, abort 403 (Err ''session not elevated, use basic auth or call /client:elevate'') s)
      | (Inr authStateLocalAuthDisabled, s) \<Rightarrow>
          (Inr True, abort 403 (Err ''local authentication is disabled'') s)
      | (Inr authStateOk, s) \<Rightarrow> (Inr True, ctx_Next s)
      | (Inr authStateSkip, s) \<Rightarrow> evaluate_loop hs s
      | (Inr authStateMFARequired, s) \<Rightarrow> evaluate_loop hs s)"

definition evaluate ::
  "'w auth_env \<Rightarrow> ('w gin \<Rightarrow> authState res \<times> 'w gin) list \<Rightarrow> 'w gin \<Rightarrow> bool res \<times> 'w gin" where
  "evaluate env hs s =
     (case rejectForeignOrigin env s of
        (True, s) \<Rightarrow> (Inr True, s)
      | (False, s) \<Rightarrow> evaluate_loop hs s)"

definition evaluateOr401 ::
  "'w auth_env \<Rightarrow> ('w gin \<Rightarrow> authState res \<times> 'w gin) list \<Rightarrow> 'w gin \<Rightarrow> unit res \<times> 'w gin" where
  "evaluateOr401 env hs s =
     (case evaluate env hs s of
        (Inl e, s) \<Rightarrow> (Inl e, s)
      | (Inr handled, s) \<Rightarrow> (Inr (), if \<not> handled then abort401 s else s))"

definition adminHandlers :: "'w auth_env \<Rightarrow> ('w gin \<Rightarrow> authState res \<times> 'w gin) list" where
  "adminHandlers env =
     [handleUser env [checkUserAdmin env], handleClient env [checkClientAdmin env, checkClientElevated env]]"

definition RequireAdmin :: "'w auth_env \<Rightarrow> 'w gin \<Rightarrow> unit res \<times> 'w gin" where
  "RequireAdmin env = evaluateOr401 env (adminHandlers env)"

definition RequireAdminSession :: "'w auth_env \<Rightarrow> 'w gin \<Rightarrow> unit res \<times> 'w gin" where
  "RequireAdminSession env =
     evaluateOr401 env [handleUser env [checkUserAdmin env], handleClient env [checkClientAdmin env]]"

definition OptionalAdmin :: "'w auth_env \<Rightarrow> 'w gin \<Rightarrow> unit res \<times> 'w gin" where
  "OptionalAdmin env s =
     (case evaluate env (adminHandlers env) s of
        (Inl e, s) \<Rightarrow> (Inl e, s)
      | (Inr handled, s) \<Rightarrow> (Inr (), if \<not> handled then ctx_Next s else s))"

definition RequireClient :: "'w auth_env \<Rightarrow> 'w gin \<Rightarrow> unit res \<times> 'w gin" where
  "RequireClient env = evaluateOr401 env [handleUser env [], handleClient env []]"

definition RequireElevatedClient :: "'w auth_env \<Rightarrow> 'w gin \<Rightarrow> unit res \<times> 'w gin" where
  "RequireElevatedClient env =
     evaluateOr401 env [handleUser env [], handleClient env [checkClientElevated env]]"

definition RequireApplicationToken :: "'w auth_env \<Rightarrow> 'w gin \<Rightarrow> unit res \<times> 'w gin" where
  "RequireApplicationToken env s =
     (case evaluate env [handleApplication env] s of
        (Inl e, s) \<Rightarrow> (Inl e, s)
      | (Inr True, s) \<Rightarrow> (Inr (), s)
      | (Inr False, s) \<Rightarrow>
          (case handleUser env [] s of
             (Inl Panic, s) \<Rightarrow> (Inl Panic, s)
           | (Inl (Err m), s) \<Rightarrow> (Inr (), abort401 (abort 500 (Err m) s))
           | (Inr state, s) \<Rightarrow>
               (Inr (), if state \<noteq> authStateSkip then abort403 s else abort401 s)))"

definition RequireApplicationOrClient :: "'w auth_env \<Rightarrow> 'w gin \<Rightarrow> unit res \<times> 'w gin" where
  "RequireApplicationOrClient env =
     evaluateOr401 env [handleApplication env, handleClient env [], handleUser env []]"

end
