(* ===== verification/Auth_Guards.thy ===== *)
theory Auth_Guards
  imports Auth
begin

text \<open>
  What the authentication middleware guarantees: every request is answered once, who gets
  through which guard, and where the guards let through more than their contract says.
\<close>

section \<open>Frames\<close>

definition same_answers :: "'w gin \<Rightarrow> 'w gin \<Rightarrow> bool" where
  "same_answers s s' \<longleftrightarrow> ctx_request s' = ctx_request s \<and> ctx_aborts s' = ctx_aborts s \<and>
     ctx_nexts s' = ctx_nexts s \<and> ctx_service s' = ctx_service s"

definition answered_once :: "'w gin \<Rightarrow> 'w gin \<Rightarrow> bool" where
  "answered_once s s' \<longleftrightarrow> ctx_request s' = ctx_request s \<and>
     ((\<exists>a. ctx_aborts s' = ctx_aborts s @ [a] \<and> ctx_nexts s' = ctx_nexts s) \<or>
      (ctx_nexts s' = ctx_nexts s @ [getInfo s'] \<and> ctx_aborts s' = ctx_aborts s))"

definition answers_nothing :: "('w gin \<Rightarrow> authState res \<times> 'w gin) \<Rightarrow> bool" where
  "answers_nothing h \<longleftrightarrow> (\<forall>s r s'. h s = (r, s') \<longrightarrow> same_answers s s')"

lemma same_answers_refl [simp]: "same_answers s s"
  by (simp add: same_answers_def)

lemma same_answers_upd [simp]:
  "same_answers s (RegisterUser u s') \<longleftrightarrow> same_answers s s'"
  "same_answers s (RegisterClient c s') \<longleftrightarrow> same_answers s s'"
  "same_answers s (RegisterApplication a s') \<longleftrightarrow> same_answers s s'"
  "same_answers s (s'\<lparr>ctx_world := w\<rparr>) \<longleftrightarrow> same_answers s s'"
  "same_answers s (set_cookie env b t s') \<longleftrightarrow> same_answers s s'"
  "same_answers (RegisterClient c s) s' \<longleftrightarrow> same_answers s s'"
  "same_answers (s\<lparr>ctx_world := w\<rparr>) s' \<longleftrightarrow> same_answers s s'"
  by (auto simp: same_answers_def RegisterUser_def RegisterClient_def RegisterApplication_def
      set_cookie_def)

lemma ctx_request_upd [simp]:
  "ctx_request (RegisterUser u s) = ctx_request s" "ctx_request (RegisterClient c s) = ctx_request s"
  "ctx_request (RegisterApplication a s) = ctx_request s" "ctx_request (set_cookie env b t s) = ctx_request s"
  "ctx_world (RegisterUser u s) = ctx_world s" "ctx_world (RegisterClient c s) = ctx_world s"
  "ctx_world (set_cookie env b t s) = ctx_world s"
  by (auto simp: RegisterUser_def RegisterClient_def RegisterApplication_def set_cookie_def)

lemma finish_user_frame: "finish_user checks user s = (r, s') \<Longrightarrow> same_answers s s'"
  by (auto simp: finish_user_def)

lemma finish_client_frame:
  "finish_client env checks client token isCookie s = (r, s') \<Longrightarrow> same_answers s s'"
  by (auto simp: finish_client_def Let_def split: if_splits option.splits prod.splits sum.splits)

lemma handleUser_frame: "answers_nothing (handleUser env checks)"
  unfolding answers_nothing_def
  by (auto simp: handleUser_def Let_def dest!: finish_user_frame
      split: if_splits option.splits prod.splits sum.splits)

lemma handleClient_frame: "answers_nothing (handleClient env checks)"
  unfolding answers_nothing_def
  by (auto simp: handleClient_def Let_def dest!: finish_client_frame
      split: if_splits option.splits prod.splits sum.splits)

lemma handleApplication_frame: "answers_nothing (handleApplication env)"
  unfolding answers_nothing_def
  by (auto simp: handleApplication_def Let_def
      split: if_splits option.splits prod.splits sum.splits)

lemmas handler_frames = handleUser_frame handleClient_frame handleApplication_frame

lemma answered_abort: "same_answers s s1 \<Longrightarrow> answered_once s (abort code e s1)"
  by (simp add: same_answers_def answered_once_def abort_def)

lemma answered_next: "same_answers s s1 \<Longrightarrow> answered_once s (ctx_Next s1)"
  by (simp add: same_answers_def answered_once_def ctx_Next_def getInfo_def)

lemma same_answers_trans: "same_answers s s1 \<Longrightarrow> same_answers s1 s2 \<Longrightarrow> same_answers s s2"
  by (simp add: same_answers_def)

text \<open>What the loop over the handlers ends with: an answer, from a handler that said OK if it goes on.\<close>

fun let_through ::
  "('w gin \<Rightarrow> authState res \<times> 'w gin) list \<Rightarrow> 'w gin \<Rightarrow> 'w gin \<Rightarrow> bool" where
  "let_through [] s s' \<longleftrightarrow> False"
| "let_through (h # hs) s s' \<longleftrightarrow>
     (\<exists>s1. h s = (Inr authStateOk, s1) \<and> s' = ctx_Next s1) \<or> let_through hs (snd (h s)) s'"

lemma evaluate_loop_cases:
  assumes "\<forall>h \<in> set hs. answers_nothing h" "evaluate_loop hs s = (Inr b, s')"
  shows "if b then answered_once s s' \<and> (let_through hs s s' \<or> ctx_nexts s' = ctx_nexts s)
         else same_answers s s'"
  using assms
proof (induction hs arbitrary: s)
  case Nil
  then show ?case by simp
next
  case (Cons h hs)
  obtain r s1 where h: "h s = (r, s1)" by (cases "h s")
  then have frame: "same_answers s s1" using Cons.prems(1) by (auto simp: answers_nothing_def)
  then have nexts: "ctx_nexts (abort code e s1) = ctx_nexts s" for code e
    by (simp add: same_answers_def abort_def)
  have recurse: ?case if "evaluate_loop hs s1 = (Inr b, s')"
  proof -
    note ih = Cons.IH [OF _ that] Cons.prems(1)
    have "let_through hs s1 s' \<Longrightarrow> let_through (h # hs) s s'" using h by simp
    moreover have "answered_once s1 s' \<Longrightarrow> answered_once s s'"
      using frame by (simp add: same_answers_def answered_once_def)
    moreover have "ctx_nexts s1 = ctx_nexts s" using frame by (simp add: same_answers_def)
    ultimately show ?thesis using ih frame same_answers_trans [OF frame] by (auto split: if_splits)
  qed
  show ?case
  proof (cases r)
    case (Inl e)
    then show ?thesis
      using Cons.prems(2) h answered_abort [OF frame] nexts by (cases e) (auto split: if_splits)
  next
    case (Inr st)
    show ?thesis
    proof (cases st)
      case authStateOk
      then have "b" "s' = ctx_Next s1" using Cons.prems(2) h Inr by auto
      moreover have "let_through (h # hs) s (ctx_Next s1)"
        using h Inr authStateOk by simp
      ultimately show ?thesis using answered_next [OF frame] by simp
    qed (use Cons.prems(2) h Inr recurse answered_abort [OF frame] nexts in
        \<open>auto simp: abort403_def\<close>)
  qed
qed

lemma evaluate_cases:
  assumes "\<forall>h \<in> set hs. answers_nothing h" "evaluate env hs s = (Inr b, s')"
  shows "if b then answered_once s s' \<and> (let_through hs s s' \<or> ctx_nexts s' = ctx_nexts s)
         else same_answers s s'"
proof (cases "fst (rejectForeignOrigin env s)")
  case True
  then have "b" "answered_once s s'" "ctx_nexts s' = ctx_nexts s"
    using assms(2)
    by (auto simp: evaluate_def rejectForeignOrigin_def answered_once_def abort_def
        split: if_splits option.splits)
  then show ?thesis by simp
next
  case False
  then have "snd (rejectForeignOrigin env s) = s"
    by (auto simp: rejectForeignOrigin_def split: if_splits option.splits)
  with False show ?thesis
    using evaluate_loop_cases [OF assms(1), of s b s'] assms(2)
    by (auto simp: evaluate_def split: prod.splits bool.splits)
qed

text \<open>The contract of a guard: it answers every request exactly once.\<close>

locale guard =
  fixes mw :: "'w gin \<Rightarrow> unit res \<times> 'w gin" and hs :: "('w gin \<Rightarrow> authState res \<times> 'w gin) list"
  assumes answers: "mw s = (Inr (), s') \<Longrightarrow> answered_once s s' \<and> (let_through hs s s' \<or> ctx_nexts s' = ctx_nexts s)"
begin

lemma through:
  assumes "mw s = (Inr (), s')" "ctx_nexts s' \<noteq> ctx_nexts s"
  shows "let_through hs s s' \<and> ctx_nexts s' = ctx_nexts s @ [getInfo s'] \<and> ctx_aborts s' = ctx_aborts s"
  using answers [OF assms(1)] assms(2) by (auto simp: answered_once_def)

lemma aborted: "mw s = (Inr (), s') \<Longrightarrow> ctx_nexts s' = ctx_nexts s \<Longrightarrow> \<exists>a. ctx_aborts s' = ctx_aborts s @ [a]"
  using answers [of s s'] by (auto simp: answered_once_def)

end

lemma evaluateOr401_answers:
  assumes "\<forall>h \<in> set hs. answers_nothing h" "evaluateOr401 env hs s = (Inr (), s')"
  shows "answered_once s s' \<and> (let_through hs s s' \<or> ctx_nexts s' = ctx_nexts s)"
proof -
  obtain b s1 where e: "evaluate env hs s = (Inr b, s1)" "s' = (if \<not> b then abort401 s1 else s1)"
    using assms(2) by (auto simp: evaluateOr401_def split: prod.splits sum.splits)
  show ?thesis
  proof (cases b)
    case True
    then show ?thesis using evaluate_cases [OF assms(1) e(1)] e(2) by simp
  next
    case False
    then show ?thesis
      using evaluate_cases [OF assms(1) e(1)] e(2) answered_abort [of s s1]
      by (auto simp: abort401_def abort_def same_answers_def)
  qed
qed

lemma evaluateOr401_guard: "\<forall>h \<in> set hs. answers_nothing h \<Longrightarrow> guard (evaluateOr401 env hs) hs"
  by (rule guard.intro) (rule evaluateOr401_answers)

interpretation admin: guard "RequireAdmin env" "adminHandlers env" for env
  unfolding RequireAdmin_def
  by (rule evaluateOr401_guard) (simp add: adminHandlers_def handler_frames)

interpretation session: guard "RequireAdminSession env"
  "[handleUser env [checkUserAdmin env], handleClient env [checkClientAdmin env]]" for env
  unfolding RequireAdminSession_def by (rule evaluateOr401_guard) (simp add: handler_frames)

interpretation client: guard "RequireClient env" "[handleUser env [], handleClient env []]" for env
  unfolding RequireClient_def by (rule evaluateOr401_guard) (simp add: handler_frames)

interpretation elevated: guard "RequireElevatedClient env"
  "[handleUser env [], handleClient env [checkClientElevated env]]" for env
  unfolding RequireElevatedClient_def by (rule evaluateOr401_guard) (simp add: handler_frames)

interpretation app_or_client: guard "RequireApplicationOrClient env"
  "[handleApplication env, handleClient env [], handleUser env []]" for env
  unfolding RequireApplicationOrClient_def by (rule evaluateOr401_guard) (simp add: handler_frames)

section \<open>What a handler that says OK has checked\<close>

lemma run_checks_Cons_Ok:
  "run_checks (c # cs) x w = Inr authStateOk \<longleftrightarrow> c x w = Inr authStateOk \<and> run_checks cs x w = Inr authStateOk"
  by (auto split: sum.splits)

lemma getInfo_registered [simp]:
  "getInfo (RegisterUser u s) = no_auth\<lparr>au_user := Some u\<rparr>"
  "getInfo (RegisterClient c s) = no_auth\<lparr>au_client := Some c\<rparr>"
  "getInfo (RegisterApplication a s) = no_auth\<lparr>au_app := Some a\<rparr>"
  "getInfo (s\<lparr>ctx_world := w\<rparr>) = getInfo s" "getInfo (set_cookie env b t s) = getInfo s"
  by (simp_all add: getInfo_def RegisterUser_def RegisterClient_def RegisterApplication_def set_cookie_def)

lemma finish_user_ok:
  "finish_user checks user s = (Inr authStateOk, s') \<Longrightarrow>
     getInfo s' = no_auth\<lparr>au_user := Some user\<rparr> \<and> run_checks checks user (ctx_world s') = Inr authStateOk"
  by (auto simp: finish_user_def)

lemma handleUser_ok:
  assumes "handleUser env checks s = (Inr authStateOk, s')"
  shows "\<exists>name pass user. rq_basic (ctx_request s) = Some (name, pass) \<and> LocalAuthEnabled env \<and>
     GetUserByName env name (ctx_world s) = Inr (Some user) \<and> ComparePassword env (usr_Pass user) pass \<and>
     getInfo s' = no_auth\<lparr>au_user := Some user\<rparr> \<and> run_checks checks user (ctx_world s') = Inr authStateOk"
  using assms
  by (auto simp: handleUser_def Let_def dest!: finish_user_ok
      split: if_splits option.splits prod.splits sum.splits)

lemma finish_client_ok:
  "finish_client env checks c token isCookie s = (Inr authStateOk, s') \<Longrightarrow>
     getInfo s' = getInfo s \<and> run_checks checks c (ctx_world s') = Inr authStateOk"
  by (auto simp: finish_client_def Let_def split: if_splits option.splits prod.splits sum.splits)

definition mfa_satisfied :: "'w auth_env \<Rightarrow> client \<Rightarrow> string \<Rightarrow> 'w \<Rightarrow> bool" where
  "mfa_satisfied env c path w \<longleftrightarrow>
     (\<exists>policy. GetSecurityPolicy env w = Inr policy \<and>
        (pol_RequireMFAForAllLocalUsers policy \<longrightarrow> cl_MFAAuthenticated c \<or> mfa_exempt_path path \<or>
           GetUserByID env (cl_UserID c) w = Inr None \<or>
           (\<exists>u. GetUserByID env (cl_UserID c) w = Inr (Some u) \<and> (usr_OIDCID u \<noteq> None \<or> usr_LDAPID u \<noteq> None))))"

lemma handleClient_ok:
  assumes "handleClient env checks s = (Inr authStateOk, s')"
  shows "\<exists>stored c. fst (readTokenFromRequest (ctx_request s)) \<noteq> '''' \<and>
     stored_token env (fst (readTokenFromRequest (ctx_request s))) (ctx_world s) = Inr (Some stored) \<and>
     GetClientByToken env stored (ctx_world s) = Inr (Some c) \<and>
     getInfo s' = no_auth\<lparr>au_client := Some c\<rparr> \<and> run_checks checks c (ctx_world s') = Inr authStateOk \<and>
     mfa_satisfied env c (rq_path (ctx_request s)) (ctx_world s)"
  using assms
  by (auto simp: handleClient_def Let_def mfa_satisfied_def dest!: finish_client_ok
      split: if_splits option.splits prod.splits sum.splits)

lemma checkClientAdmin_ok:
  "checkClientAdmin env c w = Inr authStateOk \<Longrightarrow>
     \<exists>u. GetUserByID env (cl_UserID c) w = Inr (Some u) \<and> usr_Admin u"
  by (auto simp: checkClientAdmin_def split: if_splits option.splits sum.splits)

lemma checkClientElevated_ok:
  "checkClientElevated env c w = Inr authStateOk \<Longrightarrow> \<exists>t. cl_ElevatedUntil c = Some t \<and> timeNow env w < t"
  by (auto simp: checkClientElevated_def split: if_splits option.splits)

lemma checkUserAdmin_ok: "checkUserAdmin env u w = Inr authStateOk \<Longrightarrow> usr_Admin u"
  by (auto simp: checkUserAdmin_def split: if_splits)

section \<open>Properties of the guards\<close>

text \<open>
  Every guard answers every request exactly once, by one abort or by one call of the next handler,
  never both and never neither, whatever the database answers.
\<close>

theorem guards_answer_once:
  assumes "mw \<in> {RequireAdmin env, RequireAdminSession env, RequireClient env,
      RequireElevatedClient env, RequireApplicationOrClient env}"
    and "mw s = (Inr (), s')"
  shows "length (ctx_aborts s') + length (ctx_nexts s') = Suc (length (ctx_aborts s) + length (ctx_nexts s)) \<and>
     ctx_request s' = ctx_request s \<and> (\<forall>info \<in> set (ctx_nexts s') - set (ctx_nexts s). info = getInfo s')"
proof -
  have "answered_once s s'"
    using assms admin.answers session.answers client.answers elevated.answers app_or_client.answers
    by blast
  then show ?thesis by (auto simp: answered_once_def)
qed

text \<open>A small server for the witnesses: two users, one client, a policy; the world is the list of users.\<close>

definition demo_user :: "nat \<Rightarrow> string \<Rightarrow> bool \<Rightarrow> user" where
  "demo_user i name admin = \<lparr>usr_ID = i, usr_Name = name, usr_DisplayName = '''', usr_Pass = [],
     usr_Admin = admin, usr_CreatedAt = 0, usr_Applications = [], usr_Clients = [], usr_Plugins = [],
     usr_OIDCID = None, usr_LDAPID = None\<rparr>"

definition demo_client :: "nat \<Rightarrow> client" where
  "demo_client uid = \<lparr>cl_ID = 1, cl_Token = ''Ctok'', cl_UserID = uid, cl_Name = ''phone'', cl_CreatedAt = 0,
     cl_LastUsed = Some 900, cl_ElevatedUntil = Some 2000, cl_MFAAuthenticated = False,
     cl_ExpiresAfterInactivitySeconds = 0, cl_ExpiresAt = None\<rparr>"

definition demo_policy :: "bool \<Rightarrow> security_policy" where
  "demo_policy mfa = \<lparr>pol_MinimumPasswordLength = 0, pol_SessionInactivityMinutes = 0, pol_ElevationMinutes = 15,
     pol_RequireMFAForAdmins = False, pol_RequireMFAForAllLocalUsers = mfa, pol_AuditRetentionDays = 0\<rparr>"

definition demo_env :: "bool \<Rightarrow> nat \<Rightarrow> user list auth_env" where
  "demo_env mfa uid = \<lparr>GetApplicationByToken = (\<lambda>t w. Inr None),
     GetClientByToken = (\<lambda>t w. Inr (if t = ''Ctok'' then Some (demo_client uid) else None)),
     GetUserByName = (\<lambda>n w. Inr (find (\<lambda>u. usr_Name u = n) w)),
     GetUserByID = (\<lambda>i w. Inr (find (\<lambda>u. usr_ID u = i) w)),
     UpdateClientTokensLastUsedAndExpiresAt = (\<lambda>ts t w. (Inr (), w)),
     UpdateApplicationTokenLastUsed = (\<lambda>t n w. (Inr (), w)),
     GetUserMFA = (\<lambda>i w. Inr None), ConsumeRecoveryCode = (\<lambda>i h w. (Inr False, w)),
     GetSecurityPolicy = (\<lambda>w. Inr (demo_policy mfa)), timeNow = (\<lambda>w. 1000),
     ComparePassword = (\<lambda>h p. False), CrossOriginCheck = (\<lambda>r. None), SecureCookie = True,
     LocalAuthEnabled = True, env_crypto = demo_crypto, env_ed = demo_ed\<rparr>"

definition demo_request :: "user list gin" where
  "demo_request = \<lparr>ctx_request = \<lparr>rq_query = (\<lambda>_. ''''),
       rq_header = (\<lambda>h. if h = ''X-Gotify-Key'' then ''Ctok'' else ''''), rq_cookie = (\<lambda>_. None),
       rq_basic = None, rq_path = ''/user''\<rparr>, ctx_auth = None, ctx_service = None, ctx_aborts = [],
     ctx_cookies = [], ctx_nexts = [],
     ctx_world = [demo_user 1 ''admin'' True, demo_user 2 ''bob'' False]\<rparr>"

lemmas demo_auth_simps = demo_env_def demo_request_def demo_client_def demo_user_def demo_policy_def
  evaluateOr401_def evaluate_def rejectForeignOrigin_def readTokenFromRequest_def tokenFromQuery_def
  tokenFromXGotifyHeader_def headerName_def handleUser_def handleClient_def stored_token_def
  enhancedTokenPrefix_def finish_client_def mfa_exempt_path_def strings_HasPrefix_def
  RegisterClient_def minute_def second_def

theorem guards_answer_once_witness:
  "\<exists>s'. RequireClient (demo_env False 2) demo_request = (Inr (), s') \<and>
     length (ctx_aborts s') + length (ctx_nexts s') = 1"
proof -
  obtain s' where s': "RequireClient (demo_env False 2) demo_request = (Inr (), s')"
    by (simp add: RequireClient_def demo_auth_simps)
  then show ?thesis
    using guards_answer_once [of "RequireClient (demo_env False 2)" "demo_env False 2" demo_request s']
    by (simp add: demo_request_def)
qed

text \<open>
  Property C2. Only administrators get through \<open>RequireAdmin\<close>: either an administrator whose password
  matched, with local authentication enabled, or a client whose token the database knows, whose
  user is an administrator, and whose session is elevated at that moment.
\<close>

theorem require_admin_only_admins:
  assumes "RequireAdmin env s = (Inr (), s')" "ctx_nexts s' \<noteq> ctx_nexts s"
  shows "\<exists>info. ctx_nexts s' = ctx_nexts s @ [info] \<and> ctx_aborts s' = ctx_aborts s \<and>
     ((\<exists>u name pass. info = no_auth\<lparr>au_user := Some u\<rparr> \<and> usr_Admin u \<and> LocalAuthEnabled env \<and>
         rq_basic (ctx_request s) = Some (name, pass) \<and>
         GetUserByName env name (ctx_world s) = Inr (Some u) \<and> ComparePassword env (usr_Pass u) pass) \<or>
      (\<exists>c u t. info = no_auth\<lparr>au_client := Some c\<rparr> \<and>
         GetUserByID env (cl_UserID c) (ctx_world s') = Inr (Some u) \<and> usr_Admin u \<and>
         cl_ElevatedUntil c = Some t \<and> timeNow env (ctx_world s') < t))"
proof -
  have t: "let_through (adminHandlers env) s s'" "ctx_nexts s' = ctx_nexts s @ [getInfo s']"
    "ctx_aborts s' = ctx_aborts s"
    using admin.through [OF assms] by auto
  then consider (user) s2 where "handleUser env [checkUserAdmin env] s = (Inr authStateOk, s2)" "s' = ctx_Next s2"
    | (client) s1 s2 where
      "handleClient env [checkClientAdmin env, checkClientElevated env] s1 = (Inr authStateOk, s2)"
      "s' = ctx_Next s2"
    by (auto simp: adminHandlers_def)
  then show ?thesis
  proof cases
    case user
    then have "getInfo s' = getInfo s2" by (simp add: getInfo_def ctx_Next_def)
    with handleUser_ok [OF user(1)] show ?thesis
      using t(2,3) by (auto simp: run_checks_Cons_Ok dest!: checkUserAdmin_ok simp del: run_checks.simps(2))
  next
    case client
    then have "getInfo s' = getInfo s2" "ctx_world s' = ctx_world s2"
      by (simp_all add: getInfo_def ctx_Next_def)
    with handleClient_ok [OF client(1)] show ?thesis
      using t(2,3)
      by (fastforce simp: run_checks_Cons_Ok dest!: checkClientAdmin_ok checkClientElevated_ok
          simp del: run_checks.simps(2))
  qed
qed

theorem require_admin_only_admins_witness:
  "\<exists>s' info c. RequireAdmin (demo_env False 1) demo_request = (Inr (), s') \<and> ctx_nexts s' = [info] \<and>
     au_client info = Some c \<and> cl_UserID c = 1"
proof -
  obtain s' where s': "RequireAdmin (demo_env False 1) demo_request = (Inr (), s')"
    "ctx_nexts s' = [no_auth\<lparr>au_client := Some (demo_client 1)\<rparr>]"
    by (simp add: RequireAdmin_def adminHandlers_def checkClientAdmin_def checkClientElevated_def
        ctx_Next_def getInfo_def demo_auth_simps)
  then show ?thesis
    using require_admin_only_admins [OF s'(1)] by (auto simp: demo_request_def demo_client_def)
qed

text \<open>
  Property C3. Where the policy requires a second factor of all local users, a client token gets through
  \<open>RequireClient\<close> only if its session has one, its user does not log in locally, or the
  request is for one of the paths that set the factor up.
\<close>

theorem require_client_enforces_mfa:
  assumes "RequireClient env s = (Inr (), s')" "ctx_nexts s' \<noteq> ctx_nexts s"
    and "rq_basic (ctx_request s) = None"
  shows "\<exists>c stored. ctx_nexts s' = ctx_nexts s @ [no_auth\<lparr>au_client := Some c\<rparr>] \<and>
     stored_token env (fst (readTokenFromRequest (ctx_request s))) (ctx_world s) = Inr (Some stored) \<and>
     GetClientByToken env stored (ctx_world s) = Inr (Some c) \<and>
     mfa_satisfied env c (rq_path (ctx_request s)) (ctx_world s)"
proof -
  have u: "handleUser env [] s = (Inr authStateSkip, s)" using assms(3) by (simp add: handleUser_def)
  have "\<not> fst (rejectForeignOrigin env s)"
    using assms(1,2)
    by (auto simp: RequireClient_def evaluateOr401_def evaluate_def rejectForeignOrigin_def abort_def
        split: if_splits option.splits)
  then have r: "rejectForeignOrigin env s = (False, s)"
    by (auto simp: rejectForeignOrigin_def split: if_splits option.splits)
  obtain x s2 where x: "handleClient env [] s = (x, s2)" by (cases "handleClient env [] s")
  then have fr: "ctx_nexts s2 = ctx_nexts s"
    using handleClient_frame unfolding answers_nothing_def same_answers_def by blast
  have "x = Inr authStateOk \<and> s' = ctx_Next s2"
    using assms(1,2) u r x fr
    by (auto simp: RequireClient_def evaluateOr401_def evaluate_def abort_def abort403_def abort401_def
        split: sum.splits fail.splits authState.splits if_splits)
  with x fr handleClient_ok [of env "[]" s s2] show ?thesis by (auto simp: ctx_Next_def)
qed

theorem require_client_enforces_mfa_witness:
  "\<exists>s' c. RequireClient (demo_env False 2) demo_request = (Inr (), s') \<and>
     ctx_nexts s' = [no_auth\<lparr>au_client := Some c\<rparr>] \<and> mfa_satisfied (demo_env False 2) c ''/user'' (ctx_world demo_request)"
proof -
  obtain s' where s': "RequireClient (demo_env False 2) demo_request = (Inr (), s')" "ctx_nexts s' \<noteq> []"
    by (simp add: RequireClient_def ctx_Next_def demo_auth_simps)
  then show ?thesis
    using require_client_enforces_mfa [OF s'(1)] by (auto simp: demo_request_def)
qed

text \<open>
  Requests from a foreign origin that rely on the session cookie are refused before any handler runs:
  one abort with status 403, nothing registered, no database call.
\<close>

theorem foreign_origin_refused:
  assumes "tokenFromQuery r = ''''" "tokenFromXGotifyHeader r = ''''" "tokenFromAuthorizationHeader r = ''''"
    and "rq_cookie r cookieName = Some token" "token \<noteq> ''''" "CrossOriginCheck env r = Some e"
    and "ctx_request s = r"
    and "mw \<in> {RequireAdmin env, RequireAdminSession env, OptionalAdmin env, RequireClient env,
      RequireElevatedClient env, RequireApplicationToken env, RequireApplicationOrClient env}"
  shows "mw s = (Inr (), s\<lparr>ctx_aborts := ctx_aborts s @ [(403, e)]\<rparr>)"
proof -
  have "rejectForeignOrigin env s = (True, abort 403 e s)"
    using assms(1-7) by (simp add: rejectForeignOrigin_def readTokenFromRequest_def tokenFromCookie_def)
  then have "evaluate env hs s = (Inr True, abort 403 e s)" for hs by (simp add: evaluate_def)
  then show ?thesis
    using assms(8)
    by (auto simp: RequireAdmin_def RequireAdminSession_def OptionalAdmin_def RequireClient_def
        RequireElevatedClient_def RequireApplicationToken_def RequireApplicationOrClient_def
        evaluateOr401_def abort_def)
qed

theorem foreign_origin_refused_witness:
  "RequireClient ((demo_env False 2)\<lparr>CrossOriginCheck := (\<lambda>r. Some (Err ''cross-origin''))\<rparr>)
     (demo_request\<lparr>ctx_request := \<lparr>rq_query = (\<lambda>_. ''''), rq_header = (\<lambda>_. ''''),
        rq_cookie = (\<lambda>_. Some ''Ctok''), rq_basic = None, rq_path = ''/user''\<rparr>\<rparr>) =
   (Inr (), demo_request\<lparr>ctx_request := \<lparr>rq_query = (\<lambda>_. ''''), rq_header = (\<lambda>_. ''''),
        rq_cookie = (\<lambda>_. Some ''Ctok''), rq_basic = None, rq_path = ''/user''\<rparr>,
        ctx_aborts := [(403, Err ''cross-origin'')]\<rparr>)"
  by (subst foreign_origin_refused [where token = "''Ctok''" and e = "Err ''cross-origin''"
        and env = "(demo_env False 2)\<lparr>CrossOriginCheck := (\<lambda>r. Some (Err ''cross-origin''))\<rparr>"])
    (simp_all add: tokenFromQuery_def tokenFromXGotifyHeader_def tokenFromAuthorizationHeader_def
      demo_request_def)

text \<open>
  A defect: a signed token whose signature does not verify is a client error, but the middleware only
  maps parse errors to 401 and answers \<open>errInvalidToken\<close> with the status of a server error.
\<close>

theorem invalid_signature_is_server_error:
  assumes "ParseEnhancedToken (env_ed env) token = Inl errInvalidToken"
    and "readTokenFromRequest (ctx_request s) = (token, False)" "strings_HasPrefix token enhancedTokenPrefix"
    and "rq_basic (ctx_request s) = None"
  shows "RequireClient env s = (Inr (), s\<lparr>ctx_aborts := ctx_aborts s @ [(500, errInvalidToken)]\<rparr>)"
proof -
  have "token \<noteq> ''''" using assms(3) by (auto simp: strings_HasPrefix_def enhancedTokenPrefix_def)
  then have "handleClient env [] s = (Inl errInvalidToken, s)"
    using assms by (simp add: handleClient_def stored_token_def strings_HasPrefix_def)
  moreover have "handleUser env [] s = (Inr authStateSkip, s)" using assms(4) by (simp add: handleUser_def)
  moreover have "rejectForeignOrigin env s = (False, s)" using assms(2) by (simp add: rejectForeignOrigin_def)
  ultimately show ?thesis
    by (simp add: RequireClient_def evaluateOr401_def evaluate_def errInvalidToken_def
        errCannotParseToken_def abort_def)
qed

definition forged_token :: string where
  "forged_token = enhancedTokenPrefix @ ''c'' @ ''.'' @ b64url (replicate 32 1) @ ''.'' @ show_int 0 @
     ''.'' @ b64url (replicate 64 2)"

theorem invalid_signature_is_server_error_witness:
  "RequireClient (demo_env False 2)
     (demo_request\<lparr>ctx_request := (ctx_request demo_request)\<lparr>rq_header := (\<lambda>h. if h = headerName then forged_token else '''')\<rparr>\<rparr>) =
   (Inr (), demo_request\<lparr>ctx_request := (ctx_request demo_request)\<lparr>rq_header := (\<lambda>h. if h = headerName then forged_token else '''')\<rparr>,
      ctx_aborts := [(500, errInvalidToken)]\<rparr>)"
proof -
  have p: "ParseEnhancedToken demo_ed forged_token = Inl errInvalidToken"
    using parse_signed [of "''c''" "replicate 32 1" "replicate 64 2" 0 demo_ed]
    by (simp add: forged_token_def demo_ed_def min_int64_def max_int64_def)
  have "forged_token \<noteq> ''''" "strings_HasPrefix forged_token enhancedTokenPrefix"
    by (simp_all add: forged_token_def enhancedTokenPrefix_def strings_HasPrefix_def)
  then show ?thesis
    using p
    by (subst invalid_signature_is_server_error [where token = forged_token])
      (simp_all add: demo_env_def demo_request_def readTokenFromRequest_def tokenFromQuery_def
        tokenFromXGotifyHeader_def)
qed

end
