(* ===== verification/Users.thy ===== *)
theory Users
  imports Auth_Guards
begin

text \<open>
  The user handlers: \<open>src/api/user.go\<close> and \<open>src/auth/password\<close>. The \<open>UserDatabase\<close> interface,
  bcrypt and the callbacks of \<open>UserChangeNotifier\<close> are fields of the record \<open>user_api\<close> over
  the same world as the middleware. A handler returns the body of its answer, if it has one, and
  the context; aborts are recorded in the context. \<open>bound\<close> is what \<open>ctx.Bind\<close> delivers.
\<close>

section \<open>The code\<close>

record 'w user_api =
  ua_GetUserByID :: "nat \<Rightarrow> 'w \<Rightarrow> user option res"
  ua_GetUserByName :: "string \<Rightarrow> 'w \<Rightarrow> user option res"
  ua_CountAdmins :: "'w \<Rightarrow> int res"
  ua_GetApplicationsByUser :: "nat \<Rightarrow> 'w \<Rightarrow> application list res"
  ua_CountApplicationMemberships :: "nat \<Rightarrow> 'w \<Rightarrow> int res"
  ua_GetSecurityPolicy :: "'w \<Rightarrow> security_policy res"
  ua_CreateUser :: "user \<Rightarrow> 'w \<Rightarrow> user res \<times> 'w"
  ua_UpdateUser :: "user \<Rightarrow> 'w \<Rightarrow> unit res \<times> 'w"
  ua_DeleteUserByID :: "nat \<Rightarrow> 'w \<Rightarrow> unit res \<times> 'w"
  ua_GenerateFromPassword :: "string \<Rightarrow> bytes res"
  ua_Registration :: bool
  ua_userDeletedCallbacks :: "(nat \<Rightarrow> 'w \<Rightarrow> unit res \<times> 'w) list"
  ua_userAddedCallbacks :: "(nat \<Rightarrow> 'w \<Rightarrow> unit res \<times> 'w) list"

text \<open>\<open>fireUserDeleted\<close> and \<open>fireUserAdded\<close>: the first failing callback ends the run.\<close>

fun fire :: "(nat \<Rightarrow> 'w \<Rightarrow> unit res \<times> 'w) list \<Rightarrow> nat \<Rightarrow> 'w \<Rightarrow> unit res \<times> 'w" where
  "fire [] uid w = (Inr (), w)"
| "fire (cb # cbs) uid w = (case cb uid w of (Inl e, w) \<Rightarrow> (Inl e, w) | (Inr _, w) \<Rightarrow> fire cbs uid w)"

definition ValidateNewPassword :: "string \<Rightarrow> unit res" where
  "ValidateNewPassword pw =
     (if pw = '''' then Inl (Err ''password must not be empty'')
      else if length pw > 72 then Inl (Err ''bcrypt: password length exceeds 72 bytes'')
      else Inr ())"

definition validatePassword :: "'w user_api \<Rightarrow> string \<Rightarrow> 'w \<Rightarrow> unit res" where
  "validatePassword api value w =
     res_bind (ValidateNewPassword value) (\<lambda>_.
     res_bind (ua_GetSecurityPolicy api w) (\<lambda>policy.
       if int (length (strings_explode value)) < pol_MinimumPasswordLength policy
       then Inl (Err (''password must be at least '' @ show_int (pol_MinimumPasswordLength policy) @ '' characters''))
       else Inr ()))"

definition toExternalUser :: "user \<Rightarrow> user_external" where
  "toExternalUser u = \<lparr>uex_ID = usr_ID u, uex_Name = usr_Name u, uex_DisplayName = usr_DisplayName u,
     uex_Admin = usr_Admin u, uex_CreatedAt = usr_CreatedAt u\<rparr>"

definition new_user :: "create_user_external \<Rightarrow> bytes \<Rightarrow> user" where
  "new_user r pw = \<lparr>usr_ID = 0, usr_Name = cue_Name r, usr_DisplayName = cue_DisplayName r, usr_Pass = pw,
     usr_Admin = cue_Admin r, usr_CreatedAt = zero_time, usr_Applications = [], usr_Clients = [],
     usr_Plugins = [], usr_OIDCID = None, usr_LDAPID = None\<rparr>"

definition aborted :: "nat \<Rightarrow> fail \<Rightarrow> 'w gin \<Rightarrow> 'a option \<times> 'w gin" where
  "aborted code e s = (None, abort code e s)"

definition CreateUser :: "'w user_api \<Rightarrow> create_user_external res \<Rightarrow> 'w gin \<Rightarrow> user_external option \<times> 'w gin" where
  "CreateUser api bound s =
     (case bound of
        Inl e \<Rightarrow> aborted 400 e s
      | Inr user \<Rightarrow>
          if TryGetUserID s = None \<and> \<not> ua_Registration api
          then aborted 401 (Err ''you are not allowed to access this api'') s
          else if TryGetUserID s = None \<and> cue_Admin user
          then aborted 401 (Err ''you are not allowed to create an admin user'') s
          else case validatePassword api (cue_Pass user) (ctx_world s) of
            Inl e \<Rightarrow> aborted 400 e s
          | Inr _ \<Rightarrow>
              case ua_GenerateFromPassword api (cue_Pass user) of
                Inl e \<Rightarrow> aborted 500 e s
              | Inr pw \<Rightarrow>
                  case ua_GetUserByName api (cue_Name user) (ctx_world s) of
                    Inl e \<Rightarrow> aborted 500 e s
                  | Inr (Some _) \<Rightarrow> aborted 400 (Err ''username already exists'') s
                  | Inr None \<Rightarrow>
                      case ua_CreateUser api (new_user user pw) (ctx_world s) of
                        (Inl e, w) \<Rightarrow> aborted 500 e (s\<lparr>ctx_world := w\<rparr>)
                      | (Inr internal, w) \<Rightarrow>
                          case fire (ua_userAddedCallbacks api) (usr_ID internal) w of
                            (Inl e, w) \<Rightarrow> aborted 500 e (s\<lparr>ctx_world := w\<rparr>)
                          | (Inr _, w) \<Rightarrow> (Some (toExternalUser internal), s\<lparr>ctx_world := w\<rparr>))"

text \<open>The check of \<open>DeleteUserByID\<close> that no channel of the user is shared.\<close>

fun owned_channels_unshared :: "'w user_api \<Rightarrow> application list \<Rightarrow> 'w \<Rightarrow> unit + (nat \<times> fail)" where
  "owned_channels_unshared api [] w = Inl ()"
| "owned_channels_unshared api (app # apps) w =
     (case ua_CountApplicationMemberships api (app_ID app) w of
        Inl e \<Rightarrow> Inr (500, e)
      | Inr memberCount \<Rightarrow>
          if memberCount > 1
          then Inr (400, Err (''user owns shared channel '' @ app_Name app @
                 ''; transfer channel ownership before deleting the user''))
          else owned_channels_unshared api apps w)"

definition DeleteUserByID :: "'w user_api \<Rightarrow> nat \<Rightarrow> 'w gin \<Rightarrow> unit option \<times> 'w gin" where
  "DeleteUserByID api i s =
     (case ua_GetUserByID api i (ctx_world s) of
        Inl e \<Rightarrow> aborted 500 e s
      | Inr None \<Rightarrow> aborted 404 (Err ''user does not exist'') s
      | Inr (Some user) \<Rightarrow>
          case ua_CountAdmins api (ctx_world s) of
            Inl e \<Rightarrow> aborted 500 e s
          | Inr adminCount \<Rightarrow>
              if usr_Admin user \<and> adminCount = 1 then aborted 400 (Err ''cannot delete last admin'') s
              else case ua_GetApplicationsByUser api i (ctx_world s) of
                Inl e \<Rightarrow> aborted 500 e s
              | Inr apps \<Rightarrow>
                  case owned_channels_unshared api apps (ctx_world s) of
                    Inr (code, e) \<Rightarrow> aborted code e s
                  | Inl _ \<Rightarrow>
                      case fire (ua_userDeletedCallbacks api) i (ctx_world s) of
                        (Inl e, w) \<Rightarrow> aborted 500 e (s\<lparr>ctx_world := w\<rparr>)
                      | (Inr _, w) \<Rightarrow>
                          case ua_DeleteUserByID api i w of
                            (Inl e, w) \<Rightarrow> aborted 500 e (s\<lparr>ctx_world := w\<rparr>)
                          | (Inr _, w) \<Rightarrow> (Some (), s\<lparr>ctx_world := w\<rparr>))"

definition UpdateUserByID ::
  "'w user_api \<Rightarrow> nat \<Rightarrow> create_user_external res \<Rightarrow> 'w gin \<Rightarrow> user_external option \<times> 'w gin" where
  "UpdateUserByID api i bound s =
     (case bound of
        Inl e \<Rightarrow> aborted 400 e s
      | Inr updated \<Rightarrow>
          case ua_GetUserByID api i (ctx_world s) of
            Inl e \<Rightarrow> aborted 500 e s
          | Inr None \<Rightarrow> aborted 404 (Err ''user does not exist'') s
          | Inr (Some dbUser) \<Rightarrow>
              case ua_CountAdmins api (ctx_world s) of
                Inl e \<Rightarrow> aborted 500 e s
              | Inr adminCount \<Rightarrow>
                  if \<not> cue_Admin updated \<and> usr_Admin dbUser \<and> adminCount = 1
                  then aborted 400 (Err ''cannot delete last admin'') s
                  else
                    let dbUser = dbUser\<lparr>usr_Name := cue_Name updated,
                          usr_DisplayName := cue_DisplayName updated, usr_Admin := cue_Admin updated\<rparr>;
                        save = (\<lambda>u. case ua_UpdateUser api u (ctx_world s) of
                            (Inl e, w) \<Rightarrow> aborted 500 e (s\<lparr>ctx_world := w\<rparr>)
                          | (Inr _, w) \<Rightarrow> (Some (toExternalUser u), s\<lparr>ctx_world := w\<rparr>)) in
                    if cue_Pass updated \<noteq> '''' then
                      case validatePassword api (cue_Pass updated) (ctx_world s) of
                        Inl e \<Rightarrow> aborted 400 e s
                      | Inr _ \<Rightarrow>
                          case ua_GenerateFromPassword api (cue_Pass updated) of
                            Inl e \<Rightarrow> aborted 500 e s
                          | Inr pw \<Rightarrow> save (dbUser\<lparr>usr_Pass := pw\<rparr>)
                    else save dbUser)"

section \<open>Properties\<close>

text \<open>A database for the witnesses: the list of users, as in the witnesses of the guards.\<close>

definition demo_api :: "bool \<Rightarrow> user list user_api" where
  "demo_api registration = \<lparr>ua_GetUserByID = (\<lambda>i w. Inr (find (\<lambda>u. usr_ID u = i) w)),
     ua_GetUserByName = (\<lambda>n w. Inr (find (\<lambda>u. usr_Name u = n) w)),
     ua_CountAdmins = (\<lambda>w. Inr (int (length (filter usr_Admin w)))),
     ua_GetApplicationsByUser = (\<lambda>i w. Inr []), ua_CountApplicationMemberships = (\<lambda>i w. Inr 0),
     ua_GetSecurityPolicy = (\<lambda>w. Inr (demo_policy True)),
     ua_CreateUser = (\<lambda>u w. (Inr (u\<lparr>usr_ID := Suc (length w)\<rparr>), w @ [u\<lparr>usr_ID := Suc (length w)\<rparr>])),
     ua_UpdateUser = (\<lambda>u w. (Inr (), map (\<lambda>v. if usr_ID v = usr_ID u then u else v) w)),
     ua_DeleteUserByID = (\<lambda>i w. (Inr (), filter (\<lambda>v. usr_ID v \<noteq> i) w)),
     ua_GenerateFromPassword = (\<lambda>p. Inr []), ua_Registration = registration,
     ua_userDeletedCallbacks = [], ua_userAddedCallbacks = []\<rparr>"

definition eve :: create_user_external where
  "eve = \<lparr>cue_Name = ''eve'', cue_DisplayName = '''', cue_Admin = True, cue_Pass = ''secret''\<rparr>"

lemmas demo_api_simps = demo_api_def eve_def validatePassword_def ValidateNewPassword_def
  demo_policy_def strings_explode_ascii

text \<open>
  Property C1. A defect with a security impact: the route for new users is guarded by \<open>OptionalAdmin\<close>, and the handler
  takes any registered authentication for an administrator's. Where the policy requires a second factor of
  all local users, the client handler registers the client, reports that the factor is missing, and
  the evaluation goes on as if there were no authentication. So any local user with a client token but
  without the second factor, administrator or not, creates administrator accounts, with registration closed.
\<close>

theorem optional_admin_mfa_bypass:
  assumes "rq_basic (ctx_request s) = None"
    and "readTokenFromRequest (ctx_request s) = (token, False)" "token \<noteq> ''''"
    and "stored_token env token (ctx_world s) = Inr (Some stored)"
    and "GetClientByToken env stored (ctx_world s) = Inr (Some c)"
    and "GetSecurityPolicy env (ctx_world s) = Inr policy" "pol_RequireMFAForAllLocalUsers policy"
    and "\<not> cl_MFAAuthenticated c" "\<not> mfa_exempt_path (rq_path (ctx_request s))"
    and "GetUserByID env (cl_UserID c) (ctx_world s) = Inr (Some u)" "usr_OIDCID u = None" "usr_LDAPID u = None"
    and "\<not> usr_Admin u" "cue_Admin new" "\<not> ua_Registration api"
    and "validatePassword api (cue_Pass new) (ctx_world s) = Inr ()" "ua_GenerateFromPassword api (cue_Pass new) = Inr pw"
    and "ua_GetUserByName api (cue_Name new) (ctx_world s) = Inr None" "ua_userAddedCallbacks api = []"
    and "ua_CreateUser api (new_user new pw) (ctx_world s) = (Inr created, w')"
  shows "\<exists>s1 s2. OptionalAdmin env s = (Inr (), s1) \<and> ctx_aborts s1 = ctx_aborts s \<and>
     ctx_nexts s1 = ctx_nexts s @ [no_auth\<lparr>au_client := Some c\<rparr>] \<and>
     CreateUser api (Inr new) s1 = (Some (toExternalUser created), s2) \<and> ctx_world s2 = w' \<and>
     usr_Admin (new_user new pw)"
proof -
  let ?s = "RegisterClient c s"
  have "handleClient env checks s = (Inr authStateMFARequired, ?s)" for checks
    using assms(1-12) by (simp add: handleClient_def)
  moreover have "handleUser env checks s = (Inr authStateSkip, s)" for checks
    using assms(1) by (simp add: handleUser_def)
  moreover have "rejectForeignOrigin env s = (False, s)" using assms(2) by (simp add: rejectForeignOrigin_def)
  ultimately have o: "OptionalAdmin env s = (Inr (), ctx_Next ?s)"
    by (simp add: OptionalAdmin_def evaluate_def adminHandlers_def)
  have n: "ctx_nexts (ctx_Next ?s) = ctx_nexts s @ [no_auth\<lparr>au_client := Some c\<rparr>]"
    "ctx_aborts (ctx_Next ?s) = ctx_aborts s" "ctx_world (ctx_Next ?s) = ctx_world s"
    by (simp_all add: ctx_Next_def RegisterClient_def getInfo_def)
  have "TryGetUserID (ctx_Next ?s) = Some (cl_UserID c)"
    by (simp add: TryGetUserID_def ctx_Next_def RegisterClient_def getInfo_def info_user_id_def no_auth_def)
  then have "CreateUser api (Inr new) (ctx_Next ?s) = (Some (toExternalUser created), (ctx_Next ?s)\<lparr>ctx_world := w'\<rparr>)"
    using assms(13-20) n(3) by (simp add: CreateUser_def)
  with o n assms(14) show ?thesis by (simp add: new_user_def)
qed

theorem optional_admin_mfa_bypass_witness:
  "\<exists>s1 s2 ext. OptionalAdmin (demo_env True 2) demo_request = (Inr (), s1) \<and> ctx_aborts s1 = [] \<and>
     CreateUser (demo_api False) (Inr eve) s1 = (Some ext, s2) \<and>
     (\<exists>u \<in> set (ctx_world s2). usr_Name u = ''eve'' \<and> usr_Admin u)"
proof -
  let ?u = "(new_user eve [])\<lparr>usr_ID := 3\<rparr>"
  have "\<exists>s1 s2. OptionalAdmin (demo_env True 2) demo_request = (Inr (), s1) \<and> ctx_aborts s1 = ctx_aborts demo_request \<and>
     ctx_nexts s1 = ctx_nexts demo_request @ [no_auth\<lparr>au_client := Some (demo_client 2)\<rparr>] \<and>
     CreateUser (demo_api False) (Inr eve) s1 = (Some (toExternalUser ?u), s2) \<and>
     ctx_world s2 = ctx_world demo_request @ [?u] \<and> usr_Admin (new_user eve [])"
    by (rule optional_admin_mfa_bypass [where token = "''Ctok''" and stored = "''Ctok''" and
          policy = "demo_policy True" and u = "demo_user 2 ''bob'' False"])
      (simp_all add: demo_auth_simps demo_api_simps new_user_def)
  then show ?thesis by (force simp: demo_request_def new_user_def eve_def)
qed

section \<open>The store of the users\<close>

text \<open>
  What the handlers ask of the store of the users: \<open>ok\<close> is an invariant of it and \<open>admins\<close> are the identifiers of its
  administrators. Counting and look-up agree with them; an operation that fails may have done any part of its work,
  but takes the role of an administrator only from the user it is about.
\<close>

locale user_store =
  fixes api :: "'w user_api" and ok :: "'w \<Rightarrow> bool" and admins :: "'w \<Rightarrow> nat set"
  assumes count: "ok w \<Longrightarrow> ua_CountAdmins api w = Inr n \<Longrightarrow> finite (admins w) \<and> n = int (card (admins w))"
    and found: "ok w \<Longrightarrow> ua_GetUserByID api i w = Inr (Some u) \<Longrightarrow> usr_ID u = i \<and> (usr_Admin u \<longleftrightarrow> i \<in> admins w)"
    and created: "ok w \<Longrightarrow> usr_ID u = 0 \<Longrightarrow> ua_CreateUser api u w = (c, w') \<Longrightarrow> ok w' \<and> admins w \<subseteq> admins w'"
    and updated: "ok w \<Longrightarrow> ua_UpdateUser api u w = (r, w') \<Longrightarrow>
      ok w' \<and> admins w - (if usr_Admin u then {} else {usr_ID u}) \<subseteq> admins w'"
    and deleted: "ok w \<Longrightarrow> ua_DeleteUserByID api i w = (r, w') \<Longrightarrow> ok w' \<and> admins w - {i} \<subseteq> admins w'"
begin

text \<open>The callbacks of the other parts of the server are given with the handlers; they leave the store in order.\<close>

lemma fired:
  assumes "\<forall>cb\<in>set cbs. \<forall>i w. ok w \<longrightarrow> ok (snd (cb i w)) \<and> admins (snd (cb i w)) = admins w"
    and "ok w" "fire cbs i w = (r, w')"
  shows "ok w' \<and> admins w' = admins w"
  using assms
proof (induction cbs arbitrary: w)
  case (Cons cb cbs)
  obtain r1 w1 where cb: "cb i w = (r1, w1)" by (cases "cb i w")
  then have w1: "ok w1 \<and> admins w1 = admins w" using Cons.prems(1,2) by (metis list.set_intros(1) snd_conv)
  show ?case
  proof (cases r1)
    case (Inl e)
    then show ?thesis using Cons.prems(3) cb w1 by simp
  next
    case (Inr x)
    then show ?thesis using Cons cb w1 by auto
  qed
qed simp

text \<open>The tests of the handlers: the user is not the only administrator.\<close>

lemma admins_left:
  assumes "ok w" "admins w \<noteq> {}" "ua_GetUserByID api i w = Inr (Some u)" "ua_CountAdmins api w = Inr n"
    and "\<not> (usr_Admin u \<and> n = 1)"
  shows "admins w - {i} \<noteq> {}"
  using count [OF assms(1,4)] found [OF assms(1,3)] assms(2,5) subset_singletonD [of "admins w" i]
  by (cases "admins w = {i}") auto

lemma create_keeps:
  assumes "ok (ctx_world s)" and run: "CreateUser api bound s = (body, s')"
    and cbs: "\<forall>cb\<in>set (ua_userAddedCallbacks api). \<forall>i w. ok w \<longrightarrow> ok (snd (cb i w)) \<and> admins (snd (cb i w)) = admins w"
  shows "ok (ctx_world s') \<and> admins (ctx_world s) \<subseteq> admins (ctx_world s')"
proof -
  let ?fire = "fire (ua_userAddedCallbacks api)"
  have "ctx_world s' = ctx_world s \<or> (\<exists>u r w. usr_ID u = 0 \<and> ua_CreateUser api u (ctx_world s) = (r, w) \<and>
      (ctx_world s' = w \<or> (\<exists>i r'. ?fire i w = (r', ctx_world s'))))"
    using run
    by (auto simp: CreateUser_def aborted_def abort_def new_user_def
        split: if_splits option.splits sum.splits prod.splits) (blast | force)+
  moreover have "ok w' \<and> admins w' = admins w" if "ok w" "?fire i w = (r', w')" for i w r' w'
    by (rule fired [OF cbs that])
  moreover have "ok w \<and> admins (ctx_world s) \<subseteq> admins w" if "usr_ID u = 0" "ua_CreateUser api u (ctx_world s) = (r, w)" for u r w
    by (rule created [OF assms(1) that])
  ultimately show ?thesis using assms(1) by (metis (no_types, lifting) subset_refl)
qed

lemma delete_keeps:
  assumes "ok (ctx_world s)" "admins (ctx_world s) \<noteq> {}" and run: "DeleteUserByID api i s = (body, s')"
    and cbs: "\<forall>cb\<in>set (ua_userDeletedCallbacks api). \<forall>i w. ok w \<longrightarrow> ok (snd (cb i w)) \<and> admins (snd (cb i w)) = admins w"
  shows "ok (ctx_world s') \<and> admins (ctx_world s') \<noteq> {}"
proof (cases "\<exists>u n. ua_GetUserByID api i (ctx_world s) = Inr (Some u) \<and>
      ua_CountAdmins api (ctx_world s) = Inr n \<and> \<not> (usr_Admin u \<and> n = 1)")
  case True
  then obtain u n where un: "ua_GetUserByID api i (ctx_world s) = Inr (Some u)"
    "ua_CountAdmins api (ctx_world s) = Inr n" "\<not> (usr_Admin u \<and> n = 1)" by blast
  obtain r1 w1 where f: "fire (ua_userDeletedCallbacks api) i (ctx_world s) = (r1, w1)" by fastforce
  obtain r2 w2 where d: "ua_DeleteUserByID api i w1 = (r2, w2)" by fastforce
  have "ctx_world (snd (DeleteUserByID api i s)) \<in> {ctx_world s, w1, w2}"
    by (simp add: DeleteUserByID_def aborted_def abort_def un f d split: sum.split prod.split)
  then have "ctx_world s' \<in> {ctx_world s, w1, w2}" using run by simp
  moreover have w1: "ok w1 \<and> admins w1 = admins (ctx_world s)" by (rule fired [OF cbs assms(1) f])
  moreover from this have "ok w2 \<and> admins (ctx_world s) - {i} \<subseteq> admins w2" using deleted [OF _ d] by simp
  ultimately show ?thesis using assms(1,2) admins_left [OF assms(1,2) un] by (elim insertE emptyE) auto
next
  case False
  then have "ctx_world s' = ctx_world s"
    using run
    by (cases "ua_GetUserByID api i (ctx_world s)"; cases "ua_CountAdmins api (ctx_world s)")
      (auto simp: DeleteUserByID_def aborted_def abort_def split: option.splits)
  then show ?thesis using assms(1,2) by simp
qed

lemma update_keeps:
  assumes "ok (ctx_world s)" "admins (ctx_world s) \<noteq> {}" and run: "UpdateUserByID api i bound s = (body, s')"
  shows "ok (ctx_world s') \<and> admins (ctx_world s') \<noteq> {}"
proof (cases "\<exists>u n upd. bound = Inr upd \<and> ua_GetUserByID api i (ctx_world s) = Inr (Some u) \<and>
      ua_CountAdmins api (ctx_world s) = Inr n \<and> (cue_Admin upd \<or> \<not> (usr_Admin u \<and> n = 1))")
  case True
  then obtain u n new where un: "ua_GetUserByID api i (ctx_world s) = Inr (Some u)"
    "ua_CountAdmins api (ctx_world s) = Inr n" and new: "bound = Inr new"
    "cue_Admin new \<or> \<not> (usr_Admin u \<and> n = 1)" by blast
  have u: "usr_ID u = i" using found [OF assms(1) un(1)] by simp
  define v where "v = u\<lparr>usr_Name := cue_Name new, usr_DisplayName := cue_DisplayName new, usr_Admin := cue_Admin new\<rparr>"
  let ?w = "ctx_world (snd (UpdateUserByID api i bound s))"
  have "?w = ctx_world s \<or> (\<exists>x r. ua_UpdateUser api x (ctx_world s) = (r, ?w) \<and> (x = v \<or> (\<exists>pw. x = v\<lparr>usr_Pass := pw\<rparr>)))"
    unfolding v_def
    by (simp add: UpdateUserByID_def aborted_def abort_def Let_def un new(1) split: sum.split prod.split) blast?
  then consider "ctx_world s' = ctx_world s"
    | x r where "ua_UpdateUser api x (ctx_world s) = (r, ctx_world s')" "usr_ID x = i" "usr_Admin x = cue_Admin new"
    using run u by (auto simp: v_def)
  then show ?thesis
  proof cases
    case (2 x r)
    have "cue_Admin new \<or> admins (ctx_world s) - {i} \<noteq> {}" using admins_left [OF assms(1,2) un] new(2) by blast
    then show ?thesis using updated [OF assms(1) 2(1)] 2(2,3) assms(2) by (auto split: if_splits)
  qed (use assms(1,2) in simp)
next
  case False
  then have "ctx_world s' = ctx_world s"
    using run
    by (cases bound; cases "ua_GetUserByID api i (ctx_world s)"; cases "ua_CountAdmins api (ctx_world s)")
      (auto simp: UpdateUserByID_def aborted_def abort_def split: option.splits)
  then show ?thesis using assms(1,2) by simp
qed

end

end
