(* ===== verification/Handler.thy ===== *)
theory Handler
  imports Users Database_Laws
begin

text \<open>
  Request handlers on the database: a handler runs in a context whose world holds the database session, and
  either gives its answer, or ends without one, aborted or after a silent return. The helpers are
  \<open>successOrAbort\<close> of \<open>src/api/errorHandling.go\<close>, \<open>withID\<close> of \<open>src/api/internalutil.go\<close> and the
  binding of parameters.
\<close>

section \<open>Running a handler\<close>

record 'w server =
  srv_db :: session
  srv_world :: 'w

type_synonym ('w, 'a) handler = "'w server gin \<Rightarrow> 'a option \<times> 'w server gin"

abbreviation srv_tables :: "'w server gin \<Rightarrow> gorm_db" where
  "srv_tables s \<equiv> tables (srv_db (ctx_world s))"

definition h_return :: "'a \<Rightarrow> ('w, 'a) handler" where
  "h_return x s = (Some x, s)"

definition h_stop :: "('w, 'a) handler" where
  "h_stop s = (None, s)"

definition h_bind :: "('w, 'a) handler \<Rightarrow> ('a \<Rightarrow> ('w, 'b) handler) \<Rightarrow> ('w, 'b) handler" where
  "h_bind m f s = (case m s of (None, s) \<Rightarrow> (None, s) | (Some x, s) \<Rightarrow> f x s)"

definition h_then :: "('w, unit) handler \<Rightarrow> ('w, 'b) handler \<Rightarrow> ('w, 'b) handler" where
  "h_then m k = h_bind m (\<lambda>_. k)"

text \<open>A database call followed by \<open>successOrAbort\<close>, \<open>GetUserID\<close>, and the effects outside the database.\<close>

definition successOrAbort :: "nat \<Rightarrow> 'a db \<Rightarrow> ('w, 'a) handler" where
  "successOrAbort code m s =
     (case m (srv_db (ctx_world s)) of
        (Inl e, d) \<Rightarrow> aborted code e (s\<lparr>ctx_world := (ctx_world s)\<lparr>srv_db := d\<rparr>\<rparr>)
      | (Inr x, d) \<Rightarrow> (Some x, s\<lparr>ctx_world := (ctx_world s)\<lparr>srv_db := d\<rparr>\<rparr>))"

definition h_user :: "('w, nat) handler" where
  "h_user s = (case GetUserID s of Inl e \<Rightarrow> aborted 500 e s | Inr u \<Rightarrow> (Some u, s))"

definition h_effect :: "('w \<Rightarrow> 'w) \<Rightarrow> ('w, unit) handler" where
  "h_effect f s = (Some (), s\<lparr>ctx_world := (ctx_world s)\<lparr>srv_world := f (srv_world (ctx_world s))\<rparr>\<rparr>)"

definition h_world :: "('w \<Rightarrow> 'a) \<Rightarrow> ('w, 'a) handler" where
  "h_world f s = (Some (f (srv_world (ctx_world s))), s)"

text \<open>
  The body of a request: \<open>Bind\<close> and \<open>MustBindWith\<close> abort on their own when it does not fit, after
  \<open>ShouldBindJSON\<close> the handler decides.
\<close>

definition h_Bind :: "'p res \<Rightarrow> ('w, 'p) handler" where
  "h_Bind bound = (case bound of Inl e \<Rightarrow> aborted 400 e | Inr p \<Rightarrow> h_return p)"

text \<open>\<open>strconv.ParseUint(s, 10, 64)\<close>\<close>

definition ParseUint :: "string \<Rightarrow> nat res" where
  "ParseUint s =
     (if s = [] \<or> \<not> list_all decimal s then Inl (Err ''invalid syntax'')
      else if read_nat s < 2 ^ 64 then Inr (read_nat s) else Inl (Err ''value out of range''))"

definition withID :: "string \<Rightarrow> (nat \<Rightarrow> ('w, 'a) handler) \<Rightarrow> ('w, 'a) handler" where
  "withID param f =
     (case ParseUint param of Inr i \<Rightarrow> f i | Inl _ \<Rightarrow> aborted 400 (Err ''invalid id''))"

fun h_foreach :: "('a \<Rightarrow> ('w, unit) handler) \<Rightarrow> 'a list \<Rightarrow> ('w, unit) handler" where
  "h_foreach f [] = h_return ()"
| "h_foreach f (x # xs) = h_then (f x) (h_foreach f xs)"

fun h_map :: "('a \<Rightarrow> ('w, 'b option) handler) \<Rightarrow> 'a list \<Rightarrow> ('w, 'b list) handler" where
  "h_map f [] = h_return []"
| "h_map f (x # xs) = h_bind (f x) (\<lambda>y. h_bind (h_map f xs) (\<lambda>ys.
     h_return (case y of None \<Rightarrow> ys | Some y \<Rightarrow> y # ys)))"

section \<open>Laws\<close>

lemma h_simps [simp]:
  "h_return x s = (Some x, s)" "h_stop s = (None, s)"
  "aborted code e s = (None, s\<lparr>ctx_aborts := ctx_aborts s @ [(code, e)]\<rparr>)"
  by (simp_all add: h_return_def h_stop_def aborted_def abort_def)

lemma h_bind_Some: "h_bind m f s = (Some y, s') \<longleftrightarrow> (\<exists>x s1. m s = (Some x, s1) \<and> f x s1 = (Some y, s'))"
  by (auto simp: h_bind_def split: prod.splits option.splits)

lemma h_then_Some: "h_then m k s = (Some y, s') \<longleftrightarrow> (\<exists>s1. m s = (Some (), s1) \<and> k s1 = (Some y, s'))"
  by (auto simp: h_then_def h_bind_Some)

lemma successOrAbort_Some:
  "successOrAbort code m s = (Some x, s') \<Longrightarrow>
     m (srv_db (ctx_world s)) = (Inr x, srv_db (ctx_world s')) \<and> ctx_auth s' = ctx_auth s \<and>
     srv_world (ctx_world s') = srv_world (ctx_world s)"
  by (auto simp: successOrAbort_def split: prod.splits sum.splits)

lemma successOrAbort_run:
  "srv_db (ctx_world (snd (successOrAbort code m s))) = snd (m (srv_db (ctx_world s)))"
  by (auto simp: successOrAbort_def split: prod.splits sum.splits)

lemma h_user_Some: "h_user s = (Some u, s') \<longleftrightarrow> s' = s \<and> TryGetUserID s = Some u"
  by (auto simp: h_user_def GetUserID_def split: option.splits sum.splits)

text \<open>Handlers that keep a predicate on the tables.\<close>

definition h_keeps :: "(gorm_db \<Rightarrow> bool) \<Rightarrow> ('w, 'a) handler \<Rightarrow> bool" where
  "h_keeps P m \<longleftrightarrow> (\<forall>s. P (srv_tables s) \<longrightarrow> P (srv_tables (snd (m s))))"

named_theorems h_rules \<open>handlers that keep a predicate on the tables\<close>

lemma h_keepsD: "h_keeps P m \<Longrightarrow> P (srv_tables s) \<Longrightarrow> P (srv_tables (snd (m s)))"
  by (simp add: h_keeps_def)

lemma h_keeps_simple [h_rules]:
  "h_keeps P (h_return x)" "h_keeps P h_stop" "h_keeps P (aborted c e)" "h_keeps P h_user" "h_keeps P (h_effect f)"
  "h_keeps P (h_world g)" "h_keeps P (h_Bind b)"
  by (auto simp: h_keeps_def h_user_def h_effect_def h_world_def h_Bind_def split: sum.splits)

lemma h_keeps_call [h_rules]: "keeps P m \<Longrightarrow> h_keeps P (successOrAbort c m)"
  unfolding h_keeps_def keeps_def successOrAbort_run by simp

lemma h_keeps_bind [h_rules]: "h_keeps P m \<Longrightarrow> (\<And>x. h_keeps P (f x)) \<Longrightarrow> h_keeps P (h_bind m f)"
  unfolding h_keeps_def h_bind_def by (auto split: prod.splits option.splits)

lemma h_keeps_then [h_rules]: "h_keeps P m \<Longrightarrow> h_keeps P k \<Longrightarrow> h_keeps P (h_then m k)"
  unfolding h_then_def by (rule h_keeps_bind)

lemma h_keeps_withID [h_rules]: "(\<And>i. h_keeps P (f i)) \<Longrightarrow> h_keeps P (withID p f)"
  by (auto simp: withID_def h_rules split: sum.split)

lemma h_keeps_foreach [h_rules]: "(\<And>x. h_keeps P (f x)) \<Longrightarrow> h_keeps P (h_foreach f xs)"
  by (induction xs) (simp_all add: h_rules)

lemma h_keeps_map [h_rules]: "(\<And>x. h_keeps P (f x)) \<Longrightarrow> h_keeps P (h_map f xs)"
  by (induction xs) (simp_all add: h_rules)

text \<open>
  Handlers that read: the tables and the user of the request stay. Whoever changes the tables after such
  a handler has its result.
\<close>

definition h_reads :: "('w, 'a) handler \<Rightarrow> bool" where
  "h_reads m \<longleftrightarrow> (\<forall>s. srv_tables (snd (m s)) = srv_tables s \<and> ctx_auth (snd (m s)) = ctx_auth s)"

named_theorems h_read_rules \<open>handlers that only read\<close>

lemma h_readsD: "h_reads m \<Longrightarrow> m s = (r, s') \<Longrightarrow> srv_tables s' = srv_tables s \<and> ctx_auth s' = ctx_auth s"
  unfolding h_reads_def by (metis snd_conv)

lemma h_reads_simple [h_read_rules]:
  "h_reads (h_return x)" "h_reads h_stop" "h_reads (aborted c e)" "h_reads h_user" "h_reads (h_effect f)"
  "h_reads (h_world g)" "h_reads (h_Bind b)"
  by (auto simp: h_reads_def h_user_def h_effect_def h_world_def h_Bind_def split: sum.splits)

lemma h_reads_call [h_read_rules]: "reads m \<Longrightarrow> h_reads (successOrAbort c m)"
proof -
  assume m: "reads m"
  have "ctx_auth (snd (successOrAbort c m s)) = ctx_auth s" for s :: "'b server gin"
    by (auto simp: successOrAbort_def split: prod.splits sum.splits)
  moreover have "srv_tables (snd (successOrAbort c m s)) = srv_tables s" for s :: "'b server gin"
    using m unfolding successOrAbort_run reads_def by simp
  ultimately show ?thesis by (simp add: h_reads_def)
qed

lemma h_reads_bind [h_read_rules]:
  assumes "h_reads m" and "\<And>x. h_reads (f x)" shows "h_reads (h_bind m f)"
  unfolding h_reads_def
proof
  fix s
  obtain r s1 where m: "m s = (r, s1)" by (metis surj_pair)
  then show "srv_tables (snd (h_bind m f s)) = srv_tables s \<and> ctx_auth (snd (h_bind m f s)) = ctx_auth s"
    using h_readsD [OF assms(1) m] assms(2) by (cases r) (simp_all add: h_bind_def h_reads_def)
qed

lemma h_reads_then [h_read_rules]: "h_reads m \<Longrightarrow> h_reads k \<Longrightarrow> h_reads (h_then m k)"
  unfolding h_then_def by (rule h_reads_bind)

lemma h_reads_map [h_read_rules]: "(\<And>x. h_reads (f x)) \<Longrightarrow> h_reads (h_map f xs)"
  by (induction xs) (simp_all add: h_read_rules)

lemma h_change:
  assumes "g (srv_tables (snd (h_bind m f s))) \<noteq> g (srv_tables s)" and "h_reads m"
  obtains x s1 where "m s = (Some x, s1)" "srv_tables s1 = srv_tables s" "ctx_auth s1 = ctx_auth s"
    "g (srv_tables (snd (f x s1))) \<noteq> g (srv_tables s1)"
proof -
  obtain r s1 where m: "m s = (r, s1)" by (metis surj_pair)
  then show thesis using h_readsD [OF assms(2) m] assms(1) that by (cases r) (simp_all add: h_bind_def)
qed

end
