(* ===== verification/Channels.thy ===== *)
theory Channels
  imports Accounts Handler
begin

text \<open>
  The handlers of channels, of their members and of groups: \<open>src/api/application.go\<close>,
  \<open>src/api/application_membership.go\<close> and \<open>src/api/group.go\<close> on the database. The user of a request is the one
  the middleware registered; path parameters and bodies are arguments.
\<close>

section \<open>Who may manage a channel\<close>

definition authorizeChannelManager :: "nat \<Rightarrow> application option \<Rightarrow> bool db" where
  "authorizeChannelManager userID app = (case app of
       None \<Rightarrow> db_return False
     | Some app \<Rightarrow>
         if app_UserID app = userID then db_return True
         else db_bind (db_GetUserByID userID) (\<lambda>user.
           if (case user of None \<Rightarrow> False | Some u \<Rightarrow> usr_Admin u) then db_return True
           else db_bind (db_GetApplicationMembership (app_ID app) userID) (\<lambda>membership.
             db_return (case membership of None \<Rightarrow> False | Some m \<Rightarrow> mem_EffectiveRole m = ChannelRoleManager))))"

definition isOwnerOrAdmin :: "nat \<Rightarrow> application option \<Rightarrow> bool db" where
  "isOwnerOrAdmin userID app = (case app of
       None \<Rightarrow> db_return False
     | Some app \<Rightarrow>
         if app_UserID app = userID then db_return True
         else db_bind (db_GetUserByID userID) (\<lambda>user.
           db_return (case user of None \<Rightarrow> False | Some u \<Rightarrow> usr_Admin u)))"

definition is_admin :: "user option \<Rightarrow> bool" where
  "is_admin user = (case user of None \<Rightarrow> False | Some u \<Rightarrow> usr_Admin u)"

definition getAuthorizedApplication :: "nat \<Rightarrow> ('w, application) handler" where
  "getAuthorizedApplication i =
     h_bind (successOrAbort 500 (db_GetApplicationByID i)) (\<lambda>app.
     h_bind h_user (\<lambda>userID.
     h_bind (successOrAbort 500 (authorizeChannelManager userID app)) (\<lambda>allowed.
       case app of
         None \<Rightarrow> aborted 404 (Err ''application does not exist'')
       | Some app \<Rightarrow> if allowed then h_return app else aborted 404 (Err ''application does not exist''))))"

section \<open>Members\<close>

record member_params =
  mp_UserID :: nat
  mp_ReceiveNotifications :: "bool option"
  mp_Role :: string

record member_external =
  me_UserID :: nat
  me_Name :: string
  me_Owner :: bool
  me_ReceiveNotifications :: bool
  me_AutoAssigned :: bool
  me_GroupAssigned :: bool
  me_Role :: string

record mentionable_user =
  mu_UserID :: nat
  mu_Name :: string
  mu_DisplayName :: string

definition chat_channel :: "application \<Rightarrow> bool" where
  "chat_channel app \<longleftrightarrow> app_ChannelType app = ''chat'' \<or> app_ChannelType app = '''' \<and> app_AllowMemberPost app"

text \<open>Whether a role lets a member post.\<close>

definition can_post :: "application \<Rightarrow> string \<Rightarrow> bool" where
  "can_post app role \<longleftrightarrow> role = ChannelRoleManager \<or> role = ChannelRolePublisher \<or>
     role = ChannelRoleMember \<and> app_AllowMemberPost app"

definition GetMentionableUsers :: "string \<Rightarrow> ('w, mentionable_user list) handler" where
  "GetMentionableUsers param = withID param (\<lambda>i.
     h_bind (successOrAbort 500 (db_GetApplicationByID i)) (\<lambda>app.
     case app of None \<Rightarrow> aborted 404 (Err ''application does not exist'') | Some app \<Rightarrow>
     h_bind h_user (\<lambda>currentUserID.
     h_bind (successOrAbort 500 (db_GetApplicationMembership i currentUserID)) (\<lambda>membership.
     h_bind (successOrAbort 500 (db_GetUserByID currentUserID)) (\<lambda>currentUser.
     let isAdmin = is_admin currentUser in
     if \<not> chat_channel app \<or> membership = None \<and> app_UserID app \<noteq> currentUserID \<and> \<not> isAdmin
     then aborted 404 (Err ''chat channel does not exist'')
     else if app_UserID app \<noteq> currentUserID \<and> \<not> isAdmin \<and>
       \<not> (case membership of None \<Rightarrow> False | Some m \<Rightarrow> can_post app (mem_EffectiveRole m))
     then aborted 403 (Err ''your Channel role does not allow posting'')
     else
       h_bind (successOrAbort 500 (GetApplicationMemberships i)) (h_map (\<lambda>item.
         if mem_UserID item = currentUserID then h_return None
         else h_bind (successOrAbort 500 (db_GetUserByID (mem_UserID item))) (\<lambda>user.
           h_return (map_option (\<lambda>u. \<lparr>mu_UserID = usr_ID u, mu_Name = usr_Name u, mu_DisplayName = usr_DisplayName u\<rparr>) user)))))))))"

definition GetMembers :: "string \<Rightarrow> ('w, member_external list) handler" where
  "GetMembers param = withID param (\<lambda>i.
     h_bind (getAuthorizedApplication i) (\<lambda>app.
     h_bind (successOrAbort 500 (GetApplicationMemberships i)) (h_map (\<lambda>membership.
       h_bind (successOrAbort 500 (db_GetUserByID (mem_UserID membership))) (\<lambda>user.
         h_return (map_option (\<lambda>u. \<lparr>me_UserID = usr_ID u, me_Name = usr_Name u, me_Owner = (usr_ID u = app_UserID app),
           me_ReceiveNotifications = mem_ReceiveNotifications membership, me_AutoAssigned = mem_AutoAssigned membership,
           me_GroupAssigned = mem_GroupAssigned membership, me_Role = mem_EffectiveRole membership\<rparr>) user))))))"

text \<open>The role of a request: spaces and case do not matter, the default is the role of a member.\<close>

definition requested_role :: "string \<Rightarrow> string" where
  "requested_role role =
     (let role = strings_ToLower (strings_TrimSpace role) in if role = '''' then ChannelRoleMember else role)"

definition assignable_role :: "string \<Rightarrow> bool" where
  "assignable_role role \<longleftrightarrow>
     role \<in> {ChannelRoleReadOnly, ChannelRoleMember, ChannelRolePublisher, ChannelRoleManager}"

definition UpsertMember :: "string \<Rightarrow> member_params res \<Rightarrow> ('w, member_external) handler" where
  "UpsertMember param bound = withID param (\<lambda>i.
     h_bind (getAuthorizedApplication i) (\<lambda>app.
     h_bind (h_Bind bound) (\<lambda>params.
     if app_Internal app then aborted 400 (Err ''internal applications cannot be shared'')
     else if mp_UserID params = app_UserID app then aborted 400 (Err ''the application owner is always a member'')
     else h_bind (successOrAbort 500 (db_GetUserByID (mp_UserID params))) (\<lambda>user.
     case user of None \<Rightarrow> aborted 404 (Err ''user does not exist'') | Some user \<Rightarrow>
     let receive = (case mp_ReceiveNotifications params of None \<Rightarrow> True | Some b \<Rightarrow> b);
         role = requested_role (mp_Role params) in
     if \<not> assignable_role role then aborted 400 (Err ''invalid channel role'')
     else
       h_then (successOrAbort 500 (UpsertApplicationMembership
           ((new_membership i (mp_UserID params))\<lparr>mem_ReceiveNotifications := receive, mem_Role := role\<rparr>)))
         (h_return \<lparr>me_UserID = usr_ID user, me_Name = usr_Name user, me_Owner = False,
           me_ReceiveNotifications = receive, me_AutoAssigned = False, me_GroupAssigned = False, me_Role = role\<rparr>)))))"

definition DeleteMember :: "string \<Rightarrow> string \<Rightarrow> ('w, unit) handler" where
  "DeleteMember param userParam = withID param (\<lambda>i.
     h_bind (getAuthorizedApplication i) (\<lambda>app.
     withID userParam (\<lambda>userID.
     if userID = app_UserID app then aborted 400 (Err ''the application owner cannot be removed'')
     else h_bind (successOrAbort 500 (db_GetApplicationMembership i userID)) (\<lambda>membership.
     if membership = None then aborted 404 (Err ''membership does not exist'')
     else if app_AutoAssign app then aborted 400 (Err ''members cannot be removed while auto-assign is enabled'')
     else successOrAbort 500 (DeleteApplicationMembership i userID)))))"

definition GetAssignableUsers :: "string \<Rightarrow> ('w, user_external list) handler" where
  "GetAssignableUsers param = withID param (\<lambda>i.
     h_bind (getAuthorizedApplication i) (\<lambda>_.
     h_bind (successOrAbort 500 GetUsers) (\<lambda>users. h_return (map toExternalUser users))))"

definition SetCurrentUserNotifications :: "string \<Rightarrow> bool res \<Rightarrow> ('w, bool) handler" where
  "SetCurrentUserNotifications param bound = withID param (\<lambda>i.
     h_bind h_user (\<lambda>userID.
     h_bind (successOrAbort 500 (db_GetApplicationByID i)) (\<lambda>app.
     if app = None then aborted 404 (Err ''application does not exist'')
     else h_bind (successOrAbort 500 (db_GetApplicationMembership i userID)) (\<lambda>membership.
     if membership = None then aborted 404 (Err ''channel membership does not exist'')
     else h_bind (h_Bind bound) (\<lambda>enabled.
       h_then (successOrAbort 500 (SetApplicationMembershipNotifications i userID enabled)) (h_return enabled))))))"

section \<open>Settings of a channel\<close>

definition SetAutoAssign :: "string \<Rightarrow> bool res \<Rightarrow> ('w, bool) handler" where
  "SetAutoAssign param bound = withID param (\<lambda>i.
     h_bind (successOrAbort 500 (db_GetApplicationByID i)) (\<lambda>app.
     h_bind h_user (\<lambda>userID.
     h_bind (successOrAbort 500 (db_GetUserByID userID)) (\<lambda>current.
     case app of None \<Rightarrow> aborted 404 (Err ''application does not exist'') | Some app \<Rightarrow>
     if \<not> is_admin current then aborted 404 (Err ''application does not exist'')
     else if app_Internal app then aborted 400 (Err ''internal applications cannot be auto-assigned'')
     else h_bind (h_Bind bound) (\<lambda>enabled.
       h_then (successOrAbort 500 (SetApplicationAutoAssign i enabled)) (h_return enabled))))))"

definition SetMemberPosting :: "string \<Rightarrow> bool res \<Rightarrow> ('w, bool) handler" where
  "SetMemberPosting param bound = withID param (\<lambda>i.
     h_bind (successOrAbort 500 (db_GetApplicationByID i)) (\<lambda>app.
     h_bind h_user (\<lambda>userID.
     h_bind (successOrAbort 500 (db_GetUserByID userID)) (\<lambda>current.
     case app of None \<Rightarrow> aborted 404 (Err ''application does not exist'') | Some app \<Rightarrow>
     if \<not> is_admin current then aborted 404 (Err ''application does not exist'')
     else if app_Internal app then aborted 400 (Err ''internal applications cannot enable member posting'')
     else h_bind (h_Bind bound) (\<lambda>enabled.
       h_then (successOrAbort 500 (SetApplicationMemberPosting i enabled)) (h_return enabled))))))"

definition TransferOwnership :: "string \<Rightarrow> nat res \<Rightarrow> ('w, nat) handler" where
  "TransferOwnership param bound = withID param (\<lambda>i.
     h_bind (getAuthorizedApplication i) (\<lambda>app.
     if app_Internal app then aborted 400 (Err ''internal applications cannot transfer ownership'')
     else h_bind (h_Bind bound) (\<lambda>newOwner.
     if newOwner = app_UserID app then h_return newOwner
     else h_bind (successOrAbort 500 (db_GetUserByID newOwner)) (\<lambda>user.
     if user = None then aborted 404 (Err ''new owner does not exist'')
     else h_then (successOrAbort 500 (TransferApplicationOwnership i newOwner)) (h_return newOwner)))))"

section \<open>Groups of a channel\<close>

record group_external =
  gx_ID :: nat
  gx_Name :: string
  gx_Description :: string
  gx_MemberCount :: int
  gx_CreatedAt :: time
  gx_UpdatedAt :: time

record assignment_external =
  ax_GroupID :: nat
  ax_Name :: string
  ax_Role :: string
  ax_ReceiveNotifications :: bool
  ax_MemberCount :: int

record assignment_params =
  ap_GroupID :: nat
  ap_Role :: string
  ap_ReceiveNotifications :: "bool option"

definition group_view :: "user_group \<Rightarrow> int \<Rightarrow> group_external" where
  "group_view g count = \<lparr>gx_ID = grp_ID g, gx_Name = grp_Name g, gx_Description = grp_Description g,
     gx_MemberCount = count, gx_CreatedAt = grp_CreatedAt g, gx_UpdatedAt = grp_UpdatedAt g\<rparr>"

definition list_groups :: "('w, group_external list) handler" where
  "list_groups =
     h_bind (successOrAbort 500 GetUserGroups) (h_map (\<lambda>group.
       h_bind (successOrAbort 500 (CountUserGroupMembers (grp_ID group))) (\<lambda>count.
         h_return (Some (group_view group count)))))"

definition GetAssignableGroups :: "string \<Rightarrow> ('w, group_external list) handler" where
  "GetAssignableGroups param = withID param (\<lambda>i. h_bind (getAuthorizedApplication i) (\<lambda>_. list_groups))"

definition GetGroupAssignments :: "string \<Rightarrow> ('w, assignment_external list) handler" where
  "GetGroupAssignments param = withID param (\<lambda>i.
     h_bind (getAuthorizedApplication i) (\<lambda>_.
     h_bind (successOrAbort 500 (GetApplicationGroupAssignments i)) (h_map (\<lambda>item.
       h_bind (successOrAbort 500 (GetUserGroupByID (gra_GroupID item))) (\<lambda>group.
       case group of None \<Rightarrow> h_return None | Some g \<Rightarrow>
       h_bind (successOrAbort 500 (CountUserGroupMembers (grp_ID g))) (\<lambda>count.
         h_return (Some \<lparr>ax_GroupID = grp_ID g, ax_Name = grp_Name g, ax_Role = gra_Role item,
           ax_ReceiveNotifications = gra_ReceiveNotifications item, ax_MemberCount = count\<rparr>)))))))"

definition UpsertGroupAssignment :: "string \<Rightarrow> assignment_params res \<Rightarrow> ('w, group_assignment) handler" where
  "UpsertGroupAssignment param bound = withID param (\<lambda>i.
     h_bind (getAuthorizedApplication i) (\<lambda>app.
     if app_Internal app then aborted 400 (Err ''internal applications cannot be assigned to groups'')
     else case bound of Inl _ \<Rightarrow> h_stop | Inr params \<Rightarrow>
     h_bind (successOrAbort 500 (GetUserGroupByID (ap_GroupID params))) (\<lambda>group.
     if group = None then aborted 404 (Err ''group does not exist'')
     else let role = requested_role (ap_Role params) in
     if \<not> assignable_role role then aborted 400 (Err ''invalid Channel role'')
     else
       let receive = (case ap_ReceiveNotifications params of None \<Rightarrow> True | Some b \<Rightarrow> b);
           item = \<lparr>gra_ApplicationID = i, gra_GroupID = ap_GroupID params, gra_Role = role,
             gra_ReceiveNotifications = receive, gra_CreatedAt = zero_time, gra_UpdatedAt = zero_time\<rparr> in
       h_then (successOrAbort 500 (UpsertApplicationGroupAssignment item)) (h_return item))))"

definition DeleteGroupAssignment :: "string \<Rightarrow> string \<Rightarrow> ('w, unit) handler" where
  "DeleteGroupAssignment param groupParam = withID param (\<lambda>i.
     h_bind (getAuthorizedApplication i) (\<lambda>_.
     withID groupParam (\<lambda>groupID. successOrAbort 500 (DeleteApplicationGroupAssignment i groupID))))"

section \<open>Groups\<close>

text \<open>The routes of \<open>src/api/group.go\<close> are for administrators; the body is the name and the description.\<close>

definition GetGroups :: "('w, group_external list) handler" where
  "GetGroups = list_groups"

definition new_group :: "string \<times> string \<Rightarrow> user_group" where
  "new_group input = \<lparr>grp_ID = 0, grp_Name = fst input, grp_Description = snd input, grp_CreatedAt = zero_time,
     grp_UpdatedAt = zero_time\<rparr>"

definition CreateGroup :: "(string \<times> string) res \<Rightarrow> ('w, group_external) handler" where
  "CreateGroup bound =
     h_bind (h_Bind bound) (\<lambda>input.
     h_bind (successOrAbort 500 (CreateUserGroup (new_group input))) (\<lambda>group. h_return (group_view group 0)))"

definition existing_group :: "nat \<Rightarrow> ('w, user_group) handler" where
  "existing_group i =
     h_bind (successOrAbort 500 (GetUserGroupByID i)) (\<lambda>group.
       case group of None \<Rightarrow> aborted 404 (Err ''group does not exist'') | Some g \<Rightarrow> h_return g)"

definition UpdateGroup :: "string \<Rightarrow> (string \<times> string) res \<Rightarrow> ('w, group_external) handler" where
  "UpdateGroup param bound = withID param (\<lambda>i.
     h_bind (existing_group i) (\<lambda>group.
     h_bind (h_Bind bound) (\<lambda>input.
     h_bind (successOrAbort 500 (UpdateUserGroup (group\<lparr>grp_Name := fst input, grp_Description := snd input\<rparr>))) (\<lambda>group.
     h_bind (successOrAbort 500 (CountUserGroupMembers (grp_ID group))) (\<lambda>count.
       h_return (group_view group count))))))"

definition DeleteGroup :: "string \<Rightarrow> ('w, unit) handler" where
  "DeleteGroup param = withID param (\<lambda>i.
     h_bind (existing_group i) (\<lambda>_. successOrAbort 500 (DeleteUserGroup i)))"

record group_member_external =
  gm_UserID :: nat
  gm_Name :: string
  gm_DisplayName :: string
  gm_Admin :: bool

definition GetGroupMembers :: "string \<Rightarrow> ('w, group_member_external list) handler" where
  "GetGroupMembers param = withID param (\<lambda>i.
     h_bind (existing_group i) (\<lambda>_.
     h_bind (successOrAbort 500 (GetUserGroupMembers i)) (\<lambda>users.
       h_return (map (\<lambda>u. \<lparr>gm_UserID = usr_ID u, gm_Name = usr_Name u, gm_DisplayName = usr_DisplayName u,
         gm_Admin = usr_Admin u\<rparr>) users))))"

definition AddGroupMember :: "string \<Rightarrow> nat res \<Rightarrow> ('w, unit) handler" where
  "AddGroupMember param bound = withID param (\<lambda>i.
     h_bind (h_Bind bound) (\<lambda>userID. successOrAbort 500 (AddUserGroupMember i userID)))"

definition RemoveGroupMember :: "string \<Rightarrow> string \<Rightarrow> ('w, unit) handler" where
  "RemoveGroupMember param userParam = withID param (\<lambda>i.
     withID userParam (\<lambda>userID. successOrAbort 500 (RemoveUserGroupMember i userID)))"

section \<open>Channels\<close>

record application_params =
  apm_Name :: string
  apm_Description :: string
  apm_DefaultPriority :: int
  apm_SortKey :: string
  apm_AutoAssign :: bool
  apm_AllowMemberPost :: bool
  apm_ChannelType :: string
  apm_RetentionDays :: int

definition withResolvedImage :: "application \<Rightarrow> application" where
  "withResolvedImage app =
     app\<lparr>app_Image := (if app_Image app = '''' then ''static/defaultapp.png'' else ''image/'' @ app_Image app)\<rparr>"

text \<open>\<open>handleApplicationError\<close>: a taken key is the caller's mistake.\<close>

definition handleApplicationError :: "'a db \<Rightarrow> ('w, 'a) handler" where
  "handleApplicationError m s =
     (case m (srv_db (ctx_world s)) of
        (Inl e, d) \<Rightarrow>
          (if e = duplicated_key then aborted 400 (Err ''sort key is not unique'') else aborted 500 e)
            (s\<lparr>ctx_world := (ctx_world s)\<lparr>srv_db := d\<rparr>\<rparr>)
      | (Inr x, d) \<Rightarrow> (Some x, s\<lparr>ctx_world := (ctx_world s)\<lparr>srv_db := d\<rparr>\<rparr>))"

definition requested_application :: "nat \<Rightarrow> string \<Rightarrow> application_params \<Rightarrow> application" where
  "requested_application userID token p =
     (let channelType = (if apm_ChannelType p \<noteq> '''' then apm_ChannelType p
            else if apm_AllowMemberPost p then ''chat'' else ''notification'');
          retentionDays = (if channelType \<noteq> ''chat'' \<and> apm_RetentionDays p = 0 then 1 else apm_RetentionDays p) in
      no_application\<lparr>app_Name := apm_Name p, app_Description := apm_Description p,
        app_DefaultPriority := apm_DefaultPriority p, app_SortKey := apm_SortKey p, app_Token := token,
        app_UserID := userID, app_Internal := False, app_AutoAssign := apm_AutoAssign p,
        app_AllowMemberPost := apm_AllowMemberPost p, app_ChannelType := channelType,
        app_RetentionDays := retentionDays\<rparr>)"

text \<open>\<open>tokens\<close> is the new token in its public and its private form.\<close>

definition api_CreateApplication ::
  "string \<times> string \<Rightarrow> application_params res \<Rightarrow> ('w, application) handler" where
  "api_CreateApplication tokens bound =
     h_bind (h_Bind bound) (\<lambda>p.
     h_then (if apm_AutoAssign p \<or> apm_AllowMemberPost p
       then h_bind h_user (\<lambda>userID.
         h_bind (successOrAbort 500 (db_GetUserByID userID)) (\<lambda>current.
           if is_admin current then h_return ()
           else aborted 403 (Err ''only administrators can create global or member-posting channels'')))
       else h_return ())
     (h_bind h_user (\<lambda>userID.
      h_bind (handleApplicationError (CreateApplication (requested_application userID (fst tokens) p))) (\<lambda>app.
        h_return (withResolvedImage (app\<lparr>app_Token := snd tokens\<rparr>))))))"

definition api_GetApplications :: "('w, application list) handler" where
  "api_GetApplications =
     h_bind h_user (\<lambda>userID.
     h_bind (successOrAbort 500 (GetAccessibleApplicationsByUser userID)) (h_map (\<lambda>app.
       h_bind (successOrAbort 500 (db_GetApplicationMembership (app_ID app) userID)) (\<lambda>membership.
         h_return (Some (withResolvedImage (app\<lparr>
           app_ReceiveNotifications := (case membership of None \<Rightarrow> app_ReceiveNotifications app
             | Some m \<Rightarrow> Some (mem_ReceiveNotifications m)),
           app_CurrentRole := EffectiveChannelRole (app_UserID app = userID) membership, app_Token := ''''\<rparr>)))))))"

definition no_app :: "nat \<Rightarrow> fail" where
  "no_app i = Err (''app with id '' @ show_nat i @ '' doesn't exists'')"

text \<open>The application, if the test (\<open>isOwnerOrAdmin\<close> or \<open>canManageApplication\<close>) lets the user at it.\<close>

definition allowed_application ::
  "(nat \<Rightarrow> application option \<Rightarrow> bool db) \<Rightarrow> nat \<Rightarrow> ('w, application) handler" where
  "allowed_application test i =
     h_bind (successOrAbort 500 (db_GetApplicationByID i)) (\<lambda>app.
     h_bind h_user (\<lambda>userID.
     h_bind (successOrAbort 500 (test userID app)) (\<lambda>allowed.
       case app of None \<Rightarrow> aborted 404 (no_app i)
       | Some app \<Rightarrow> if allowed then h_return app else aborted 404 (no_app i))))"

record 'w application_api =
  aa_OnDelete :: "(nat \<Rightarrow> 'w \<Rightarrow> 'w) option"
  aa_ImageDir :: string
  aa_Remove :: "string \<Rightarrow> 'w \<Rightarrow> 'w"

definition DeleteApplication :: "'w application_api \<Rightarrow> string \<Rightarrow> ('w, unit) handler" where
  "DeleteApplication api param = withID param (\<lambda>i.
     h_bind (allowed_application isOwnerOrAdmin i) (\<lambda>app.
     if app_Internal app then aborted 400 (Err ''cannot delete internal application'')
     else h_then (if app_AutoAssign app
         then h_bind h_user (\<lambda>userID.
           h_bind (successOrAbort 500 (db_GetUserByID userID)) (\<lambda>current.
             if is_admin current then h_return ()
             else aborted 403 (Err ''global channels can only be deleted by an administrator'')))
         else h_return ())
       (h_then (successOrAbort 500 (db_DeleteApplicationByID i))
       (h_then (case aa_OnDelete api of None \<Rightarrow> h_return () | Some f \<Rightarrow> h_effect (f i))
         (if app_Image app \<noteq> '''' then h_effect (aa_Remove api (aa_ImageDir api @ app_Image app)) else h_return ())))))"

definition updated_application :: "application_params \<Rightarrow> application \<Rightarrow> application" where
  "updated_application p app = app\<lparr>app_Description := apm_Description p, app_Name := apm_Name p,
     app_DefaultPriority := apm_DefaultPriority p, app_RetentionDays := apm_RetentionDays p,
     app_ChannelType := (if apm_ChannelType p \<noteq> '''' then apm_ChannelType p else app_ChannelType app),
     app_SortKey := (if apm_SortKey p \<noteq> '''' then apm_SortKey p else app_SortKey app)\<rparr>"

definition api_UpdateApplication :: "string \<Rightarrow> application_params res \<Rightarrow> ('w, application) handler" where
  "api_UpdateApplication param bound = withID param (\<lambda>i.
     h_bind (allowed_application authorizeChannelManager i) (\<lambda>app.
     h_bind (h_Bind bound) (\<lambda>p.
     let app = updated_application p app in
     h_then (handleApplicationError (db_UpdateApplication app)) (h_return (withResolvedImage app)))))"

definition UpdateApplicationSecurity ::
  "string \<times> string \<Rightarrow> string \<Rightarrow> bool res \<Rightarrow> ('w, string option) handler" where
  "UpdateApplicationSecurity tokens param bound = withID param (\<lambda>i.
     h_bind (allowed_application isOwnerOrAdmin i) (\<lambda>app.
     h_bind (h_Bind bound) (\<lambda>regenerate.
     let app = (if regenerate then app\<lparr>app_Token := fst tokens\<rparr> else app) in
     h_then (successOrAbort 500 (db_UpdateApplication app))
       (h_return (if regenerate then Some (snd tokens) else None)))))"

definition RemoveApplicationImage :: "'w application_api \<Rightarrow> string \<Rightarrow> ('w, application) handler" where
  "RemoveApplicationImage api param = withID param (\<lambda>i.
     h_bind (allowed_application authorizeChannelManager i) (\<lambda>app.
     if app_Image app = '''' then aborted 400 (Err (''app with id '' @ show_nat i @ '' does not have a customized image''))
     else let image = app_Image app; app = app\<lparr>app_Image := ''''\<rparr> in
       h_then (successOrAbort 500 (db_UpdateApplication app))
       (h_then (h_effect (aa_Remove api (aa_ImageDir api @ image))) (h_return (withResolvedImage app)))))"

definition ValidApplicationImageExt :: "string \<Rightarrow> bool" where
  "ValidApplicationImageExt ext \<longleftrightarrow> strings_ToLower ext \<in> {''.gif'', ''.png'', ''.jpg'', ''.jpeg''}"

end
