(* ===== verification/Channels_Laws.thy ===== *)
theory Channels_Laws
  imports Membership_Laws Channels
begin

text \<open>
  What the requests to channels, members and groups keep, whoever sends them and whatever statement fails:
  the keys stay unique and the owner of a channel stays a member by his own right. And who can change
  what: only owners, managers and administrators change the members of a channel.
\<close>

section \<open>Members by their own right\<close>

text \<open>The owner of a channel has a membership that no automatic assignment holds, so that its end takes nothing.\<close>

definition owners_ok :: "gorm_db \<Rightarrow> bool" where
  "owners_ok t \<longleftrightarrow> (\<forall>a\<in>set (tb_applications t). app_UserID a \<noteq> 0 \<longrightarrow>
     (\<exists>m. find_membership t (app_ID a) (app_UserID a) = Some m \<and> \<not> mem_AutoAssigned m))"

definition channels_ok :: "gorm_db \<Rightarrow> bool" where
  "channels_ok t \<longleftrightarrow> members_ok t \<and> owners_ok t \<and> 0 < sq_applications t \<and> 0 \<notin> app_ID ` set (tb_applications t)"

definition members_stay :: "gorm_db \<Rightarrow> gorm_db \<Rightarrow> bool" where
  "members_stay t t' \<longleftrightarrow> (\<forall>a u m. find_membership t a u = Some m \<and> \<not> mem_AutoAssigned m \<longrightarrow>
     (\<exists>m'. find_membership t' a u = Some m' \<and> \<not> mem_AutoAssigned m'))"

lemma members_stay_refl [simp]: "members_stay t t"
  by (simp add: members_stay_def)

lemma channels_ok_memberships:
  assumes "channels_ok t" and "distinct (map mem_key ms)" and "members_stay t (t\<lparr>tb_memberships := ms\<rparr>)"
  shows "channels_ok (t\<lparr>tb_memberships := ms\<rparr>)"
proof -
  have "owners_ok (t\<lparr>tb_memberships := ms\<rparr>)"
    using assms(1,3) unfolding channels_ok_def owners_ok_def members_stay_def by simp
  then show ?thesis using assms(1,2) by (simp add: channels_ok_def members_ok_def)
qed

text \<open>Changes of other tables do not matter.\<close>

definition same_channels :: "gorm_db \<Rightarrow> gorm_db \<Rightarrow> bool" where
  "same_channels t t' \<longleftrightarrow> tb_users t' = tb_users t \<and> tb_applications t' = tb_applications t \<and>
     tb_memberships t' = tb_memberships t \<and> tb_assignments t' = tb_assignments t \<and> sq_applications t' = sq_applications t"

lemma channels_ok_same: "same_channels t t' \<Longrightarrow> channels_ok t \<Longrightarrow> channels_ok t'"
  by (simp add: same_channels_def channels_ok_def members_ok_def owners_ok_def find_membership_def)

lemma keeps_other: "(\<And>t. same_channels t (f t)) \<Longrightarrow> keeps channels_ok (exec f)"
  using channels_ok_same by (blast intro: keeps_rules)

lemma find_keys: "map mem_key ms = map mem_key ms' \<Longrightarrow> distinct (map mem_key ms') \<Longrightarrow> distinct (map mem_key ms)"
  by simp

lemma find_map_members:
  assumes "\<And>m. mem_key (f m) = mem_key m"
  shows "find_membership (t\<lparr>tb_memberships := map f (tb_memberships t)\<rparr>) a u = map_option f (find_membership t a u)"
  unfolding find_membership_update unfolding find_membership_def by (rule find_map_keep) (simp add: assms)

lemma channels_ok_map:
  assumes "channels_ok t" and "\<And>m. mem_key (f m) = mem_key m" and "\<And>m. mem_AutoAssigned (f m) \<Longrightarrow> mem_AutoAssigned m"
  shows "channels_ok (t\<lparr>tb_memberships := map f (tb_memberships t)\<rparr>)"
proof (rule channels_ok_memberships [OF assms(1)])
  have "map mem_key (map f (tb_memberships t)) = map mem_key (tb_memberships t)" by (simp add: assms(2))
  then show "distinct (map mem_key (map f (tb_memberships t)))"
    using assms(1) unfolding channels_ok_def members_ok_def by metis
  show "members_stay t (t\<lparr>tb_memberships := map f (tb_memberships t)\<rparr>)"
    using assms(2,3) by (auto simp: members_stay_def find_map_members)
qed

lemma channels_ok_filter:
  assumes "channels_ok t" and "\<And>m. m \<in> set (tb_memberships t) \<Longrightarrow> \<not> P m \<Longrightarrow> mem_AutoAssigned m"
  shows "channels_ok (t\<lparr>tb_memberships := filter P (tb_memberships t)\<rparr>)"
proof (rule channels_ok_memberships [OF assms(1)])
  show "distinct (map mem_key (filter P (tb_memberships t)))"
    using assms(1) by (simp add: channels_ok_def members_ok_def distinct_map_filter)
  have keys: "distinct (map mem_key (tb_memberships t))" using assms(1) by (simp add: channels_ok_def members_ok_def)
  have "find_membership (t\<lparr>tb_memberships := filter P (tb_memberships t)\<rparr>) a u = Some m"
    if m: "find_membership t a u = Some m" "\<not> mem_AutoAssigned m" for a u m
  proof -
    have "m \<in> set (tb_memberships t)" "mem_key m = (a, u)" using find_membership_key [OF m(1)] by simp_all
    moreover from this have "P m" using assms(2) m(2) by blast
    ultimately have in': "m \<in> set (filter P (tb_memberships t))" by simp
    have "distinct (map mem_key (filter P (tb_memberships t)))" using keys by (rule distinct_map_filter)
    then show ?thesis
      using find_membership_unique [of "t\<lparr>tb_memberships := filter P (tb_memberships t)\<rparr>" m] in' \<open>mem_key m = (a, u)\<close>
      by (simp add: mem_key_def)
  qed
  then show "members_stay t (t\<lparr>tb_memberships := filter P (tb_memberships t)\<rparr>)"
    by (auto simp: members_stay_def)
qed

lemma channels_ok_append:
  assumes "channels_ok t" and "mem_key m \<notin> mem_key ` set (tb_memberships t)"
  shows "channels_ok (t\<lparr>tb_memberships := tb_memberships t @ [m]\<rparr>)"
proof (rule channels_ok_memberships [OF assms(1)])
  show "distinct (map mem_key (tb_memberships t @ [m]))"
    using assms by (simp add: channels_ok_def members_ok_def)
  show "members_stay t (t\<lparr>tb_memberships := tb_memberships t @ [m]\<rparr>)"
    by (simp add: members_stay_def find_membership_append)
qed

lemma channels_ok_keep: "channels_ok t \<Longrightarrow> channels_ok (keep_membership m t)"
  using channels_ok_append [of t "membership_row t m"] by (simp add: keep_membership_def)

lemma channels_ok_insert: "channels_ok t \<Longrightarrow> channels_ok (snd (insert_membership m t))"
  using channels_ok_append [of t "membership_row t m"] by (simp add: insert_membership_def)

lemma channels_ok_update_applications:
  assumes "channels_ok t" and "\<And>a. app_ID (f a) = app_ID a" and "\<And>a. app_UserID (f a) = app_UserID a"
  shows "channels_ok (update_applications i f t)"
proof -
  have ids: "map app_ID (tb_applications (update_applications i f t)) = map app_ID (tb_applications t)"
    by (simp add: update_applications_def assms(2))
  then have "set (map app_ID (tb_applications (update_applications i f t))) = set (map app_ID (tb_applications t))"
    by (rule arg_cong)
  moreover have "tb_memberships (update_applications i f t) = tb_memberships t"
    "tb_users (update_applications i f t) = tb_users t" "tb_assignments (update_applications i f t) = tb_assignments t"
    "sq_applications (update_applications i f t) = sq_applications t"
    by (simp_all add: update_applications_def)
  moreover have "owners_ok (update_applications i f t)"
    using assms by (auto simp: owners_ok_def channels_ok_def update_applications_def find_membership_def)
  ultimately show ?thesis using assms(1) ids unfolding channels_ok_def members_ok_def set_map by metis
qed

section \<open>Operations that keep the members\<close>

named_theorems channel_ops \<open>operations that keep the channels and their members in order\<close>

lemma keeps_reads: "reads m \<Longrightarrow> keeps P m"
  by (simp add: reads_def keeps_def)

lemma keeps_first_row [keeps_rules]: "keeps P (first_row q)"
  unfolding first_row_def by (intro keeps_rules) (simp add: keeps_rules split: option.split)

lemma keeps_if [keeps_rules]: "(b \<Longrightarrow> keeps P m) \<Longrightarrow> (\<not> b \<Longrightarrow> keeps P k) \<Longrightarrow> keeps P (if b then m else k)"
  by simp

lemma keeps_all: "(\<And>f. f \<in> set fs \<Longrightarrow> keeps P (exec f)) \<Longrightarrow> keeps P (exec_all fs)"
  unfolding exec_all_def by (induction fs) (simp_all add: keeps_rules)

lemma keeps_UpsertApplicationMembership [channel_ops]: "keeps channels_ok (UpsertApplicationMembership m)"
  unfolding UpsertApplicationMembership_def Let_def
proof (intro keeps_rules)
  fix t :: gorm_db
  assume ok: "channels_ok t"
  define m' where "m' = (if mem_Role (m\<lparr>mem_AutoAssigned := False\<rparr>) = '''' then m\<lparr>mem_AutoAssigned := False\<rparr>\<lparr>mem_Role := ChannelRoleMember\<rparr>
    else m\<lparr>mem_AutoAssigned := False\<rparr>)"
  define n where "n = m'\<lparr>mem_Role := NormalizeChannelRole (mem_Role m')\<rparr>"
  have "\<not> mem_AutoAssigned n" by (simp add: n_def m'_def)
  then show "channels_ok (if mem_key n \<in> mem_key ` set (tb_memberships t)
        then t\<lparr>tb_memberships := map (\<lambda>r. if mem_key r = mem_key n
          then r\<lparr>mem_ReceiveNotifications := mem_ReceiveNotifications n, mem_Role := mem_Role n,
            mem_AutoAssigned := mem_AutoAssigned n, mem_UpdatedAt := db_now t\<rparr> else r) (tb_memberships t)\<rparr>
        else t\<lparr>tb_memberships := tb_memberships t @ [membership_row t n]\<rparr>)"
    using ok channels_ok_append [OF ok, of "membership_row t n"]
    by (auto intro!: channels_ok_map split: if_splits)
qed

lemma keeps_SetApplicationMembershipNotifications [channel_ops]:
  "keeps channels_ok (SetApplicationMembershipNotifications app u b)"
proof -
  have "channels_ok (t\<lparr>tb_memberships := map (\<lambda>m. if mem_key m = (app, u)
      then m\<lparr>mem_ReceiveNotifications := b, mem_NotificationOverride := Some b, mem_UpdatedAt := db_now t\<rparr>
      else m) (tb_memberships t)\<rparr>)" if "channels_ok t" for t
    by (rule channels_ok_map [OF that]) (simp_all split: if_splits)
  then show ?thesis
    unfolding SetApplicationMembershipNotifications_def by (auto intro!: keeps_rules)
qed

lemma keeps_SetApplicationMemberPosting [channel_ops]: "keeps channels_ok (SetApplicationMemberPosting app b)"
  unfolding SetApplicationMemberPosting_def
  by (intro keeps_rules channels_ok_update_applications) simp_all

lemma keeps_assign_all [channel_ops]: "keeps channels_ok (assignApplicationToAllUsers app owner)"
proof -
  have "channels_ok (fold keep_membership ms t)" if "channels_ok t" for ms t
    using that by (induction ms arbitrary: t) (simp_all add: channels_ok_keep)
  then show ?thesis
    unfolding assignApplicationToAllUsers_def Let_def by (auto intro!: keeps_rules)
qed

lemma keeps_SetApplicationAutoAssign [channel_ops]: "keeps channels_ok (SetApplicationAutoAssign i b)"
proof -
  have "channels_ok (t\<lparr>tb_memberships := filter (\<lambda>m. \<not> (mem_ApplicationID m = i \<and> mem_AutoAssigned m)) (tb_memberships t)\<rparr>)"
    if "channels_ok t" for t by (rule channels_ok_filter [OF that]) simp
  moreover have "channels_ok (update_applications i (\<lambda>a. a\<lparr>app_AutoAssign := b\<rparr>) t)" if "channels_ok t" for t
    by (rule channels_ok_update_applications [OF that]) simp_all
  ultimately show ?thesis
    unfolding SetApplicationAutoAssign_def by (intro keeps_rules channel_ops) simp_all
qed

lemma synced_auto:
  "\<not> only_groups app m \<Longrightarrow> \<exists>m'. synced app now m access = Some m' \<and> mem_AutoAssigned m' = mem_AutoAssigned m"
  by (cases access) (auto simp: synced_def)

lemma keeps_sync_keys: "keeps (\<lambda>t. distinct (map mem_key (tb_memberships t))) (SyncApplicationGroupAssignments i)"
proof -
  let ?P = "\<lambda>t. distinct (map mem_key (tb_memberships t))"
  have save: "?P (save_membership m t)" if "?P t" for m t
  proof -
    have "map mem_key (tb_memberships (save_membership m t)) = map mem_key (tb_memberships t)"
      by (auto simp: save_membership_def)
    then show ?thesis using that by metis
  qed
  have del: "?P (delete_membership a u t)" if "?P t" for a u t
    using that by (simp add: delete_membership_def distinct_map_filter)
  have "keeps ?P (sync_row app m acc)" for app m acc
    unfolding sync_row_def by (intro keeps_rules) (auto intro: save del split: option.split)
  then have rows: "keeps ?P (sync_existing app ms d)" for app ms d
    by (induction ms arbitrary: d) (auto simp: sync_existing_step simp del: sync_existing.simps(2) intro!: keeps_rules)
  have ins: "?P (snd (insert_membership m t))" if "?P t" for m t
    using that by (simp add: insert_membership_def)
  have tx: "keeps ?P (transaction (db_bind (sync_existing app ms d) (db_foreach (\<lambda>x. statement (insert_membership (group_membership i x))))))"
    for app ms d by (intro keeps_rules rows ins)
  show ?thesis
    unfolding SyncApplicationGroupAssignments_def
  proof (intro keeps_rules)
    show "keeps ?P (db_GetApplicationByID i)" by (rule keeps_reads) (rule reads_GetUserGroupMembers)
    fix row :: "application option"
    show "keeps ?P (case row of None \<Rightarrow> db_return () | Some app \<Rightarrow> db_bind (GetApplicationGroupAssignments i) (\<lambda>as.
        db_bind (collect_access as []) (\<lambda>d. db_bind (query (\<lambda>t. filter (\<lambda>m. mem_ApplicationID m = i) (tb_memberships t)))
        (\<lambda>ms. transaction (db_bind (sync_existing app ms d)
          (db_foreach (\<lambda>x. statement (insert_membership (group_membership i x)))))))))"
    proof (cases row)
      case (Some app)
      show ?thesis unfolding Some option.case
        by (intro keeps_bind tx keeps_query keeps_reads reads_GetUserGroupMembers reads_collect_access)
    qed (simp add: keeps_rules)
  qed
qed

lemma keeps_sync [channel_ops]: "keeps channels_ok (SyncApplicationGroupAssignments i)"
  unfolding keeps_def
proof (intro allI impI)
  fix s :: session assume ok: "channels_ok (tables s)"
  obtain r s' where run: "SyncApplicationGroupAssignments i s = (r, s')" by (rule prod.exhaust)
  have "channels_ok (tables s')"
  proof (cases "r = Inr () \<and> loaded (tables s) i \<noteq> None")
    case False
    have "tables s' = tables s"
    proof (cases r)
      case (Inl e)
      then show ?thesis using all_or_nothingD [OF atomic_sync] run by auto
    next
      case (Inr x)
      then have "loaded (tables s) i = None" using False by simp
      moreover obtain row s1 where g: "db_GetApplicationByID i s = (Inr row, s1)"
          and rest: "(case row of None \<Rightarrow> db_return () | Some app \<Rightarrow> db_bind (GetApplicationGroupAssignments i) (\<lambda>assignments.
           db_bind (collect_access assignments []) (\<lambda>desired.
           db_bind (query (\<lambda>t. filter (\<lambda>m. mem_ApplicationID m = i) (tb_memberships t))) (\<lambda>memberships.
           transaction (
             db_bind (sync_existing app memberships desired) (db_foreach (\<lambda>d.
               statement (insert_membership (group_membership i d))))))))) s1 = (Inr x, s')"
        using run unfolding Inr SyncApplicationGroupAssignments_def db_bind_Inr by blast
      moreover note get_application_Inr [OF g]
      ultimately show ?thesis by simp
    qed
    then show ?thesis using ok by simp
  next
    case True
    then obtain app where app: "loaded (tables s) i = Some app" and run': "SyncApplicationGroupAssignments i s = (Inr (), s')"
      using run by blast
    have mok: "members_ok (tables s)" using ok by (simp add: channels_ok_def)
    note S = sync_memberships [OF run' mok app]
    have t': "tables s' = (tables s)\<lparr>tb_memberships := tb_memberships (tables s')\<rparr>" using S by blast
    have keys: "distinct (map mem_key (tb_memberships (tables s')))"
      using keepsD [OF keeps_sync_keys run] mok by (simp add: members_ok_def)
    have "\<exists>m'. find_membership (tables s') (app_ID a) (app_UserID a) = Some m' \<and> \<not> mem_AutoAssigned m'"
      if a: "a \<in> set (tb_applications (tables s))" "app_UserID a \<noteq> 0" for a
    proof -
      obtain m where m: "find_membership (tables s) (app_ID a) (app_UserID a) = Some m" "\<not> mem_AutoAssigned m"
        using ok a unfolding channels_ok_def owners_ok_def by blast
      show ?thesis
      proof (cases "app_ID a = i")
        case True
        have "application_of (tables s) i = Some a"
        proof -
          have "find (\<lambda>x. app_ID x = i) xs = Some a" if "distinct (map app_ID xs)" "a \<in> set xs" for xs
            using that True by (induction xs) auto
          then show ?thesis using mok a(1) by (simp add: application_of_def members_ok_def)
        qed
        then have "app = a" using app loaded_simps(1) by fastforce
        then have "\<not> only_groups app m" using find_membership_key [OF m(1)] by (simp add: only_groups_def mem_key_def)
        then obtain m' where "synced app (db_now (tables s)) m (access_of (tables s) i (app_UserID a)) = Some m'"
            "mem_AutoAssigned m' = mem_AutoAssigned m"
          using synced_auto by blast
        then show ?thesis using S [of i "app_UserID a"] m True by auto
      next
        case False
        then show ?thesis using S [of "app_ID a" "app_UserID a"] m by simp
      qed
    qed
    moreover have "tb_applications (tables s') = tb_applications (tables s)" using arg_cong [OF t', of tb_applications] by simp
    ultimately have "owners_ok (tables s')" by (simp add: owners_ok_def)
    moreover have "members_ok (tables s')" "0 < sq_applications (tables s')" "0 \<notin> app_ID ` set (tb_applications (tables s'))"
      using mok keys ok arg_cong [OF t', of tb_users] arg_cong [OF t', of tb_applications] arg_cong [OF t', of tb_assignments]
        arg_cong [OF t', of sq_applications]
      by (simp_all add: members_ok_def channels_ok_def)
    ultimately show ?thesis by (simp add: channels_ok_def)
  qed
  then show "channels_ok (tables (snd (SyncApplicationGroupAssignments i s)))" using run by simp
qed

lemma keeps_groups [channel_ops]:
  "keeps channels_ok (SyncGroupAssignmentsForGroup g)" "keeps channels_ok (DeleteApplicationGroupAssignment app g)"
  "keeps channels_ok (DeleteUserGroup g)" "keeps channels_ok (AddUserGroupMember g u)"
  "keeps channels_ok (RemoveUserGroupMember g u)" "keeps channels_ok (DeleteUserGroupMembershipsForUser u)"
  "keeps channels_ok (CreateUserGroup x)" "keeps channels_ok (UpdateUserGroup x)"
proof -
  have fewer: "channels_ok (t\<lparr>tb_assignments := filter P (tb_assignments t)\<rparr>)" if "channels_ok t" for t P
    using that by (auto simp: channels_ok_def members_ok_def owners_ok_def find_membership_def)
  have members: "channels_ok (t\<lparr>tb_group_members := ms\<rparr>)" "channels_ok (t\<lparr>tb_groups := gs\<rparr>)"
    "channels_ok (t\<lparr>tb_groups := gs, sq_groups := n\<rparr>)"
    if "channels_ok t" for t ms gs n
    using that by (auto intro: channels_ok_same [of t] simp: same_channels_def)
  have sync: "keeps channels_ok (SyncGroupAssignmentsForGroup g)" for g
    unfolding SyncGroupAssignmentsForGroup_def by (intro keeps_rules channel_ops)
  then show "keeps channels_ok (SyncGroupAssignmentsForGroup g)" .
  show "keeps channels_ok (DeleteApplicationGroupAssignment app g)"
    unfolding DeleteApplicationGroupAssignment_def by (intro keeps_rules channel_ops fewer)
  have "keeps channels_ok (exec_all [
         \<lambda>t. t\<lparr>tb_assignments := filter (\<lambda>a. gra_GroupID a \<noteq> g) (tb_assignments t)\<rparr>,
         \<lambda>t. t\<lparr>tb_group_members := filter (\<lambda>m. grm_GroupID m \<noteq> g) (tb_group_members t)\<rparr>,
         \<lambda>t. t\<lparr>tb_groups := filter (\<lambda>x. grp_ID x \<noteq> g) (tb_groups t)\<rparr>])"
    by (rule keeps_all) (auto intro!: keeps_rules fewer members)
  then show "keeps channels_ok (DeleteUserGroup g)"
    unfolding DeleteUserGroup_def by (intro keeps_rules channel_ops)
  show "keeps channels_ok (AddUserGroupMember g u)"
    unfolding AddUserGroupMember_def by (intro keeps_rules sync) (auto intro: members)
  show "keeps channels_ok (RemoveUserGroupMember g u)"
    unfolding RemoveUserGroupMember_def by (intro keeps_rules sync members)
  show "keeps channels_ok (DeleteUserGroupMembershipsForUser u)"
    unfolding DeleteUserGroupMembershipsForUser_def by (intro keeps_rules sync members)
  show "keeps channels_ok (CreateUserGroup x)" "keeps channels_ok (UpdateUserGroup x)"
    unfolding CreateUserGroup_def UpdateUserGroup_def
    by (intro keeps_rules; simp add: insert_group_def Let_def members)+
qed

lemma keeps_assign_group [channel_ops]: "keeps channels_ok (UpsertApplicationGroupAssignment x)"
proof -
  have set: "channels_ok (t\<lparr>tb_assignments := as\<rparr>)"
    if "channels_ok t" "\<forall>a\<in>set as. NormalizeChannelRole (gra_Role a) = gra_Role a" for t as
    using that by (auto simp: channels_ok_def members_ok_def owners_ok_def find_membership_def)
  have norm: "channels_ok t \<Longrightarrow> a \<in> set (tb_assignments t) \<Longrightarrow> NormalizeChannelRole (gra_Role a) = gra_Role a" for t a
    by (simp add: channels_ok_def members_ok_def)
  have if_ok: "(c \<Longrightarrow> channels_ok t) \<Longrightarrow> (\<not> c \<Longrightarrow> channels_ok t') \<Longrightarrow> channels_ok (if c then t else t')" for c t t'
    by simp
  show ?thesis
    unfolding UpsertApplicationGroupAssignment_def Let_def
    by (intro keeps_rules channel_ops if_ok set) (auto dest: norm)
qed

lemma keeps_CreateUser [channel_ops]: "keeps channels_ok (db_CreateUser u)"
proof -
  have "channels_ok (snd (insert_user u t))" if "channels_ok t" for u t
    using that by (auto simp: insert_user_def Let_def channels_ok_def members_ok_def owners_ok_def find_membership_def)
  moreover have "keeps channels_ok (assignUserToAutoApplications i)" for i
    unfolding assignUserToAutoApplications_def by (intro keeps_rules channels_ok_keep)
  ultimately show ?thesis unfolding db_CreateUser_def by (intro keeps_rules)
qed

section \<open>Changing the owner\<close>

lemma find_appended:
  "find_membership (t\<lparr>tb_memberships := tb_memberships t @ [r]\<rparr>) (fst (mem_key r)) (snd (mem_key r)) \<noteq> None"
  by (simp add: find_membership_append split: option.split)

text \<open>Giving a channel to a member by his own right.\<close>

lemma channels_ok_new_owner:
  assumes "channels_ok t" and "find_membership t i u = Some m" and "\<not> mem_AutoAssigned m"
  shows "channels_ok (update_applications i (\<lambda>a. a\<lparr>app_UserID := u, app_SortKey := k\<rparr>) t)"
proof -
  let ?t = "update_applications i (\<lambda>a. a\<lparr>app_UserID := u, app_SortKey := k\<rparr>) t"
  have ids: "map app_ID (tb_applications ?t) = map app_ID (tb_applications t)"
    by (simp add: update_applications_def)
  then have "set (map app_ID (tb_applications ?t)) = set (map app_ID (tb_applications t))"
    by (rule arg_cong)
  moreover have "tb_memberships ?t = tb_memberships t" "tb_users ?t = tb_users t"
    "tb_assignments ?t = tb_assignments t" "sq_applications ?t = sq_applications t"
    by (simp_all add: update_applications_def)
  moreover have "owners_ok ?t"
    using assms by (auto simp: owners_ok_def channels_ok_def update_applications_def find_membership_def)
  ultimately show ?thesis using assms(1) ids unfolding channels_ok_def members_ok_def set_map by metis
qed

lemma keeps_TransferApplicationOwnership [channel_ops]: "keeps channels_ok (TransferApplicationOwnership i u)"
  unfolding keeps_def
proof (intro allI impI)
  fix s :: session assume ok: "channels_ok (tables s)"
  obtain r s' where run: "TransferApplicationOwnership i u s = (r, s')" by (rule prod.exhaust)
  have "channels_ok (tables s')"
  proof (cases r)
    case (Inl e)
    have "tables s' = tables s"
      using run unfolding Inl TransferApplicationOwnership_def by (rule transaction_Inl)
    then show ?thesis using ok by simp
  next
    case (Inr x)
    let ?key = "\<lambda>k t. if \<exists>r\<in>set (tb_applications t). app_ID r \<noteq> i \<and> app_UserID r = u \<and> app_SortKey r = k
        then (Inl duplicated_key, t)
        else (Inr (), update_applications i (\<lambda>a. a\<lparr>app_UserID := u, app_SortKey := k\<rparr>) t)"
    let ?join = "\<lambda>row. case row of
         Some _ \<Rightarrow> exec (\<lambda>t. t\<lparr>tb_memberships := map (\<lambda>m. if mem_key m = (i, u)
           then m\<lparr>mem_AutoAssigned := False, mem_UpdatedAt := db_now t\<rparr> else m) (tb_memberships t)\<rparr>)
       | None \<Rightarrow> statement (insert_membership (new_membership i u))"
    obtain s0 s9 where s0: "tables s0 = tables s" and s9: "tables s' = tables s9"
      and body: "db_bind (first_row (\<lambda>t. find (\<lambda>a. app_ID a = i) (tb_applications t))) (\<lambda>_.
        db_bind (first_row (\<lambda>t. find (\<lambda>x. usr_ID x = u) (tb_users t))) (\<lambda>_.
        db_bind (query (\<lambda>t. find_membership t i u)) (\<lambda>row.
        db_then (?join row) (db_bind (query (last_sort_key (\<lambda>a. app_ID a \<noteq> i) u)) (\<lambda>lastSortKey.
        db_bind (db_lift (KeyBetween lastSortKey '''')) (\<lambda>k. statement (?key k))))))) s0 = (Inr x, s9)"
      using run unfolding Inr TransferApplicationOwnership_def by (elim transaction_Inr) blast
    have reads: "reads (first_row q)" for q :: "gorm_db \<Rightarrow> 'a option"
      unfolding first_row_def by (intro atomic_rules) (auto intro: atomic_rules split: option.split)
    obtain a s1 b s2 row s3 s4 k1 s5 k s6 where
        1: "first_row (\<lambda>t. find (\<lambda>a. app_ID a = i) (tb_applications t)) s0 = (Inr a, s1)" and
        2: "first_row (\<lambda>t. find (\<lambda>x. usr_ID x = u) (tb_users t)) s1 = (Inr b, s2)" and
        3: "query (\<lambda>t. find_membership t i u) s2 = (Inr row, s3)" and
        4: "?join row s3 = (Inr (), s4)" and
        5: "query (last_sort_key (\<lambda>a. app_ID a \<noteq> i) u) s4 = (Inr k1, s5)" and
        6: "db_lift (KeyBetween k1 '''') s5 = (Inr k, s6)" and
        7: "statement (?key k) s6 = (Inr x, s9)"
      using body unfolding db_bind_Inr db_then_Inr by blast
    have t3: "tables s3 = tables s" and row: "row = find_membership (tables s) i u"
      using readsD [OF reads 1] readsD [OF reads 2] query_Inr [OF 3] s0 by simp_all
    have "channels_ok (tables s4) \<and> (\<exists>m. find_membership (tables s4) i u = Some m \<and> \<not> mem_AutoAssigned m)"
    proof (cases row)
      case None
      then have ins: "statement (insert_membership (new_membership i u)) s3 = (Inr (), s4)" using 4 by simp
      note r = statement_Inr [OF ins]
      have "find_membership (tables s4) i u = Some (membership_row (tables s3) (new_membership i u))"
        using insert_membership_Inr [of "new_membership i u" "tables s3" "()" i u] r by simp
      moreover have "\<not> mem_AutoAssigned (membership_row (tables s3) (new_membership i u))"
        by (simp add: membership_row_def new_membership_def)
      moreover have "channels_ok (tables s4)"
        using channels_ok_insert [OF ok, of "new_membership i u"] r t3 by simp
      ultimately show ?thesis by simp
    next
      case (Some m)
      let ?f = "\<lambda>m. if mem_key m = (i, u) then m\<lparr>mem_AutoAssigned := False, mem_UpdatedAt := db_now (tables s)\<rparr> else m"
      have t4: "tables s4 = (tables s)\<lparr>tb_memberships := map ?f (tb_memberships (tables s))\<rparr>"
        using exec_Inr [OF 4 [unfolded Some option.case]] t3 by simp
      have "mem_key m = (i, u)" using find_membership_key [of "tables s" i u m] row Some by simp
      moreover have "find_membership (tables s4) i u = map_option ?f (find_membership (tables s) i u)"
        unfolding t4 by (rule find_map_members) simp
      ultimately have "find_membership (tables s4) i u = Some (?f m) \<and> \<not> mem_AutoAssigned (?f m)"
        using row [symmetric] unfolding Some by simp
      moreover have "channels_ok (tables s4)"
        unfolding t4 by (rule channels_ok_map [OF ok]) (simp_all split: if_splits)
      ultimately show ?thesis by blast
    qed
    moreover have "tables s6 = tables s4" using query_Inr [OF 5] 6 by (auto simp: db_lift_def)
    moreover have "tables s9 = update_applications i (\<lambda>a. a\<lparr>app_UserID := u, app_SortKey := k\<rparr>) (tables s6)"
      using statement_Inr [OF 7] by (auto split: if_splits)
    ultimately show ?thesis using channels_ok_new_owner unfolding s9 by auto
  qed
  then show "channels_ok (tables (snd (TransferApplicationOwnership i u s)))" using run by simp
qed

section \<open>Creating, changing and deleting channels\<close>

lemma insert_application_Inr:
  assumes "channels_ok t" and "insert_application a t = (Inr b, t')"
  shows "app_UserID b = app_UserID a \<and> app_AutoAssign b = app_AutoAssign a \<and> app_ID b \<noteq> 0 \<and>
    app_ID b \<notin> app_ID ` set (tb_applications t) \<and> tb_memberships t' = tb_memberships t \<and>
    t' = t\<lparr>tb_applications := tb_applications t @ [application_row b], sq_applications := sq_applications t'\<rparr> \<and>
    0 < sq_applications t'"
proof -
  define i where "i = (if app_ID a = 0 then sq_applications t else app_ID a)"
  have b: "b = a\<lparr>app_ID := i\<rparr>" "i \<notin> app_ID ` set (tb_applications t)"
      "t' = t\<lparr>tb_applications := tb_applications t @ [application_row (a\<lparr>app_ID := i\<rparr>)],
        sq_applications := max (sq_applications t) (i + 1)\<rparr>"
    using assms(2) unfolding insert_application_def Let_def i_def [symmetric] by (auto split: if_splits)
  moreover have "i \<noteq> 0" using assms(1) by (auto simp: channels_ok_def i_def)
  ultimately show ?thesis by simp
qed

lemma reads_lift [atomic_rules]: "reads (db_lift r)"
  by (simp add: reads_def db_lift_def)

lemma channels_ok_new:
  assumes ok: "channels_ok t" and ins: "insert_application a t = (Inr b, t')"
  shows "app_UserID a = 0 \<Longrightarrow> channels_ok t'"
    and "insert_membership (new_membership (app_ID b) (app_UserID b)) t' = (Inr (), t'') \<Longrightarrow> channels_ok t''"
proof -
  note I = insert_application_Inr [OF ok ins]
  obtain n where t': "t' = t\<lparr>tb_applications := tb_applications t @ [application_row b], sq_applications := n\<rparr>" "0 < n"
    using I by blast
  have row: "app_ID (application_row b) = app_ID b" "app_UserID (application_row b) = app_UserID b"
    by (simp_all add: application_row_def)
  have base: "members_ok t'" "0 < sq_applications t'" "0 \<notin> app_ID ` set (tb_applications t')"
    using ok I row unfolding t'(1) by (auto simp: channels_ok_def members_ok_def t'(2))
  have old: "\<exists>m. find_membership t' (app_ID x) (app_UserID x) = Some m \<and> \<not> mem_AutoAssigned m"
    if "x \<in> set (tb_applications t)" "app_UserID x \<noteq> 0" for x
    using ok that unfolding t'(1) channels_ok_def owners_ok_def find_membership_def by auto
  show "channels_ok t'" if "app_UserID a = 0"
    using base old I that row unfolding channels_ok_def owners_ok_def by (auto simp: t'(1))
  show "channels_ok t''" if m: "insert_membership (new_membership (app_ID b) (app_UserID b)) t' = (Inr (), t'')"
  proof -
    let ?m = "new_membership (app_ID b) (app_UserID b)"
    have new: "mem_key ?m \<notin> mem_key ` set (tb_memberships t')"
        "t'' = t'\<lparr>tb_memberships := tb_memberships t' @ [membership_row t' ?m]\<rparr>"
      using m by (auto simp: insert_membership_def split: if_splits)
    then have none: "find_membership t' (app_ID b) (app_UserID b) = None" by (simp add: find_membership_None)
    have stay: "find_membership t' c v = Some x \<Longrightarrow> find_membership t'' c v = Some x" for c v x
      unfolding new(2) find_membership_append by simp
    have mine: "find_membership t'' (app_ID b) (app_UserID b) = Some (membership_row t' ?m)"
      unfolding new(2) find_membership_append using none by simp
    have auto: "\<not> mem_AutoAssigned (membership_row t' ?m)" by (simp add: membership_row_def new_membership_def)
    have apps: "tb_applications t'' = tb_applications t @ [application_row b]" unfolding new(2) t'(1) by simp
    have "owners_ok t''"
      unfolding owners_ok_def apps using old stay mine auto row by fastforce
    moreover have "members_ok t''" using base(1) new(1) unfolding new(2) by (simp add: members_ok_def)
    ultimately show ?thesis using base(2,3) unfolding channels_ok_def new(2) by simp
  qed
qed

lemma keeps_CreateApplication [channel_ops]: "keeps channels_ok (CreateApplication a)"
  unfolding keeps_def
proof (intro allI impI)
  fix s :: session assume ok: "channels_ok (tables s)"
  obtain r s' where run: "CreateApplication a s = (r, s')" by (rule prod.exhaust)
  have "channels_ok (tables s')"
  proof (cases r)
    case (Inl e)
    have "tables s' = tables s"
      using run unfolding Inl CreateApplication_def by (rule transaction_Inl)
    then show ?thesis using ok by simp
  next
    case (Inr x)
    let ?key = "if app_SortKey a = '''' then db_bind (query (last_sort_key (\<lambda>_. True) (app_UserID a))) (\<lambda>k.
        db_bind (db_lift (KeyBetween k '''')) (\<lambda>k. db_return (a\<lparr>app_SortKey := k\<rparr>))) else db_return a"
    let ?member = "\<lambda>b. if app_UserID b \<noteq> 0 then statement (insert_membership (new_membership (app_ID b) (app_UserID b)))
        else db_return ()"
    let ?all = "\<lambda>b. if app_AutoAssign b then assignApplicationToAllUsers (app_ID b) (app_UserID b) else db_return ()"
    obtain s0 s9 where s0: "tables s0 = tables s" and s9: "tables s' = tables s9"
      and body: "db_bind ?key (\<lambda>a. db_bind (statement (insert_application a)) (\<lambda>b.
        db_then (?member b) (db_then (?all b) (db_return b)))) s0 = (Inr x, s9)"
      using run unfolding Inr CreateApplication_def by (elim transaction_Inr) blast
    obtain a' s1 b s2 s3 where
        1: "?key s0 = (Inr a', s1)" and 2: "statement (insert_application a') s1 = (Inr b, s2)" and
        3: "?member b s2 = (Inr (), s3)" and 4: "db_then (?all b) (db_return b) s3 = (Inr x, s9)"
      using body unfolding db_bind_Inr db_then_Inr by blast
    have key: "reads ?key" by (auto intro!: atomic_rules)
    have t1: "tables s1 = tables s" using readsD [OF key 1] s0 by simp
    have ins: "insert_application a' (tables s) = (Inr b, tables s2)"
      using statement_Inr [OF 2] t1 by (simp add: prod_eq_iff)
    have "channels_ok (tables s3)"
    proof (cases "app_UserID b = 0")
      case True
      then show ?thesis using channels_ok_new(1) [OF ok ins] insert_application_Inr [OF ok ins] 3 by simp
    next
      case False
      then have "statement (insert_membership (new_membership (app_ID b) (app_UserID b))) s2 = (Inr (), s3)" using 3 by simp
      from statement_Inr [OF this] have "insert_membership (new_membership (app_ID b) (app_UserID b)) (tables s2) = (Inr (), tables s3)"
        by (simp add: prod_eq_iff)
      then show ?thesis by (rule channels_ok_new(2) [OF ok ins])
    qed
    moreover have "keeps channels_ok (db_then (?all b) (db_return b))" by (intro keeps_rules channel_ops)
    ultimately have "channels_ok (tables s9)" using 4 unfolding keeps_def by (metis snd_conv)
    then show ?thesis using s9 by simp
  qed
  then show "channels_ok (tables (snd (CreateApplication a s)))" using run by simp
qed

lemma owners_ok_applications:
  "owners_ok (t\<lparr>tb_applications := as\<rparr>) \<longleftrightarrow> (\<forall>a\<in>set as. app_UserID a \<noteq> 0 \<longrightarrow>
     (\<exists>m. find_membership t (app_ID a) (app_UserID a) = Some m \<and> \<not> mem_AutoAssigned m))"
  by (simp add: owners_ok_def find_membership_def)

lemma members_ok_applications:
  "members_ok (t\<lparr>tb_applications := as\<rparr>) \<longleftrightarrow> distinct (map mem_key (tb_memberships t)) \<and> distinct (map usr_ID (tb_users t)) \<and>
     distinct (map app_ID as) \<and> (\<forall>a\<in>set (tb_assignments t). NormalizeChannelRole (gra_Role a) = gra_Role a)"
  by (simp add: members_ok_def)

text \<open>Writing a channel that was read back with other settings.\<close>

lemma channels_ok_update_row:
  assumes ok: "channels_ok t" and b: "loaded t i = Some b" and a: "app_ID a = app_ID b" "app_UserID a = app_UserID b"
  shows "channels_ok (snd (update_application_row a t))"
proof (cases "app_ID a = 0")
  case True
  have "application_of t 0 = None" using ok by (auto simp: application_of_def channels_ok_def find_None_iff)
  moreover have "i = 0" using a True loaded_simps(3) [OF b] by simp
  ultimately have "b = no_application" using b by (simp add: loaded_def)
  then have "app_UserID a = 0" using a by (simp add: no_application_def)
  moreover obtain r t' where "insert_application a t = (r, t')" by (rule prod.exhaust)
  moreover have "t' = t" if "insert_application a t = (Inl e, t')" for e
    using that by (auto simp: insert_application_def Let_def split: if_splits)
  ultimately show ?thesis using channels_ok_new(1) [OF ok] ok True by (cases r) (auto simp: update_application_row_def)
next
  case False
  then have nz: "i \<noteq> 0" using loaded_simps(3) [OF b] a by simp
  then have "application_of t i = Some b" using b loaded_simps(2) by metis
  then have bt: "b \<in> set (tb_applications t)" by (auto simp: application_of_def dest: find_SomeD)
  have dist: "distinct (map app_ID (tb_applications t))" using ok by (simp add: channels_ok_def members_ok_def)
  let ?f = "\<lambda>r. if app_ID r = app_ID a then application_row a else r"
  have own: "app_UserID (?f r) = app_UserID r \<and> app_ID (?f r) = app_ID r" if "r \<in> set (tb_applications t)" for r
  proof (cases "app_ID r = app_ID a")
    case True
    then have "r = b" using dist bt that a by (simp add: distinct_map inj_on_def)
    then show ?thesis using a by (simp add: application_row_def)
  qed simp
  have "channels_ok (t\<lparr>tb_applications := map ?f (tb_applications t)\<rparr>)"
  proof -
    have ids: "map app_ID (map ?f (tb_applications t)) = map app_ID (tb_applications t)" using own by simp
    then have "app_ID ` set (map ?f (tb_applications t)) = app_ID ` set (tb_applications t)" by (metis image_set)
    moreover have "owners_ok (t\<lparr>tb_applications := map ?f (tb_applications t)\<rparr>)"
    proof -
      have "\<exists>m. find_membership t (app_ID (?f r)) (app_UserID (?f r)) = Some m \<and> \<not> mem_AutoAssigned m"
        if "r \<in> set (tb_applications t)" "app_UserID (?f r) \<noteq> 0" for r
      proof -
        have "app_UserID r \<noteq> 0" using own [OF that(1)] that(2) by metis
        then have "\<exists>m. find_membership t (app_ID r) (app_UserID r) = Some m \<and> \<not> mem_AutoAssigned m"
          using ok that(1) unfolding channels_ok_def owners_ok_def by blast
        then show ?thesis using own [OF that(1)] by metis
      qed
      then have "\<forall>x\<in>set (map ?f (tb_applications t)). app_UserID x \<noteq> 0 \<longrightarrow>
          (\<exists>m. find_membership t (app_ID x) (app_UserID x) = Some m \<and> \<not> mem_AutoAssigned m)"
        unfolding set_map by blast
      then show ?thesis unfolding owners_ok_applications .
    qed
    moreover have "members_ok (t\<lparr>tb_applications := map ?f (tb_applications t)\<rparr>)"
      using ok dist unfolding members_ok_applications ids unfolding channels_ok_def members_ok_def by blast
    ultimately show ?thesis using ok unfolding channels_ok_def by simp
  qed
  then show ?thesis using ok False bt a by (auto simp: update_application_row_def)
qed

text \<open>Removing a member who does not own the channel.\<close>

lemma channels_ok_remove_member:
  assumes ok: "channels_ok t" and "\<And>a. a \<in> set (tb_applications t) \<Longrightarrow> app_ID a = i \<Longrightarrow> app_UserID a \<noteq> u"
  shows "channels_ok (delete_membership i u t)"
proof -
  have "owners_ok (delete_membership i u t)"
    unfolding owners_ok_def
  proof (intro ballI impI)
    fix a assume "a \<in> set (tb_applications (delete_membership i u t))" "app_UserID a \<noteq> 0"
    then have a: "a \<in> set (tb_applications t)" "app_UserID a \<noteq> 0" by (simp_all add: delete_membership_def)
    then have "find_membership (delete_membership i u t) (app_ID a) (app_UserID a) = find_membership t (app_ID a) (app_UserID a)"
      using assms(2) [OF a(1)] by (auto simp: find_delete)
    then show "\<exists>m. find_membership (delete_membership i u t) (app_ID a) (app_UserID a) = Some m \<and> \<not> mem_AutoAssigned m"
      using ok a unfolding channels_ok_def owners_ok_def by simp
  qed
  then show ?thesis
    using ok by (simp add: channels_ok_def members_ok_def delete_membership_def distinct_map_filter)
qed

text \<open>The tables of the channels after a channel is gone.\<close>

definition pruned :: "nat \<Rightarrow> gorm_db \<Rightarrow> gorm_db \<Rightarrow> bool" where
  "pruned i t t' \<longleftrightarrow> tb_users t' = tb_users t \<and> tb_applications t' = filter (\<lambda>a. app_ID a \<noteq> i) (tb_applications t) \<and>
     tb_memberships t' = filter (\<lambda>m. mem_ApplicationID m \<noteq> i) (tb_memberships t) \<and>
     tb_assignments t' = filter (\<lambda>a. gra_ApplicationID a \<noteq> i) (tb_assignments t) \<and> sq_applications t' = sq_applications t"

lemma channels_ok_pruned:
  assumes ok: "channels_ok t" and p: "pruned i t t'"
  shows "channels_ok t'"
proof -
  have "find_membership t' a u = find_membership t a u" if "a \<noteq> i" for a u
    using p that unfolding pruned_def find_membership_def by (auto simp: mem_key_def intro!: find_filter_keep)
  moreover have "owners_ok t" using ok by (simp add: channels_ok_def)
  ultimately have "owners_ok t'" using p by (auto simp: owners_ok_def pruned_def)
  then show ?thesis
    using ok p by (auto simp: channels_ok_def members_ok_def pruned_def distinct_map_filter)
qed

lemma keeps_same_delete_messages: "keeps (same_channels t0) (DeleteMessagesByApplication i)"
proof -
  have "keeps (same_channels t0) (delete_dependents ids)" for ids
    unfolding delete_dependents_def by (rule keeps_all) (auto simp: same_channels_def intro!: keeps_rules)
  then show ?thesis
    unfolding DeleteMessagesByApplication_def by (intro keeps_rules) (simp_all add: same_channels_def)
qed

lemma same_automation [simp]: "same_channels t0 (on_automation f t) = same_channels t0 t"
  "same_channels t0 (on_accounts g t) = same_channels t0 t" "same_channels t0 (t\<lparr>tb_states := es\<rparr>) = same_channels t0 t"
  "same_channels t0 (t\<lparr>tb_digest_items := ds\<rparr>) = same_channels t0 t"
  by (simp_all add: same_channels_def on_automation_def on_accounts_def)

lemma same_channels_refl [simp]: "same_channels t t"
  by (simp add: same_channels_def)

lemma delete_channel_pruned:
  assumes run: "delete_channel i s = (Inr x, s')" and same: "same_channels t0 (tables s)"
  shows "pruned i t0 (tables s')"
proof -
  obtain q1 s1 s2 s3 q2 s4 s5 where
      1: "query (rules_of i) s = (Inr q1, s1)" and 2: "delete_rules q1 s1 = (Inr (), s2)" and
      3: "exec_all (delete_sources i) s2 = (Inr (), s3)" and 4: "query (schedules_of i) s3 = (Inr q2, s4)" and
      5: "delete_runs q2 s4 = (Inr (), s5)" and 6: "exec_all (delete_links i) s5 = (Inr x, s')"
    using run unfolding delete_channel_def db_bind_Inr db_then_Inr by blast
  have k: "keeps (same_channels t0) (delete_rules q1)" "keeps (same_channels t0) (delete_runs q2)"
    unfolding delete_rules_def delete_runs_def by (auto intro!: keeps_rules keeps_all)
  have "same_channels t0 (tables s1)" using query_Inr [OF 1] same by simp
  then have "same_channels t0 (tables s2)" by (rule keepsD [OF k(1) 2])
  then have "same_channels t0 (tables s3)" using exec_all_Inr [OF 3] by (simp add: delete_sources_def)
  then have "same_channels t0 (tables s4)" using query_Inr [OF 4] by simp
  then have "same_channels t0 (tables s5)" by (rule keepsD [OF k(2) 5])
  then show ?thesis
    using exec_all_Inr [OF 6] by (simp add: delete_links_def same_channels_def pruned_def on_automation_def)
qed

lemma DeleteApplicationByID_tables:
  assumes run: "db_DeleteApplicationByID i s = (r, s')"
  shows "if r = Inr () then pruned i (tables s) (tables s') else same_channels (tables s) (tables s')"
proof -
  have first: "keeps (same_channels (tables s)) (DeleteMessagesByApplication i)" by (rule keeps_same_delete_messages)
  show ?thesis
  proof (cases r)
    case (Inl e)
    then consider "DeleteMessagesByApplication i s = (Inl e, s')"
      | s1 where "DeleteMessagesByApplication i s = (Inr (), s1)" "transaction (delete_channel i) s1 = (Inl e, s')"
      using run unfolding db_DeleteApplicationByID_def db_then_def Inl db_bind_Inl by auto
    then have "same_channels (tables s) (tables s')"
      by cases (use keepsD [OF first] transaction_Inl in fastforce)+
    then show ?thesis using Inl by simp
  next
    case (Inr x)
    obtain s1 where s1: "DeleteMessagesByApplication i s = (Inr (), s1)" and tx: "transaction (delete_channel i) s1 = (Inr x, s')"
      using run unfolding Inr db_DeleteApplicationByID_def db_then_Inr by blast
    obtain s2 s3 where s2: "tables s2 = tables s1" "delete_channel i s2 = (Inr x, s3)" "tables s' = tables s3"
      using transaction_Inr [OF tx] by blast
    have "same_channels (tables s) (tables s2)" using keepsD [OF first s1] s2(1) by simp
    from delete_channel_pruned [OF s2(2) this] show ?thesis using Inr s2(3) by simp
  qed
qed

lemma keeps_DeleteApplicationByID [channel_ops]: "keeps channels_ok (db_DeleteApplicationByID i)"
  unfolding keeps_def
proof (intro allI impI)
  fix s :: session assume ok: "channels_ok (tables s)"
  obtain r s' where run: "db_DeleteApplicationByID i s = (r, s')" by (rule prod.exhaust)
  show "channels_ok (tables (snd (db_DeleteApplicationByID i s)))"
    using DeleteApplicationByID_tables [OF run] channels_ok_pruned [OF ok] channels_ok_same [OF _ ok] run
    by (auto split: if_splits)
qed

text \<open>Steps that lead from one predicate to a weaker one.\<close>

definition leads :: "(gorm_db \<Rightarrow> bool) \<Rightarrow> (gorm_db \<Rightarrow> bool) \<Rightarrow> 'a db \<Rightarrow> bool" where
  "leads P Q m \<longleftrightarrow> (\<forall>s. P (tables s) \<longrightarrow> Q (tables (snd (m s))))"

lemma leads_keeps: "keeps Q m \<Longrightarrow> (\<And>t. P t \<Longrightarrow> Q t) \<Longrightarrow> leads P Q m"
  by (simp add: leads_def keeps_def)

lemma leads_bind: "keeps P m \<Longrightarrow> (\<And>x. leads P Q (f x)) \<Longrightarrow> (\<And>t. P t \<Longrightarrow> Q t) \<Longrightarrow> leads P Q (db_bind m f)"
  unfolding keeps_def leads_def db_bind_def by (auto split: prod.splits sum.splits)

lemma leads_then: "keeps P m \<Longrightarrow> leads P Q k \<Longrightarrow> (\<And>t. P t \<Longrightarrow> Q t) \<Longrightarrow> leads P Q (db_then m k)"
  unfolding db_then_def by (rule leads_bind)

lemma reads_foreach: "(\<And>x. reads (f x)) \<Longrightarrow> reads (db_foreach f xs)"
proof (induction xs)
  case Nil
  show ?case unfolding db_foreach.simps by (rule atomic_rules)
next
  case (Cons x xs)
  have "reads (db_foreach f xs)" using Cons by blast
  then show ?case unfolding db_foreach.simps db_then_def by (intro atomic_rules Cons.prems)
qed

text \<open>Deleting a user: once his channels are gone nothing he owns is left.\<close>

definition owns_nothing :: "nat \<Rightarrow> gorm_db \<Rightarrow> bool" where
  "owns_nothing u t \<longleftrightarrow> (\<forall>a\<in>set (tb_applications t). app_UserID a \<noteq> u)"

lemma delete_all_Inr:
  "db_foreach (\<lambda>app. db_DeleteApplicationByID (app_ID app)) apps s = (Inr x, s') \<Longrightarrow>
     tb_applications (tables s') = filter (\<lambda>a. app_ID a \<notin> app_ID ` set apps) (tb_applications (tables s))"
proof (induction apps arbitrary: s)
  case (Cons app apps)
  obtain s1 where 1: "db_DeleteApplicationByID (app_ID app) s = (Inr (), s1)"
      and 2: "db_foreach (\<lambda>app. db_DeleteApplicationByID (app_ID app)) apps s1 = (Inr x, s')"
    using Cons.prems by (auto simp: db_then_Inr)
  show ?case
    using Cons.IH [OF 2] DeleteApplicationByID_tables [OF 1] by (simp add: pruned_def conj_commute)
qed simp

lemma keeps_try [keeps_rules]: "keeps P m \<Longrightarrow> keeps P (db_try x m)"
  unfolding keeps_def db_try_def by (auto split: prod.splits sum.splits)

lemma keeps_owns_nothing:
  assumes "\<And>t. same_channels t (f t)"
  shows "keeps (\<lambda>t. channels_ok t \<and> owns_nothing u t) (exec f)"
proof (rule keeps_exec)
  fix t assume t: "channels_ok t \<and> owns_nothing u t"
  then have "tb_applications (f t) = tb_applications t" using assms [of t] by (simp add: same_channels_def)
  then show "channels_ok (f t) \<and> owns_nothing u (f t)"
    using t channels_ok_same [OF assms [of t]] by (simp add: owns_nothing_def)
qed

lemma channels_ok_no_user:
  assumes "channels_ok t" and "owns_nothing u t"
  shows "channels_ok (t\<lparr>tb_memberships := filter (\<lambda>r. mem_UserID r \<noteq> u) (tb_memberships t)\<rparr>)"
proof -
  let ?t = "t\<lparr>tb_memberships := filter (\<lambda>r. mem_UserID r \<noteq> u) (tb_memberships t)\<rparr>"
  have "find_membership ?t a v = find_membership t a v" if "v \<noteq> u" for a v
    using that unfolding find_membership_def by (auto simp: mem_key_def intro!: find_filter_keep)
  then have "owners_ok ?t" using assms unfolding owners_ok_def owns_nothing_def channels_ok_def by simp
  then show ?thesis using assms by (simp add: channels_ok_def members_ok_def distinct_map_filter)
qed

lemma leads_account: "leads (\<lambda>t. channels_ok t \<and> owns_nothing u t) channels_ok (delete_account u)"
proof -
  let ?Q = "\<lambda>t. channels_ok t \<and> owns_nothing u t"
  have rows: "keeps ?Q (exec_all (personal_rows u))"
  proof (rule keeps_all)
    fix f assume "f \<in> set (personal_rows u)"
    then consider "f = (\<lambda>t. t\<lparr>tb_memberships := filter (\<lambda>r. mem_UserID r \<noteq> u) (tb_memberships t)\<rparr>)"
      | "\<And>t. same_channels t (f t)"
      by (auto simp: personal_rows_def same_channels_def on_accounts_def)
    then show "keeps ?Q (exec f)"
    proof cases
      case 1
      show ?thesis unfolding 1
        by (rule keeps_exec) (simp add: channels_ok_no_user, simp add: owns_nothing_def)
    qed (rule keeps_owns_nothing)
  qed
  have clients: "keeps ?Q (db_try [] (GetClientsByUser u))" "keeps ?Q (db_try () (DeleteClientByID c))"
    "keeps ?Q (db_try [] (GetPluginConfByUser u))" "keeps ?Q (db_try () (DeletePluginConfByID c))" for c
    unfolding GetClientsByUser_def DeleteClientByID_def GetPluginConfByUser_def DeletePluginConfByID_def
    by (intro keeps_rules keeps_owns_nothing; simp)+
  have "channels_ok (t\<lparr>tb_users := filter P (tb_users t)\<rparr>)" if "channels_ok t" for t P
    using that by (simp add: channels_ok_def members_ok_def owners_ok_def find_membership_def distinct_map_filter)
  then have "keeps channels_ok (db_then (DeleteUserGroupMembershipsForUser u)
      (exec (\<lambda>t. t\<lparr>tb_users := filter (\<lambda>x. usr_ID x \<noteq> u) (tb_users t)\<rparr>)))"
    by (intro keeps_rules channel_ops)
  then have last: "leads ?Q channels_ok (db_then (DeleteUserGroupMembershipsForUser u)
      (exec (\<lambda>t. t\<lparr>tb_users := filter (\<lambda>x. usr_ID x \<noteq> u) (tb_users t)\<rparr>)))"
    by (rule leads_keeps) simp
  have foreach: "keeps ?Q (db_foreach (\<lambda>c. db_try () (DeleteClientByID (cl_ID c))) cs)"
    "keeps ?Q (db_foreach (\<lambda>p. db_try () (DeletePluginConfByID (plg_ID p))) ps)" for cs ps
    by (intro keeps_rules clients)+
  show ?thesis
    unfolding delete_account_def
    by (intro leads_bind leads_then last rows clients foreach) simp_all
qed

lemma keeps_DeleteUserByID [channel_ops]: "keeps channels_ok (db_DeleteUserByID u)"
  unfolding keeps_def
proof (intro allI impI)
  fix s :: session assume ok: "channels_ok (tables s)"
  obtain r s' where run: "db_DeleteUserByID u s = (r, s')" by (rule prod.exhaust)
  let ?delete = "db_foreach (\<lambda>app. db_DeleteApplicationByID (app_ID app))"
  have check: "reads (db_foreach (check_unshared u) apps)" for apps
    by (intro reads_foreach) (auto simp: check_unshared_def CountApplicationMemberships_def intro!: atomic_rules)
  have query: "reads (GetApplicationsByUser u)" unfolding GetApplicationsByUser_def by (rule atomic_rules)
  obtain q s1 where 1: "GetApplicationsByUser u s = (q, s1)" by (rule prod.exhaust)
  have t1: "tables s1 = tables s" using readsD [OF query 1] .
  have "channels_ok (tables s')"
  proof (cases q)
    case (Inl e)
    then show ?thesis using run 1 t1 ok by (simp add: db_DeleteUserByID_def db_bind_def)
  next
    case (Inr apps)
    obtain c s2 where 2: "db_foreach (check_unshared u) apps s1 = (c, s2)" by (rule prod.exhaust)
    obtain d s3 where 3: "?delete apps s2 = (d, s3)" by (rule prod.exhaust)
    have t2: "tables s2 = tables s" using readsD [OF check 2] t1 by simp
    have kept: "keeps channels_ok (?delete apps)" by (intro keeps_rules channel_ops)
    have ok3: "channels_ok (tables s3)" using keepsD [OF kept 3] ok t2 by simp
    have apps: "set apps = {a \<in> set (tb_applications (tables s)). app_UserID a = u}"
      using query_Inr [OF 1 [unfolded Inr GetApplicationsByUser_def]] by auto
    show ?thesis
    proof (cases "c = Inr () \<and> d = Inr ()")
      case True
      then have "delete_account u s3 = (r, s')"
        using run 1 2 3 Inr by (simp add: db_DeleteUserByID_def db_bind_def db_then_def)
      moreover have "owns_nothing u (tables s3)"
        using delete_all_Inr [of apps s2 "()" s3] 3 True t2 apps by (auto simp: owns_nothing_def)
      ultimately show ?thesis using leads_account [of u] ok3 unfolding leads_def by (metis snd_conv)
    next
      case False
      then have "tables s' = tables s2 \<or> tables s' = tables s3"
        using run 1 2 3 Inr by (cases c; cases d) (auto simp: db_DeleteUserByID_def db_bind_def db_then_def)
      then show ?thesis using ok ok3 t2 by auto
    qed
  qed
  then show "channels_ok (tables (snd (db_DeleteUserByID u s)))" using run by simp
qed

section \<open>Handlers that read and handlers that act\<close>

lemma reads_queries [atomic_rules]:
  "reads (user_by P)" "reads (db_GetUserByID u)" "reads (db_GetApplicationMembership a u)"
  "reads (authorizeChannelManager u app)" "reads (isOwnerOrAdmin u app)" "reads (GetUserGroupByID g)"
  "reads (CountUserGroupMembers g)"
proof -
  show user: "reads (user_by P)" for P unfolding user_by_def Let_def by (intro atomic_rules)
  then show "reads (db_GetUserByID u)" by (simp add: db_GetUserByID_def)
  note user = this
  show member: "reads (db_GetApplicationMembership a u)" for a u
    unfolding db_GetApplicationMembership_def Let_def by (auto intro!: atomic_rules reads_GetUserGroupMembers)
  show "reads (authorizeChannelManager u app)" "reads (isOwnerOrAdmin u app)"
    unfolding authorizeChannelManager_def isOwnerOrAdmin_def
    by (cases app; auto intro!: atomic_rules user member)+
  show "reads (GetUserGroupByID g)" "reads (CountUserGroupMembers g)"
    unfolding GetUserGroupByID_def CountUserGroupMembers_def by (rule atomic_rules)+
qed

lemma h_reads_if [h_read_rules]: "h_reads m \<Longrightarrow> h_reads k \<Longrightarrow> h_reads (if b then m else k)"
  by simp

lemma h_keeps_if [h_rules]: "(b \<Longrightarrow> h_keeps P m) \<Longrightarrow> (\<not> b \<Longrightarrow> h_keeps P k) \<Longrightarrow> h_keeps P (if b then m else k)"
  by simp

lemma h_keeps_option [h_rules]:
  "h_keeps P m \<Longrightarrow> (\<And>x. h_keeps P (f x)) \<Longrightarrow> h_keeps P (case y of None \<Rightarrow> m | Some x \<Rightarrow> f x)"
  by (cases y) simp_all

lemma h_keeps_reads: "h_reads m \<Longrightarrow> h_keeps P m"
  by (simp add: h_reads_def h_keeps_def)

lemma h_reads_authorized [h_read_rules]:
  "h_reads (getAuthorizedApplication i)" "(\<And>u app. reads (test u app)) \<Longrightarrow> h_reads (allowed_application test i)"
  "h_reads (existing_group g)"
proof -
  have case': "h_reads (case app of None \<Rightarrow> m | Some app \<Rightarrow> k app)"
    if "h_reads m" "\<And>app. h_reads (k app)" for app :: "'x option" and m :: "('w, 'y) handler" and k
    using that by (cases app) simp_all
  show "h_reads (getAuthorizedApplication i)"
    unfolding getAuthorizedApplication_def
    by (intro h_read_rules atomic_rules case' reads_GetUserGroupMembers; simp)
  show "h_reads (allowed_application test i)" if "\<And>u app. reads (test u app)"
    unfolding allowed_application_def
    by (intro h_read_rules atomic_rules case' reads_GetUserGroupMembers that; simp)
  show "h_reads (existing_group g)"
    unfolding existing_group_def by (intro h_read_rules atomic_rules case')
qed

text \<open>What a test says about the application it lets through.\<close>

lemma get_application_loaded:
  "successOrAbort c (db_GetApplicationByID i) s = (Some app, s1) \<Longrightarrow> app = loaded (srv_tables s) i"
  by (drule successOrAbort_Some) (auto dest: get_application_Inr)

lemma authorized_loaded:
  assumes "getAuthorizedApplication i s = (Some app, s1) \<or> allowed_application test i s = (Some app, s1)"
  shows "loaded (srv_tables s) i = Some app"
proof -
  obtain c s2 where "successOrAbort c (db_GetApplicationByID i) s = (Some (Some app), s2)"
    using assms unfolding getAuthorizedApplication_def allowed_application_def h_bind_Some
    by (auto split: option.splits if_splits)
  then show ?thesis by (metis get_application_loaded)
qed

text \<open>Handlers that lead from one predicate to a weaker one.\<close>

definition h_leads :: "(gorm_db \<Rightarrow> bool) \<Rightarrow> (gorm_db \<Rightarrow> bool) \<Rightarrow> ('w, 'a) handler \<Rightarrow> bool" where
  "h_leads P Q m \<longleftrightarrow> (\<forall>s. P (srv_tables s) \<longrightarrow> Q (srv_tables (snd (m s))))"

lemma h_leads_reads: "h_reads m \<Longrightarrow> (\<And>t. P t \<Longrightarrow> Q t) \<Longrightarrow> h_leads P Q m"
  by (simp add: h_leads_def h_reads_def)

lemma h_leads_bind_read:
  fixes m :: "('w, 'a) handler"
  assumes "h_reads m" and "\<And>x. h_leads P Q (f x)" and "\<And>t. P t \<Longrightarrow> Q t"
  shows "h_leads P Q (h_bind m f)"
  unfolding h_leads_def
proof (intro allI impI)
  fix s :: "'w server gin" assume P: "P (srv_tables s)"
  obtain r s1 where m: "m s = (r, s1)" by (metis surj_pair)
  show "Q (srv_tables (snd (h_bind m f s)))"
    using h_readsD [OF assms(1) m] assms(2) assms(3) [OF P] P m by (cases r) (simp_all add: h_bind_def h_leads_def)
qed

lemma h_leads_bind: "h_leads P Q m \<Longrightarrow> (\<And>x. h_keeps Q (f x)) \<Longrightarrow> h_leads P Q (h_bind m f)"
  unfolding h_leads_def h_keeps_def h_bind_def by (auto split: prod.splits option.splits)

lemma h_leads_then: "h_leads P Q m \<Longrightarrow> h_keeps Q k \<Longrightarrow> h_leads P Q (h_then m k)"
  unfolding h_then_def by (rule h_leads_bind)

lemma h_leads_call: "leads P Q m \<Longrightarrow> h_leads P Q (successOrAbort c m)"
  unfolding h_leads_def leads_def successOrAbort_run by simp

lemma h_leads_application_error: "leads P Q m \<Longrightarrow> h_leads P Q (handleApplicationError m)"
  unfolding h_leads_def leads_def handleApplicationError_def by (auto split: prod.splits sum.splits)

lemma h_keeps_application_error [h_rules]: "keeps P m \<Longrightarrow> h_keeps P (handleApplicationError m)"
  unfolding h_keeps_def keeps_def handleApplicationError_def by (auto split: prod.splits sum.splits)

text \<open>A handler that first loads an application and then acts on it.\<close>

lemma h_keeps_loaded:
  fixes m :: "('w, application) handler"
  assumes "h_reads m" and "\<And>s app s1. m s = (Some app, s1) \<Longrightarrow> loaded (srv_tables s) i = Some app"
    and "\<And>app. h_leads (\<lambda>t. P t \<and> loaded t i = Some app) P (f app)"
  shows "h_keeps P (h_bind m f)"
  unfolding h_keeps_def
proof (intro allI impI)
  fix s :: "'w server gin" assume P: "P (srv_tables s)"
  obtain r s1 where m: "m s = (r, s1)" by (metis surj_pair)
  note t1 = h_readsD [OF assms(1) m]
  show "P (srv_tables (snd (h_bind m f s)))"
  proof (cases r)
    case None
    then show ?thesis using m t1 P by (simp add: h_bind_def)
  next
    case (Some app)
    then have "loaded (srv_tables s1) i = Some app" using assms(2) m t1 by fastforce
    then show ?thesis using assms(3) [of app] m Some t1 P by (simp add: h_bind_def h_leads_def)
  qed
qed

text \<open>Rules for the acting part of such handlers.\<close>

lemma h_leads_withID: "(\<And>v. h_leads P Q (f v)) \<Longrightarrow> (\<And>t. P t \<Longrightarrow> Q t) \<Longrightarrow> h_leads P Q (withID u f)"
  unfolding withID_def by (cases "ParseUint u") (auto intro: h_leads_reads simp: h_reads_simple)

lemma h_leads_if: "(b \<Longrightarrow> h_leads P Q m) \<Longrightarrow> (\<not> b \<Longrightarrow> h_leads P Q k) \<Longrightarrow> h_leads P Q (if b then m else k)"
  by simp

lemma h_leads_abort: "(\<And>t. P t \<Longrightarrow> Q t) \<Longrightarrow> h_leads P Q (aborted c e)"
  by (rule h_leads_reads) (simp_all add: h_reads_simple)

lemma loaded_row:
  assumes "channels_ok t" and "a \<in> set (tb_applications t)"
  shows "loaded t (app_ID a) = Some a"
proof -
  have "find (\<lambda>x. app_ID x = app_ID a) xs = Some a" if "distinct (map app_ID xs)" "a \<in> set xs" for xs
    using that by (induction xs) auto
  then show ?thesis using assms loaded_simps(1) by (simp add: application_of_def channels_ok_def members_ok_def)
qed

lemma leads_delete_membership:
  assumes "v \<noteq> app_UserID app"
  shows "leads (\<lambda>t. channels_ok t \<and> loaded t i = Some app) channels_ok (DeleteApplicationMembership i v)"
  unfolding leads_def
proof (intro allI impI)
  fix s :: session assume s: "channels_ok (tables s) \<and> loaded (tables s) i = Some app"
  obtain r s' where run: "DeleteApplicationMembership i v s = (r, s')" by (rule prod.exhaust)
  have own: "app_UserID a \<noteq> v" if "a \<in> set (tb_applications (tables s))" "app_ID a = i" for a
    using loaded_row [of "tables s" a] s that assms by auto
  have "tables s' = tables s \<or> tables s' = delete_membership i v (tables s)"
    using run exec_Inl [of _ s _ s'] exec_Inr [of _ s _ s'] unfolding DeleteApplicationMembership_def by (cases r) auto
  then show "channels_ok (tables (snd (DeleteApplicationMembership i v s)))"
    using run s channels_ok_remove_member [of "tables s" i v] own by auto
qed

end
