(* ===== verification/User_Requests.thy ===== *)
theory User_Requests
  imports Channels_Laws
begin

text \<open>
  The requests on users together with the database: the handlers of \<open>Users\<close> on the operations of \<open>Membership\<close> and
  \<open>Accounts\<close>, which meet the laws of \<open>user_store\<close> whatever statements fail.
\<close>

section \<open>Operations that leave the users alone\<close>

definition same_users :: "gorm_db \<Rightarrow> gorm_db \<Rightarrow> bool" where
  "same_users t0 t \<longleftrightarrow> tb_users t = tb_users t0 \<and> sq_users t = sq_users t0"

named_theorems user_frame \<open>operations that leave the users alone\<close>

lemma same_users_refl [simp]: "same_users t t"
  by (simp add: same_users_def)

lemma frame_exec [user_frame]:
  "(\<And>t. tb_users (f t) = tb_users t) \<Longrightarrow> (\<And>t. sq_users (f t) = sq_users t) \<Longrightarrow> keeps (same_users t0) (exec f)"
  by (rule keeps_exec) (simp add: same_users_def)

lemma frame_statement [user_frame]:
  "(\<And>t. tb_users (snd (f t)) = tb_users t) \<Longrightarrow> (\<And>t. sq_users (snd (f t)) = sq_users t) \<Longrightarrow>
     keeps (same_users t0) (statement f)"
  by (rule keeps_statement) (simp add: same_users_def)

lemma frame_membership [simp]:
  "tb_users (keep_membership m t) = tb_users t" "sq_users (keep_membership m t) = sq_users t"
  "tb_users (save_membership m t) = tb_users t" "sq_users (save_membership m t) = sq_users t"
  "tb_users (delete_membership a u t) = tb_users t" "sq_users (delete_membership a u t) = sq_users t"
  "tb_users (snd (insert_membership m t)) = tb_users t" "sq_users (snd (insert_membership m t)) = sq_users t"
  "tb_users (on_automation g t) = tb_users t" "sq_users (on_automation g t) = sq_users t"
  "tb_users (on_accounts h t) = tb_users t" "sq_users (on_accounts h t) = sq_users t"
  by (simp_all add: keep_membership_def save_membership_def delete_membership_def insert_membership_def
      on_automation_def on_accounts_def)

lemma frame_auto_assign [user_frame]: "keeps (same_users t0) (assignUserToAutoApplications u)"
  unfolding assignUserToAutoApplications_def
  by (intro keeps_bind keeps_query keeps_foreach keeps_if keeps_return frame_exec) simp_all

lemma frame_collect: "keeps (same_users t0) (collect_access as desired)"
  by (induction as arbitrary: desired) (simp_all add: GetUserGroupMembers_def keeps_rules)

lemma frame_existing: "keeps (same_users t0) (sync_existing app ms desired)"
proof (induction ms arbitrary: desired)
  case (Cons m ms)
  show ?case unfolding sync_existing.simps Let_def
    by (cases "map_of desired (mem_UserID m)")
      (auto intro!: keeps_then keeps_if frame_exec Cons.IH split: prod.split)
qed (simp add: keeps_return)

lemma frame_sync: "keeps (same_users t0) (SyncApplicationGroupAssignments i)"
proof -
  have app: "keeps (same_users t0) (db_GetApplicationByID i)"
    unfolding db_GetApplicationByID_def Let_def by (intro keeps_rules)
  have rest: "keeps (same_users t0) (db_bind (GetApplicationGroupAssignments i) (\<lambda>assignments.
      db_bind (collect_access assignments []) (\<lambda>desired.
      db_bind (query (\<lambda>t. filter (\<lambda>m. mem_ApplicationID m = i) (tb_memberships t))) (\<lambda>memberships.
      transaction (db_bind (sync_existing app memberships desired) (db_foreach (\<lambda>d.
        statement (insert_membership (group_membership i d)))))))))" for app
    unfolding GetApplicationGroupAssignments_def
    by (intro keeps_bind keeps_query frame_collect keeps_transaction frame_existing keeps_foreach frame_statement) simp_all
  show ?thesis unfolding SyncApplicationGroupAssignments_def
    by (intro keeps_bind app) (simp split: option.split, intro conjI allI impI keeps_return rest)
qed

lemma frame_groups [user_frame]: "keeps (same_users t0) (DeleteUserGroupMembershipsForUser u)"
  unfolding DeleteUserGroupMembershipsForUser_def SyncGroupAssignmentsForGroup_def
  by (intro keeps_bind keeps_then keeps_query keeps_foreach frame_exec frame_sync) simp_all

lemma frame_channel [user_frame]: "keeps (same_users t0) (db_DeleteApplicationByID i)"
proof -
  have all: "keeps (same_users t0) (exec_all fs)" if "\<forall>f\<in>set fs. \<forall>t. tb_users (f t) = tb_users t \<and> sq_users (f t) = sq_users t" for fs
    using that by (intro keeps_all frame_exec) simp_all
  have "keeps (same_users t0) (delete_dependents ids)" for ids unfolding delete_dependents_def by (rule all) simp
  moreover have "keeps (same_users t0) (delete_rules is)" "keeps (same_users t0) (delete_runs is)"
    "keeps (same_users t0) (exec_all (delete_sources i))" "keeps (same_users t0) (exec_all (delete_links i))" for "is"
    unfolding delete_rules_def delete_runs_def delete_sources_def delete_links_def
    by (intro keeps_if keeps_return all frame_exec; simp)+
  ultimately show ?thesis unfolding db_DeleteApplicationByID_def DeleteMessagesByApplication_def delete_channel_def
    by (intro keeps_bind keeps_then keeps_transaction keeps_query frame_exec) simp_all
qed

section \<open>The users in order\<close>

definition users_ok :: "gorm_db \<Rightarrow> bool" where
  "users_ok t \<longleftrightarrow> distinct (map usr_ID (tb_users t)) \<and> (\<forall>u\<in>set (tb_users t). 0 < usr_ID u \<and> usr_ID u < sq_users t) \<and>
     0 < sq_users t"

definition admin_ids :: "gorm_db \<Rightarrow> nat set" where
  "admin_ids t = usr_ID ` {u \<in> set (tb_users t). usr_Admin u}"

lemma same_users_ok: "same_users t t' \<Longrightarrow> users_ok t \<Longrightarrow> users_ok t' \<and> admin_ids t' = admin_ids t"
  by (simp add: same_users_def users_ok_def admin_ids_def)

lemma user_with_id: "users_ok t \<Longrightarrow> u \<in> set (tb_users t) \<Longrightarrow> v \<in> set (tb_users t) \<Longrightarrow> usr_ID u = usr_ID v \<Longrightarrow> u = v"
  by (auto simp: users_ok_def distinct_map inj_on_def)

lemma insert_user_tables:
  assumes "insert_user u t = (Inr v, t')" and "users_ok t"
  shows "tb_users t' = tb_users t @ [v] \<and> usr_Admin v = usr_Admin u \<and> users_ok t'"
  using assms by (fastforce simp: insert_user_def Let_def users_ok_def split: if_splits)

lemma insert_user_refused: "insert_user u t = (Inl e, t') \<Longrightarrow> t' = t"
  by (auto simp: insert_user_def Let_def split: if_splits)

lemma users_appended:
  "tb_users t' = tb_users t @ [v] \<Longrightarrow> admin_ids t' = admin_ids t \<union> (if usr_Admin v then {usr_ID v} else {})"
  by (auto simp: admin_ids_def)

lemma create_user_tables:
  assumes "db_CreateUser u s = (r, s')" and "users_ok (tables s)"
  shows "users_ok (tables s') \<and> (case r of Inl _ \<Rightarrow> tables s' = tables s
    | Inr v \<Rightarrow> tb_users (tables s') = tb_users (tables s) @ [v] \<and> usr_Admin v = usr_Admin u)"
proof (cases r)
  case (Inl e)
  then show ?thesis using assms transaction_Inl unfolding db_CreateUser_def by fastforce
next
  case (Inr v)
  show ?thesis using assms(1) unfolding Inr db_CreateUser_def
  proof (rule transaction_Inr)
    fix s1 s2
    assume t: "tables s1 = tables s" "tables s' = tables s2"
      and run: "db_bind (statement (insert_user u)) (\<lambda>u. db_then (assignUserToAutoApplications (usr_ID u)) (db_return u)) s1 =
        (Inr v, s2)"
    obtain w s3 where i: "statement (insert_user u) s1 = (Inr w, s3)"
      and "db_then (assignUserToAutoApplications (usr_ID w)) (db_return w) s3 = (Inr v, s2)"
      using run unfolding db_bind_Inr by blast
    then obtain s4 where a: "assignUserToAutoApplications (usr_ID w) s3 = (Inr (), s4)" and "db_return w s4 = (Inr v, s2)"
      unfolding db_then_Inr by blast
    then have v: "v = w" "s2 = s4" by simp_all
    have "insert_user u (tables s) = (Inr w, tables s3)"
      using statement_Inr [OF i] t(1) by (metis prod.collapse)
    from insert_user_tables [OF this assms(2)]
    have "tb_users (tables s3) = tb_users (tables s) @ [v] \<and> usr_Admin v = usr_Admin u \<and> users_ok (tables s3)"
      by (simp add: v)
    moreover have "same_users (tables s3) (tables s4)" by (rule keepsD [OF frame_auto_assign a]) simp
    ultimately show "users_ok (tables s') \<and> (case Inr v of Inl _ \<Rightarrow> tables s' = tables s
      | Inr v \<Rightarrow> tb_users (tables s') = tb_users (tables s) @ [v] \<and> usr_Admin v = usr_Admin u)"
      using same_users_ok [of "tables s3" "tables s4"] by (simp add: t v same_users_def)
  qed
qed

lemma update_user_tables:
  assumes "update_user_row u t = (r, t')" and "users_ok t"
  shows "users_ok t' \<and> admin_ids t - (if usr_Admin u then {} else {usr_ID u}) \<subseteq> admin_ids t'"
proof (cases "usr_ID u = 0 \<or> usr_ID u \<notin> usr_ID ` set (tb_users t)")
  case True
  obtain q t1 where i: "insert_user u t = (q, t1)" by fastforce
  then have t': "t' = t1" using assms(1) True by (auto simp: update_user_row_def split: sum.splits)
  show ?thesis
  proof (cases q)
    case (Inl e)
    then show ?thesis using insert_user_refused i assms(2) t' by blast
  next
    case (Inr v)
    note row = insert_user_tables [OF i [unfolded Inr] assms(2)]
    then have "admin_ids t' = admin_ids t \<union> (if usr_Admin v then {usr_ID v} else {})" using users_appended t' by blast
    then show ?thesis using row t' by auto
  qed
next
  case False
  show ?thesis
  proof (cases "\<exists>r\<in>set (tb_users t). usr_ID r \<noteq> usr_ID u \<and> users_clash u r")
    case True
    then show ?thesis using False assms by (simp add: update_user_row_def)
  next
    case no_clash: False
    let ?save = "\<lambda>r. if usr_ID r = usr_ID u then u else r"
    have "(r, t') = (Inr (), t\<lparr>tb_users := map ?save (tb_users t)\<rparr>)"
      unfolding assms(1) [symmetric] update_user_row_def if_not_P [OF False] if_not_P [OF no_clash] by (rule refl)
    then have t': "t' = t\<lparr>tb_users := map ?save (tb_users t)\<rparr>" by (rule conjunct2 [OF prod.inject [THEN iffD1]])
    have "usr_ID \<circ> ?save = usr_ID" by auto
    then have "map usr_ID (tb_users t') = map usr_ID (tb_users t)" by (simp add: t')
    moreover from this have "usr_ID ` set (tb_users t') = usr_ID ` set (tb_users t)" by (metis set_map)
    ultimately have ok: "users_ok t'"
    proof -
      assume ids: "map usr_ID (tb_users t') = map usr_ID (tb_users t)" "usr_ID ` set (tb_users t') = usr_ID ` set (tb_users t)"
      have "0 < i \<and> i < sq_users t" if "i \<in> usr_ID ` set (tb_users t)" for i
        using assms(2) that unfolding users_ok_def by blast
      then have "\<forall>v\<in>set (tb_users t'). 0 < usr_ID v \<and> usr_ID v < sq_users t" unfolding ids(2) [symmetric] by blast
      moreover have "sq_users t' = sq_users t" by (simp add: t')
      ultimately show ?thesis using assms(2) ids(1) unfolding users_ok_def by simp
    qed
    have "admin_ids t - (if usr_Admin u then {} else {usr_ID u}) \<subseteq> admin_ids t'"
    proof
      fix i assume i: "i \<in> admin_ids t - (if usr_Admin u then {} else {usr_ID u})"
      then obtain v where v: "v \<in> set (tb_users t)" "usr_Admin v" "usr_ID v = i" by (auto simp: admin_ids_def)
      have "?save v \<in> set (tb_users t')" using v(1) by (simp add: t')
      moreover have "usr_Admin (?save v)" "usr_ID (?save v) = i" using v i by (auto split: if_splits)
      ultimately show "i \<in> admin_ids t'" unfolding admin_ids_def by blast
    qed
    with ok show ?thesis by blast
  qed
qed

lemma delete_user_tables:
  assumes "db_DeleteUserByID i s = (r, s')" and "users_ok (tables s)"
  shows "users_ok (tables s') \<and> admin_ids (tables s) - {i} \<subseteq> admin_ids (tables s')"
proof -
  let ?P = "same_users (tables s)"
  let ?Q = "\<lambda>t. users_ok t \<and> admin_ids (tables s) - {i} \<subseteq> admin_ids t"
  have P_Q: "?Q t" if "?P t" for t using same_users_ok [OF that assms(2)] by auto
  have frame: "keeps ?P (db_try [] (GetClientsByUser i))" "keeps ?P (db_try () (DeleteClientByID c))"
    "keeps ?P (db_try [] (GetPluginConfByUser i))" "keeps ?P (db_try () (DeletePluginConfByID c))"
    "keeps ?P (exec_all (personal_rows i))" "keeps ?P (check_unshared i app)" "keeps ?P (GetApplicationsByUser i)" for c app
    unfolding GetClientsByUser_def DeleteClientByID_def GetPluginConfByUser_def DeletePluginConfByID_def personal_rows_def
      check_unshared_def CountApplicationMemberships_def GetApplicationsByUser_def
    by (intro keeps_try keeps_query keeps_all frame_exec keeps_bind keeps_if keeps_return; auto)+
  have "?Q (t\<lparr>tb_users := filter (\<lambda>u. usr_ID u \<noteq> i) (tb_users t)\<rparr>)" if "?Q t" for t
    using that by (auto simp: users_ok_def admin_ids_def distinct_map_filter)
  then have last: "keeps ?Q (exec (\<lambda>t. t\<lparr>tb_users := filter (\<lambda>u. usr_ID u \<noteq> i) (tb_users t)\<rparr>))" by (rule keeps_exec)
  have "leads ?P ?Q (delete_account i)"
    unfolding delete_account_def
    by (intro leads_bind leads_then keeps_foreach frame frame_groups leads_keeps [OF last] P_Q)
  then have "leads ?P ?Q (db_DeleteUserByID i)"
    unfolding db_DeleteUserByID_def by (intro leads_bind leads_then keeps_foreach frame frame_channel P_Q)
  then show ?thesis using assms(1) unfolding leads_def by (metis same_users_refl snd_conv)
qed

section \<open>The handlers on the database\<close>

text \<open>
  The calls of the handlers, each with the failures its statements meet. A call that only reads is a function of the
  tables; the rest of the server (bcrypt, the policy, the callbacks) is that of \<open>outside\<close>.
\<close>

datatype user_call = Gets_User nat | Gets_Name string | Counts_Admins | Lists_Channels nat | Counts_Members nat
  | Creates_User user | Updates_User user | Deletes_User nat

definition on_tables :: "fail option list \<Rightarrow> 'a db \<Rightarrow> gorm_db \<Rightarrow> 'a res \<times> gorm_db" where
  "on_tables fs m t = (case m \<lparr>tables = t, faults = fs\<rparr> of (r, s) \<Rightarrow> (r, tables s))"

definition read_tables :: "fail option list \<Rightarrow> 'a db \<Rightarrow> gorm_db \<Rightarrow> 'a res" where
  "read_tables fs m t = fst (on_tables fs m t)"

definition database_api :: "(user_call \<Rightarrow> fail option list) \<Rightarrow> gorm_db user_api \<Rightarrow> gorm_db user_api" where
  "database_api fs outside = outside\<lparr>
     ua_GetUserByID := (\<lambda>i. read_tables (fs (Gets_User i)) (db_GetUserByID i)),
     ua_GetUserByName := (\<lambda>n. read_tables (fs (Gets_Name n)) (db_GetUserByName n)),
     ua_CountAdmins := read_tables (fs Counts_Admins) (CountUser usr_Admin),
     ua_GetApplicationsByUser := (\<lambda>i. read_tables (fs (Lists_Channels i)) (GetApplicationsByUser i)),
     ua_CountApplicationMemberships := (\<lambda>i t. map_sum id int (read_tables (fs (Counts_Members i)) (CountApplicationMemberships i) t)),
     ua_CreateUser := (\<lambda>u. on_tables (fs (Creates_User u)) (db_CreateUser u)),
     ua_UpdateUser := (\<lambda>u. on_tables (fs (Updates_User u)) (db_UpdateUser u)),
     ua_DeleteUserByID := (\<lambda>i. on_tables (fs (Deletes_User i)) (db_DeleteUserByID i))\<rparr>"

lemma database_api_simps [simp]:
  "ua_GetUserByID (database_api fs outside) i = read_tables (fs (Gets_User i)) (db_GetUserByID i)"
  "ua_CountAdmins (database_api fs outside) = read_tables (fs Counts_Admins) (CountUser usr_Admin)"
  "ua_CreateUser (database_api fs outside) u = on_tables (fs (Creates_User u)) (db_CreateUser u)"
  "ua_UpdateUser (database_api fs outside) u = on_tables (fs (Updates_User u)) (db_UpdateUser u)"
  "ua_DeleteUserByID (database_api fs outside) i = on_tables (fs (Deletes_User i)) (db_DeleteUserByID i)"
  "ua_Registration (database_api fs outside) = ua_Registration outside"
  "ua_userAddedCallbacks (database_api fs outside) = ua_userAddedCallbacks outside"
  "ua_userDeletedCallbacks (database_api fs outside) = ua_userDeletedCallbacks outside"
  by (simp_all add: database_api_def)

lemma on_tables_run:
  "on_tables fs m t = (r, t') \<Longrightarrow> \<exists>s'. m \<lparr>tables = t, faults = fs\<rparr> = (r, s') \<and> t' = tables s'"
  by (auto simp: on_tables_def split: prod.splits)

lemma read_tables_Inr:
  "read_tables fs m t = Inr x \<Longrightarrow> \<exists>s'. m \<lparr>tables = t, faults = fs\<rparr> = (Inr x, s')"
  by (auto simp: read_tables_def on_tables_def split: prod.splits)

lemma user_found:
  assumes "db_GetUserByID i s = (Inr (Some u), s')" and "users_ok (tables s)"
  shows "usr_ID u = i \<and> (usr_Admin u \<longleftrightarrow> i \<in> admin_ids (tables s))"
proof -
  obtain row s1 where q: "query (\<lambda>t. find (\<lambda>u. usr_ID u = i) (tb_users t)) s = (Inr row, s1)"
    and r: "db_return (if usr_ID (case row of Some u \<Rightarrow> u | None \<Rightarrow> no_user) = i
      then Some (case row of Some u \<Rightarrow> u | None \<Rightarrow> no_user) else None) s1 = (Inr (Some u), s')"
    using assms(1) unfolding db_GetUserByID_def user_by_def db_bind_Inr Let_def by blast
  have row: "row = find (\<lambda>u. usr_ID u = i) (tb_users (tables s))" using query_Inr [OF q] by simp
  have u: "u = (case row of Some u \<Rightarrow> u | None \<Rightarrow> no_user)" "usr_ID u = i" using r by (auto split: if_splits)
  show ?thesis
  proof (cases row)
    case None
    then have "\<forall>v\<in>set (tb_users (tables s)). usr_ID v \<noteq> i" using row by (auto simp: find_None_iff)
    then show ?thesis using None u by (auto simp: no_user_def admin_ids_def)
  next
    case (Some v)
    then have "v \<in> set (tb_users (tables s))" using row by (auto simp: find_Some_iff in_set_conv_nth)
    then show ?thesis using Some u user_with_id [OF assms(2)] by (auto simp: admin_ids_def)
  qed
qed

lemma count_admin_ids:
  assumes "users_ok t"
  shows "finite (admin_ids t) \<and> card (admin_ids t) = length (filter usr_Admin (tb_users t))"
proof -
  have "admin_ids t = set (map usr_ID (filter usr_Admin (tb_users t)))" by (auto simp: admin_ids_def)
  moreover have "distinct (map usr_ID (filter usr_Admin (tb_users t)))"
    using assms by (simp add: users_ok_def distinct_map_filter)
  ultimately show ?thesis using distinct_card by fastforce
qed

interpretation users: user_store "database_api fs outside" users_ok admin_ids for fs outside
proof (unfold_locales, goal_cases)
  case (1 t n)
  then show ?case
    using read_tables_Inr [OF 1(2) [unfolded database_api_simps]] count_admin_ids [OF 1(1)] query_Inr
    unfolding CountUser_def by fastforce
next
  case (2 t i u)
  then show ?case using read_tables_Inr [of _ "db_GetUserByID i" t] user_found [of i _ u] by fastforce
next
  case (3 t u c t')
  then obtain s' where run: "db_CreateUser u \<lparr>tables = t, faults = fs (Creates_User u)\<rparr> = (c, s')" "t' = tables s'"
    using on_tables_run by fastforce
  show ?case using create_user_tables [OF run(1)] 3(1) run(2) users_appended by (fastforce split: sum.splits)
next
  case (4 t u r t')
  then obtain s' where run: "statement (update_user_row u) \<lparr>tables = t, faults = fs (Updates_User u)\<rparr> = (r, s')" "t' = tables s'"
    using on_tables_run unfolding database_api_simps db_UpdateUser_def by fastforce
  obtain q t1 where row: "update_user_row u t = (q, t1)" by fastforce
  from statement_tables [OF run(1)] row have "t' = t \<or> t' = t1" using run(2) by simp
  then show ?case using update_user_tables [OF row 4(1)] 4(1) by auto
next
  case (5 t i r t')
  then show ?case using on_tables_run [of _ "db_DeleteUserByID i" t r t'] delete_user_tables [of i _ r] by fastforce
qed

text \<open>
  The callbacks of a server: they do not write the table of the users. (Those of the program end the streams of a user
  and start or stop the plugins.)
\<close>

definition callbacks_keep_users :: "gorm_db user_api \<Rightarrow> bool" where
  "callbacks_keep_users outside \<longleftrightarrow>
     (\<forall>cb\<in>set (ua_userAddedCallbacks outside) \<union> set (ua_userDeletedCallbacks outside). \<forall>i t. same_users t (snd (cb i t)))"




section \<open>Properties\<close>


text \<open>A creation changes the users at most by the one it was asked for.\<close>

lemma fire_same_users:
  assumes "\<forall>cb\<in>set cbs. \<forall>i t. same_users t (snd (cb i t))" and "fire cbs i t = (r, t')"
  shows "same_users t t'"
  using assms
proof (induction cbs arbitrary: t)
  case (Cons cb cbs)
  obtain r1 t1 where cb: "cb i t = (r1, t1)" by (cases "cb i t")
  then have "same_users t t1" using Cons.prems(1) by (metis list.set_intros(1) snd_conv)
  then show ?case using Cons cb by (cases r1) (auto simp: same_users_def)
qed simp

lemma create_user_steps:
  assumes "CreateUser api bound s = (body, s')"
  obtains (refused) "body = None" "ctx_world s' = ctx_world s"
  | (failed) new pw e where "bound = Inr new" "ua_CreateUser api (new_user new pw) (ctx_world s) = (Inl e, ctx_world s')" "body = None"
      "TryGetUserID s = None \<longrightarrow> ua_Registration api \<and> \<not> cue_Admin new"
  | (stored) new pw v w r where "bound = Inr new" "ua_CreateUser api (new_user new pw) (ctx_world s) = (Inr v, w)"
      "fire (ua_userAddedCallbacks api) (usr_ID v) w = (r, ctx_world s')"
      "body = (case r of Inl _ \<Rightarrow> None | Inr _ \<Rightarrow> Some (toExternalUser v))"
      "TryGetUserID s = None \<longrightarrow> ua_Registration api \<and> \<not> cue_Admin new"
  using assms
  by (auto simp: CreateUser_def Users.aborted_def abort_def split: if_splits option.splits sum.splits prod.splits)

text \<open>
  Property C33. Without authentication \<open>CreateUser\<close> never stores an administrator, whatever it answers and whatever
  statements fail: the table of the users grows by at most one user, who is not an administrator, and only
  where registration is open. With registration closed, or when an administrator is asked for, the request is
  refused and the database is as before; and without callbacks every refusal leaves the database as it was (a callback
  that fails does so after the account was stored).
\<close>

theorem anonymous_never_creates_admin:
  assumes "TryGetUserID s = None" and "callbacks_keep_users outside"
    and run: "CreateUser (database_api fs outside) bound s = (body, s')" and "users_ok (ctx_world s)"
  shows "(\<exists>us. tb_users (ctx_world s') = tb_users (ctx_world s) @ us \<and> length us \<le> 1 \<and> list_all (\<lambda>v. \<not> usr_Admin v) us) \<and>
    (ctx_world s' \<noteq> ctx_world s \<or> body \<noteq> None \<longrightarrow>
       ua_Registration outside \<and> (\<exists>new. bound = Inr new \<and> \<not> cue_Admin new)) \<and>
    (case body of Some ext \<Rightarrow> \<not> uex_Admin ext
     | None \<Rightarrow> ua_userAddedCallbacks outside = [] \<longrightarrow> ctx_world s' = ctx_world s)"
proof (cases rule: create_user_steps [OF run, case_names refused failed stored])
  case refused
  then show ?thesis by auto
next
  case (failed new pw e)
  obtain d where d: "db_CreateUser (new_user new pw) \<lparr>tables = ctx_world s, faults = fs (Creates_User (new_user new pw))\<rparr> = (Inl e, d)"
      "ctx_world s' = tables d"
    using on_tables_run failed(2) unfolding database_api_simps by blast
  have "ctx_world s' = ctx_world s" using create_user_tables [OF d(1)] assms(4) d(2) by simp
  then show ?thesis using failed(3) by auto
next
  case (stored new pw v w r)
  obtain d where d: "db_CreateUser (new_user new pw) \<lparr>tables = ctx_world s, faults = fs (Creates_User (new_user new pw))\<rparr> = (Inr v, d)"
      "w = tables d"
    using on_tables_run stored(2) unfolding database_api_simps by blast
  have new: "ua_Registration outside" "\<not> cue_Admin new" using stored(5) assms(1) by simp_all
  have v: "tb_users w = tb_users (ctx_world s) @ [v]" "\<not> usr_Admin v"
    using create_user_tables [OF d(1)] assms(4) d(2) new(2) by (simp_all add: new_user_def)
  have "same_users w (ctx_world s')"
    by (rule fire_same_users [OF _ stored(3)]) (use assms(2) in \<open>simp add: callbacks_keep_users_def\<close>)
  then have "tb_users (ctx_world s') = tb_users (ctx_world s) @ [v]" using v(1) by (simp add: same_users_def)
  moreover have "r = Inr ()" if "ua_userAddedCallbacks outside = []" using stored(3) that by simp
  ultimately show ?thesis using new stored(1,4) v(2)
    by (auto simp: toExternalUser_def split: sum.splits option.splits intro!: exI [of _ "[v]"])
qed

text \<open>A server with the administrator 1 as its only user, and open registration.\<close>

definition demo_outside :: "gorm_db user_api" where
  "demo_outside = \<lparr>ua_GetUserByID = (\<lambda>i t. Inr None), ua_GetUserByName = (\<lambda>n t. Inr None), ua_CountAdmins = (\<lambda>t. Inr 0),
     ua_GetApplicationsByUser = (\<lambda>i t. Inr []), ua_CountApplicationMemberships = (\<lambda>i t. Inr 0),
     ua_GetSecurityPolicy = (\<lambda>t. Inr (demo_policy False)), ua_CreateUser = (\<lambda>u t. (Inr u, t)), ua_UpdateUser = (\<lambda>u t. (Inr (), t)),
     ua_DeleteUserByID = (\<lambda>i t. (Inr (), t)), ua_GenerateFromPassword = (\<lambda>p. Inr []), ua_Registration = True,
     ua_userDeletedCallbacks = [], ua_userAddedCallbacks = []\<rparr>"

definition one_admin :: "gorm_db gin" where
  "one_admin = \<lparr>ctx_request = ctx_request demo_request, ctx_auth = None, ctx_service = None, ctx_aborts = [], ctx_cookies = [],
     ctx_nexts = [], ctx_world = demo_tables\<lparr>tb_users := [demo_user 1 ''admin'' True], sq_users := 2\<rparr>\<rparr>"

lemma one_admin_simps:
  "tb_users (ctx_world one_admin) = [demo_user 1 ''admin'' True]" "sq_users (ctx_world one_admin) = 2"
  "TryGetUserID one_admin = None" "callbacks_keep_users demo_outside"
  by (simp_all add: one_admin_def TryGetUserID_def getInfo_def no_auth_def info_user_id_def callbacks_keep_users_def demo_outside_def)

lemma one_admin_ok: "users_ok (ctx_world one_admin)"
  unfolding users_ok_def one_admin_simps by (simp add: demo_user_def)


theorem anonymous_never_creates_admin_witness:
  "\<exists>us. tb_users (ctx_world (snd (CreateUser (database_api (\<lambda>_. []) demo_outside) (Inr eve) one_admin))) =
     demo_user 1 ''admin'' True # us \<and> list_all (\<lambda>v. \<not> usr_Admin v) us"
proof -
  obtain body s' where run: "CreateUser (database_api (\<lambda>_. []) demo_outside) (Inr eve) one_admin = (body, s')" by fastforce
  from anonymous_never_creates_admin [OF one_admin_simps(3,4) run one_admin_ok] show ?thesis
    using run by (auto simp: one_admin_simps)
qed

end
