(* ===== verification/Service.thy ===== *)
theory Service
  imports Auth
begin

text \<open>
  Service accounts: \<open>src/auth/service.go\<close>. A token starts with \<open>SA.\<close>, is stored by its hash, and
  carries scopes and a list of channels as separated text.
\<close>

section \<open>The code\<close>

record 'w service_env =
  sv_GetServiceAccountByTokenHash ::
    "string \<Rightarrow> time \<Rightarrow> 'w \<Rightarrow> (service_account option \<times> service_account_token option) res"
  sv_TouchServiceAccountToken :: "nat \<Rightarrow> nat \<Rightarrow> time \<Rightarrow> 'w \<Rightarrow> unit res \<times> 'w"
  sv_Now :: "'w \<Rightarrow> time"
  sv_crypto :: crypto

text \<open>The token, its hash and its prefix, from what \<open>rand.Read\<close> delivers.\<close>

definition GenerateServiceAccountToken :: "crypto \<Rightarrow> bytes res \<Rightarrow> (string \<times> string \<times> string) res" where
  "GenerateServiceAccountToken cr rand =
     res_bind rand (\<lambda>raw.
       let token = ''SA.'' @ b64url raw; hash = hex_encode (sha256 cr token);
           pre = (if length token > 14 then take 14 token else token)
       in Inr (token, hash, pre))"

definition HashServiceAccountToken :: "crypto \<Rightarrow> string \<Rightarrow> string" where
  "HashServiceAccountToken cr token = hex_encode (sha256 cr (strings_TrimSpace token))"

definition is_service_token :: "string \<Rightarrow> bool" where
  "is_service_token t \<longleftrightarrow> strings_HasPrefix t ''SA.''"

definition serviceTokenFromRequest :: "request \<Rightarrow> string" where
  "serviceTokenFromRequest r =
     (let raw = strings_TrimSpace (rq_header r ''Authorization'');
          bearer = strings_TrimSpace (drop 7 raw);
          key = strings_TrimSpace (rq_header r ''X-Gotify-Key'');
          q = strings_TrimSpace (rq_query r ''token'') in
      if length raw > 7 \<and> strings_EqualFold (take 7 raw) ''Bearer '' \<and> is_service_token bearer then bearer
      else if is_service_token key then key
      else if is_service_token q then q
      else '''')"

definition scope_separator :: "char \<Rightarrow> bool" where
  "scope_separator c \<longleftrightarrow> c \<in> {CHR '','', CHR '';'', CHR '' '', CHR 0x0A, CHR 0x09}"

definition ServiceScopes :: "service_account option \<Rightarrow> string set" where
  "ServiceScopes account =
     (case account of
        None \<Rightarrow> {}
      | Some a \<Rightarrow> set (filter (\<lambda>s. s \<noteq> '''')
          (map strings_TrimSpace (strings_FieldsFunc (sa_Scopes a) scope_separator))))"

definition ServiceHasScope :: "service_account option \<Rightarrow> string \<Rightarrow> bool" where
  "ServiceHasScope account scope =
     (let scopes = ServiceScopes account in ''*'' \<in> scopes \<or> scope \<in> scopes)"

definition ServiceAllowsApplication :: "service_account option \<Rightarrow> nat \<Rightarrow> bool" where
  "ServiceAllowsApplication account applicationID =
     (case account of
        None \<Rightarrow> False
      | Some a \<Rightarrow>
          let raw = strings_TrimSpace (sa_AllowedApplicationIDs a) in
          if raw = '''' \<or> raw = ''*'' then True
          else list_ex (\<lambda>part. strings_TrimSpace part = show_nat applicationID)
                 (strings_FieldsFunc raw (\<lambda>c. c \<in> {CHR '','', CHR '';'', CHR '' ''})))"

definition RequireServiceScope :: "'w service_env \<Rightarrow> string \<Rightarrow> 'w gin \<Rightarrow> 'w gin" where
  "RequireServiceScope env scope s =
     (let token = serviceTokenFromRequest (ctx_request s) in
      if token = '''' then abort 401 (Err ''service token required'') s
      else
        let now = sv_Now env (ctx_world s) in
        case sv_GetServiceAccountByTokenHash env (HashServiceAccountToken (sv_crypto env) token) now
               (ctx_world s) of
          Inl e \<Rightarrow> abort 500 e s
        | Inr (Some account, Some record) \<Rightarrow>
            if \<not> ServiceHasScope (Some account) scope
            then abort 403 (Err ''service account scope does not allow this action'') s
            else
              let s = s\<lparr>ctx_service := Some account\<rparr>;
                  (_, w) = sv_TouchServiceAccountToken env (sa_ID account) (sat_ID record) now (ctx_world s)
              in ctx_Next (s\<lparr>ctx_world := w\<rparr>)
        | Inr _ \<Rightarrow> abort 401 (Err ''invalid or expired service token'') s)"

section \<open>Lemmas\<close>

text \<open>\<open>FieldsFunc\<close> undoes joining with one separator.\<close>

lemma fields_from_run:
  "\<forall>c \<in> set x. \<not> sep c \<Longrightarrow> fields_from sep cur (x @ s) = fields_from sep (cur @ x) s"
  by (induction x arbitrary: cur) auto

fun join_with :: "char \<Rightarrow> string list \<Rightarrow> string" where
  "join_with c [] = ''''"
| "join_with c [x] = x"
| "join_with c (x # y # xs) = x @ [c] @ join_with c (y # xs)"

lemma FieldsFunc_join:
  assumes "sep c" "\<forall>x \<in> set xs. x \<noteq> '''' \<and> (\<forall>d \<in> set x. \<not> sep d)"
  shows "strings_FieldsFunc (join_with c xs) sep = xs"
  using assms(2)
proof (induction xs rule: induct_list012)
  case (2 x)
  then show ?case using fields_from_run [of x sep "[]" "[]"] by (simp add: strings_FieldsFunc_def)
next
  case (3 x y xs)
  then have "fields_from sep [] (x @ [c] @ join_with c (y # xs)) = fields_from sep x ([c] @ join_with c (y # xs))"
    using fields_from_run [of x sep "[]"] by simp
  then show ?case using 3 assms(1) by (simp add: strings_FieldsFunc_def)
qed (simp add: strings_FieldsFunc_def)

section \<open>Properties\<close>

text \<open>
  A service token opens a route only with the route's scope: the next handler runs only when the hash
  of the presented token is that of a live account that has the scope or the wildcard; the
  account is then the one registered, and otherwise the request is aborted exactly once.
\<close>

theorem service_scope_enforced:
  "case RequireServiceScope env scope s of s' \<Rightarrow>
     (\<exists>a. ctx_aborts s' = ctx_aborts s @ [a] \<and> ctx_nexts s' = ctx_nexts s \<and> ctx_world s' = ctx_world s) \<or>
     (\<exists>account rec. ctx_aborts s' = ctx_aborts s \<and> length (ctx_nexts s') = Suc (length (ctx_nexts s)) \<and>
        strings_HasPrefix (serviceTokenFromRequest (ctx_request s)) ''SA.'' \<and>
        sv_GetServiceAccountByTokenHash env
          (HashServiceAccountToken (sv_crypto env) (serviceTokenFromRequest (ctx_request s)))
          (sv_Now env (ctx_world s)) (ctx_world s) = Inr (Some account, Some rec) \<and>
        ctx_service s' = Some account \<and>
        ServiceScopes (Some account) \<inter> {''*'', scope} \<noteq> {})"
proof -
  have sa: "strings_HasPrefix (serviceTokenFromRequest r) ''SA.''" if "serviceTokenFromRequest r \<noteq> ''''" for r
    using that by (auto simp: serviceTokenFromRequest_def is_service_token_def Let_def split: if_splits)
  show ?thesis
    using sa [of "ctx_request s"]
    by (auto simp: RequireServiceScope_def Let_def abort_def ctx_Next_def ServiceHasScope_def
        split: sum.split option.split prod.split)
qed

text \<open>
  Scopes written as a list with one separator are exactly the scopes granted, so nothing is granted by
  the way the list is written; the account without one has none.
\<close>

theorem service_scopes_of_list:
  assumes "scope_separator c"
    and "\<forall>x \<in> set xs. x \<noteq> '''' \<and> strings_TrimSpace x = x \<and> (\<forall>d \<in> set x. \<not> scope_separator d)"
  shows "ServiceScopes (Some (a\<lparr>sa_Scopes := join_with c xs\<rparr>)) = set xs \<and> ServiceScopes None = {}"
proof -
  have "map strings_TrimSpace xs = xs" using assms(2) by (simp add: map_idI)
  then show ?thesis
    using FieldsFunc_join [of scope_separator c xs] assms by (auto simp: ServiceScopes_def)
qed

theorem service_scopes_of_list_witness:
  "ServiceHasScope (Some (a\<lparr>sa_Scopes := ''1,22''\<rparr>)) ''22'' \<and> \<not> ServiceHasScope (Some (a\<lparr>sa_Scopes := ''1,22''\<rparr>)) ''2''"
proof -
  have t: "strings_TrimSpace x = x" if "list_all decimal x" for x using trim_decimal that .
  have "ServiceScopes (Some (a\<lparr>sa_Scopes := join_with (CHR '','') [''1'', ''22'']\<rparr>)) = set [''1'', ''22''] \<and>
      ServiceScopes None = {}"
    by (rule service_scopes_of_list)
      (simp_all add: scope_separator_def t decimal_def byte_in_def)
  then show ?thesis by (simp add: ServiceHasScope_def)
qed

end
