(* ===== verification/Stream.thy ===== *)
theory Stream
  imports Model
begin

text \<open>
  The WebSocket hub: \<open>src/api/stream\<close>. A hub is a registry from users to their connections (by
  identity) and the connections themselves; the server has one for messages and one for
  MU events, with the same operations. A connection carries what the code keeps of it: the
  buffered channel \<open>write\<close>, the flag of \<open>once\<close>, whether the channel \<open>closed\<close> is closed.
  Three fields make the environment visible: \<open>c_sent\<close>, what the write handler sent, \<open>c_pending\<close>,
  set while a \<open>NotifyClose\<close> still has to call \<open>onClose\<close>, and \<open>c_writing\<close>, set until the write
  handler leaves its loop.
  An operation under the hub's write lock is one step; \<open>Notify\<close>, which may block on a full
  channel under the read lock, is a sequence of steps (section \<open>The hub as a state machine\<close>).
\<close>

section \<open>Connections\<close>

record 'm conn =
  c_userID :: nat
  c_token :: string
  c_cap :: nat
  c_write :: "'m list"
  c_done :: bool
  c_connClosed :: bool
  c_closed :: bool
  c_sent :: "'m list"
  c_pending :: bool
  c_writing :: bool

definition newClient :: "nat \<Rightarrow> string \<Rightarrow> message_external conn" where
  "newClient userID token = \<lparr>c_userID = userID, c_token = token, c_cap = 1, c_write = [],
     c_done = False, c_connClosed = False, c_closed = False, c_sent = [], c_pending = False, c_writing = True\<rparr>"

definition newMUEventClient :: "nat \<Rightarrow> string \<Rightarrow> json conn" where
  "newMUEventClient userID token = \<lparr>c_userID = userID, c_token = token, c_cap = 8, c_write = [],
     c_done = False, c_connClosed = False, c_closed = False, c_sent = [], c_pending = False, c_writing = True\<rparr>"

text \<open>\<open>once.mayExecute\<close> and \<open>once.Do\<close>: the function runs for the first caller only.\<close>

definition mayExecute :: "'m conn \<Rightarrow> bool \<times> 'm conn" where
  "mayExecute c = (if \<not> c_done c then (True, c\<lparr>c_done := True\<rparr>) else (False, c))"

definition once_Do :: "('m conn \<Rightarrow> 'm conn) \<Rightarrow> 'm conn \<Rightarrow> 'm conn" where
  "once_Do f c =
     (if c_done c then c else let (may, c') = mayExecute c in if may then f c' else c')"

definition conn_Close :: "'m conn \<Rightarrow> 'm conn" where
  "conn_Close = once_Do (\<lambda>c. c\<lparr>c_connClosed := True, c_closed := True\<rparr>)"

section \<open>The registry and its operations\<close>

record 'm hub =
  h_reg :: "nat \<Rightarrow> nat list option"
  h_conn :: "nat \<Rightarrow> 'm conn option"

definition update_conn :: "nat \<Rightarrow> ('m conn \<Rightarrow> 'm conn) \<Rightarrow> 'm hub \<Rightarrow> 'm hub" where
  "update_conn i f h = h\<lparr>h_conn := (h_conn h)(i := map_option f (h_conn h i))\<rparr>"

definition close_conn :: "nat \<Rightarrow> 'm hub \<Rightarrow> 'm hub" where
  "close_conn i = update_conn i conn_Close"

definition close_conns :: "nat list \<Rightarrow> 'm hub \<Rightarrow> 'm hub" where
  "close_conns is h = fold close_conn is h"

definition hub_register :: "nat \<Rightarrow> 'm conn \<Rightarrow> 'm hub \<Rightarrow> 'm hub" where
  "hub_register i c h =
     h\<lparr>h_reg := (h_reg h)(c_userID c \<mapsto> (case h_reg h (c_userID c) of None \<Rightarrow> [] | Some l \<Rightarrow> l) @ [i]),
       h_conn := (h_conn h)(i \<mapsto> c)\<rparr>"

text \<open>The removal of the first occurrence, as the loop with \<open>break\<close> does it.\<close>

fun remove_first :: "nat \<Rightarrow> nat list \<Rightarrow> nat list" where
  "remove_first r [] = []"
| "remove_first r (c # cs) = (if c = r then cs else c # remove_first r cs)"

definition hub_remove :: "nat \<Rightarrow> nat \<Rightarrow> 'm hub \<Rightarrow> 'm hub" where
  "hub_remove i userID h =
     (case h_reg h userID of
        None \<Rightarrow> h
      | Some l \<Rightarrow> h\<lparr>h_reg := (h_reg h)(userID \<mapsto> remove_first i l)\<rparr>)"

definition hub_deleted_user :: "nat \<Rightarrow> 'm hub \<Rightarrow> 'm hub" where
  "hub_deleted_user userID h =
     (case h_reg h userID of
        None \<Rightarrow> h
      | Some l \<Rightarrow> (close_conns l h)\<lparr>h_reg := (h_reg h)(userID := None)\<rparr>)"

text \<open>The loop of \<open>NotifyDeletedClient\<close>, from the last index down to the first.\<close>

fun deleted_client_loop :: "string \<Rightarrow> nat \<Rightarrow> nat list \<times> 'm hub \<Rightarrow> nat list \<times> 'm hub" where
  "deleted_client_loop token 0 (l, h) = (l, h)"
| "deleted_client_loop token (Suc i) (l, h) =
     (if (case h_conn h (l ! i) of None \<Rightarrow> False | Some c \<Rightarrow> c_token c = token)
      then deleted_client_loop token i (take i l @ drop (i + 1) l, close_conn (l ! i) h)
      else deleted_client_loop token i (l, h))"

definition hub_deleted_client :: "nat \<Rightarrow> string \<Rightarrow> 'm hub \<Rightarrow> 'm hub" where
  "hub_deleted_client userID token h =
     (case h_reg h userID of
        None \<Rightarrow> h
      | Some l \<Rightarrow>
          let (l', h') = deleted_client_loop token (length l) (l, h) in
          h'\<lparr>h_reg := (h_reg h)(userID \<mapsto> l')\<rparr>)"

text \<open>\<open>order\<close> is the order in which Go's \<open>range\<close> visits the keys of the map.\<close>

definition reg_list :: "'m hub \<Rightarrow> nat \<Rightarrow> nat list" where
  "reg_list h u = (case h_reg h u of None \<Rightarrow> [] | Some l \<Rightarrow> l)"

definition hub_close :: "nat list \<Rightarrow> 'm hub \<Rightarrow> 'm hub" where
  "hub_close order h =
     (fold (\<lambda>u. close_conns (reg_list h u)) order h)\<lparr>h_reg := (\<lambda>_. None)\<rparr>"

definition hub_tokens :: "nat list \<Rightarrow> 'm hub \<Rightarrow> string list" where
  "hub_tokens order h =
     concat (map (\<lambda>u. map (\<lambda>i. case h_conn h i of None \<Rightarrow> '''' | Some c \<Rightarrow> c_token c) (reg_list h u)) order)"

definition hub_count :: "nat list \<Rightarrow> 'm hub \<Rightarrow> nat" where
  "hub_count order h = fold (\<lambda>u n. n + length (reg_list h u)) order 0"

fun uniq_from :: "'a set \<Rightarrow> 'a list \<Rightarrow> 'a list" where
  "uniq_from m [] = []"
| "uniq_from m (v # s) = (if v \<notin> m then v # uniq_from (insert v m) s else uniq_from m s)"

definition uniq :: "'a list \<Rightarrow> 'a list" where
  "uniq s = uniq_from {} s"

section \<open>The API\<close>

record API =
  clients :: "message_external hub"
  muClients :: "json hub"

definition register :: "nat \<Rightarrow> message_external conn \<Rightarrow> API \<Rightarrow> API" where
  "register i c a = a\<lparr>clients := hub_register i c (clients a)\<rparr>"

definition registerMU :: "nat \<Rightarrow> json conn \<Rightarrow> API \<Rightarrow> API" where
  "registerMU i c a = a\<lparr>muClients := hub_register i c (muClients a)\<rparr>"

definition API_remove :: "nat \<Rightarrow> nat \<Rightarrow> API \<Rightarrow> API" where
  "API_remove i userID a = a\<lparr>clients := hub_remove i userID (clients a)\<rparr>"

definition removeMU :: "nat \<Rightarrow> nat \<Rightarrow> API \<Rightarrow> API" where
  "removeMU i userID a = a\<lparr>muClients := hub_remove i userID (muClients a)\<rparr>"

definition NotifyDeletedUser :: "nat \<Rightarrow> API \<Rightarrow> API" where
  "NotifyDeletedUser userID a =
     a\<lparr>clients := hub_deleted_user userID (clients a), muClients := hub_deleted_user userID (muClients a)\<rparr>"

definition NotifyDeletedClient :: "nat \<Rightarrow> string \<Rightarrow> API \<Rightarrow> API" where
  "NotifyDeletedClient userID token a =
     a\<lparr>clients := hub_deleted_client userID token (clients a),
       muClients := hub_deleted_client userID token (muClients a)\<rparr>"

definition API_Close :: "nat list \<Rightarrow> nat list \<Rightarrow> API \<Rightarrow> API" where
  "API_Close order muOrder a =
     a\<lparr>clients := hub_close order (clients a), muClients := hub_close muOrder (muClients a)\<rparr>"

definition CollectConnectedClientTokens :: "nat list \<Rightarrow> nat list \<Rightarrow> API \<Rightarrow> string list" where
  "CollectConnectedClientTokens order muOrder a =
     uniq (hub_tokens order (clients a) @ hub_tokens muOrder (muClients a))"

definition ConnectedClientCount :: "nat list \<Rightarrow> nat list \<Rightarrow> API \<Rightarrow> nat" where
  "ConnectedClientCount order muOrder a = hub_count order (clients a) + hub_count muOrder (muClients a)"

text \<open>\<open>NotifyMUEvent\<close> never blocks: a full channel drops the event.\<close>

definition offer :: "'m \<Rightarrow> 'm conn \<Rightarrow> 'm conn" where
  "offer m c =
     (if \<not> c_closed c \<and> length (c_write c) < c_cap c then c\<lparr>c_write := c_write c @ [m]\<rparr> else c)"

definition NotifyMUEvent :: "nat \<Rightarrow> json \<Rightarrow> API \<Rightarrow> API" where
  "NotifyMUEvent userID event a =
     (case h_reg (muClients a) userID of
        None \<Rightarrow> a
      | Some l \<Rightarrow> a\<lparr>muClients := fold (\<lambda>i. update_conn i (offer event)) l (muClients a)\<rparr>)"


section \<open>What the operations do\<close>

lemma conn_Close_simps [simp]:
  "c_userID (conn_Close c) = c_userID c" "c_token (conn_Close c) = c_token c"
  "c_cap (conn_Close c) = c_cap c" "c_write (conn_Close c) = c_write c"
  "c_sent (conn_Close c) = c_sent c" "c_pending (conn_Close c) = c_pending c" "c_writing (conn_Close c) = c_writing c"
  "c_done (conn_Close c)" "c_closed (conn_Close c) \<longleftrightarrow> c_closed c \<or> \<not> c_done c"
  "c_connClosed (conn_Close c) \<longleftrightarrow> c_connClosed c \<or> \<not> c_done c" "conn_Close (conn_Close c) = conn_Close c"
  by (simp_all add: conn_Close_def once_Do_def mayExecute_def)

lemma close_twice: "map_option conn_Close (map_option conn_Close x) = map_option conn_Close x"
  by (cases x) auto

lemma reg_list_simps [simp]:
  "reg_list (update_conn i f h) = reg_list h" "reg_list (h\<lparr>h_conn := g\<rparr>) = reg_list h"
  by (simp_all add: reg_list_def update_conn_def fun_eq_iff)

lemma reg_list_upd [simp]:
  "reg_list (h\<lparr>h_reg := g\<rparr>) w = (case g w of None \<Rightarrow> [] | Some l \<Rightarrow> l)"
  by (simp add: reg_list_def)

lemma update_conn_simps [simp]:
  "h_reg (update_conn i f h) = h_reg h"
  "h_conn (update_conn i f h) j = (if j = i then map_option f (h_conn h i) else h_conn h j)"
  by (simp_all add: update_conn_def)

lemma close_conns_simps [simp]:
  "h_reg (close_conns is h) = h_reg h" "reg_list (close_conns is h) = reg_list h"
  "h_conn (close_conns is h) j = (if j \<in> set is then map_option conn_Close (h_conn h j) else h_conn h j)"
proof -
  show r: "h_reg (close_conns is h) = h_reg h"
    by (induction "is" arbitrary: h) (simp_all add: close_conns_def close_conn_def)
  then show "reg_list (close_conns is h) = reg_list h" by (simp add: reg_list_def fun_eq_iff)
  show "h_conn (close_conns is h) j =
      (if j \<in> set is then map_option conn_Close (h_conn h j) else h_conn h j)"
    by (induction "is" arbitrary: h) (auto simp: close_conns_def close_conn_def close_twice)
qed

lemma remove_first_remove1 [simp]: "remove_first r l = remove1 r l"
  by (induction l) auto

definition has_token :: "string \<Rightarrow> 'm hub \<Rightarrow> nat \<Rightarrow> bool" where
  "has_token token h i \<longleftrightarrow> (\<exists>c. h_conn h i = Some c \<and> c_token c = token)"

lemma has_token_close [simp]: "has_token token (close_conn j h) = has_token token h"
  by (auto simp: has_token_def close_conn_def fun_eq_iff)

lemma has_token_case: "(case h_conn h i of None \<Rightarrow> False | Some c \<Rightarrow> c_token c = token) = has_token token h i"
  by (auto simp: has_token_def split: option.splits)

text \<open>The downward loop is a filter: the matching connections are closed, the others keep their order.\<close>

lemma deleted_client_loop_filter:
  "i \<le> length l \<Longrightarrow> deleted_client_loop token i (l, h) =
     (filter (\<lambda>j. \<not> has_token token h j) (take i l) @ drop i l,
      close_conns (rev (filter (has_token token h) (take i l))) h)"
proof (induction i arbitrary: l h)
  case 0
  then show ?case by (simp add: close_conns_def)
next
  case (Suc i)
  then have t: "take (Suc i) l = take i l @ [l ! i]" by (simp add: take_Suc_conv_app_nth)
  show ?case
  proof (cases "has_token token h (l ! i)")
    case True
    then show ?thesis
      using Suc t by (simp add: has_token_case close_conns_def)
  next
    case False
    then show ?thesis using Suc t by (simp add: has_token_case Cons_nth_drop_Suc)
  qed
qed

lemma uniq_from_set: "set (uniq_from m s) = set s - m \<and> distinct (uniq_from m s)"
  by (induction s arbitrary: m) auto

section \<open>The hub as a state machine\<close>

text \<open>
  \<open>n_notify\<close> holds the calls of \<open>Notify\<close> in progress: the message and the connections
  of the snapshot not yet served. They hold the read lock, so the operations under the write
  lock need an empty list. \<open>NotifyClose\<close>, run by the two goroutines of a connection, takes
  three steps: winning \<open>once\<close>, closing, and \<open>onClose\<close> under the write lock. The write handler ends with a
  failed write or ping or when it sees \<open>closed\<close>; its deferred \<open>NotifyClose\<close> comes next, so that it wins
  \<open>once\<close> in the same step, unless another caller has won.
\<close>

record 'm net =
  n_hub :: "'m hub"
  n_notify :: "('m \<times> nat list) list"

definition empty_net :: "'m net" where
  "empty_net = \<lparr>n_hub = \<lparr>h_reg = (\<lambda>_. None), h_conn = (\<lambda>_. None)\<rparr>, n_notify = []\<rparr>"

definition fresh_conn :: "'m conn \<Rightarrow> bool" where
  "fresh_conn c \<longleftrightarrow> c_write c = [] \<and> \<not> c_done c \<and> \<not> c_connClosed c \<and> \<not> c_closed c \<and>
     c_sent c = [] \<and> \<not> c_pending c \<and> c_writing c \<and> 0 < c_cap c"

definition push :: "'m \<Rightarrow> 'm conn \<Rightarrow> 'm conn" where
  "push m c = c\<lparr>c_write := c_write c @ [m]\<rparr>"

definition pop_send :: "'m conn \<Rightarrow> 'm conn" where
  "pop_send c = c\<lparr>c_write := tl (c_write c), c_sent := c_sent c @ [hd (c_write c)]\<rparr>"

definition pop_drop :: "'m conn \<Rightarrow> 'm conn" where
  "pop_drop c = c\<lparr>c_write := tl (c_write c)\<rparr>"

definition claim :: "'m conn \<Rightarrow> 'm conn" where
  "claim c = (snd (mayExecute c))\<lparr>c_pending := True\<rparr>"

definition write_ends :: "'m conn \<Rightarrow> 'm conn" where
  "write_ends c = (if c_done c then c else claim c)\<lparr>c_writing := False\<rparr>"

definition shut :: "'m conn \<Rightarrow> 'm conn" where
  "shut c = c\<lparr>c_connClosed := True, c_closed := True\<rparr>"

definition unregister :: "nat \<Rightarrow> 'm conn \<Rightarrow> 'm hub \<Rightarrow> 'm hub" where
  "unregister i c h = update_conn i (\<lambda>c. c\<lparr>c_pending := False\<rparr>) (hub_remove i (c_userID c) h)"

inductive hub_step :: "'m net \<Rightarrow> 'm net \<Rightarrow> bool" where
  Register: "n_notify s = [] \<Longrightarrow> h_conn (n_hub s) i = None \<Longrightarrow> fresh_conn c \<Longrightarrow>
    hub_step s (s\<lparr>n_hub := hub_register i c (n_hub s)\<rparr>)"
| DeletedUser: "n_notify s = [] \<Longrightarrow> hub_step s (s\<lparr>n_hub := hub_deleted_user u (n_hub s)\<rparr>)"
| DeletedClient: "n_notify s = [] \<Longrightarrow> hub_step s (s\<lparr>n_hub := hub_deleted_client u token (n_hub s)\<rparr>)"
| CloseAll: "n_notify s = [] \<Longrightarrow> dom (h_reg (n_hub s)) \<subseteq> set order \<Longrightarrow>
    hub_step s (s\<lparr>n_hub := hub_close order (n_hub s)\<rparr>)"
| NotifyCall: "hub_step s (s\<lparr>n_notify := n_notify s @ [(m, reg_list (n_hub s) u)]\<rparr>)"
| NotifySend: "n_notify s = xs @ (m, i # todo) # ys \<Longrightarrow> h_conn (n_hub s) i = Some c \<Longrightarrow>
    length (c_write c) < c_cap c \<Longrightarrow>
    hub_step s (s\<lparr>n_hub := update_conn i (push m) (n_hub s), n_notify := xs @ (m, todo) # ys\<rparr>)"
| NotifySkip: "n_notify s = xs @ (m, i # todo) # ys \<Longrightarrow> h_conn (n_hub s) i = Some c \<Longrightarrow>
    c_closed c \<Longrightarrow> hub_step s (s\<lparr>n_notify := xs @ (m, todo) # ys\<rparr>)"
| NotifyReturn: "n_notify s = xs @ (m, []) # ys \<Longrightarrow> hub_step s (s\<lparr>n_notify := xs @ ys\<rparr>)"
| WriteSent: "h_conn (n_hub s) i = Some c \<Longrightarrow> c_writing c \<Longrightarrow> c_write c \<noteq> [] \<Longrightarrow> \<not> c_connClosed c \<Longrightarrow>
    hub_step s (s\<lparr>n_hub := update_conn i pop_send (n_hub s)\<rparr>)"
| WriteFailed: "h_conn (n_hub s) i = Some c \<Longrightarrow> c_writing c \<Longrightarrow> c_write c \<noteq> [] \<Longrightarrow>
    hub_step s (s\<lparr>n_hub := update_conn i (\<lambda>c. write_ends (pop_drop c)) (n_hub s)\<rparr>)"
| WriteEnds: "h_conn (n_hub s) i = Some c \<Longrightarrow> c_writing c \<Longrightarrow>
    hub_step s (s\<lparr>n_hub := update_conn i write_ends (n_hub s)\<rparr>)"
| Claim: "h_conn (n_hub s) i = Some c \<Longrightarrow> \<not> c_done c \<Longrightarrow>
    hub_step s (s\<lparr>n_hub := update_conn i claim (n_hub s)\<rparr>)"
| Shut: "h_conn (n_hub s) i = Some c \<Longrightarrow> c_pending c \<Longrightarrow> \<not> c_closed c \<Longrightarrow>
    hub_step s (s\<lparr>n_hub := update_conn i shut (n_hub s)\<rparr>)"
| Unregister: "n_notify s = [] \<Longrightarrow> h_conn (n_hub s) i = Some c \<Longrightarrow> c_pending c \<Longrightarrow> c_closed c \<Longrightarrow>
    hub_step s (s\<lparr>n_hub := unregister i c (n_hub s)\<rparr>)"

inductive hub_reachable :: "'m net \<Rightarrow> bool" where
  start: "hub_reachable empty_net"
| step: "hub_reachable s \<Longrightarrow> hub_step s s' \<Longrightarrow> hub_reachable s'"

end
