(* ===== verification/Stream_Safety.thy ===== *)
theory Stream_Safety
  imports Stream
begin

text \<open>
  What the hub guarantees in every reachable state: live connections stay registered, under
  their own user and once; closed ones leave; \<open>Notify\<close> serves every connection of its snapshot
  and never blocks for good.
\<close>

section \<open>The invariant\<close>

definition conn_ok :: "'m hub \<Rightarrow> nat \<Rightarrow> 'm conn \<Rightarrow> bool" where
  "conn_ok h i c \<longleftrightarrow>
     (\<not> c_done c \<longrightarrow> i \<in> set (reg_list h (c_userID c))) \<and>
     (c_closed c \<longrightarrow> c_done c) \<and> (c_closed c \<longleftrightarrow> c_connClosed c) \<and>
     (c_done c \<and> \<not> c_closed c \<longrightarrow> c_pending c) \<and> (c_pending c \<longrightarrow> c_done c) \<and>
     (\<not> c_writing c \<longrightarrow> c_done c) \<and>
     length (c_write c) \<le> c_cap c \<and> 0 < c_cap c"

definition hub_ok :: "'m hub \<Rightarrow> bool" where
  "hub_ok h \<longleftrightarrow>
     (\<forall>u. distinct (reg_list h u)) \<and>
     (\<forall>u. \<forall>i \<in> set (reg_list h u).
        \<exists>c. h_conn h i = Some c \<and> c_userID c = u \<and> (c_done c \<longrightarrow> c_pending c)) \<and>
     (\<forall>i c. h_conn h i = Some c \<longrightarrow> conn_ok h i c)"

lemma hub_okI:
  assumes "\<And>u. distinct (reg_list h u)"
    and "\<And>u i. i \<in> set (reg_list h u) \<Longrightarrow>
      \<exists>c. h_conn h i = Some c \<and> c_userID c = u \<and> (c_done c \<longrightarrow> c_pending c)"
    and "\<And>i c. h_conn h i = Some c \<Longrightarrow> conn_ok h i c"
  shows "hub_ok h"
  using assms by (auto simp: hub_ok_def)

lemma hub_okD:
  assumes "hub_ok h"
  shows "distinct (reg_list h u)"
    and "i \<in> set (reg_list h u) \<Longrightarrow>
      \<exists>c. h_conn h i = Some c \<and> c_userID c = u \<and> (c_done c \<longrightarrow> c_pending c)"
    and "h_conn h i = Some c \<Longrightarrow> conn_ok h i c"
  using assms by (auto simp: hub_ok_def)

text \<open>
  The contract shared by the operations: they keep the invariant, never lose or reopen a
  connection, and never change what a connection is.
\<close>

definition conn_evolves :: "'m conn \<Rightarrow> 'm conn \<Rightarrow> bool" where
  "conn_evolves c c' \<longleftrightarrow> c_userID c' = c_userID c \<and> c_token c' = c_token c \<and> c_cap c' = c_cap c \<and>
     (c_done c \<longrightarrow> c_done c') \<and> (c_closed c \<longrightarrow> c_closed c') \<and>
     (\<exists>w. c_sent c' = c_sent c @ w)"

lemma conn_evolves_refl [simp]: "conn_evolves c c"
  by (simp add: conn_evolves_def)

lemma registered_once:
  assumes "hub_ok h" "i \<in> set (reg_list h u)" "i \<in> set (reg_list h v)"
  shows "u = v"
  using hub_okD(2) [OF assms(1,2)] hub_okD(2) [OF assms(1,3)] by auto

text \<open>The connections that calls of \<open>Notify\<close> still have to serve exist.\<close>

definition todo_ok :: "'m hub \<Rightarrow> ('m \<times> nat list) list \<Rightarrow> bool" where
  "todo_ok h ns \<longleftrightarrow> (\<forall>n \<in> set ns. \<forall>i \<in> set (snd n). \<exists>c. h_conn h i = Some c)"

locale hub_operation =
  fixes f :: "'m hub \<Rightarrow> 'm hub" and pre :: "'m hub \<Rightarrow> bool"
  assumes keeps: "pre h \<Longrightarrow> hub_ok h \<Longrightarrow> hub_ok (f h)"
    and evolves: "pre h \<Longrightarrow> h_conn h i = Some c \<Longrightarrow> \<exists>c'. h_conn (f h) i = Some c' \<and> conn_evolves c c'"
begin

lemma todo_keeps: "pre h \<Longrightarrow> todo_ok h ns \<Longrightarrow> todo_ok (f h) ns"
  using evolves by (fastforce simp: todo_ok_def)

end

section \<open>The operations meet the contract\<close>

lemma hub_ok_update:
  assumes "hub_ok h" "h_conn h i = Some c"
    and "c_userID (g c) = c_userID c" "c_done c \<Longrightarrow> c_done (g c)"
    and "c_done (g c) \<Longrightarrow> c_done c \<and> \<not> c_pending c \<or> c_pending (g c)"
    and "c_closed (g c) \<Longrightarrow> c_done (g c)" "c_closed (g c) \<longleftrightarrow> c_connClosed (g c)"
    and "c_done (g c) \<and> \<not> c_closed (g c) \<Longrightarrow> c_pending (g c)" "c_pending (g c) \<Longrightarrow> c_done (g c)"
    and "length (c_write (g c)) \<le> c_cap (g c)" "0 < c_cap (g c)" "\<not> c_writing (g c) \<Longrightarrow> c_done (g c)"
  shows "hub_ok (update_conn i g h)"
proof (rule hub_okI)
  fix u
  show "distinct (reg_list (update_conn i g h) u)" using hub_okD [OF assms(1)] by simp
next
  fix u j
  assume "j \<in> set (reg_list (update_conn i g h) u)"
  then obtain d where "h_conn h j = Some d" "c_userID d = u" "c_done d \<longrightarrow> c_pending d"
    using hub_okD(2) [OF assms(1), of j u] by auto
  then show "\<exists>c. h_conn (update_conn i g h) j = Some c \<and> c_userID c = u \<and> (c_done c \<longrightarrow> c_pending c)"
    using assms(2-5) by (cases "j = i") auto
next
  fix j d
  assume d: "h_conn (update_conn i g h) j = Some d"
  show "conn_ok (update_conn i g h) j d"
  proof (cases "j = i")
    case True
    then have "d = g c" using d assms(2) by simp
    moreover have "\<not> c_done (g c) \<Longrightarrow> i \<in> set (reg_list h (c_userID c))"
      using hub_okD(3) [OF assms(1,2)] assms(4) by (auto simp: conn_ok_def)
    ultimately show ?thesis using True assms(3,6-12) by (auto simp: conn_ok_def)
  next
    case False
    then show ?thesis using hub_okD(3) [OF assms(1), of j d] d by (simp add: conn_ok_def)
  qed
qed

text \<open>Closing a set of connections and dropping them from the registry.\<close>

lemma hub_ok_closed:
  assumes "hub_ok h"
    and "\<And>j. h_conn h' j = (if j \<in> S then map_option conn_Close (h_conn h j) else h_conn h j)"
    and "\<And>u. reg_list h' u = filter (\<lambda>j. j \<notin> S) (reg_list h u)"
  shows "hub_ok h'"
proof (rule hub_okI)
  fix u
  show "distinct (reg_list h' u)" using hub_okD(1) [OF assms(1)] assms(3) by simp
next
  fix u i
  assume "i \<in> set (reg_list h' u)"
  then have "i \<in> set (reg_list h u)" "i \<notin> S" using assms(3) by auto
  with hub_okD(2) [OF assms(1), of i u] assms(2) [of i]
  show "\<exists>c. h_conn h' i = Some c \<and> c_userID c = u \<and> (c_done c \<longrightarrow> c_pending c)" by simp
next
  fix i c
  assume c: "h_conn h' i = Some c"
  show "conn_ok h' i c"
  proof (cases "i \<in> S")
    case True
    then obtain d where d: "h_conn h i = Some d" "c = conn_Close d" using c assms(2) [of i] by auto
    with hub_okD(3) [OF assms(1) d(1)] show ?thesis by (auto simp: conn_ok_def)
  next
    case False
    then have "h_conn h i = Some c" using c assms(2) [of i] by simp
    with hub_okD(3) [OF assms(1) this] False assms(3) show ?thesis by (auto simp: conn_ok_def)
  qed
qed

lemma close_evolves: "conn_evolves c (conn_Close c)"
  by (auto simp: conn_evolves_def)

lemma deleted_user_result:
  "h_conn (hub_deleted_user u h) j =
     (if j \<in> set (reg_list h u) then map_option conn_Close (h_conn h j) else h_conn h j)"
  "reg_list (hub_deleted_user u h) v = (if v = u then [] else reg_list h v)"
  by (auto simp: hub_deleted_user_def reg_list_def split: option.splits)

lemma deleted_client_result:
  "h_conn (hub_deleted_client u token h) j =
     (if j \<in> set (reg_list h u) \<and> has_token token h j then map_option conn_Close (h_conn h j) else h_conn h j)"
  "reg_list (hub_deleted_client u token h) v =
     (if v = u then filter (\<lambda>j. \<not> has_token token h j) (reg_list h u) else reg_list h v)"
  by (auto simp: hub_deleted_client_def reg_list_def deleted_client_loop_filter split: option.splits)

lemma hub_close_result:
  "h_conn (hub_close order h) j =
     (if \<exists>u \<in> set order. j \<in> set (reg_list h u) then map_option conn_Close (h_conn h j) else h_conn h j)"
  "reg_list (hub_close order h) v = []"
proof -
  have "reg_list (fold (\<lambda>u. close_conns (reg_list h u)) order g) = reg_list g \<and>
     h_conn (fold (\<lambda>u. close_conns (reg_list h u)) order g) j =
       (if \<exists>u \<in> set order. j \<in> set (reg_list h u) then map_option conn_Close (h_conn g j) else h_conn g j)"
    for g
    by (induction order arbitrary: g) (auto simp: close_twice)
  from this [of h] show "h_conn (hub_close order h) j =
     (if \<exists>u \<in> set order. j \<in> set (reg_list h u) then map_option conn_Close (h_conn h j) else h_conn h j)"
    "reg_list (hub_close order h) v = []"
    by (simp_all add: hub_close_def)
qed

lemma register_result:
  "h_conn (hub_register i c h) j = (if j = i then Some c else h_conn h j)"
  "reg_list (hub_register i c h) v =
     (if v = c_userID c then reg_list h v @ [i] else reg_list h v)"
  by (auto simp: hub_register_def reg_list_def split: option.splits)

lemma remove_result:
  "h_conn (hub_remove i u h) = h_conn h"
  "reg_list (hub_remove i u h) v = (if v = u then remove1 i (reg_list h v) else reg_list h v)"
  by (auto simp: hub_remove_def reg_list_def split: option.splits)

interpretation register_op: hub_operation "hub_register i c" "\<lambda>h. h_conn h i = None \<and> fresh_conn c" for i c
proof
  fix h :: "'a hub"
  assume pre: "h_conn h i = None \<and> fresh_conn c" and ok: "hub_ok h"
  have new: "i \<notin> set (reg_list h v)" for v using hub_okD(2) [OF ok, of i v] pre by auto
  show "hub_ok (hub_register i c h)"
  proof (rule hub_okI, goal_cases)
    case (1 u)
    then show ?case using hub_okD(1) [OF ok] new by (simp add: register_result)
  next
    case (2 u j)
    then show ?case
      using hub_okD(2) [OF ok, of j u] pre new
      by (auto simp: register_result fresh_conn_def split: if_splits)
  next
    case (3 j d)
    then show ?case
      using hub_okD(3) [OF ok, of j d] pre
      by (auto simp: register_result conn_ok_def fresh_conn_def split: if_splits)
  qed
next
  fix h :: "'a hub" and j d
  assume "h_conn h i = None \<and> fresh_conn c" "h_conn h j = Some d"
  then show "\<exists>c'. h_conn (hub_register i c h) j = Some c' \<and> conn_evolves d c'"
    by (auto simp: register_result)
qed

interpretation deleted_user_op: hub_operation "hub_deleted_user u" "\<lambda>h. True" for u
proof
  fix h :: "'a hub" assume ok: "hub_ok h"
  show "hub_ok (hub_deleted_user u h)"
  proof (rule hub_ok_closed [OF ok deleted_user_result(1)])
    fix v
    have "filter (\<lambda>j. j \<notin> set (reg_list h u)) (reg_list h v) = reg_list h v" if "v \<noteq> u"
      using that registered_once [OF ok] by (intro filter_True) blast
    then show "reg_list (hub_deleted_user u h) v = filter (\<lambda>j. j \<notin> set (reg_list h u)) (reg_list h v)"
      by (simp add: deleted_user_result)
  qed
qed (auto simp: deleted_user_result close_evolves)

interpretation deleted_client_op: hub_operation "hub_deleted_client u token" "\<lambda>h. True" for u token
proof
  fix h :: "'a hub" assume ok: "hub_ok h"
  let ?S = "{j. j \<in> set (reg_list h u) \<and> has_token token h j}"
  show "hub_ok (hub_deleted_client u token h)"
  proof (rule hub_ok_closed [OF ok])
    fix j
    show "h_conn (hub_deleted_client u token h) j =
        (if j \<in> ?S then map_option conn_Close (h_conn h j) else h_conn h j)"
      by (simp add: deleted_client_result)
  next
    fix v
    have "filter (\<lambda>j. j \<notin> ?S) (reg_list h v) = reg_list h v" if "v \<noteq> u"
      using that registered_once [OF ok] by (intro filter_True) blast
    moreover have "filter (\<lambda>j. j \<notin> ?S) (reg_list h u) = filter (\<lambda>j. \<not> has_token token h j) (reg_list h u)"
      by (rule filter_cong) auto
    ultimately show "reg_list (hub_deleted_client u token h) v = filter (\<lambda>j. j \<notin> ?S) (reg_list h v)"
      by (simp add: deleted_client_result)
  qed
qed (auto simp: deleted_client_result close_evolves)

interpretation close_op: hub_operation "hub_close order" "\<lambda>h. dom (h_reg h) \<subseteq> set order" for order
proof
  fix h :: "'a hub" assume dom: "dom (h_reg h) \<subseteq> set order" and ok: "hub_ok h"
  have all: "u \<in> set order" if "reg_list h u \<noteq> []" for u
    using that dom by (auto simp: reg_list_def split: option.splits)
  show "hub_ok (hub_close order h)"
  proof (rule hub_ok_closed [OF ok])
    fix j
    show "h_conn (hub_close order h) j = (if j \<in> {j. \<exists>u \<in> set order. j \<in> set (reg_list h u)}
        then map_option conn_Close (h_conn h j) else h_conn h j)"
      by (simp add: hub_close_result)
  next
    fix v
    have "v \<in> set order" if "j \<in> set (reg_list h v)" for j using that by (intro all) auto
    then show "reg_list (hub_close order h) v =
        filter (\<lambda>j. j \<notin> {j. \<exists>u \<in> set order. j \<in> set (reg_list h u)}) (reg_list h v)"
      by (subst filter_False) (auto simp: hub_close_result)
  qed
qed (auto simp: hub_close_result close_evolves)

text \<open>An operation on a single connection meets the contract when it respects these points.\<close>

definition conn_step :: "('m conn \<Rightarrow> 'm conn) \<Rightarrow> 'm conn \<Rightarrow> bool" where
  "conn_step g c \<longleftrightarrow> conn_evolves c (g c) \<and> c_cap (g c) = c_cap c \<and>
     (c_done (g c) \<and> \<not> c_done c \<longrightarrow> c_pending (g c)) \<and> (c_pending c \<longrightarrow> c_pending (g c)) \<and>
     (c_pending (g c) \<longrightarrow> c_done (g c)) \<and> (c_closed (g c) \<and> \<not> c_closed c \<longrightarrow> c_pending c) \<and>
     (c_connClosed (g c) \<longleftrightarrow> c_closed (g c) \<and> \<not> c_closed c \<or> c_connClosed c) \<and>
     (\<not> c_writing (g c) \<and> c_writing c \<longrightarrow> c_done (g c)) \<and>
     (length (c_write (g c)) \<le> c_cap c)"

interpretation conn_op: hub_operation "update_conn i g"
  "\<lambda>h. \<exists>c. h_conn h i = Some c \<and> (hub_ok h \<longrightarrow> conn_step g c) \<and> conn_evolves c (g c)" for i g
proof
  fix h :: "'a hub"
  assume ok: "hub_ok h" and "\<exists>c. h_conn h i = Some c \<and> (hub_ok h \<longrightarrow> conn_step g c) \<and> conn_evolves c (g c)"
  then obtain c where c: "h_conn h i = Some c" "conn_step g c" by blast
  show "hub_ok (update_conn i g h)"
    by (rule hub_ok_update [OF ok c(1)])
      (use hub_okD(3) [OF ok c(1)] c(2) in \<open>auto simp: conn_step_def conn_evolves_def conn_ok_def\<close>)
qed auto

lemma conn_steps:
  "length (c_write c) < c_cap c \<Longrightarrow> conn_ok h i c \<Longrightarrow> conn_step (push m) c"
  "conn_ok h i c \<Longrightarrow> conn_step pop_send c"
  "conn_ok h i c \<Longrightarrow> conn_step (\<lambda>c. write_ends (pop_drop c)) c"
  "conn_ok h i c \<Longrightarrow> \<not> c_done c \<Longrightarrow> conn_step claim c"
  "conn_ok h i c \<Longrightarrow> c_pending c \<Longrightarrow> conn_step shut c"
  "conn_ok h i c \<Longrightarrow> conn_step write_ends c"
  by (auto simp: conn_step_def conn_evolves_def conn_ok_def push_def pop_send_def pop_drop_def
      claim_def shut_def mayExecute_def write_ends_def)

lemma conn_evolve_all:
  "conn_evolves c (push m c)" "conn_evolves c (pop_send c)" "conn_evolves c (write_ends (pop_drop c))"
  "conn_evolves c (claim c)" "conn_evolves c (shut c)" "conn_evolves c (write_ends c)"
  by (auto simp: conn_evolves_def push_def pop_send_def pop_drop_def claim_def shut_def mayExecute_def write_ends_def)

interpretation unregister_op: hub_operation "unregister i c"
  "\<lambda>h. h_conn h i = Some c \<and> c_pending c \<and> c_closed c" for i c
proof
  fix h :: "'a hub"
  assume pre: "h_conn h i = Some c \<and> c_pending c \<and> c_closed c" and ok: "hub_ok h"
  have elsewhere: "i \<notin> set (reg_list h v)" if "v \<noteq> c_userID c" for v
    using hub_okD(2) [OF ok, of i v] pre that by auto
  show "hub_ok (unregister i c h)"
  proof (rule hub_okI, goal_cases)
    case (1 u)
    then show ?case using hub_okD(1) [OF ok] by (simp add: unregister_def remove_result distinct_remove1)
  next
    case (2 u j)
    then have j: "j \<in> set (reg_list h u)" "j \<noteq> i"
      using hub_okD(1) [OF ok, of u] elsewhere [of u]
      by (auto simp: unregister_def remove_result split: if_splits)
    with hub_okD(2) [OF ok, of j u] show ?case by (simp add: unregister_def remove_result)
  next
    case (3 j d)
    show ?case
    proof (cases "j = i")
      case True
      then show ?thesis
        using 3 pre hub_okD(3) [OF ok, of i c]
        by (auto simp: unregister_def remove_result conn_ok_def)
    next
      case False
      then have "h_conn h j = Some d" using 3 by (simp add: unregister_def remove_result)
      with hub_okD(3) [OF ok this] False show ?thesis
        by (auto simp: unregister_def remove_result conn_ok_def)
    qed
  qed
next
  fix h :: "'a hub" and j d
  assume "h_conn h i = Some c \<and> c_pending c \<and> c_closed c" "h_conn h j = Some d"
  then show "\<exists>c'. h_conn (unregister i c h) j = Some c' \<and> conn_evolves d c'"
    by (auto simp: unregister_def remove_result conn_evolves_def)
qed

section \<open>Reachable states\<close>

definition net_ok :: "'m net \<Rightarrow> bool" where
  "net_ok s \<longleftrightarrow> hub_ok (n_hub s) \<and> todo_ok (n_hub s) (n_notify s)"

lemma todo_ok_append [simp]: "todo_ok h (xs @ ys) \<longleftrightarrow> todo_ok h xs \<and> todo_ok h ys"
  by (auto simp: todo_ok_def)

lemma todo_ok_Cons [simp]:
  "todo_ok h (n # ns) \<longleftrightarrow> (\<forall>i \<in> set (snd n). \<exists>c. h_conn h i = Some c) \<and> todo_ok h ns"
  "todo_ok h []"
  by (auto simp: todo_ok_def)

lemma conn_net_ok:
  assumes "net_ok s" "h_conn (n_hub s) i = Some c"
    and "conn_ok (n_hub s) i c \<Longrightarrow> conn_step g c" "conn_evolves c (g c)"
  shows "hub_ok (update_conn i g (n_hub s))" "todo_ok (update_conn i g (n_hub s)) (n_notify s)"
proof -
  have ok: "hub_ok (n_hub s)" "todo_ok (n_hub s) (n_notify s)" using assms(1) by (auto simp: net_ok_def)
  have pre: "\<exists>c. h_conn (n_hub s) i = Some c \<and> (hub_ok (n_hub s) \<longrightarrow> conn_step g c) \<and> conn_evolves c (g c)"
    using assms hub_okD(3) [OF ok(1)] by blast
  show "hub_ok (update_conn i g (n_hub s))" by (rule conn_op.keeps [OF pre ok(1)])
  show "todo_ok (update_conn i g (n_hub s)) (n_notify s)" by (rule conn_op.todo_keeps [OF pre ok(2)])
qed

lemma net_ok_step:
  assumes "hub_step s s'" "net_ok s"
  shows "net_ok s'"
  using assms
proof (cases rule: hub_step.cases)
  case (Register i c)
  then show ?thesis
    using assms(2) register_op.keeps [of "n_hub s" i c] by (simp add: net_ok_def)
next
  case (DeletedUser u)
  then show ?thesis using assms(2) deleted_user_op.keeps by (simp add: net_ok_def)
next
  case (DeletedClient u token)
  then show ?thesis using assms(2) deleted_client_op.keeps by (simp add: net_ok_def)
next
  case (CloseAll order)
  then show ?thesis using assms(2) close_op.keeps by (simp add: net_ok_def)
next
  case (NotifyCall m u)
  then show ?thesis using assms(2) hub_okD(2) [of "n_hub s"] by (fastforce simp: net_ok_def)
next
  case (NotifySend xs m i todo ys c)
  then show ?thesis
    using conn_net_ok [OF assms(2) NotifySend(3) conn_steps(1) [OF NotifySend(4)] conn_evolve_all(1)]
    by (simp add: net_ok_def)
next
  case (NotifySkip xs m i todo ys c)
  then show ?thesis using assms(2) by (simp add: net_ok_def)
next
  case (NotifyReturn xs m ys)
  then show ?thesis using assms(2) by (simp add: net_ok_def)
next
  case (WriteSent i c)
  then show ?thesis
    using conn_net_ok [OF assms(2) WriteSent(2) conn_steps(2) conn_evolve_all(2)]
    by (simp add: net_ok_def)
next
  case (WriteFailed i c)
  then show ?thesis
    using conn_net_ok [OF assms(2) WriteFailed(2) conn_steps(3) conn_evolve_all(3)]
    by (simp add: net_ok_def)
next
  case (WriteEnds i c)
  then show ?thesis
    using conn_net_ok [OF assms(2) WriteEnds(2) conn_steps(6) conn_evolve_all(6)]
    by (simp add: net_ok_def)
next
  case (Claim i c)
  then show ?thesis
    using conn_net_ok [OF assms(2) Claim(2) conn_steps(4) [OF _ Claim(3)] conn_evolve_all(4)]
    by (simp add: net_ok_def)
next
  case (Shut i c)
  then show ?thesis
    using conn_net_ok [OF assms(2) Shut(2) conn_steps(5) [OF _ Shut(3)] conn_evolve_all(5)]
    by (simp add: net_ok_def)
next
  case (Unregister i c)
  then show ?thesis
    using assms(2) unregister_op.keeps [of "n_hub s" i c] by (simp add: net_ok_def)
qed

lemma net_ok_reachable: "hub_reachable s \<Longrightarrow> net_ok s"
proof (induction rule: hub_reachable.induct)
  case start
  then show ?case by (simp add: net_ok_def empty_net_def hub_ok_def reg_list_def)
next
  case (step s s')
  then show ?case using net_ok_step by blast
qed

lemma hub_tokens_set:
  assumes "{u. reg_list h u \<noteq> []} \<subseteq> set order" "hub_ok h"
  shows "set (hub_tokens order h) = {c_token c |u i c. i \<in> set (reg_list h u) \<and> h_conn h i = Some c}"
proof (intro set_eqI iffI)
  fix t assume "t \<in> set (hub_tokens order h)"
  then obtain u i where ui: "i \<in> set (reg_list h u)"
    "t = (case h_conn h i of None \<Rightarrow> '''' | Some c \<Rightarrow> c_token c)" by (auto simp: hub_tokens_def)
  moreover obtain c where "h_conn h i = Some c" using hub_okD(2) [OF assms(2) ui(1)] by blast
  ultimately show "t \<in> {c_token c |u i c. i \<in> set (reg_list h u) \<and> h_conn h i = Some c}" by auto
next
  fix t assume "t \<in> {c_token c |u i c. i \<in> set (reg_list h u) \<and> h_conn h i = Some c}"
  then obtain u i c where "i \<in> set (reg_list h u)" "h_conn h i = Some c" "t = c_token c" by blast
  moreover from this have "u \<in> set order" using assms(1) by auto
  ultimately show "t \<in> set (hub_tokens order h)" by (force simp: hub_tokens_def)
qed

lemma reg_list_empty: "reg_list (n_hub empty_net) u = []"
  by (simp add: reg_list_def empty_net_def)

lemma count_distinct: "distinct l \<Longrightarrow> count_list l i = (if i \<in> set l then 1 else 0)"
  by (induction l) auto

definition demo_hub :: "message_external hub" where
  "demo_hub = hub_register 1 (newClient 7 ''Ctok'') (n_hub empty_net)"

lemma demo_reachable: "hub_reachable \<lparr>n_hub = demo_hub, n_notify = []\<rparr>"
  using hub_reachable.step [OF hub_reachable.start Register [of empty_net 1 "newClient 7 ''Ctok''"]]
  by (simp add: demo_hub_def empty_net_def fresh_conn_def newClient_def)

lemma demo_hub_simps:
  "h_conn demo_hub i = (if i = 1 then Some (newClient 7 ''Ctok'') else None)"
  "reg_list demo_hub u = (if u = 7 then [1] else [])"
  by (simp_all add: demo_hub_def register_result newClient_def reg_list_empty)
     (simp add: empty_net_def)

lemma demo_notify_reachable: "hub_reachable \<lparr>n_hub = demo_hub, n_notify = [(m, [1])]\<rparr>"
  using hub_reachable.step [OF demo_reachable NotifyCall [of _ m 7]] by (simp add: demo_hub_simps)

section \<open>Properties\<close>

text \<open>
  Property C25. In every reachable state a connection that is not closing is registered under its own
  user exactly once and nowhere else, a registered connection that is closing is about to be
  removed, and no channel holds more than its capacity.
\<close>

theorem stream_registry_invariant:
  assumes "hub_reachable s" "h_conn (n_hub s) i = Some c"
  shows "(\<not> c_done c \<longrightarrow> (\<forall>u. count_list (reg_list (n_hub s) u) i = (if u = c_userID c then 1 else 0))) \<and>
     (\<forall>u. i \<in> set (reg_list (n_hub s) u) \<longrightarrow> u = c_userID c \<and> (c_done c \<longrightarrow> c_pending c)) \<and>
     length (c_write c) \<le> c_cap c"
proof -
  have ok: "hub_ok (n_hub s)" using net_ok_reachable [OF assms(1)] by (simp add: net_ok_def)
  have own: "u = c_userID c \<and> (c_done c \<longrightarrow> c_pending c)" if "i \<in> set (reg_list (n_hub s) u)" for u
    using hub_okD(2) [OF ok that] assms(2) by auto
  have cok: "conn_ok (n_hub s) i c" using hub_okD(3) [OF ok assms(2)] .
  have count: "count_list (reg_list (n_hub s) u) i = (if i \<in> set (reg_list (n_hub s) u) then 1 else 0)" for u
    using hub_okD(1) [OF ok, of u] by (simp add: count_distinct)
  have "i \<in> set (reg_list (n_hub s) u) \<longleftrightarrow> u = c_userID c" if "\<not> c_done c" for u
    using own [of u] cok that unfolding conn_ok_def by blast
  then have "\<not> c_done c \<longrightarrow> (\<forall>u. count_list (reg_list (n_hub s) u) i = (if u = c_userID c then 1 else 0))"
    by (simp add: count)
  moreover have "length (c_write c) \<le> c_cap c" using cok by (simp add: conn_ok_def)
  ultimately show ?thesis using own by blast
qed

theorem stream_registry_invariant_witness:
  "count_list (reg_list demo_hub 7) 1 = 1 \<and> {u. 1 \<in> set (reg_list demo_hub u)} \<subseteq> {7}"
  using stream_registry_invariant [OF demo_reachable, of 1 "newClient 7 ''Ctok''"]
  by (auto simp: demo_hub_simps newClient_def)

text \<open>
  Property C26. \<open>Notify\<close> cannot block for good: whenever a call still has a connection to serve, either it can
  go on at once, or the goroutines of that connection can take a step of their own that needs no
  lock: its write handler can take a message, or the closing goroutine can close it.
\<close>

theorem stream_notify_progress:
  assumes "hub_reachable s" "n_notify s = xs @ (m, i # todo) # ys"
  shows "\<exists>c. h_conn (n_hub s) i = Some c \<and>
     (hub_step s (s\<lparr>n_hub := update_conn i (push m) (n_hub s), n_notify := xs @ (m, todo) # ys\<rparr>) \<or>
      hub_step s (s\<lparr>n_notify := xs @ (m, todo) # ys\<rparr>) \<or>
      c_write c \<noteq> [] \<and> hub_step s (s\<lparr>n_hub := update_conn i pop_send (n_hub s)\<rparr>) \<or>
      c_done c \<and> \<not> c_closed c \<and> hub_step s (s\<lparr>n_hub := update_conn i shut (n_hub s)\<rparr>))"
proof -
  have ok: "hub_ok (n_hub s)" "todo_ok (n_hub s) (n_notify s)"
    using net_ok_reachable [OF assms(1)] by (auto simp: net_ok_def)
  then obtain c where c: "h_conn (n_hub s) i = Some c" using assms(2) by auto
  then have cok: "conn_ok (n_hub s) i c" using hub_okD(3) [OF ok(1)] by blast
  consider "length (c_write c) < c_cap c" | "c_closed c" | "c_write c \<noteq> []" "\<not> c_done c"
    | "c_pending c" "\<not> c_closed c" "c_done c"
    using cok by (cases "c_write c = []"; cases "c_done c") (auto simp: conn_ok_def)
  then show ?thesis
  proof cases
    case 1
    then show ?thesis using NotifySend [OF assms(2) c] c by blast
  next
    case 2
    then show ?thesis using NotifySkip [OF assms(2) c] c by blast
  next
    case 3
    then have "c_writing c" "\<not> c_connClosed c" using cok by (auto simp: conn_ok_def)
    then show ?thesis using WriteSent [OF c _ 3(1)] 3(1) c by blast
  next
    case 4
    then show ?thesis using Shut [OF c] c by blast
  qed
qed

theorem stream_notify_progress_witness:
  "\<exists>c. h_conn demo_hub 1 = Some c \<and> (\<exists>s'. hub_step \<lparr>n_hub = demo_hub, n_notify = [(undefined, [1])]\<rparr> s')"
  using stream_notify_progress [OF demo_notify_reachable [of undefined],
    where xs = "[]" and m = undefined and i = 1 and todo = "[]" and ys = "[]"] by auto

text \<open>
  Deleting a user ends all its streams: no connection stays registered for the user, every one
  of them that the hub knows is closed or being closed, and connections of others are untouched.
\<close>

theorem stream_deleted_user:
  assumes "hub_reachable s" "h_conn (n_hub s) i = Some c"
  shows "reg_list (hub_deleted_user u (n_hub s)) u = [] \<and>
     (\<exists>c'. h_conn (hub_deleted_user u (n_hub s)) i = Some c' \<and>
        (if c_userID c = u then c_done c' \<and> (c_closed c' \<or> c_pending c') else c' = c)) \<and>
     (\<forall>v. v \<noteq> u \<longrightarrow> reg_list (hub_deleted_user u (n_hub s)) v = reg_list (n_hub s) v)"
proof -
  have ok: "hub_ok (n_hub s)" using net_ok_reachable [OF assms(1)] by (simp add: net_ok_def)
  have "conn_ok (n_hub s) i c" using hub_okD(3) [OF ok assms(2)] .
  moreover have "c_userID c = u" if "i \<in> set (reg_list (n_hub s) u)"
    using hub_okD(2) [OF ok that] assms(2) by auto
  ultimately show ?thesis
    using assms(2) by (auto simp: deleted_user_result conn_ok_def)
qed

theorem stream_deleted_user_witness:
  "reg_list (hub_deleted_user 7 demo_hub) 7 = [] \<and>
   (\<exists>c'. h_conn (hub_deleted_user 7 demo_hub) 1 = Some c' \<and> c_done c')"
  using stream_deleted_user [OF demo_reachable, of 1 "newClient 7 ''Ctok''" 7]
  by (auto simp: demo_hub_simps newClient_def)

text \<open>
  Deleting a client closes exactly the streams opened with its token and leaves the other
  streams of the user registered in their order.
\<close>

theorem stream_deleted_client:
  assumes "hub_reachable s" "h_conn (n_hub s) i = Some c" "i \<in> set (reg_list (n_hub s) u)"
  shows "\<exists>c'. h_conn (hub_deleted_client u token (n_hub s)) i = Some c' \<and>
     (if c_token c = token then c_done c' \<and> i \<notin> set (reg_list (hub_deleted_client u token (n_hub s)) u)
      else c' = c \<and> i \<in> set (reg_list (hub_deleted_client u token (n_hub s)) u)) \<and>
     subseq (reg_list (hub_deleted_client u token (n_hub s)) u) (reg_list (n_hub s) u)"
  using assms(2,3) by (auto simp: deleted_client_result has_token_def)

theorem stream_deleted_client_witness:
  "\<exists>c'. h_conn (hub_deleted_client 7 ''Ctok'' demo_hub) 1 = Some c' \<and> c_done c'"
  using stream_deleted_client [OF demo_reachable, of 1 "newClient 7 ''Ctok''" 7 "''Ctok''"]
  by (auto simp: demo_hub_simps newClient_def)

text \<open>
  The tokens collected for the last-used bookkeeping are those of all registered connections of
  both hubs, each once, whatever the order in which the maps are visited.
\<close>

theorem stream_tokens:
  assumes "hub_reachable s" "hub_reachable s'"
    and "a = \<lparr>clients = n_hub s, muClients = n_hub s'\<rparr>"
    and "{u. reg_list (clients a) u \<noteq> []} \<subseteq> set order" "{u. reg_list (muClients a) u \<noteq> []} \<subseteq> set muOrder"
  shows "distinct (CollectConnectedClientTokens order muOrder a) \<and>
     set (CollectConnectedClientTokens order muOrder a) =
       {c_token c |u i c. i \<in> set (reg_list (clients a) u) \<and> h_conn (clients a) i = Some c} \<union>
       {c_token c |u i c. i \<in> set (reg_list (muClients a) u) \<and> h_conn (muClients a) i = Some c}"
proof -
  have "hub_ok (clients a)" "hub_ok (muClients a)"
    using net_ok_reachable assms(1-3) by (auto simp: net_ok_def)
  then show ?thesis
    using hub_tokens_set [OF assms(4)] hub_tokens_set [OF assms(5)]
    by (simp add: CollectConnectedClientTokens_def uniq_def uniq_from_set)
qed

theorem stream_tokens_witness:
  "CollectConnectedClientTokens [7] [] \<lparr>clients = demo_hub, muClients = n_hub empty_net\<rparr> = [''Ctok''] \<and>
   distinct (CollectConnectedClientTokens [7] [] \<lparr>clients = demo_hub, muClients = n_hub empty_net\<rparr>)"
proof
  show "CollectConnectedClientTokens [7] [] \<lparr>clients = demo_hub, muClients = n_hub empty_net\<rparr> = [''Ctok'']"
    by (simp add: CollectConnectedClientTokens_def uniq_def hub_tokens_def demo_hub_simps newClient_def
        reg_list_empty)
  show "distinct (CollectConnectedClientTokens [7] [] \<lparr>clients = demo_hub, muClients = n_hub empty_net\<rparr>)"
    using stream_tokens [OF demo_reachable hub_reachable.start refl, of "[7]" "[]"]
    by (simp add: demo_hub_simps reg_list_empty)
qed

end
