(* ===== verification/Delivery.thy ===== *)
theory Delivery
  imports Engine
begin

text \<open>
  Delivery, storing and escalation chains of the engine: which users a message reaches, in what way, and
  which escalations it starts.
\<close>

section \<open>What a delivery does\<close>

text \<open>Every operation of the engine only adds events at the end of the trace.\<close>

fun notified :: "event list \<Rightarrow> nat list" where
  "notified [] = []"
| "notified (Notified u ext # evs) = u # notified evs"
| "notified (_ # evs) = notified evs"

lemma notified_append [simp]: "notified (xs @ ys) = notified xs @ notified ys"
  by (induction xs rule: notified.induct) simp_all

lemma trace_call [simp]: "en_trace (snd (call evs f s)) = en_trace s @ evs"
  by (simp add: call_def split: prod.split)

lemma trace_notify [simp]: "en_trace (notify env u ext s) = en_trace s @ [Notified u ext]"
  by (simp add: notify_def)

lemma call_ok:
  assumes "fst (f (en_world s)) = Inr x"
  obtains s' where "call evs f s = (Inr x, s')" "en_trace s' = en_trace s @ evs"
  using assms by (cases "f (en_world s)") (simp add: call_def)

text \<open>The users a loop over \<open>us\<close> serves: without the sender and without repetitions.\<close>

fun served :: "nat \<Rightarrow> nat set \<Rightarrow> nat list \<Rightarrow> nat list" where
  "served sender done [] = []"
| "served sender done (u # us) =
     (if sender \<noteq> 0 \<and> u = sender \<or> u \<in> done then served sender done us
      else u # served sender (insert u done) us)"

lemma set_served: "set (served sender done us) = {u \<in> set us. u \<notin> done \<and> \<not> (sender \<noteq> 0 \<and> u = sender)}"
  by (induction sender "done" us rule: served.induct) auto

lemma distinct_served: "distinct (served sender done us)"
  by (induction sender "done" us rule: served.induct) (auto simp: set_served)

text \<open>What the policies of a user ask for, at the time \<open>t\<close>.\<close>

definition digest_entry :: "message \<Rightarrow> nat \<Rightarrow> digest_item" where
  "digest_entry msg u = \<lparr>di_ID = 0, di_UserID = u, di_MessageID = msg_ID msg,
     di_ApplicationID = msg_ApplicationID msg, di_Title = msg_Title msg,
     di_Message = msg_Message msg, di_Priority = msg_Priority msg, di_CreatedAt = zero_time\<rparr>"

definition wants_digest :: "digest_policy option \<Rightarrow> message \<Rightarrow> bool" where
  "wants_digest d msg \<longleftrightarrow> (\<exists>p. d = Some p \<and> dp_Enabled p \<and> msg_Priority msg < dp_ImmediatePriority p)"

definition wants_quiet :: "zone_env \<Rightarrow> quiet_hours_policy option \<Rightarrow> time \<Rightarrow> message \<Rightarrow> bool" where
  "wants_quiet z q t msg \<longleftrightarrow>
     (\<exists>p. q = Some p \<and> qh_Enabled p \<and> msg_Priority msg < qh_AllowPriority p \<and> quietNow z p t)"

text \<open>
  The turn of one recipient \<open>u\<close>, specified on its own: from the world \<open>w\<close> the database is asked for the
  policies of \<open>u\<close>, and their answers fix the events of the turn and the world after it. Only a policy of
  quiet hours that does not defer leaves a recipient without an event.
\<close>

inductive turn ::
  "'w engine_env \<Rightarrow> message \<Rightarrow> message_external \<Rightarrow> nat \<Rightarrow> 'w \<Rightarrow> event list \<Rightarrow> 'w \<Rightarrow> bool"
  for env :: "'w engine_env" and msg :: message and external :: message_external and u :: nat
where
  digested: "GetDigestPolicy env u w = Inr d \<Longrightarrow> wants_digest d msg \<Longrightarrow>
     QueueDigestItem env (digest_entry msg u) w = (Inr r, w') \<Longrightarrow>
     turn env msg external u w [DigestQueued (digest_entry msg u)] w'"
| digest_failed: "GetDigestPolicy env u w = Inr d \<Longrightarrow> wants_digest d msg \<Longrightarrow>
     QueueDigestItem env (digest_entry msg u) w = (Inl e, w') \<Longrightarrow>
     turn env msg external u w [DigestQueued (digest_entry msg u), Notified u external]
       (Notifier_Notify env u external w')"
| deferred: "GetDigestPolicy env u w = Inr d \<Longrightarrow> \<not> wants_digest d msg \<Longrightarrow>
     GetQuietHoursPolicy env u w = Inr (Some q) \<Longrightarrow> wants_quiet (zones env) (Some q) (time_Now env w) msg \<Longrightarrow>
     strings_EqualFold (qh_Mode q) ''defer'' \<Longrightarrow>
     QueueDeferredNotification env u (msg_ID msg) w = (Inr r, w') \<Longrightarrow>
     turn env msg external u w [DeferredQueued u (msg_ID msg)] w'"
| defer_failed: "GetDigestPolicy env u w = Inr d \<Longrightarrow> \<not> wants_digest d msg \<Longrightarrow>
     GetQuietHoursPolicy env u w = Inr (Some q) \<Longrightarrow> wants_quiet (zones env) (Some q) (time_Now env w) msg \<Longrightarrow>
     strings_EqualFold (qh_Mode q) ''defer'' \<Longrightarrow>
     QueueDeferredNotification env u (msg_ID msg) w = (Inl e, w') \<Longrightarrow>
     turn env msg external u w [DeferredQueued u (msg_ID msg), Notified u external]
       (Notifier_Notify env u external w')"
| silent: "GetDigestPolicy env u w = Inr d \<Longrightarrow> \<not> wants_digest d msg \<Longrightarrow>
     GetQuietHoursPolicy env u w = Inr (Some q) \<Longrightarrow> wants_quiet (zones env) (Some q) (time_Now env w) msg \<Longrightarrow>
     \<not> strings_EqualFold (qh_Mode q) ''defer'' \<Longrightarrow>
     turn env msg external u w [] w"
| told: "GetDigestPolicy env u w = Inr d \<Longrightarrow> \<not> wants_digest d msg \<Longrightarrow>
     GetQuietHoursPolicy env u w = Inr q \<Longrightarrow> \<not> wants_quiet (zones env) q (time_Now env w) msg \<Longrightarrow>
     turn env msg external u w [Notified u external] (Notifier_Notify env u external w)"
| digest_unknown: "GetDigestPolicy env u w = Inl e \<Longrightarrow>
     turn env msg external u w [Notified u external] (Notifier_Notify env u external w)"
| quiet_unknown: "GetDigestPolicy env u w = Inr d \<Longrightarrow> \<not> wants_digest d msg \<Longrightarrow>
     GetQuietHoursPolicy env u w = Inl e \<Longrightarrow>
     turn env msg external u w [Notified u external] (Notifier_Notify env u external w)"

text \<open>The turns of a list of recipients, one after the other.\<close>

inductive turns ::
  "'w engine_env \<Rightarrow> message \<Rightarrow> message_external \<Rightarrow> nat list \<Rightarrow> 'w \<Rightarrow> event list \<Rightarrow> 'w \<Rightarrow> bool"
  for env :: "'w engine_env" and msg :: message and external :: message_external
where
  no_turn [simp, intro]: "turns env msg external [] w [] w"
| next_turn [intro]: "turn env msg external u w evs w1 \<Longrightarrow> turns env msg external us w1 evs' w2 \<Longrightarrow>
     turns env msg external (u # us) w (evs @ evs') w2"

inductive_cases turnE: "turn env msg external u w evs w'"
inductive_cases turns_NilE [elim!]: "turns env msg external [] w evs w'"
inductive_cases turns_ConsE [elim]: "turns env msg external (u # us) w evs w'"

lemmas turn_told = told digest_unknown quiet_unknown

definition serve :: "'w engine_env \<Rightarrow> message \<Rightarrow> message_external \<Rightarrow> nat \<Rightarrow> 'w engine \<Rightarrow> 'w engine" where
  "serve env msg external u s =
     (case deliver env u msg external s of
        (Inr _, s) \<Rightarrow> s
      | (Inl _, s) \<Rightarrow> notify env u external s)"

lemma notify_turn:
  assumes "turn env msg external u (en_world s) [Notified u external] (Notifier_Notify env u external (en_world s))"
  shows "\<exists>evs. en_trace (notify env u external s) = en_trace s @ evs \<and>
     turn env msg external u (en_world s) evs (en_world (notify env u external s))"
  using assms by (simp add: notify_def)

text \<open>A recorded call, and the notification when it fails.\<close>

lemma call_serve:
  assumes "deliver env u msg external s = call [ev] f s"
  shows "en_trace (serve env msg external u s) =
      en_trace s @ (case fst (f (en_world s)) of Inr _ \<Rightarrow> [ev] | Inl _ \<Rightarrow> [ev, Notified u external])"
    and "en_world (serve env msg external u s) =
      (case f (en_world s) of (Inr _, w) \<Rightarrow> w | (Inl _, w) \<Rightarrow> Notifier_Notify env u external w)"
  using assms by (simp_all add: serve_def call_def notify_def split: prod.split sum.split)

lemma deliver_digest:
  assumes "GetDigestPolicy env u (en_world s) = Inr d" "wants_digest d msg"
  shows "deliver env u msg external s =
    call [DigestQueued (digest_entry msg u)] (QueueDigestItem env (digest_entry msg u)) s"
  using assms by (auto simp: deliver_def wants_digest_def digest_entry_def Let_def)

lemma deliver_quiet:
  assumes "GetDigestPolicy env u (en_world s) = Inr d" "\<not> wants_digest d msg"
    and "GetQuietHoursPolicy env u (en_world s) = Inr q"
  shows "deliver env u msg external s =
    (if wants_quiet (zones env) q (time_Now env (en_world s)) msg
     then if strings_EqualFold (qh_Mode (the q)) ''defer''
          then call [DeferredQueued u (msg_ID msg)] (QueueDeferredNotification env u (msg_ID msg)) s
          else (Inr (), s)
     else (Inr (), notify env u external s))"
  using assms by (auto simp: deliver_def wants_digest_def wants_quiet_def now_of_def split: option.split)

lemma serve_turn:
  "\<exists>evs. en_trace (serve env msg external u s) = en_trace s @ evs \<and>
     turn env msg external u (en_world s) evs (en_world (serve env msg external u s))"
proof (cases "GetDigestPolicy env u (en_world s)")
  case (Inl e)
  then have "serve env msg external u s = notify env u external s" by (simp add: serve_def deliver_def)
  then show ?thesis using notify_turn digest_unknown [OF Inl] by metis
next
  case d: (Inr d)
  show ?thesis
  proof (cases "wants_digest d msg")
    case True
    obtain r w' where q: "QueueDigestItem env (digest_entry msg u) (en_world s) = (r, w')" by fastforce
    note served = call_serve [OF deliver_digest [OF d True]]
    show ?thesis using q digested [OF d True] digest_failed [OF d True] by (cases r) (simp_all add: served)
  next
    case False
    show ?thesis
    proof (cases "GetQuietHoursPolicy env u (en_world s)")
      case (Inl e)
      then have "serve env msg external u s = notify env u external s"
        using d False by (auto simp: serve_def deliver_def wants_digest_def split: option.split)
      then show ?thesis using notify_turn quiet_unknown [OF d False Inl] by metis
    next
      case q: (Inr q)
      note dq = deliver_quiet [OF d False q, of external]
      consider (told) "\<not> wants_quiet (zones env) q (time_Now env (en_world s)) msg"
        | (quiet) p where "q = Some p" "wants_quiet (zones env) (Some p) (time_Now env (en_world s)) msg"
        by (cases q) (auto simp: wants_quiet_def)
      then show ?thesis
      proof cases
        case told
        then have "serve env msg external u s = notify env u external s" using dq by (simp add: serve_def)
        then show ?thesis using notify_turn turn.told [OF d False q told] by metis
      next
        case (quiet p)
        obtain r w' where c: "QueueDeferredNotification env u (msg_ID msg) (en_world s) = (r, w')" by fastforce
        note rules = deferred [OF d False q [unfolded quiet(1)] quiet(2)] defer_failed [OF d False q [unfolded quiet(1)] quiet(2)]
          silent [OF d False q [unfolded quiet(1)] quiet(2)]
        show ?thesis
        proof (cases "strings_EqualFold (qh_Mode p) ''defer''")
          case True
          have "deliver env u msg external s =
              call [DeferredQueued u (msg_ID msg)] (QueueDeferredNotification env u (msg_ID msg)) s"
            using dq quiet True by simp
          note served = call_serve [OF this]
          show ?thesis using c rules True by (cases r) (simp_all add: served)
        next
          case False
          then have "serve env msg external u s = s" using dq quiet by (simp add: serve_def)
          then show ?thesis using rules(3) [OF False] by simp
        qed
      qed
    qed
  qed
qed

lemma deliver_loop_fold:
  "deliver_loop env msg external done us s =
     fold (serve env msg external) (served (msg_SenderUserID msg) done us) s"
  by (induction env msg external "done" us s rule: deliver_loop.induct) (auto simp: serve_def)

lemma fold_serve_turns:
  "\<exists>evs. en_trace (fold (serve env msg external) us s) = en_trace s @ evs \<and>
     turns env msg external us (en_world s) evs (en_world (fold (serve env msg external) us s))"
proof (induction us arbitrary: s)
  case (Cons u us)
  obtain evs where "en_trace (serve env msg external u s) = en_trace s @ evs"
    and "turn env msg external u (en_world s) evs (en_world (serve env msg external u s))" using serve_turn by blast
  moreover obtain evs' where "en_trace (fold (serve env msg external) (u # us) s) =
      en_trace (serve env msg external u s) @ evs'"
    and "turns env msg external us (en_world (serve env msg external u s)) evs'
      (en_world (fold (serve env msg external) (u # us) s))" using Cons.IH by auto
  ultimately show ?case by (intro exI [of _ "evs @ evs'"]) auto
qed auto

lemma mentioned_members_set:
  "mentioned_members env msg ids w = Inr us \<Longrightarrow>
     set us = {u \<in> set ids. u \<noteq> msg_SenderUserID msg \<and>
       (\<exists>m. GetApplicationMembership env (msg_ApplicationID msg) u w = Inr (Some m))}"
proof (induction ids arbitrary: us)
  case (Cons i ids)
  then show ?case by (fastforce simp: res_bind_Inr_iff split: if_splits sum.splits)
qed simp

text \<open>Escalations add only their own events.\<close>

lemma queue_rules_trace:
  "\<exists>states. en_trace (snd (queue_rules env msg rules s)) = en_trace s @ map EscalationQueued states"
proof (induction env msg rules s rule: queue_rules.induct)
  case (2 env msg rule rules s)
  show ?case
  proof (cases "escalationWouldCycle env msg rule (en_world s)")
    case True
    then show ?thesis using 2(1) by simp
  next
    case False
    define st where "st = \<lparr>es_ID = 0, es_RuleID = er_ID rule, es_MessageID = msg_ID msg,
        es_DueAt = now_of env s + wrap64 ((if er_DelayMinutes rule < 1 then 1 else er_DelayMinutes rule) * minute),
        es_RepeatCount = 0, es_LastEscalatedMessageID = 0, es_Completed = False, es_CreatedAt = zero_time,
        es_DoneAt = None\<rparr>"
    obtain r s' where c: "call [EscalationQueued st] (QueueEscalation env st) s = (r, s')"
      by (cases "call [EscalationQueued st] (QueueEscalation env st) s")
    have t: "en_trace s' = en_trace s @ map EscalationQueued [st]"
      using trace_call [of "[EscalationQueued st]" "QueueEscalation env st" s] c by simp
    show ?thesis
    proof (cases r)
      case Inl
      then show ?thesis using False c t by (auto simp: st_def [symmetric] Let_def intro!: exI [of _ "[st]"])
    next
      case Inr
      then obtain states where "en_trace (snd (queue_rules env msg rules s')) = en_trace s' @ map EscalationQueued states"
        using 2(2) [OF False refl refl] c by (auto simp: st_def)
      then show ?thesis using False c t Inr
        by (auto simp: st_def [symmetric] Let_def intro!: exI [of _ "st # states"])
    qed
  qed
qed simp

lemma queueEscalations_trace:
  "\<exists>states. en_trace (snd (queueEscalations env msg s)) = en_trace s @ map EscalationQueued states"
  using queue_rules_trace [of env msg]
  by (auto simp: queueEscalations_def split: sum.split intro!: exI [of _ "[]"])

text \<open>
  Property C4. A delivery that succeeds gives every recipient of the channel and every mentioned member
  of it exactly one turn, and never the sender. In the turn the policies of the user, looked up then,
  decide: below the immediate priority of a digest the message goes into the digest, else in quiet hours
  it is deferred or (in another mode) dropped, else the user is told now; and the user is told now when
  a policy cannot be read or the message cannot be put into the digest or deferred. Escalations
  follow the turns and the post-store hooks run last, once.
\<close>

theorem delivery_serves_each_once:
  assumes "deliverStored env msg allowEscalation s = (Inr external, s')"
  shows "\<exists>recipients users evs w states.
    GetApplicationRecipientUserIDs env (msg_ApplicationID msg) (en_world s) = Inr recipients \<and>
    turns env msg external users (en_world s) evs w \<and>
    en_trace s' = en_trace s @ evs @ map EscalationQueued states @ [HooksRun msg] \<and>
    external = externalMessage env msg \<and> distinct users \<and>
    set users = {u. (u \<in> set recipients \<or> msg_SenderUserID msg \<noteq> 0 \<and> u \<in> set (mentionRecipientUserIDs env msg) \<and>
       (\<exists>m. GetApplicationMembership env (msg_ApplicationID msg) u (en_world s) = Inr (Some m))) \<and>
       (msg_SenderUserID msg \<noteq> 0 \<longrightarrow> u \<noteq> msg_SenderUserID msg)} \<and>
    (states \<noteq> [] \<longrightarrow> allowEscalation)"
proof -
  obtain recipients where r: "GetApplicationRecipientUserIDs env (msg_ApplicationID msg) (en_world s) = Inr recipients"
    using assms by (simp add: deliverStored_def Let_def split: sum.splits)
  let ?m = "if msg_SenderUserID msg \<noteq> 0
            then mentioned_members env msg (mentionRecipientUserIDs env msg) (en_world s) else Inr []"
  obtain mentioned where m: "?m = Inr mentioned"
    using assms r by (simp add: deliverStored_def Let_def split: sum.splits)
  define users where "users = served (msg_SenderUserID msg) {} (recipients @ mentioned)"
  define s1 where "s1 = fold (serve env msg external) users s"
  define s2 where "s2 = (if allowEscalation then snd (queueEscalations env msg s1) else s1)"
  have ext: "external = externalMessage env msg" and s': "s' = runPostStoreHooks msg s2"
    using assms r m
    by (simp_all add: deliverStored_def Let_def deliver_loop_fold users_def s1_def s2_def split: if_splits)
  obtain evs where o: "en_trace s1 = en_trace s @ evs" "turns env msg external users (en_world s) evs (en_world s1)"
    using fold_serve_turns unfolding s1_def by blast
  obtain states where q: "en_trace s2 = en_trace s1 @ map EscalationQueued states" "states \<noteq> [] \<longrightarrow> allowEscalation"
    using queueEscalations_trace [of env msg s1] by (cases allowEscalation) (auto simp: s2_def)
  have ms: "set mentioned = {u. msg_SenderUserID msg \<noteq> 0 \<and> u \<in> set (mentionRecipientUserIDs env msg) \<and>
       u \<noteq> msg_SenderUserID msg \<and>
       (\<exists>m. GetApplicationMembership env (msg_ApplicationID msg) u (en_world s) = Inr (Some m))}"
    using m mentioned_members_set [of env msg _ "en_world s" mentioned] by (auto split: if_splits)
  have tr: "en_trace s' = en_trace s @ evs @ map EscalationQueued states @ [HooksRun msg]"
    by (simp add: s' runPostStoreHooks_def q(1) o(1))
  have us: "set users = {u. (u \<in> set recipients \<or> msg_SenderUserID msg \<noteq> 0 \<and> u \<in> set (mentionRecipientUserIDs env msg) \<and>
       (\<exists>m. GetApplicationMembership env (msg_ApplicationID msg) u (en_world s) = Inr (Some m))) \<and>
       (msg_SenderUserID msg \<noteq> 0 \<longrightarrow> u \<noteq> msg_SenderUserID msg)}"
    unfolding users_def set_served set_append ms by blast
  have "distinct users" by (simp add: users_def distinct_served)
  with r o(2) tr us ext q(2) show ?thesis by blast
qed

text \<open>What a working database makes of them for a user, as a list of events.\<close>

definition policy_outcome ::
  "zone_env \<Rightarrow> (nat \<Rightarrow> digest_policy option) \<Rightarrow> (nat \<Rightarrow> quiet_hours_policy option) \<Rightarrow> time \<Rightarrow> message \<Rightarrow>
     message_external \<Rightarrow> nat \<Rightarrow> event list" where
  "policy_outcome z dig quiet t msg external u =
     (if wants_digest (dig u) msg then [DigestQueued (digest_entry msg u)]
      else if wants_quiet z (quiet u) t msg then
        (if strings_EqualFold (qh_Mode (the (quiet u))) ''defer'' then [DeferredQueued u (msg_ID msg)] else [])
      else [Notified u external])"

text \<open>
  Property C5. With a working database the digest and quiet hours policies alone decide what each
  recipient gets, in the order of the recipients: a digest entry below the immediate priority, else
  nothing or a deferred notification below the priority allowed in quiet hours, else the message now.
\<close>

theorem delivery_follows_policies:
  assumes dig: "\<forall>u w. GetDigestPolicy env u w = Inr (dig u)"
    and quiet: "\<forall>u w. GetQuietHoursPolicy env u w = Inr (quiet u)"
    and clock: "\<forall>w. time_Now env w = t"
    and queue: "\<forall>item w. fst (QueueDigestItem env item w) = Inr ()"
    and defer_: "\<forall>u i w. fst (QueueDeferredNotification env u i w) = Inr ()"
  shows "en_trace (deliver_loop env msg external {} us s) = en_trace s @
     concat (map (policy_outcome (zones env) dig quiet t msg external) (served (msg_SenderUserID msg) {} us))"
proof -
  have "en_trace (serve env msg external u s) =
      en_trace s @ policy_outcome (zones env) dig quiet t msg external u" for u s
  proof (cases "wants_digest (dig u) msg")
    case True
    then have "deliver env u msg external s =
        call [DigestQueued (digest_entry msg u)] (QueueDigestItem env (digest_entry msg u)) s"
      using dig by (auto simp: deliver_def wants_digest_def digest_entry_def Let_def)
    moreover obtain s' where "call [DigestQueued (digest_entry msg u)] (QueueDigestItem env (digest_entry msg u)) s = (Inr (), s')"
      "en_trace s' = en_trace s @ [DigestQueued (digest_entry msg u)]"
      using call_ok [of "QueueDigestItem env (digest_entry msg u)" s "()"] queue by blast
    ultimately show ?thesis using True by (simp add: serve_def policy_outcome_def)
  next
    case False
    then have d: "\<not> (case dig u of None \<Rightarrow> False
              | Some d \<Rightarrow> dp_Enabled d \<and> msg_Priority msg < dp_ImmediatePriority d)"
      by (auto simp: wants_digest_def split: option.split)
    show ?thesis
    proof (cases "wants_quiet (zones env) (quiet u) t msg")
      case True
      moreover obtain s' where "call [DeferredQueued u (msg_ID msg)] (QueueDeferredNotification env u (msg_ID msg)) s = (Inr (), s')"
        "en_trace s' = en_trace s @ [DeferredQueued u (msg_ID msg)]"
        using call_ok [of "QueueDeferredNotification env u (msg_ID msg)" s "()"] defer_ by blast
      ultimately show ?thesis using False d dig quiet clock
        by (auto simp: serve_def policy_outcome_def deliver_def wants_quiet_def now_of_def)
    next
      case False
      then have "deliver env u msg external s = (Inr (), notify env u external s)"
        using d dig quiet clock by (auto simp: deliver_def wants_quiet_def now_of_def split: option.split)
      then show ?thesis using False \<open>\<not> wants_digest (dig u) msg\<close> by (simp add: serve_def policy_outcome_def)
    qed
  qed
  then have "en_trace (fold (serve env msg external) us s) =
      en_trace s @ concat (map (policy_outcome (zones env) dig quiet t msg external) us)" for us s
    by (induction us arbitrary: s) simp_all
  then show ?thesis by (simp add: deliver_loop_fold)
qed

section \<open>Escalation chains\<close>

definition parent_of :: "'w engine_env \<Rightarrow> 'w \<Rightarrow> message \<Rightarrow> message \<Rightarrow> bool" where
  "parent_of env w m p \<longleftrightarrow> msg_ParentMessageID m \<noteq> 0 \<and> GetMessageByID env (msg_ParentMessageID m) w = Inr (Some p)"

definition rule_target :: "escalation_rule \<Rightarrow> nat" where
  "rule_target rule = (if er_TargetApplicationID rule = 0 then er_TargetID rule else er_TargetApplicationID rule)"

definition channel_rule :: "escalation_rule \<Rightarrow> bool" where
  "channel_rule rule \<longleftrightarrow> strings_ToLower (strings_TrimSpace (er_TargetType rule)) \<in> {'''', ''channel''}"

lemma ex_less_Suc_shift: "(\<exists>k<Suc n. P k) \<longleftrightarrow> P 0 \<or> (\<exists>k<n. P (Suc k))"
  using less_Suc_eq_0_disj by auto

lemma cycle_loop_iff:
  "cycle_loop n env target msg w \<longleftrightarrow>
     (\<exists>k<n. \<exists>m. (parent_of env w ^^ k) msg m \<and> msg_ApplicationID m = target)"
proof (induction n env target msg w rule: cycle_loop.induct)
  case (2 depth env target current w)
  have step: "(parent_of env w ^^ Suc k) current m \<longleftrightarrow>
      (\<exists>p. parent_of env w current p \<and> (parent_of env w ^^ k) p m)" for k m
    by (metis relpowp_Suc_D2 relpowp_Suc_I2)
  show ?case
  proof (cases "\<exists>p. parent_of env w current p")
    case True
    then obtain p where p: "msg_ParentMessageID current \<noteq> 0"
      "GetMessageByID env (msg_ParentMessageID current) w = Inr (Some p)" by (auto simp: parent_of_def)
    then have "parent_of env w current q \<longleftrightarrow> q = p" for q by (auto simp: parent_of_def)
    then show ?thesis unfolding ex_less_Suc_shift step using p 2 by auto
  next
    case False
    then show ?thesis unfolding ex_less_Suc_shift step
      by (auto simp: parent_of_def split: sum.split option.split)
  qed
qed simp

lemma escalation_cycle_iff:
  "escalationWouldCycle env msg rule w \<longleftrightarrow> channel_rule rule \<and>
     (rule_target rule = 0 \<or>
      (\<exists>k<8. \<exists>m. (parent_of env w ^^ k) msg m \<and> msg_ApplicationID m = rule_target rule))"
  by (auto simp: escalationWouldCycle_def cycle_loop_iff channel_rule_def rule_target_def Let_def)

text \<open>The state that a rule queues for a message at the time \<open>t\<close>.\<close>

definition queued_state :: "time \<Rightarrow> message \<Rightarrow> escalation_rule \<Rightarrow> escalation_state" where
  "queued_state t msg rule = \<lparr>es_ID = 0, es_RuleID = er_ID rule, es_MessageID = msg_ID msg,
     es_DueAt = t + wrap64 ((if er_DelayMinutes rule < 1 then 1 else er_DelayMinutes rule) * minute),
     es_RepeatCount = 0, es_LastEscalatedMessageID = 0, es_Completed = False, es_CreatedAt = zero_time,
     es_DoneAt = None\<rparr>"

text \<open>The parents of messages when the stored messages are \<open>messages\<close>.\<close>

definition stored_parent :: "(nat \<Rightarrow> message option) \<Rightarrow> message \<Rightarrow> message \<Rightarrow> bool" where
  "stored_parent messages m p \<longleftrightarrow> msg_ParentMessageID m \<noteq> 0 \<and> messages (msg_ParentMessageID m) = Some p"

definition chain_depths :: "(nat \<Rightarrow> message option) \<Rightarrow> message \<Rightarrow> bool" where
  "chain_depths messages msg \<longleftrightarrow>
     (\<forall>m \<in> insert msg (ran messages). 0 \<le> msg_EscalationDepth m \<and>
        (\<forall>p. stored_parent messages m p \<longrightarrow> msg_EscalationDepth m = msg_EscalationDepth p + 1))"

lemma chain_depth_bound:
  assumes "chain_depths messages msg" and "(stored_parent messages ^^ k) msg m"
  shows "m \<in> insert msg (ran messages) \<and> int k \<le> msg_EscalationDepth msg - msg_EscalationDepth m"
  using assms(2)
proof (induction k arbitrary: m)
  case (Suc k)
  then obtain q where q: "(stored_parent messages ^^ k) msg q" "stored_parent messages q m" by auto
  have "m \<in> ran messages" using q(2) by (auto simp: stored_parent_def intro: ranI)
  moreover have "msg_EscalationDepth q = msg_EscalationDepth m + 1"
    using Suc.IH [OF q(1)] q(2) assms(1) by (auto simp: chain_depths_def)
  ultimately show ?case using Suc.IH [OF q(1)] by simp
qed simp

lemma chain_examined:
  assumes depths: "chain_depths messages msg" and depth: "msg_EscalationDepth msg < 5"
  shows "(\<exists>k<8. \<exists>m. (stored_parent messages ^^ k) msg m \<and> P m) \<longleftrightarrow>
     (\<exists>m. (stored_parent messages)\<^sup>*\<^sup>* msg m \<and> P m)"
proof -
  have "k < 8" if "(stored_parent messages ^^ k) msg m" for k m
    using chain_depth_bound [OF depths that] depths depth by (auto simp: chain_depths_def)
  then show ?thesis by (auto simp: rtranclp_power)
qed

text \<open>
  Property C28. A stored message of depth below five starts an escalation for every matching rule, except
  those that escalate to a channel the message or one of its ancestors, however far, already belongs to:
  looking at eight messages of the chain is enough when the depths count the ancestors.
\<close>

theorem escalations_queued_exactly:
  assumes reads: "\<forall>i w. GetMessageByID env i w = Inr (messages i)"
    and rules: "GetEscalationRulesForMessage env (msg_ApplicationID msg) (msg_Priority msg) (en_world s) = Inr rules"
    and queue: "\<forall>st w. fst (QueueEscalation env st w) = Inr ()"
    and clock: "\<forall>w. time_Now env w = t"
    and depths: "chain_depths messages msg"
  shows "en_trace (snd (queueEscalations env msg s)) = en_trace s @
     (if msg_EscalationDepth msg \<ge> 5 then []
      else map (\<lambda>rule. EscalationQueued (queued_state t msg rule))
        (filter (\<lambda>rule. \<not> (channel_rule rule \<and> (rule_target rule = 0 \<or>
           (\<exists>m. (stored_parent messages)\<^sup>*\<^sup>* msg m \<and> msg_ApplicationID m = rule_target rule)))) rules))"
proof (cases "msg_EscalationDepth msg \<ge> 5")
  case False
  have "parent_of env w = stored_parent messages" for w
    using reads by (intro ext) (simp add: parent_of_def stored_parent_def)
  then have cycle: "escalationWouldCycle env msg rule w \<longleftrightarrow> channel_rule rule \<and> (rule_target rule = 0 \<or>
      (\<exists>m. (stored_parent messages)\<^sup>*\<^sup>* msg m \<and> msg_ApplicationID m = rule_target rule))" for rule w
    using chain_examined [OF depths, of "\<lambda>m. msg_ApplicationID m = rule_target rule"] False
    by (auto simp: escalation_cycle_iff)
  have "en_trace (snd (queue_rules env msg rs s)) = en_trace s @
      map (\<lambda>rule. EscalationQueued (queued_state t msg rule)) (filter (\<lambda>rule. \<not> (channel_rule rule \<and>
        (rule_target rule = 0 \<or> (\<exists>m. (stored_parent messages)\<^sup>*\<^sup>* msg m \<and> msg_ApplicationID m = rule_target rule)))) rs)"
    for rs s
  proof (induction rs arbitrary: s)
    case (Cons rule rs)
    let ?st = "queued_state t msg rule"
    obtain s' where c: "call [EscalationQueued ?st] (QueueEscalation env ?st) s = (Inr (), s')"
      and tr: "en_trace s' = en_trace s @ [EscalationQueued ?st]"
      using call_ok [of "QueueEscalation env ?st" s "()" "[EscalationQueued ?st]"] queue by blast
    have st: "\<lparr>es_ID = 0, es_RuleID = er_ID rule, es_MessageID = msg_ID msg,
        es_DueAt = now_of env s + wrap64 ((if er_DelayMinutes rule < 1 then 1 else er_DelayMinutes rule) * minute),
        es_RepeatCount = 0, es_LastEscalatedMessageID = 0, es_Completed = False, es_CreatedAt = zero_time,
        es_DoneAt = None\<rparr> = ?st"
      by (simp add: queued_state_def now_of_def clock)
    show ?case
    proof (cases "escalationWouldCycle env msg rule (en_world s)")
      case True
      then show ?thesis using Cons by (simp add: cycle)
    next
      case False
      then have "queue_rules env msg (rule # rs) s = queue_rules env msg rs s'"
        by (simp only: queue_rules.simps Let_def st c if_False sum.case prod.case)
      then show ?thesis using Cons [of s'] False by (simp add: tr cycle)
    qed
  qed simp
  then show ?thesis using False rules by (simp add: queueEscalations_def)
qed (simp add: queueEscalations_def)

section \<open>Storing\<close>

lemma trace_create_once:
  "create_once env msg s = (Inr (created, m), s') \<Longrightarrow>
     CreateMessageOnce env msg (en_world s) = (Inr (created, m), en_world s') \<and>
     en_trace s' = en_trace s @ (if created then [Stored m] else [])"
  by (auto simp: create_once_def call_def split: prod.splits sum.splits bool.splits)

text \<open>
  A message whose deduplication key is already stored is answered with the stored message
  and reaches nobody: no notification, digest entry, escalation or hook.
\<close>

theorem duplicate_delivers_nothing:
  assumes "CreateMessageOnce env (dated env msg s) (en_world s) = (Inr (False, m), w')"
  shows "storeAndDeliver env msg allowEscalation s = (Inr (m, externalMessage env m), s\<lparr>en_world := w'\<rparr>) \<and>
    StorePreparedAndDeliver env msg prepare s = (Inr (m, externalMessage env m), s\<lparr>en_world := w'\<rparr>)"
  using assms by (simp add: storeAndDeliver_def StorePreparedAndDeliver_def create_once_def call_def)

text \<open>
  When the preparation of a stored message (the attachments of a chat upload) fails, the
  message is deleted again and nothing is delivered.
\<close>

theorem failed_preparation_delivers_nothing:
  assumes "CreateMessageOnce env (dated env msg s) (en_world s) = (Inr (True, m), w1)"
    and "p m w1 = (Inl e, w2)"
  shows "StorePreparedAndDeliver env msg (Some p) s =
    (Inl e, s\<lparr>en_world := snd (DeleteMessageByID env (msg_ID m) w2), en_trace := en_trace s @ [Stored m]\<rparr>)"
  using assms
  by (simp add: StorePreparedAndDeliver_def create_once_def call_def split: prod.split)

text \<open>
  The form delivered over the stream and to hooks agrees with the one the message handlers answer with
  only for messages that are not part of a conversation: \<open>externalMessage\<close> leaves both fields out.
\<close>

lemma delivered_form_drops_reply:
  "externalMessage env msg = toExternalMessage env msg \<longleftrightarrow>
     msg_ReplyToMessageID msg = 0 \<and> msg_ThreadRootMessageID msg = 0"
  by (auto simp: externalMessage_def toExternalMessage_def)

section \<open>An example\<close>

text \<open>
  A channel 7 with the members 1 to 4, no policies, and two stored messages, of which the second was
  escalated from the first; a message of channel 9 escalates to the channels 7 and 8.
\<close>

definition demo_app :: "nat \<Rightarrow> string \<Rightarrow> application" where
  "demo_app i name = undefined\<lparr>app_ID := i, app_Name := name\<rparr>"

definition demo_root :: message where
  "demo_root = new_message\<lparr>msg_ID := 10, msg_ApplicationID := 7, msg_Title := ''disk'', msg_Priority := 8\<rparr>"

definition demo_child :: message where
  "demo_child = new_message\<lparr>msg_ID := 11, msg_ApplicationID := 9, msg_Title := ''Escalated: disk'',
     msg_Priority := 8, msg_ParentMessageID := 10, msg_RootMessageID := 10, msg_EscalationDepth := 1\<rparr>"

definition demo_sent :: message where
  "demo_sent = new_message\<lparr>msg_ID := 12, msg_ApplicationID := 7, msg_Title := ''hello'', msg_SenderUserID := 1\<rparr>"

definition demo_messages :: "nat \<Rightarrow> message option" where
  "demo_messages = [10 \<mapsto> demo_root, 11 \<mapsto> demo_child, 12 \<mapsto> demo_sent]"

definition demo_rule :: "nat \<Rightarrow> nat \<Rightarrow> escalation_rule" where
  "demo_rule i target = \<lparr>er_ID = i, er_Name = '''', er_SourceApplicationID = 9, er_TargetApplicationID = target,
     er_TargetType = '''', er_TargetID = 0, er_MinPriority = 5, er_DelayMinutes = 10,
     er_RepeatMinutes = 5, er_MaxRepeats = 2, er_Enabled = True, er_CreatedAt = zero_time, er_UpdatedAt = zero_time\<rparr>"

definition demo_env :: "unit engine_env" where
  "demo_env = \<lparr>
     CreateMessageOnce = (\<lambda>m w. (Inr (msg_DeduplicationKey m = '''', m\<lparr>msg_ID := 13\<rparr>), w)),
     DeleteMessageByID = (\<lambda>_ w. (Inr (), w)),
     GetMessageByID = (\<lambda>i _. Inr (demo_messages i)),
     GetApplicationByID = (\<lambda>i _. Inr (Some (demo_app i ''Channel''))),
     GetApplicationRecipientUserIDs = (\<lambda>_ _. Inr [1, 2, 2, 3]),
     GetApplicationMembership = (\<lambda>_ _ _. Inr None),
     GetQuietHoursPolicy = (\<lambda>_ _. Inr None),
     GetDigestPolicy = (\<lambda>_ _. Inr None),
     QueueDigestItem = (\<lambda>_ w. (Inr (), w)),
     GetDigestItems = (\<lambda>u _. Inr [digest_entry demo_root u]),
     DeleteDigestItems = (\<lambda>_ w. (Inr (), w)),
     GetDueDigestPolicies = (\<lambda>_ _. Inr []),
     SaveDigestPolicy = (\<lambda>_ w. (Inr (), w)),
     GetDueScheduledNotifications = (\<lambda>_ _. Inr []),
     SaveScheduledNotification = (\<lambda>_ w. (Inr (), w)),
     CreateScheduledNotificationRun = (\<lambda>r w. (Inr r, w)),
     SaveScheduledNotificationRun = (\<lambda>_ w. (Inr (), w)),
     GetEscalationRulesForMessage = (\<lambda>a _ _. Inr (if a = 9 then [demo_rule 1 7, demo_rule 2 8] else [])),
     GetEscalationRuleByID = (\<lambda>i _. Inr (Some (demo_rule i 8))),
     ResolveEscalationTargetApplication = (\<lambda>r w. (Inr (Some (demo_app (er_TargetApplicationID r) ''Channel'')), w)),
     QueueEscalation = (\<lambda>_ w. (Inr (), w)),
     GetDueEscalations = (\<lambda>_ _. Inr []),
     SaveEscalationState = (\<lambda>_ w. (Inr (), w)),
     IsMessageAcknowledged = (\<lambda>_ _. Inr False),
     QueueDeferredNotification = (\<lambda>_ _ w. (Inr (), w)),
     GetDeferredNotifications = (\<lambda>_. Inr []),
     DeleteDeferredNotification = (\<lambda>_ _ w. (Inr (), w)),
     GetOrCreateDigestApplication = (\<lambda>_ w. (Inr (demo_app 20 ''Notification Digest''), w)),
     TryAcquireAutomationLease = (\<lambda>_ _ _ _ w. (Inr True, w)),
     Notifier_Notify = (\<lambda>_ _ w. w),
     time_Now = (\<lambda>_. 0),
     json_Unmarshal = (\<lambda>_. Inl (Err ''json'')),
     zones = \<lparr>LoadLocation = (\<lambda>_. None), cron_Parse = (\<lambda>_. None)\<rparr>\<rparr>"

definition demo_engine :: "unit engine" where
  "demo_engine = \<lparr>en_world = (), en_hooks = [], en_instanceID = ''a'', en_trace = []\<rparr>"

lemma demo_env_simps:
  "CreateMessageOnce demo_env m1 w1 = (Inr (msg_DeduplicationKey m1 = '''', m1\<lparr>msg_ID := 13\<rparr>), w1)"
  "DeleteMessageByID demo_env x2_0 w2 = (Inr (), w2)"
  "GetMessageByID demo_env i3 x3_1 = Inr (demo_messages i3)"
  "GetApplicationByID demo_env i4 x4_1 = Inr (Some (demo_app i4 ''Channel''))"
  "GetApplicationRecipientUserIDs demo_env x5_0 x5_1 = Inr [1, 2, 2, 3]"
  "GetApplicationMembership demo_env x6_0 x6_1 x6_2 = Inr None"
  "GetQuietHoursPolicy demo_env x7_0 x7_1 = Inr None"
  "GetDigestPolicy demo_env x8_0 x8_1 = Inr None"
  "QueueDigestItem demo_env x9_0 w9 = (Inr (), w9)"
  "GetDigestItems demo_env u10 x10_1 = Inr [digest_entry demo_root u10]"
  "DeleteDigestItems demo_env x11_0 w11 = (Inr (), w11)"
  "GetDueDigestPolicies demo_env x12_0 x12_1 = Inr []"
  "SaveDigestPolicy demo_env x13_0 w13 = (Inr (), w13)"
  "GetDueScheduledNotifications demo_env x14_0 x14_1 = Inr []"
  "SaveScheduledNotification demo_env x15_0 w15 = (Inr (), w15)"
  "CreateScheduledNotificationRun demo_env r16 w16 = (Inr r16, w16)"
  "SaveScheduledNotificationRun demo_env x17_0 w17 = (Inr (), w17)"
  "GetEscalationRulesForMessage demo_env a18 x18_1 x18_2 = Inr (if a18 = 9 then [demo_rule 1 7, demo_rule 2 8] else [])"
  "GetEscalationRuleByID demo_env i19 x19_1 = Inr (Some (demo_rule i19 8))"
  "ResolveEscalationTargetApplication demo_env r20 w20 = (Inr (Some (demo_app (er_TargetApplicationID r20) ''Channel'')), w20)"
  "QueueEscalation demo_env x21_0 w21 = (Inr (), w21)"
  "GetDueEscalations demo_env x22_0 x22_1 = Inr []"
  "SaveEscalationState demo_env x23_0 w23 = (Inr (), w23)"
  "IsMessageAcknowledged demo_env x24_0 x24_1 = Inr False"
  "QueueDeferredNotification demo_env x25_0 x25_1 w25 = (Inr (), w25)"
  "GetDeferredNotifications demo_env x26_0 = Inr []"
  "DeleteDeferredNotification demo_env x27_0 x27_1 w27 = (Inr (), w27)"
  "GetOrCreateDigestApplication demo_env x28_0 w28 = (Inr (demo_app 20 ''Notification Digest''), w28)"
  "TryAcquireAutomationLease demo_env x29_0 x29_1 x29_2 x29_3 w29 = (Inr True, w29)"
  "Notifier_Notify demo_env x30_0 x30_1 w30 = w30"
  "time_Now demo_env x31_0 = 0"
  "json_Unmarshal demo_env x32_0 = Inl (Err ''json'')"
  unfolding demo_env_def engine_env.select_convs by (rule refl)+

lemma demo_message_simps:
  "msg_ID demo_sent = 12" "msg_SenderUserID demo_sent = 1" "msg_Extras demo_sent = []" "msg_ApplicationID demo_sent = 7"
  "msg_Date demo_sent = zero_time" "msg_DeduplicationKey demo_sent = ''''" "msg_Priority demo_sent = 0"
  "msg_ID demo_child = 11" "msg_ApplicationID demo_child = 9" "msg_EscalationDepth demo_child = 1"
  "msg_ParentMessageID demo_child = 10" "msg_ID demo_root = 10" "msg_ApplicationID demo_root = 7"
  "msg_EscalationDepth demo_root = 0" "msg_ParentMessageID demo_root = 0" "msg_Date demo_root = zero_time"
  "msg_Title demo_root = ''disk''" "msg_Priority demo_root = 8" "msg_RootMessageID demo_root = 0"
  "msg_EscalationDepth demo_sent = 0" "msg_ParentMessageID demo_sent = 0"
  "demo_messages 10 = Some demo_root"
  by (simp_all add: demo_sent_def demo_child_def demo_root_def new_message_def demo_messages_def)

lemma ran_demo_messages: "ran demo_messages = {demo_root, demo_child, demo_sent}"
  by (simp add: demo_messages_def ran_map_upd insert_commute)

lemma demo_engine_simps:
  "en_world demo_engine = ()" "en_trace demo_engine = []" "en_hooks demo_engine = []"
  by (simp_all add: demo_engine_def)

lemmas demo_simps = demo_env_simps demo_message_simps demo_engine_simps

lemma demo_turn: "turn demo_env msg external u w evs w' \<Longrightarrow> evs = [Notified u external]"
  by (erule turnE) (auto simp: demo_env_simps wants_digest_def wants_quiet_def)

lemma demo_turns: "turns demo_env msg external us w evs w' \<Longrightarrow> evs = map (\<lambda>u. Notified u external) us"
  by (induction rule: turns.induct) (auto dest: demo_turn)

theorem delivery_serves_each_once_witness:
  "\<exists>users. en_trace (snd (deliverStored demo_env demo_sent False demo_engine)) =
     map (\<lambda>u. Notified u (externalMessage demo_env demo_sent)) users @ [HooksRun demo_sent] \<and>
     distinct users \<and> set users = {2, 3 :: nat}"
proof -
  have "\<exists>external s'. deliverStored demo_env demo_sent False demo_engine = (Inr external, s')"
    by (simp add: deliverStored_def Let_def demo_simps mentionRecipientUserIDs_def)
  then obtain external s' where d: "deliverStored demo_env demo_sent False demo_engine = (Inr external, s')" by blast
  obtain recipients users evs w states
    where r: "GetApplicationRecipientUserIDs demo_env (msg_ApplicationID demo_sent) (en_world demo_engine) = Inr recipients"
      and ts: "turns demo_env demo_sent external users (en_world demo_engine) evs w"
      and t: "en_trace s' = en_trace demo_engine @ evs @ map EscalationQueued states @ [HooksRun demo_sent]"
      and e: "external = externalMessage demo_env demo_sent" and ds: "distinct users"
      and u: "set users = {u. (u \<in> set recipients \<or> msg_SenderUserID demo_sent \<noteq> 0 \<and>
          u \<in> set (mentionRecipientUserIDs demo_env demo_sent) \<and>
          (\<exists>m. GetApplicationMembership demo_env (msg_ApplicationID demo_sent) u (en_world demo_engine) = Inr (Some m))) \<and>
          (msg_SenderUserID demo_sent \<noteq> 0 \<longrightarrow> u \<noteq> msg_SenderUserID demo_sent)}"
      and st: "states \<noteq> [] \<longrightarrow> False"
    using delivery_serves_each_once [OF d] by (elim exE conjE) (rule that)
  have rs: "recipients = [1, 2, 2, 3]" using r by (simp add: demo_env_simps)
  have ms: "mentionRecipientUserIDs demo_env demo_sent = []"
    by (simp add: mentionRecipientUserIDs_def demo_message_simps)
  have "set users = {2, 3}" unfolding u rs ms demo_message_simps(2) by auto
  moreover have "en_trace (snd (deliverStored demo_env demo_sent False demo_engine)) =
      map (\<lambda>u. Notified u external) users @ [HooksRun demo_sent]"
    using t d st demo_turns [OF ts] by (simp add: demo_engine_simps)
  ultimately show ?thesis using ds e by blast
qed

theorem delivery_follows_policies_witness:
  "en_trace (deliver_loop demo_env demo_sent (externalMessage demo_env demo_sent) {} [1, 2, 2, 3] demo_engine) =
     [Notified 2 (externalMessage demo_env demo_sent), Notified 3 (externalMessage demo_env demo_sent)]"
  using delivery_follows_policies [of demo_env "\<lambda>_. None" "\<lambda>_. None" 0 demo_sent
      "externalMessage demo_env demo_sent" "[1, 2, 2, 3]" demo_engine]
  by (simp add: policy_outcome_def wants_digest_def wants_quiet_def demo_simps)

lemma demo_depths: "chain_depths demo_messages demo_child"
  by (simp add: chain_depths_def stored_parent_def demo_simps ran_demo_messages)

lemma demo_step: "stored_parent demo_messages m p \<longleftrightarrow> msg_ParentMessageID m \<noteq> 0 \<and>
    demo_messages (msg_ParentMessageID m) = Some p"
  by (simp add: stored_parent_def)

lemma demo_chain: "(stored_parent demo_messages)\<^sup>*\<^sup>* demo_child m \<longleftrightarrow> m = demo_child \<or> m = demo_root"
proof
  assume "(stored_parent demo_messages)\<^sup>*\<^sup>* demo_child m"
  then show "m = demo_child \<or> m = demo_root"
  proof induction
    case (step p m)
    then have "p = demo_child" by (auto simp: demo_step demo_message_simps)
    then show ?case using step.hyps(2) by (simp add: demo_step demo_message_simps)
  qed simp
next
  have "stored_parent demo_messages demo_child demo_root"
    by (simp add: demo_step demo_message_simps)
  then show "(stored_parent demo_messages)\<^sup>*\<^sup>* demo_child m" if "m = demo_child \<or> m = demo_root" using that by auto
qed

lemma demo_rule_simps:
  "channel_rule (demo_rule i target)" "target \<noteq> 0 \<Longrightarrow> rule_target (demo_rule i target) = target"
proof -
  show "channel_rule (demo_rule i target)" by (simp add: channel_rule_def demo_rule_def strings_ToLower_def)
qed (simp add: rule_target_def demo_rule_def)

lemma demo_chain_apps:
  "(\<exists>m. (stored_parent demo_messages)\<^sup>*\<^sup>* demo_child m \<and> msg_ApplicationID m = a) \<longleftrightarrow> a = 9 \<or> a = 7"
  by (auto simp: demo_chain demo_message_simps)

theorem escalations_queued_exactly_witness:
  "en_trace (snd (queueEscalations demo_env demo_child demo_engine)) =
     [EscalationQueued (queued_state 0 demo_child (demo_rule 2 8))]"
  by (subst escalations_queued_exactly [OF _ _ _ _ demo_depths, where rules = "[demo_rule 1 7, demo_rule 2 8]" and t = 0])
    (simp_all add: demo_env_simps demo_message_simps demo_engine_simps demo_rule_simps demo_chain_apps)

theorem duplicate_delivers_nothing_witness:
  "en_trace (snd (StoreAndDeliver demo_env (demo_root\<lparr>msg_DeduplicationKey := ''k''\<rparr>) demo_engine)) = []"
  using duplicate_delivers_nothing [of demo_env "demo_root\<lparr>msg_DeduplicationKey := ''k''\<rparr>" demo_engine _ "()" True]
  by (simp add: StoreAndDeliver_def dated_def demo_simps)

theorem failed_preparation_delivers_nothing_witness:
  "en_trace (snd (StorePreparedAndDeliver demo_env demo_sent (Some (\<lambda>_ w. (Inl (Err ''disk full''), w))) demo_engine)) =
     [Stored (dated demo_env demo_sent demo_engine\<lparr>msg_ID := 13\<rparr>)]"
  using failed_preparation_delivers_nothing [of demo_env demo_sent demo_engine _ "()"
      "\<lambda>_ w. (Inl (Err ''disk full''), w)" "Err ''disk full''" "()"]
  by (simp add: dated_def demo_simps)

end
