(* ===== verification/Due.thy ===== *)
theory Due
  imports Delivery
begin

text \<open>
  The work of the scheduler of \<open>src/automation/engine.go\<close>: schedules, digests, deferred notifications
  and escalations that are due (\<open>runSchedules\<close>, \<open>runDigests\<close>, \<open>runDeferred\<close>,
  \<open>runEscalations\<close>, \<open>runDue\<close>). One round of each loop is a function on the state of the
  engine, and the loop folds it over the items read from the database.
\<close>

section \<open>Schedules\<close>

text \<open>\<open>err.Error()\<close>; a panic ends the process and has no text.\<close>

fun fail_Error :: "fail \<Rightarrow> string" where
  "fail_Error (Err m) = m"
| "fail_Error Panic = ''''"

definition schedule_for :: "time \<Rightarrow> scheduled_notification \<Rightarrow> time" where
  "schedule_for now item = (case sch_NextRunAt item of Some t \<Rightarrow> t | None \<Rightarrow> now)"

definition schedule_key :: "nat \<Rightarrow> time \<Rightarrow> string" where
  "schedule_key i t = ''schedule:'' @ show_nat i @ '':'' @ show_int t"

definition new_run :: "time \<Rightarrow> scheduled_notification \<Rightarrow> scheduled_notification_run" where
  "new_run now item = \<lparr>run_ID = 0, run_ScheduleID = sch_ID item, run_ScheduledFor = schedule_for now item,
     run_StartedAt = now, run_FinishedAt = None, run_Status = ''running'', run_MessageID = 0, run_Error = ''''\<rparr>"

text \<open>The assignments of \<open>NextRunAt\<close> and \<open>Enabled\<close> that follow a run or a skipped run.\<close>

definition advance :: "zone_env \<Rightarrow> time \<Rightarrow> scheduled_notification \<Rightarrow> scheduled_notification" where
  "advance z t item =
     (let item = item\<lparr>sch_NextRunAt := NextScheduleRun z item (t + second)\<rparr>
      in if sch_NextRunAt item = None then item\<lparr>sch_Enabled := False\<rparr> else item)"

definition schedule_message :: "time \<Rightarrow> scheduled_notification \<Rightarrow> message" where
  "schedule_message now item = new_message\<lparr>msg_ApplicationID := sch_ApplicationID item,
     msg_Title := sch_Title item, msg_Message := sch_Message item, msg_Priority := sch_Priority item,
     msg_Date := now, msg_DeduplicationKey := schedule_key (sch_ID item) (schedule_for now item)\<rparr>"

definition save_run :: "'w engine_env \<Rightarrow> scheduled_notification_run \<Rightarrow> 'w engine \<Rightarrow> 'w engine" where
  "save_run env run s = snd (call [RunSaved run] (SaveScheduledNotificationRun env run) s)"

definition save_schedule :: "'w engine_env \<Rightarrow> scheduled_notification \<Rightarrow> 'w engine \<Rightarrow> 'w engine" where
  "save_schedule env item s = snd (call [ScheduleSaved item] (SaveScheduledNotification env item) s)"

definition misfired :: "time \<Rightarrow> scheduled_notification \<Rightarrow> bool" where
  "misfired now item \<longleftrightarrow>
     (let policy = strings_ToLower (strings_TrimSpace (sch_MisfirePolicy item));
          policy = (if policy = '''' then ''send'' else policy)
      in policy = ''skip'' \<and> time_Sub now (schedule_for now item) > 5 * minute)"

text \<open>One round of the loop of \<open>runSchedules\<close>.\<close>

definition run_schedule :: "'w engine_env \<Rightarrow> time \<Rightarrow> scheduled_notification \<Rightarrow> 'w engine \<Rightarrow> 'w engine" where
  "run_schedule env now item s =
     (let scheduledFor = schedule_for now item in
      case call [] (CreateScheduledNotificationRun env (new_run now item)) s of
        (Inl _, s) \<Rightarrow> s
      | (Inr run, s) \<Rightarrow>
          if misfired now item then
            save_schedule env
              (advance (zones env) scheduledFor (item\<lparr>sch_LastStatus := ''skipped'', sch_LastError := ''''\<rparr>))
              (save_run env (run\<lparr>run_Status := ''skipped'', run_FinishedAt := Some now\<rparr>) s)
          else
            case storeAndDeliver env (schedule_message now item) True s of
              (Inl e, s) \<Rightarrow>
                let run = run\<lparr>run_FinishedAt := Some (now_of env s), run_Status := ''failed'',
                      run_Error := fail_Error e\<rparr>;
                    item = item\<lparr>sch_LastStatus := ''failed'', sch_LastError := fail_Error e,
                      sch_NextRunAt := Some (now + minute)\<rparr>
                in save_schedule env item (save_run env run s)
            | (Inr (_, external), s) \<Rightarrow>
                let run = run\<lparr>run_FinishedAt := Some (now_of env s), run_Status := ''completed'',
                      run_MessageID := mx_ID external\<rparr>;
                    s = save_run env run s;
                    item = item\<lparr>sch_LastRunAt := Some now, sch_RunCount := wrap64 (sch_RunCount item + 1),
                      sch_LastStatus := ''completed'', sch_LastError := ''''\<rparr>
                in save_schedule env
                     (if sch_ScheduleType item = ''once'' \<or>
                         (sch_MaxRuns item > 0 \<and> sch_RunCount item \<ge> sch_MaxRuns item)
                      then item\<lparr>sch_Enabled := False, sch_NextRunAt := None\<rparr>
                      else advance (zones env) scheduledFor item) s)"

definition runSchedules :: "'w engine_env \<Rightarrow> time \<Rightarrow> 'w engine \<Rightarrow> 'w engine" where
  "runSchedules env now s =
     (case GetDueScheduledNotifications env now (en_world s) of
        Inl _ \<Rightarrow> s
      | Inr items \<Rightarrow> fold (run_schedule env now) items s)"

section \<open>Digests\<close>

definition digest_line :: "digest_item \<Rightarrow> string" where
  "digest_line item =
     (let line = di_Title item;
          line = (if strings_TrimSpace line = '''' then di_Message item else line);
          line = (if length line > 120 then take 117 line @ ''...'' else line)
      in [CHR 0xE2, CHR 0x80, CHR 0xA2, CHR '' ''] @ line)"

definition strings_Join :: "string list \<Rightarrow> string \<Rightarrow> string" where
  "strings_Join ss sep = (case ss of [] \<Rightarrow> '''' | x # xs \<Rightarrow> x @ concat (map (\<lambda>y. sep @ y) xs))"

definition digest_key :: "nat \<Rightarrow> time \<Rightarrow> string" where
  "digest_key userID t = ''digest:'' @ show_nat userID @ '':'' @ show_int t"

definition digest_highest :: "digest_item list \<Rightarrow> int" where
  "digest_highest items = fold (\<lambda>item h. if di_Priority item > h then di_Priority item else h) items 0"

definition digest_summary :: "time \<Rightarrow> digest_policy \<Rightarrow> nat \<Rightarrow> digest_item list \<Rightarrow> message" where
  "digest_summary now policy appID items =
     new_message\<lparr>msg_ApplicationID := appID,
       msg_Title := show_nat (length items) @ '' notification digest'',
       msg_Message := strings_Join (map digest_line items) [CHR 0x0A],
       msg_Priority := digest_highest items, msg_Date := now,
       msg_DeduplicationKey := digest_key (dp_UserID policy)
         (case dp_NextRunAt policy of Some t \<Rightarrow> t | None \<Rightarrow> now)\<rparr>"

text \<open>Tells the user of a new summary, unless quiet hours defer or drop it.\<close>

definition announce_digest ::
  "'w engine_env \<Rightarrow> time \<Rightarrow> nat \<Rightarrow> int \<Rightarrow> message \<Rightarrow> 'w engine \<Rightarrow> 'w engine" where
  "announce_digest env now userID highest summary s =
     (case GetQuietHoursPolicy env userID (en_world s) of
        Inl _ \<Rightarrow> s
      | Inr quiet \<Rightarrow>
          if (case quiet of None \<Rightarrow> True
              | Some q \<Rightarrow> \<not> qh_Enabled q \<or> highest \<ge> qh_AllowPriority q \<or> \<not> quietNow (zones env) q now)
          then notify env userID (externalMessage env summary) s
          else if (case quiet of None \<Rightarrow> False | Some q \<Rightarrow> strings_EqualFold (qh_Mode q) ''defer'')
          then snd (call [DeferredQueued userID (msg_ID summary)]
                      (QueueDeferredNotification env userID (msg_ID summary)) s)
          else s)"

text \<open>The items of a policy become one message and are deleted; \<open>False\<close> where the code continues with the next policy.\<close>

definition send_digest ::
  "'w engine_env \<Rightarrow> time \<Rightarrow> digest_policy \<Rightarrow> digest_item list \<Rightarrow> 'w engine \<Rightarrow> bool \<times> 'w engine" where
  "send_digest env now policy items s =
     (if items = [] then (True, s)
      else case call [] (GetOrCreateDigestApplication env (dp_UserID policy)) s of
        (Inl _, s) \<Rightarrow> (False, s)
      | (Inr app, s) \<Rightarrow>
          case create_once env (digest_summary now policy (app_ID app) items) s of
            (Inl _, s) \<Rightarrow> (False, s)
          | (Inr (created, summary), s) \<Rightarrow>
              let s = (if created
                       then announce_digest env now (dp_UserID policy) (digest_highest items) summary s else s) in
              case call [DigestCleared (dp_UserID policy)] (DeleteDigestItems env (dp_UserID policy)) s of
                (Inl _, s) \<Rightarrow> (False, s)
              | (Inr _, s) \<Rightarrow> (True, s))"

definition run_digest :: "'w engine_env \<Rightarrow> time \<Rightarrow> digest_policy \<Rightarrow> 'w engine \<Rightarrow> 'w engine" where
  "run_digest env now policy s =
     (case GetDigestItems env (dp_UserID policy) (en_world s) of
        Inl _ \<Rightarrow> s
      | Inr items \<Rightarrow>
          let (go_on, s) = send_digest env now policy items s in
          if \<not> go_on then s
          else
            let interval = (if dp_IntervalMinutes policy < 15 then 15 else dp_IntervalMinutes policy);
                policy = policy\<lparr>dp_LastSentAt := Some now, dp_NextRunAt := Some (now + wrap64 (interval * minute))\<rparr>
            in snd (call [DigestSaved policy] (SaveDigestPolicy env policy) s))"

definition runDigests :: "'w engine_env \<Rightarrow> time \<Rightarrow> 'w engine \<Rightarrow> 'w engine" where
  "runDigests env now s =
     (case GetDueDigestPolicies env now (en_world s) of
        Inl _ \<Rightarrow> s
      | Inr policies \<Rightarrow> fold (run_digest env now) policies s)"

section \<open>Deferred notifications\<close>

definition run_deferred :: "'w engine_env \<Rightarrow> time \<Rightarrow> deferred_notification \<Rightarrow> 'w engine \<Rightarrow> 'w engine" where
  "run_deferred env now item s =
     (case GetQuietHoursPolicy env (dn_UserID item) (en_world s) of
        Inl _ \<Rightarrow> s
      | Inr quiet \<Rightarrow>
          if (case quiet of None \<Rightarrow> False | Some q \<Rightarrow> qh_Enabled q \<and> quietNow (zones env) q now) then s
          else case GetMessageByID env (dn_MessageID item) (en_world s) of
            Inl _ \<Rightarrow> s
          | Inr msg \<Rightarrow>
              let s = (case msg of None \<Rightarrow> s | Some m \<Rightarrow> notify env (dn_UserID item) (externalMessage env m) s)
              in snd (call [DeferredCleared (dn_UserID item) (dn_MessageID item)]
                        (DeleteDeferredNotification env (dn_UserID item) (dn_MessageID item)) s))"

definition runDeferred :: "'w engine_env \<Rightarrow> time \<Rightarrow> 'w engine \<Rightarrow> 'w engine" where
  "runDeferred env now s =
     (case GetDeferredNotifications env (en_world s) of
        Inl _ \<Rightarrow> s
      | Inr items \<Rightarrow> fold (run_deferred env now) items s)"

section \<open>Escalations\<close>

definition save_escalation :: "'w engine_env \<Rightarrow> escalation_state \<Rightarrow> 'w engine \<Rightarrow> 'w engine" where
  "save_escalation env st s = snd (call [EscalationSaved st] (SaveEscalationState env st) s)"

definition completed_at :: "time \<Rightarrow> escalation_state \<Rightarrow> escalation_state" where
  "completed_at now st = st\<lparr>es_Completed := True, es_DoneAt := Some now\<rparr>"

definition escalation_key :: "nat \<Rightarrow> int \<Rightarrow> string" where
  "escalation_key i n = ''escalation:'' @ show_nat i @ '':'' @ show_int n"

definition root_id :: "message \<Rightarrow> nat" where
  "root_id source = (if msg_RootMessageID source = 0 then msg_ID source else msg_RootMessageID source)"

definition escalated_message ::
  "time \<Rightarrow> message \<Rightarrow> escalation_rule \<Rightarrow> nat \<Rightarrow> escalation_state \<Rightarrow> message" where
  "escalated_message now source rule targetID st =
     new_message\<lparr>msg_ApplicationID := targetID,
       msg_Title := (if msg_Title source = '''' then ''Escalated notification'' else ''Escalated: '' @ msg_Title source),
       msg_Message := msg_Message source @ [CHR 0x0A, CHR 0x0A] @
         ''This notification was escalated because it was not acknowledged.'',
       msg_Priority := msg_Priority source, msg_Date := now, msg_ParentMessageID := msg_ID source,
       msg_RootMessageID := root_id source, msg_EscalationRuleID := er_ID rule,
       msg_EscalationDepth := wrap64 (msg_EscalationDepth source + 1),
       msg_DeduplicationKey := escalation_key (es_ID st) (es_RepeatCount st)\<rparr>"

text \<open>The state of an escalation after its message went out.\<close>

definition escalated_state :: "time \<Rightarrow> escalation_rule \<Rightarrow> nat \<Rightarrow> escalation_state \<Rightarrow> escalation_state" where
  "escalated_state now rule messageID st =
     (let st = st\<lparr>es_LastEscalatedMessageID := messageID, es_RepeatCount := wrap64 (es_RepeatCount st + 1)\<rparr> in
      if er_RepeatMinutes rule > 0 \<and> es_RepeatCount st \<le> er_MaxRepeats rule
      then st\<lparr>es_DueAt := now + wrap64 (er_RepeatMinutes rule * minute), es_Completed := False, es_DoneAt := None\<rparr>
      else completed_at now st)"

definition source_acknowledged :: "'w engine_env \<Rightarrow> message \<Rightarrow> 'w \<Rightarrow> bool res" where
  "source_acknowledged env source w =
     res_bind (IsMessageAcknowledged env (msg_ID source) w) (\<lambda>acknowledged.
       if root_id source \<noteq> msg_ID source \<and> \<not> acknowledged
       then IsMessageAcknowledged env (root_id source) w else Inr acknowledged)"

definition run_escalation :: "'w engine_env \<Rightarrow> time \<Rightarrow> escalation_state \<Rightarrow> 'w engine \<Rightarrow> 'w engine" where
  "run_escalation env now st s =
     (case GetMessageByID env (es_MessageID st) (en_world s) of
        Inl _ \<Rightarrow> save_escalation env (completed_at now st) s
      | Inr None \<Rightarrow> save_escalation env (completed_at now st) s
      | Inr (Some source) \<Rightarrow>
          case source_acknowledged env source (en_world s) of
            Inl _ \<Rightarrow> s
          | Inr True \<Rightarrow> save_escalation env (completed_at now st) s
          | Inr False \<Rightarrow>
              case GetEscalationRuleByID env (es_RuleID st) (en_world s) of
                Inl _ \<Rightarrow> save_escalation env (completed_at now st) s
              | Inr None \<Rightarrow> save_escalation env (completed_at now st) s
              | Inr (Some rule) \<Rightarrow>
                  if \<not> er_Enabled rule then save_escalation env (completed_at now st) s
                  else case call [] (ResolveEscalationTargetApplication env rule) s of
                    (Inl _, s) \<Rightarrow> s
                  | (Inr None, s) \<Rightarrow> s
                  | (Inr (Some target), s) \<Rightarrow>
                      case storeAndDeliver env (escalated_message now source rule (app_ID target) st)
                             (es_RepeatCount st = 0) s of
                        (Inl _, s) \<Rightarrow> s
                      | (Inr (_, external), s) \<Rightarrow>
                          save_escalation env (escalated_state now rule (mx_ID external) st) s)"

definition runEscalations :: "'w engine_env \<Rightarrow> time \<Rightarrow> 'w engine \<Rightarrow> 'w engine" where
  "runEscalations env now s =
     (case GetDueEscalations env now (en_world s) of
        Inl _ \<Rightarrow> s
      | Inr states \<Rightarrow> fold (run_escalation env now) states s)"

section \<open>The scheduler\<close>

definition runDue :: "'w engine_env \<Rightarrow> time \<Rightarrow> 'w engine \<Rightarrow> 'w engine" where
  "runDue env now s = runDeferred env now (runEscalations env now (runDigests env now (runSchedules env now s)))"

definition scheduler_run :: "'w engine_env \<Rightarrow> time \<Rightarrow> 'w engine \<Rightarrow> 'w engine" where
  "scheduler_run env now s =
     (case call [] (TryAcquireAutomationLease env ''scheduler'' (en_instanceID s) now (25 * second)) s of
        (Inr True, s) \<Rightarrow> runDue env now s
      | (_, s) \<Rightarrow> s)"

section \<open>Deduplication keys\<close>

lemma show_int_inj: "show_int i = show_int j \<longleftrightarrow> i = j"
proof -
  have "CHR ''-'' # s \<noteq> show_nat n" for s n
  proof
    assume "CHR ''-'' # s = show_nat n"
    then have "CHR ''-'' \<in> set (show_nat n)" by (metis list.set_intros(1))
    then show False using show_nat_decimal [of n] by (auto simp: list_all_iff decimal_def byte_in_def)
  qed
  then show ?thesis by (auto simp: show_int_def show_nat_inj; metis)
qed

lemma colon_not_digit: "CHR '':'' \<notin> set (show_nat n)"
  using show_nat_decimal [of n] by (auto simp: list_all_iff decimal_def byte_in_def)

lemma split_at_colon:
  assumes "xs @ CHR '':'' # ys = xs' @ CHR '':'' # ys'" "CHR '':'' \<notin> set xs" "CHR '':'' \<notin> set xs'"
  shows "xs = xs' \<and> ys = ys'"
  using assms by (induction xs arbitrary: xs') (auto simp: Cons_eq_append_conv)

lemma numbered_key_inj:
  "show_nat i @ '':'' @ show_int t = show_nat j @ '':'' @ show_int u \<longleftrightarrow> i = j \<and> t = u"
  using split_at_colon [OF _ colon_not_digit colon_not_digit, of i "show_int t" j "show_int u"]
  by (auto simp: show_nat_inj show_int_inj)

text \<open>
  The deduplication keys of the scheduler separate what they are meant to separate: two runs
  of schedules, two digests or two rounds of escalations have the same key only when the schedule and its
  time, the user and the run, or the escalation and its round are the same.
\<close>

theorem deduplication_keys_distinct:
  "inj (\<lambda>(i, t). schedule_key i t) \<and> inj (\<lambda>(i, t). digest_key i t) \<and> inj (\<lambda>(i, n). escalation_key i n)"
  by (auto simp: inj_def schedule_key_def digest_key_def escalation_key_def numbered_key_inj simp del: append.simps)

section \<open>How long an escalation goes on\<close>

definition escalation_rounds :: "escalation_rule \<Rightarrow> nat" where
  "escalation_rounds rule = (if er_RepeatMinutes rule > 0 then nat (er_MaxRepeats rule) else 0) + 1"

fun escalate_times :: "nat \<Rightarrow> (nat \<Rightarrow> time) \<Rightarrow> (nat \<Rightarrow> nat) \<Rightarrow> escalation_rule \<Rightarrow> escalation_state \<Rightarrow> escalation_state" where
  "escalate_times 0 now ids rule st = st"
| "escalate_times (Suc n) now ids rule st = escalated_state (now n) rule (ids n) (escalate_times n now ids rule st)"

lemma escalate_times_count:
  assumes "es_RepeatCount st = 0" "int n < 2 ^ 63"
  shows "es_RepeatCount (escalate_times n now ids rule st) = int n"
  using assms(2)
proof (induction n)
  case (Suc n)
  then show ?case
    by (simp add: escalated_state_def completed_at_def Let_def wrap64_id min_int64_def max_int64_def)
qed (simp add: assms)

text \<open>
  Property C30. An escalation ends: with a rule that stays as it is, an escalation is complete after
  exactly one message and \<open>MaxRepeats\<close> repetitions (none without a repeat interval), never before.
\<close>

theorem escalation_ends:
  assumes "es_RepeatCount st = 0" "\<not> es_Completed st" "er_MaxRepeats rule < 2 ^ 63 - 1"
    and "n \<le> escalation_rounds rule"
  shows "es_Completed (escalate_times n now ids rule st) \<longleftrightarrow> n = escalation_rounds rule"
proof -
  have state: "es_Completed (escalate_times (Suc n) now ids rule st) \<longleftrightarrow>
      \<not> (er_RepeatMinutes rule > 0 \<and> int (Suc n) \<le> er_MaxRepeats rule)" if "int (Suc n) < 2 ^ 63" for n
    using escalate_times_count [OF assms(1), of n now ids rule] that
    by (simp add: escalated_state_def completed_at_def Let_def wrap64_id min_int64_def max_int64_def add.commute)
  have bound: "int (escalation_rounds rule) < 2 ^ 63" using assms(3) by (auto simp: escalation_rounds_def)
  show ?thesis
  proof (cases n)
    case 0
    then show ?thesis using assms(2) by (simp add: escalation_rounds_def)
  next
    case (Suc k)
    then have "int (Suc k) < 2 ^ 63" using bound assms(4) by linarith
    then show ?thesis using state [of k] Suc assms(4)
      by (auto simp: escalation_rounds_def split: if_splits simp del: escalate_times.simps)
  qed
qed

theorem escalation_ends_witness:
  "es_Completed (escalate_times 3 (\<lambda>_. 0) (\<lambda>_. 1) (demo_rule 1 8) (queued_state 0 demo_child (demo_rule 1 8)))"
proof -
  have "escalation_rounds (demo_rule 1 8) = 3" by (simp add: escalation_rounds_def demo_rule_def)
  then show ?thesis
    using escalation_ends [of "queued_state 0 demo_child (demo_rule 1 8)" "demo_rule 1 8" 3 "\<lambda>_. 0" "\<lambda>_. 1"]
    by (simp add: queued_state_def demo_rule_def)
qed

section \<open>What the rounds leave behind\<close>

fun is_delivery :: "event \<Rightarrow> bool" where
  "is_delivery (Stored _) = True"
| "is_delivery (Notified _ _) = True"
| "is_delivery (DigestQueued _) = True"
| "is_delivery (DeferredQueued _ _) = True"
| "is_delivery (EscalationQueued _) = True"
| "is_delivery (HooksRun _) = True"
| "is_delivery _ = False"

definition adds_deliveries :: "'w engine \<Rightarrow> 'w engine \<Rightarrow> bool" where
  "adds_deliveries s s' \<longleftrightarrow> (\<exists>evs. en_trace s' = en_trace s @ evs \<and> list_all is_delivery evs)"

lemma adds_deliveries_refl [simp]: "adds_deliveries s s"
  by (simp add: adds_deliveries_def)

lemma adds_deliveries_trans: "adds_deliveries s s' \<Longrightarrow> adds_deliveries s' s'' \<Longrightarrow> adds_deliveries s s''"
  by (auto simp: adds_deliveries_def)

lemma adds_deliveriesI: "en_trace s' = en_trace s @ evs \<Longrightarrow> list_all is_delivery evs \<Longrightarrow> adds_deliveries s s'"
  by (auto simp: adds_deliveries_def)

lemma turn_deliveries: "turn env msg external u w evs w' \<Longrightarrow> list_all is_delivery evs"
  by (erule turnE) auto

lemma serve_all_deliveries: "adds_deliveries s (fold (serve env msg external) us s)"
proof (induction us arbitrary: s)
  case (Cons u us)
  have "adds_deliveries s (serve env msg external u s)"
    using serve_turn [of env msg external u s] turn_deliveries by (auto simp: adds_deliveries_def)
  then show ?case using Cons adds_deliveries_trans by fastforce
qed simp

lemma deliverStored_deliveries: "adds_deliveries s (snd (deliverStored env msg allow s))"
proof -
  have q: "adds_deliveries s (snd (queueEscalations env msg s))" for s
    using queueEscalations_trace [of env msg s] by (auto simp: adds_deliveries_def list_all_iff)
  have h: "adds_deliveries s (runPostStoreHooks msg s)" for s
    by (auto simp: adds_deliveries_def runPostStoreHooks_def)
  have "adds_deliveries s (runPostStoreHooks msg
      (if allow then snd (queueEscalations env msg (fold (serve env msg external) us s))
       else fold (serve env msg external) us s))" for external us
    using h q serve_all_deliveries adds_deliveries_trans by (cases allow) (simp_all, blast+)
  then show ?thesis
    by (simp add: deliverStored_def Let_def deliver_loop_fold split: sum.split)
qed

lemma create_once_deliveries: "adds_deliveries s (snd (create_once env msg s))"
  by (auto simp: create_once_def call_def adds_deliveries_def split: prod.split sum.split bool.split)

lemma storeAndDeliver_deliveries: "adds_deliveries s (snd (storeAndDeliver env msg allow s))"
proof -
  obtain r s1 where c: "create_once env (dated env msg s) s = (r, s1)" by (cases "create_once env (dated env msg s) s")
  then have "adds_deliveries s s1" using create_once_deliveries [of s env "dated env msg s"] by simp
  moreover have "snd (storeAndDeliver env msg allow s) =
      (case r of Inl e \<Rightarrow> s1 | Inr (created, m) \<Rightarrow> if created then snd (deliverStored env m allow s1) else s1)"
    by (simp add: storeAndDeliver_def c split: sum.split prod.split)
  moreover have "adds_deliveries s (snd (deliverStored env m allow s1))" if "adds_deliveries s s1" for m
    using adds_deliveries_trans [OF that deliverStored_deliveries] .
  ultimately show ?thesis by (simp split: sum.split prod.split)
qed

lemma advance_simps [simp]:
  "sch_RunCount (advance z t item) = sch_RunCount item" "sch_MaxRuns (advance z t item) = sch_MaxRuns item"
  "sch_LastStatus (advance z t item) = sch_LastStatus item" "sch_ID (advance z t item) = sch_ID item"
  "sch_NextRunAt (advance z t item) = NextScheduleRun z item (t + second)"
  "sch_Enabled (advance z t item) \<longleftrightarrow> sch_Enabled item \<and> NextScheduleRun z item (t + second) \<noteq> None"
  by (auto simp: advance_def Let_def)

text \<open>What an enabled schedule satisfies between two runs.\<close>

definition schedule_ok :: "scheduled_notification \<Rightarrow> bool" where
  "schedule_ok item \<longleftrightarrow> (sch_Enabled item \<longrightarrow> sch_NextRunAt item \<noteq> None \<and>
     (0 < sch_MaxRuns item \<longrightarrow> sch_RunCount item < sch_MaxRuns item))"

definition run_recorded ::
  "time \<Rightarrow> scheduled_notification \<Rightarrow> scheduled_notification_run \<Rightarrow> scheduled_notification \<Rightarrow> bool" where
  "run_recorded now item run item' \<longleftrightarrow>
     run_FinishedAt run \<noteq> None \<and> run_Status run = sch_LastStatus item' \<and>
     run_Status run \<in> {''skipped'', ''failed'', ''completed''} \<and>
     (run_Status run = ''skipped'' \<longleftrightarrow> misfired now item) \<and>
     sch_RunCount item' = sch_RunCount item + (if run_Status run = ''completed'' then 1 else 0) \<and>
     sch_ID item' = sch_ID item \<and> sch_MaxRuns item' = sch_MaxRuns item \<and> schedule_ok item'"

lemma save_traces [simp]:
  "en_trace (save_run env run s) = en_trace s @ [RunSaved run]"
  "en_trace (save_schedule env item s) = en_trace s @ [ScheduleSaved item]"
  "en_trace (save_escalation env st s) = en_trace s @ [EscalationSaved st]"
  by (simp_all add: save_run_def save_schedule_def save_escalation_def)

text \<open>
  Property C27. Every run of a due schedule ends with a finished history entry and the saved schedule,
  which agree on the outcome; a late run is skipped without a delivery exactly when the policy asks for
  it; the run counter counts the completed runs; and the saved schedule, if still enabled, has a next
  run and runs left.
\<close>

theorem schedule_run_recorded:
  assumes "CreateScheduledNotificationRun env (new_run now item) (en_world s) = (Inr run, w)"
    and "schedule_ok item" "sch_Enabled item" "- (2 ^ 63) \<le> sch_RunCount item" "sch_RunCount item < 2 ^ 63 - 1"
  shows "\<exists>evs run' item'. en_trace (run_schedule env now item s) = en_trace s @ evs @ [RunSaved run', ScheduleSaved item'] \<and>
     list_all is_delivery evs \<and> (misfired now item \<longrightarrow> evs = []) \<and> run_recorded now item run' item'"
proof (cases "misfired now item")
  case True
  then show ?thesis using assms
    by (simp add: run_schedule_def call_def) (simp add: run_recorded_def schedule_ok_def)
next
  case False
  define s1 where "s1 = s\<lparr>en_world := w\<rparr>"
  obtain r s2 where d: "storeAndDeliver env (schedule_message now item) True s1 = (r, s2)"
    by (cases "storeAndDeliver env (schedule_message now item) True s1")
  obtain evs where evs: "en_trace s2 = en_trace s @ evs" "list_all is_delivery evs"
    using storeAndDeliver_deliveries [of s1 env "schedule_message now item" True] d
    by (auto simp: adds_deliveries_def s1_def)
  have count: "wrap64 (sch_RunCount item + 1) = sch_RunCount item + 1"
    using assms(4,5) by (simp add: wrap64_id min_int64_def max_int64_def)
  have run: "run_schedule env now item s =
     (case r of
        Inl e \<Rightarrow> save_schedule env (item\<lparr>sch_LastStatus := ''failed'', sch_LastError := fail_Error e,
            sch_NextRunAt := Some (now + minute)\<rparr>)
          (save_run env (run\<lparr>run_FinishedAt := Some (now_of env s2), run_Status := ''failed'',
            run_Error := fail_Error e\<rparr>) s2)
      | Inr (m, external) \<Rightarrow>
          let s3 = save_run env (run\<lparr>run_FinishedAt := Some (now_of env s2), run_Status := ''completed'',
                run_MessageID := mx_ID external\<rparr>) s2;
              item' = item\<lparr>sch_LastRunAt := Some now, sch_RunCount := sch_RunCount item + 1,
                sch_LastStatus := ''completed'', sch_LastError := ''''\<rparr>
          in save_schedule env
               (if sch_ScheduleType item = ''once'' \<or> (sch_MaxRuns item > 0 \<and> sch_RunCount item + 1 \<ge> sch_MaxRuns item)
                then item'\<lparr>sch_Enabled := False, sch_NextRunAt := None\<rparr>
                else advance (zones env) (schedule_for now item) item') s3)"
    using False assms(1) d count by (simp add: run_schedule_def call_def s1_def Let_def split: sum.split prod.split)
  show ?thesis
  proof (cases r)
    case (Inl e)
    then show ?thesis using run evs False assms(2) by (auto simp: run_recorded_def schedule_ok_def)
  next
    case (Inr p)
    obtain m external where p: "p = (m, external)" by (cases p)
    show ?thesis
      using run evs False assms(2,3) unfolding Inr p
      by (auto simp: run_recorded_def schedule_ok_def Let_def)
  qed
qed

text \<open>
  Property C36. When the message of a scheduled run was stored but its delivery failed, the retry has
  another deduplication key for every time it may run: the stored message is never found again and a
  second one is stored.
\<close>

theorem failed_schedule_duplicates:
  assumes "CreateScheduledNotificationRun env (new_run now item) (en_world s) = (Inr run, w)"
    and "\<not> misfired now item" "sch_NextRunAt item = Some t" "t \<noteq> now + minute"
    and "CreateMessageOnce env (dated env (schedule_message now item) (s\<lparr>en_world := w\<rparr>)) w = (Inr (True, m), w1)"
    and "GetApplicationRecipientUserIDs env (msg_ApplicationID m) w1 = Inl e"
  shows "\<exists>run' item'. en_trace (run_schedule env now item s) = en_trace s @ [Stored m, RunSaved run', ScheduleSaved item'] \<and>
     (\<forall>later. msg_DeduplicationKey (schedule_message later item') \<noteq> msg_DeduplicationKey (schedule_message now item))"
proof -
  have "storeAndDeliver env (schedule_message now item) True (s\<lparr>en_world := w\<rparr>) =
      (Inl e, s\<lparr>en_world := w1, en_trace := en_trace s @ [Stored m]\<rparr>)"
    using assms(5,6) by (simp add: storeAndDeliver_def create_once_def call_def deliverStored_def)
  then have "en_trace (run_schedule env now item s) = en_trace s @ [Stored m,
      RunSaved (run\<lparr>run_FinishedAt := Some (time_Now env w1), run_Status := ''failed'', run_Error := fail_Error e\<rparr>),
      ScheduleSaved (item\<lparr>sch_LastStatus := ''failed'', sch_LastError := fail_Error e, sch_NextRunAt := Some (now + minute)\<rparr>)]"
    using assms(1,2) by (simp add: run_schedule_def call_def Let_def now_of_def)
  then show ?thesis using assms(3,4)
    by (auto simp: schedule_message_def schedule_for_def schedule_key_def numbered_key_inj simp del: append.simps)
qed

definition demo_schedule :: scheduled_notification where
  "demo_schedule = \<lparr>sch_ID = 3, sch_Name = ''report'', sch_ApplicationID = 7, sch_Title = ''Report'',
     sch_Message = ''due'', sch_Priority = 4, sch_ScheduleType = ''daily'', sch_RunAt = None, sch_Hour = 9,
     sch_Minute = 0, sch_Weekday = 0, sch_CronExpression = '''', sch_ExcludedDates = '''', sch_Timezone = '''',
     sch_EndAt = None, sch_MaxRuns = 2, sch_RunCount = 1, sch_MisfirePolicy = '''', sch_Enabled = True,
     sch_LastRunAt = None, sch_NextRunAt = Some 0, sch_LastStatus = '''', sch_LastError = '''',
     sch_CreatedAt = zero_time, sch_UpdatedAt = zero_time\<rparr>"

lemma demo_schedule_simps:
  "sch_NextRunAt demo_schedule = Some 0" "sch_Enabled demo_schedule" "sch_RunCount demo_schedule = 1"
  "sch_MaxRuns demo_schedule = 2" "schedule_for now demo_schedule = 0" "\<not> misfired now demo_schedule"
  "sch_ID demo_schedule = 3"
  by (simp_all add: demo_schedule_def schedule_for_def misfired_def strings_ToLower_def)

theorem schedule_run_recorded_witness:
  "\<exists>evs run' item'. en_trace (run_schedule demo_env 5 demo_schedule demo_engine) =
      evs @ [RunSaved run', ScheduleSaved item'] \<and> list_all is_delivery evs \<and>
      run_recorded 5 demo_schedule run' item'"
  using schedule_run_recorded [of demo_env 5 demo_schedule demo_engine "new_run 5 demo_schedule" "()"]
  by (simp add: demo_env_simps demo_engine_simps demo_schedule_simps schedule_ok_def)

theorem failed_schedule_duplicates_witness:
  "\<exists>run' item'. let env = demo_env\<lparr>GetApplicationRecipientUserIDs := \<lambda>_ _. Inl (Err ''timeout''),
          CreateMessageOnce := \<lambda>m w. (Inr (True, m), w)\<rparr> in
     en_trace (run_schedule env 5 demo_schedule demo_engine) =
       [Stored (schedule_message 5 demo_schedule), RunSaved run', ScheduleSaved item'] \<and>
     (\<forall>later. msg_DeduplicationKey (schedule_message later item') \<noteq>
        msg_DeduplicationKey (schedule_message 5 demo_schedule))"
proof -
  let ?env = "demo_env\<lparr>GetApplicationRecipientUserIDs := \<lambda>_ _. Inl (Err ''timeout''),
          CreateMessageOnce := \<lambda>m w. (Inr (True, m), w)\<rparr>"
  have d: "dated ?env (schedule_message 5 demo_schedule) s = schedule_message 5 demo_schedule" for s
    by (simp add: dated_def schedule_message_def zero_time_def)
  have "CreateScheduledNotificationRun ?env (new_run 5 demo_schedule) (en_world demo_engine) =
      (Inr (new_run 5 demo_schedule), ())"
    by (simp add: demo_env_simps)
  from failed_schedule_duplicates [OF this, of 0 "schedule_message 5 demo_schedule" "()" "Err ''timeout''"]
  show ?thesis by (simp add: d demo_schedule_simps demo_engine_simps Let_def minute_def second_def)
qed

section \<open>Rounds of escalations and digests\<close>

lemma source_acknowledged_False:
  "source_acknowledged env source w = Inr False \<longleftrightarrow>
     IsMessageAcknowledged env (msg_ID source) w = Inr False \<and>
     (msg_RootMessageID source \<noteq> 0 \<longrightarrow> IsMessageAcknowledged env (msg_RootMessageID source) w = Inr False)"
  by (auto simp: source_acknowledged_def root_id_def res_bind_Inr_iff)

text \<open>
  Property C29. A round of an escalation delivers something, or advances the escalation by its rule, only
  when its message still exists, the database reports neither this message nor the root of its thread
  as acknowledged, and its rule exists and is enabled. In every other case nothing is delivered, and
  the escalation is left as it is or saved as completed.
\<close>

theorem escalation_round:
  "\<exists>evs tail. en_trace (run_escalation env now st s) = en_trace s @ evs @ tail \<and> list_all is_delivery evs \<and>
     (evs = [] \<and> (tail = [] \<or> tail = [EscalationSaved (completed_at now st)]) \<or>
      (\<exists>source rule. GetMessageByID env (es_MessageID st) (en_world s) = Inr (Some source) \<and>
         IsMessageAcknowledged env (msg_ID source) (en_world s) = Inr False \<and>
         (msg_RootMessageID source = 0 \<or>
            IsMessageAcknowledged env (msg_RootMessageID source) (en_world s) = Inr False) \<and>
         GetEscalationRuleByID env (es_RuleID st) (en_world s) = Inr (Some rule) \<and> er_Enabled rule \<and>
         (tail = [] \<or> (\<exists>i. tail = [EscalationSaved (escalated_state now rule i st)]))))"
proof (cases "\<exists>source rule. GetMessageByID env (es_MessageID st) (en_world s) = Inr (Some source) \<and>
        source_acknowledged env source (en_world s) = Inr False \<and>
        GetEscalationRuleByID env (es_RuleID st) (en_world s) = Inr (Some rule) \<and> er_Enabled rule")
  case False
  then have "run_escalation env now st s \<in> {s, save_escalation env (completed_at now st) s}"
    by (auto simp: run_escalation_def split: sum.split option.split bool.split)
  then show ?thesis
  proof (elim insertE emptyE)
    assume "run_escalation env now st s = s"
    then show ?thesis by (intro exI [of _ "[]"]) simp
  next
    assume "run_escalation env now st s = save_escalation env (completed_at now st) s"
    then show ?thesis by (intro exI [of _ "[]"] exI [of _ "[EscalationSaved (completed_at now st)]"]) simp
  qed
next
  case True
  then obtain source rule where sr: "GetMessageByID env (es_MessageID st) (en_world s) = Inr (Some source)"
    "source_acknowledged env source (en_world s) = Inr False"
    "GetEscalationRuleByID env (es_RuleID st) (en_world s) = Inr (Some rule)" "er_Enabled rule" by blast
  obtain r s1 where c: "call [] (ResolveEscalationTargetApplication env rule) s = (r, s1)"
    by (cases "call [] (ResolveEscalationTargetApplication env rule) s")
  have t1: "en_trace s1 = en_trace s" using trace_call [of "[]" "ResolveEscalationTargetApplication env rule" s] c by simp
  show ?thesis
  proof (cases "\<exists>target. r = Inr (Some target)")
    case False
    then have "run_escalation env now st s = s1"
      using sr c by (auto simp: run_escalation_def split: sum.split option.split)
    then show ?thesis using t1 by (auto intro!: exI [of _ "[]"])
  next
    case True
    then obtain target where r: "r = Inr (Some target)" by blast
    let ?m = "escalated_message now source rule (app_ID target) st"
    obtain r2 s2 where d: "storeAndDeliver env ?m (es_RepeatCount st = 0) s1 = (r2, s2)"
      by (cases "storeAndDeliver env ?m (es_RepeatCount st = 0) s1")
    obtain evs where evs: "en_trace s2 = en_trace s @ evs" "list_all is_delivery evs"
      using storeAndDeliver_deliveries [of s1 env ?m "es_RepeatCount st = 0"] d t1
      by (auto simp: adds_deliveries_def)
    have "run_escalation env now st s = (case r2 of Inl _ \<Rightarrow> s2
        | Inr (m, external) \<Rightarrow> save_escalation env (escalated_state now rule (mx_ID external) st) s2)"
      using sr c r d by (simp add: run_escalation_def split: sum.split prod.split)
    then have "\<exists>tail. en_trace (run_escalation env now st s) = en_trace s @ evs @ tail \<and>
        (tail = [] \<or> (\<exists>i. tail = [EscalationSaved (escalated_state now rule i st)]))"
      using evs(1) by (auto split: sum.split prod.split)
    then obtain tail where tail: "en_trace (run_escalation env now st s) = en_trace s @ evs @ tail"
        "tail = [] \<or> (\<exists>i. tail = [EscalationSaved (escalated_state now rule i st)])" by blast
    from sr(2) have "IsMessageAcknowledged env (msg_ID source) (en_world s) = Inr False"
      "msg_RootMessageID source = 0 \<or> IsMessageAcknowledged env (msg_RootMessageID source) (en_world s) = Inr False"
      by (simp_all add: source_acknowledged_False disj_imp)
    with tail evs(2) sr(1,3,4) show ?thesis by (intro exI [of _ evs] exI [of _ tail]) blast
  qed
qed

text \<open>A failing look-up of the message completes the escalation instead of leaving it for the next run.\<close>

lemma escalation_lost_on_read_error:
  "GetMessageByID env (es_MessageID st) (en_world s) = Inl e \<Longrightarrow>
     en_trace (run_escalation env now st s) = en_trace s @ [EscalationSaved (completed_at now st)]"
  by (simp add: run_escalation_def)

text \<open>The policy after a digest run.\<close>

definition next_digest :: "time \<Rightarrow> digest_policy \<Rightarrow> digest_policy" where
  "next_digest now policy = policy\<lparr>dp_LastSentAt := Some now,
     dp_NextRunAt := Some (now + wrap64 (max 15 (dp_IntervalMinutes policy) * minute))\<rparr>"

lemma digest_highest_is_max: "digest_highest items = Max (insert 0 (di_Priority ` set items))"
proof -
  have "fold (\<lambda>item h. if di_Priority item > h then di_Priority item else h) items h =
      Max (insert h (di_Priority ` set items))" for h
  proof (induction items arbitrary: h)
    case (Cons item items)
    have "(if di_Priority item > h then di_Priority item else h) = max h (di_Priority item)" by simp
    moreover have "Max (insert (max h p) X) = Max (insert h (insert p X))" if "finite X" for p :: int and X
      using that by (cases "X = {}") (auto simp: max.assoc)
    ultimately show ?case using Cons by simp
  qed simp
  then show ?thesis by (simp add: digest_highest_def)
qed

text \<open>
  Property C35. A digest that could be stored is announced unless quiet hours ask otherwise, the priority
  of a digest being the highest of its items and at least zero; its items are cleared after that and
  the next digest is due after the interval of the policy, at least fifteen minutes.
\<close>

theorem digest_round:
  assumes items: "GetDigestItems env (dp_UserID policy) (en_world s) = Inr items" "items \<noteq> []"
    and app: "GetOrCreateDigestApplication env (dp_UserID policy) (en_world s) = (Inr app, w1)"
    and create: "CreateMessageOnce env (digest_summary now policy (app_ID app) items) w1 = (Inr (True, m), w2)"
    and delete: "\<And>w. fst (DeleteDigestItems env (dp_UserID policy) w) = Inr ()"
  shows "\<exists>told. en_trace (run_digest env now policy s) = en_trace s @ [Stored m] @ told @
      [DigestCleared (dp_UserID policy), DigestSaved (next_digest now policy)] \<and>
    told = (case GetQuietHoursPolicy env (dp_UserID policy) w2 of
        Inl _ \<Rightarrow> []
      | Inr None \<Rightarrow> [Notified (dp_UserID policy) (externalMessage env m)]
      | Inr (Some q) \<Rightarrow>
          if \<not> qh_Enabled q \<or> (\<exists>item\<in>set items. di_Priority item \<ge> qh_AllowPriority q) \<or> qh_AllowPriority q \<le> 0 \<or>
             \<not> quietNow (zones env) q now
          then [Notified (dp_UserID policy) (externalMessage env m)]
          else if strings_EqualFold (qh_Mode q) ''defer'' then [DeferredQueued (dp_UserID policy) (msg_ID m)]
          else [])"
proof -
  define s2 where "s2 = s\<lparr>en_world := w2, en_trace := en_trace s @ [Stored m]\<rparr>"
  define s3 where "s3 = announce_digest env now (dp_UserID policy) (digest_highest items) m s2"
  obtain s4 where s4: "call [DigestCleared (dp_UserID policy)] (DeleteDigestItems env (dp_UserID policy)) s3 = (Inr (), s4)"
    "en_trace s4 = en_trace s3 @ [DigestCleared (dp_UserID policy)]"
    using call_ok [of "DeleteDigestItems env (dp_UserID policy)" s3 "()"] delete by blast
  have "send_digest env now policy items s = (True, s4)"
    using items(2) app create s4(1)
    by (simp add: send_digest_def call_def create_once_def s2_def [symmetric] s3_def [symmetric])
  then have "en_trace (run_digest env now policy s) =
      en_trace s3 @ [DigestCleared (dp_UserID policy), DigestSaved (next_digest now policy)]"
    using items(1) s4(2) by (simp add: run_digest_def next_digest_def Let_def max_def)
  moreover have "(digest_highest items \<ge> a) \<longleftrightarrow> (\<exists>item\<in>set items. di_Priority item \<ge> a) \<or> a \<le> 0" for a
    by (auto simp: digest_highest_is_max Max_ge_iff)
  ultimately show ?thesis
    by (auto simp: s3_def announce_digest_def s2_def split: sum.split option.split)
qed

definition demo_digest :: digest_policy where
  "demo_digest = \<lparr>dp_ID = 1, dp_UserID = 2, dp_Enabled = True, dp_IntervalMinutes = 5,
     dp_ImmediatePriority = 9, dp_LastSentAt = None, dp_NextRunAt = None, dp_CreatedAt = 0, dp_UpdatedAt = 0\<rparr>"

theorem digest_round_witness:
  "\<exists>m told. en_trace (run_digest (demo_env\<lparr>CreateMessageOnce := \<lambda>m w. (Inr (True, m), w)\<rparr>) 0 demo_digest demo_engine) =
     [Stored m] @ told @ [DigestCleared 2, DigestSaved (next_digest 0 demo_digest)] \<and>
     told = [Notified 2 (externalMessage (demo_env\<lparr>CreateMessageOnce := \<lambda>m w. (Inr (True, m), w)\<rparr>) m)]"
proof -
  let ?env = "demo_env\<lparr>CreateMessageOnce := \<lambda>m w. (Inr (True, m), w)\<rparr>"
  have "dp_UserID demo_digest = 2" by (simp add: demo_digest_def)
  then show ?thesis
    using digest_round [of ?env demo_digest demo_engine "[digest_entry demo_root 2]"
        "demo_app 20 ''Notification Digest''" "()" 0 _ "()"]
    by (simp add: demo_env_simps demo_engine_simps)
qed

text \<open>
  When clearing the items of a stored digest failed, the next run meets the same deduplication key: the
  items queued meanwhile are cleared without ever having been part of a message.
\<close>

lemma digest_items_lost:
  assumes "GetDigestItems env (dp_UserID policy) (en_world s) = Inr items" "items \<noteq> []"
    and "GetOrCreateDigestApplication env (dp_UserID policy) (en_world s) = (Inr app, w1)"
    and "CreateMessageOnce env (digest_summary now policy (app_ID app) items) w1 = (Inr (False, m), w2)"
    and "DeleteDigestItems env (dp_UserID policy) w2 = (Inr (), w3)"
  shows "en_trace (run_digest env now policy s) =
    en_trace s @ [DigestCleared (dp_UserID policy), DigestSaved (next_digest now policy)]"
  using assms
  by (simp add: run_digest_def send_digest_def call_def create_once_def next_digest_def Let_def max_def split: prod.split)

end
