(* ===== verification/Mqtt.thy ===== *)
theory Mqtt
  imports Delivery
begin

text \<open>
  The MQTT client of \<open>src/automation/engine.go\<close>: the packet codec, the opening of a connection and the
  session with its handshake for quality of service 2. A connection is the list of bytes the broker
  sends before it closes, and the packets written are recorded; dialling, deadlines and the ping they
  cause are left out. A decoded JSON number outside the range of \<open>int\<close> converts as on amd64.
\<close>


section \<open>Packets\<close>

text \<open>Slices as Go evaluates them: a bound past the end panics.\<close>

definition go_slice :: "'a list \<Rightarrow> nat \<Rightarrow> nat \<Rightarrow> 'a list res" where
  "go_slice xs a b = (if a \<le> b \<and> b \<le> length xs then Inr (take (b - a) (drop a xs)) else Inl Panic)"

definition go_index :: "'a list \<Rightarrow> nat \<Rightarrow> 'a res" where
  "go_index xs i = (if i < length xs then Inr (xs ! i) else Inl Panic)"

definition BigEndian_Uint16 :: "bytes \<Rightarrow> 16 word res" where
  "BigEndian_Uint16 b = res_bind (go_index b 1) (\<lambda>lo. res_bind (go_index b 0) (\<lambda>hi.
     Inr ((ucast lo :: 16 word) OR push_bit 8 (ucast hi))))"

definition maxMQTTPacketBytes :: nat where
  "maxMQTTPacketBytes = 4 * 2 ^ 20"

fun encodeRemainingLength :: "nat \<Rightarrow> bytes" where
  "encodeRemainingLength n =
     (let v = of_nat (n mod 128) in
      if n div 128 > 0 then (v OR 0x80) # encodeRemainingLength (n div 128) else [v])"

declare encodeRemainingLength.simps [simp del]

definition appendMQTTString :: "bytes \<Rightarrow> string \<Rightarrow> bytes" where
  "appendMQTTString target s =
     target @ [of_nat (length s div 256), of_nat (length s)] @ bytes_of s"

text \<open>
  \<open>readMQTTPacket\<close> on the bytes the connection will still yield, with the rest of them. Of the four
  bytes of the length \<open>i\<close> are left.
\<close>

fun read_length :: "nat \<Rightarrow> nat \<Rightarrow> nat \<Rightarrow> bytes \<Rightarrow> (nat \<times> bytes) res" where
  "read_length 0 multiplier remaining input = Inl (Err ''invalid MQTT remaining length'')"
| "read_length (Suc i) multiplier remaining [] = Inl (Err ''EOF'')"
| "read_length (Suc i) multiplier remaining (v # input) =
     (let remaining = remaining + unat (v AND 127) * multiplier in
      if remaining > maxMQTTPacketBytes then Inl (Err ''MQTT packet exceeds 4194304-byte limit'')
      else if v AND 128 = 0 then Inr (remaining, input)
      else read_length i (multiplier * 128) remaining input)"

definition readMQTTPacket :: "bytes \<Rightarrow> (8 word \<times> bytes \<times> bytes) res" where
  "readMQTTPacket input =
     (case input of
        [] \<Rightarrow> Inl (Err ''EOF'')
      | header # input \<Rightarrow> res_bind (read_length 4 1 0 input) (\<lambda>(remaining, input).
          if length input < remaining then Inl (Err (if input = [] then ''EOF'' else ''unexpected EOF''))
          else Inr (header, take remaining input, drop remaining input)))"

text \<open>The value and the number of bytes it takes; \<open>i\<close> bytes have been looked at.\<close>

fun var_int_from :: "nat \<Rightarrow> nat \<Rightarrow> nat \<Rightarrow> nat \<Rightarrow> bytes \<Rightarrow> (nat \<times> nat) res" where
  "var_int_from 0 i multiplier v data = Inl (Err ''invalid MQTT variable integer'')"
| "var_int_from (Suc k) i multiplier v data =
     (if i \<ge> length data then Inl (Err ''unexpected EOF'')
      else res_bind (go_index data i) (\<lambda>current.
        let v = v + unat (current AND 127) * multiplier in
        if current AND 128 = 0 then Inr (v, i + 1)
        else var_int_from k (i + 1) (multiplier * 128) v data))"

definition decodeMQTTVarInt :: "bytes \<Rightarrow> (nat \<times> nat) res" where
  "decodeMQTTVarInt data = var_int_from 4 0 1 0 data"

definition packet_qos :: "8 word \<Rightarrow> 8 word" where
  "packet_qos header = drop_bit 1 header AND 3"

definition decodePublish :: "8 word \<Rightarrow> bytes \<Rightarrow> int \<Rightarrow> (string \<times> bytes \<times> 16 word \<times> 8 word) res" where
  "decodePublish header body protocol =
     (if length body < 2 then Inl (Err ''invalid MQTT publish packet'')
      else res_bind (res_bind (go_slice body 0 2) BigEndian_Uint16) (\<lambda>len.
        let n = unat len in
        if length body < 2 + n then Inl (Err ''invalid MQTT topic length'')
        else res_bind (go_slice body 2 (2 + n)) (\<lambda>topic.
          let offset = 2 + n; qos = packet_qos header in
          if qos = 3 then Inl (Err ''invalid MQTT QoS'')
          else res_bind
            (if qos > 0 then
               if length body < offset + 2 then Inl (Err ''invalid MQTT packet id'')
               else res_bind (res_bind (go_slice body offset (offset + 2)) BigEndian_Uint16)
                      (\<lambda>packetID. Inr (packetID, offset + 2))
             else Inr (0, offset)) (\<lambda>(packetID, offset).
          res_bind
            (if protocol = 5 then
               res_bind (res_bind (go_slice body offset (length body)) decodeMQTTVarInt)
                 (\<lambda>(properties, consumed).
                   let offset = offset + consumed in
                   if offset + properties > length body then Inl (Err ''invalid MQTT property length'')
                   else Inr (offset + properties))
             else Inr offset) (\<lambda>offset.
          res_bind (go_slice body offset (length body)) (\<lambda>payload.
            Inr (string_of topic, payload, packetID, qos)))))))"

section \<open>Opening a connection\<close>

text \<open>Both steps write one packet and read the answer: the bytes written, and what is left of the input.\<close>

definition connect_packet :: "string \<Rightarrow> string \<Rightarrow> string \<Rightarrow> int \<Rightarrow> bytes" where
  "connect_packet clientID username password protocol =
     (let flags = 0x02;
          flags = (if username \<noteq> '''' \<or> password \<noteq> '''' then flags OR 0x80 else flags);
          flags = (if password \<noteq> '''' then flags OR 0x40 else flags);
          variable = appendMQTTString [] ''MQTT'' @ [of_int protocol, flags, 0x00, 0x3C];
          variable = (if protocol = 5 then variable @ [0x00] else variable);
          payload = appendMQTTString [] clientID;
          payload = (if username \<noteq> '''' \<or> password \<noteq> '''' then appendMQTTString payload username else payload);
          payload = (if password \<noteq> '''' then appendMQTTString payload password else payload)
      in [0x10] @ encodeRemainingLength (length variable + length payload) @ variable @ payload)"

definition mqttConnect :: "string \<Rightarrow> string \<Rightarrow> string \<Rightarrow> int \<Rightarrow> bytes \<Rightarrow> bytes res \<times> bytes" where
  "mqttConnect clientID username password protocol input =
     (if protocol \<noteq> 4 \<and> protocol \<noteq> 5 then (Inl (Err ''unsupported MQTT protocol version''), [])
      else
        (res_bind (readMQTTPacket input) (\<lambda>(header, body, rest).
           if drop_bit 4 header \<noteq> 2 \<or> length body < 2 then Inl (Err ''MQTT broker rejected connection'')
           else res_bind (go_index body 1) (\<lambda>code.
             if code \<noteq> 0 then Inl (Err ''MQTT broker rejected connection'') else Inr rest)),
         connect_packet clientID username password protocol))"

definition subscribe_packet :: "string \<Rightarrow> int \<Rightarrow> int \<Rightarrow> bytes" where
  "subscribe_packet topic qos protocol =
     (let body = [0x00, 0x01];
          body = (if protocol = 5 then body @ [0x00] else body);
          body = appendMQTTString body topic @ [of_int qos]
      in [0x82] @ encodeRemainingLength (length body) @ body)"

definition mqttSubscribe :: "string \<Rightarrow> int \<Rightarrow> int \<Rightarrow> bytes \<Rightarrow> bytes res \<times> bytes" where
  "mqttSubscribe topic qos protocol input =
     (if strings_TrimSpace topic = '''' then (Inl (Err ''MQTT topic is required''), [])
      else if qos < 0 \<or> qos > 2 then (Inl (Err ''MQTT QoS must be 0, 1, or 2''), [])
      else
        (res_bind (readMQTTPacket input) (\<lambda>(header, response, rest).
           if drop_bit 4 header \<noteq> 9 \<or> length response < 3 then Inl (Err ''MQTT subscription was rejected'')
           else res_bind
             (if protocol = 5 then
                res_bind (res_bind (go_slice response 2 (length response)) decodeMQTTVarInt)
                  (\<lambda>(properties, consumed). Inr (2 + consumed + properties))
              else Inr 2) (\<lambda>offset.
             if offset \<ge> length response then Inl (Err ''MQTT subscription was rejected'')
             else res_bind (go_index response offset) (\<lambda>code.
               if code \<ge> 0x80 then Inl (Err ''MQTT subscription was rejected'') else Inr rest))),
         subscribe_packet topic qos protocol))"

section \<open>The session\<close>

record 'w mqtt_env =
  mq_engine :: "'w engine_env"
  UpdateMQTTIntegrationStatus ::
    "nat \<Rightarrow> string \<Rightarrow> time option \<Rightarrow> time option \<Rightarrow> string \<Rightarrow> time option \<Rightarrow> bool \<Rightarrow> 'w \<Rightarrow> unit res \<times> 'w"

record 'w mqtt_session =
  ms_engine :: "'w engine"
  ms_pending :: "16 word \<rightharpoonup> string \<times> bytes"
  ms_written :: "bytes list"
  ms_published :: "(string \<times> bytes) list"

text \<open>\<open>ms_published\<close> records every call of \<open>Publish\<close>, whether it succeeds or not.\<close>

text \<open>
  A number decodes to a \<open>float64\<close>, taken here without rounding, and is converted towards zero; out of range the
  conversion gives the least integer (as on amd64).
\<close>

definition float_to_int :: "rat \<Rightarrow> int" where
  "float_to_int q =
     (let i = (if q \<ge> 0 then \<lfloor>q\<rfloor> else \<lceil>q\<rceil>) in
      if min_int64 \<le> i \<and> i \<le> max_int64 then i else min_int64)"

definition numberAsInt :: "json \<Rightarrow> int option" where
  "numberAsInt v =
     (case v of
        JInt i \<Rightarrow> Some (float_to_int (of_int i))
      | JNum q \<Rightarrow> Some (float_to_int q)
      | _ \<Rightarrow> None)"

text \<open>The title, message and priority of a payload.\<close>

definition payload_fields :: "'w engine_env \<Rightarrow> mqtt_integration \<Rightarrow> string \<Rightarrow> bytes \<Rightarrow> string \<times> string \<times> int" where
  "payload_fields env integration topic payload =
     (let object = (case json_Unmarshal env payload of Inr (JObj o') \<Rightarrow> map_of o' | _ \<Rightarrow> Map.empty);
          title = (case object ''title'' of Some (JStr v) \<Rightarrow> if v \<noteq> '''' then v else mqi_Name integration
                   | _ \<Rightarrow> mqi_Name integration);
          message = (case object ''message'' of Some (JStr v) \<Rightarrow> v | _ \<Rightarrow> string_of payload);
          priority = (case object ''priority'' of
              Some v \<Rightarrow> (case numberAsInt v of Some i \<Rightarrow> i | None \<Rightarrow> 0) | None \<Rightarrow> 0)
      in (if title = '''' then topic else title, message, priority))"

definition publishPayload ::
  "'w mqtt_env \<Rightarrow> mqtt_integration \<Rightarrow> string \<Rightarrow> bytes \<Rightarrow> 'w mqtt_session \<Rightarrow> 'w mqtt_session" where
  "publishPayload env integration topic payload s =
     (let (title, message, priority) = payload_fields (mq_engine env) integration topic payload;
          (r, e) = Publish (mq_engine env) (mqi_ApplicationID integration) title message priority (ms_engine s);
          e = (case r of
                 Inl _ \<Rightarrow> e
               | Inr _ \<Rightarrow> snd (call [] (UpdateMQTTIntegrationStatus env (mqi_ID integration) ''connected'' None
                   (Some (now_of (mq_engine env) e)) '''' None False) e))
      in s\<lparr>ms_engine := e, ms_published := ms_published s @ [(topic, payload)]\<rparr>)"

definition write_ack :: "8 word \<Rightarrow> 16 word \<Rightarrow> 'w mqtt_session \<Rightarrow> 'w mqtt_session" where
  "write_ack kind packetID s =
     s\<lparr>ms_written := ms_written s @ [[kind, 0x02, ucast (drop_bit 8 packetID), ucast packetID]]\<rparr>"

text \<open>One packet of the loop of \<open>runMQTT\<close>; an error ends the session.\<close>

definition handle_packet ::
  "'w mqtt_env \<Rightarrow> mqtt_integration \<Rightarrow> int \<Rightarrow> 8 word \<times> bytes \<Rightarrow> 'w mqtt_session \<Rightarrow> unit res \<times> 'w mqtt_session" where
  "handle_packet env integration protocol packet s =
     (let (header, body) = packet in
      if drop_bit 4 header = 3 then
        (case decodePublish header body protocol of
           Inl e \<Rightarrow> (Inl e, s)
         | Inr (topic, payload, packetID, qos) \<Rightarrow>
             if qos = 0 then (Inr (), publishPayload env integration topic payload s)
             else if qos = 1 then
               let s = publishPayload env integration topic payload s in
               (Inr (), if packetID \<noteq> 0 then write_ack 0x40 packetID s else s)
             else if qos = 2 then
               if packetID = 0 then (Inl (Err ''MQTT QoS 2 PUBLISH is missing packet id''), s)
               else
                 let s = (case ms_pending s packetID of
                       None \<Rightarrow> s\<lparr>ms_pending := (ms_pending s)(packetID \<mapsto> (topic, payload))\<rparr>
                     | Some _ \<Rightarrow> s) in
                 (Inr (), write_ack 0x50 packetID s)
             else (Inr (), s))
      else if drop_bit 4 header = 6 then
        (if length body < 2 then (Inl (Err ''invalid MQTT PUBREL packet''), s)
         else case res_bind (go_slice body 0 2) BigEndian_Uint16 of
           Inl e \<Rightarrow> (Inl e, s)
         | Inr packetID \<Rightarrow>
             let s = (case ms_pending s packetID of
                   Some (topic, payload) \<Rightarrow>
                     let s = publishPayload env integration topic payload s in
                     s\<lparr>ms_pending := (ms_pending s)(packetID := None)\<rparr>
                 | None \<Rightarrow> s) in
             (Inr (), write_ack 0x70 packetID s))
      else (Inr (), s))"

fun handle_packets ::
  "'w mqtt_env \<Rightarrow> mqtt_integration \<Rightarrow> int \<Rightarrow> (8 word \<times> bytes) list \<Rightarrow> 'w mqtt_session \<Rightarrow> unit res \<times> 'w mqtt_session" where
  "handle_packets env integration protocol [] s = (Inr (), s)"
| "handle_packets env integration protocol (p # ps) s =
     (case handle_packet env integration protocol p s of
        (Inl e, s) \<Rightarrow> (Inl e, s)
      | (Inr _, s) \<Rightarrow> handle_packets env integration protocol ps s)"

lemma read_length_shorter: "read_length k multiplier v input = Inr (n, rest) \<Longrightarrow> length rest < length input"
  by (induction k multiplier v input rule: read_length.induct) (auto simp: Let_def less_SucI split: if_splits)

lemma readMQTTPacket_shorter: "readMQTTPacket input = Inr (header, body, rest) \<Longrightarrow> length rest < length input"
  by (auto simp: readMQTTPacket_def res_bind_Inr_iff split: list.splits if_splits dest: read_length_shorter)

text \<open>The loop of \<open>runMQTT\<close> on the bytes the broker sends until the connection ends.\<close>

function mqtt_loop ::
  "'w mqtt_env \<Rightarrow> mqtt_integration \<Rightarrow> int \<Rightarrow> bytes \<Rightarrow> 'w mqtt_session \<Rightarrow> unit res \<times> 'w mqtt_session" where
  "mqtt_loop env integration protocol input s =
     (case readMQTTPacket input of
        Inl e \<Rightarrow> (Inl e, s)
      | Inr (header, body, rest) \<Rightarrow>
          (case handle_packet env integration protocol (header, body) s of
             (Inl e, s) \<Rightarrow> (Inl e, s)
           | (Inr _, s) \<Rightarrow> mqtt_loop env integration protocol rest s))"
  by pat_completeness auto
termination
  by (relation "measure (\<lambda>(_, _, _, input, _). length input)") (auto dest: readMQTTPacket_shorter)

declare mqtt_loop.simps [simp del]

definition protocol_of :: "mqtt_integration \<Rightarrow> int" where
  "protocol_of integration = (if mqi_ProtocolVersion integration = 0 then 5 else mqi_ProtocolVersion integration)"

definition runMQTT :: "'w mqtt_env \<Rightarrow> mqtt_integration \<Rightarrow> bytes \<Rightarrow> 'w engine \<Rightarrow> unit res \<times> 'w mqtt_session" where
  "runMQTT env integration input e =
     (let clientID = (if mqi_ClientID integration = '''' then ''gotify-mu-'' @ show_nat (mqi_ID integration)
                      else mqi_ClientID integration);
          protocol = protocol_of integration;
          (r, sent) = mqttConnect clientID (mqi_Username integration) (mqi_Password integration) protocol input;
          s = \<lparr>ms_engine = e, ms_pending = Map.empty, ms_written = [sent], ms_published = []\<rparr> in
      case r of
        Inl err \<Rightarrow> (Inl err, s)
      | Inr input \<Rightarrow>
          let (r, sent) = mqttSubscribe (mqi_Topic integration) (mqi_QoS integration) protocol input;
              s = s\<lparr>ms_written := ms_written s @ [sent]\<rparr> in
          case r of
            Inl err \<Rightarrow> (Inl err, s)
          | Inr input \<Rightarrow>
              let e = snd (call [] (UpdateMQTTIntegrationStatus env (mqi_ID integration) ''connected''
                    (Some (now_of (mq_engine env) e)) None '''' None False) e)
              in mqtt_loop env integration protocol input (s\<lparr>ms_engine := e\<rparr>))"

section \<open>Round trips of the packets\<close>

lemma encode_step:
  "n < 128 \<Longrightarrow> encodeRemainingLength n = [of_nat n]"
  "\<not> n < 128 \<Longrightarrow> encodeRemainingLength n = (of_nat (n mod 128) OR 128) # encodeRemainingLength (n div 128)"
  by (subst encodeRemainingLength.simps; simp add: Let_def div_greater_zero_iff)+

lemma last_byte: "m < 128 \<Longrightarrow> unat ((of_nat m :: 8 word) AND 127) = m \<and> (of_nat m :: 8 word) AND 128 = 0"
  by (simp add: byte_low byte_high unat_of_nat)

lemma more_byte:
  "m < 128 \<Longrightarrow> unat (((of_nat m :: 8 word) OR 128) AND 127) = m \<and> ((of_nat m :: 8 word) OR 128) AND 128 \<noteq> 0"
  by (simp add: byte_low byte_high byte_more)

lemma digit_split: "m + n mod 128 * k + n div 128 * (k * 128) = m + n * (k :: nat)"
proof -
  have "n mod 128 * k + n div 128 * (k * 128) = (n mod 128 + 128 * (n div 128)) * k"
    by (simp only: add_mult_distrib add_mult_distrib2 mult.assoc mult.commute mult.left_commute)
  then show ?thesis by simp
qed

lemma read_length_encode:
  assumes "n < 128 ^ k" "remaining + n * multiplier \<le> maxMQTTPacketBytes" "0 < k"
  shows "read_length k multiplier remaining (encodeRemainingLength n @ rest) = Inr (remaining + n * multiplier, rest)"
  using assms
proof (induction k arbitrary: n multiplier remaining)
  case (Suc k)
  show ?case
  proof (cases "n < 128")
    case True
    then show ?thesis using Suc.prems last_byte [of n] by (simp add: encode_step(1) Let_def)
  next
    case False
    have "n div 128 < 128 ^ k" using Suc.prems(1) by (simp add: less_mult_imp_div_less mult.commute)
    moreover have "0 < k" using False Suc.prems(1) by (cases k) auto
    moreover note sum = digit_split [of remaining n multiplier]
    ultimately have "read_length k (multiplier * 128) (remaining + n mod 128 * multiplier)
        (encodeRemainingLength (n div 128) @ rest) = Inr (remaining + n * multiplier, rest)"
      using Suc.IH [of "n div 128" "remaining + n mod 128 * multiplier" "multiplier * 128"] Suc.prems(2) by simp
    moreover have "remaining + n mod 128 * multiplier \<le> maxMQTTPacketBytes"
      using sum Suc.prems(2) by linarith
    ultimately show ?thesis using more_byte [of "n mod 128"] False
      by (simp add: encode_step(2) Let_def)
  qed
qed simp

lemma var_int_encode:
  assumes "n < 128 ^ k" "0 < k" "data = pre @ encodeRemainingLength n @ rest"
  shows "var_int_from k (length pre) multiplier v data =
    Inr (v + n * multiplier, length pre + length (encodeRemainingLength n))"
  using assms
proof (induction k arbitrary: n multiplier v pre)
  case (Suc k)
  show ?case
  proof (cases "n < 128")
    case True
    then show ?thesis using Suc.prems last_byte [of n]
      by (simp add: encode_step(1) Let_def go_index_def)
  next
    case False
    let ?b = "(of_nat (n mod 128) :: 8 word) OR 128"
    have "n div 128 < 128 ^ k" using Suc.prems(1) by (simp add: less_mult_imp_div_less mult.commute)
    moreover have "0 < k" using False Suc.prems(1) by (cases k) auto
    moreover have "data = (pre @ [?b]) @ encodeRemainingLength (n div 128) @ rest"
      using Suc.prems(3) False by (simp add: encode_step(2))
    ultimately have "var_int_from k (Suc (length pre)) (multiplier * 128) (v + n mod 128 * multiplier) data =
        Inr (v + n mod 128 * multiplier + n div 128 * (multiplier * 128),
          Suc (length pre) + length (encodeRemainingLength (n div 128)))"
      using Suc.IH [of "n div 128" "pre @ [?b]" "multiplier * 128" "v + n mod 128 * multiplier"] by simp
    moreover note digit_split [of v n multiplier]
    ultimately show ?thesis using more_byte [of "n mod 128"] False Suc.prems(3)
      by (simp add: encode_step(2) Let_def go_index_def nth_append)
  qed
qed simp

text \<open>
  Reading back a packet of at most four megabytes that was written with \<open>encodeRemainingLength\<close>
  gives its header and body, and leaves the bytes after it.
\<close>

theorem packet_roundtrip:
  assumes "length body \<le> maxMQTTPacketBytes"
  shows "readMQTTPacket (header # encodeRemainingLength (length body) @ body @ rest) = Inr (header, body, rest)"
proof -
  have "length body < 128 ^ 4" using assms by (simp add: maxMQTTPacketBytes_def)
  then have "read_length 4 1 0 (encodeRemainingLength (length body) @ body @ rest) = Inr (length body, body @ rest)"
    using read_length_encode [of "length body" 4 0 1 "body @ rest"] assms by simp
  then show ?thesis by (simp add: readMQTTPacket_def)
qed

theorem packet_roundtrip_witness:
  "readMQTTPacket (0x30 # encodeRemainingLength (length (replicate 200 (7 :: 8 word))) @ replicate 200 7 @ [1]) =
     Inr (0x30, replicate 200 7, [1])"
  using packet_roundtrip [of "replicate 200 7" "0x30" "[1]"] by (simp add: maxMQTTPacketBytes_def)

text \<open>The body of a PUBLISH packet as a broker builds it.\<close>

definition publish_body :: "string \<Rightarrow> 16 word \<Rightarrow> 8 word \<Rightarrow> bytes \<Rightarrow> bytes \<Rightarrow> int \<Rightarrow> bytes" where
  "publish_body topic packetID qos properties payload protocol =
     appendMQTTString [] topic @
     (if qos > 0 then [ucast (drop_bit 8 packetID), ucast packetID] else []) @
     (if protocol = 5 then encodeRemainingLength (length properties) @ properties else []) @ payload"

lemma go_slice_prefix [simp]: "go_slice (xs @ ys) 0 (length xs) = Inr xs"
  by (simp add: go_slice_def)

lemma go_slice_tail [simp]: "go_slice (xs @ ys) (length xs) (length (xs @ ys)) = Inr ys"
  by (simp add: go_slice_def)

lemma go_slice_mid [simp]: "go_slice (xs @ ys @ zs) (length xs) (length xs + length ys) = Inr ys"
  by (simp add: go_slice_def)

lemma Uint16_pair: "BigEndian_Uint16 [hi, lo] = Inr ((ucast lo :: 16 word) OR push_bit 8 (ucast hi))"
  by (simp add: BigEndian_Uint16_def go_index_def)

text \<open>
  Property C24. \<open>decodePublish\<close> undoes the layout of a PUBLISH packet: topic, packet identifier, properties
  (skipped, protocol 5 only) and payload, for every quality of service.
\<close>

theorem publish_roundtrip:
  assumes "length topic < 65536" "length properties < 128 ^ 4" "packet_qos header \<noteq> 3"
    and "packet_qos header = 0 \<longrightarrow> packetID = 0"
  shows "decodePublish header (publish_body topic packetID (packet_qos header) properties payload protocol) protocol =
    Inr (topic, payload, packetID, packet_qos header)"
proof -
  let ?qos = "packet_qos header"
  define len where "len = [of_nat (length topic div 256), of_nat (length topic) :: 8 word]"
  define pid where "pid = (if ?qos > 0 then [ucast (drop_bit 8 packetID), ucast packetID :: 8 word] else [])"
  define props where "props = (if protocol = 5 then encodeRemainingLength (length properties) @ properties else [])"
  define body where "body = len @ bytes_of topic @ pid @ props @ payload"
  have body: "publish_body topic packetID ?qos properties payload protocol = body"
    by (simp add: publish_body_def body_def len_def pid_def props_def appendMQTTString_def)
  have bt: "length (bytes_of topic) = length topic" by (simp add: bytes_of_def)
  have l2: "length len = 2" by (simp add: len_def)
  have n: "res_bind (go_slice body 0 2) BigEndian_Uint16 =
      Inr ((ucast (of_nat (length topic) :: 8 word) :: 16 word) OR push_bit 8 (ucast (of_nat (length topic div 256) :: 8 word)))"
    using go_slice_prefix [of len "bytes_of topic @ pid @ props @ payload"] unfolding l2 body_def [symmetric]
    by (simp add: len_def Uint16_pair)
  have topic: "go_slice body 2 (2 + length topic) = Inr (bytes_of topic)"
    using go_slice_mid [of len "bytes_of topic" "pid @ props @ payload"] by (simp add: body_def l2 bt)
  have pid: "(if ?qos > 0 then
               if length body < 2 + length topic + 2 then Inl (Err ''invalid MQTT packet id'')
               else res_bind (res_bind (go_slice body (2 + length topic) (2 + length topic + 2)) BigEndian_Uint16)
                      (\<lambda>packetID. Inr (packetID, 2 + length topic + 2))
             else Inr (0, 2 + length topic)) = Inr (packetID, 2 + length topic + length pid)"
  proof (cases "?qos > 0")
    case True
    have "go_slice body (2 + length topic) (2 + length topic + 2) = Inr pid"
      using go_slice_mid [of "len @ bytes_of topic" pid "props @ payload"] True
      by (simp add: body_def l2 bt pid_def)
    then show ?thesis using True by (simp add: pid_def Uint16_pair Uint16_bytes body_def l2 bt)
  next
    case False
    then have "?qos = 0" by (simp add: word_greater_zero_iff)
    then show ?thesis using False assms(4) by (simp add: pid_def)
  qed
  let ?off = "2 + length topic + length pid"
  have rest: "go_slice body ?off (length body) = Inr (props @ payload)"
    using go_slice_tail [of "len @ bytes_of topic @ pid" "props @ payload"] by (simp add: body_def l2 bt add.assoc)
  have varint: "decodeMQTTVarInt (encodeRemainingLength (length properties) @ zs) =
      Inr (length properties, length (encodeRemainingLength (length properties)))" for zs
    using var_int_encode [of "length properties" 4 _ "[]" zs 1 0] assms(2) by (simp add: decodeMQTTVarInt_def)
  have pr: "(if protocol = 5 then
               res_bind (res_bind (go_slice body ?off (length body)) decodeMQTTVarInt)
                 (\<lambda>(properties, consumed).
                   if ?off + consumed + properties > length body then Inl (Err ''invalid MQTT property length'')
                   else Inr (?off + consumed + properties))
             else Inr ?off) = Inr (?off + length props)"
  proof (cases "protocol = 5")
    case True
    then have p: "props @ payload = encodeRemainingLength (length properties) @ properties @ payload"
      by (simp add: props_def)
    have "length body = ?off + length props + length payload" by (simp add: body_def l2 bt)
    then show ?thesis using True unfolding rest res_bind.simps p varint prod.case
      by (simp add: props_def)
  qed (simp add: props_def)
  have payload: "go_slice body (?off + length props) (length body) = Inr payload"
    using go_slice_tail [of "len @ bytes_of topic @ pid @ props" payload] by (simp add: body_def l2 bt add.assoc)
  have l: "\<not> length body < 2" "\<not> length body < 2 + length topic" by (simp_all add: body_def l2 bt)
  show ?thesis
    unfolding body decodePublish_def n res_bind.simps Let_def Uint16_of_nat [OF assms(1)] topic pid prod.case pr payload
    using l assms(3) by simp
qed

theorem publish_roundtrip_witness:
  "decodePublish 0x34 (publish_body ''home/door'' 7 2 [1, 2, 3] [65, 66] 5) 5 = Inr (''home/door'', [65, 66], 7, 2)"
proof -
  have "packet_qos 0x34 = 2" by (simp add: packet_qos_def)
  then show ?thesis using publish_roundtrip [of "''home/door''" "[1, 2, 3]" "0x34" 7 "[65, 66]" 5] by simp
qed

section \<open>No input makes the decoders panic\<close>

lemma Uint16_ok: "length b = 2 \<Longrightarrow> \<exists>w. BigEndian_Uint16 b = Inr w"
  by (simp add: BigEndian_Uint16_def go_index_def)

lemma slice_Uint16_ok: "a + 2 \<le> length b \<Longrightarrow> \<exists>w. res_bind (go_slice b a (a + 2)) BigEndian_Uint16 = Inr w"
  using Uint16_ok [of "take 2 (drop a b)"] by (simp add: go_slice_def)

lemma slice0_Uint16_ok: "\<not> length b < 2 \<Longrightarrow> \<exists>w. res_bind (go_slice b 0 2) BigEndian_Uint16 = Inr w"
  using slice_Uint16_ok [of 0 b] unfolding add_0 by simp

lemma var_int_safe: "var_int_from k i multiplier v data \<noteq> Inl Panic"
  by (induction k i multiplier v data rule: var_int_from.induct) (auto simp: go_index_def Let_def)

lemma read_length_safe: "read_length k multiplier v input \<noteq> Inl Panic"
  by (induction k multiplier v input rule: read_length.induct) (auto simp: Let_def)

lemma res_bind_Panic_iff: "res_bind m f = Inl Panic \<longleftrightarrow> m = Inl Panic \<or> (\<exists>x. m = Inr x \<and> f x = Inl Panic)"
  by (cases m) auto

lemma readMQTTPacket_safe: "readMQTTPacket input \<noteq> Inl Panic"
  by (auto simp: readMQTTPacket_def read_length_safe res_bind_Panic_iff split: list.splits if_splits)

lemma decodePublish_safe: "decodePublish header body protocol \<noteq> Inl Panic"
proof (cases "length body < 2")
  case False
  then obtain len where len: "res_bind (go_slice body 0 2) BigEndian_Uint16 = Inr len"
    using slice0_Uint16_ok by blast
  show ?thesis
  proof (cases "length body < 2 + unat len \<or> packet_qos header = 3")
    case True
    then show ?thesis using False len
      by (auto simp: decodePublish_def Let_def go_slice_def res_bind_Panic_iff)
  next
    case enough: False
    let ?off = "2 + unat len"
    define pid where "pid = (if packet_qos header > 0 then
               if length body < ?off + 2 then Inl (Err ''invalid MQTT packet id'')
               else res_bind (res_bind (go_slice body ?off (?off + 2)) BigEndian_Uint16)
                      (\<lambda>packetID. Inr (packetID, ?off + 2))
             else Inr (0 :: 16 word, ?off))"
    have pid: "pid \<noteq> Inl Panic" "\<And>i off. pid = Inr (i, off) \<Longrightarrow> off \<le> length body"
      using slice_Uint16_ok [of ?off body] enough by (auto simp: pid_def split: if_splits)
    define props where "props off = (if protocol = 5 then
               res_bind (res_bind (go_slice body off (length body)) decodeMQTTVarInt)
                 (\<lambda>(properties, consumed).
                   let offset = off + consumed in
                   if offset + properties > length body then Inl (Err ''invalid MQTT property length'')
                   else Inr (offset + properties))
             else Inr off)" for off
    have props: "props off \<noteq> Inl Panic" "\<And>off'. props off = Inr off' \<Longrightarrow> off' \<le> length body" if "off \<le> length body" for off
      using that by (auto simp: props_def go_slice_def decodeMQTTVarInt_def var_int_safe Let_def res_bind_Inr_iff
          res_bind_Panic_iff split: if_splits)
    have "decodePublish header body protocol =
        res_bind pid (\<lambda>(packetID, offset). res_bind (props offset) (\<lambda>offset.
          res_bind (go_slice body offset (length body)) (\<lambda>payload.
            Inr (string_of (take (unat len) (drop 2 body)), payload, packetID, packet_qos header))))"
      using False len enough by (simp add: decodePublish_def Let_def pid_def props_def go_slice_def)
    then show ?thesis using pid props
      by (auto simp: go_slice_def res_bind_Panic_iff)
  qed
qed (simp add: decodePublish_def)

text \<open>
  Property C38. Whatever a broker sends, no slice of the decoders is out of bounds: reading a packet, connecting,
  subscribing, decoding and handling fail with an error at worst.
\<close>

theorem mqtt_input_never_panics:
  "readMQTTPacket input \<noteq> Inl Panic \<and> decodePublish header body protocol \<noteq> Inl Panic \<and>
   fst (mqttConnect clientID username password protocol input) \<noteq> Inl Panic \<and>
   fst (mqttSubscribe topic qos protocol input) \<noteq> Inl Panic \<and>
   fst (handle_packet env integration protocol packet s) \<noteq> Inl Panic"
proof (intro conjI)
  show "fst (mqttConnect clientID username password protocol input) \<noteq> Inl Panic"
    by (auto simp: mqttConnect_def go_index_def readMQTTPacket_safe res_bind_Panic_iff split: if_splits)
  show "fst (mqttSubscribe topic qos protocol input) \<noteq> Inl Panic"
    by (auto simp: mqttSubscribe_def go_index_def go_slice_def decodeMQTTVarInt_def readMQTTPacket_safe var_int_safe
        res_bind_Panic_iff split: if_splits)
  have "res_bind (go_slice b 0 2) BigEndian_Uint16 \<noteq> Inl Panic" if "\<not> length b < 2" for b
    using slice0_Uint16_ok [OF that] by auto
  then show "fst (handle_packet env integration protocol packet s) \<noteq> Inl Panic"
    using decodePublish_safe
    by (auto simp: handle_packet_def Let_def split: prod.split sum.split if_split)
qed (rule readMQTTPacket_safe decodePublish_safe)+

section \<open>Exactly once\<close>

text \<open>What a packet means to the session, and the session as a machine on those meanings.\<close>

datatype mqtt_event = Give string bytes | Hold "16 word" string bytes | Release "16 word" | Nothing | Bad

definition classify :: "int \<Rightarrow> 8 word \<times> bytes \<Rightarrow> mqtt_event" where
  "classify protocol packet =
     (let (header, body) = packet in
      if drop_bit 4 header = 3 then
        (case decodePublish header body protocol of
           Inl e \<Rightarrow> Bad
         | Inr (topic, payload, packetID, qos) \<Rightarrow>
             if qos = 0 \<or> qos = 1 then Give topic payload
             else if qos = 2 then (if packetID = 0 then Bad else Hold packetID topic payload)
             else Nothing)
      else if drop_bit 4 header = 6 then
        (if length body < 2 then Bad
         else case res_bind (go_slice body 0 2) BigEndian_Uint16 of
           Inl e \<Rightarrow> Bad | Inr packetID \<Rightarrow> Release packetID)
      else Nothing)"

type_synonym held = "(16 word \<rightharpoonup> string \<times> bytes) \<times> (string \<times> bytes) list"

fun hold_step :: "mqtt_event \<Rightarrow> held \<Rightarrow> held" where
  "hold_step (Give t x) (m, out) = (m, out @ [(t, x)])"
| "hold_step (Hold i t x) (m, out) = (if m i = None then m(i \<mapsto> (t, x)) else m, out)"
| "hold_step (Release i) (m, out) = (case m i of Some p \<Rightarrow> (m(i := None), out @ [p]) | None \<Rightarrow> (m, out))"
| "hold_step _ held = held"

definition held_of :: "'w mqtt_session \<Rightarrow> held" where
  "held_of s = (ms_pending s, ms_published s)"

lemma held_publish [simp]:
  "held_of (publishPayload env integration t x s) = (ms_pending s, ms_published s @ [(t, x)])"
  by (simp add: held_of_def publishPayload_def Let_def split: prod.split)

lemma pending_publish [simp]: "ms_pending (publishPayload env integration t x s) = ms_pending s"
  "ms_published (publishPayload env integration t x s) = ms_published s @ [(t, x)]"
  by (simp_all add: publishPayload_def Let_def split: prod.split)

lemma held_write [simp]: "held_of (write_ack k i s) = held_of s"
  by (simp add: held_of_def write_ack_def)

lemma handle_packet_refines:
  assumes "handle_packet env integration protocol packet s = (Inr (), s')"
  shows "held_of s' = hold_step (classify protocol packet) (held_of s)"
proof -
  obtain header body where packet: "packet = (header, body)" by (cases packet)
  consider (publish) topic payload i qos where "drop_bit 4 header = 3"
      "decodePublish header body protocol = Inr (topic, payload, i, qos)"
    | (release) i where "drop_bit 4 header = 6" "\<not> length body < 2"
      "res_bind (go_slice body 0 2) BigEndian_Uint16 = Inr i"
    | (other) "drop_bit 4 header \<noteq> 3" "drop_bit 4 header \<noteq> 6"
    using assms unfolding packet handle_packet_def Let_def prod.case
    by (cases "decodePublish header body protocol"; cases "res_bind (go_slice body 0 2) BigEndian_Uint16")
      (auto split: if_split_asm)
  then show ?thesis
  proof cases
    case publish
    have "handle_packet env integration protocol packet s =
        (if qos = 0 then (Inr (), publishPayload env integration topic payload s)
         else if qos = 1 then (Inr (), if i \<noteq> 0 then write_ack 0x40 i (publishPayload env integration topic payload s)
              else publishPayload env integration topic payload s)
         else if qos = 2 then
           if i = 0 then (Inl (Err ''MQTT QoS 2 PUBLISH is missing packet id''), s)
           else (Inr (), write_ack 0x50 i (case ms_pending s i of
                   None \<Rightarrow> s\<lparr>ms_pending := (ms_pending s)(i \<mapsto> (topic, payload))\<rparr> | Some _ \<Rightarrow> s))
         else (Inr (), s))"
      by (simp add: packet handle_packet_def publish Let_def)
    moreover have "classify protocol packet = (if qos = 0 \<or> qos = 1 then Give topic payload
        else if qos = 2 then (if i = 0 then Bad else Hold i topic payload) else Nothing)"
      by (simp add: packet classify_def publish)
    ultimately show ?thesis using assms
      by (simp split: if_split_asm option.split_asm) (auto simp: held_of_def)
  next
    case release
    then show ?thesis using assms
      by (simp add: packet handle_packet_def classify_def Let_def split: option.split_asm prod.split_asm)
        (auto simp: held_of_def write_ack_def split: prod.split)
  next
    case other
    then show ?thesis using assms by (simp add: packet handle_packet_def classify_def)
  qed
qed

lemma handle_packets_refine:
  "handle_packets env integration protocol ps s = (Inr (), s') \<Longrightarrow>
     held_of s' = fold (\<lambda>p. hold_step (classify protocol p)) ps (held_of s)"
proof (induction ps arbitrary: s)
  case (Cons p ps)
  then obtain s1 where "handle_packet env integration protocol p s = (Inr (), s1)"
    "handle_packets env integration protocol ps s1 = (Inr (), s')"
    by (auto split: sum.splits prod.splits)
  then show ?case using Cons.IH handle_packet_refines by fastforce
qed simp

text \<open>While an identifier is held, nothing but its release touches it.\<close>

lemma hold_step_other:
  assumes "e \<noteq> Release i" "\<forall>t x. e \<noteq> Hold i t x"
  shows "hold_step e (m(i \<mapsto> p), out) =
    (case hold_step e (m(i := None), out) of (m', out') \<Rightarrow> (m'(i \<mapsto> p), out')) \<and>
    fst (hold_step e (m(i := None), out)) i = None"
  using assms by (cases e) (auto simp: fun_upd_twist split: option.split)

definition holds :: "16 word \<Rightarrow> mqtt_event \<Rightarrow> bool" where
  "holds i e \<longleftrightarrow> (\<exists>t x. e = Hold i t x)"

lemma fold_held:
  assumes "Release i \<notin> set es" "m i = None"
  shows "\<exists>m' out'. fold hold_step (filter (\<lambda>e. \<not> holds i e) es) (m, out) = (m', out') \<and> m' i = None \<and>
    fold hold_step es (m(i \<mapsto> p), out) = (m'(i \<mapsto> p), out')"
  using assms
proof (induction es arbitrary: m out)
  case (Cons e es)
  have m: "m(i := None) = m" using Cons.prems(2) by auto
  show ?case
  proof (cases "holds i e")
    case True
    then show ?thesis using Cons by (auto simp: holds_def)
  next
    case False
    obtain m1 out1 where s: "hold_step e (m, out) = (m1, out1)" by (cases "hold_step e (m, out)")
    have "hold_step e (m(i \<mapsto> p), out) = (m1(i \<mapsto> p), out1)" "m1 i = None"
      using hold_step_other [of e i m p out] False Cons.prems(1) s unfolding m by (auto simp: holds_def)
    then show ?thesis using Cons.IH [of m1 out1] Cons.prems(1) False s by (simp del: fun_upd_apply)
  qed
qed simp

text \<open>
  Property C23. A publication of quality of service 2 is published exactly once, when its identifier is released:
  neither the repetitions of the packet before nor those of the release afterwards publish anything, and
  the session otherwise does what it does without them. (A publication is published when \<open>Publish\<close> is
  called with it; the session does not try again when this call fails.)
\<close>

theorem qos2_exactly_once:
  assumes run: "handle_packets env integration protocol (first # mid @ release # repeats) s = (Inr (), s')"
    and first: "classify protocol first = Hold i topic payload" "ms_pending s i = None"
    and mid: "Release i \<notin> classify protocol ` set mid"
    and release: "classify protocol release = Release i" "\<forall>p\<in>set repeats. classify protocol p = Release i"
  shows "held_of s' = (case fold hold_step (filter (\<lambda>e. \<not> holds i e) (map (classify protocol) mid)) (held_of s)
      of (m, out) \<Rightarrow> (m, out @ [(topic, payload)]))"
proof -
  let ?es = "map (classify protocol) mid"
  obtain m out where m: "fold hold_step (filter (\<lambda>e. \<not> holds i e) ?es) (held_of s) = (m, out)" "m i = None"
      "fold hold_step ?es ((ms_pending s)(i \<mapsto> (topic, payload)), ms_published s) = (m(i \<mapsto> (topic, payload)), out)"
    using fold_held [of i ?es "ms_pending s" "ms_published s" "(topic, payload)"] mid first(2)
    by (auto simp: held_of_def)
  have rep: "fold (\<lambda>p. hold_step (classify protocol p)) ps (m', out') = (m', out')"
    if "\<forall>p\<in>set ps. classify protocol p = Release i" "m' i = None" for ps m' out'
    using that by (induction ps) auto
  have "m(i := None) = m" using m(2) by auto
  then show ?thesis
    using handle_packets_refine [OF run] first m rep [OF release(2)] release(1)
    by (simp add: held_of_def fold_map comp_def)
qed

lemma handle_packets_ok:
  "\<forall>p\<in>set ps. classify protocol p \<noteq> Bad \<Longrightarrow> \<exists>s'. handle_packets env integration protocol ps s = (Inr (), s')"
proof (induction ps arbitrary: s)
  case (Cons p ps)
  obtain header body where p: "p = (header, body)" by (cases p)
  have "\<exists>s1. handle_packet env integration protocol p s = (Inr (), s1)"
    using Cons.prems unfolding p
    by (simp add: handle_packet_def classify_def Let_def split: sum.split prod.split)
      (auto split: sum.split_asm if_split_asm)
  then show ?case using Cons by fastforce
qed simp

definition demo_mqtt_env :: "unit mqtt_env" where
  "demo_mqtt_env = \<lparr>mq_engine = demo_env, UpdateMQTTIntegrationStatus = (\<lambda>_ _ _ _ _ _ _ w. (Inr (), w))\<rparr>"

definition demo_session :: "unit mqtt_session" where
  "demo_session = \<lparr>ms_engine = demo_engine, ms_pending = Map.empty, ms_written = [], ms_published = []\<rparr>"

lemma demo_packets:
  "classify 4 (0x34, [0, 1, 97, 0, 7, 65]) = Hold 7 ''a'' [65]"
  "classify 4 (0x3C, [0, 1, 97, 0, 7, 66]) = Hold 7 ''a'' [66]"
  "classify 4 (0x62, [0, 7]) = Release 7"
proof -
  have "char_of (97 :: nat) = CHR ''a''" by code_simp
  then show "classify 4 (0x34, [0, 1, 97, 0, 7, 65]) = Hold 7 ''a'' [65]"
    "classify 4 (0x3C, [0, 1, 97, 0, 7, 66]) = Hold 7 ''a'' [66]"
    "classify 4 (0x62, [0, 7]) = Release 7"
    by (simp_all add: classify_def decodePublish_def go_slice_def BigEndian_Uint16_def go_index_def packet_qos_def
        string_of_def Let_def)
qed

theorem qos2_exactly_once_witness:
  "\<exists>s'. handle_packets demo_mqtt_env undefined 4 [(0x34, [0, 1, 97, 0, 7, 65]), (0x3C, [0, 1, 97, 0, 7, 66]),
      (0x62, [0, 7]), (0x62, [0, 7])] demo_session = (Inr (), s') \<and> held_of s' = (Map.empty, [(''a'', [65])])"
proof -
  let ?ps = "[(0x34, [0, 1, 97, 0, 7, 65]), (0x3C, [0, 1, 97, 0, 7, 66]), (0x62, [0, 7]), (0x62, [0, 7])]"
  obtain s' where s': "handle_packets demo_mqtt_env undefined 4 ?ps demo_session = (Inr (), s')"
    using handle_packets_ok [of ?ps 4 demo_mqtt_env undefined demo_session] by (auto simp: demo_packets)
  moreover have "held_of s' = (Map.empty, [(''a'', [65])])"
    using qos2_exactly_once [of demo_mqtt_env undefined 4 "(0x34, [0, 1, 97, 0, 7, 65])" "[(0x3C, [0, 1, 97, 0, 7, 66])]"
        "(0x62, [0, 7])" "[(0x62, [0, 7])]" demo_session s' 7 "''a''" "[65]"] s'
    by (simp add: demo_packets demo_session_def held_of_def holds_def)
  ultimately show ?thesis by blast
qed

end
