(* ===== verification/Lease.thy ===== *)
theory Lease
  imports Database_Laws
begin

text \<open>
  The leases by which several servers share the automation work: \<open>TryAcquireAutomationLease\<close> and
  \<open>ReleaseAutomationLease\<close> of \<open>src/database/automation.go\<close>. The locale \<open>lease_service\<close> states what a caller
  may rely on and proves that a lease is exclusive; the table of the database is its instance.
\<close>

section \<open>The code\<close>

text \<open>The conditional update of a lease, with the number of rows it met, and the creation of a new one.\<close>

definition renew_lease :: "string \<Rightarrow> string \<Rightarrow> time \<Rightarrow> time \<Rightarrow> gorm_db \<Rightarrow> nat res \<times> gorm_db" where
  "renew_lease name holder now expires t =
     (let due = (\<lambda>l. ls_Name l = name \<and> (ls_Holder l = holder \<or> ls_ExpiresAt l \<le> now)) in
      (Inr (length (filter due (tb_leases t))),
       t\<lparr>tb_leases := map (\<lambda>l. if due l then l\<lparr>ls_Holder := holder, ls_ExpiresAt := expires, ls_UpdatedAt := now\<rparr> else l)
           (tb_leases t)\<rparr>))"

definition insert_lease :: "automation_lease \<Rightarrow> gorm_db \<Rightarrow> unit res \<times> gorm_db" where
  "insert_lease l t =
     (if ls_Name l \<in> ls_Name ` set (tb_leases t) then (Inl duplicated_key, t)
      else (Inr (), t\<lparr>tb_leases := tb_leases t @ [l]\<rparr>))"

definition db_TryAcquireAutomationLease :: "string \<Rightarrow> string \<Rightarrow> time \<Rightarrow> duration \<Rightarrow> bool db" where
  "db_TryAcquireAutomationLease name holder now ttl s =
     (let expires = now + ttl in
      case statement (renew_lease name holder now expires) s of
        (Inl e, s) \<Rightarrow> (Inl e, s)
      | (Inr rows, s) \<Rightarrow>
          if rows > 0 then (Inr True, s)
          else
            let lease = \<lparr>ls_Name = name, ls_Holder = holder, ls_ExpiresAt = expires, ls_UpdatedAt = now\<rparr> in
            case statement (insert_lease lease) s of
              (Inr _, s) \<Rightarrow> (Inr True, s)
            | (Inl e, s) \<Rightarrow> if e = duplicated_key then (Inr False, s) else (Inl e, s))"

definition ReleaseAutomationLease :: "string \<Rightarrow> string \<Rightarrow> unit db" where
  "ReleaseAutomationLease name holder = exec (\<lambda>t. t\<lparr>tb_leases :=
     filter (\<lambda>l. \<not> (ls_Name l = name \<and> ls_Holder l = holder)) (tb_leases t)\<rparr>)"

section \<open>The contract\<close>

text \<open>The calls that servers make, in the order in which the database runs them.\<close>

datatype lease_call = Acquire string string time duration | Release string string

locale lease_service =
  fixes acquire :: "string \<Rightarrow> string \<Rightarrow> time \<Rightarrow> duration \<Rightarrow> 's \<Rightarrow> bool res \<times> 's"
    and release :: "string \<Rightarrow> string \<Rightarrow> 's \<Rightarrow> unit res \<times> 's"
    and lease_of :: "'s \<Rightarrow> string \<Rightarrow> (string \<times> time) option"
    and ok :: "'s \<Rightarrow> bool"
  assumes granted: "ok s \<Longrightarrow> acquire n h now ttl s = (Inr True, s') \<Longrightarrow>
      lease_of s' = (lease_of s)(n \<mapsto> (h, now + ttl)) \<and>
      (\<forall>g e. lease_of s n = Some (g, e) \<longrightarrow> g = h \<or> e \<le> now)"
    and refused: "ok s \<Longrightarrow> acquire n h now ttl s = (a, s') \<Longrightarrow> a \<noteq> Inr True \<Longrightarrow> lease_of s' = lease_of s"
    and released: "ok s \<Longrightarrow> release n h s = (b, s') \<Longrightarrow> lease_of s' = lease_of s \<or>
      lease_of s' = (if \<exists>e. lease_of s n = Some (h, e) then (lease_of s)(n := None) else lease_of s)"
    and kept: "ok s \<Longrightarrow> acquire n h now ttl s = (a, s') \<Longrightarrow> ok s'"
      "ok s \<Longrightarrow> release n h s = (b, s'') \<Longrightarrow> ok s''"
begin

fun run_call :: "lease_call \<Rightarrow> 's \<Rightarrow> bool \<times> 's" where
  "run_call (Acquire n h now ttl) s = (case acquire n h now ttl s of (r, s) \<Rightarrow> (r = Inr True, s))"
| "run_call (Release n h) s = (False, snd (release n h s))"

fun run_calls :: "lease_call list \<Rightarrow> 's \<Rightarrow> 's" where
  "run_calls [] s = s"
| "run_calls (c # cs) s = run_calls cs (snd (run_call c s))"

lemma holder_kept:
  assumes "ok s" and "lease_of s n = Some (h, e)"
    and "\<forall>c\<in>set cs. (case c of Acquire m g now ttl \<Rightarrow> m = n \<longrightarrow> g \<noteq> h \<and> now < e | Release m g \<Rightarrow> m = n \<longrightarrow> g \<noteq> h)"
  shows "ok (run_calls cs s) \<and> lease_of (run_calls cs s) n = Some (h, e)"
  using assms
proof (induction cs arbitrary: s)
  case (Cons c cs)
  have "ok (snd (run_call c s)) \<and> lease_of (snd (run_call c s)) n = Some (h, e)"
  proof (cases c)
    case (Acquire m g now ttl)
    obtain r s' where a: "acquire m g now ttl s = (r, s')" by fastforce
    have ok: "ok s'" using kept(1) [OF Cons.prems(1) a] .
    show ?thesis
    proof (cases "r = Inr True")
      case True
      have "m \<noteq> n"
        using granted [OF Cons.prems(1) a [unfolded True]] Cons.prems(2,3) Acquire by force
      then show ?thesis
        using granted [OF Cons.prems(1) a [unfolded True]] Acquire a ok Cons.prems(2) by simp
    next
      case False
      then show ?thesis using refused [OF Cons.prems(1) a] Acquire a ok Cons.prems(2) by simp
    qed
  next
    case (Release m g)
    obtain r s' where a: "release m g s = (r, s')" by fastforce
    show ?thesis
      using released [OF Cons.prems(1) a] kept(2) [OF Cons.prems(1) a] Cons.prems(2,3) Release a
      by (auto split: if_splits)
  qed
  then show ?case using Cons.IH Cons.prems(3) by simp
qed simp

lemma exclusive:
  assumes "ok s" and "acquire n h t ttl s = (Inr True, s1)"
    and "\<forall>c\<in>set cs. (case c of Acquire m g now d \<Rightarrow> m = n \<longrightarrow> g \<noteq> h \<and> now < t + ttl
      | Release m g \<Rightarrow> m = n \<longrightarrow> g \<noteq> h)"
    and "g \<noteq> h" and "now < t + ttl"
  shows "fst (acquire n g now d (run_calls cs s1)) \<noteq> Inr True"
proof
  have "ok s1" "lease_of s1 n = Some (h, t + ttl)"
    using kept(1) granted assms(1,2) by (blast, fastforce)
  then have k: "ok (run_calls cs s1)" "lease_of (run_calls cs s1) n = Some (h, t + ttl)"
    using holder_kept assms(3) by blast+
  assume "fst (acquire n g now d (run_calls cs s1)) = Inr True"
  then have "acquire n g now d (run_calls cs s1) = (Inr True, snd (acquire n g now d (run_calls cs s1)))"
    by (simp add: prod_eq_iff)
  from granted [OF k(1) this] k(2) assms(4,5) show False by simp
qed

end

section \<open>The table is an instance\<close>

definition lease_row :: "session \<Rightarrow> string \<Rightarrow> (string \<times> time) option" where
  "lease_row s n = map_option (\<lambda>l. (ls_Holder l, ls_ExpiresAt l)) (find (\<lambda>l. ls_Name l = n) (tb_leases (tables s)))"

definition leases_ok :: "session \<Rightarrow> bool" where
  "leases_ok s \<longleftrightarrow> distinct (map ls_Name (tb_leases (tables s)))"

lemma lease_row_update: "lease_row (s\<lparr>tables := (tables s)\<lparr>tb_leases := ls\<rparr>\<rparr>) n =
    map_option (\<lambda>l. (ls_Holder l, ls_ExpiresAt l)) (find (\<lambda>l. ls_Name l = n) ls)"
  by (simp add: lease_row_def)

lemma find_unique:
  assumes "distinct (map k xs)" "x \<in> set xs"
  shows "find (\<lambda>y. k y = k x) xs = Some x"
  using assms by (induction xs) auto

lemma renew_lease_leases:
  assumes "distinct (map ls_Name (tb_leases t))" and "renew_lease n h now e t = (r, t')"
  obtains (free) "r = Inr 0" "t' = t"
      "find (\<lambda>l. ls_Name l = n) (tb_leases t) = None \<or>
       (\<exists>l. find (\<lambda>l. ls_Name l = n) (tb_leases t) = Some l \<and> ls_Holder l \<noteq> h \<and> now < ls_ExpiresAt l)"
  | (due) l rows where "r = Inr rows" "0 < rows" "find (\<lambda>l. ls_Name l = n) (tb_leases t) = Some l"
      "ls_Holder l = h \<or> ls_ExpiresAt l \<le> now" "map ls_Name (tb_leases t') = map ls_Name (tb_leases t)"
      "\<And>m. find (\<lambda>l. ls_Name l = m) (tb_leases t') = (if m = n
         then Some (l\<lparr>ls_Holder := h, ls_ExpiresAt := e, ls_UpdatedAt := now\<rparr>)
         else find (\<lambda>l. ls_Name l = m) (tb_leases t))"
proof -
  let ?due = "\<lambda>l. ls_Name l = n \<and> (ls_Holder l = h \<or> ls_ExpiresAt l \<le> now)"
  let ?f = "\<lambda>l. if ?due l then l\<lparr>ls_Holder := h, ls_ExpiresAt := e, ls_UpdatedAt := now\<rparr> else l"
  have r: "r = Inr (length (filter ?due (tb_leases t)))" and t': "t' = t\<lparr>tb_leases := map ?f (tb_leases t)\<rparr>"
    using assms(2) by (auto simp: renew_lease_def Let_def)
  have name: "ls_Name (?f l) = ls_Name l" for l by simp
  show thesis
  proof (cases "\<exists>l\<in>set (tb_leases t). ?due l")
    case False
    then have "map ?f (tb_leases t) = tb_leases t" by (intro map_idI) auto
    moreover have "filter ?due (tb_leases t) = []" using False by (simp add: filter_empty_conv)
    moreover have "\<And>l. find (\<lambda>l. ls_Name l = n) (tb_leases t) = Some l \<Longrightarrow> ls_Holder l \<noteq> h \<and> now < ls_ExpiresAt l"
      using False by (fastforce dest: find_SomeD)
    ultimately show thesis using free r t' by (cases "find (\<lambda>l. ls_Name l = n) (tb_leases t)") auto
  next
    case True
    then obtain l where l: "l \<in> set (tb_leases t)" "?due l" by blast
    have found: "find (\<lambda>y. ls_Name y = n) (tb_leases t) = Some l"
      using find_unique [OF assms(1) l(1)] l(2) by simp
    have "find (\<lambda>l. ls_Name l = m) (tb_leases t') = map_option ?f (find (\<lambda>l. ls_Name l = m) (tb_leases t))" for m
      unfolding t' by (simp add: find_map_keep)
    moreover have "map_option ?f (find (\<lambda>l. ls_Name l = m) (tb_leases t)) = find (\<lambda>l. ls_Name l = m) (tb_leases t)"
      if "m \<noteq> n" for m
      using that by (cases "find (\<lambda>l. ls_Name l = m) (tb_leases t)") (auto dest: find_SomeD)
    moreover have "0 < length (filter ?due (tb_leases t))" using True by (auto simp: filter_empty_conv)
    moreover have "map ls_Name (tb_leases t') = map ls_Name (tb_leases t)" unfolding t' using name by simp
    ultimately show thesis using due [OF r _ found] l(2) found by simp
  qed
qed

lemma acquire_outcome:
  assumes ok: "leases_ok s" and run: "db_TryAcquireAutomationLease n h now ttl s = (r, s')"
  shows "leases_ok s' \<and>
    (r = Inr True \<longrightarrow> lease_row s' = (lease_row s)(n \<mapsto> (h, now + ttl)) \<and>
       (\<forall>g e. lease_row s n = Some (g, e) \<longrightarrow> g = h \<or> e \<le> now)) \<and>
    (r \<noteq> Inr True \<longrightarrow> lease_row s' = lease_row s)"
proof -
  let ?renew = "renew_lease n h now (now + ttl)"
  let ?lease = "\<lparr>ls_Name = n, ls_Holder = h, ls_ExpiresAt = now + ttl, ls_UpdatedAt = now\<rparr>"
  obtain q s1 where st: "statement ?renew s = (q, s1)" by fastforce
  have same: "tables s' = tables s \<Longrightarrow> leases_ok s' \<and> lease_row s' = lease_row s" for s'
    using ok by (simp add: leases_ok_def lease_row_def fun_eq_iff)
  show ?thesis
  proof (cases q)
    case (Inl e)
    have "fst (?renew (tables s)) \<noteq> Inl e" by (simp add: renew_lease_def Let_def)
    then have "tables s1 = tables s" using statement_Inl [OF st [unfolded Inl]] by blast
    moreover have "s' = s1" "r = Inl e" using run st Inl by (simp_all add: db_TryAcquireAutomationLease_def Let_def)
    ultimately show ?thesis using same [of s1] by simp
  next
    case (Inr rows)
    have t1: "?renew (tables s) = (Inr rows, tables s1)"
      using statement_Inr [OF st [unfolded Inr]] by (simp add: prod_eq_iff)
    show ?thesis
      using ok [unfolded leases_ok_def] t1
    proof (cases rule: renew_lease_leases)
      case (due l rows')
      then have "r = Inr True" "s' = s1" using run st Inr by (auto simp: db_TryAcquireAutomationLease_def Let_def)
      then show ?thesis using due ok by (auto simp: leases_ok_def lease_row_def fun_eq_iff)
    next
      case free
      have rest: "(case statement (insert_lease ?lease) s1 of (Inr _, s) \<Rightarrow> (Inr True, s)
          | (Inl e, s) \<Rightarrow> if e = duplicated_key then (Inr False, s) else (Inl e, s)) = (r, s')"
        using run st Inr free(1) by (simp add: db_TryAcquireAutomationLease_def Let_def)
      obtain p s2 where ins: "statement (insert_lease ?lease) s1 = (p, s2)" by fastforce
      show ?thesis
      proof (cases p)
        case (Inl e)
        have "tables s2 = tables s"
          using statement_Inl [OF ins [unfolded Inl]] free(2) by (auto simp: insert_lease_def split: if_splits)
        moreover have "s' = s2" "r \<noteq> Inr True" using rest ins Inl by (auto split: if_splits)
        ultimately show ?thesis using same [of s2] by simp
      next
        case (Inr x)
        have new: "n \<notin> ls_Name ` set (tb_leases (tables s))"
            "tables s2 = (tables s)\<lparr>tb_leases := tb_leases (tables s) @ [?lease]\<rparr>"
          using statement_Inr [OF ins [unfolded Inr]] free(2) by (auto simp: insert_lease_def split: if_splits)
        then have none: "find (\<lambda>l. ls_Name l = n) (tb_leases (tables s)) = None"
          by (auto simp: find_None_iff)
        have "lease_row s2 = (lease_row s)(n \<mapsto> (h, now + ttl))"
          using new(2) none by (auto simp: lease_row_def fun_eq_iff find_append split: option.splits)
        moreover have "leases_ok s2" using ok new by (simp add: leases_ok_def)
        moreover have "r = Inr True" "s' = s2" using rest ins Inr by simp_all
        ultimately show ?thesis using none by (simp add: lease_row_def)
      qed
    qed
  qed
qed

lemma release_outcome:
  assumes ok: "leases_ok s" and run: "ReleaseAutomationLease n h s = (r, s')"
  shows "leases_ok s' \<and> (lease_row s' = lease_row s \<or>
    lease_row s' = (if \<exists>e. lease_row s n = Some (h, e) then (lease_row s)(n := None) else lease_row s))"
proof (cases r)
  case (Inl e)
  then have "tables s' = tables s" using run by (auto simp: ReleaseAutomationLease_def dest: exec_Inl)
  then show ?thesis using ok by (simp add: leases_ok_def lease_row_def fun_eq_iff)
next
  case (Inr x)
  let ?keep = "\<lambda>l. \<not> (ls_Name l = n \<and> ls_Holder l = h)"
  have t: "tb_leases (tables s') = filter ?keep (tb_leases (tables s))"
    using run Inr by (auto simp: ReleaseAutomationLease_def dest!: exec_Inr)
  have row: "lease_row s' m = (case find (\<lambda>l. ls_Name l = m) (tb_leases (tables s)) of None \<Rightarrow> None
      | Some l \<Rightarrow> if ?keep l then Some (ls_Holder l, ls_ExpiresAt l) else None)" for m
    using find_filter_unique [OF ok [unfolded leases_ok_def], of m ?keep]
    by (simp add: lease_row_def t split: option.splits)
  have "leases_ok s'" using ok by (simp add: leases_ok_def t distinct_map_filter)
  moreover have "lease_row s' m = (if \<exists>e. lease_row s n = Some (h, e) then (lease_row s)(n := None) else lease_row s) m" for m
  proof (cases "find (\<lambda>l. ls_Name l = m) (tb_leases (tables s))")
    case None
    then show ?thesis by (cases "m = n") (simp_all add: row lease_row_def [of s])
  next
    case (Some l)
    then have "ls_Name l = m" by (auto dest: find_SomeD)
    then show ?thesis using Some by (cases "m = n") (simp_all add: row lease_row_def [of s])
  qed
  ultimately show ?thesis by (simp add: fun_eq_iff)
qed

interpretation leases: lease_service db_TryAcquireAutomationLease ReleaseAutomationLease lease_row leases_ok
proof
  show "lease_row s' = (lease_row s)(n \<mapsto> (h, now + ttl)) \<and> (\<forall>g e. lease_row s n = Some (g, e) \<longrightarrow> g = h \<or> e \<le> now)"
    if "leases_ok s" "db_TryAcquireAutomationLease n h now ttl s = (Inr True, s')" for s n h now ttl s'
    using acquire_outcome [OF that] by simp
qed (use acquire_outcome release_outcome in blast)+

text \<open>
  Property C20. A lease is exclusive: once a server got a lease for a time, then whatever calls on leases
  follow, of any servers, for any leases and failing or not, no other server gets this lease before the
  time is over, unless the holder itself releases or renews it in between.
\<close>

theorem lease_exclusive:
  assumes "leases_ok s"
    and "db_TryAcquireAutomationLease name holder t ttl s = (Inr True, s1)"
    and "\<forall>c\<in>set calls. (case c of
        Acquire m g now d \<Rightarrow> m = name \<longrightarrow> g \<noteq> holder \<and> now < t + ttl
      | Release m g \<Rightarrow> m = name \<longrightarrow> g \<noteq> holder)"
    and "other \<noteq> holder" and "now < t + ttl"
  shows "fst (db_TryAcquireAutomationLease name other now d (leases.run_calls calls s1)) \<noteq> Inr True"
  using assms by (rule leases.exclusive)

theorem lease_exclusive_witness:
  "fst (db_TryAcquireAutomationLease ''scheduler'' ''b'' 20 25
     (leases.run_calls [Acquire ''scheduler'' ''c'' 15 25, Release ''scheduler'' ''c'']
       (snd (db_TryAcquireAutomationLease ''scheduler'' ''a'' 10 25 demo_session)))) \<noteq> Inr True"
proof -
  have "leases_ok demo_session" by (simp add: leases_ok_def demo_session_def demo_tables_def)
  moreover have "db_TryAcquireAutomationLease ''scheduler'' ''a'' 10 25 demo_session =
      (Inr True, snd (db_TryAcquireAutomationLease ''scheduler'' ''a'' 10 25 demo_session))"
    by (simp add: db_TryAcquireAutomationLease_def statement_def renew_lease_def insert_lease_def
        demo_session_def demo_tables_def Let_def)
  ultimately show ?thesis by (rule lease_exclusive) simp_all
qed

end
