(* ===== verification/Messages.thy ===== *)
theory Messages
  imports Channels
begin

text \<open>
  The handlers of messages of \<open>src/api/message.go\<close> on the database: reading in pages, archiving, deleting and
  posting. The dispatcher, the notifier, JSON and the file system are fields of \<open>message_api\<close>.
\<close>

record 'w message_api =
  ma_env :: "'w engine_env"
  ma_Dispatcher :: "(message \<Rightarrow> 'w server \<Rightarrow> message_external res \<times> 'w server) option"
  ma_Notify :: "nat \<Rightarrow> message_external \<Rightarrow> 'w \<Rightarrow> 'w"
  ma_AttachmentDir :: string
  ma_Remove :: "string \<Rightarrow> string \<Rightarrow> 'w \<Rightarrow> 'w"
  ma_timeNow :: "'w \<Rightarrow> time"
  ma_Marshal :: "json_object \<Rightarrow> bytes res"

text \<open>A call of another component, followed by \<open>successOrAbort\<close>.\<close>

definition h_call :: "nat \<Rightarrow> ('w server \<Rightarrow> 'a res \<times> 'w server) \<Rightarrow> ('w, 'a) handler" where
  "h_call code f s =
     (case f (ctx_world s) of
        (Inl e, w) \<Rightarrow> aborted code e (s\<lparr>ctx_world := w\<rparr>)
      | (Inr x, w) \<Rightarrow> (Some x, s\<lparr>ctx_world := w\<rparr>))"

section \<open>Pages\<close>

record paging_params =
  pp_Limit :: int
  pp_Since :: nat
  pp_Archived :: bool

text \<open>The tags of the structure let the binding accept 1 to 200 messages.\<close>

definition withPaging :: "paging_params res \<Rightarrow> (paging_params \<Rightarrow> ('w, 'a) handler) \<Rightarrow> ('w, 'a) handler" where
  "withPaging form f =
     h_bind (h_Bind (case form of Inl e \<Rightarrow> Inl e
       | Inr p \<Rightarrow> if 1 \<le> pp_Limit p \<and> pp_Limit p \<le> 200 then Inr p else Inl (Err ''invalid limit''))) f"

definition next_link :: "string \<Rightarrow> paging_params \<Rightarrow> nat \<Rightarrow> string" where
  "next_link path p since =
     path @ ''?'' @ (if pp_Archived p then ''archived=true&'' else '''') @ ''limit='' @ show_int (pp_Limit p) @
     ''&since='' @ show_nat since"

text \<open>One message more than the limit tells that there are more; indexing an empty slice panics.\<close>

definition buildWithPaging :: "'w message_api \<Rightarrow> paging_params \<Rightarrow> message list \<Rightarrow> ('w, paged_messages) handler" where
  "buildWithPaging api p messages s =
     (let more = int (length messages) > pp_Limit p;
          useMessages = (if more then butlast messages else messages);
          since = (if more then msg_ID (last useMessages) else 0);
          next' = (if more then next_link (rq_path (ctx_request s)) p since else '''') in
      if more \<and> useMessages = [] then aborted 500 Panic s
      else h_return \<lparr>pgm_Paging = \<lparr>pg_Next = next', pg_Size = int (length useMessages), pg_Since = since,
          pg_Limit = pp_Limit p\<rparr>, pgm_Messages = map (toExternalMessage (ma_env api)) useMessages\<rparr> s)"

definition GetMessages :: "'w message_api \<Rightarrow> paging_params res \<Rightarrow> ('w, paged_messages) handler" where
  "GetMessages api form =
     h_bind h_user (\<lambda>userID.
     withPaging form (\<lambda>p.
     h_bind (successOrAbort 500 (if pp_Archived p
       then GetArchivedMessagesByUserSince userID (pp_Limit p + 1) (pp_Since p)
       else GetMessagesByUserSince userID (pp_Limit p + 1) (pp_Since p))) (buildWithPaging api p)))"

definition GetMessagesWithApplication ::
  "'w message_api \<Rightarrow> string \<Rightarrow> paging_params res \<Rightarrow> ('w, paged_messages) handler" where
  "GetMessagesWithApplication api param form = withID param (\<lambda>i.
     withPaging form (\<lambda>p.
     h_bind h_user (\<lambda>userID.
     h_bind (successOrAbort 500 (db_GetApplicationByID i)) (\<lambda>app.
     h_bind (successOrAbort 500 (db_GetApplicationMembership i userID)) (\<lambda>membership.
     if app \<noteq> None \<and> membership \<noteq> None
     then h_bind (successOrAbort 500 (if pp_Archived p
       then GetArchivedMessagesByApplicationForUserSince userID i (pp_Limit p + 1) (pp_Since p)
       else GetMessagesByApplicationForUserSince userID i (pp_Limit p + 1) (pp_Since p))) (buildWithPaging api p)
     else aborted 404 (Err ''application does not exist''))))))"

section \<open>Archiving\<close>

definition ArchiveMessages :: "('w, unit) handler" where
  "ArchiveMessages = h_bind h_user (\<lambda>userID. successOrAbort 500 (ArchiveMessagesByUser userID))"

definition UnarchiveMessages :: "('w, unit) handler" where
  "UnarchiveMessages = h_bind h_user (\<lambda>userID. successOrAbort 500 (UnarchiveMessagesByUser userID))"

text \<open>The common part of the handlers of one channel and of one message.\<close>

definition of_member_channel :: "string \<Rightarrow> (nat \<Rightarrow> nat \<Rightarrow> unit db) \<Rightarrow> ('w, unit) handler" where
  "of_member_channel param f = withID param (\<lambda>i.
     h_bind h_user (\<lambda>userID.
     h_bind (successOrAbort 500 (db_GetApplicationByID i)) (\<lambda>app.
     h_bind (successOrAbort 500 (db_GetApplicationMembership i userID)) (\<lambda>membership.
     if app = None \<or> membership = None then aborted 404 (Err ''application does not exist'')
     else successOrAbort 500 (f userID i)))))"

definition ArchiveMessageWithApplication :: "string \<Rightarrow> ('w, unit) handler" where
  "ArchiveMessageWithApplication param = of_member_channel param ArchiveMessagesByApplicationForUser"

definition UnarchiveMessageWithApplication :: "string \<Rightarrow> ('w, unit) handler" where
  "UnarchiveMessageWithApplication param = of_member_channel param UnarchiveMessagesByApplicationForUser"

definition of_member_message :: "string \<Rightarrow> (nat \<Rightarrow> nat \<Rightarrow> unit db) \<Rightarrow> ('w, unit) handler" where
  "of_member_message param f = withID param (\<lambda>i.
     h_bind h_user (\<lambda>userID.
     h_bind (successOrAbort 500 (db_GetMessageByID i)) (\<lambda>msg.
     case msg of None \<Rightarrow> aborted 404 (Err ''message does not exist'') | Some msg \<Rightarrow>
     h_bind (successOrAbort 500 (db_GetApplicationMembership (msg_ApplicationID msg) userID)) (\<lambda>membership.
     if membership = None then aborted 404 (Err ''message does not exist'')
     else successOrAbort 500 (f userID i)))))"

definition ArchiveMessage :: "string \<Rightarrow> ('w, unit) handler" where
  "ArchiveMessage param = of_member_message param ArchiveMessageForUser"

definition UnarchiveMessage :: "string \<Rightarrow> ('w, unit) handler" where
  "UnarchiveMessage param = of_member_message param UnarchiveMessageForUser"

section \<open>Deleting\<close>

text \<open>\<open>filepath.Base\<close>\<close>

definition filepath_Base :: "string \<Rightarrow> string" where
  "filepath_Base path =
     (if path = '''' then ''.''
      else let trimmed = rev (dropWhile (\<lambda>c. c = CHR ''/'') (rev path)) in
        if trimmed = '''' then ''/'' else rev (takeWhile (\<lambda>c. c \<noteq> CHR ''/'') (rev trimmed)))"

definition deleteMessageCompletely :: "'w message_api \<Rightarrow> nat \<Rightarrow> ('w, unit) handler" where
  "deleteMessageCompletely api i =
     h_bind (successOrAbort 500 (GetMessageAttachmentStorageNamesForDelete i)) (\<lambda>storageNames.
     h_then (successOrAbort 500 (db_DeleteMessageByID i))
       (if ma_AttachmentDir api = '''' then h_return ()
        else h_foreach (\<lambda>name. if name = '''' then h_return ()
          else h_effect (ma_Remove api (ma_AttachmentDir api) (filepath_Base name))) storageNames))"

definition only_admin :: fail where
  "only_admin = Err ''global channel messages can only be deleted by an administrator; archive them instead''"

definition clear_channel :: "bool \<Rightarrow> nat \<Rightarrow> application \<Rightarrow> ('w, unit) handler" where
  "clear_channel isAdmin userID app =
     (if app_AutoAssign app \<and> isAdmin then successOrAbort 500 (DeleteMessagesByApplication (app_ID app))
      else h_bind (successOrAbort 500 (CountApplicationMemberships (app_ID app))) (\<lambda>memberCount.
        if app_UserID app = userID \<and> memberCount = 1
        then successOrAbort 500 (DeleteMessagesByApplication (app_ID app))
        else successOrAbort 500 (DismissMessagesByApplicationForUser userID (app_ID app))))"

definition DeleteMessages :: "('w, unit) handler" where
  "DeleteMessages =
     h_bind h_user (\<lambda>userID.
     h_bind (successOrAbort 500 (GetAccessibleApplicationsByUser userID)) (\<lambda>apps.
     h_bind (successOrAbort 500 (db_GetUserByID userID)) (\<lambda>user.
     if \<not> is_admin user \<and> list_ex app_AutoAssign apps then aborted 403 only_admin
     else h_foreach (clear_channel (is_admin user) userID) apps)))"

definition DeleteMessageWithApplication :: "string \<Rightarrow> ('w, unit) handler" where
  "DeleteMessageWithApplication param = withID param (\<lambda>i.
     h_bind h_user (\<lambda>userID.
     h_bind (successOrAbort 500 (db_GetApplicationByID i)) (\<lambda>application.
     h_bind (successOrAbort 500 (db_GetApplicationMembership i userID)) (\<lambda>membership.
     case application of None \<Rightarrow> aborted 404 (Err ''application does not exists'') | Some app \<Rightarrow>
     if membership = None then aborted 404 (Err ''application does not exists'')
     else if app_AutoAssign app
     then h_bind (successOrAbort 500 (db_GetUserByID userID)) (\<lambda>user.
       if \<not> is_admin user then aborted 403 only_admin else successOrAbort 500 (DeleteMessagesByApplication i))
     else h_bind (successOrAbort 500 (CountApplicationMemberships i)) (\<lambda>memberCount.
       if app_UserID app = userID \<and> memberCount = 1 then successOrAbort 500 (DeleteMessagesByApplication i)
       else successOrAbort 500 (DismissMessagesByApplicationForUser userID i))))))"

text \<open>The second test for an administrator is never reached by one.\<close>

definition DeleteMessage :: "'w message_api \<Rightarrow> string \<Rightarrow> ('w, unit) handler" where
  "DeleteMessage api param = withID param (\<lambda>i.
     h_bind (successOrAbort 500 (db_GetMessageByID i)) (\<lambda>msg.
     case msg of None \<Rightarrow> aborted 404 (Err ''message does not exist'') | Some msg \<Rightarrow>
     h_bind (successOrAbort 500 (db_GetApplicationByID (msg_ApplicationID msg))) (\<lambda>app.
     h_bind h_user (\<lambda>userID.
     h_bind (successOrAbort 500 (db_GetApplicationMembership (msg_ApplicationID msg) userID)) (\<lambda>membership.
     case app of None \<Rightarrow> aborted 404 (Err ''message does not exist'') | Some app \<Rightarrow>
     if membership = None then aborted 404 (Err ''message does not exist'')
     else h_bind (successOrAbort 500 (db_GetUserByID userID)) (\<lambda>user.
     if is_admin user then deleteMessageCompletely api i
     else if app_AutoAssign app
     then h_bind (successOrAbort 500 (db_GetUserByID userID)) (\<lambda>user.
       if \<not> is_admin user then aborted 403 only_admin else deleteMessageCompletely api i)
     else h_bind (successOrAbort 500 (CountApplicationMemberships (msg_ApplicationID msg))) (\<lambda>memberCount.
       if app_UserID app = userID \<and> memberCount = 1 then deleteMessageCompletely api i
       else successOrAbort 500 (DismissMessageForUser userID i))))))))"

definition DeleteMessagesForEveryone :: "string \<Rightarrow> ('w, unit) handler" where
  "DeleteMessagesForEveryone param = withID param (\<lambda>i.
     h_bind (successOrAbort 500 (db_GetApplicationByID i)) (\<lambda>app.
     case app of None \<Rightarrow> aborted 404 (Err ''application does not exist'') | Some app \<Rightarrow>
     h_bind h_user (\<lambda>userID.
     h_bind (successOrAbort 500 (db_GetUserByID userID)) (\<lambda>user.
     h_bind (if app_UserID app = userID \<or> is_admin user then h_return True
       else h_bind (successOrAbort 500 (db_GetApplicationMembership i userID)) (\<lambda>membership.
         h_return (case membership of None \<Rightarrow> False | Some m \<Rightarrow> mem_EffectiveRole m = ChannelRoleManager))) (\<lambda>allowed.
     if \<not> (if app_AutoAssign app then is_admin user else allowed)
     then (if app_AutoAssign app
       then aborted 403 (Err ''global channel history can only be cleared by an administrator'')
       else aborted 404 (Err ''application does not exist''))
     else successOrAbort 500 (DeleteMessagesByApplication i))))))"

section \<open>Posting\<close>

text \<open>
  The matches of \<open>(?:^|[^A-Za-z0-9._-])@([A-Za-z0-9._-]{1,180})\<close>, from the left and without overlap; the flag
  says whether an at sign here may begin one: at the start of the text or after another character that no match
  has used.
\<close>

definition name_char :: "char \<Rightarrow> bool" where
  "name_char c \<longleftrightarrow> byte_in 65 90 c \<or> byte_in 97 122 c \<or> byte_in 48 57 c \<or> c \<in> {CHR ''.'', CHR ''_'', CHR ''-''}"

definition name_here :: "string \<Rightarrow> string" where
  "name_here s = take 180 (takeWhile name_char s)"

function mentions_from :: "bool \<Rightarrow> string \<Rightarrow> string list" where
  "mentions_from free [] = []"
| "mentions_from free (c # s) =
     (if free \<and> c = CHR ''@'' \<and> name_here s \<noteq> ''''
      then name_here s # mentions_from False (drop (length (name_here s)) s)
      else mentions_from (\<not> name_char c) s)"
  by pat_completeness auto
termination by (relation "measure (length \<circ> snd)") auto

definition mentionMatches :: "string \<Rightarrow> string list" where
  "mentionMatches text = mentions_from True text"

text \<open>The channel a message goes to and the user it is from, who is not set for a token of the channel.\<close>

definition posting_channel :: "nat \<Rightarrow> ('w, application \<times> user option) handler" where
  "posting_channel i s =
     (case au_app (getInfo s) of
        Some app \<Rightarrow> h_return (app, None) s
      | None \<Rightarrow>
          if i = 0 then aborted 400 (Err ''appid is required when not authenticating with an application token'') s
          else h_bind h_user (\<lambda>userID.
            h_bind (successOrAbort 500 (db_GetApplicationByID i)) (\<lambda>fetchedApp.
            case fetchedApp of None \<Rightarrow> aborted 400 (Err ''appid not found'') | Some app \<Rightarrow>
            if app_UserID app \<noteq> userID
            then h_bind (successOrAbort 500 (db_GetApplicationMembership (app_ID app) userID)) (\<lambda>membership.
              case membership of None \<Rightarrow> aborted 400 (Err ''appid not found'') | Some m \<Rightarrow>
              if \<not> can_post app (mem_EffectiveRole m)
              then aborted 403 (Err ''your Channel role does not allow posting'')
              else h_bind (successOrAbort 500 (db_GetUserByID userID)) (\<lambda>user.
                if user = None then aborted 400 (Err ''user not found'') else h_return (app, user)))
            else if app_AllowMemberPost app
            then h_bind (successOrAbort 500 (db_GetUserByID userID)) (\<lambda>user. h_return (app, user))
            else h_return (app, None))) s)"

fun find_mentions :: "nat \<Rightarrow> nat \<Rightarrow> nat list \<Rightarrow> string list \<Rightarrow> ('w, (nat \<times> string) list) handler" where
  "find_mentions app poster seen [] = h_return []"
| "find_mentions app poster seen (name # names) =
     h_bind (successOrAbort 500 (db_GetUserByName name)) (\<lambda>user.
       case user of None \<Rightarrow> find_mentions app poster seen names | Some u \<Rightarrow>
       if usr_ID u = poster then find_mentions app poster seen names
       else h_bind (successOrAbort 500 (db_GetApplicationMembership app (usr_ID u))) (\<lambda>membership.
         if membership = None \<or> usr_ID u \<in> set seen then find_mentions app poster seen names
         else h_bind (find_mentions app poster (usr_ID u # seen) names) (\<lambda>rest.
           h_return ((usr_ID u, usr_Name u) # rest))))"

definition mention_extras :: "(nat \<times> string) list \<Rightarrow> json_object option \<Rightarrow> json_object option" where
  "mention_extras mentions extras =
     (if mentions = [] then extras
      else let names = JArr (map (JStr \<circ> snd) mentions); ids = JArr (map (JInt \<circ> int \<circ> fst) mentions) in
        Some (fold (\<lambda>(k, v). AList.update k v) [(''monita::mentions'', names), (''monita::mentionUserIds'', ids),
          (''gotify::mu::mentions'', names), (''gotify::mu::mentionUserIds'', ids)] (case extras of None \<Rightarrow> [] | Some e \<Rightarrow> e)))"

text \<open>An error of the encoder is ignored and leaves the extras empty.\<close>

definition toInternalMessage :: "'w message_api \<Rightarrow> time \<Rightarrow> create_message \<Rightarrow> message" where
  "toInternalMessage api now m =
     new_message\<lparr>msg_ApplicationID := cm_ApplicationID m, msg_Message := cm_Message m, msg_Title := cm_Title m,
       msg_Date := now, msg_Priority := (case cm_Priority m of None \<Rightarrow> 0 | Some p \<Rightarrow> p),
       msg_Extras := (case cm_Extras m of None \<Rightarrow> []
         | Some e \<Rightarrow> case ma_Marshal api e of Inr b \<Rightarrow> b | Inl _ \<Rightarrow> [])\<rparr>"

definition completed_message :: "application \<Rightarrow> user option \<Rightarrow> create_message \<Rightarrow> create_message" where
  "completed_message app postingUser m =
     (let m = m\<lparr>cm_ApplicationID := app_ID app\<rparr>;
          m = (if strings_TrimSpace (cm_Title m) = ''''
            then m\<lparr>cm_Title := (case postingUser of
              Some u \<Rightarrow> if app_AllowMemberPost app then usr_Name u else app_Name app | None \<Rightarrow> app_Name app)\<rparr> else m) in
      if cm_Priority m = None then m\<lparr>cm_Priority := Some (app_DefaultPriority app)\<rparr> else m)"

fun notify_each :: "'w message_api \<Rightarrow> nat option \<Rightarrow> message_external \<Rightarrow> nat list \<Rightarrow> nat list \<Rightarrow> ('w, unit) handler" where
  "notify_each api poster ext notified [] = h_return ()"
| "notify_each api poster ext notified (u # us) =
     (if poster = Some u \<or> u \<in> set notified then notify_each api poster ext notified us
      else h_then (h_effect (ma_Notify api u ext)) (notify_each api poster ext (u # notified) us))"

definition dispatch ::
  "'w message_api \<Rightarrow> nat option \<Rightarrow> nat list \<Rightarrow> message \<Rightarrow> ('w, message_external) handler" where
  "dispatch api poster mentioned msg = (case ma_Dispatcher api of
       Some send \<Rightarrow> h_call 500 (send msg)
     | None \<Rightarrow>
         h_bind (successOrAbort 500 (db_CreateMessage msg)) (\<lambda>msg.
         let ext = toExternalMessage (ma_env api) msg in
         h_bind (successOrAbort 500 (db_GetApplicationRecipientUserIDs (msg_ApplicationID msg))) (\<lambda>recipients.
           h_then (notify_each api poster ext [] (recipients @ mentioned)) (h_return ext))))"

definition api_CreateMessage :: "'w message_api \<Rightarrow> create_message res \<Rightarrow> ('w, message_external) handler" where
  "api_CreateMessage api bound =
     h_bind (h_Bind bound) (\<lambda>m.
     h_bind (posting_channel (cm_ApplicationID m)) (\<lambda>(app, postingUser).
     let m = completed_message app postingUser m in
     h_bind (case postingUser of
         Some u \<Rightarrow> if app_AllowMemberPost app
           then find_mentions (app_ID app) (usr_ID u) [] (mentionMatches (cm_Message m)) else h_return []
       | None \<Rightarrow> h_return []) (\<lambda>mentions.
     let m = m\<lparr>cm_Extras := mention_extras mentions (cm_Extras m)\<rparr> in
     h_bind (h_world (ma_timeNow api)) (\<lambda>now.
     let msg = toInternalMessage api now m;
         msg = (case postingUser of None \<Rightarrow> msg
           | Some u \<Rightarrow> msg\<lparr>msg_SenderUserID := usr_ID u, msg_SenderName := usr_Name u\<rparr>) in
     dispatch api (map_option usr_ID postingUser) (map fst mentions) msg))))"

end
