(* ===== verification/Channel_Requests.thy ===== *)
theory Channel_Requests
  imports Channels_Laws
begin

text \<open>
  The requests of the channel, member and group routes as data, served one after another, and the invariant of
  the tables that every one of them keeps: no channel loses its owner as a member.
\<close>

section \<open>Requests and their handlers\<close>

text \<open>
  The requests that change channels, members and groups, with their path parameters and bodies, and the handler
  the router gives each to.
\<close>

datatype channel_request =
    PutMember string "member_params res"
  | DropMember string string
  | PutNotifications string "bool res"
  | PutAutoAssign string "bool res"
  | PutPosting string "bool res"
  | PutOwner string "nat res"
  | PutAssignment string "assignment_params res"
  | DropAssignment string string
  | PostGroup "(string \<times> string) res"
  | PutGroup string "(string \<times> string) res"
  | DropGroup string
  | PutGroupMember string "nat res"
  | DropGroupMember string string
  | PostChannel "string \<times> string" "application_params res"
  | PutChannel string "application_params res"
  | PutSecurity "string \<times> string" string "bool res"
  | DropChannel string
  | DropImage string

fun serve :: "'w application_api \<Rightarrow> channel_request \<Rightarrow> 'w server gin \<Rightarrow> 'w server gin" where
  "serve api (PutMember p b) s = snd (UpsertMember p b s)"
| "serve api (DropMember p u) s = snd (DeleteMember p u s)"
| "serve api (PutNotifications p b) s = snd (SetCurrentUserNotifications p b s)"
| "serve api (PutAutoAssign p b) s = snd (SetAutoAssign p b s)"
| "serve api (PutPosting p b) s = snd (SetMemberPosting p b s)"
| "serve api (PutOwner p b) s = snd (TransferOwnership p b s)"
| "serve api (PutAssignment p b) s = snd (UpsertGroupAssignment p b s)"
| "serve api (DropAssignment p g) s = snd (DeleteGroupAssignment p g s)"
| "serve api (PostGroup b) s = snd (CreateGroup b s)"
| "serve api (PutGroup p b) s = snd (UpdateGroup p b s)"
| "serve api (DropGroup p) s = snd (DeleteGroup p s)"
| "serve api (PutGroupMember p b) s = snd (AddGroupMember p b s)"
| "serve api (DropGroupMember p u) s = snd (RemoveGroupMember p u s)"
| "serve api (PostChannel tok b) s = snd (api_CreateApplication tok b s)"
| "serve api (PutChannel p b) s = snd (api_UpdateApplication p b s)"
| "serve api (PutSecurity tok p b) s = snd (UpdateApplicationSecurity tok p b s)"
| "serve api (DropChannel p) s = snd (DeleteApplication api p s)"
| "serve api (DropImage p) s = snd (RemoveApplicationImage api p s)"

text \<open>
  What a server goes through: a request in the context the middleware has left, or the creation and the deletion
  of an account.
\<close>

datatype 'w occurrence =
    Request "'w server gin" channel_request
  | UserAdded user
  | UserDeleted nat

fun occur :: "'w application_api \<Rightarrow> 'w occurrence \<Rightarrow> 'w server \<Rightarrow> 'w server" where
  "occur api (Request s r) w = ctx_world (serve api r (s\<lparr>ctx_world := w\<rparr>))"
| "occur api (UserAdded u) w = w\<lparr>srv_db := snd (db_CreateUser u (srv_db w))\<rparr>"
| "occur api (UserDeleted u) w = w\<lparr>srv_db := snd (db_DeleteUserByID u (srv_db w))\<rparr>"

section \<open>Every request keeps the channels in order\<close>

lemma reads_application [atomic_rules]: "reads (db_GetApplicationByID i)"
  unfolding db_GetApplicationByID_def Let_def by (intro atomic_rules)

lemma kept_queries [channel_ops]:
  "keeps P (db_GetApplicationByID i)" "keeps P (db_GetUserByID u)" "keeps P (db_GetApplicationMembership a u)"
  "keeps P (GetUserGroupByID g)" "keeps P (CountUserGroupMembers g)"
  by (intro keeps_reads reads_queries reads_application)+

lemma kept_reads [h_rules]:
  "h_keeps P (getAuthorizedApplication i)" "h_keeps P (existing_group g)" "h_keeps P (allowed_application isOwnerOrAdmin i)"
  by (intro h_keeps_reads h_reads_authorized reads_queries)+

lemma h_keeps_sum [h_rules]:
  "(\<And>e. h_keeps P (f e)) \<Longrightarrow> (\<And>x. h_keeps P (g x)) \<Longrightarrow> h_keeps P (case y of Inl e \<Rightarrow> f e | Inr x \<Rightarrow> g x)"
  by (cases y) simp_all

lemma keeps_group_rows [channel_ops]: "keeps channels_ok (CreateUserGroup g)" "keeps channels_ok (UpdateUserGroup g)"
proof -
  have same: "keeps channels_ok (statement f)" if "\<And>t. same_channels t (snd (f t))" for f :: "gorm_db \<Rightarrow> user_group res \<times> gorm_db"
    using that channels_ok_same by (blast intro: keeps_statement)
  show "keeps channels_ok (CreateUserGroup g)" "keeps channels_ok (UpdateUserGroup g)"
    unfolding CreateUserGroup_def UpdateUserGroup_def
    by (auto intro!: same simp: insert_group_def same_channels_def Let_def)
qed

lemma serve_members:
  "h_keeps channels_ok (UpsertMember p bm)" "h_keeps channels_ok (SetCurrentUserNotifications p bb)"
  "h_keeps channels_ok (SetAutoAssign p bb)" "h_keeps channels_ok (SetMemberPosting p bb)"
  "h_keeps channels_ok (TransferOwnership p bn)"
  unfolding UpsertMember_def SetCurrentUserNotifications_def SetAutoAssign_def SetMemberPosting_def
    TransferOwnership_def Let_def
  by (intro h_rules channel_ops)+

lemma serve_groups:
  "h_keeps channels_ok (UpsertGroupAssignment p ba)" "h_keeps channels_ok (DeleteGroupAssignment p g)"
  "h_keeps channels_ok (CreateGroup bs)" "h_keeps channels_ok (UpdateGroup p bs)" "h_keeps channels_ok (DeleteGroup p)"
  "h_keeps channels_ok (AddGroupMember p bn)" "h_keeps channels_ok (RemoveGroupMember p g)"
  unfolding UpsertGroupAssignment_def DeleteGroupAssignment_def CreateGroup_def UpdateGroup_def DeleteGroup_def
    AddGroupMember_def RemoveGroupMember_def Let_def
  by (intro h_rules channel_ops)+

lemma serve_channels:
  "h_keeps channels_ok (api_CreateApplication tokens bp)" "h_keeps channels_ok (DeleteApplication api p)"
  unfolding api_CreateApplication_def DeleteApplication_def
  by (intro h_rules channel_ops)+

lemma serve_member: "h_keeps channels_ok (DeleteMember p u)"
  unfolding DeleteMember_def
proof (rule h_keeps_withID, rule h_keeps_loaded [OF h_reads_authorized(1) authorized_loaded])
  fix i app and s s1 :: "'a server gin"
  show "getAuthorizedApplication i s = (Some app, s1) \<Longrightarrow>
    getAuthorizedApplication i s = (Some app, s1) \<or> allowed_application authorizeChannelManager i s = (Some app, s1)"
    by simp
  show "h_leads (\<lambda>t. channels_ok t \<and> loaded t i = Some app) channels_ok (withID u (\<lambda>userID.
     if userID = app_UserID app then aborted 400 (Err ''the application owner cannot be removed'')
     else h_bind (successOrAbort 500 (db_GetApplicationMembership i userID)) (\<lambda>membership.
     if membership = None then aborted 404 (Err ''membership does not exist'')
     else if app_AutoAssign app then aborted 400 (Err ''members cannot be removed while auto-assign is enabled'')
     else successOrAbort 500 (DeleteApplicationMembership i userID))))" for i app
    by (intro h_leads_withID h_leads_if h_leads_abort h_leads_bind_read h_reads_call reads_queries h_leads_call
      leads_delete_membership) simp_all
qed

text \<open>Saving a channel as it was loaded, with its identifier and its owner.\<close>

lemma leads_update_application:
  assumes "app_ID a = app_ID app" and "app_UserID a = app_UserID app"
  shows "leads (\<lambda>t. channels_ok t \<and> loaded t i = Some app) channels_ok (db_UpdateApplication a)"
  unfolding leads_def
proof (intro allI impI)
  fix s :: session assume s: "channels_ok (tables s) \<and> loaded (tables s) i = Some app"
  obtain r s' where run: "db_UpdateApplication a s = (r, s')" by (rule prod.exhaust)
  have "tables s' = tables s \<or> tables s' = snd (update_application_row a (tables s))"
    using statement_tables [OF run [unfolded db_UpdateApplication_def]] by auto
  then show "channels_ok (tables (snd (db_UpdateApplication a s)))"
    using run s channels_ok_update_row [of "tables s" i app a] assms by auto
qed

lemma serve_saves:
  "h_keeps channels_ok (api_UpdateApplication p bp)" "h_keeps channels_ok (UpdateApplicationSecurity tokens p bb)"
  "h_keeps channels_ok (RemoveApplicationImage api p)"
proof -
  have load: "h_keeps channels_ok (h_bind (allowed_application test i) f)"
    if "\<And>u app. reads (test u app)" "\<And>app. h_leads (\<lambda>t. channels_ok t \<and> loaded t i = Some app) channels_ok (f app)"
    for test i and f :: "application \<Rightarrow> ('w, 'x) handler"
    by (rule h_keeps_loaded [OF h_reads_authorized(2) authorized_loaded]) (use that in blast)+
  show "h_keeps channels_ok (api_UpdateApplication p bp)"
    unfolding api_UpdateApplication_def Let_def
    by (intro h_keeps_withID load reads_queries h_leads_bind_read h_reads_simple h_leads_then h_leads_application_error
        leads_update_application h_keeps_simple) (simp_all add: updated_application_def)
  show "h_keeps channels_ok (UpdateApplicationSecurity tokens p bb)"
    unfolding UpdateApplicationSecurity_def Let_def
    by (intro h_keeps_withID load reads_queries h_leads_bind_read h_reads_simple h_leads_then h_leads_call
        leads_update_application h_keeps_simple) simp_all
  show "h_keeps channels_ok (RemoveApplicationImage api p)"
    unfolding RemoveApplicationImage_def Let_def
    by (intro h_keeps_withID load reads_queries h_leads_if h_leads_abort h_leads_then h_leads_call
        leads_update_application h_rules) simp_all
qed

lemma occur_channels_ok: "channels_ok (tables (srv_db w)) \<Longrightarrow> channels_ok (tables (srv_db (occur api e w)))"
proof (induction e)
  case (Request s r)
  have "channels_ok (srv_tables (serve api r s'))" if "channels_ok (srv_tables s')" for s'
    using that by (cases r) (simp_all add: h_keepsD serve_members serve_member serve_groups serve_channels serve_saves)
  then show ?case using Request by simp
next
  case (UserAdded u)
  then show ?case using keeps_CreateUser [of u] by (simp add: keeps_def)
next
  case (UserDeleted u)
  then show ?case using keeps_DeleteUserByID [of u] by (simp add: keeps_def)
qed

section \<open>No channel loses its owner\<close>

lemma channels_ok_members:
  assumes "channels_ok t"
  shows "distinct (map mem_key (tb_memberships t)) \<and> distinct (map app_ID (tb_applications t)) \<and>
    list_all (\<lambda>a. app_UserID a = 0 \<or> list_ex (\<lambda>m. mem_ApplicationID m = app_ID a \<and> mem_UserID m = app_UserID a \<and>
      \<not> mem_AutoAssigned m) (tb_memberships t)) (tb_applications t)"
proof -
  have "\<exists>m\<in>set (tb_memberships t). mem_ApplicationID m = app_ID a \<and> mem_UserID m = app_UserID a \<and> \<not> mem_AutoAssigned m"
    if a: "a \<in> set (tb_applications t)" "app_UserID a \<noteq> 0" for a
  proof -
    obtain m where m: "find_membership t (app_ID a) (app_UserID a) = Some m" "\<not> mem_AutoAssigned m"
      using assms a unfolding channels_ok_def owners_ok_def by blast
    show ?thesis using find_membership_key [OF m(1)] m(2) by (auto simp: mem_key_def)
  qed
  then show ?thesis using assms by (auto simp: channels_ok_def members_ok_def list_all_iff list_ex_iff)
qed

text \<open>
  Property C6. Whatever requests on channels, members and groups are served, interleaved with the creation and the
  deletion of accounts, at whatever point a statement of the database fails: no channel and no membership is there
  twice, and the owner of a channel stays a member of it in his own right, so neither switching off automatic
  assignment nor taking a group off the channel removes him.
\<close>

theorem owners_stay_members:
  assumes "channels_ok (tables (srv_db w))"
  shows "let t = tables (srv_db (fold (occur api) es w)) in
    distinct (map mem_key (tb_memberships t)) \<and> distinct (map app_ID (tb_applications t)) \<and>
    list_all (\<lambda>a. app_UserID a = 0 \<or> list_ex (\<lambda>m. mem_ApplicationID m = app_ID a \<and> mem_UserID m = app_UserID a \<and>
      \<not> mem_AutoAssigned m) (tb_memberships t)) (tb_applications t)"
proof -
  have "channels_ok (tables (srv_db (fold (occur api) es w)))"
    using assms by (induction es arbitrary: w) (simp_all add: occur_channels_ok)
  then show ?thesis unfolding Let_def by (rule channels_ok_members)
qed

text \<open>The owner of the channel tries to leave it, hands it over, and his account is deleted.\<close>

definition demo_server :: "unit server" where
  "demo_server = \<lparr>srv_db = demo_groups, srv_world = ()\<rparr>"

definition demo_owner :: "unit server gin" where
  "demo_owner = \<lparr>ctx_request = ctx_request demo_request,
     ctx_auth = Some \<lparr>au_client = None, au_app = None, au_user = Some (demo_user 1 ''owner'' False)\<rparr>, ctx_service = None,
     ctx_aborts = [], ctx_cookies = [], ctx_nexts = [], ctx_world = demo_server\<rparr>"

definition demo_application_api :: "unit application_api" where
  "demo_application_api = \<lparr>aa_OnDelete = None, aa_ImageDir = '''', aa_Remove = (\<lambda>_ w. w)\<rparr>"

lemma demo_channels_ok: "channels_ok (tables (srv_db demo_server))"
proof -
  have "owners_ok (tables demo_groups)"
    by (simp add: owners_ok_def demo_groups_def find_membership_def new_membership_def no_application_def mem_key_def)
  moreover have "members_ok (tables demo_groups)"
    by (simp add: members_ok_def demo_groups_def demo_tables_def new_membership_def no_application_def mem_key_def)
      (simp add: NormalizeChannelRole_def role_defs)
  ultimately show ?thesis
    by (simp add: channels_ok_def demo_server_def) (simp add: demo_groups_def demo_tables_def no_application_def)
qed

theorem owners_stay_members_witness:
  "let t = tables (srv_db (fold (occur demo_application_api) [Request demo_owner (DropMember ''7'' ''1''),
      Request demo_owner (PutOwner ''7'' (Inr 2)), UserDeleted 1] demo_server)) in
    distinct (map mem_key (tb_memberships t)) \<and> distinct (map app_ID (tb_applications t)) \<and>
    list_all (\<lambda>a. app_UserID a = 0 \<or> list_ex (\<lambda>m. mem_ApplicationID m = app_ID a \<and> mem_UserID m = app_UserID a \<and>
      \<not> mem_AutoAssigned m) (tb_memberships t)) (tb_applications t)"
  by (rule owners_stay_members [OF demo_channels_ok])

section \<open>Who may change a channel\<close>

text \<open>What the tables say about a user: the flag of administrators and the effective role in a channel.\<close>

definition admin_in :: "gorm_db \<Rightarrow> nat \<Rightarrow> bool" where
  "admin_in t u \<longleftrightarrow> (\<exists>x\<in>set (tb_users t). usr_ID x = u \<and> usr_Admin x)"

definition role_in :: "gorm_db \<Rightarrow> nat \<Rightarrow> nat \<Rightarrow> string" where
  "role_in t u i = (case find_membership t i u of None \<Rightarrow> ''''
     | Some m \<Rightarrow> EffectiveChannelRole (map_option app_UserID (loaded t i) = Some u) (Some m))"

definition leads_channel :: "gorm_db \<Rightarrow> nat \<Rightarrow> application \<Rightarrow> bool" where
  "leads_channel t u app \<longleftrightarrow> app_UserID app = u \<or> admin_in t u"

definition manages :: "gorm_db \<Rightarrow> nat \<Rightarrow> application \<Rightarrow> bool" where
  "manages t u app \<longleftrightarrow> leads_channel t u app \<or> role_in t u (app_ID app) = ChannelRoleManager"

text \<open>The channel a request is about, and the rule for changing it.\<close>

fun about :: "channel_request \<Rightarrow> string option" where
  "about (PutMember p _) = Some p" | "about (DropMember p _) = Some p" | "about (PutAutoAssign p _) = Some p"
| "about (PutPosting p _) = Some p" | "about (PutOwner p _) = Some p" | "about (PutAssignment p _) = Some p"
| "about (DropAssignment p _) = Some p" | "about (PutChannel p _) = Some p" | "about (PutSecurity _ p _) = Some p"
| "about (DropChannel p) = Some p" | "about (DropImage p) = Some p" | "about _ = None"

fun permitted :: "channel_request \<Rightarrow> gorm_db \<Rightarrow> nat \<Rightarrow> application \<Rightarrow> bool" where
  "permitted (PutMember _ _) t u app \<longleftrightarrow> manages t u app \<and> \<not> app_Internal app"
| "permitted (DropMember _ v) t u app \<longleftrightarrow>
     manages t u app \<and> \<not> app_AutoAssign app \<and> ParseUint v \<noteq> Inr (app_UserID app)"
| "permitted (PutAutoAssign _ _) t u app \<longleftrightarrow> admin_in t u \<and> \<not> app_Internal app"
| "permitted (PutPosting _ _) t u app \<longleftrightarrow> admin_in t u \<and> \<not> app_Internal app"
| "permitted (PutOwner _ _) t u app \<longleftrightarrow> manages t u app \<and> \<not> app_Internal app"
| "permitted (PutAssignment _ _) t u app \<longleftrightarrow> manages t u app \<and> \<not> app_Internal app"
| "permitted (PutSecurity _ _ _) t u app \<longleftrightarrow> leads_channel t u app"
| "permitted (DropChannel _) t u app \<longleftrightarrow>
     leads_channel t u app \<and> \<not> app_Internal app \<and> (if app_AutoAssign app then admin_in t u else True)"
| "permitted _ t u app \<longleftrightarrow> manages t u app"

text \<open>A handler that changes a part of the tables, or the tables.\<close>

definition alters :: "(gorm_db \<Rightarrow> 'b) \<Rightarrow> ('w, 'a) handler \<Rightarrow> 'w server gin \<Rightarrow> bool" where
  "alters g m s \<longleftrightarrow> g (srv_tables (snd (m s))) \<noteq> g (srv_tables s)"

abbreviation changes :: "('w, 'a) handler \<Rightarrow> 'w server gin \<Rightarrow> bool" where
  "changes \<equiv> alters id"

definition alike :: "'w server gin \<Rightarrow> 'w server gin \<Rightarrow> bool" where
  "alike s s1 \<longleftrightarrow> srv_tables s1 = srv_tables s \<and> ctx_auth s1 = ctx_auth s"

lemma user_alike: "alike s s1 \<Longrightarrow> TryGetUserID s1 = TryGetUserID s"
  by (simp add: alike_def TryGetUserID_def getInfo_def)

lemma get_user_Inr:
  assumes "db_GetUserByID u s = (Inr x, s')"
  shows "is_admin x \<Longrightarrow> admin_in (tables s) u"
proof -
  obtain row s1 where q: "query (\<lambda>t. find (\<lambda>x. usr_ID x = u) (tb_users t)) s = (Inr row, s1)"
    and x: "x = (let user = (case row of Some u \<Rightarrow> u | None \<Rightarrow> no_user) in if usr_ID user = u then Some user else None)"
    using assms by (auto simp: db_GetUserByID_def user_by_def db_bind_Inr Let_def split: if_splits)
  show "is_admin x \<Longrightarrow> admin_in (tables s) u"
    using query_Inr [OF q] x
    by (auto simp: is_admin_def admin_in_def no_user_def Let_def split: option.splits if_splits dest!: find_SomeD)
qed

text \<open>The role of a loaded membership; only for channel 0 a missing row looks like a member.\<close>

lemma get_membership_Inr:
  assumes "db_GetApplicationMembership i u s = (Inr (Some m), s')"
    and other: "map_option app_UserID (loaded (tables s) i) \<noteq> Some u"
  shows "mem_EffectiveRole m = role_in (tables s) u i \<or> i = 0 \<and> mem_EffectiveRole m = ChannelRoleMember"
proof -
  let ?none = "(new_membership 0 0)\<lparr>mem_ReceiveNotifications := False\<rparr>"
  obtain row s1 where q: "query (\<lambda>t. find_membership t i u) s = (Inr row, s1)"
    and rest: "(let m = (case row of Some m \<Rightarrow> m | None \<Rightarrow> ?none) in
       if mem_ApplicationID m \<noteq> i \<or> mem_UserID m \<noteq> u then db_return None
       else db_bind (db_GetApplicationByID i) (\<lambda>a. db_return (Some (m\<lparr>mem_EffectiveRole :=
         EffectiveChannelRole (case a of None \<Rightarrow> False | Some a \<Rightarrow> app_UserID a = u) (Some m)\<rparr>)))) s1 = (Inr (Some m), s')"
    using assms(1) unfolding db_GetApplicationMembership_def db_bind_Inr Let_def by blast
  note row = query_Inr [OF q]
  let ?m = "case row of Some m \<Rightarrow> m | None \<Rightarrow> ?none"
  obtain a s2 where a: "db_GetApplicationByID i s1 = (Inr a, s2)" and i: "mem_ApplicationID ?m = i"
    and m: "m = ?m\<lparr>mem_EffectiveRole := EffectiveChannelRole (case a of None \<Rightarrow> False | Some a \<Rightarrow> app_UserID a = u) (Some ?m)\<rparr>"
    using rest by (auto simp: Let_def db_bind_Inr split: if_splits)
  have "a = loaded (tables s) i" using get_application_Inr [OF a] row by simp
  then have owner: "\<not> (case a of None \<Rightarrow> False | Some a \<Rightarrow> app_UserID a = u)" using other by (auto split: option.splits)
  then have eff: "mem_EffectiveRole m = EffectiveChannelRole False (Some ?m)" using m by simp
  show ?thesis
  proof (cases row)
    case None
    then have "i = 0" "mem_EffectiveRole m = ChannelRoleMember"
      using i eff by (simp_all add: EffectiveChannelRole_def new_membership_def role_defs NormalizeChannelRole_def)
    then show ?thesis by simp
  next
    case (Some m0)
    have fm: "find_membership (tables s) i u = Some m0" using row Some by simp
    have not_owner: "(map_option app_UserID (loaded (tables s) i) = Some u) = False" using other by blast
    have "mem_EffectiveRole m = role_in (tables s) u i"
      unfolding role_in_def fm option.case not_owner using eff unfolding Some option.case .
    then show ?thesis by (rule disjI1)
  qed
qed

lemma owner_test_Inr:
  assumes "isOwnerOrAdmin u (Some app) s = (Inr True, s')"
  shows "leads_channel (tables s) u app"
  using assms get_user_Inr [of u s]
  by (auto simp: isOwnerOrAdmin_def leads_channel_def db_bind_Inr is_admin_def split: if_splits)

lemma manager_test_Inr:
  assumes "authorizeChannelManager u (Some app) s = (Inr True, s')" and app: "loaded (tables s) i = Some app"
  shows "manages (tables s) u app"
proof (cases "leads_channel (tables s) u app")
  case False
  then have other: "app_UserID app \<noteq> u" "\<not> admin_in (tables s) u" by (simp_all add: leads_channel_def)
  obtain x s1 where x: "db_GetUserByID u s = (Inr x, s1)"
    and rest: "(if (case x of None \<Rightarrow> False | Some u \<Rightarrow> usr_Admin u) then db_return True
      else db_bind (db_GetApplicationMembership (app_ID app) u) (\<lambda>membership. db_return
        (case membership of None \<Rightarrow> False | Some m \<Rightarrow> mem_EffectiveRole m = ChannelRoleManager))) s1 = (Inr True, s')"
    using assms(1) other(1) unfolding authorizeChannelManager_def option.case by (auto simp: db_bind_Inr)
  have "\<not> (case x of None \<Rightarrow> False | Some u \<Rightarrow> usr_Admin u)"
    using get_user_Inr [OF x] other(2) unfolding is_admin_def by blast
  then obtain m s2 where m: "db_GetApplicationMembership (app_ID app) u s1 = (Inr (Some m), s2)"
      "mem_EffectiveRole m = ChannelRoleManager"
    using rest by (auto simp: db_bind_Inr split: option.splits)
  have t1: "tables s1 = tables s" using readsD [OF reads_queries(2) x] .
  have id: "app_ID app = i" using app by (rule loaded_simps(3))
  have "map_option app_UserID (loaded (tables s1) (app_ID app)) \<noteq> Some u" using other(1) app t1 id by simp
  from get_membership_Inr [OF m(1) this] m(2) show ?thesis
    unfolding t1 by (auto simp: manages_def ChannelRoleManager_def ChannelRoleMember_def)
qed (simp add: manages_def)

text \<open>A change behind a step that only reads happens in a state like the first.\<close>

lemma changes_bind:
  assumes "alters g (h_bind m f) s" and "h_reads m"
  obtains x s1 where "m s = (Some x, s1)" "alike s s1" "alters g (f x) s1"
proof -
  obtain x s1 where s1: "m s = (Some x, s1)" "srv_tables s1 = srv_tables s" "ctx_auth s1 = ctx_auth s"
      "g (srv_tables (snd (f x s1))) \<noteq> g (srv_tables s1)"
    by (rule h_change [OF assms(1) [unfolded alters_def] assms(2)])
  show thesis by (rule that [OF s1(1)]) (use s1 in \<open>simp_all add: alike_def alters_def\<close>)
qed

lemma changes_withID:
  assumes "alters g (withID p f) s" obtains i where "ParseUint p = Inr i" "alters g (f i) s"
  using assms by (auto simp: withID_def alters_def split: sum.splits)

lemma changes_Bind:
  assumes "alters g (h_bind (h_Bind b) f) s" obtains x where "alters g (f x) s"
  using assms by (auto simp: h_Bind_def h_bind_def alters_def split: sum.splits)

lemma changes_if:
  assumes "alters g (if b then aborted c e else m) s" shows "\<not> b" and "alters g m s"
  using assms by (auto simp: alters_def split: if_splits)

lemma changes_call:
  assumes "alters g (h_bind (successOrAbort c q) f) s" and "reads q"
  obtains x d s1 where "q (srv_db (ctx_world s)) = (Inr x, d)" "alike s s1" "alters g (f x) s1"
proof -
  obtain x s1 where s1: "successOrAbort c q s = (Some x, s1)" "alike s s1" "alters g (f x) s1"
    by (rule changes_bind [OF assms(1) h_reads_call [OF assms(2)]])
  show thesis by (rule that [OF conjunct1 [OF successOrAbort_Some [OF s1(1)]] s1(2,3)])
qed

lemma changes_user:
  assumes "alters g (h_bind h_user f) s" obtains u where "TryGetUserID s = Some u" "alters g (f u) s"
  using assms by (auto simp: h_user_def GetUserID_def h_bind_def alters_def split: option.splits)

lemma authorized_manages:
  assumes "getAuthorizedApplication i s = (Some app, s1)"
  shows "\<exists>u. TryGetUserID s = Some u \<and> loaded (srv_tables s) i = Some app \<and> manages (srv_tables s) u app"
proof -
  note loaded = authorized_loaded [OF disjI1 [OF assms]]
  obtain a s2 where 1: "successOrAbort 500 (db_GetApplicationByID i) s = (Some a, s2)"
    and rest: "h_bind h_user (\<lambda>userID. h_bind (successOrAbort 500 (authorizeChannelManager userID a)) (\<lambda>allowed.
       case a of None \<Rightarrow> aborted 404 (Err ''application does not exist'')
       | Some app \<Rightarrow> if allowed then h_return app else aborted 404 (Err ''application does not exist''))) s2 = (Some app, s1)"
    using assms unfolding getAuthorizedApplication_def h_bind_Some by blast
  obtain u s3 where 2: "h_user s2 = (Some u, s2)"
    and 3: "successOrAbort 500 (authorizeChannelManager u a) s2 = (Some True, s3)" "a = Some app"
    using rest unfolding h_bind_Some h_user_Some by (fastforce simp: h_user_Some split: option.splits if_splits)
  have alike: "alike s s2" using h_readsD [OF h_reads_call [OF reads_application] 1] by (simp add: alike_def)
  then have t2: "srv_tables s2 = srv_tables s" by (simp add: alike_def)
  have "authorizeChannelManager u (Some app) (srv_db (ctx_world s2)) = (Inr True, srv_db (ctx_world s3))"
    using successOrAbort_Some [OF 3(1)] 3(2) by simp
  moreover have "loaded (srv_tables s2) i = Some app" using loaded t2 by simp
  ultimately have "manages (srv_tables s2) u app" by (rule manager_test_Inr)
  then show ?thesis using 2 loaded t2 user_alike [OF alike] by (simp add: h_user_Some)
qed

lemma allowed_by:
  assumes "allowed_application test i s = (Some app, s1)" and test: "\<And>u a. reads (test u a)"
  shows "\<exists>u d d'. TryGetUserID s = Some u \<and> loaded (srv_tables s) i = Some app \<and>
    test u (Some app) d = (Inr True, d') \<and> tables d = srv_tables s"
proof -
  obtain a s2 where 1: "successOrAbort 500 (db_GetApplicationByID i) s = (Some a, s2)"
    and rest: "h_bind h_user (\<lambda>userID. h_bind (successOrAbort 500 (test userID a)) (\<lambda>allowed.
       case a of None \<Rightarrow> aborted 404 (no_app i)
       | Some app \<Rightarrow> if allowed then h_return app else aborted 404 (no_app i))) s2 = (Some app, s1)"
    using assms(1) unfolding allowed_application_def h_bind_Some by blast
  obtain u s3 where 2: "h_user s2 = (Some u, s2)" and 3: "successOrAbort 500 (test u a) s2 = (Some True, s3)" "a = Some app"
    using rest unfolding h_bind_Some h_user_Some by (fastforce simp: h_user_Some split: option.splits if_splits)
  have alike: "alike s s2" using h_readsD [OF h_reads_call [OF reads_application] 1] by (simp add: alike_def)
  show ?thesis
    using successOrAbort_Some [OF 3(1)] 2 3(2) authorized_loaded [OF disjI2 [OF assms(1)]] user_alike [OF alike] alike
    by (auto simp: h_user_Some alike_def)
qed

lemma allowed_leads:
  assumes "allowed_application isOwnerOrAdmin i s = (Some app, s1)"
  shows "\<exists>u. TryGetUserID s = Some u \<and> loaded (srv_tables s) i = Some app \<and> leads_channel (srv_tables s) u app"
  using allowed_by [OF assms reads_queries(5)] owner_test_Inr by metis

lemma allowed_manages:
  assumes "allowed_application authorizeChannelManager i s = (Some app, s1)"
  shows "\<exists>u. TryGetUserID s = Some u \<and> loaded (srv_tables s) i = Some app \<and> manages (srv_tables s) u app"
  using allowed_by [OF assms reads_queries(4)] manager_test_Inr by metis

lemma changes_loaded:
  assumes "alters g (h_bind m f) s" and "h_reads m"
    and "\<And>app s1. m s = (Some app, s1) \<Longrightarrow> \<exists>u. TryGetUserID s = Some u \<and> loaded (srv_tables s) i = Some app \<and> Q (srv_tables s) u app"
  obtains u app s1 where "TryGetUserID s = Some u" "loaded (srv_tables s) i = Some app" "Q (srv_tables s) u app"
    "alike s s1" "alters g (f app) s1"
proof -
  obtain app s1 where s1: "m s = (Some app, s1)" "alike s s1" "alters g (f app) s1" by (rule changes_bind [OF assms(1,2)])
  then show thesis using assms(3) [OF s1(1)] that by blast
qed

lemma changes_authorized:
  assumes "alters g (h_bind (getAuthorizedApplication i) f) s"
  obtains u app s1 where "TryGetUserID s = Some u" "loaded (srv_tables s) i = Some app" "manages (srv_tables s) u app"
    "alike s s1" "alters g (f app) s1"
  by (rule changes_loaded [OF assms, where Q = manages and i = i]) (blast intro: h_reads_authorized authorized_manages)+

lemma changes_allowed_leads:
  assumes "alters g (h_bind (allowed_application isOwnerOrAdmin i) f) s"
  obtains u app s1 where "TryGetUserID s = Some u" "loaded (srv_tables s) i = Some app" "leads_channel (srv_tables s) u app"
    "alike s s1" "alters g (f app) s1"
  by (rule changes_loaded [OF assms, where Q = leads_channel and i = i])
    (blast intro: h_reads_authorized reads_queries allowed_leads)+

lemma changes_allowed_manages:
  assumes "alters g (h_bind (allowed_application authorizeChannelManager i) f) s"
  obtains u app s1 where "TryGetUserID s = Some u" "loaded (srv_tables s) i = Some app" "manages (srv_tables s) u app"
    "alike s s1" "alters g (f app) s1"
  by (rule changes_loaded [OF assms, where Q = manages and i = i])
    (blast intro: h_reads_authorized reads_queries allowed_manages)+

section \<open>The rule of every handler\<close>

lemma member_changes:
  "changes (UpsertMember p b) s \<Longrightarrow> \<exists>u i app. TryGetUserID s = Some u \<and> ParseUint p = Inr i \<and>
     loaded (srv_tables s) i = Some app \<and> manages (srv_tables s) u app \<and> \<not> app_Internal app"
  unfolding UpsertMember_def by (elim changes_withID changes_authorized changes_Bind) (blast dest: changes_if(1))

lemma owner_changes:
  "changes (TransferOwnership p b) s \<Longrightarrow> \<exists>u i app. TryGetUserID s = Some u \<and> ParseUint p = Inr i \<and>
     loaded (srv_tables s) i = Some app \<and> manages (srv_tables s) u app \<and> \<not> app_Internal app"
  unfolding TransferOwnership_def by (elim changes_withID changes_authorized) (blast dest: changes_if(1))

lemma assignment_changes:
  "changes (UpsertGroupAssignment p ba) s \<Longrightarrow> \<exists>u i app. TryGetUserID s = Some u \<and> ParseUint p = Inr i \<and>
     loaded (srv_tables s) i = Some app \<and> manages (srv_tables s) u app \<and> \<not> app_Internal app"
  unfolding UpsertGroupAssignment_def by (elim changes_withID changes_authorized) (blast dest: changes_if(1))

lemma managed_changes:
  "changes (DeleteGroupAssignment p g) s \<or> changes (api_UpdateApplication p bp) s \<or> changes (RemoveApplicationImage api p) s \<Longrightarrow>
   \<exists>u i app. TryGetUserID s = Some u \<and> ParseUint p = Inr i \<and>
     loaded (srv_tables s) i = Some app \<and> manages (srv_tables s) u app"
  unfolding DeleteGroupAssignment_def api_UpdateApplication_def RemoveApplicationImage_def
  by (elim disjE changes_withID changes_authorized changes_allowed_manages) blast+

lemma security_changes:
  "changes (UpdateApplicationSecurity tokens p b) s \<Longrightarrow> \<exists>u i app. TryGetUserID s = Some u \<and> ParseUint p = Inr i \<and>
     loaded (srv_tables s) i = Some app \<and> leads_channel (srv_tables s) u app"
  unfolding UpdateApplicationSecurity_def by (elim changes_withID changes_allowed_leads) blast

lemma dropped_member_changes:
  assumes "changes (DeleteMember p v) s"
  shows "\<exists>u i app. TryGetUserID s = Some u \<and> ParseUint p = Inr i \<and> loaded (srv_tables s) i = Some app \<and>
    manages (srv_tables s) u app \<and> \<not> app_AutoAssign app \<and> ParseUint v \<noteq> Inr (app_UserID app)"
proof -
  obtain i u app s1 j where i: "ParseUint p = Inr i" "TryGetUserID s = Some u" "loaded (srv_tables s) i = Some app"
      "manages (srv_tables s) u app" "alike s s1" and j: "ParseUint v = Inr j"
    and acts: "changes (if j = app_UserID app then aborted 400 (Err ''the application owner cannot be removed'')
     else h_bind (successOrAbort 500 (db_GetApplicationMembership i j)) (\<lambda>membership.
     if membership = None then aborted 404 (Err ''membership does not exist'')
     else if app_AutoAssign app then aborted 400 (Err ''members cannot be removed while auto-assign is enabled'')
     else successOrAbort 500 (DeleteApplicationMembership i j))) s1"
    using assms unfolding DeleteMember_def by (elim changes_withID changes_authorized) blast
  note rest = changes_if [OF acts]
  obtain m d s2 where "db_GetApplicationMembership i j (srv_db (ctx_world s1)) = (Inr m, d)" "alike s1 s2"
    and acts2: "changes (if m = None then aborted 404 (Err ''membership does not exist'')
     else if app_AutoAssign app then aborted 400 (Err ''members cannot be removed while auto-assign is enabled'')
     else successOrAbort 500 (DeleteApplicationMembership i j)) s2"
    by (rule changes_call [OF rest(2) reads_queries(3)])
  have "\<not> app_AutoAssign app" by (rule changes_if(1) [OF changes_if(2) [OF acts2]])
  then show ?thesis using i j rest(1) by auto
qed

lemma admin_changes:
  assumes "changes (h_bind (successOrAbort 500 (db_GetApplicationByID i)) (\<lambda>app. h_bind h_user (\<lambda>userID.
     h_bind (successOrAbort 500 (db_GetUserByID userID)) (\<lambda>current.
     case app of None \<Rightarrow> aborted 404 (Err ''application does not exist'') | Some app \<Rightarrow>
     if \<not> is_admin current then aborted 404 (Err ''application does not exist'')
     else if app_Internal app then aborted 400 e else f app)))) s"
  shows "\<exists>u app. TryGetUserID s = Some u \<and> loaded (srv_tables s) i = Some app \<and> admin_in (srv_tables s) u \<and>
    \<not> app_Internal app"
proof -
  let ?k = "\<lambda>app current. case app of None \<Rightarrow> aborted 404 (Err ''application does not exist'') | Some app \<Rightarrow>
     if \<not> is_admin current then aborted 404 (Err ''application does not exist'')
     else if app_Internal app then aborted 400 e else f app"
  obtain a d s1 where a: "db_GetApplicationByID i (srv_db (ctx_world s)) = (Inr a, d)" "alike s s1"
    and rest: "changes (h_bind h_user (\<lambda>userID. h_bind (successOrAbort 500 (db_GetUserByID userID)) (?k a))) s1"
    by (rule changes_call [OF assms reads_application])
  obtain u where u: "TryGetUserID s1 = Some u"
    and rest: "changes (h_bind (successOrAbort 500 (db_GetUserByID u)) (?k a)) s1"
    by (rule changes_user [OF rest])
  obtain x d' s2 where x: "db_GetUserByID u (srv_db (ctx_world s1)) = (Inr x, d')" and rest: "changes (?k a x) s2"
    by (rule changes_call [OF rest reads_queries(2)])
  obtain app where app: "a = Some app" using rest by (cases a) (simp_all add: alters_def)
  have test: "is_admin x" "\<not> app_Internal app"
    using rest unfolding app option.case by (blast dest: changes_if)+
  have "loaded (srv_tables s) i = Some app" using get_application_Inr [OF a(1)] app by simp
  moreover have "admin_in (srv_tables s) u" using get_user_Inr [OF x test(1)] a(2) by (simp add: alike_def)
  ultimately show ?thesis using u test(2) user_alike [OF a(2)] by auto
qed

lemma setting_changes:
  "changes (SetAutoAssign p b) s \<or> changes (SetMemberPosting p b) s \<Longrightarrow>
   \<exists>u i app. TryGetUserID s = Some u \<and> ParseUint p = Inr i \<and> loaded (srv_tables s) i = Some app \<and>
     admin_in (srv_tables s) u \<and> \<not> app_Internal app"
  unfolding SetAutoAssign_def SetMemberPosting_def by (elim disjE changes_withID) (drule admin_changes, blast)+

lemma dropped_channel_changes:
  assumes "changes (DeleteApplication api p) s"
  shows "\<exists>u i app. TryGetUserID s = Some u \<and> ParseUint p = Inr i \<and> loaded (srv_tables s) i = Some app \<and>
    leads_channel (srv_tables s) u app \<and> \<not> app_Internal app \<and> (if app_AutoAssign app then admin_in (srv_tables s) u else True)"
proof -
  let ?k = "\<lambda>i app. h_then (successOrAbort 500 (db_DeleteApplicationByID i))
       (h_then (case aa_OnDelete api of None \<Rightarrow> h_return () | Some f \<Rightarrow> h_effect (f i))
         (if app_Image app \<noteq> '''' then h_effect (aa_Remove api (aa_ImageDir api @ app_Image app)) else h_return ()))"
  let ?m = "h_bind h_user (\<lambda>userID. h_bind (successOrAbort 500 (db_GetUserByID userID)) (\<lambda>current.
     if is_admin current then h_return () else aborted 403 (Err ''global channels can only be deleted by an administrator'')))"
  obtain i u app s1 where i: "ParseUint p = Inr i" "TryGetUserID s = Some u" "loaded (srv_tables s) i = Some app"
      "leads_channel (srv_tables s) u app" "alike s s1" and acts: "changes (if app_Internal app
        then aborted 400 (Err ''cannot delete internal application'')
        else h_then (if app_AutoAssign app then ?m else h_return ()) (?k i app)) s1"
    using assms unfolding DeleteApplication_def by (elim changes_withID changes_allowed_leads) blast
  note rest = changes_if [OF acts]
  have "admin_in (srv_tables s) u" if "app_AutoAssign app"
  proof -
    have reads: "h_reads ?m" by (intro h_read_rules reads_queries)
    have "changes (h_bind ?m (\<lambda>_. ?k i app)) s1" using rest(2) that unfolding h_then_def by simp
    then obtain s2 where m: "?m s1 = (Some (), s2)" by (rule changes_bind [OF _ reads]) simp
    then obtain x s3 where "successOrAbort 500 (db_GetUserByID u) s1 = (Some x, s3)" "is_admin x"
      using i(2) user_alike [OF i(5)] unfolding h_bind_Some by (auto simp: h_user_Some split: if_splits)
    then show ?thesis using get_user_Inr successOrAbort_Some i(5) unfolding alike_def by metis
  qed
  then show ?thesis using i rest(1) by auto
qed

text \<open>
  Property C7. A request about a channel changes the tables only when its user has the right to do so: members,
  groups and the description need the owner, an administrator or a manager by effective role; the token and the
  deletion need the owner or an administrator, the deletion of a channel for everybody and its settings an
  administrator. Internal channels are not shared, handed over, reconfigured or deleted, and no one removes the
  owner as a member.
\<close>

theorem channel_changes_authorized:
  assumes "srv_tables (serve api req s) \<noteq> srv_tables s" and "about req = Some p"
  shows "\<exists>u i app. TryGetUserID s = Some u \<and> ParseUint p = Inr i \<and> loaded (srv_tables s) i = Some app \<and>
    permitted req (srv_tables s) u app"
proof (cases req)
  case (PutMember p' b)
  then show ?thesis using assms member_changes [of p b s] by (simp add: alters_def)
next
  case (DropMember p' v)
  then show ?thesis using assms dropped_member_changes [of p v s] by (simp add: alters_def)
next
  case (PutAutoAssign p' b)
  then show ?thesis using assms setting_changes [of p b s] by (simp add: alters_def)
next
  case (PutPosting p' b)
  then show ?thesis using assms setting_changes [of p b s] by (simp add: alters_def)
next
  case (PutOwner p' b)
  then show ?thesis using assms owner_changes [of p b s] by (simp add: alters_def)
next
  case (PutAssignment p' b)
  then show ?thesis using assms assignment_changes [of p b s] by (simp add: alters_def)
next
  case (DropAssignment p' g)
  then show ?thesis using assms managed_changes [of p g s] by (simp add: alters_def)
next
  case (PutChannel p' b)
  then show ?thesis using assms managed_changes [of p _ s b] by (simp add: alters_def)
next
  case (PutSecurity tok p' b)
  then show ?thesis using assms security_changes [of tok p b s] by (simp add: alters_def)
next
  case (DropChannel p')
  then show ?thesis using assms dropped_channel_changes [of api p s] by (simp add: alters_def)
next
  case (DropImage p')
  then show ?thesis using assms managed_changes [of p _ s _ api] by (simp add: alters_def)
qed (use assms in simp_all)

text \<open>The owner of the channel gives it a new token.\<close>

lemma run_simps:
  "faults s = [] \<Longrightarrow> statement f s = (case f (tables s) of (r, t) \<Rightarrow> (r, \<lparr>tables = t, faults = []\<rparr>))"
  by (simp add: statement_def)

theorem channel_changes_authorized_witness:
  "permitted (PutSecurity (''tok'', ''tok'') ''7'' (Inr True)) (srv_tables demo_owner) 1
     (no_application\<lparr>app_ID := 7, app_UserID := 1\<rparr>)"
proof -
  let ?app = "no_application\<lparr>app_ID := 7, app_UserID := 1\<rparr>"
  let ?req = "PutSecurity (''tok'', ''tok'') ''7'' (Inr True)"
  have user: "TryGetUserID demo_owner = Some 1"
    by (simp add: demo_owner_def TryGetUserID_def getInfo_def info_user_id_def demo_user_def)
  have seven: "ParseUint ''7'' = Inr 7" by (simp add: ParseUint_def decimal_def byte_in_def read_nat_def)
  have app: "loaded (srv_tables demo_owner) 7 = Some ?app"
    by (simp add: loaded_def application_of_def demo_owner_def demo_server_def demo_groups_def no_application_def)
  have "map app_Token (tb_applications (srv_tables (serve demo_application_api ?req demo_owner))) = [''tok'']"
    using user seven
    by (simp add: UpdateApplicationSecurity_def withID_def allowed_application_def h_bind_def h_then_def h_user_def GetUserID_def
        successOrAbort_def db_GetApplicationByID_def isOwnerOrAdmin_def db_bind_def query_def run_simps demo_owner_def
        demo_server_def demo_groups_def no_application_def h_Bind_def db_UpdateApplication_def update_application_row_def
        application_row_def)
  moreover have "map app_Token (tb_applications (srv_tables demo_owner)) = ['''']"
    by (simp add: demo_owner_def demo_server_def demo_groups_def no_application_def)
  ultimately have "srv_tables (serve demo_application_api ?req demo_owner) \<noteq> srv_tables demo_owner" by (metis list.inject list.distinct(1))
  from channel_changes_authorized [OF this, of "''7''"] show ?thesis using user seven app by simp
qed

end
