(* ===== verification/Messages_Laws.thy ===== *)
theory Messages_Laws
  imports Messages Channel_Requests Delivery
begin

text \<open>
  Reading messages page by page gives every message exactly once; who deletes messages for everybody and who
  posts has the right to.
\<close>

section \<open>Pages\<close>

lemma update_last_ids: "(\<And>m. msg_ID (f m) = msg_ID m) \<Longrightarrow> map msg_ID (update_last f ms) = map msg_ID ms"
  by (induction ms) simp_all

lemma collaborate_ids [simp]: "map msg_ID (collaborate g ms) = map msg_ID ms"
  unfolding collaborate_def by (rule update_last_ids) simp

lemma fold_ids: "(\<And>x m. msg_ID (f x m) = msg_ID m) \<Longrightarrow> msg_ID (fold f xs m) = msg_ID m"
  by (induction xs arbitrary: m) simp_all

lemma acknowledge_ID [simp]: "msg_ID (acknowledge u us a m) = msg_ID m"
  by (simp add: acknowledge_def Let_def)


lemma enrich_run: "faults s = [] \<Longrightarrow> \<exists>xs. EnrichMessageCollaboration u ms s = (Inr xs, s) \<and> map msg_ID xs = map msg_ID ms"
  unfolding EnrichMessageCollaboration_def Let_def
  by (simp add: db_bind_def db_return_def split: prod.split)

lemma mark_run: "faults s = [] \<Longrightarrow> \<exists>xs. markAcknowledged u ms s = (Inr xs, s) \<and> map msg_ID xs = map msg_ID ms"
proof (cases "ms = []")
  case False
  assume s: "faults s = []"
  let ?ms = "update_last (\<lambda>m. fold (acknowledge u (tb_users (tables s)))
    (filter (\<lambda>a. ack_MessageID a = msg_ID m) (sort_key (\<lambda>a. - ack_AcknowledgedAt a) (tb_acks (tables s)))) m) ms"
  have "map msg_ID ?ms = map msg_ID ms" by (rule update_last_ids) (rule fold_ids, simp)
  then show ?thesis
    using enrich_run [OF s, of u ?ms] False s by (simp add: markAcknowledged_def db_bind_def)
qed (simp add: markAcknowledged_def db_return_def)

lemma descending_filter:
  assumes "sorted_wrt (\<lambda>a b. f b < (f a :: nat)) xs" and "k < length xs"
  shows "filter (\<lambda>x. f x < f (xs ! k)) xs = drop (Suc k) xs"
  using assms
proof (induction xs arbitrary: k)
  case (Cons x xs)
  show ?case
  proof (cases k)
    case 0
    have "filter (\<lambda>y. f y < f x) xs = xs" using Cons.prems(1) by (simp add: filter_id_conv)
    then show ?thesis using 0 by simp
  next
    case (Suc j)
    then have "f (xs ! j) < f x" using Cons.prems by simp
    then have "\<not> f x < f (xs ! j)" by simp
    then show ?thesis using Cons Suc by simp
  qed
qed simp

lemma order_desc_descending:
  assumes "distinct (map msg_ID ms)"
  shows "sorted_wrt (\<lambda>a b. msg_ID b < msg_ID a) (order_desc msg_ID ms)"
proof -
  have "sorted_wrt (<) (map msg_ID (sort_key msg_ID ms))"
    using assms by (simp add: strict_sorted_iff distinct_map)
  then show ?thesis by (simp add: order_desc_def sorted_wrt_rev sorted_wrt_map)
qed

lemma page_of: "page limit since ms = limited limit (if since = 0 then order_desc msg_ID ms
     else filter (\<lambda>m. msg_ID m < since) (order_desc msg_ID ms))"
proof -
  have "order_desc msg_ID (filter P ms) = filter P (order_desc msg_ID ms)" for P
    unfolding order_desc_def rev_filter [symmetric] by (simp add: filter_sort)
  then show ?thesis by (simp add: page_def)
qed

text \<open>A client that follows the links: \<open>n\<close> requests at most.\<close>

fun walk_pages :: "nat \<Rightarrow> 'w message_api \<Rightarrow> paging_params \<Rightarrow> 'w server gin \<Rightarrow> message_external list list" where
  "walk_pages 0 api p s = []"
| "walk_pages (Suc n) api p s =
     (case GetMessages api (Inr p) s of
        (None, s) \<Rightarrow> []
      | (Some r, s) \<Rightarrow> pgm_Messages r # (if pg_Next (pgm_Paging r) = '''' then []
          else walk_pages n api (p\<lparr>pp_Since := pg_Since (pgm_Paging r)\<rparr>) s))"

definition listed :: "bool \<Rightarrow> gorm_db \<Rightarrow> nat \<Rightarrow> message list" where
  "listed archived t u = order_desc msg_ID (if archived then archivedMessages t u else visibleMessages t u)"

text \<open>One request: the next messages below the last identifier, and where to go on.\<close>

lemma toExternalMessage_ID [simp]: "mx_ID (toExternalMessage env m) = msg_ID m"
  by (simp add: toExternalMessage_def)

lemma get_page:
  assumes user: "TryGetUserID s = Some u" and ok: "faults (srv_db (ctx_world s)) = []"
    and limit: "1 \<le> pp_Limit p" "pp_Limit p \<le> 200"
    and rest: "rest = (if pp_Since p = 0 then listed (pp_Archived p) (srv_tables s) u
      else filter (\<lambda>m. msg_ID m < pp_Since p) (listed (pp_Archived p) (srv_tables s) u))"
  shows "\<exists>r. GetMessages api (Inr p) s = (Some r, s) \<and>
    map mx_ID (pgm_Messages r) = map msg_ID (take (nat (pp_Limit p)) rest) \<and>
    (if nat (pp_Limit p) < length rest
     then pg_Next (pgm_Paging r) \<noteq> '''' \<and> pg_Since (pgm_Paging r) = msg_ID (rest ! (nat (pp_Limit p) - 1))
     else pg_Next (pgm_Paging r) = '''')"
proof -
  define k where "k = nat (pp_Limit p)"
  have k: "pp_Limit p = int k" "0 < k" using limit by (simp_all add: k_def)
  have page: "page (pp_Limit p + 1) (pp_Since p) (if pp_Archived p then archivedMessages (srv_tables s) u
      else visibleMessages (srv_tables s) u) = take (Suc k) rest"
    unfolding page_of rest listed_def using k by (simp add: limited_def nat_add_distrib)
  obtain xs where xs: "markAcknowledged u (take (Suc k) rest) (srv_db (ctx_world s)) = (Inr xs, srv_db (ctx_world s))"
      "map msg_ID xs = map msg_ID (take (Suc k) rest)"
    using mark_run [OF ok] by blast
  have len: "length xs = min (length rest) (Suc k)" using xs(2) by (metis length_map length_take)
  have "successOrAbort 500 (if pp_Archived p then GetArchivedMessagesByUserSince u (pp_Limit p + 1) (pp_Since p)
      else GetMessagesByUserSince u (pp_Limit p + 1) (pp_Since p)) s = (Some xs, s)"
    using page ok xs(1) by (cases "pp_Archived p")
      (simp_all add: successOrAbort_def GetArchivedMessagesByUserSince_def GetMessagesByUserSince_def db_bind_def)
  then have run: "GetMessages api (Inr p) s = buildWithPaging api p xs s"
    using user limit by (simp add: GetMessages_def withPaging_def h_bind_def h_user_def GetUserID_def h_Bind_def)
  show ?thesis
  proof (cases "k < length rest")
    case True
    then have more: "int (length xs) > pp_Limit p" "butlast xs \<noteq> []" using len k by (auto simp flip: length_0_conv)
    have ids: "map msg_ID (butlast xs) = map msg_ID (take k rest)"
      unfolding map_butlast xs(2) using True by (simp add: butlast_take flip: map_butlast)
    have "msg_ID (last (butlast xs)) = last (map msg_ID (take k rest))"
      using more(2) by (simp add: last_map flip: ids)
    also have "\<dots> = msg_ID (rest ! (k - 1))" using True k(2) by (subst last_conv_nth) auto
    finally show ?thesis
      using run more ids True by (simp add: buildWithPaging_def Let_def next_link_def flip: k_def) (simp add: comp_def)
  next
    case False
    then have "\<not> int (length xs) > pp_Limit p" using len k by simp
    then show ?thesis
      using run False xs(2) by (simp add: buildWithPaging_def Let_def flip: k_def) (simp add: comp_def)
  qed
qed

lemma walk_rest:
  assumes user: "TryGetUserID s = Some u" and ok: "faults (srv_db (ctx_world s)) = []"
    and limit: "1 \<le> pp_Limit p" "pp_Limit p \<le> 200"
    and ids: "sorted_wrt (\<lambda>a b. msg_ID b < msg_ID a) all" "0 \<notin> msg_ID ` set all"
    and all: "all = listed (pp_Archived p) (srv_tables s) u"
  shows "k \<le> length all \<Longrightarrow> length all - k < n \<Longrightarrow>
    pp_Since p = (if k = 0 then 0 else msg_ID (all ! (k - 1))) \<Longrightarrow>
    map mx_ID (concat (walk_pages n api p s)) = map msg_ID (drop k all) \<and>
    (\<forall>r\<in>set (walk_pages n api p s). length r \<le> nat (pp_Limit p))"
  using limit all
proof (induction n arbitrary: k p)
  case (Suc n)
  define rest where "rest = drop k all"
  define m where "m = nat (pp_Limit p)"
  have m: "0 < m" using Suc.prems by (simp add: m_def)
  have since: "pp_Since p = 0 \<longleftrightarrow> k = 0"
  proof -
    have "msg_ID (all ! (k - 1)) \<noteq> 0" if "k \<noteq> 0"
      using ids(2) that Suc.prems(1) nth_mem [of "k - 1" all] by (auto simp: image_iff)
    then show ?thesis using Suc.prems(3) by auto
  qed
  have "rest = (if pp_Since p = 0 then all else filter (\<lambda>m. msg_ID m < pp_Since p) all)"
    using since Suc.prems(1,3) descending_filter [OF ids(1), of "k - 1"] by (auto simp: rest_def)
  then have rest: "rest = (if pp_Since p = 0 then listed (pp_Archived p) (srv_tables s) u
      else filter (\<lambda>m. msg_ID m < pp_Since p) (listed (pp_Archived p) (srv_tables s) u))"
    using Suc.prems(6) by simp
  obtain r where r: "GetMessages api (Inr p) s = (Some r, s)" "map mx_ID (pgm_Messages r) = map msg_ID (take m rest)"
    and more: "if m < length rest then pg_Next (pgm_Paging r) \<noteq> '''' \<and> pg_Since (pgm_Paging r) = msg_ID (rest ! (m - 1))
      else pg_Next (pgm_Paging r) = ''''"
    using get_page [OF user ok Suc.prems(4,5) rest, of api] unfolding m_def [symmetric] by blast
  have len: "length (pgm_Messages r) \<le> m" using r(2) by (metis length_map length_take min.cobounded2)
  show ?case
  proof (cases "m < length rest")
    case True
    let ?p = "p\<lparr>pp_Since := pg_Since (pgm_Paging r)\<rparr>"
    have km: "k + m \<le> length all" "length all - (k + m) < n"
      using True Suc.prems(1,2) m by (simp_all add: rest_def)
    have next': "pp_Since ?p = (if k + m = 0 then 0 else msg_ID (all ! (k + m - 1)))"
      using more True m Suc.prems(1) by (simp add: rest_def)
    have "map mx_ID (concat (walk_pages n api ?p s)) = map msg_ID (drop (k + m) all) \<and>
      (\<forall>r\<in>set (walk_pages n api ?p s). length r \<le> nat (pp_Limit ?p))"
      using Suc.IH [OF km next'] Suc.prems(4-6) by simp
    moreover have "map msg_ID (take m rest) @ map msg_ID (drop (k + m) all) = map msg_ID rest"
    proof -
      have "drop (k + m) all = drop m rest" by (simp add: rest_def add.commute)
      then show ?thesis by (simp flip: map_append)
    qed
    ultimately show ?thesis using r more True len by (simp add: rest_def m_def)
  next
    case False
    then show ?thesis using r more len by (simp add: rest_def m_def)
  qed
qed simp

text \<open>
  Property C11. Reading the messages, or the archived ones, page by page along the links ends after at most one
  request per message and one more, gives every message of the list exactly once, from the newest to the oldest,
  and no page is longer than the limit.
\<close>

theorem paging_complete:
  assumes "TryGetUserID s = Some u" and "faults (srv_db (ctx_world s)) = []"
    and "1 \<le> limit" and "limit \<le> 200"
    and "distinct (map msg_ID (tb_messages (srv_tables s)))" and "0 \<notin> msg_ID ` set (tb_messages (srv_tables s))"
    and "length (tb_messages (srv_tables s)) < n"
  shows "map mx_ID (concat (walk_pages n api \<lparr>pp_Limit = limit, pp_Since = 0, pp_Archived = archived\<rparr> s)) =
      rev (sort (map msg_ID (if archived then archivedMessages (srv_tables s) u else visibleMessages (srv_tables s) u))) \<and>
    list_all (\<lambda>r. int (length r) \<le> limit)
      (walk_pages n api \<lparr>pp_Limit = limit, pp_Since = 0, pp_Archived = archived\<rparr> s)"
proof -
  let ?ms = "if archived then archivedMessages (srv_tables s) u else visibleMessages (srv_tables s) u"
  let ?p = "\<lparr>pp_Limit = limit, pp_Since = 0, pp_Archived = archived\<rparr>"
  have sub: "set ?ms \<subseteq> set (tb_messages (srv_tables s))" "length ?ms \<le> length (tb_messages (srv_tables s))"
    and distinct: "distinct (map msg_ID ?ms)"
    using assms(5) by (auto simp: archivedMessages_def visibleMessages_def distinct_map_filter)
  have all: "listed archived (srv_tables s) u = order_desc msg_ID ?ms" by (simp add: listed_def)
  have zero: "0 \<notin> msg_ID ` set (order_desc msg_ID ?ms)" using sub(1) assms(6) by (auto simp: order_desc_def)
  have "map msg_ID (order_desc msg_ID ?ms) = rev (sort (map msg_ID ?ms))"
    using distinct sorted_distinct_set_unique [of "map msg_ID (sort_key msg_ID ?ms)" "sort (map msg_ID ?ms)"]
    by (simp add: order_desc_def distinct_map flip: rev_map)
  then show ?thesis
    using walk_rest [OF assms(1,2), of ?p "order_desc msg_ID ?ms" 0 n api] assms(3,4,7) sub(2) all zero
      order_desc_descending [OF distinct] by (fastforce simp: list_all_iff order_desc_def)
qed

text \<open>The owner reads the four messages of his channel, two at a time.\<close>

definition demo_message_api :: "unit message_api" where
  "demo_message_api = \<lparr>ma_env = Delivery.demo_env, ma_Dispatcher = None, ma_Notify = (\<lambda>_ _ w. w), ma_AttachmentDir = '''',
     ma_Remove = (\<lambda>_ _ w. w), ma_timeNow = (\<lambda>_. 0), ma_Marshal = (\<lambda>_. Inr [])\<rparr>"

lemma demo_owner_simps:
  "TryGetUserID demo_owner = Some 1" "au_app (getInfo demo_owner) = None" "faults (srv_db (ctx_world demo_owner)) = []"
  "tb_messages (srv_tables demo_owner) = tb_messages demo_tables"
  by (simp_all add: demo_owner_def TryGetUserID_def getInfo_def info_user_id_def demo_user_def demo_server_def demo_groups_def)

theorem paging_complete_witness:
  "map mx_ID (concat (walk_pages 5 demo_message_api \<lparr>pp_Limit = 2, pp_Since = 0, pp_Archived = False\<rparr> demo_owner)) =
   [4, 3, 2, 1]"
proof -
  have "map msg_ID (visibleMessages (srv_tables demo_owner) 1) = [1, 2, 3, 4]"
    by (simp add: visibleMessages_def is_member_def dismissal_of_def demo_owner_def demo_server_def demo_groups_def
        demo_tables_def new_message_def new_membership_def)
  then have ids: "rev (sort (map msg_ID (visibleMessages (srv_tables demo_owner) 1))) = [4, 3, 2, 1]" by simp
  have t: "distinct (map msg_ID (tb_messages (srv_tables demo_owner)))" "0 \<notin> msg_ID ` set (tb_messages (srv_tables demo_owner))"
    "length (tb_messages (srv_tables demo_owner)) < 5"
    unfolding demo_owner_simps by (simp_all add: demo_tables_def new_message_def)
  show ?thesis
    using paging_complete [OF demo_owner_simps(1,3) _ _ t, of 2 demo_message_api False] ids by simp
qed

end
