(* ===== verification/Message_Rights.thy ===== *)
theory Message_Rights
  imports Messages_Laws
begin

text \<open>
  Who takes messages from everybody and who posts: the rights behind the handlers of \<open>Messages\<close>, in terms of the
  tables at the start of a request.
\<close>

section \<open>Deleting messages for everybody\<close>

text \<open>The owner of a channel without other members.\<close>

definition sole_owner :: "gorm_db \<Rightarrow> nat \<Rightarrow> application \<Rightarrow> bool" where
  "sole_owner t u app \<longleftrightarrow> app_UserID app = u \<and>
     length (filter (\<lambda>m. mem_ApplicationID m = app_ID app) (tb_memberships t)) = 1"

lemma not_altered: "(\<And>x. keeps (\<lambda>t. g t = x) m) \<Longrightarrow> \<not> alters g (successOrAbort c m) s"
  unfolding alters_def successOrAbort_run keeps_def by simp

lemma changes_option:
  assumes "alters g (case y of None \<Rightarrow> aborted c e | Some x \<Rightarrow> f x) s" obtains x where "y = Some x" "alters g (f x) s"
  using assms by (cases y) (auto simp: alters_def)

lemma keeps_put_dismissal: "keeps (\<lambda>t. tb_messages t = x) (exec (put_dismissal up u b i))"
  by (rule keeps_exec) (simp add: put_dismissal_def)

lemma fold_put_dismissal: "tb_messages (fold (put_dismissal up u b) ids t) = tb_messages t"
  by (induction ids arbitrary: t) (simp_all add: put_dismissal_def)

lemma keeps_dismiss:
  "keeps (\<lambda>t. tb_messages t = x) (DismissMessageForUser u i)"
  "keeps (\<lambda>t. tb_messages t = x) (DismissMessagesByApplicationForUser u a)"
  unfolding DismissMessageForUser_def DismissMessagesByApplicationForUser_def createDismissals_def
  by (rule keeps_put_dismissal)
    (intro keeps_rules; simp add: fold_put_dismissal keeps_return; intro keeps_rules; simp add: fold_put_dismissal)

lemma count_Inr: "CountApplicationMemberships i s = (Inr n, s') \<Longrightarrow>
    n = length (filter (\<lambda>m. mem_ApplicationID m = i) (tb_memberships (tables s)))"
  unfolding CountApplicationMemberships_def by (drule query_Inr) simp

lemma reads_count: "reads (CountApplicationMemberships i)"
  unfolding CountApplicationMemberships_def by (rule atomic_rules)

text \<open>A removal behind the test for the only member.\<close>

lemma sole_removal:
  assumes "alters tb_messages (h_bind (successOrAbort 500 (CountApplicationMemberships i)) (\<lambda>n.
      if app_UserID app = u \<and> n = 1 then k else successOrAbort c d)) s"
    and "\<And>x. keeps (\<lambda>t. tb_messages t = x) d" and "app_ID app = i"
  shows "sole_owner (srv_tables s) u app"
proof -
  obtain n r s1 where n: "CountApplicationMemberships i (srv_db (ctx_world s)) = (Inr n, r)"
    and rest: "alters tb_messages (if app_UserID app = u \<and> n = 1 then k else successOrAbort c d) s1"
    by (rule changes_call [OF assms(1) reads_count])
  have "app_UserID app = u \<and> n = 1" using rest not_altered [OF assms(2)] by (metis (full_types))
  then show ?thesis using count_Inr [OF n] assms(3) by (simp add: sole_owner_def)
qed

lemma channel_messages_removed:
  assumes "alters tb_messages (DeleteMessageWithApplication p) s"
  shows "\<exists>u i app. TryGetUserID s = Some u \<and> ParseUint p = Inr i \<and> loaded (srv_tables s) i = Some app \<and>
    (if app_AutoAssign app then admin_in (srv_tables s) u else sole_owner (srv_tables s) u app)"
proof -
  let ?count = "\<lambda>i u app. h_bind (successOrAbort 500 (CountApplicationMemberships i)) (\<lambda>n.
      if app_UserID app = u \<and> n = 1 then successOrAbort 500 (DeleteMessagesByApplication i)
      else successOrAbort 500 (DismissMessagesByApplicationForUser u i))"
  let ?all = "\<lambda>i u. h_bind (successOrAbort 500 (db_GetUserByID u)) (\<lambda>user.
      if \<not> is_admin user then aborted 403 only_admin else successOrAbort 500 (DeleteMessagesByApplication i))"
  let ?member = "\<lambda>i u a m. case a of None \<Rightarrow> aborted 404 (Err ''application does not exists'') | Some app \<Rightarrow>
     if m = None then aborted 404 (Err ''application does not exists'')
     else if app_AutoAssign app then ?all i u else ?count i u app"
  let ?app = "\<lambda>i u a. h_bind (successOrAbort 500 (db_GetApplicationMembership i u)) (?member i u a)"
  obtain i where i: "ParseUint p = Inr i" and 1: "alters tb_messages (h_bind h_user (\<lambda>u.
      h_bind (successOrAbort 500 (db_GetApplicationByID i)) (?app i u))) s"
    using assms unfolding DeleteMessageWithApplication_def by (rule changes_withID)
  obtain u where u: "TryGetUserID s = Some u"
    and 2: "alters tb_messages (h_bind (successOrAbort 500 (db_GetApplicationByID i)) (?app i u)) s"
    using 1 by (rule changes_user)
  obtain a d s1 where a: "db_GetApplicationByID i (srv_db (ctx_world s)) = (Inr a, d)" "alike s s1"
    and 3: "alters tb_messages (?app i u a) s1"
    by (rule changes_call [OF 2 reads_application])
  obtain m d s2 where "db_GetApplicationMembership i u (srv_db (ctx_world s1)) = (Inr m, d)" and m: "alike s1 s2"
    and 4: "alters tb_messages (?member i u a m) s2"
    by (rule changes_call [OF 3 reads_queries(3)])
  obtain app where app: "a = Some app" and 5: "alters tb_messages (if m = None then aborted 404 (Err ''application does not exists'')
     else if app_AutoAssign app then ?all i u else ?count i u app) s2"
    using 4 by (rule changes_option)
  note 6 = changes_if(2) [OF 5]
  have t: "srv_tables s2 = srv_tables s" using a(2) m by (simp add: alike_def)
  have loaded: "loaded (srv_tables s) i = Some app" using get_application_Inr [OF a(1)] app by simp
  have "if app_AutoAssign app then admin_in (srv_tables s) u else sole_owner (srv_tables s) u app"
  proof (cases "app_AutoAssign app")
    case True
    then have 7: "alters tb_messages (?all i u) s2" using 6 by simp
    obtain x d s3 where x: "db_GetUserByID u (srv_db (ctx_world s2)) = (Inr x, d)" and "alike s2 s3" and 8: "alters tb_messages
        (if \<not> is_admin x then aborted 403 only_admin else successOrAbort 500 (DeleteMessagesByApplication i)) s3"
      by (rule changes_call [OF 7 reads_queries(2)])
    show ?thesis using get_user_Inr [OF x] changes_if(1) [OF 8] True t by simp
  next
    case False
    then have "alters tb_messages (?count i u app) s2" using 6 by simp
    then have "sole_owner (srv_tables s2) u app" by (rule sole_removal [OF _ keeps_dismiss(2) loaded_simps(3) [OF loaded]])
    then show ?thesis using False t by simp
  qed
  then show ?thesis using i u loaded by blast
qed

lemma everyones_messages_removed:
  assumes "alters tb_messages (DeleteMessagesForEveryone p) s"
  shows "\<exists>u i app. TryGetUserID s = Some u \<and> ParseUint p = Inr i \<and> loaded (srv_tables s) i = Some app \<and>
    (if app_AutoAssign app then admin_in (srv_tables s) u else manages (srv_tables s) u app)"
proof -
  let ?role = "\<lambda>i u. h_bind (successOrAbort 500 (db_GetApplicationMembership i u)) (\<lambda>m.
      h_return (case m of None \<Rightarrow> False | Some m \<Rightarrow> mem_EffectiveRole m = ChannelRoleManager))"
  let ?right = "\<lambda>i u app x. if app_UserID app = u \<or> is_admin x then h_return True else ?role i u"
  let ?act = "\<lambda>i app x allowed. if \<not> (if app_AutoAssign app then is_admin x else allowed)
     then (if app_AutoAssign app
       then aborted 403 (Err ''global channel history can only be cleared by an administrator'')
       else aborted 404 (Err ''application does not exist''))
     else successOrAbort 500 (DeleteMessagesByApplication i)"
  let ?app = "\<lambda>i app. h_bind h_user (\<lambda>u. h_bind (successOrAbort 500 (db_GetUserByID u)) (\<lambda>x.
     h_bind (?right i u app x) (?act i app x)))"
  obtain i where i: "ParseUint p = Inr i" and 1: "alters tb_messages (h_bind (successOrAbort 500 (db_GetApplicationByID i))
      (\<lambda>a. case a of None \<Rightarrow> aborted 404 (Err ''application does not exist'') | Some app \<Rightarrow> ?app i app)) s"
    using assms unfolding DeleteMessagesForEveryone_def by (rule changes_withID)
  obtain a d s1 where a: "db_GetApplicationByID i (srv_db (ctx_world s)) = (Inr a, d)" "alike s s1"
    and 2: "alters tb_messages (case a of None \<Rightarrow> aborted 404 (Err ''application does not exist'') | Some app \<Rightarrow> ?app i app) s1"
    by (rule changes_call [OF 1 reads_application])
  obtain app where app: "a = Some app" and 3: "alters tb_messages (?app i app) s1" using 2 by (rule changes_option)
  obtain u where u: "TryGetUserID s1 = Some u" and 4: "alters tb_messages (h_bind (successOrAbort 500 (db_GetUserByID u)) (\<lambda>x.
     h_bind (?right i u app x) (?act i app x))) s1"
    using 3 by (rule changes_user)
  obtain x d s2 where x: "db_GetUserByID u (srv_db (ctx_world s1)) = (Inr x, d)" "alike s1 s2"
    and 5: "alters tb_messages (h_bind (?right i u app x) (?act i app x)) s2"
    by (rule changes_call [OF 4 reads_queries(2)])
  have reads: "h_reads (?right i u app x)" by (intro h_reads_if h_read_rules reads_queries)
  obtain allowed s3 where allowed: "?right i u app x s2 = (Some allowed, s3)" and 6: "alters tb_messages (?act i app x allowed) s3"
    by (rule changes_bind [OF 5 reads])
  have t: "srv_tables s1 = srv_tables s" "srv_tables s2 = srv_tables s" using a(2) x(2) by (simp_all add: alike_def)
  have loaded: "loaded (srv_tables s) i = Some app" using get_application_Inr [OF a(1)] app by simp
  have test: "if app_AutoAssign app then is_admin x else allowed"
    using 6 by (auto simp: alters_def split: if_splits)
  have admin: "admin_in (srv_tables s) u" if "is_admin x" using get_user_Inr [OF x(1) that] t by simp
  have "manages (srv_tables s) u app" if yes: "allowed"
  proof (cases "leads_channel (srv_tables s) u app")
    case False
    then have other: "app_UserID app \<noteq> u" "\<not> is_admin x" using admin by (auto simp: leads_channel_def)
    then obtain m where m: "db_GetApplicationMembership i u (srv_db (ctx_world s2)) = (Inr (Some m), srv_db (ctx_world s3))"
        "mem_EffectiveRole m = ChannelRoleManager"
      using allowed yes by (auto simp: h_bind_Some split: option.splits dest!: successOrAbort_Some)
    have "map_option app_UserID (loaded (srv_tables s2) i) \<noteq> Some u" using other(1) loaded t by simp
    from get_membership_Inr [OF m(1) this] m(2) show ?thesis
      unfolding t using loaded_simps(3) [OF loaded] by (auto simp: manages_def ChannelRoleManager_def ChannelRoleMember_def)
  qed (simp add: manages_def)
  then show ?thesis using i u loaded test admin user_alike [OF a(2)] by auto
qed

text \<open>A row that looks like a found one, for identifier 0, is the empty message.\<close>

definition loaded_message :: "gorm_db \<Rightarrow> nat \<Rightarrow> message option" where
  "loaded_message t i = (case find (\<lambda>m. msg_ID m = i) (tb_messages t) of
     Some m \<Rightarrow> Some m | None \<Rightarrow> if i = 0 then Some new_message else None)"

lemma get_message_Inr: "db_GetMessageByID i s = (Inr r, s') \<Longrightarrow> r = loaded_message (tables s) i"
proof -
  assume "db_GetMessageByID i s = (Inr r, s')"
  then obtain row s1 where q: "query (\<lambda>t. find (\<lambda>m. msg_ID m = i) (tb_messages t)) s = (Inr row, s1)"
    and r: "db_return (if msg_ID (case row of None \<Rightarrow> new_message | Some m \<Rightarrow> m) = i
      then Some (case row of None \<Rightarrow> new_message | Some m \<Rightarrow> m) else None) s1 = (Inr r, s')"
    unfolding db_GetMessageByID_def db_bind_Inr Let_def by blast
  have r: "r = (if msg_ID (case row of None \<Rightarrow> new_message | Some m \<Rightarrow> m) = i
      then Some (case row of None \<Rightarrow> new_message | Some m \<Rightarrow> m) else None)"
    using r unfolding db_return_def by simp
  have row: "row = find (\<lambda>m. msg_ID m = i) (tb_messages (tables s))" using query_Inr [OF q] by simp
  show ?thesis
  proof (cases row)
    case None
    then show ?thesis unfolding r loaded_message_def row [symmetric] by (simp add: new_message_def)
  next
    case (Some m)
    then have "find (\<lambda>m. msg_ID m = i) (tb_messages (tables s)) = Some m" using row by simp
    then have "msg_ID m = i" by (rule conjunct2 [OF find_SomeD])
    then show ?thesis unfolding r loaded_message_def row [symmetric] using Some by simp
  qed
qed

lemma reads_message: "reads (db_GetMessageByID i)"
  unfolding db_GetMessageByID_def Let_def by (intro atomic_rules)

lemma message_removed:
  assumes "alters tb_messages (DeleteMessage api p) s"
  shows "\<exists>u i msg app. TryGetUserID s = Some u \<and> ParseUint p = Inr i \<and> loaded_message (srv_tables s) i = Some msg \<and>
    loaded (srv_tables s) (msg_ApplicationID msg) = Some app \<and>
    (if app_AutoAssign app then admin_in (srv_tables s) u
     else admin_in (srv_tables s) u \<or> sole_owner (srv_tables s) u app)"
proof -
  let ?count = "\<lambda>i u j app. h_bind (successOrAbort 500 (CountApplicationMemberships j)) (\<lambda>n.
      if app_UserID app = u \<and> n = 1 then deleteMessageCompletely api i
      else successOrAbort 500 (DismissMessageForUser u i))"
  let ?again = "\<lambda>i u. h_bind (successOrAbort 500 (db_GetUserByID u)) (\<lambda>user.
      if \<not> is_admin user then aborted 403 only_admin else deleteMessageCompletely api i)"
  let ?user = "\<lambda>i u j app x. if is_admin x then deleteMessageCompletely api i
     else if app_AutoAssign app then ?again i u else ?count i u j app"
  let ?member = "\<lambda>i u j a m. case a of None \<Rightarrow> aborted 404 (Err ''message does not exist'') | Some app \<Rightarrow>
     if m = None then aborted 404 (Err ''message does not exist'')
     else h_bind (successOrAbort 500 (db_GetUserByID u)) (?user i u j app)"
  let ?app = "\<lambda>i j a. h_bind h_user (\<lambda>u. h_bind (successOrAbort 500 (db_GetApplicationMembership j u)) (?member i u j a))"
  let ?msg = "\<lambda>i msg. h_bind (successOrAbort 500 (db_GetApplicationByID (msg_ApplicationID msg))) (?app i (msg_ApplicationID msg))"
  obtain i where i: "ParseUint p = Inr i" and 1: "alters tb_messages (h_bind (successOrAbort 500 (db_GetMessageByID i))
      (\<lambda>msg. case msg of None \<Rightarrow> aborted 404 (Err ''message does not exist'') | Some msg \<Rightarrow> ?msg i msg)) s"
    using assms unfolding DeleteMessage_def by (rule changes_withID)
  obtain msg d s1 where msg: "db_GetMessageByID i (srv_db (ctx_world s)) = (Inr msg, d)" "alike s s1"
    and 2: "alters tb_messages (case msg of None \<Rightarrow> aborted 404 (Err ''message does not exist'') | Some msg \<Rightarrow> ?msg i msg) s1"
    by (rule changes_call [OF 1 reads_message])
  obtain m where m: "msg = Some m" and 3: "alters tb_messages (?msg i m) s1" using 2 by (rule changes_option)
  let ?j = "msg_ApplicationID m"
  obtain a d s2 where a: "db_GetApplicationByID ?j (srv_db (ctx_world s1)) = (Inr a, d)" "alike s1 s2"
    and 4: "alters tb_messages (?app i ?j a) s2"
    by (rule changes_call [OF 3 reads_application])
  obtain u where u: "TryGetUserID s2 = Some u"
    and 5: "alters tb_messages (h_bind (successOrAbort 500 (db_GetApplicationMembership ?j u)) (?member i u ?j a)) s2"
    using 4 by (rule changes_user)
  obtain x d s3 where "db_GetApplicationMembership ?j u (srv_db (ctx_world s2)) = (Inr x, d)" and s3: "alike s2 s3"
    and 6: "alters tb_messages (?member i u ?j a x) s3"
    by (rule changes_call [OF 5 reads_queries(3)])
  obtain app where app: "a = Some app" and 7: "alters tb_messages (if x = None then aborted 404 (Err ''message does not exist'')
     else h_bind (successOrAbort 500 (db_GetUserByID u)) (?user i u ?j app)) s3"
    using 6 by (rule changes_option)
  note 8 = changes_if(2) [OF 7]
  obtain y d s4 where y: "db_GetUserByID u (srv_db (ctx_world s3)) = (Inr y, d)" "alike s3 s4"
    and 9: "alters tb_messages (?user i u ?j app y) s4"
    by (rule changes_call [OF 8 reads_queries(2)])
  have t: "srv_tables s1 = srv_tables s" "srv_tables s2 = srv_tables s" "srv_tables s3 = srv_tables s" "srv_tables s4 = srv_tables s"
    using msg(2) a(2) s3 y(2) by (simp_all add: alike_def)
  have loaded: "loaded (srv_tables s) ?j = Some app" using get_application_Inr [OF a(1)] app t by simp
  have admin: "admin_in (srv_tables s) u" if "is_admin y" using get_user_Inr [OF y(1) that] t by simp
  have "admin_in (srv_tables s) u \<or> \<not> app_AutoAssign app \<and> sole_owner (srv_tables s) u app"
  proof (cases "is_admin y")
    case not_admin: False
    show ?thesis
    proof (cases "app_AutoAssign app")
      case True
      then have 10: "alters tb_messages (?again i u) s4" using 9 not_admin by simp
      obtain z d s5 where z: "db_GetUserByID u (srv_db (ctx_world s4)) = (Inr z, d)" and "alike s4 s5"
        and 11: "alters tb_messages (if \<not> is_admin z then aborted 403 only_admin else deleteMessageCompletely api i) s5"
        by (rule changes_call [OF 10 reads_queries(2)])
      show ?thesis using get_user_Inr [OF z] changes_if(1) [OF 11] t by simp
    next
      case False
      then have "alters tb_messages (?count i u ?j app) s4" using 9 not_admin by simp
      then have "sole_owner (srv_tables s4) u app" by (rule sole_removal [OF _ keeps_dismiss(1) loaded_simps(3) [OF loaded]])
      then show ?thesis using False t by simp
    qed
  qed (simp add: admin)
  moreover have "TryGetUserID s = Some u" using u user_alike [OF msg(2)] user_alike [OF a(2)] by simp
  moreover have "loaded_message (srv_tables s) i = Some m" using get_message_Inr [OF msg(1)] m by simp
  ultimately show ?thesis using i loaded by (metis (full_types))
qed

text \<open>
  Deleting the messages of all accessible channels. \<open>cleared_only\<close> compares the tables during the loop with
  those before it: the members are the same, and a message is gone only from a channel that may be cleared.
\<close>

definition clears :: "gorm_db \<Rightarrow> nat \<Rightarrow> application \<Rightarrow> bool" where
  "clears t u app \<longleftrightarrow> app \<in> set (tb_applications t) \<and> is_member t (app_ID app) u \<and>
     (if app_AutoAssign app then admin_in t u else sole_owner t u app)"

definition cleared_only :: "gorm_db \<Rightarrow> nat \<Rightarrow> gorm_db \<Rightarrow> bool" where
  "cleared_only t0 u t \<longleftrightarrow> tb_memberships t = tb_memberships t0 \<and>
     (\<forall>m\<in>set (tb_messages t0). m \<in> set (tb_messages t) \<or> (\<exists>app. clears t0 u app \<and> app_ID app = msg_ApplicationID m))"

lemma cleared_only_cong:
  "tb_memberships t' = tb_memberships t \<Longrightarrow> tb_messages t' = tb_messages t \<Longrightarrow> cleared_only t0 u t \<Longrightarrow> cleared_only t0 u t'"
  by (simp add: cleared_only_def)

lemma h_keeps_foreach_in:
  "(\<And>x. x \<in> set xs \<Longrightarrow> h_keeps P (f x)) \<Longrightarrow> h_keeps P (h_foreach f xs)"
  by (induction xs) (simp_all add: h_rules)

lemma keeps_dismiss_channel: "keeps (cleared_only t0 u) (DismissMessagesByApplicationForUser v a)"
proof -
  have "tb_memberships (fold (put_dismissal up v b) ids t) = tb_memberships t" for up b ids t
    by (induction ids arbitrary: t) (simp_all add: put_dismissal_def)
  then have "cleared_only t0 u t \<Longrightarrow> cleared_only t0 u (fold (put_dismissal up v b) ids t)" for up b ids t
    by (rule cleared_only_cong) (simp_all add: fold_put_dismissal)
  then show ?thesis unfolding DismissMessagesByApplicationForUser_def createDismissals_def
    by (intro keeps_rules; simp add: keeps_return; intro keeps_rules; simp)
qed

lemma keeps_dependents: "keeps (cleared_only t0 u) (delete_dependents ids)"
  unfolding delete_dependents_def by (intro keeps_all keeps_exec) (auto simp: cleared_only_def)

lemma keeps_clear: "clears t0 u app \<Longrightarrow> keeps (cleared_only t0 u) (DeleteMessagesByApplication (app_ID app))"
  unfolding DeleteMessagesByApplication_def
  by (intro keeps_transaction keeps_then keeps_dependents keeps_exec) (auto simp: cleared_only_def)

lemma keeps_clear_channel:
  assumes app: "app \<in> set (tb_applications t0)" "is_member t0 (app_ID app) u"
    and admin: "b \<Longrightarrow> admin_in t0 u" "app_AutoAssign app \<Longrightarrow> b"
  shows "h_keeps (cleared_only t0 u) (clear_channel b u app)"
proof (cases "app_AutoAssign app")
  case True
  then have "clears t0 u app" using app admin by (simp add: clears_def)
  then show ?thesis using True admin(2) by (simp add: clear_channel_def h_keeps_call keeps_clear)
next
  case False
  show ?thesis unfolding h_keeps_def
  proof (intro allI impI)
    fix s :: "'a server gin" assume P: "cleared_only t0 u (srv_tables s)"
    obtain r s1 where c: "successOrAbort 500 (CountApplicationMemberships (app_ID app)) s = (r, s1)" by (metis surj_pair)
    have t: "srv_tables s1 = srv_tables s" using h_readsD [OF h_reads_call [OF reads_count] c] by simp
    show "cleared_only t0 u (srv_tables (snd (clear_channel b u app s)))"
    proof (cases r)
      case None
      then show ?thesis using c False P t by (simp add: clear_channel_def h_bind_def)
    next
      case (Some n)
      let ?rest = "if app_UserID app = u \<and> n = 1 then successOrAbort 500 (DeleteMessagesByApplication (app_ID app))
        else successOrAbort 500 (DismissMessagesByApplicationForUser u (app_ID app)) :: ('a, unit) handler"
      have run: "clear_channel b u app s = ?rest s1" using c False Some by (simp add: clear_channel_def h_bind_def)
      have "n = length (filter (\<lambda>m. mem_ApplicationID m = app_ID app) (tb_memberships t0))"
        using count_Inr [OF conjunct1 [OF successOrAbort_Some [OF c [unfolded Some]]]] P
        by (simp add: cleared_only_def)
      then have "app_UserID app = u \<and> n = 1 \<Longrightarrow> clears t0 u app" using app False by (simp add: clears_def sole_owner_def)
      then have "h_keeps (cleared_only t0 u) ?rest" by (simp add: h_keeps_call keeps_clear keeps_dismiss_channel)
      then show ?thesis unfolding run by (rule h_keepsD) (simp add: P t)
    qed
  qed
qed

lemma own_messages_removed:
  assumes m: "m \<in> set (tb_messages (srv_tables s))" "m \<notin> set (tb_messages (srv_tables (snd (DeleteMessages s))))"
  shows "\<exists>u app. TryGetUserID s = Some u \<and> clears (srv_tables s) u app \<and> app_ID app = msg_ApplicationID m"
proof -
  let ?g = "\<lambda>t. m \<in> set (tb_messages t)"
  let ?loop = "\<lambda>u apps x. if \<not> is_admin x \<and> list_ex app_AutoAssign apps then aborted 403 only_admin
    else h_foreach (clear_channel (is_admin x) u) apps"
  have "alters ?g DeleteMessages s" using m by (simp add: alters_def)
  then obtain u where u: "TryGetUserID s = Some u" and 1: "alters ?g (h_bind (successOrAbort 500 (GetAccessibleApplicationsByUser u))
      (\<lambda>apps. h_bind (successOrAbort 500 (db_GetUserByID u)) (?loop u apps))) s"
    unfolding DeleteMessages_def by (rule changes_user)
  have "reads (GetAccessibleApplicationsByUser u)" unfolding GetAccessibleApplicationsByUser_def by (rule atomic_rules)
  from 1 this obtain apps d s1 where apps: "GetAccessibleApplicationsByUser u (srv_db (ctx_world s)) = (Inr apps, d)" "alike s s1"
    and 2: "alters ?g (h_bind (successOrAbort 500 (db_GetUserByID u)) (?loop u apps)) s1" by (rule changes_call)
  obtain x d' s2 where x: "db_GetUserByID u (srv_db (ctx_world s1)) = (Inr x, d')" "alike s1 s2"
    and 3: "alters ?g (?loop u apps x) s2" by (rule changes_call [OF 2 reads_queries(2)])
  let ?t = "srv_tables s"
  have t: "srv_tables s1 = ?t" "srv_tables s2 = ?t" using apps(2) x(2) by (simp_all add: alike_def)
  have set_apps: "set apps = {app \<in> set (tb_applications ?t). is_member ?t (app_ID app) u}"
    using query_Inr [OF apps(1) [unfolded GetAccessibleApplicationsByUser_def]] by simp
  have admin: "is_admin x \<Longrightarrow> admin_in ?t u" using get_user_Inr [OF x(1)] t by simp
  have "\<not> (\<not> is_admin x \<and> list_ex app_AutoAssign apps)" and 4: "alters ?g (h_foreach (clear_channel (is_admin x) u) apps) s2"
    using changes_if [OF 3] by blast+
  then have "h_keeps (cleared_only ?t u) (h_foreach (clear_channel (is_admin x) u) apps)"
    using admin set_apps by (intro h_keeps_foreach_in keeps_clear_channel) (auto simp: list_ex_iff)
  moreover have "cleared_only ?t u (srv_tables s2)" using t by (simp add: cleared_only_def)
  ultimately have "cleared_only ?t u (srv_tables (snd (h_foreach (clear_channel (is_admin x) u) apps s2)))" by (rule h_keepsD)
  moreover have "m \<notin> set (tb_messages (srv_tables (snd (h_foreach (clear_channel (is_admin x) u) apps s2))))"
    using 4 m(1) unfolding alters_def t by simp
  ultimately show ?thesis using m(1) u unfolding cleared_only_def by blast
qed

text \<open>
  Property C9. The requests that delete messages take a message from everybody only for someone with the right
  to it. One message, the messages of a channel or those of all channels of the user go by the delete button of
  an administrator of the server (a message), or of the only member of the channel, its owner; for everybody
  else they are only hidden. The history of a channel is cleared by its owner, an administrator or a manager:
  the managers are a right of the code that its comment and the user interface do not grant. In a channel for
  everybody it is always an administrator.
\<close>

theorem message_removal_authorized:
  "(tb_messages (srv_tables (snd (DeleteMessageWithApplication p s))) \<noteq> tb_messages (srv_tables s) \<longrightarrow>
     (\<exists>u i app. TryGetUserID s = Some u \<and> ParseUint p = Inr i \<and> loaded (srv_tables s) i = Some app \<and>
       (if app_AutoAssign app then admin_in (srv_tables s) u else sole_owner (srv_tables s) u app))) \<and>
   (tb_messages (srv_tables (snd (DeleteMessage api p s))) \<noteq> tb_messages (srv_tables s) \<longrightarrow>
     (\<exists>u i msg app. TryGetUserID s = Some u \<and> ParseUint p = Inr i \<and> loaded_message (srv_tables s) i = Some msg \<and>
       loaded (srv_tables s) (msg_ApplicationID msg) = Some app \<and>
       (if app_AutoAssign app then admin_in (srv_tables s) u
        else admin_in (srv_tables s) u \<or> sole_owner (srv_tables s) u app))) \<and>
   (\<forall>m\<in>set (tb_messages (srv_tables s)) - set (tb_messages (srv_tables (snd (DeleteMessages s)))).
     (\<exists>u app. TryGetUserID s = Some u \<and> app \<in> set (tb_applications (srv_tables s)) \<and> app_ID app = msg_ApplicationID m \<and>
       is_member (srv_tables s) (app_ID app) u \<and>
       (if app_AutoAssign app then admin_in (srv_tables s) u else sole_owner (srv_tables s) u app))) \<and>
   (tb_messages (srv_tables (snd (DeleteMessagesForEveryone p s))) \<noteq> tb_messages (srv_tables s) \<longrightarrow>
     (\<exists>u i app. TryGetUserID s = Some u \<and> ParseUint p = Inr i \<and> loaded (srv_tables s) i = Some app \<and>
       (if app_AutoAssign app then admin_in (srv_tables s) u else manages (srv_tables s) u app)))"
proof (intro conjI ballI)
  fix m assume "m \<in> set (tb_messages (srv_tables s)) - set (tb_messages (srv_tables (snd (DeleteMessages s))))"
  then show "\<exists>u app. TryGetUserID s = Some u \<and> app \<in> set (tb_applications (srv_tables s)) \<and> app_ID app = msg_ApplicationID m \<and>
       is_member (srv_tables s) (app_ID app) u \<and>
       (if app_AutoAssign app then admin_in (srv_tables s) u else sole_owner (srv_tables s) u app)"
    using own_messages_removed [of m s] unfolding clears_def by blast
qed (use channel_messages_removed [of p s] message_removed [of api p s] everyones_messages_removed [of p s] in
  \<open>unfold alters_def, blast\<close>)+

section \<open>Posting\<close>





text \<open>The owner clears the history of his channel, and posts to it.\<close>

theorem message_removal_authorized_witness:
  "manages (srv_tables demo_owner) 1 (no_application\<lparr>app_ID := 7, app_UserID := 1\<rparr>)"
proof -
  let ?app = "no_application\<lparr>app_ID := 7, app_UserID := 1\<rparr>"
  have seven: "ParseUint ''7'' = Inr 7" by (simp add: ParseUint_def decimal_def byte_in_def read_nat_def)
  have app: "loaded (srv_tables demo_owner) 7 = Some ?app"
    by (simp add: loaded_def application_of_def demo_owner_def demo_server_def demo_groups_def no_application_def)
  have find: "db_GetApplicationByID 7 demo_groups = (Inr (Some ?app), demo_groups)"
    by (simp add: db_GetApplicationByID_def db_bind_def demo_groups_def db_return_def Let_def no_application_def)
  obtain x where user: "db_GetUserByID 1 demo_groups = (Inr x, demo_groups)"
    by (simp add: db_GetUserByID_def user_by_def db_bind_def demo_groups_def db_return_def Let_def)
  obtain s' where delete: "DeleteMessagesByApplication 7 demo_groups = (Inr (), s')"
    by (simp add: DeleteMessagesByApplication_def transaction_def db_then_def db_bind_def delete_dependents_def exec_all_def
        demo_groups_def db_return_def)
  have "distinct (map msg_ID (tb_messages (tables demo_groups)))"
    by (simp add: demo_groups_def demo_tables_def new_message_def)
  from delete_channel_tables [OF delete this] have gone: "tb_messages (tables s') = []"
    by (simp add: without_messages_def of_channel_def demo_groups_def demo_tables_def new_message_def)
  have "srv_db (ctx_world (snd (DeleteMessagesForEveryone ''7'' demo_owner))) = s'"
    using seven find user delete demo_owner_simps(1)
    by (simp add: DeleteMessagesForEveryone_def withID_def h_bind_def h_user_def GetUserID_def successOrAbort_def demo_owner_def
        demo_server_def no_application_def)
  then have "tb_messages (srv_tables (snd (DeleteMessagesForEveryone ''7'' demo_owner))) \<noteq> tb_messages (srv_tables demo_owner)"
    using gone by (simp add: demo_owner_simps demo_tables_def)
  then show ?thesis
    using message_removal_authorized [of "''7''" demo_owner demo_message_api] seven app demo_owner_simps(1)
    by (auto simp: no_application_def)
qed




end
