(* ===== verification/Collaboration.thy ===== *)
theory Collaboration
  imports Messages
begin

text \<open>
  The handlers of \<open>src/api/collaboration.go\<close> on the database, without the uploads: replies, threads, reactions,
  assignment, status, read marks, attachments, templates and searches; and the tables of templates, saved searches
  and attachments of \<open>src/database/collaboration.go\<close>.
\<close>

section \<open>Tables\<close>

definition GetMessageAttachment :: "nat \<Rightarrow> message_attachment option db" where
  "GetMessageAttachment i = query (\<lambda>t. find (\<lambda>a. mat_ID a = i) (tb_attachments t))"

definition DeleteMessageAttachment :: "nat \<Rightarrow> unit db" where
  "DeleteMessageAttachment i = exec (\<lambda>t. t\<lparr>tb_attachments := filter (\<lambda>a. mat_ID a \<noteq> i) (tb_attachments t)\<rparr>)"

abbreviation templates :: "gorm_db \<Rightarrow> message_template list" where
  "templates t \<equiv> tb_rows (ac_templates (tb_accounts t))"

abbreviation searches :: "gorm_db \<Rightarrow> saved_message_search list" where
  "searches t \<equiv> tb_rows (ac_searches (tb_accounts t))"

definition GetMessageTemplates :: "nat \<Rightarrow> message_template list db" where
  "GetMessageTemplates u =
     query (\<lambda>t. sort_key tpl_Name (sort_key tpl_ID (filter (\<lambda>r. tpl_UserID r = u) (templates t))))"

definition GetMessageTemplateByID :: "nat \<Rightarrow> nat \<Rightarrow> message_template option db" where
  "GetMessageTemplateByID u i = query (\<lambda>t. find (\<lambda>r. tpl_ID r = i \<and> tpl_UserID r = u) (templates t))"

definition SaveMessageTemplate :: "message_template \<Rightarrow> message_template db" where
  "SaveMessageTemplate item = statement (\<lambda>t.
     let item = item\<lparr>tpl_UpdatedAt := db_now t,
           tpl_CreatedAt := (if tpl_CreatedAt item = zero_time then db_now t else tpl_CreatedAt item)\<rparr> in
     case save_row tpl_ID (\<lambda>i. item\<lparr>tpl_ID := i\<rparr>) (tpl_ID item) (ac_templates (tb_accounts t)) of
       (i, ts) \<Rightarrow> (Inr (item\<lparr>tpl_ID := i\<rparr>), on_accounts (\<lambda>a. a\<lparr>ac_templates := ts\<rparr>) t))"

definition DeleteMessageTemplate :: "nat \<Rightarrow> nat \<Rightarrow> unit db" where
  "DeleteMessageTemplate u i = exec (on_accounts (\<lambda>a. a\<lparr>ac_templates :=
     delete_rows (\<lambda>r. tpl_ID r = i \<and> tpl_UserID r = u) (ac_templates a)\<rparr>))"

definition GetSavedMessageSearches :: "nat \<Rightarrow> saved_message_search list db" where
  "GetSavedMessageSearches u =
     query (\<lambda>t. sort_key sms_Name (sort_key sms_ID (filter (\<lambda>r. sms_UserID r = u) (searches t))))"

definition GetSavedMessageSearchByID :: "nat \<Rightarrow> nat \<Rightarrow> saved_message_search option db" where
  "GetSavedMessageSearchByID u i = query (\<lambda>t. find (\<lambda>r. sms_ID r = i \<and> sms_UserID r = u) (searches t))"

definition SaveSavedMessageSearch :: "saved_message_search \<Rightarrow> saved_message_search db" where
  "SaveSavedMessageSearch item = statement (\<lambda>t.
     let item = item\<lparr>sms_UpdatedAt := db_now t,
           sms_CreatedAt := (if sms_CreatedAt item = zero_time then db_now t else sms_CreatedAt item)\<rparr> in
     case save_row sms_ID (\<lambda>i. item\<lparr>sms_ID := i\<rparr>) (sms_ID item) (ac_searches (tb_accounts t)) of
       (i, ts) \<Rightarrow> (Inr (item\<lparr>sms_ID := i\<rparr>), on_accounts (\<lambda>a. a\<lparr>ac_searches := ts\<rparr>) t))"

definition DeleteSavedMessageSearch :: "nat \<Rightarrow> nat \<Rightarrow> unit db" where
  "DeleteSavedMessageSearch u i = exec (on_accounts (\<lambda>a. a\<lparr>ac_searches :=
     delete_rows (\<lambda>r. sms_ID r = i \<and> sms_UserID r = u) (ac_searches a)\<rparr>))"

section \<open>Access\<close>

text \<open>
  The dispatcher stores a message, fills in its identifier and delivers it. The identifiers of a set come in
  the order of \<open>ca_order\<close>.
\<close>

record 'w collaboration_api =
  ca_env :: "'w engine_env"
  ca_StoreAndDeliver :: "message \<Rightarrow> 'w server \<Rightarrow> (message \<times> message_external) res \<times> 'w server"
  ca_AttachmentDir :: string
  ca_Remove :: "string \<Rightarrow> string \<Rightarrow> 'w \<Rightarrow> 'w"
  ca_now :: "'w \<Rightarrow> time"
  ca_order :: "nat list \<Rightarrow> nat list"
  ca_Marshal :: "json \<Rightarrow> bytes res"
  ca_ParseTime :: "string \<Rightarrow> time option"

definition h_ShouldBind :: "'p res \<Rightarrow> ('w, 'p) handler" where
  "h_ShouldBind bound = (case bound of Inl _ \<Rightarrow> h_stop | Inr p \<Rightarrow> h_return p)"

record access =
  acc_message :: message
  acc_app :: application
  acc_membership :: "application_membership option"
  acc_user :: user

definition message_not_found :: fail where
  "message_not_found = Err ''message not found''"

definition messageAccess :: "nat \<Rightarrow> ('w, access) handler" where
  "messageAccess i =
     h_bind h_user (\<lambda>userID.
     h_bind (successOrAbort 500 (db_GetMessageByID i)) (\<lambda>message.
     case message of None \<Rightarrow> aborted 404 message_not_found | Some message \<Rightarrow>
     h_bind (successOrAbort 500 (db_GetApplicationByID (msg_ApplicationID message))) (\<lambda>app.
     h_bind (successOrAbort 500 (db_GetApplicationMembership (msg_ApplicationID message) userID)) (\<lambda>membership.
     h_bind (successOrAbort 500 (db_GetUserByID userID)) (\<lambda>user.
     case app of None \<Rightarrow> aborted 404 message_not_found | Some app \<Rightarrow>
     case user of None \<Rightarrow> aborted 404 message_not_found | Some user \<Rightarrow>
     if membership = None \<and> \<not> usr_Admin user \<and> app_UserID app \<noteq> usr_ID user then aborted 404 message_not_found
     else h_return \<lparr>acc_message = message, acc_app = app, acc_membership = membership, acc_user = user\<rparr>)))))"

definition canPostToChannel :: "access \<Rightarrow> bool" where
  "canPostToChannel x \<longleftrightarrow> usr_Admin (acc_user x) \<or> app_UserID (acc_app x) = usr_ID (acc_user x) \<or>
     (case acc_membership x of None \<Rightarrow> False | Some m \<Rightarrow> can_post (acc_app x) (mem_EffectiveRole m))"

definition canManageMessage :: "access \<Rightarrow> bool" where
  "canManageMessage x \<longleftrightarrow> (case acc_membership x of None \<Rightarrow> False | Some m \<Rightarrow>
     usr_Admin (acc_user x) \<or> app_UserID (acc_app x) = usr_ID (acc_user x) \<or>
     msg_SenderUserID (acc_message x) = usr_ID (acc_user x) \<or> mem_EffectiveRole m = ChannelRoleManager)"

definition messageControlEnabled :: "'w collaboration_api \<Rightarrow> message \<Rightarrow> string \<Rightarrow> bool" where
  "messageControlEnabled api message control \<longleftrightarrow> msg_Extras message \<noteq> [] \<and>
     (case json_Unmarshal (ca_env api) (msg_Extras message) of
        Inr (JObj extras) \<Rightarrow>
          (case map_of extras ''monita::controls'' of
             Some (JArr values) \<Rightarrow> list_ex (\<lambda>v. case v of
               JStr text \<Rightarrow> strings_EqualFold (strings_TrimSpace text) control | _ \<Rightarrow> False) values
           | _ \<Rightarrow> False)
      | _ \<Rightarrow> False)"

section \<open>Mentions\<close>

definition strings_Trim :: "string \<Rightarrow> string \<Rightarrow> string" where
  "strings_Trim cutset s = rev (dropWhile (\<lambda>c. c \<in> set cutset) (rev (dropWhile (\<lambda>c. c \<in> set cutset) s)))"

definition normalizeMention :: "string \<Rightarrow> string" where
  "normalizeMention value =
     strings_Trim (''@.,:;!?()[]{}<>\"'' @ [CHR 0x27]) (strings_ToLower (strings_TrimSpace value))"

function spaced_fields :: "string \<Rightarrow> string \<Rightarrow> string list" where
  "spaced_fields acc s =
     (if s = [] then (if acc = [] then [] else [rev acc])
      else case find (\<lambda>w. w \<noteq> [] \<and> prefix w s) space_sequences of
        Some w \<Rightarrow> (if acc = [] then [] else [rev acc]) @ spaced_fields [] (drop (length w) s)
      | None \<Rightarrow> spaced_fields (hd s # acc) (tl s))"
  by pat_completeness auto
termination by (relation "measure (length \<circ> snd)") (auto simp: find_Some_iff prefix_def)

declare spaced_fields.simps [simp del]

definition strings_Fields :: "string \<Rightarrow> string list" where
  "strings_Fields s = spaced_fields [] s"

definition wanted_names :: "string \<Rightarrow> string list" where
  "wanted_names body = filter (\<lambda>n. n \<noteq> '''') (map normalizeMention (filter (\<lambda>t. strings_HasPrefix t ''@'') (strings_Fields body)))"

fun named_recipients :: "string list \<Rightarrow> nat list \<Rightarrow> nat list db" where
  "named_recipients wanted [] = db_return []"
| "named_recipients wanted (i # ids) =
     db_bind (db_GetUserByID i) (\<lambda>user.
     db_bind (named_recipients wanted ids) (\<lambda>rest.
       db_return (case user of None \<Rightarrow> rest | Some u \<Rightarrow>
         if list_ex (\<lambda>n. n \<in> set wanted \<and> n \<noteq> '''') [normalizeMention (usr_Name u), normalizeMention (usr_DisplayName u)]
         then i # rest else rest)))"

definition resolveMentions :: "'w collaboration_api \<Rightarrow> nat \<Rightarrow> string \<Rightarrow> nat list \<Rightarrow> nat list db" where
  "resolveMentions api applicationID body explicit =
     (let selected = filter (\<lambda>i. i \<noteq> 0) explicit; wanted = wanted_names body in
      if wanted = [] then db_return (ca_order api (remdups selected))
      else db_bind (db_GetApplicationRecipientUserIDs applicationID) (\<lambda>recipientIDs.
        db_bind (named_recipients wanted recipientIDs) (\<lambda>named.
          db_return (ca_order api (remdups (selected @ named))))))"

section \<open>Replies and threads\<close>

record reply_params =
  rp_Message :: string
  rp_Title :: string
  rp_Priority :: "int option"
  rp_MentionUserIDs :: "nat list"

definition displayUserName :: "user \<Rightarrow> string" where
  "displayUserName u = (if strings_TrimSpace (usr_DisplayName u) \<noteq> '''' then usr_DisplayName u else usr_Name u)"

definition thread_root :: "message \<Rightarrow> nat" where
  "thread_root m = (if msg_ThreadRootMessageID m = 0 then msg_ID m else msg_ThreadRootMessageID m)"

definition reply_message :: "time \<Rightarrow> access \<Rightarrow> reply_params \<Rightarrow> message" where
  "reply_message now x p =
     (let title = strings_TrimSpace (rp_Title p); parent = acc_message x in
      new_message\<lparr>msg_ApplicationID := app_ID (acc_app x),
        msg_Title := (if title = '''' then ''Re: '' @ msg_Title parent else title), msg_Message := rp_Message p,
        msg_Priority := (case rp_Priority p of None \<Rightarrow> msg_Priority parent | Some q \<Rightarrow> q), msg_Date := now,
        msg_SenderUserID := usr_ID (acc_user x), msg_SenderName := displayUserName (acc_user x),
        msg_ReplyToMessageID := msg_ID parent, msg_ThreadRootMessageID := thread_root parent\<rparr>)"

definition Reply :: "'w collaboration_api \<Rightarrow> string \<Rightarrow> reply_params res \<Rightarrow> ('w, message_external) handler" where
  "Reply api param bound = withID param (\<lambda>i.
     h_bind (messageAccess i) (\<lambda>x.
     if \<not> canPostToChannel x then aborted 403 (Err ''your Channel role does not allow posting replies'')
     else h_bind (h_ShouldBind bound) (\<lambda>p.
     h_bind (h_world (ca_now api)) (\<lambda>now.
     h_bind (h_call 500 (ca_StoreAndDeliver api (reply_message now x p))) (\<lambda>(message, external).
     h_bind (successOrAbort 500 (resolveMentions api (app_ID (acc_app x)) (rp_Message p) (rp_MentionUserIDs p))) (\<lambda>mentions.
     h_then (if mentions = [] then h_return () else successOrAbort 500 (ReplaceMessageMentions (msg_ID message) mentions))
       (h_return external)))))))"

definition Thread :: "'w collaboration_api \<Rightarrow> string \<Rightarrow> ('w, message_external list) handler" where
  "Thread api param = withID param (\<lambda>i.
     h_bind (messageAccess i) (\<lambda>x.
     h_bind h_user (\<lambda>userID.
     h_bind (successOrAbort 500 (GetThreadMessagesForUser userID (thread_root (acc_message x)))) (\<lambda>items.
       h_return (map (toExternalMessage (ca_env api)) items)))))"

section \<open>Reactions\<close>

definition AddReaction :: "string \<Rightarrow> string res \<Rightarrow> ('w, unit) handler" where
  "AddReaction param bound = withID param (\<lambda>i.
     h_bind (messageAccess i) (\<lambda>_.
     h_bind (h_ShouldBind bound) (\<lambda>p.
     let emoji = strings_TrimSpace p in
     if emoji = '''' \<or> length (strings_explode emoji) > 16 then aborted 400 (Err ''invalid reaction'')
     else h_bind h_user (\<lambda>userID. successOrAbort 500 (AddMessageReaction i userID emoji)))))"

definition DeleteReaction :: "string \<Rightarrow> string \<Rightarrow> ('w, unit) handler" where
  "DeleteReaction param query' = withID param (\<lambda>i.
     h_bind (messageAccess i) (\<lambda>_.
     let emoji = strings_TrimSpace query' in
     if emoji = '''' then aborted 400 (Err ''emoji is required'')
     else h_bind h_user (\<lambda>userID. successOrAbort 500 (DeleteMessageReaction i userID emoji))))"

section \<open>Assignment and status\<close>

definition no_workflow :: "nat \<Rightarrow> message_workflow" where
  "no_workflow i = \<lparr>mwf_MessageID = i, mwf_AssignedUserID = 0, mwf_Status = '''', mwf_ResolvedBy = 0,
     mwf_ResolvedAt = None, mwf_UpdatedAt = zero_time\<rparr>"

definition Assign :: "'w collaboration_api \<Rightarrow> string \<Rightarrow> nat res \<Rightarrow> ('w, message_workflow) handler" where
  "Assign api param bound = withID param (\<lambda>i.
     h_bind (messageAccess i) (\<lambda>x.
     if \<not> messageControlEnabled api (acc_message x) ''assign''
     then aborted 403 (Err ''assignment is not enabled for this message'')
     else h_bind (h_ShouldBind bound) (\<lambda>assignee.
     if assignee \<noteq> 0 \<and> assignee \<noteq> usr_ID (acc_user x) \<and> \<not> canManageMessage x
     then aborted 403 (Err ''manager access is required to assign another user'')
     else h_then (if assignee \<noteq> 0
       then h_bind (successOrAbort 500 (db_GetApplicationMembership (app_ID (acc_app x)) assignee)) (\<lambda>target.
         if target = None then aborted 400 (Err ''assigned user is not a Channel member'') else h_return ())
       else h_return ())
     (h_bind (successOrAbort 500 (GetMessageWorkflow i)) (\<lambda>workflow.
      h_bind (h_world (ca_now api)) (\<lambda>now.
      let workflow = (case workflow of Some w \<Rightarrow> w | None \<Rightarrow> (no_workflow i)\<lparr>mwf_Status := ''open''\<rparr>);
          workflow = workflow\<lparr>mwf_AssignedUserID := assignee, mwf_UpdatedAt := now\<rparr> in
      h_then (successOrAbort 500 (SaveMessageWorkflow workflow)) (h_return workflow)))))))"

definition SetStatus :: "'w collaboration_api \<Rightarrow> string \<Rightarrow> string res \<Rightarrow> ('w, message_workflow) handler" where
  "SetStatus api param bound = withID param (\<lambda>i.
     h_bind (messageAccess i) (\<lambda>x.
     if \<not> messageControlEnabled api (acc_message x) ''resolve''
     then aborted 403 (Err ''resolve is not enabled for this message'')
     else h_bind (h_ShouldBind bound) (\<lambda>p.
     let status = strings_ToLower (strings_TrimSpace p) in
     if status \<noteq> ''open'' \<and> status \<noteq> ''resolved'' then aborted 400 (Err ''status must be open or resolved'')
     else h_bind (successOrAbort 500 (GetMessageWorkflow i)) (\<lambda>workflow.
       h_bind (h_world (ca_now api)) (\<lambda>now.
       let workflow = (case workflow of Some w \<Rightarrow> w | None \<Rightarrow> no_workflow i);
           workflow = workflow\<lparr>mwf_Status := status, mwf_UpdatedAt := now,
             mwf_ResolvedBy := (if status = ''resolved'' then usr_ID (acc_user x) else 0),
             mwf_ResolvedAt := (if status = ''resolved'' then Some now else None)\<rparr> in
       h_then (successOrAbort 500 (SaveMessageWorkflow workflow)) (h_return workflow))))))"

section \<open>Read marks\<close>

definition MarkRead :: "'w collaboration_api \<Rightarrow> string \<Rightarrow> ('w, unit) handler" where
  "MarkRead api param = withID param (\<lambda>i.
     h_bind (messageAccess i) (\<lambda>_.
     h_bind h_user (\<lambda>userID. h_bind (h_world (ca_now api)) (\<lambda>now. successOrAbort 500 (MarkMessageRead userID i now)))))"

definition MarkUnread :: "string \<Rightarrow> ('w, unit) handler" where
  "MarkUnread param = withID param (\<lambda>i.
     h_bind (messageAccess i) (\<lambda>_. h_bind h_user (\<lambda>userID. successOrAbort 500 (MarkMessageUnread userID i))))"

section \<open>Attachments\<close>

definition supportedChatImage :: "string \<Rightarrow> bool" where
  "supportedChatImage contentType \<longleftrightarrow>
     strings_ToLower (strings_TrimSpace (takeWhile (\<lambda>c. c \<noteq> CHR '';'') contentType)) \<in>
       {''image/jpeg'', ''image/png'', ''image/gif'', ''image/webp''}"

definition channelImageMessageIdentity :: "application option \<Rightarrow> user \<Rightarrow> bool \<Rightarrow> string \<Rightarrow> string \<times> nat \<times> string" where
  "channelImageMessageIdentity app user isChat requestedTitle =
     (if isChat then (displayUserName user, usr_ID user, displayUserName user)
      else let title = strings_TrimSpace requestedTitle in
        (case app of Some app \<Rightarrow> if title = '''' then app_Name app else title | None \<Rightarrow> title, 0, ''''))"

definition url_char :: "char \<Rightarrow> string" where
  "url_char c =
     (if c = CHR ''%'' then ''%25'' else if c = CHR '' '' then ''%20'' else if c = CHR 0x22 then ''%22''
      else if c = CHR 0x27 then ''%27'' else if c = CHR '';'' then ''%3B''
      else if c = CHR 0x0D \<or> c = CHR 0x0A then '''' else [c])"

definition urlEncodeFilename :: "string \<Rightarrow> string" where
  "urlEncodeFilename value = concat (map url_char value)"

definition no_attachment :: fail where
  "no_attachment = Err ''attachment not found''"

text \<open>The attachment of a path parameter, when it belongs to the message; the aborts have only a status.\<close>

definition own_attachment :: "nat \<Rightarrow> string \<Rightarrow> ('w, message_attachment) handler" where
  "own_attachment messageID param =
     (case ParseUint param of Inl _ \<Rightarrow> aborted 404 (Err '''') | Inr i \<Rightarrow>
      h_bind (successOrAbort 500 (GetMessageAttachment i)) (\<lambda>item.
      case item of None \<Rightarrow> aborted 404 (Err '''') | Some item \<Rightarrow>
      if mat_MessageID item \<noteq> messageID then aborted 404 (Err '''') else h_return item))"

text \<open>The disposition, the type, when it is known, and the name of the file in the attachment directory.\<close>

definition DownloadAttachment :: "string \<Rightarrow> string \<Rightarrow> string \<Rightarrow> ('w, string \<times> string option \<times> string) handler" where
  "DownloadAttachment param attachmentParam applicationQuery = withID param (\<lambda>messageID.
     h_bind (messageAccess messageID) (\<lambda>x.
     let expectedApp = strings_TrimSpace applicationQuery in
     if expectedApp \<noteq> '''' \<and> ParseUint expectedApp \<noteq> Inr (msg_ApplicationID (acc_message x)) then aborted 404 no_attachment
     else h_bind (own_attachment messageID attachmentParam) (\<lambda>item.
       let disposition = (if strings_HasPrefix (strings_ToLower (mat_ContentType item)) ''image/''
             then ''inline'' else ''attachment'') in
       h_return (disposition @ ''; filename*=UTF-8'' @ [CHR 0x27, CHR 0x27] @ urlEncodeFilename (mat_Filename item),
         if mat_ContentType item = '''' then None else Some (mat_ContentType item),
         filepath_Base (mat_StorageName item)))))"

definition DeleteAttachment :: "'w collaboration_api \<Rightarrow> string \<Rightarrow> string \<Rightarrow> ('w, unit) handler" where
  "DeleteAttachment api param attachmentParam = withID param (\<lambda>messageID.
     h_bind (messageAccess messageID) (\<lambda>x.
     if \<not> canManageMessage x then aborted 403 (Err ''you cannot remove attachments from this message'')
     else h_bind (own_attachment messageID attachmentParam) (\<lambda>item.
       h_then (successOrAbort 500 (DeleteMessageAttachment (mat_ID item)))
         (h_effect (ca_Remove api (ca_AttachmentDir api) (filepath_Base (mat_StorageName item)))))))"

section \<open>Templates\<close>

record template_params =
  tp_Name :: string
  tp_ApplicationID :: nat
  tp_Title :: string
  tp_Message :: string
  tp_Priority :: int
  tp_Extras :: "json_object option"

record template_view =
  tv_ID :: nat
  tv_Name :: string
  tv_ApplicationID :: nat
  tv_Title :: string
  tv_Message :: string
  tv_Priority :: int
  tv_Extras :: json_object
  tv_CreatedAt :: time
  tv_UpdatedAt :: time

definition templateView :: "'w collaboration_api \<Rightarrow> message_template \<Rightarrow> template_view" where
  "templateView api item = \<lparr>tv_ID = tpl_ID item, tv_Name = tpl_Name item, tv_ApplicationID = tpl_ApplicationID item,
     tv_Title = tpl_Title item, tv_Message = tpl_Message item, tv_Priority = tpl_Priority item,
     tv_Extras = decoded_extras (ca_env api) (tpl_Extras item), tv_CreatedAt = tpl_CreatedAt item,
     tv_UpdatedAt = tpl_UpdatedAt item\<rparr>"

text \<open>A missing map is written as \<open>null\<close>; an error of the encoder is ignored.\<close>

definition template_extras :: "'w collaboration_api \<Rightarrow> template_params \<Rightarrow> bytes" where
  "template_extras api p =
     (case ca_Marshal api (case tp_Extras p of None \<Rightarrow> JNull | Some e \<Rightarrow> JObj e) of Inr b \<Rightarrow> b | Inl _ \<Rightarrow> [])"

definition fill_template :: "'w collaboration_api \<Rightarrow> template_params \<Rightarrow> message_template \<Rightarrow> message_template" where
  "fill_template api p item = item\<lparr>tpl_Name := strings_TrimSpace (tp_Name p), tpl_ApplicationID := tp_ApplicationID p,
     tpl_Title := tp_Title p, tpl_Message := tp_Message p, tpl_Priority := tp_Priority p,
     tpl_Extras := template_extras api p\<rparr>"

definition new_template :: "nat \<Rightarrow> message_template" where
  "new_template u = \<lparr>tpl_ID = 0, tpl_Name = '''', tpl_UserID = u, tpl_ApplicationID = 0, tpl_Title = '''',
     tpl_Message = '''', tpl_Priority = 0, tpl_Extras = [], tpl_CreatedAt = zero_time, tpl_UpdatedAt = zero_time\<rparr>"

definition GetTemplates :: "'w collaboration_api \<Rightarrow> ('w, template_view list) handler" where
  "GetTemplates api =
     h_bind h_user (\<lambda>userID.
     h_bind (successOrAbort 500 (GetMessageTemplates userID)) (\<lambda>items. h_return (map (templateView api) items)))"

definition SaveTemplate :: "'w collaboration_api \<Rightarrow> template_params res \<Rightarrow> ('w, template_view) handler" where
  "SaveTemplate api bound =
     h_bind (h_ShouldBind bound) (\<lambda>p.
     h_bind h_user (\<lambda>userID.
     h_bind (successOrAbort 500 (SaveMessageTemplate (fill_template api p (new_template userID)))) (\<lambda>item.
       h_return (templateView api item))))"

definition UpdateTemplate :: "'w collaboration_api \<Rightarrow> string \<Rightarrow> template_params res \<Rightarrow> ('w, template_view) handler" where
  "UpdateTemplate api param bound = withID param (\<lambda>i.
     h_bind h_user (\<lambda>userID.
     h_bind (successOrAbort 500 (GetMessageTemplateByID userID i)) (\<lambda>item.
     case item of None \<Rightarrow> aborted 404 (Err '''') | Some item \<Rightarrow>
     h_bind (h_ShouldBind bound) (\<lambda>p.
     h_bind (successOrAbort 500 (SaveMessageTemplate (fill_template api p item))) (\<lambda>item.
       h_return (templateView api item))))))"

definition DeleteTemplate :: "string \<Rightarrow> ('w, unit) handler" where
  "DeleteTemplate param = withID param (\<lambda>i.
     h_bind h_user (\<lambda>userID. successOrAbort 500 (DeleteMessageTemplate userID i)))"

section \<open>Searches\<close>

definition parseOptionalInt :: "string \<Rightarrow> int option" where
  "parseOptionalInt raw =
     (if strings_TrimSpace raw = '''' then None else case ParseInt64 raw of Inr v \<Rightarrow> Some v | Inl _ \<Rightarrow> None)"

definition parseOptionalTime :: "'w collaboration_api \<Rightarrow> string \<Rightarrow> time option" where
  "parseOptionalTime api raw = (if strings_TrimSpace raw = '''' then None else ca_ParseTime api raw)"

text \<open>\<open>ParseUint\<close> and \<open>Atoi\<close> whose error is ignored give their bound for a number out of range, else 0.\<close>

definition uint_or_bound :: "string \<Rightarrow> nat" where
  "uint_or_bound s = (case ParseUint s of Inr v \<Rightarrow> v
     | Inl e \<Rightarrow> if e = Err ''value out of range'' then 2 ^ 64 - 1 else 0)"

definition int_or_bound :: "string \<Rightarrow> int" where
  "int_or_bound s = (case ParseInt64 s of Inr v \<Rightarrow> v
     | Inl e \<Rightarrow> if e \<noteq> Err ''value out of range'' then 0 else if hd s = CHR ''-'' then min_int64 else max_int64)"

definition search_filter :: "'w collaboration_api \<Rightarrow> (string \<Rightarrow> string) \<Rightarrow> message_search_filter" where
  "search_filter api q = \<lparr>sf_Query = q ''q'', sf_ApplicationID = uint_or_bound (q ''applicationId''),
     sf_MinPriority = parseOptionalInt (q ''minPriority''), sf_MaxPriority = parseOptionalInt (q ''maxPriority''),
     sf_Sender = q ''sender'', sf_Status = q ''status'', sf_Acknowledged = q ''acknowledged'',
     sf_From = parseOptionalTime api (q ''from''), sf_To = parseOptionalTime api (q ''to''),
     sf_Limit = int_or_bound (q ''limit'')\<rparr>"

definition Search :: "'w collaboration_api \<Rightarrow> ('w, message_external list) handler" where
  "Search api s =
     h_bind h_user (\<lambda>userID.
     h_bind (successOrAbort 500 (SearchMessages userID (search_filter api (rq_query (ctx_request s))))) (\<lambda>items.
       h_return (map (toExternalMessage (ca_env api)) items))) s"

definition GetSavedSearches :: "('w, saved_message_search list) handler" where
  "GetSavedSearches = h_bind h_user (\<lambda>userID. successOrAbort 500 (GetSavedMessageSearches userID))"

definition SaveSearch :: "saved_message_search res \<Rightarrow> ('w, saved_message_search) handler" where
  "SaveSearch bound =
     h_bind (h_ShouldBind bound) (\<lambda>item.
     h_bind h_user (\<lambda>userID.
     if strings_TrimSpace (sms_Name item) = '''' then aborted 400 (Err ''name is required'')
     else successOrAbort 500 (SaveSavedMessageSearch (item\<lparr>sms_ID := 0, sms_UserID := userID\<rparr>))))"

definition fill_search :: "saved_message_search \<Rightarrow> saved_message_search \<Rightarrow> saved_message_search" where
  "fill_search p item = item\<lparr>sms_Name := sms_Name p, sms_Query := sms_Query p, sms_ApplicationID := sms_ApplicationID p,
     sms_MinPriority := sms_MinPriority p, sms_MaxPriority := sms_MaxPriority p, sms_Sender := sms_Sender p,
     sms_Status := sms_Status p, sms_Acknowledged := sms_Acknowledged p\<rparr>"

definition UpdateSearch :: "string \<Rightarrow> saved_message_search res \<Rightarrow> ('w, saved_message_search) handler" where
  "UpdateSearch param bound = withID param (\<lambda>i.
     h_bind h_user (\<lambda>userID.
     h_bind (successOrAbort 500 (GetSavedMessageSearchByID userID i)) (\<lambda>item.
     case item of None \<Rightarrow> aborted 404 (Err '''') | Some item \<Rightarrow>
     h_bind (h_ShouldBind bound) (\<lambda>p. successOrAbort 500 (SaveSavedMessageSearch (fill_search p item))))))"

definition DeleteSearch :: "string \<Rightarrow> ('w, unit) handler" where
  "DeleteSearch param = withID param (\<lambda>i.
     h_bind h_user (\<lambda>userID. successOrAbort 500 (DeleteSavedMessageSearch userID i)))"

end
