(* ===== verification/Integrations.thy ===== *)
theory Integrations
  imports Accounts Secrets
begin

text \<open>
  The tables of integrations, schedules and policies: \<open>src/database/automation.go\<close>. Credentials are stored
  encrypted by the secret store of \<open>Secrets\<close>; the nonces of \<open>Encrypt\<close> are arguments. A saved item comes back with
  its identifier, its times and its credentials in plain text, as the code leaves it in the caller's structure.
\<close>

section \<open>Statements on a table\<close>

definition HashSecret :: "crypto \<Rightarrow> string \<Rightarrow> string" where
  "HashSecret cr value = hex_encode (sha256 cr value)"

text \<open>Times that GORM fills in: \<open>CreatedAt\<close> when it is zero.\<close>

definition created :: "time \<Rightarrow> gorm_db \<Rightarrow> time" where
  "created c t = (if c = zero_time then db_now t else c)"

definition by_name :: "('a \<Rightarrow> string) \<Rightarrow> ('a \<Rightarrow> nat) \<Rightarrow> 'a list \<Rightarrow> 'a list" where
  "by_name nm key rows = sort_key nm (sort_key key rows)"

fun res_map :: "('a \<Rightarrow> 'b res) \<Rightarrow> 'a list \<Rightarrow> 'b list res" where
  "res_map f [] = Inr []"
| "res_map f (x # xs) = res_bind (f x) (\<lambda>y. res_bind (res_map f xs) (\<lambda>ys. Inr (y # ys)))"

definition res_option :: "('a \<Rightarrow> 'b res) \<Rightarrow> 'a option \<Rightarrow> 'b option res" where
  "res_option f x = (case x of None \<Rightarrow> Inr None | Some x \<Rightarrow> res_bind (f x) (\<lambda>y. Inr (Some y)))"

text \<open>A query whose rows are decrypted; the first failure is the answer.\<close>

definition query_all :: "('a \<Rightarrow> 'b res) \<Rightarrow> (gorm_db \<Rightarrow> 'a list) \<Rightarrow> 'b list db" where
  "query_all f q = db_bind (query q) (\<lambda>rows. db_lift (res_map f rows))"

definition query_one :: "('a \<Rightarrow> 'b res) \<Rightarrow> (gorm_db \<Rightarrow> 'a option) \<Rightarrow> 'b option db" where
  "query_one f q = db_bind (query q) (\<lambda>row. db_lift (res_option f row))"

text \<open>\<open>Save\<close> of one row of a table; the result is its identifier and the time of the statement.\<close>

definition put_row :: "('a \<Rightarrow> nat) \<Rightarrow> (automation_tables \<Rightarrow> 'a table) \<Rightarrow>
    ('a table \<Rightarrow> automation_tables \<Rightarrow> automation_tables) \<Rightarrow> nat \<Rightarrow> (gorm_db \<Rightarrow> nat \<Rightarrow> 'a) \<Rightarrow> 'a db" where
  "put_row key get put i row = statement (\<lambda>t.
     case save_row key (row t) i (get (tb_automation t)) of
       (j, tb) \<Rightarrow> (Inr (row t j), on_automation (put tb) t))"

abbreviation webhooks :: "gorm_db \<Rightarrow> webhook_route list" where
  "webhooks t \<equiv> tb_rows (at_webhooks (tb_automation t))"

abbreviation deliveries :: "gorm_db \<Rightarrow> webhook_delivery list" where
  "deliveries t \<equiv> tb_rows (at_deliveries (tb_automation t))"

abbreviation brokers :: "gorm_db \<Rightarrow> mqtt_integration list" where
  "brokers t \<equiv> tb_rows (at_mqtt (tb_automation t))"

abbreviation homes :: "gorm_db \<Rightarrow> home_assistant_integration list" where
  "homes t \<equiv> tb_rows (at_hass (tb_automation t))"

abbreviation schedules :: "gorm_db \<Rightarrow> scheduled_notification list" where
  "schedules t \<equiv> tb_rows (at_schedules (tb_automation t))"

abbreviation runs :: "gorm_db \<Rightarrow> scheduled_notification_run list" where
  "runs t \<equiv> tb_rows (at_runs (tb_automation t))"

abbreviation rules :: "gorm_db \<Rightarrow> escalation_rule list" where
  "rules t \<equiv> tb_rows (at_rules (tb_automation t))"

section \<open>Webhooks\<close>

definition plain_route :: "crypto \<Rightarrow> webhook_route \<Rightarrow> webhook_route res" where
  "plain_route cr r = res_bind (Decrypt cr (wr_Secret r)) (\<lambda>plain. Inr (r\<lparr>wr_Secret := plain\<rparr>))"

definition db_GetWebhookRoutes :: "crypto \<Rightarrow> webhook_route list db" where
  "db_GetWebhookRoutes cr = query_all (plain_route cr) (\<lambda>t. by_name wr_Name wr_ID (webhooks t))"

definition GetWebhookRouteByID :: "crypto \<Rightarrow> nat \<Rightarrow> webhook_route option db" where
  "GetWebhookRouteByID cr i = query_one (plain_route cr) (\<lambda>t. find (\<lambda>r. wr_ID r = i) (webhooks t))"

definition GetWebhookRouteBySecret :: "crypto \<Rightarrow> string \<Rightarrow> webhook_route option db" where
  "GetWebhookRouteBySecret cr secret =
     query_one (plain_route cr) (\<lambda>t. find (\<lambda>r. wr_SecretHash r = HashSecret cr secret \<and> wr_Enabled r)
       (sort_key wr_ID (webhooks t)))"

text \<open>The index on \<open>secret_hash\<close> is unique.\<close>

definition put_route :: "string \<Rightarrow> webhook_route \<Rightarrow> webhook_route db" where
  "put_route encrypted item = statement (\<lambda>t.
     let row = (\<lambda>i. item\<lparr>wr_ID := i, wr_Secret := encrypted, wr_CreatedAt := created (wr_CreatedAt item) t,
           wr_UpdatedAt := db_now t\<rparr>) in
     if \<exists>r\<in>set (webhooks t). wr_ID r \<noteq> wr_ID item \<and> wr_SecretHash r = wr_SecretHash item
     then (Inl duplicated_key, t)
     else case save_row wr_ID row (wr_ID item) (at_webhooks (tb_automation t)) of
       (j, tb) \<Rightarrow> (Inr (row j), on_automation (\<lambda>a. a\<lparr>at_webhooks := tb\<rparr>) t))"

definition SaveWebhookRoute :: "crypto \<Rightarrow> bytes res \<Rightarrow> webhook_route \<Rightarrow> webhook_route db" where
  "SaveWebhookRoute cr nonce item =
     db_bind (db_lift (Decrypt cr (wr_Secret item))) (\<lambda>plain.
     let item = item\<lparr>wr_SecretHash := HashSecret cr plain\<rparr> in
     db_bind (db_lift (Encrypt cr nonce plain)) (\<lambda>encrypted.
     db_bind (put_route encrypted item) (\<lambda>saved. db_return (saved\<lparr>wr_Secret := plain\<rparr>))))"

definition db_DeleteWebhookRoute :: "nat \<Rightarrow> unit db" where
  "db_DeleteWebhookRoute i = transaction (exec_all [
     on_automation (\<lambda>a. a\<lparr>at_deliveries := delete_rows (\<lambda>r. wd_WebhookRouteID r = i) (at_deliveries a)\<rparr>),
     on_automation (\<lambda>a. a\<lparr>at_webhooks := delete_rows (\<lambda>r. wr_ID r = i) (at_webhooks a)\<rparr>)])"

definition CreateWebhookDelivery :: "webhook_delivery \<Rightarrow> webhook_delivery db" where
  "CreateWebhookDelivery item = put_row wd_ID at_deliveries (\<lambda>tb a. a\<lparr>at_deliveries := tb\<rparr>) (wd_ID item)
     (\<lambda>t i. item\<lparr>wd_ID := i, wd_CreatedAt := created (wd_CreatedAt item) t\<rparr>)"

text \<open>The newest first; of the same instant the last one first.\<close>

definition db_GetWebhookDeliveries :: "nat \<Rightarrow> int \<Rightarrow> webhook_delivery list db" where
  "db_GetWebhookDeliveries i limit =
     (let limit = (if limit \<le> 0 \<or> limit > 500 then 100 else limit) in
      query (\<lambda>t. take (nat limit) (rev (sort_key wd_CreatedAt (sort_key wd_ID
        (filter (\<lambda>r. wd_WebhookRouteID r = i) (deliveries t)))))))"

definition CleanupWebhookDeliveries :: "time \<Rightarrow> unit db" where
  "CleanupWebhookDeliveries before = exec (on_automation (\<lambda>a. a\<lparr>at_deliveries :=
     delete_rows (\<lambda>r. wd_CreatedAt r < before) (at_deliveries a)\<rparr>))"

section \<open>MQTT\<close>

definition plain_broker :: "crypto \<Rightarrow> mqtt_integration \<Rightarrow> mqtt_integration res" where
  "plain_broker cr r =
     res_bind (Decrypt cr (mqi_Password r)) (\<lambda>plain.
     res_bind (Decrypt cr (mqi_ClientKey r)) (\<lambda>key. Inr (r\<lparr>mqi_Password := plain, mqi_ClientKey := key\<rparr>)))"

definition GetMQTTIntegrations :: "crypto \<Rightarrow> mqtt_integration list db" where
  "GetMQTTIntegrations cr = query_all (plain_broker cr) (\<lambda>t. by_name mqi_Name mqi_ID (brokers t))"

definition GetMQTTIntegrationByID :: "crypto \<Rightarrow> nat \<Rightarrow> mqtt_integration option db" where
  "GetMQTTIntegrationByID cr i = query_one (plain_broker cr) (\<lambda>t. find (\<lambda>r. mqi_ID r = i) (brokers t))"

definition SaveMQTTIntegration :: "crypto \<Rightarrow> bytes res \<Rightarrow> bytes res \<Rightarrow> mqtt_integration \<Rightarrow> mqtt_integration db" where
  "SaveMQTTIntegration cr nonce nonce' item =
     db_bind (db_lift (Decrypt cr (mqi_Password item))) (\<lambda>plain.
     db_bind (db_lift (Encrypt cr nonce plain)) (\<lambda>encrypted.
     db_bind (db_lift (Decrypt cr (mqi_ClientKey item))) (\<lambda>keyPlain.
     db_bind (db_lift (Encrypt cr nonce' keyPlain)) (\<lambda>keyEncrypted.
     db_bind (put_row mqi_ID at_mqtt (\<lambda>tb a. a\<lparr>at_mqtt := tb\<rparr>) (mqi_ID item)
       (\<lambda>t i. item\<lparr>mqi_ID := i, mqi_Password := encrypted, mqi_ClientKey := keyEncrypted,
          mqi_CreatedAt := created (mqi_CreatedAt item) t, mqi_UpdatedAt := db_now t\<rparr>)) (\<lambda>saved.
       db_return (saved\<lparr>mqi_Password := plain, mqi_ClientKey := keyPlain\<rparr>))))))"

definition DeleteMQTTIntegration :: "nat \<Rightarrow> unit db" where
  "DeleteMQTTIntegration i = exec (on_automation (\<lambda>a. a\<lparr>at_mqtt := delete_rows (\<lambda>r. mqi_ID r = i) (at_mqtt a)\<rparr>))"

text \<open>\<open>Updates\<close> with a map writes the given columns and \<open>updated_at\<close>.\<close>

definition db_UpdateMQTTIntegrationStatus ::
  "nat \<Rightarrow> string \<Rightarrow> time option \<Rightarrow> time option \<Rightarrow> string \<Rightarrow> time option \<Rightarrow> bool \<Rightarrow> unit db" where
  "db_UpdateMQTTIntegrationStatus i status connectedAt messageAt lastError errorAt incrementReconnect =
     exec (\<lambda>t. on_automation (\<lambda>a. a\<lparr>at_mqtt := update_rows (\<lambda>r. mqi_ID r = i)
       (\<lambda>r. r\<lparr>mqi_Status := status, mqi_LastError := lastError, mqi_LastErrorAt := errorAt,
          mqi_LastConnectedAt := (if connectedAt = None then mqi_LastConnectedAt r else connectedAt),
          mqi_LastMessageAt := (if messageAt = None then mqi_LastMessageAt r else messageAt),
          mqi_ReconnectCount := (if incrementReconnect then mqi_ReconnectCount r + 1 else mqi_ReconnectCount r),
          mqi_UpdatedAt := db_now t\<rparr>) (at_mqtt a)\<rparr>) t)"

section \<open>Home Assistant\<close>

definition plain_home :: "crypto \<Rightarrow> home_assistant_integration \<Rightarrow> home_assistant_integration res" where
  "plain_home cr r =
     res_bind (Decrypt cr (ha_Token r)) (\<lambda>plain.
     res_bind (Decrypt cr (ha_NativeWebhookURL r)) (\<lambda>url.
     res_bind (Decrypt cr (ha_NativeSecret r)) (\<lambda>secret.
       Inr (r\<lparr>ha_Token := plain, ha_NativeWebhookURL := url, ha_NativeSecret := secret\<rparr>))))"

definition GetHomeAssistantIntegrations :: "crypto \<Rightarrow> home_assistant_integration list db" where
  "GetHomeAssistantIntegrations cr = query_all (plain_home cr) (\<lambda>t. by_name ha_Name ha_ID (homes t))"

definition GetHomeAssistantIntegrationByID :: "crypto \<Rightarrow> nat \<Rightarrow> home_assistant_integration option db" where
  "GetHomeAssistantIntegrationByID cr i = query_one (plain_home cr) (\<lambda>t. find (\<lambda>r. ha_ID r = i) (homes t))"

definition SaveHomeAssistantIntegration :: "crypto \<Rightarrow> bytes res \<Rightarrow> bytes res \<Rightarrow> bytes res \<Rightarrow>
    home_assistant_integration \<Rightarrow> home_assistant_integration db" where
  "SaveHomeAssistantIntegration cr n1 n2 n3 item =
     db_bind (db_lift (Decrypt cr (ha_Token item))) (\<lambda>token.
     db_bind (db_lift (Decrypt cr (ha_NativeWebhookURL item))) (\<lambda>webhookURL.
     db_bind (db_lift (Decrypt cr (ha_NativeSecret item))) (\<lambda>nativeSecret.
     db_bind (db_lift (Encrypt cr n1 token)) (\<lambda>token'.
     db_bind (db_lift (Encrypt cr n2 webhookURL)) (\<lambda>webhookURL'.
     db_bind (db_lift (Encrypt cr n3 nativeSecret)) (\<lambda>nativeSecret'.
     db_bind (put_row ha_ID at_hass (\<lambda>tb a. a\<lparr>at_hass := tb\<rparr>) (ha_ID item)
       (\<lambda>t i. item\<lparr>ha_ID := i, ha_Token := token', ha_NativeWebhookURL := webhookURL',
          ha_NativeSecret := nativeSecret', ha_CreatedAt := created (ha_CreatedAt item) t,
          ha_UpdatedAt := db_now t\<rparr>)) (\<lambda>saved.
       db_return (saved\<lparr>ha_Token := token, ha_NativeWebhookURL := webhookURL, ha_NativeSecret := nativeSecret\<rparr>))))))))"

definition DeleteHomeAssistantIntegration :: "nat \<Rightarrow> unit db" where
  "DeleteHomeAssistantIntegration i = exec (on_automation (\<lambda>a. a\<lparr>at_hass := delete_rows (\<lambda>r. ha_ID r = i) (at_hass a)\<rparr>))"

definition UpdateHomeAssistantIntegrationStatus ::
  "nat \<Rightarrow> string \<Rightarrow> time option \<Rightarrow> time option \<Rightarrow> string \<Rightarrow> time option \<Rightarrow> bool \<Rightarrow> unit db" where
  "UpdateHomeAssistantIntegrationStatus i status connectedAt eventAt lastError errorAt incrementReconnect =
     exec (\<lambda>t. on_automation (\<lambda>a. a\<lparr>at_hass := update_rows (\<lambda>r. ha_ID r = i)
       (\<lambda>r. r\<lparr>ha_Status := status, ha_LastError := lastError, ha_LastErrorAt := errorAt,
          ha_LastConnectedAt := (if connectedAt = None then ha_LastConnectedAt r else connectedAt),
          ha_LastEventAt := (if eventAt = None then ha_LastEventAt r else eventAt),
          ha_ReconnectCount := (if incrementReconnect then ha_ReconnectCount r + 1 else ha_ReconnectCount r),
          ha_UpdatedAt := db_now t\<rparr>) (at_hass a)\<rparr>) t)"

section \<open>Schedules\<close>

definition GetScheduledNotifications :: "scheduled_notification list db" where
  "GetScheduledNotifications = query (\<lambda>t. by_name sch_Name sch_ID (schedules t))"

definition GetScheduledNotificationByID :: "nat \<Rightarrow> scheduled_notification option db" where
  "GetScheduledNotificationByID i = query (\<lambda>t. find (\<lambda>r. sch_ID r = i) (schedules t))"

definition db_SaveScheduledNotification :: "scheduled_notification \<Rightarrow> scheduled_notification db" where
  "db_SaveScheduledNotification item =
     put_row sch_ID at_schedules (\<lambda>tb a. a\<lparr>at_schedules := tb\<rparr>) (sch_ID item)
       (\<lambda>t i. item\<lparr>sch_ID := i, sch_CreatedAt := created (sch_CreatedAt item) t, sch_UpdatedAt := db_now t\<rparr>)"

definition DeleteScheduledNotificationWithRuns :: "nat \<Rightarrow> unit db" where
  "DeleteScheduledNotificationWithRuns i = transaction (exec_all [
     on_automation (\<lambda>a. a\<lparr>at_runs := delete_rows (\<lambda>r. run_ScheduleID r = i) (at_runs a)\<rparr>),
     on_automation (\<lambda>a. a\<lparr>at_schedules := delete_rows (\<lambda>r. sch_ID r = i) (at_schedules a)\<rparr>)])"

definition DeleteScheduledNotification :: "nat \<Rightarrow> unit db" where
  "DeleteScheduledNotification i = DeleteScheduledNotificationWithRuns i"

definition due :: "bool \<Rightarrow> time option \<Rightarrow> time \<Rightarrow> bool" where
  "due enabled nextRunAt now \<longleftrightarrow> enabled \<and> (case nextRunAt of None \<Rightarrow> False | Some n \<Rightarrow> n \<le> now)"

definition db_GetDueScheduledNotifications :: "time \<Rightarrow> scheduled_notification list db" where
  "db_GetDueScheduledNotifications now =
     query (\<lambda>t. filter (\<lambda>r. due (sch_Enabled r) (sch_NextRunAt r) now) (schedules t))"

definition db_CreateScheduledNotificationRun :: "scheduled_notification_run \<Rightarrow> scheduled_notification_run db" where
  "db_CreateScheduledNotificationRun item =
     put_row run_ID at_runs (\<lambda>tb a. a\<lparr>at_runs := tb\<rparr>) (run_ID item) (\<lambda>t i. item\<lparr>run_ID := i\<rparr>)"

definition db_SaveScheduledNotificationRun :: "scheduled_notification_run \<Rightarrow> scheduled_notification_run db" where
  "db_SaveScheduledNotificationRun item =
     put_row run_ID at_runs (\<lambda>tb a. a\<lparr>at_runs := tb\<rparr>) (run_ID item) (\<lambda>t i. item\<lparr>run_ID := i\<rparr>)"

definition GetScheduledNotificationRuns :: "nat \<Rightarrow> int \<Rightarrow> scheduled_notification_run list db" where
  "GetScheduledNotificationRuns i limit =
     (let limit = (if limit \<le> 0 \<or> limit > 200 then 50 else limit) in
      query (\<lambda>t. take (nat limit) (rev (sort_key run_ScheduledFor (sort_key run_ID
        (filter (\<lambda>r. run_ScheduleID r = i) (runs t)))))))"

definition DeleteScheduledNotificationRuns :: "nat \<Rightarrow> unit db" where
  "DeleteScheduledNotificationRuns i =
     exec (on_automation (\<lambda>a. a\<lparr>at_runs := delete_rows (\<lambda>r. run_ScheduleID r = i) (at_runs a)\<rparr>))"

section \<open>Quiet hours and digests\<close>

abbreviation quiet_policies :: "gorm_db \<Rightarrow> quiet_hours_policy list" where
  "quiet_policies t \<equiv> tb_rows (ac_quiet (tb_accounts t))"

abbreviation digest_policies :: "gorm_db \<Rightarrow> digest_policy list" where
  "digest_policies t \<equiv> tb_rows (ac_digests (tb_accounts t))"

definition db_GetQuietHoursPolicy :: "nat \<Rightarrow> quiet_hours_policy option db" where
  "db_GetQuietHoursPolicy u = query (\<lambda>t. find (\<lambda>r. qh_UserID r = u) (sort_key qh_ID (quiet_policies t)))"

text \<open>
  \<open>Create\<close> with \<open>OnConflict\<close> on the unique \<open>user_id\<close>: the listed columns of the row of the user are replaced, or a
  new row is inserted.
\<close>

definition upsert_row :: "('a \<Rightarrow> nat) \<Rightarrow> ('a \<Rightarrow> bool) \<Rightarrow> ('a \<Rightarrow> 'a) \<Rightarrow> nat \<Rightarrow> (nat \<Rightarrow> 'a) \<Rightarrow> 'a table \<Rightarrow> nat \<times> 'a table" where
  "upsert_row key same change i row tb =
     (case find same (tb_rows tb) of
        Some r \<Rightarrow> (key r, update_rows same change tb)
      | None \<Rightarrow> save_row key row i tb)"

definition SaveQuietHoursPolicy :: "quiet_hours_policy \<Rightarrow> quiet_hours_policy db" where
  "SaveQuietHoursPolicy item = statement (\<lambda>t.
     let item = item\<lparr>qh_CreatedAt := created (qh_CreatedAt item) t, qh_UpdatedAt := created (qh_UpdatedAt item) t\<rparr> in
     case upsert_row qh_ID (\<lambda>r. qh_UserID r = qh_UserID item)
       (\<lambda>r. item\<lparr>qh_ID := qh_ID r, qh_CreatedAt := qh_CreatedAt r\<rparr>) (qh_ID item) (\<lambda>i. item\<lparr>qh_ID := i\<rparr>)
       (ac_quiet (tb_accounts t)) of
       (i, tb) \<Rightarrow> (Inr (item\<lparr>qh_ID := i\<rparr>), on_accounts (\<lambda>a. a\<lparr>ac_quiet := tb\<rparr>) t))"

definition db_GetDigestPolicy :: "nat \<Rightarrow> digest_policy option db" where
  "db_GetDigestPolicy u = query (\<lambda>t. find (\<lambda>r. dp_UserID r = u) (sort_key dp_ID (digest_policies t)))"

definition db_SaveDigestPolicy :: "digest_policy \<Rightarrow> digest_policy db" where
  "db_SaveDigestPolicy item = statement (\<lambda>t.
     let item = item\<lparr>dp_CreatedAt := created (dp_CreatedAt item) t, dp_UpdatedAt := created (dp_UpdatedAt item) t\<rparr> in
     case upsert_row dp_ID (\<lambda>r. dp_UserID r = dp_UserID item)
       (\<lambda>r. item\<lparr>dp_ID := dp_ID r, dp_CreatedAt := dp_CreatedAt r\<rparr>) (dp_ID item) (\<lambda>i. item\<lparr>dp_ID := i\<rparr>)
       (ac_digests (tb_accounts t)) of
       (i, tb) \<Rightarrow> (Inr (item\<lparr>dp_ID := i\<rparr>), on_accounts (\<lambda>a. a\<lparr>ac_digests := tb\<rparr>) t))"

definition db_GetDueDigestPolicies :: "time \<Rightarrow> digest_policy list db" where
  "db_GetDueDigestPolicies now = query (\<lambda>t. filter (\<lambda>r. due (dp_Enabled r) (dp_NextRunAt r) now) (digest_policies t))"

text \<open>
  Rows of the lists that have no counter get the identifier after the largest one. \<open>OnConflict{DoNothing}\<close> drops a
  row that meets one with its unique columns.
\<close>

definition next_id :: "('a \<Rightarrow> nat) \<Rightarrow> 'a list \<Rightarrow> nat" where
  "next_id key rows = foldr (\<lambda>r m. max (key r) m) rows 0 + 1"

definition db_QueueDigestItem :: "digest_item \<Rightarrow> unit db" where
  "db_QueueDigestItem item = exec (\<lambda>t.
     if \<exists>r\<in>set (tb_digest_items t). di_UserID r = di_UserID item \<and> di_MessageID r = di_MessageID item then t
     else t\<lparr>tb_digest_items := tb_digest_items t @ [item\<lparr>di_ID := next_id di_ID (tb_digest_items t),
       di_CreatedAt := created (di_CreatedAt item) t\<rparr>]\<rparr>)"

definition db_GetDigestItems :: "nat \<Rightarrow> digest_item list db" where
  "db_GetDigestItems u = query (\<lambda>t. sort_key di_CreatedAt (filter (\<lambda>r. di_UserID r = u) (tb_digest_items t)))"

definition db_DeleteDigestItems :: "nat \<Rightarrow> unit db" where
  "db_DeleteDigestItems u = exec (\<lambda>t. t\<lparr>tb_digest_items := filter (\<lambda>r. di_UserID r \<noteq> u) (tb_digest_items t)\<rparr>)"

section \<open>Escalations\<close>

definition GetEscalationRules :: "escalation_rule list db" where
  "GetEscalationRules = query (\<lambda>t. by_name er_Name er_ID (rules t))"

definition db_GetEscalationRuleByID :: "nat \<Rightarrow> escalation_rule option db" where
  "db_GetEscalationRuleByID i = query (\<lambda>t. find (\<lambda>r. er_ID r = i) (rules t))"

definition SaveEscalationRule :: "escalation_rule \<Rightarrow> escalation_rule db" where
  "SaveEscalationRule item =
     put_row er_ID at_rules (\<lambda>tb a. a\<lparr>at_rules := tb\<rparr>) (er_ID item)
       (\<lambda>t i. item\<lparr>er_ID := i, er_CreatedAt := created (er_CreatedAt item) t, er_UpdatedAt := db_now t\<rparr>)"

definition DeleteEscalationRule :: "nat \<Rightarrow> unit db" where
  "DeleteEscalationRule i = transaction (exec_all [
     \<lambda>t. t\<lparr>tb_states := filter (\<lambda>r. es_RuleID r \<noteq> i) (tb_states t)\<rparr>,
     on_automation (\<lambda>a. a\<lparr>at_rules := delete_rows (\<lambda>r. er_ID r = i) (at_rules a)\<rparr>)])"

definition db_GetEscalationRulesForMessage :: "nat \<Rightarrow> int \<Rightarrow> escalation_rule list db" where
  "db_GetEscalationRulesForMessage applicationID priority = query (\<lambda>t. filter (\<lambda>r. er_Enabled r \<and>
     er_SourceApplicationID r = applicationID \<and> er_MinPriority r \<le> priority) (rules t))"

definition db_QueueEscalation :: "escalation_state \<Rightarrow> unit db" where
  "db_QueueEscalation item = exec (\<lambda>t.
     if \<exists>r\<in>set (tb_states t). es_RuleID r = es_RuleID item \<and> es_MessageID r = es_MessageID item then t
     else t\<lparr>tb_states := tb_states t @ [item\<lparr>es_ID := next_id es_ID (tb_states t),
       es_CreatedAt := created (es_CreatedAt item) t\<rparr>]\<rparr>)"

definition db_GetDueEscalations :: "time \<Rightarrow> escalation_state list db" where
  "db_GetDueEscalations now = query (\<lambda>t. filter (\<lambda>r. \<not> es_Completed r \<and> es_DueAt r \<le> now) (tb_states t))"

definition db_SaveEscalationState :: "escalation_state \<Rightarrow> unit db" where
  "db_SaveEscalationState item = statement (\<lambda>t.
     let ss = tb_states t;
         item = (if es_ID item = 0 then item\<lparr>es_ID := next_id es_ID ss\<rparr> else item)\<lparr>es_CreatedAt := created (es_CreatedAt item) t\<rparr> in
     if \<exists>r\<in>set ss. es_ID r \<noteq> es_ID item \<and> es_RuleID r = es_RuleID item \<and> es_MessageID r = es_MessageID item
     then (Inl duplicated_key, t)
     else (Inr (), t\<lparr>tb_states := (if es_ID item \<in> es_ID ` set ss
       then map (\<lambda>r. if es_ID r = es_ID item then item else r) ss else ss @ [item])\<rparr>))"

section \<open>Acknowledgements and deferred notifications\<close>

record acknowledgement_view =
  akv_UserID :: nat
  akv_Username :: string
  akv_DisplayName :: string
  akv_AcknowledgedAt :: time

definition acknowledgement_view_of :: "user list \<Rightarrow> message_acknowledgement \<Rightarrow> acknowledgement_view" where
  "acknowledgement_view_of users a =
     (let user = (case find (\<lambda>u. usr_ID u = ack_UserID a) users of Some u \<Rightarrow> u | None \<Rightarrow> no_user) in
      \<lparr>akv_UserID = ack_UserID a, akv_Username = usr_Name user, akv_DisplayName = usr_DisplayName user,
       akv_AcknowledgedAt = ack_AcknowledgedAt a\<rparr>)"

definition GetMessageAcknowledgements :: "nat \<Rightarrow> acknowledgement_view list db" where
  "GetMessageAcknowledgements i = query (\<lambda>t. map (acknowledgement_view_of (tb_users t))
     (sort_key (\<lambda>a. - ack_AcknowledgedAt a) (filter (\<lambda>a. ack_MessageID a = i) (tb_acks t))))"

definition DeleteMessageAcknowledgements :: "nat \<Rightarrow> unit db" where
  "DeleteMessageAcknowledgements i = exec (\<lambda>t. t\<lparr>tb_acks := filter (\<lambda>a. ack_MessageID a \<noteq> i) (tb_acks t)\<rparr>)"

definition db_QueueDeferredNotification :: "nat \<Rightarrow> nat \<Rightarrow> unit db" where
  "db_QueueDeferredNotification u i = exec (\<lambda>t.
     if \<exists>r\<in>set (tb_deferred t). dn_UserID r = u \<and> dn_MessageID r = i then t
     else t\<lparr>tb_deferred := tb_deferred t @ [\<lparr>dn_UserID = u, dn_MessageID = i, dn_CreatedAt = db_now t\<rparr>]\<rparr>)"

definition db_GetDeferredNotifications :: "deferred_notification list db" where
  "db_GetDeferredNotifications = query (\<lambda>t. sort_key dn_CreatedAt (tb_deferred t))"

definition db_DeleteDeferredNotification :: "nat \<Rightarrow> nat \<Rightarrow> unit db" where
  "db_DeleteDeferredNotification u i =
     exec (\<lambda>t. t\<lparr>tb_deferred := filter (\<lambda>r. \<not> (dn_UserID r = u \<and> dn_MessageID r = i)) (tb_deferred t)\<rparr>)"

definition CleanupAutomationHistory :: "time \<Rightarrow> unit db" where
  "CleanupAutomationHistory before = transaction (exec_all [
     \<lambda>t. t\<lparr>tb_states := filter (\<lambda>r. \<not> (es_Completed r \<and> (case es_DoneAt r of None \<Rightarrow> False | Some d \<Rightarrow> d < before)))
       (tb_states t)\<rparr>,
     on_automation (\<lambda>a. a\<lparr>at_runs := delete_rows (\<lambda>r. case run_FinishedAt r of None \<Rightarrow> False | Some f \<Rightarrow> f < before) (at_runs a)\<rparr>),
     on_automation (\<lambda>a. a\<lparr>at_seen := filter (\<lambda>r. \<not> csi_SeenAt r < before) (at_seen a)\<rparr>)])"

section \<open>Encryption of stored credentials\<close>

text \<open>
  \<open>migrateIntegrationSecrets\<close>; \<open>rand\<close> gives, for a column and a row, the nonce that \<open>Encrypt\<close> reads. The native
  credentials of Home Assistant are not touched.
\<close>

definition secured :: "crypto \<Rightarrow> bytes res \<Rightarrow> string \<Rightarrow> (string \<times> string) res" where
  "secured cr nonce value =
     res_bind (Decrypt cr value) (\<lambda>plain. res_bind (Encrypt cr nonce plain) (\<lambda>encrypted. Inr (plain, encrypted)))"

definition migrate_route :: "crypto \<Rightarrow> (string \<Rightarrow> nat \<Rightarrow> bytes res) \<Rightarrow> webhook_route \<Rightarrow> unit db" where
  "migrate_route cr rand item =
     db_bind (db_lift (secured cr (rand ''secret'' (wr_ID item)) (wr_Secret item))) (\<lambda>(plain, encrypted).
     statement (\<lambda>t.
       if \<exists>r\<in>set (webhooks t). wr_ID r \<noteq> wr_ID item \<and> wr_SecretHash r = HashSecret cr plain then (Inl duplicated_key, t)
       else (Inr (), on_automation (\<lambda>a. a\<lparr>at_webhooks := update_rows (\<lambda>r. wr_ID r = wr_ID item)
         (\<lambda>r. r\<lparr>wr_Secret := encrypted, wr_SecretHash := HashSecret cr plain, wr_UpdatedAt := db_now t\<rparr>)
         (at_webhooks a)\<rparr>) t)))"

definition migrate_broker :: "crypto \<Rightarrow> (string \<Rightarrow> nat \<Rightarrow> bytes res) \<Rightarrow> mqtt_integration \<Rightarrow> unit db" where
  "migrate_broker cr rand item =
     db_bind (db_lift (secured cr (rand ''password'' (mqi_ID item)) (mqi_Password item))) (\<lambda>(_, encrypted).
     db_bind (db_lift (secured cr (rand ''client_key'' (mqi_ID item)) (mqi_ClientKey item))) (\<lambda>(_, keyEncrypted).
     exec (\<lambda>t. on_automation (\<lambda>a. a\<lparr>at_mqtt := update_rows (\<lambda>r. mqi_ID r = mqi_ID item)
       (\<lambda>r. r\<lparr>mqi_Password := encrypted, mqi_ClientKey := keyEncrypted, mqi_UpdatedAt := db_now t\<rparr>) (at_mqtt a)\<rparr>) t)))"

definition migrate_home :: "crypto \<Rightarrow> (string \<Rightarrow> nat \<Rightarrow> bytes res) \<Rightarrow> home_assistant_integration \<Rightarrow> unit db" where
  "migrate_home cr rand item =
     db_bind (db_lift (secured cr (rand ''token'' (ha_ID item)) (ha_Token item))) (\<lambda>(_, encrypted).
     exec (\<lambda>t. on_automation (\<lambda>a. a\<lparr>at_hass := update_rows (\<lambda>r. ha_ID r = ha_ID item)
       (\<lambda>r. r\<lparr>ha_Token := encrypted, ha_UpdatedAt := db_now t\<rparr>) (at_hass a)\<rparr>) t))"

definition migrateIntegrationSecrets :: "crypto \<Rightarrow> (string \<Rightarrow> nat \<Rightarrow> bytes res) \<Rightarrow> unit db" where
  "migrateIntegrationSecrets cr rand = transaction (
     db_bind (query webhooks) (\<lambda>items.
     db_then (db_foreach (migrate_route cr rand) items)
     (db_bind (query brokers) (\<lambda>items.
     db_then (db_foreach (migrate_broker cr rand) items)
     (db_bind (query homes) (db_foreach (migrate_home cr rand)))))))"

end
