(* ===== verification/Netip.thy ===== *)
theory Netip
  imports Secrets
begin

text \<open>
  The part of the packages \<open>net\<close> and \<open>net/netip\<close> behind the lists of addresses an administrator allows
  (\<open>webhookIPAllowed\<close> of \<open>src/api/automation.go\<close>): parsing of addresses and CIDR blocks, masks and membership.
  An address has 16 bytes, an IPv4 address with the prefix \<open>::ffff\<close>.
\<close>

section \<open>Addresses\<close>

definition v4InV6Prefix :: bytes where
  "v4InV6Prefix = replicate 10 0 @ [0xff, 0xff]"

definition ipv4_field :: "string \<Rightarrow> (8 word) option" where
  "ipv4_field s =
     (if s \<noteq> [] \<and> list_all decimal s \<and> (hd s = CHR ''0'' \<longrightarrow> tl s = []) \<and> read_nat s \<le> 255
      then Some (of_nat (read_nat s)) else None)"

definition parseIPv4 :: "string \<Rightarrow> bytes option" where
  "parseIPv4 s =
     (let fields = map ipv4_field (split_at (CHR ''.'') s) in
      if length fields = 4 \<and> None \<notin> set fields then Some (map the fields) else None)"

definition hex_value :: "char \<Rightarrow> nat option" where
  "hex_value c =
     (let v = of_char c :: nat in
      if decimal c then Some (v - 48)
      else if 97 \<le> v \<and> v \<le> 102 then Some (v - 87)
      else if 65 \<le> v \<and> v \<le> 70 then Some (v - 55) else None)"

definition hex_char :: "char \<Rightarrow> bool" where
  "hex_char c \<longleftrightarrow> hex_value c \<noteq> None"

definition read_hex :: "string \<Rightarrow> nat" where
  "read_hex s = foldl (\<lambda>n c. 16 * n + the (hex_value c)) 0 s"

text \<open>
  The loop of \<open>parseIPv6\<close>: the bytes read so far, the position of the \<open>::\<close> if there was one, and the rest of
  the text.
\<close>

function ipv6_loop :: "bytes \<Rightarrow> nat option \<Rightarrow> string \<Rightarrow> (bytes \<times> nat option \<times> string) option" where
  "ipv6_loop ip ellipsis s =
     (if 16 \<le> length ip then Some (ip, ellipsis, s)
      else
        let digits = takeWhile hex_char s; rest = dropWhile hex_char s;
            acc = read_hex digits; ip' = ip @ [of_nat (acc div 256), of_nat acc] in
        if digits = [] \<or> length digits > 4 then None
        else case rest of
          [] \<Rightarrow> Some (ip', ellipsis, [])
        | c # after \<Rightarrow>
            if c = CHR ''.'' then
              (if ellipsis = None \<and> length ip \<noteq> 12 then None
               else if length ip + 4 > 16 then None
               else map_option (\<lambda>fields. (ip @ fields, ellipsis, [])) (parseIPv4 s))
            else if c \<noteq> CHR '':'' \<or> after = [] then None
            else if hd after = CHR '':'' then
              (if ellipsis \<noteq> None then None
               else if tl after = [] then Some (ip', Some (length ip'), [])
               else ipv6_loop ip' (Some (length ip')) (tl after))
            else ipv6_loop ip' ellipsis after)"
  by pat_completeness auto
termination by (relation "measure (\<lambda>(ip, e, s). 16 - length ip)") auto

declare ipv6_loop.simps [simp del]

definition parseIPv6 :: "string \<Rightarrow> bytes option" where
  "parseIPv6 s =
     (let leading = strings_HasPrefix s ''::''; s = (if leading then drop 2 s else s) in
      if leading \<and> s = [] then Some (replicate 16 0)
      else case ipv6_loop [] (if leading then Some 0 else None) s of
        None \<Rightarrow> None
      | Some (ip, ellipsis, rest) \<Rightarrow>
          if rest \<noteq> [] then None
          else if length ip < 16 then
            (case ellipsis of
               None \<Rightarrow> None
             | Some e \<Rightarrow> Some (take e ip @ replicate (16 - length ip) 0 @ drop e ip))
          else if ellipsis \<noteq> None then None else Some ip)"

text \<open>
  \<open>netip.ParseAddr\<close> followed by the refusal of zones, which both callers do: whether the text is an IPv4
  address, and the 16 bytes.
\<close>

definition ParseAddr :: "string \<Rightarrow> (bool \<times> bytes) option" where
  "ParseAddr s =
     (case find (\<lambda>c. c = CHR ''.'' \<or> c = CHR '':'' \<or> c = CHR ''%'') s of
        None \<Rightarrow> None
      | Some c \<Rightarrow>
          if c = CHR ''.'' then map_option (\<lambda>ip. (True, v4InV6Prefix @ ip)) (parseIPv4 s)
          else if c = CHR ''%'' \<or> CHR ''%'' \<in> set s then None
          else map_option (Pair False) (parseIPv6 s))"

definition ParseIP :: "string \<Rightarrow> bytes option" where
  "ParseIP s = map_option snd (ParseAddr s)"

definition To4 :: "bytes \<Rightarrow> bytes option" where
  "To4 ip =
     (if length ip = 4 then Some ip
      else if length ip = 16 \<and> take 12 ip = v4InV6Prefix then Some (drop 12 ip) else None)"

section \<open>Blocks of addresses\<close>

definition CIDRMask :: "nat \<Rightarrow> nat \<Rightarrow> bytes" where
  "CIDRMask ones bits =
     map (\<lambda>i. if 8 * (i + 1) \<le> ones then 0xff
              else if ones \<le> 8 * i then 0 else NOT (drop_bit (ones - 8 * i) 0xff)) [0..<bits div 8]"

definition and_bytes :: "bytes \<Rightarrow> bytes \<Rightarrow> bytes" where
  "and_bytes xs ys = map2 (AND) xs ys"

text \<open>\<open>IP.Mask\<close> for an address of 16 bytes and a mask of 4 or 16 bytes.\<close>

definition IP_Mask :: "bytes \<Rightarrow> bytes \<Rightarrow> bytes" where
  "IP_Mask ip m =
     and_bytes (if length m = 4 \<and> length ip = 16 \<and> take 12 ip = v4InV6Prefix then drop 12 ip else ip) m"

text \<open>\<open>net.ParseCIDR\<close>: the network number and the mask.\<close>

definition ParseCIDR :: "string \<Rightarrow> (bytes \<times> bytes) option" where
  "ParseCIDR s =
     (if CHR ''/'' \<notin> set s then None
      else
        let addr = takeWhile (\<lambda>c. c \<noteq> CHR ''/'') s; ones = tl (dropWhile (\<lambda>c. c \<noteq> CHR ''/'') s) in
        case ParseAddr addr of
          None \<Rightarrow> None
        | Some (is4, ip) \<Rightarrow>
            let bits = (if is4 then 32 else 128) in
            if ones = [] \<or> \<not> list_all decimal ones \<or> read_nat ones > bits then None
            else let m = CIDRMask (read_nat ones) bits in Some (IP_Mask ip m, m))"

definition net_Contains :: "bytes \<times> bytes \<Rightarrow> bytes \<Rightarrow> bool" where
  "net_Contains n ip0 =
     (let (nip, nmask) = n;
          nn = (case To4 nip of Some x \<Rightarrow> x | None \<Rightarrow> nip);
          m = (if length nmask = 16 \<and> length nn = 4 then drop 12 nmask else nmask);
          ip = (case To4 ip0 of Some x \<Rightarrow> x | None \<Rightarrow> ip0) in
      length nn \<in> {4, 16} \<and> length m = length nn \<and> length ip = length nn \<and>
      and_bytes nn m = and_bytes ip m)"

text \<open>\<open>webhookIPAllowed\<close>: an empty list allows everybody.\<close>

definition address_separator :: "char \<Rightarrow> bool" where
  "address_separator c \<longleftrightarrow> c \<in> {CHR '','', CHR '';'', CHR 0x0A, CHR '' '', CHR 0x09}"

definition webhookIPAllowed :: "string \<Rightarrow> string \<Rightarrow> bool" where
  "webhookIPAllowed clientIP allowed0 =
     (let allowed = strings_TrimSpace allowed0 in
      if allowed = '''' then True
      else case ParseIP (strings_TrimSpace clientIP) of
        None \<Rightarrow> False
      | Some ip \<Rightarrow> list_ex (\<lambda>raw0. let raw = strings_TrimSpace raw0 in
          raw \<noteq> '''' \<and>
          (ParseIP raw = Some ip \<or>
           (case ParseCIDR raw of Some network \<Rightarrow> net_Contains network ip | None \<Rightarrow> False)))
          (strings_FieldsFunc allowed address_separator))"

section \<open>Laws of masks\<close>

text \<open>The bits of an address, the first one first.\<close>

definition address_bit :: "bytes \<Rightarrow> nat \<Rightarrow> bool" where
  "address_bit ip k \<longleftrightarrow> bit (ip ! (k div 8)) (7 - k mod 8)"

lemma ff_bit: "bit (0xff :: 8 word) j \<longleftrightarrow> j < 8"
proof -
  have "(0xff :: 8 word) = mask 8" by (simp add: mask_eq_exp_minus_1)
  then show ?thesis by (simp only: bit_mask_iff) auto
qed

lemma mask_byte_bit:
  assumes "j < 8" "r < 8"
  shows "bit (NOT (drop_bit r (0xff :: 8 word))) j \<longleftrightarrow> 7 - j < r"
  using assms unfolding bit_not_iff bit_drop_bit_eq comp_apply ff_bit by auto

lemma CIDRMask_bit:
  assumes "i < bits div 8" "j < 8"
  shows "bit (CIDRMask ones bits ! i) j \<longleftrightarrow> 8 * i + (7 - j) < ones"
proof -
  have nth: "CIDRMask ones bits ! i = (if 8 * (i + 1) \<le> ones then 0xff
      else if ones \<le> 8 * i then 0 else NOT (drop_bit (ones - 8 * i) 0xff))"
    using assms(1) by (simp add: CIDRMask_def)
  consider "8 * (i + 1) \<le> ones" | "ones \<le> 8 * i" | "8 * i < ones" "ones < 8 * (i + 1)" by linarith
  then show ?thesis
  proof cases
    case 1
    then show ?thesis using ff_bit [of j] assms(2) unfolding nth by auto
  next
    case 2
    then show ?thesis unfolding nth by simp
  next
    case 3
    then have "ones - 8 * i < 8" by auto
    then have "bit (NOT (drop_bit (ones - 8 * i) (0xff :: 8 word))) j \<longleftrightarrow> 7 - j < ones - 8 * i"
      by (rule mask_byte_bit [OF assms(2)])
    then show ?thesis using 3 unfolding nth by (simp add: less_diff_conv add.commute)
  qed
qed

lemma masked_byte_eq: "(x :: 8 word) AND m = y AND m \<longleftrightarrow> (\<forall>j<8. bit m j \<longrightarrow> bit x j = bit y j)"
  by (auto simp: bit_eq_iff bit_and_iff dest: bit_imp_le_length)

text \<open>Two addresses agree under a mask exactly when their first bits agree.\<close>

lemma masked_eq:
  assumes "length x = n" "length y = n" "ones \<le> 8 * n"
  shows "and_bytes x (CIDRMask ones (8 * n)) = and_bytes y (CIDRMask ones (8 * n)) \<longleftrightarrow>
    (\<forall>k<ones. address_bit x k = address_bit y k)"
proof -
  let ?m = "CIDRMask ones (8 * n)"
  have len: "length ?m = n" by (simp add: CIDRMask_def)
  have "and_bytes x ?m = and_bytes y ?m \<longleftrightarrow> (\<forall>i<n. x ! i AND ?m ! i = y ! i AND ?m ! i)"
    using assms len by (auto simp: and_bytes_def list_eq_iff_nth_eq)
  also have "\<dots> \<longleftrightarrow> (\<forall>i<n. \<forall>j<8. 8 * i + (7 - j) < ones \<longrightarrow> bit (x ! i) j = bit (y ! i) j)"
    by (auto simp: masked_byte_eq CIDRMask_bit)
  also have "\<dots> \<longleftrightarrow> (\<forall>k<ones. address_bit x k = address_bit y k)"
  proof (rule iffI; intro allI impI)
    fix k assume *: "\<forall>i<n. \<forall>j<8. 8 * i + (7 - j) < ones \<longrightarrow> bit (x ! i) j = bit (y ! i) j" and k: "k < ones"
    have "7 - (7 - k mod 8) = k mod 8" by (simp add: less_Suc_eq_le [THEN iffD1])
    then have "8 * (k div 8) + (7 - (7 - k mod 8)) = k" by simp
    moreover have "k div 8 < n" using k assms(3) by (simp add: less_mult_imp_div_less mult.commute)
    ultimately show "address_bit x k = address_bit y k"
      using * k unfolding address_bit_def by simp
  next
    fix i j assume *: "\<forall>k<ones. address_bit x k = address_bit y k" and i: "i < n" "j < 8" "8 * i + (7 - j) < ones"
    have "(8 * i + r) div 8 = i \<and> (8 * i + r) mod 8 = r" if "r < 8" for r :: nat using that by simp
    from this [of "7 - j"] have "(8 * i + (7 - j)) div 8 = i" "(8 * i + (7 - j)) mod 8 = 7 - j" by simp_all
    moreover have "7 - (7 - j) = j" using i(2) by simp
    ultimately show "bit (x ! i) j = bit (y ! i) j" using * i(3) unfolding address_bit_def by metis
  qed
  finally show ?thesis .
qed

section \<open>Dotted addresses\<close>

fun dotted :: "bytes \<Rightarrow> string" where
  "dotted [] = ''''"
| "dotted [b] = show_nat (unat b)"
| "dotted (b # c # bs) = show_nat (unat b) @ CHR ''.'' # dotted (c # bs)"

lemma split_at_plain: "sep \<notin> set s \<Longrightarrow> split_at sep s = [s]"
  by (induction s) auto

lemma split_at_field: "sep \<notin> set s \<Longrightarrow> split_at sep (s @ sep # t) = s # split_at sep t"
  by (induction s) auto

lemma split_at_chars: "c \<in> set s \<Longrightarrow> c \<noteq> sep \<Longrightarrow> \<exists>f\<in>set (split_at sep s). c \<in> set f"
  by (induction s) (auto split: list.splits)

lemma show_nat_chars: "c \<in> set (show_nat n) \<Longrightarrow> decimal c"
  using show_nat_decimal [of n] by (simp add: list_all_iff)

lemma show_nat_no_dot: "CHR ''.'' \<notin> set (show_nat n)"
  using show_nat_chars decimal_not_sign by blast

lemma split_dotted: "bs \<noteq> [] \<Longrightarrow> split_at (CHR ''.'') (dotted bs) = map (\<lambda>b. show_nat (unat b)) bs"
  by (induction bs rule: dotted.induct) (simp_all add: split_at_plain split_at_field show_nat_no_dot)

lemma show_nat_zero: "hd (show_nat n) = CHR ''0'' \<longleftrightarrow> n = 0"
proof (induction n rule: show_nat.induct)
  case (1 n)
  have "digit_char n = CHR ''0'' \<longleftrightarrow> n = 0" if "n < 10"
    using digit_char_value [OF that] digit_char_value [of 0] by (simp only: digit_chars(1) [symmetric]) fastforce
  then show ?case using 1 by (subst show_nat.simps) auto
qed

lemma ipv4_field_show: "ipv4_field (show_nat (unat (b :: 8 word))) = Some b"
proof -
  have "unat b < 2 ^ LENGTH(8)" by (rule unsigned_less)
  then have "unat b \<le> 255" by simp
  moreover have "hd (show_nat (unat b)) = CHR ''0'' \<Longrightarrow> tl (show_nat (unat b)) = []"
    by (simp add: show_nat_zero) (simp add: show_nat.simps)
  ultimately show ?thesis using show_nat_decimal [of "unat b"] by (simp add: ipv4_field_def read_show_nat)
qed

lemma parseIPv4_dotted: "length bs = 4 \<Longrightarrow> parseIPv4 (dotted bs) = Some bs"
proof -
  assume "length bs = 4"
  moreover from this have "bs \<noteq> []" by auto
  moreover have "map ipv4_field (map (\<lambda>b. show_nat (unat b)) bs) = map Some bs" by (simp add: ipv4_field_show)
  ultimately show ?thesis by (simp add: parseIPv4_def split_dotted comp_def ipv4_field_show image_iff)
qed

lemma parseIPv4_chars: "parseIPv4 s = Some ip \<Longrightarrow> c \<in> set s \<Longrightarrow> decimal c \<or> c = CHR ''.''"
proof -
  assume "parseIPv4 s = Some ip" and c: "c \<in> set s"
  then have "None \<notin> set (map ipv4_field (split_at (CHR ''.'') s))"
    unfolding parseIPv4_def Let_def by (metis option.distinct(1))
  then have f: "\<forall>f\<in>set (split_at (CHR ''.'') s). ipv4_field f \<noteq> None" by (metis image_eqI image_set)
  have "\<forall>f. ipv4_field f \<noteq> None \<longrightarrow> list_all decimal f" by (simp add: ipv4_field_def)
  then show ?thesis using f split_at_chars [OF c] by (metis list_all_iff)
qed

lemma dotted_chars: "c \<in> set (dotted bs) \<Longrightarrow> decimal c \<or> c = CHR ''.''"
  by (induction bs rule: dotted.induct) (auto dest: show_nat_chars)

lemma find_only:
  assumes "\<And>c. c \<in> set s \<Longrightarrow> P c \<Longrightarrow> c = x" "x \<in> set s" "P x"
  shows "find P s = Some x"
proof (cases "find P s")
  case None
  then show ?thesis using assms(2,3) by (auto simp: find_None_iff)
next
  case (Some y)
  then have "y \<in> set s \<and> P y" by (rule find_SomeD)
  then show ?thesis using Some assms(1) by blast
qed

lemma dotted_dot: "2 \<le> length bs \<Longrightarrow> CHR ''.'' \<in> set (dotted bs)"
  by (cases bs rule: dotted.cases) auto

lemma not_decimal: "\<not> decimal (CHR ''.'')" "\<not> decimal (CHR '':'')" "\<not> decimal (CHR ''%'')" "\<not> decimal (CHR ''/'')"
  by (simp_all add: decimal_def byte_in_def)

lemma dotted_ends: "bs \<noteq> [] \<Longrightarrow> dotted bs \<noteq> [] \<and> decimal (hd (dotted bs)) \<and> decimal (last (dotted bs))"
proof (induction bs rule: dotted.induct)
  case (2 b)
  then show ?case using show_nat_decimal [of "unat b"] by (auto simp: list_all_iff)
next
  case (3 b c bs)
  then show ?case using show_nat_decimal [of "unat b"] by (auto simp: list_all_iff)
qed simp

lemma ParseAddr_dotted:
  assumes "length bs = 4" shows "ParseAddr (dotted bs) = Some (True, v4InV6Prefix @ bs)"
proof -
  have "find (\<lambda>c. c = CHR ''.'' \<or> c = CHR '':'' \<or> c = CHR ''%'') (dotted bs) = Some (CHR ''.'')"
    by (rule find_only) (use dotted_chars [of _ bs] not_decimal dotted_dot [of bs] assms in auto)
  then show ?thesis using parseIPv4_dotted [OF assms] by (simp add: ParseAddr_def)
qed

definition cidr :: "bytes \<Rightarrow> nat \<Rightarrow> string" where
  "cidr bs n = dotted bs @ CHR ''/'' # show_nat n"

lemma cidr_ends: "bs \<noteq> [] \<Longrightarrow> cidr bs n \<noteq> [] \<and> decimal (hd (cidr bs n)) \<and> decimal (last (cidr bs n))"
  using dotted_ends [of bs] show_nat_decimal [of n] by (auto simp: cidr_def list_all_iff)

lemma ParseIP_cidr: "length bs = 4 \<Longrightarrow> ParseIP (cidr bs n) = None"
proof -
  assume bs: "length bs = 4"
  have "find (\<lambda>c. c = CHR ''.'' \<or> c = CHR '':'' \<or> c = CHR ''%'') (cidr bs n) = Some (CHR ''.'')"
    by (rule find_only) (use dotted_chars [of _ bs] show_nat_decimal [of n] not_decimal dotted_dot [of bs] bs
      in \<open>auto simp: cidr_def list_all_iff\<close>)
  moreover have "parseIPv4 (cidr bs n) = None"
    using parseIPv4_chars [of "cidr bs n" _ "CHR ''/''"] not_decimal by (cases "parseIPv4 (cidr bs n)") (auto simp: cidr_def)
  ultimately show ?thesis by (simp add: ParseIP_def ParseAddr_def)
qed

lemma ParseCIDR_dotted:
  assumes "length bs = 4" "n \<le> 32"
  shows "ParseCIDR (cidr bs n) = Some (and_bytes bs (CIDRMask n 32), CIDRMask n 32)"
proof -
  have "CHR ''/'' \<notin> set (dotted bs)" using dotted_chars not_decimal by fastforce
  then have "takeWhile (\<lambda>c. c \<noteq> CHR ''/'') (cidr bs n) = dotted bs"
    "dropWhile (\<lambda>c. c \<noteq> CHR ''/'') (cidr bs n) = CHR ''/'' # show_nat n"
    unfolding cidr_def by (subst takeWhile_append2 dropWhile_append2; auto)+
  moreover have "IP_Mask (v4InV6Prefix @ bs) (CIDRMask n 32) = and_bytes bs (CIDRMask n 32)"
    using assms(1) by (simp add: IP_Mask_def v4InV6Prefix_def CIDRMask_def)
  moreover have "CHR ''/'' \<in> set (cidr bs n)" by (simp add: cidr_def)
  ultimately show ?thesis
    using ParseAddr_dotted [OF assms(1)] show_nat_decimal [of n] assms(2)
    by (simp add: ParseCIDR_def read_show_nat Let_def)
qed

lemma net_Contains_masked:
  assumes "length bs = 4" "length as = 4" "n \<le> 32"
  shows "net_Contains (and_bytes bs (CIDRMask n 32), CIDRMask n 32) (v4InV6Prefix @ as) \<longleftrightarrow>
    (\<forall>k<n. address_bit bs k = address_bit as k)"
proof -
  have len: "length (CIDRMask n 32) = 4" by (simp add: CIDRMask_def)
  have idem: "and_bytes (and_bytes bs (CIDRMask n 32)) (CIDRMask n 32) = and_bytes bs (CIDRMask n 32)"
    by (auto simp: and_bytes_def list_eq_iff_nth_eq)
  have "length (and_bytes bs (CIDRMask n 32)) = 4" using assms(1) len by (simp add: and_bytes_def)
  then show ?thesis
    using assms(2) len idem masked_eq [of bs 4 as n] assms by (simp add: net_Contains_def To4_def v4InV6Prefix_def)
qed

lemma fields_single: "list_all (\<lambda>c. \<not> sep c) s \<Longrightarrow> cur @ s \<noteq> [] \<Longrightarrow> fields_from sep cur s = [cur @ s]"
  by (induction s arbitrary: cur) auto

lemma separator_chars: "address_separator c \<Longrightarrow> \<not> decimal c \<and> c \<noteq> CHR ''.'' \<and> c \<noteq> CHR ''/''"
  unfolding address_separator_def by (elim insertE) (simp_all add: decimal_def byte_in_def)

lemma cidr_no_separator: "list_all (\<lambda>c. \<not> address_separator c) (cidr bs n)"
  unfolding list_all_iff
proof
  fix c assume "c \<in> set (cidr bs n)"
  then have "decimal c \<or> c = CHR ''.'' \<or> c = CHR ''/''"
    using dotted_chars [of c bs] show_nat_chars [of c n] by (auto simp: cidr_def)
  then show "\<not> address_separator c" using separator_chars by blast
qed

text \<open>
  Property C14. A webhook whose allowed addresses are one IPv4 block in CIDR notation accepts exactly the
  IPv4 clients that share the first bits of the block: the parser, the mask and the comparison together
  compute the prefix match on the binary address, for every length from 0 to 32.
\<close>

theorem webhook_block_is_prefix:
  assumes "length block = 4" "length client = 4" "n \<le> 32"
  shows "webhookIPAllowed (dotted client) (cidr block n) \<longleftrightarrow>
    (\<forall>k<n. address_bit block k = address_bit client k)"
proof -
  have ne: "block \<noteq> []" "client \<noteq> []" using assms by auto
  have "strings_TrimSpace (cidr block n) = cidr block n" "strings_TrimSpace (dotted client) = dotted client"
    using cidr_ends [OF ne(1)] dotted_ends [OF ne(2)] trim_between_decimals by simp_all
  moreover have "strings_FieldsFunc (cidr block n) address_separator = [cidr block n]"
    using fields_single [OF cidr_no_separator, of "[]"] cidr_ends [OF ne(1)] by (simp add: strings_FieldsFunc_def)
  moreover have "ParseIP (dotted client) = Some (v4InV6Prefix @ client)"
    by (simp add: ParseIP_def ParseAddr_dotted [OF assms(2)])
  ultimately show ?thesis
    using cidr_ends [OF ne(1)] ParseIP_cidr [OF assms(1)] ParseCIDR_dotted [OF assms(1,3)] net_Contains_masked [OF assms]
    by (simp add: webhookIPAllowed_def Let_def)
qed

theorem webhook_block_is_prefix_witness:
  "webhookIPAllowed (dotted [10, 1, 2, 3]) (cidr [10, 0, 0, 0] 8)"
  using webhook_block_is_prefix [of "[10, 0, 0, 0]" "[10, 1, 2, 3]" 8] by (simp add: address_bit_def)

end
