(* ===== verification/Webhook.thy ===== *)
theory Webhook
  imports Integrations Netip Limiter Mqtt Messages
begin

text \<open>
  Inbound webhooks: \<open>ReceiveWebhook\<close> of \<open>src/api/automation.go\<close> with the functions behind it, from the signature of
  a request to the rendering of a payload. \<open>automation_api\<close> is the environment of all handlers of that file.
\<close>

section \<open>Environment\<close>

text \<open>
  The engine acts on the database and the world; \<open>au_Rand n\<close> reads \<open>n\<close> random bytes. The two stores of
  \<open>src/security\<close> that the webhooks use live beside the world.
\<close>

record 'w automation_api =
  au_crypto :: crypto
  au_hmac_sha256 :: "bytes \<Rightarrow> bytes \<Rightarrow> bytes"
  au_Rand :: "nat \<Rightarrow> 'w \<Rightarrow> bytes res \<times> 'w"
  au_now :: "'w \<Rightarrow> time"
  au_zones :: zone_env
  au_Unmarshal :: "bytes \<Rightarrow> json res"
  au_Marshal :: "json \<Rightarrow> string res"
  au_MarshalIndent :: "json \<Rightarrow> string res"
  au_Publish :: "nat \<Rightarrow> string \<Rightarrow> string \<Rightarrow> int \<Rightarrow> 'w server \<Rightarrow> message res \<times> 'w server"
  au_ReloadIntegrations :: "'w \<Rightarrow> 'w"
  au_SendHomeAssistantEvent :: "nat \<Rightarrow> string \<Rightarrow> json_object \<Rightarrow> 'w server \<Rightarrow> unit res \<times> 'w server"
  au_ReceiveHomeAssistantEvent :: "nat \<Rightarrow> string \<Rightarrow> json_object \<Rightarrow> 'w server \<Rightarrow> bool res \<times> 'w server"
  au_TestMQTTConnection :: "nat \<Rightarrow> 'w server \<Rightarrow> unit res \<times> 'w server"

record 'w automation_state =
  as_limiter :: "limiter_map option"
  as_replay :: "ReplayCache option"
  as_world :: 'w

definition engine_call :: "nat \<Rightarrow> ('w server \<Rightarrow> 'a res \<times> 'w server) \<Rightarrow> ('w automation_state, 'a) handler" where
  "engine_call code f = h_call code (\<lambda>v.
     case f \<lparr>srv_db = srv_db v, srv_world = as_world (srv_world v)\<rparr> of
       (r, w) \<Rightarrow> (r, \<lparr>srv_db = srv_db w, srv_world = (srv_world v)\<lparr>as_world := srv_world w\<rparr>\<rparr>))"

text \<open>Random bytes; a failure is part of the value.\<close>

definition draw :: "'w automation_api \<Rightarrow> nat \<Rightarrow> ('w automation_state, bytes res) handler" where
  "draw api n s =
     (case au_Rand api n (as_world (srv_world (ctx_world s))) of
        (r, w) \<Rightarrow> (Some r, s\<lparr>ctx_world := (ctx_world s)\<lparr>srv_world := (srv_world (ctx_world s))\<lparr>as_world := w\<rparr>\<rparr>\<rparr>))"

definition ReloadIntegrations :: "'w automation_api \<Rightarrow> ('w automation_state, unit) handler" where
  "ReloadIntegrations api = h_effect (\<lambda>v. v\<lparr>as_world := au_ReloadIntegrations api (as_world v)\<rparr>)"

text \<open>A statement whose error is ignored.\<close>

definition h_ignore :: "'a db \<Rightarrow> ('w, unit) handler" where
  "h_ignore m s = (Some (), s\<lparr>ctx_world := (ctx_world s)\<lparr>srv_db := snd (m (srv_db (ctx_world s)))\<rparr>\<rparr>)"

section \<open>Payloads\<close>

definition step_payload :: "json \<Rightarrow> string \<Rightarrow> json option" where
  "step_payload current part =
     (case current of
        JObj typed \<Rightarrow> map_of typed part
      | JArr typed \<Rightarrow>
          (case ParseInt64 part of
             Inl _ \<Rightarrow> None
           | Inr index \<Rightarrow> if index < 0 \<or> index \<ge> int (length typed) then None else Some (typed ! nat index))
      | _ \<Rightarrow> None)"

fun walk_payload :: "json \<Rightarrow> string list \<Rightarrow> json option" where
  "walk_payload current [] = Some current"
| "walk_payload current (part # parts) =
     (case step_payload current part of None \<Rightarrow> None | Some next' \<Rightarrow> walk_payload next' parts)"

definition lookupPayload :: "json \<Rightarrow> string \<Rightarrow> json option" where
  "lookupPayload payload path =
     (if strings_TrimSpace path = '''' then None else walk_payload payload (split_at (CHR ''.'') path))"

definition payloadString :: "'w automation_api \<Rightarrow> json \<Rightarrow> string" where
  "payloadString api value =
     (case value of JStr typed \<Rightarrow> typed | typed \<Rightarrow> (case au_Marshal api typed of Inl _ \<Rightarrow> '''' | Inr encoded \<Rightarrow> encoded))"

definition payloadInt :: "json \<Rightarrow> int option" where
  "payloadInt value =
     (case value of
        JStr typed \<Rightarrow> (case ParseInt64 typed of Inl _ \<Rightarrow> None | Inr parsed \<Rightarrow> Some parsed)
      | typed \<Rightarrow> numberAsInt typed)"

lemma strings_Index_length: "\<not> strings_Index s (c # sub) < 0 \<Longrightarrow> 0 < length s"
  by (cases s) auto

function renderPayloadTemplate :: "'w automation_api \<Rightarrow> string \<Rightarrow> json \<Rightarrow> string \<Rightarrow> string" where
  "renderPayloadTemplate api template payload raw =
     (let start = strings_Index template ''{{'' in
      if start < 0 then template
      else
        let opened = drop (nat start + 2) template; end' = strings_Index opened ''}}'' in
        if end' < 0 then take (nat start) template @ ''{{'' @ opened
        else
          let key = strings_TrimSpace (take (nat end') opened) in
          take (nat start) template @
          (if key = ''raw'' then raw
           else case lookupPayload payload key of Some value \<Rightarrow> payloadString api value | None \<Rightarrow> '''') @
          renderPayloadTemplate api (drop (nat end' + 2) opened) payload raw)"
  by pat_completeness auto
termination
  by (relation "measure (\<lambda>(api, template, payload, raw). length template)")
    (simp, use strings_Index_length in fastforce)

declare renderPayloadTemplate.simps [simp del]

section \<open>Signatures\<close>

definition maxWebhookBytes :: nat where "maxWebhookBytes = 1048576"

fun hex_DecodeString :: "string \<Rightarrow> bytes res" where
  "hex_DecodeString [] = Inr []"
| "hex_DecodeString [c] = Inl (Err ''encoding/hex: odd length hex string'')"
| "hex_DecodeString (c # d # s) =
     (case (hex_value c, hex_value d) of
        (Some x, Some y) \<Rightarrow> res_bind (hex_DecodeString s) (\<lambda>bs. Inr (of_nat (16 * x + y) # bs))
      | _ \<Rightarrow> Inl (Err ''encoding/hex: invalid byte''))"

text \<open>\<open>time.Unix(seconds, 0)\<close>; the seconds since the year 1 are kept in an \<open>int64\<close>.\<close>

definition time_of_Unix :: "int \<Rightarrow> time" where
  "time_of_Unix seconds = (wrap64 (seconds + 62135596800) - 62135596800) * second"

definition strings_TrimPrefix :: "string \<Rightarrow> string \<Rightarrow> string" where
  "strings_TrimPrefix s pre = (if strings_HasPrefix s pre then drop (length pre) s else s)"

text \<open>The negation of the smallest duration is that duration.\<close>

definition fresh_timestamp :: "int \<Rightarrow> time \<Rightarrow> bool" where
  "fresh_timestamp seconds now =
     (let delta = time_Sub now (time_of_Unix seconds); delta = (if delta < 0 then wrap64 (- delta) else delta)
      in \<not> delta > 5 * minute)"

definition validWebhookSignature ::
  "'w automation_api \<Rightarrow> string \<Rightarrow> string \<Rightarrow> string \<Rightarrow> bytes \<Rightarrow> time \<Rightarrow> bool" where
  "validWebhookSignature api secret timestamp signature body now =
     (if secret = '''' \<or> timestamp = '''' \<or> signature = '''' then False
      else case ParseInt64 timestamp of
        Inl _ \<Rightarrow> False
      | Inr seconds \<Rightarrow>
          fresh_timestamp seconds now \<and>
          (case hex_DecodeString (strings_TrimPrefix (strings_ToLower signature) ''sha256='') of
             Inl _ \<Rightarrow> False
           | Inr provided \<Rightarrow>
               provided = au_hmac_sha256 api (bytes_of secret) (bytes_of timestamp @ bytes_of ''.'' @ body)))"

definition normalizedWebhookRateLimit :: "int \<Rightarrow> int" where
  "normalizedWebhookRateLimit value = (if value \<le> 0 then 120 else if value > 10000 then 10000 else value)"

section \<open>Receiving\<close>

text \<open>
  A request: the secret of its path, the address of the client, the body as \<open>io.ReadAll\<close> delivers it, the two
  headers, and the instants at which the limiter, the signature check and the replay cache read the clock.
\<close>

record webhook_request =
  wq_secret :: string
  wq_clientIP :: string
  wq_body :: "bytes res"
  wq_timestamp :: string
  wq_signature :: string
  wq_limitNow :: time
  wq_signNow :: time
  wq_replayNow :: time

datatype webhook_answer = NotMatched | Accepted nat

definition record_delivery :: "webhook_request \<Rightarrow> webhook_route \<Rightarrow> string \<Rightarrow> string \<Rightarrow> nat \<Rightarrow> ('w, unit) handler" where
  "record_delivery q item status detail messageID =
     h_ignore (CreateWebhookDelivery \<lparr>wd_ID = 0, wd_WebhookRouteID = wr_ID item, wd_IPAddress = wq_clientIP q,
       wd_Status = status, wd_Detail = take 500 detail, wd_MessageID = messageID, wd_CreatedAt = zero_time\<rparr>)"

definition refuse :: "webhook_request \<Rightarrow> webhook_route \<Rightarrow> string \<Rightarrow> string \<Rightarrow> nat \<Rightarrow> fail \<Rightarrow> ('w, 'a) handler" where
  "refuse q item status detail code e = h_then (record_delivery q item status detail 0) (aborted code e)"

definition limit_webhook :: "webhook_request \<Rightarrow> webhook_route \<Rightarrow> ('w automation_state, unit) handler" where
  "limit_webhook q item s =
     (case as_limiter (srv_world (ctx_world s)) of
        None \<Rightarrow> (Some (), s)
      | Some windows \<Rightarrow>
          let key = show_nat (wr_ID item) @ ''|'' @ wq_clientIP q;
              ((allowed, retry), windows) =
                DynamicAllow (wq_limitNow q) key (normalizedWebhookRateLimit (wr_RateLimitPerMinute item)) minute windows;
              s = s\<lparr>ctx_world := (ctx_world s)\<lparr>srv_world := (srv_world (ctx_world s))\<lparr>as_limiter := Some windows\<rparr>\<rparr>\<rparr>
          in if allowed then (Some (), s)
             else refuse q item ''rate_limited'' ''rate limit exceeded'' 429 (Err ''webhook rate limit exceeded'') s)"

definition read_body :: "webhook_request \<Rightarrow> webhook_route \<Rightarrow> ('w, bytes) handler" where
  "read_body q item =
     (case wq_body q of
        Inl e \<Rightarrow> refuse q item ''failed'' ''request body could not be read'' 400 e
      | Inr all' \<Rightarrow>
          let body = take (maxWebhookBytes + 1) all' in
          if length body > maxWebhookBytes
          then refuse q item ''rejected'' ''payload exceeds 1 MiB'' 413 (Err ''webhook payload exceeds 1 MiB'')
          else h_return body)"

definition replay_key :: "'w automation_api \<Rightarrow> webhook_request \<Rightarrow> string" where
  "replay_key api q = HashSecret (au_crypto api) (strings_TrimSpace (wq_secret q) @ ''|'' @
     strings_TrimSpace (wq_timestamp q) @ ''|'' @ strings_TrimSpace (wq_signature q))"

definition check_replay :: "'w automation_api \<Rightarrow> webhook_request \<Rightarrow> webhook_route \<Rightarrow> ('w automation_state, unit) handler" where
  "check_replay api q item s =
     (case as_replay (srv_world (ctx_world s)) of
        None \<Rightarrow> (Some (), s)
      | Some cache \<Rightarrow>
          let (fresh, cache) = Remember (wq_replayNow q) (replay_key api q) (10 * minute) cache;
              s = s\<lparr>ctx_world := (ctx_world s)\<lparr>srv_world := (srv_world (ctx_world s))\<lparr>as_replay := Some cache\<rparr>\<rparr>\<rparr>
          in if fresh then (Some (), s)
             else refuse q item ''rejected'' ''duplicate signed request'' 409 (Err ''duplicate webhook request'') s)"

definition check_signature ::
  "'w automation_api \<Rightarrow> webhook_request \<Rightarrow> webhook_route \<Rightarrow> bytes \<Rightarrow> ('w automation_state, unit) handler" where
  "check_signature api q item body =
     (if \<not> wr_RequireSignature item then h_return ()
      else if \<not> validWebhookSignature api (strings_TrimSpace (wq_secret q)) (strings_TrimSpace (wq_timestamp q))
             (strings_TrimSpace (wq_signature q)) body (wq_signNow q)
      then refuse q item ''rejected'' ''signature verification failed'' 401 (Err '''')
      else check_replay api q item)"

text \<open>The fields of the message; none when the rule of the route does not match.\<close>

definition matches :: "'w automation_api \<Rightarrow> webhook_route \<Rightarrow> json res \<Rightarrow> bool" where
  "matches api item parsed =
     (wr_MatchField item = '''' \<or>
      (case parsed of
         Inl _ \<Rightarrow> False
       | Inr payload \<Rightarrow>
           (case lookupPayload payload (wr_MatchField item) of
              None \<Rightarrow> False
            | Some value \<Rightarrow> wr_MatchValue item = '''' \<or> payloadString api value = wr_MatchValue item)))"

definition field_or :: "'w automation_api \<Rightarrow> string \<Rightarrow> json \<Rightarrow> string \<Rightarrow> string" where
  "field_or api fallback payload field =
     (case lookupPayload payload field of
        Some value \<Rightarrow> (let text = payloadString api value in if text \<noteq> '''' then text else fallback)
      | None \<Rightarrow> fallback)"

definition message_fields :: "'w automation_api \<Rightarrow> webhook_route \<Rightarrow> bytes \<Rightarrow> json res \<Rightarrow> string \<times> string \<times> int" where
  "message_fields api item body parsed =
     (let title = wr_DefaultTitle item; message = strings_TrimSpace (string_of body);
          priority = wr_DefaultPriority item in
      case parsed of
        Inl _ \<Rightarrow> (title, message, priority)
      | Inr payload \<Rightarrow>
         (if wr_TitleTemplate item \<noteq> '''' then renderPayloadTemplate api (wr_TitleTemplate item) payload (string_of body)
          else field_or api title payload (wr_TitleField item),
          if wr_MessageTemplate item \<noteq> '''' then renderPayloadTemplate api (wr_MessageTemplate item) payload (string_of body)
          else if lookupPayload payload (wr_MessageField item) \<noteq> None
          then field_or api message payload (wr_MessageField item)
          else (case au_MarshalIndent api payload of Inr encoded \<Rightarrow> encoded | Inl _ \<Rightarrow> message),
          case lookupPayload payload (wr_PriorityField item) of
            None \<Rightarrow> priority
          | Some value \<Rightarrow> (case payloadInt value of Some number \<Rightarrow> number | None \<Rightarrow> priority)))"

text \<open>
  The handler in two parts: everything up to the decision what to publish, if anything, and the delivery.
\<close>

definition admit_webhook :: "'w automation_api \<Rightarrow> webhook_request \<Rightarrow>
    ('w automation_state, (webhook_route \<times> string \<times> string \<times> int) option) handler" where
  "admit_webhook api q =
     h_bind (successOrAbort 500 (GetWebhookRouteBySecret (au_crypto api) (strings_TrimSpace (wq_secret q)))) (\<lambda>item.
     case item of None \<Rightarrow> aborted 404 (Err '''') | Some item \<Rightarrow>
     if \<not> webhookIPAllowed (wq_clientIP q) (wr_AllowedCIDRs item)
     then refuse q item ''rejected'' ''source IP is not allowed'' 403 (Err '''')
     else h_then (limit_webhook q item)
       (h_bind (read_body q item) (\<lambda>body.
        h_then (check_signature api q item body)
          (let parsed = au_Unmarshal api body in
           if \<not> matches api item parsed
           then h_then (record_delivery q item ''ignored''
               (case parsed of Inl _ \<Rightarrow> ''conditional rule requires a JSON payload''
                | Inr _ \<Rightarrow> ''conditional routing rule did not match'') 0) (h_return None)
           else
             let (title, message, priority) = message_fields api item body parsed in
             if strings_TrimSpace message = ''''
             then refuse q item ''failed'' ''payload did not contain a message'' 400
               (Err ''webhook payload did not contain a message'')
             else h_return (Some (item, title, message, priority))))))"

definition publish_webhook :: "'w automation_api \<Rightarrow> webhook_request \<Rightarrow>
    (webhook_route \<times> string \<times> string \<times> int) option \<Rightarrow> ('w automation_state, webhook_answer) handler" where
  "publish_webhook api q decision s =
     (case decision of
        None \<Rightarrow> (Some NotMatched, s)
      | Some (item, title, message, priority) \<Rightarrow>
          (case engine_call 500 (\<lambda>v. case au_Publish api (wr_ApplicationID item) title message priority v of
                  (r, v) \<Rightarrow> (Inr r, v)) s of
             (None, s) \<Rightarrow> (None, s)
           | (Some (Inl e), s) \<Rightarrow> refuse q item ''failed'' ''message delivery failed'' 500 e s
           | (Some (Inr msg), s) \<Rightarrow>
               h_then (record_delivery q item ''delivered'' '''' (msg_ID msg)) (h_return (Accepted (msg_ID msg))) s))"

definition ReceiveWebhook :: "'w automation_api \<Rightarrow> webhook_request \<Rightarrow> ('w automation_state, webhook_answer) handler" where
  "ReceiveWebhook api q = h_bind (admit_webhook api q) (publish_webhook api q)"

end
