(* ===== verification/Automation_Api.thy ===== *)
theory Automation_Api
  imports Webhook Collaboration
begin

text \<open>
  The handlers of \<open>src/api/automation.go\<close> that manage webhooks, MQTT and Home Assistant connections, schedules, quiet
  hours, digests, escalations and acknowledgements, and the endpoints that the native Home Assistant bridge
  calls. An error of \<open>ShouldBindJSON\<close> ends a handler without an answer.
\<close>

section \<open>Common steps\<close>

definition h_now :: "'w automation_api \<Rightarrow> ('w automation_state, time) handler" where
  "h_now api = h_world (\<lambda>v. au_now api (as_world v))"

definition channelExists :: "nat \<Rightarrow> ('w, unit) handler" where
  "channelExists i =
     h_bind (successOrAbort 500 (db_GetApplicationByID i)) (\<lambda>item.
     if item = None then aborted 400 (Err ''channel not found'') else h_return ())"

definition found :: "string \<Rightarrow> 'a option db \<Rightarrow> ('w, 'a) handler" where
  "found message m =
     h_bind (successOrAbort 500 m) (\<lambda>item. case item of None \<Rightarrow> aborted 404 (Err message) | Some item \<Rightarrow> h_return item)"

definition require :: "bool \<Rightarrow> string \<Rightarrow> ('w, unit) handler" where
  "require ok message = (if ok then h_return () else aborted 400 (Err message))"

definition valueOr :: "string \<Rightarrow> string \<Rightarrow> string" where
  "valueOr v fallback = (if strings_TrimSpace v = '''' then fallback else strings_TrimSpace v)"

definition has_scheme :: "string list \<Rightarrow> string \<Rightarrow> bool" where
  "has_scheme schemes raw =
     (let lower = strings_ToLower (strings_TrimSpace raw) in list_ex (strings_HasPrefix lower) schemes)"

definition validMQTTURL :: "string \<Rightarrow> bool" where
  "validMQTTURL = has_scheme [''mqtt://'', ''mqtts://'', ''tcp://'', ''tls://'']"

definition validHTTPURL :: "string \<Rightarrow> bool" where
  "validHTTPURL = has_scheme [''http://'', ''https://'']"

definition generateIntegrationSecret :: "'w automation_api \<Rightarrow> ('w automation_state, string) handler" where
  "generateIntegrationSecret api =
     h_bind (draw api 32) (\<lambda>raw. case raw of
       Inl e \<Rightarrow> aborted 500 e
     | Inr raw \<Rightarrow> h_return (b64_encode url_alphabet raw))"

definition draw_nonce :: "'w automation_api \<Rightarrow> ('w automation_state, bytes res) handler" where
  "draw_nonce api = draw api (nonce_size (au_crypto api))"

definition save_route :: "'w automation_api \<Rightarrow> webhook_route \<Rightarrow> ('w automation_state, webhook_route) handler" where
  "save_route api item =
     h_bind (draw_nonce api) (\<lambda>n. successOrAbort 500 (SaveWebhookRoute (au_crypto api) n item))"

definition save_broker :: "'w automation_api \<Rightarrow> mqtt_integration \<Rightarrow> ('w automation_state, mqtt_integration) handler" where
  "save_broker api item =
     h_bind (draw_nonce api) (\<lambda>n. h_bind (draw_nonce api) (\<lambda>n'.
       successOrAbort 500 (SaveMQTTIntegration (au_crypto api) n n' item)))"

definition save_home :: "'w automation_api \<Rightarrow> home_assistant_integration \<Rightarrow>
    ('w automation_state, home_assistant_integration) handler" where
  "save_home api item =
     h_bind (draw_nonce api) (\<lambda>n1. h_bind (draw_nonce api) (\<lambda>n2. h_bind (draw_nonce api) (\<lambda>n3.
       successOrAbort 500 (SaveHomeAssistantIntegration (au_crypto api) n1 n2 n3 item))))"

definition query_limit :: "int \<Rightarrow> string \<Rightarrow> int" where
  "query_limit fallback raw =
     (if raw = '''' then fallback else case ParseInt64 raw of Inr parsed \<Rightarrow> parsed | Inl _ \<Rightarrow> fallback)"

section \<open>Webhooks\<close>

record webhook_view =
  wv_ID :: nat
  wv_Name :: string
  wv_ApplicationID :: nat
  wv_Enabled :: bool
  wv_RequireSignature :: bool
  wv_AllowedCIDRs :: string
  wv_RateLimitPerMinute :: int
  wv_Path :: string
  wv_TitleField :: string
  wv_MessageField :: string
  wv_PriorityField :: string
  wv_MatchField :: string
  wv_MatchValue :: string
  wv_TitleTemplate :: string
  wv_MessageTemplate :: string
  wv_DefaultTitle :: string
  wv_DefaultPriority :: int
  wv_CreatedAt :: time
  wv_UpdatedAt :: time

definition webhookView :: "webhook_route \<Rightarrow> webhook_view" where
  "webhookView r = \<lparr>wv_ID = wr_ID r, wv_Name = wr_Name r, wv_ApplicationID = wr_ApplicationID r,
     wv_Enabled = wr_Enabled r, wv_RequireSignature = wr_RequireSignature r, wv_AllowedCIDRs = wr_AllowedCIDRs r,
     wv_RateLimitPerMinute = normalizedWebhookRateLimit (wr_RateLimitPerMinute r),
     wv_Path = ''/integrations/webhook/'' @ wr_Secret r, wv_TitleField = wr_TitleField r,
     wv_MessageField = wr_MessageField r, wv_PriorityField = wr_PriorityField r, wv_MatchField = wr_MatchField r,
     wv_MatchValue = wr_MatchValue r, wv_TitleTemplate = wr_TitleTemplate r, wv_MessageTemplate = wr_MessageTemplate r,
     wv_DefaultTitle = wr_DefaultTitle r, wv_DefaultPriority = wr_DefaultPriority r, wv_CreatedAt = wr_CreatedAt r,
     wv_UpdatedAt = wr_UpdatedAt r\<rparr>"

text \<open>The parameters are a view without identifier, path and times.\<close>

definition fill_route :: "webhook_view \<Rightarrow> webhook_route \<Rightarrow> webhook_route" where
  "fill_route p item = item\<lparr>wr_Name := wv_Name p, wr_ApplicationID := wv_ApplicationID p, wr_Enabled := wv_Enabled p,
     wr_TitleField := valueOr (wv_TitleField p) ''title'', wr_MessageField := valueOr (wv_MessageField p) ''message'',
     wr_PriorityField := valueOr (wv_PriorityField p) ''priority'',
     wr_MatchField := strings_TrimSpace (wv_MatchField p), wr_MatchValue := wv_MatchValue p,
     wr_TitleTemplate := wv_TitleTemplate p, wr_MessageTemplate := wv_MessageTemplate p,
     wr_DefaultTitle := wv_DefaultTitle p, wr_DefaultPriority := wv_DefaultPriority p,
     wr_RequireSignature := wv_RequireSignature p, wr_AllowedCIDRs := strings_TrimSpace (wv_AllowedCIDRs p),
     wr_RateLimitPerMinute := normalizedWebhookRateLimit (wv_RateLimitPerMinute p)\<rparr>"

definition new_route :: webhook_route where
  "new_route = \<lparr>wr_ID = 0, wr_Name = '''', wr_ApplicationID = 0, wr_Secret = '''', wr_SecretHash = '''', wr_Enabled = False,
     wr_RequireSignature = False, wr_AllowedCIDRs = '''', wr_RateLimitPerMinute = 0, wr_TitleField = '''',
     wr_MessageField = '''', wr_PriorityField = '''', wr_MatchField = '''', wr_MatchValue = '''', wr_TitleTemplate = '''',
     wr_MessageTemplate = '''', wr_DefaultTitle = '''', wr_DefaultPriority = 0, wr_CreatedAt = zero_time,
     wr_UpdatedAt = zero_time\<rparr>"

definition found_route :: "'w automation_api \<Rightarrow> nat \<Rightarrow> ('w automation_state, webhook_route) handler" where
  "found_route api i = found ''webhook not found'' (GetWebhookRouteByID (au_crypto api) i)"

definition GetWebhookRoutes :: "'w automation_api \<Rightarrow> ('w automation_state, webhook_view list) handler" where
  "GetWebhookRoutes api =
     h_bind (successOrAbort 500 (db_GetWebhookRoutes (au_crypto api))) (\<lambda>items. h_return (map webhookView items))"

definition CreateWebhookRoute :: "'w automation_api \<Rightarrow> webhook_view res \<Rightarrow> ('w automation_state, webhook_view) handler" where
  "CreateWebhookRoute api bound =
     h_bind (h_ShouldBind bound) (\<lambda>p.
     h_then (channelExists (wv_ApplicationID p))
       (h_bind (generateIntegrationSecret api) (\<lambda>secret.
        h_bind (save_route api ((fill_route p new_route)\<lparr>wr_Secret := secret\<rparr>)) (\<lambda>item. h_return (webhookView item)))))"

definition UpdateWebhookRoute :: "'w automation_api \<Rightarrow> string \<Rightarrow> webhook_view res \<Rightarrow>
    ('w automation_state, webhook_view) handler" where
  "UpdateWebhookRoute api param bound = withID param (\<lambda>i.
     h_bind (found_route api i) (\<lambda>item.
     h_bind (h_ShouldBind bound) (\<lambda>p.
     h_then (channelExists (wv_ApplicationID p))
       (h_bind (save_route api (fill_route p item)) (\<lambda>item. h_return (webhookView item))))))"

definition RegenerateWebhookSecret :: "'w automation_api \<Rightarrow> string \<Rightarrow> ('w automation_state, webhook_view) handler" where
  "RegenerateWebhookSecret api param = withID param (\<lambda>i.
     h_bind (found_route api i) (\<lambda>item.
     h_bind (generateIntegrationSecret api) (\<lambda>secret.
     h_bind (save_route api (item\<lparr>wr_Secret := secret\<rparr>)) (\<lambda>item. h_return (webhookView item)))))"

definition TestWebhookRoute :: "'w automation_api \<Rightarrow> string \<Rightarrow> ('w automation_state, nat) handler" where
  "TestWebhookRoute api param = withID param (\<lambda>i.
     h_bind (found_route api i) (\<lambda>item.
     h_bind (engine_call 500 (au_Publish api (wr_ApplicationID item) ''Webhook test''
       ''Gotify MU webhook test completed successfully.'' (wr_DefaultPriority item))) (\<lambda>msg. h_return (msg_ID msg))))"

definition DeleteWebhookRoute :: "string \<Rightarrow> ('w, unit) handler" where
  "DeleteWebhookRoute param = withID param (\<lambda>i. successOrAbort 500 (db_DeleteWebhookRoute i))"

definition GetWebhookDeliveries :: "'w automation_api \<Rightarrow> string \<Rightarrow> string \<Rightarrow> ('w automation_state, webhook_delivery list) handler" where
  "GetWebhookDeliveries api param raw = withID param (\<lambda>i.
     h_bind (found_route api i) (\<lambda>_. successOrAbort 500 (db_GetWebhookDeliveries i (query_limit 100 raw))))"

section \<open>MQTT\<close>

record mqtt_view =
  mv_ID :: nat
  mv_Name :: string
  mv_ApplicationID :: nat
  mv_BrokerURL :: string
  mv_ClientID :: string
  mv_Username :: string
  mv_PasswordConfigured :: bool
  mv_ProtocolVersion :: int
  mv_QoS :: int
  mv_CACertificate :: string
  mv_ClientCertificate :: string
  mv_ClientKeyConfigured :: bool
  mv_Topic :: string
  mv_Enabled :: bool
  mv_Status :: string
  mv_LastConnectedAt :: "time option"
  mv_LastMessageAt :: "time option"
  mv_LastError :: string
  mv_LastErrorAt :: "time option"
  mv_ReconnectCount :: int
  mv_CreatedAt :: time
  mv_UpdatedAt :: time

definition mqttView :: "mqtt_integration \<Rightarrow> mqtt_view" where
  "mqttView r = \<lparr>mv_ID = mqi_ID r, mv_Name = mqi_Name r, mv_ApplicationID = mqi_ApplicationID r,
     mv_BrokerURL = mqi_BrokerURL r, mv_ClientID = mqi_ClientID r, mv_Username = mqi_Username r,
     mv_PasswordConfigured = (mqi_Password r \<noteq> ''''), mv_ProtocolVersion = mqi_ProtocolVersion r, mv_QoS = mqi_QoS r,
     mv_CACertificate = mqi_CACertificate r, mv_ClientCertificate = mqi_ClientCertificate r,
     mv_ClientKeyConfigured = (mqi_ClientKey r \<noteq> ''''), mv_Topic = mqi_Topic r, mv_Enabled = mqi_Enabled r,
     mv_Status = mqi_Status r, mv_LastConnectedAt = mqi_LastConnectedAt r, mv_LastMessageAt = mqi_LastMessageAt r,
     mv_LastError = mqi_LastError r, mv_LastErrorAt = mqi_LastErrorAt r, mv_ReconnectCount = mqi_ReconnectCount r,
     mv_CreatedAt = mqi_CreatedAt r, mv_UpdatedAt = mqi_UpdatedAt r\<rparr>"

record mqtt_params =
  mp_Name :: string
  mp_ApplicationID :: nat
  mp_BrokerURL :: string
  mp_ClientID :: string
  mp_Username :: string
  mp_Password :: string
  mp_ProtocolVersion :: int
  mp_QoS :: int
  mp_CACertificate :: string
  mp_ClientCertificate :: string
  mp_ClientKey :: string
  mp_Topic :: string
  mp_Enabled :: bool

definition mqtt_limits :: "mqtt_params \<Rightarrow> ('w, unit) handler" where
  "mqtt_limits p =
     h_then (require (mp_ProtocolVersion p = 4 \<or> mp_ProtocolVersion p = 5)
         ''MQTT protocol version must be 4 (3.1.1) or 5'')
       (require (0 \<le> mp_QoS p \<and> mp_QoS p \<le> 2) ''MQTT QoS must be 0, 1, or 2'')"

definition mqtt_url :: "mqtt_params \<Rightarrow> ('w, unit) handler" where
  "mqtt_url p = require (validMQTTURL (mp_BrokerURL p)) ''broker URL must use mqtt, mqtts, tcp, or tls''"

definition fill_broker :: "mqtt_params \<Rightarrow> mqtt_integration \<Rightarrow> mqtt_integration" where
  "fill_broker p item = item\<lparr>mqi_Name := mp_Name p, mqi_ApplicationID := mp_ApplicationID p,
     mqi_BrokerURL := mp_BrokerURL p, mqi_ClientID := mp_ClientID p, mqi_Username := mp_Username p, mqi_Topic := mp_Topic p,
     mqi_Enabled := mp_Enabled p, mqi_ProtocolVersion := mp_ProtocolVersion p, mqi_QoS := mp_QoS p,
     mqi_CACertificate := mp_CACertificate p, mqi_ClientCertificate := mp_ClientCertificate p,
     mqi_Password := (if mp_Password p \<noteq> '''' then mp_Password p else mqi_Password item),
     mqi_ClientKey := (if mp_ClientKey p \<noteq> '''' then mp_ClientKey p else mqi_ClientKey item)\<rparr>"

definition new_broker :: mqtt_integration where
  "new_broker = \<lparr>mqi_ID = 0, mqi_Name = '''', mqi_ApplicationID = 0, mqi_BrokerURL = '''', mqi_ClientID = '''',
     mqi_Username = '''', mqi_Password = '''', mqi_ProtocolVersion = 0, mqi_QoS = 0, mqi_CACertificate = '''',
     mqi_ClientCertificate = '''', mqi_ClientKey = '''', mqi_Topic = '''', mqi_Enabled = False, mqi_Status = '''',
     mqi_LastConnectedAt = None, mqi_LastMessageAt = None, mqi_LastError = '''', mqi_LastErrorAt = None,
     mqi_ReconnectCount = 0, mqi_CreatedAt = zero_time, mqi_UpdatedAt = zero_time\<rparr>"

definition GetMQTT :: "'w automation_api \<Rightarrow> ('w automation_state, mqtt_view list) handler" where
  "GetMQTT api =
     h_bind (successOrAbort 500 (GetMQTTIntegrations (au_crypto api))) (\<lambda>items. h_return (map mqttView items))"

definition CreateMQTT :: "'w automation_api \<Rightarrow> mqtt_params res \<Rightarrow> ('w automation_state, mqtt_view) handler" where
  "CreateMQTT api bound =
     h_bind (h_ShouldBind bound) (\<lambda>p.
     h_then (channelExists (mp_ApplicationID p))
     (h_then (mqtt_url p)
       (let p = (if mp_ProtocolVersion p = 0 then p\<lparr>mp_ProtocolVersion := 5\<rparr> else p) in
        h_then (mqtt_limits p)
        (h_then (require ((strings_TrimSpace (mp_ClientCertificate p) = '''') = (strings_TrimSpace (mp_ClientKey p) = ''''))
            ''MQTT client certificate and private key must be provided together'')
          (h_bind (save_broker api (fill_broker p new_broker)) (\<lambda>item.
           h_then (ReloadIntegrations api) (h_return (mqttView item))))))))"

definition UpdateMQTT :: "'w automation_api \<Rightarrow> string \<Rightarrow> mqtt_params res \<Rightarrow> ('w automation_state, mqtt_view) handler" where
  "UpdateMQTT api param bound = withID param (\<lambda>i.
     h_bind (found ''MQTT connection not found'' (GetMQTTIntegrationByID (au_crypto api) i)) (\<lambda>item.
     h_bind (h_ShouldBind bound) (\<lambda>p.
     h_then (channelExists (mp_ApplicationID p))
     (h_then (mqtt_url p)
       (let p = (if mp_ProtocolVersion p = 0 then p\<lparr>mp_ProtocolVersion := mqi_ProtocolVersion item\<rparr> else p);
            p = (if mp_ProtocolVersion p = 0 then p\<lparr>mp_ProtocolVersion := 5\<rparr> else p) in
        h_then (mqtt_limits p)
        (h_then (require (\<not> (strings_TrimSpace (mp_ClientCertificate p) \<noteq> '''' \<and> strings_TrimSpace (mp_ClientKey p) = '''' \<and>
              mqi_ClientKey item = '''')) ''MQTT client private key is required with a client certificate'')
          (h_bind (save_broker api (fill_broker p item)) (\<lambda>item.
           h_then (ReloadIntegrations api) (h_return (mqttView item))))))))))"

definition TestMQTT :: "'w automation_api \<Rightarrow> string \<Rightarrow> ('w automation_state, unit) handler" where
  "TestMQTT api param = withID param (\<lambda>i. engine_call 502 (au_TestMQTTConnection api i))"

definition DeleteMQTT :: "'w automation_api \<Rightarrow> string \<Rightarrow> ('w automation_state, unit) handler" where
  "DeleteMQTT api param = withID param (\<lambda>i.
     h_then (successOrAbort 500 (DeleteMQTTIntegration i)) (ReloadIntegrations api))"

section \<open>Home Assistant\<close>

record home_view =
  hv_ID :: nat
  hv_Name :: string
  hv_ApplicationID :: nat
  hv_ConnectionMode :: string
  hv_BaseURL :: string
  hv_TokenConfigured :: bool
  hv_NativePaired :: bool
  hv_PairingExpiresAt :: "time option"
  hv_EventType :: string
  hv_EntityIDs :: string
  hv_DataField :: string
  hv_DataValue :: string
  hv_Enabled :: bool
  hv_Status :: string
  hv_LastConnectedAt :: "time option"
  hv_LastEventAt :: "time option"
  hv_LastError :: string
  hv_LastErrorAt :: "time option"
  hv_ReconnectCount :: int
  hv_CreatedAt :: time
  hv_UpdatedAt :: time

definition normalizeHomeAssistantMode :: "string \<Rightarrow> string" where
  "normalizeHomeAssistantMode value =
     (let mode = strings_ToLower (strings_TrimSpace value) in
      if mode = '''' \<or> mode = ''token'' \<or> mode = ''llt'' then ''token''
      else if mode = ''integration'' \<or> mode = ''native'' then ''integration'' else '''')"

definition homeAssistantView :: "home_assistant_integration \<Rightarrow> home_view" where
  "homeAssistantView r =
     (let mode = normalizeHomeAssistantMode (ha_ConnectionMode r) in
      \<lparr>hv_ID = ha_ID r, hv_Name = ha_Name r, hv_ApplicationID = ha_ApplicationID r,
       hv_ConnectionMode = (if mode = '''' then ''token'' else mode), hv_BaseURL = ha_BaseURL r,
       hv_TokenConfigured = (ha_Token r \<noteq> ''''),
       hv_NativePaired = (ha_NativeWebhookURL r \<noteq> '''' \<and> ha_NativeSecret r \<noteq> ''''),
       hv_PairingExpiresAt = ha_PairingExpiresAt r, hv_EventType = ha_EventType r, hv_EntityIDs = ha_EntityIDs r,
       hv_DataField = ha_DataField r, hv_DataValue = ha_DataValue r, hv_Enabled = ha_Enabled r, hv_Status = ha_Status r,
       hv_LastConnectedAt = ha_LastConnectedAt r, hv_LastEventAt = ha_LastEventAt r, hv_LastError = ha_LastError r,
       hv_LastErrorAt = ha_LastErrorAt r, hv_ReconnectCount = ha_ReconnectCount r, hv_CreatedAt = ha_CreatedAt r,
       hv_UpdatedAt = ha_UpdatedAt r\<rparr>)"

record home_params =
  hp_Name :: string
  hp_ApplicationID :: nat
  hp_ConnectionMode :: string
  hp_BaseURL :: string
  hp_Token :: string
  hp_EventType :: string
  hp_EntityIDs :: string
  hp_DataField :: string
  hp_DataValue :: string
  hp_Enabled :: bool

definition new_home :: home_assistant_integration where
  "new_home = \<lparr>ha_ID = 0, ha_Name = '''', ha_ApplicationID = 0, ha_ConnectionMode = '''', ha_BaseURL = '''', ha_Token = '''',
     ha_NativeWebhookURL = '''', ha_NativeSecret = '''', ha_PairingCodeHash = '''', ha_PairingExpiresAt = None,
     ha_EventType = '''', ha_EntityIDs = '''', ha_DataField = '''', ha_DataValue = '''', ha_Enabled = False, ha_Status = '''',
     ha_LastConnectedAt = None, ha_LastEventAt = None, ha_LastError = '''', ha_LastErrorAt = None, ha_ReconnectCount = 0,
     ha_CreatedAt = zero_time, ha_UpdatedAt = zero_time\<rparr>"

definition fill_home :: "home_params \<Rightarrow> string \<Rightarrow> home_assistant_integration \<Rightarrow> home_assistant_integration" where
  "fill_home p mode item = item\<lparr>ha_Name := hp_Name p, ha_ApplicationID := hp_ApplicationID p, ha_ConnectionMode := mode,
     ha_EventType := strings_TrimSpace (hp_EventType p), ha_EntityIDs := strings_TrimSpace (hp_EntityIDs p),
     ha_DataField := strings_TrimSpace (hp_DataField p), ha_DataValue := hp_DataValue p, ha_Enabled := hp_Enabled p\<rparr>"

definition strings_TrimRight :: "string \<Rightarrow> char \<Rightarrow> string" where
  "strings_TrimRight s c = rev (dropWhile (\<lambda>d. d = c) (rev s))"

definition prepareHomeAssistantPairing :: "'w automation_api \<Rightarrow> home_assistant_integration \<Rightarrow>
    ('w automation_state, string \<times> home_assistant_integration) handler" where
  "prepareHomeAssistantPairing api item =
     h_bind (generateIntegrationSecret api) (\<lambda>code.
     h_bind (h_now api) (\<lambda>now.
     let wasPaired = (strings_TrimSpace (ha_NativeWebhookURL item) \<noteq> '''' \<and> strings_TrimSpace (ha_NativeSecret item) \<noteq> '''');
         item = item\<lparr>ha_PairingCodeHash := HashSecret (au_crypto api) code, ha_PairingExpiresAt := Some (now + 15 * minute),
           ha_Status := (if wasPaired then ha_Status item else ''pairing''), ha_LastError := '''', ha_LastErrorAt := None\<rparr>
     in h_return (code, item)))"

definition clearHomeAssistantNativePairing :: "home_assistant_integration \<Rightarrow> home_assistant_integration" where
  "clearHomeAssistantNativePairing item = item\<lparr>ha_NativeWebhookURL := '''', ha_NativeSecret := '''', ha_PairingCodeHash := '''',
     ha_PairingExpiresAt := None, ha_Status := ''not_paired'', ha_LastError := '''', ha_LastErrorAt := None\<rparr>"

text \<open>The answer to a pairing shows the code behind the identifier.\<close>

definition pairing_answer :: "home_assistant_integration \<Rightarrow> string \<Rightarrow> home_view \<times> string" where
  "pairing_answer item code = (homeAssistantView item, show_nat (ha_ID item) @ ''.'' @ code)"

definition http_url :: "string \<Rightarrow> ('w, unit) handler" where
  "http_url raw = require (validHTTPURL raw) ''home assistant URL must use http or https''"

definition token_needed :: "string \<Rightarrow> ('w, unit) handler" where
  "token_needed token = require (strings_TrimSpace token \<noteq> '''') ''long-lived access token is required''"

definition mode_of :: "home_params \<Rightarrow> ('w, string) handler" where
  "mode_of p = (let mode = normalizeHomeAssistantMode (hp_ConnectionMode p) in
     if mode = '''' then aborted 400 (Err ''connection mode must be token or integration'') else h_return mode)"

definition GetHomeAssistant :: "'w automation_api \<Rightarrow> ('w automation_state, home_view list) handler" where
  "GetHomeAssistant api =
     h_bind (successOrAbort 500 (GetHomeAssistantIntegrations (au_crypto api))) (\<lambda>items. h_return (map homeAssistantView items))"

definition CreateHomeAssistant :: "'w automation_api \<Rightarrow> home_params res \<Rightarrow>
    ('w automation_state, home_view \<times> string option) handler" where
  "CreateHomeAssistant api bound =
     h_bind (h_ShouldBind bound) (\<lambda>p.
     h_then (channelExists (hp_ApplicationID p))
     (h_bind (mode_of p) (\<lambda>mode.
      let item = fill_home p mode new_home in
      if mode = ''token'' then
        h_then (http_url (hp_BaseURL p))
        (h_then (token_needed (hp_Token p))
        (h_bind (save_home api (item\<lparr>ha_BaseURL := strings_TrimRight (hp_BaseURL p) (CHR ''/''), ha_Token := hp_Token p\<rparr>)) (\<lambda>item.
         h_then (ReloadIntegrations api) (h_return (homeAssistantView item, None)))))
      else
        h_bind (prepareHomeAssistantPairing api item) (\<lambda>(code, item).
        h_bind (save_home api item) (\<lambda>item.
          h_return (homeAssistantView item, Some (snd (pairing_answer item code))))))))"

definition UpdateHomeAssistant :: "'w automation_api \<Rightarrow> string \<Rightarrow> home_params res \<Rightarrow> ('w automation_state, home_view) handler" where
  "UpdateHomeAssistant api param bound = withID param (\<lambda>i.
     h_bind (found ''home assistant connection not found'' (GetHomeAssistantIntegrationByID (au_crypto api) i)) (\<lambda>item.
     h_bind (h_ShouldBind bound) (\<lambda>p.
     h_then (channelExists (hp_ApplicationID p))
     (h_bind (mode_of p) (\<lambda>mode.
      let item = fill_home p mode item in
      h_bind (if mode = ''token'' then
          (let token = (if hp_Token p \<noteq> '''' then hp_Token p else ha_Token item) in
           h_then (http_url (hp_BaseURL p))
           (h_then (token_needed token)
             (h_return (item\<lparr>ha_BaseURL := strings_TrimRight (hp_BaseURL p) (CHR ''/''), ha_Token := token,
                ha_NativeWebhookURL := '''', ha_NativeSecret := '''', ha_PairingCodeHash := '''', ha_PairingExpiresAt := None\<rparr>))))
        else h_return (item\<lparr>ha_BaseURL := '''', ha_Token := ''''\<rparr>)) (\<lambda>item.
      h_bind (save_home api item) (\<lambda>item.
      h_then (ReloadIntegrations api) (h_return (homeAssistantView item)))))))))"

definition RegenerateHomeAssistantPairing :: "'w automation_api \<Rightarrow> string \<Rightarrow>
    ('w automation_state, home_view \<times> string) handler" where
  "RegenerateHomeAssistantPairing api param = withID param (\<lambda>i.
     h_bind (found ''home assistant connection not found'' (GetHomeAssistantIntegrationByID (au_crypto api) i)) (\<lambda>item.
     h_then (require (normalizeHomeAssistantMode (ha_ConnectionMode item) = ''integration'')
         ''native pairing is only available for integration mode'')
     (h_bind (prepareHomeAssistantPairing api item) (\<lambda>(code, item).
      h_bind (save_home api item) (\<lambda>item. h_return (pairing_answer item code))))))"

text \<open>The bridge pairs itself with a code, \<open>id.code\<close>, and gets the secret of its later requests.\<close>

definition pairing_error :: fail where
  "pairing_error = Err ''invalid home assistant pairing code''"

definition PairNativeHomeAssistant :: "'w automation_api \<Rightarrow> (string \<times> string) res \<Rightarrow>
    ('w automation_state, nat \<times> string \<times> string) handler" where
  "PairNativeHomeAssistant api bound =
     h_bind (h_ShouldBind bound) (\<lambda>(pairingCode, webhookURL).
     case splitn_at (CHR ''.'') 2 (strings_TrimSpace pairingCode) of
       [number, code] \<Rightarrow>
         (case ParseUint number of
            Inl _ \<Rightarrow> aborted 400 pairing_error
          | Inr i \<Rightarrow>
              if i = 0 then aborted 400 pairing_error
              else
                h_bind (successOrAbort 500 (GetHomeAssistantIntegrationByID (au_crypto api) i)) (\<lambda>item.
                case item of None \<Rightarrow> aborted 404 (Err ''home assistant pairing request not found'') | Some item \<Rightarrow>
                if normalizeHomeAssistantMode (ha_ConnectionMode item) \<noteq> ''integration''
                then aborted 404 (Err ''home assistant pairing request not found'')
                else h_bind (h_now api) (\<lambda>now.
                if (case ha_PairingExpiresAt item of None \<Rightarrow> True | Some e \<Rightarrow> now > e) \<or> ha_PairingCodeHash item = ''''
                then aborted 410 (Err ''home assistant pairing code has expired'')
                else case hex_DecodeString (ha_PairingCodeHash item) of
                  Inl _ \<Rightarrow> aborted 500 (Err ''home assistant pairing state is invalid'')
                | Inr expected \<Rightarrow>
                    if expected \<noteq> sha256 (au_crypto api) code then aborted 401 pairing_error
                    else
                      h_then (require (validHTTPURL webhookURL) ''home assistant webhook URL must use http or https'')
                      (h_bind (generateIntegrationSecret api) (\<lambda>secret.
                       h_bind (h_now api) (\<lambda>now.
                       h_bind (save_home api (item\<lparr>ha_NativeWebhookURL := strings_TrimSpace webhookURL,
                           ha_NativeSecret := secret, ha_PairingCodeHash := '''', ha_PairingExpiresAt := None,
                           ha_Status := ''connected'', ha_LastConnectedAt := Some now, ha_LastError := '''',
                           ha_LastErrorAt := None\<rparr>)) (\<lambda>item.
                         h_return (ha_ID item, secret,
                           ''/integrations/home-assistant/native/'' @ show_nat (ha_ID item) @ ''/event''))))))))
     | _ \<Rightarrow> aborted 400 pairing_error)"

definition validHomeAssistantNativeAuthorization :: "string \<Rightarrow> string \<Rightarrow> bool" where
  "validHomeAssistantNativeAuthorization authorization secret =
     (let authorization = strings_TrimSpace authorization in
      if \<not> strings_HasPrefix authorization ''Bearer '' \<or> strings_TrimSpace secret = '''' then False
      else
        let provided = strings_TrimSpace (strings_TrimPrefix authorization ''Bearer '')
        in provided \<noteq> '''' \<and> provided = secret)"

text \<open>A request of the bridge: its connection, in integration mode, and its credential.\<close>

definition bridge_credential :: "home_assistant_integration \<Rightarrow> ('w, unit) handler" where
  "bridge_credential item s =
     (if validHomeAssistantNativeAuthorization (rq_header (ctx_request s) ''Authorization'') (ha_NativeSecret item)
      then h_return () s else aborted 401 (Err ''invalid home assistant native bridge credential'') s)"

definition bridge_of :: "'w automation_api \<Rightarrow> bool \<Rightarrow> nat \<Rightarrow> ('w automation_state, home_assistant_integration) handler" where
  "bridge_of api enabled i =
     h_bind (found ''home assistant native bridge not found'' (GetHomeAssistantIntegrationByID (au_crypto api) i)) (\<lambda>item.
     if normalizeHomeAssistantMode (ha_ConnectionMode item) \<noteq> ''integration'' \<or> enabled \<and> \<not> ha_Enabled item
     then aborted 404 (Err ''home assistant native bridge not found'')
     else h_then (bridge_credential item) (h_return item))"

definition ReceiveNativeHomeAssistantEvent :: "'w automation_api \<Rightarrow> string \<Rightarrow> (string \<times> json_object) res \<Rightarrow>
    ('w automation_state, bool) handler" where
  "ReceiveNativeHomeAssistantEvent api param bound = withID param (\<lambda>i.
     h_bind (bridge_of api True i) (\<lambda>_.
     h_bind (h_ShouldBind bound) (\<lambda>(eventType, data).
       engine_call 500 (au_ReceiveHomeAssistantEvent api i eventType data))))"

definition RevokeNativeHomeAssistant :: "'w automation_api \<Rightarrow> string \<Rightarrow> ('w automation_state, unit) handler" where
  "RevokeNativeHomeAssistant api param = withID param (\<lambda>i.
     h_bind (bridge_of api False i) (\<lambda>item.
     h_bind (save_home api (clearHomeAssistantNativePairing item)) (\<lambda>_. ReloadIntegrations api)))"

definition SendHomeAssistantEvent :: "'w automation_api \<Rightarrow> string \<Rightarrow> (string \<times> json_object) res \<Rightarrow>
    ('w automation_state, unit) handler" where
  "SendHomeAssistantEvent api param bound = withID param (\<lambda>i.
     h_bind (h_ShouldBind bound) (\<lambda>(eventType, data). engine_call 502 (au_SendHomeAssistantEvent api i eventType data)))"

definition DeleteHomeAssistant :: "'w automation_api \<Rightarrow> string \<Rightarrow> ('w automation_state, unit) handler" where
  "DeleteHomeAssistant api param = withID param (\<lambda>i.
     h_then (successOrAbort 500 (DeleteHomeAssistantIntegration i)) (ReloadIntegrations api))"

section \<open>Schedules\<close>

text \<open>\<open>time.Parse("2006-01-02")\<close> succeeds.\<close>

definition date_ok :: "string \<Rightarrow> bool" where
  "date_ok s =
     (length s = 10 \<and> s ! 4 = CHR ''-'' \<and> s ! 7 = CHR ''-'' \<and>
      list_all decimal (take 4 s) \<and> list_all decimal (take 2 (drop 5 s)) \<and> list_all decimal (drop 8 s) \<and>
      (let y = read_nat (take 4 s); m = read_nat (take 2 (drop 5 s)); d = read_nat (drop 8 s);
           leap = (y mod 4 = 0 \<and> (y mod 100 \<noteq> 0 \<or> y mod 400 = 0)) in
       1 \<le> m \<and> m \<le> 12 \<and> 1 \<le> d \<and>
       d \<le> (if m = 2 then (if leap then 29 else 28) else if m \<in> {4, 6, 9, 11} then 30 else 31)))"

definition schedule_type_ok :: "zone_env \<Rightarrow> scheduled_notification \<Rightarrow> unit res" where
  "schedule_type_ok z item =
     (let minutes = (0 \<le> sch_Minute item \<and> sch_Minute item \<le> 59); hours = (0 \<le> sch_Hour item \<and> sch_Hour item \<le> 23);
          kind = sch_ScheduleType item in
      if kind = ''once'' then
        (if sch_RunAt item = None then Inl (Err ''one-time schedules require a date and time'') else Inr ())
      else if kind = ''hourly'' then (if minutes then Inr () else Inl (Err ''minute must be between 0 and 59''))
      else if kind = ''daily'' then (if hours \<and> minutes then Inr () else Inl (Err ''invalid daily time''))
      else if kind = ''weekly'' then
        (if 0 \<le> sch_Weekday item \<and> sch_Weekday item \<le> 6 \<and> hours \<and> minutes then Inr ()
         else Inl (Err ''invalid weekly schedule''))
      else if kind = ''cron'' then
        (if strings_TrimSpace (sch_CronExpression item) = '''' then Inl (Err ''cron schedules require an expression'')
         else if cron_Parse z (sch_CronExpression item) = None then Inl (Err ''invalid cron expression'') else Inr ())
      else Inl (Err ''schedule type must be once, hourly, daily, weekly, or cron''))"

definition validateSchedule :: "zone_env \<Rightarrow> scheduled_notification \<Rightarrow> scheduled_notification res" where
  "validateSchedule z item =
     res_bind (schedule_type_ok z item) (\<lambda>_.
     if LoadLocation z (valueOr (sch_Timezone item) ''UTC'') = None then Inl (Err ''invalid timezone'')
     else if sch_MaxRuns item < 0 then Inl (Err ''maximum runs cannot be negative'')
     else
       let item = (if strings_TrimSpace (sch_MisfirePolicy item) = '''' then item\<lparr>sch_MisfirePolicy := ''send''\<rparr> else item) in
       if sch_MisfirePolicy item \<noteq> ''send'' \<and> sch_MisfirePolicy item \<noteq> ''skip''
       then Inl (Err ''misfire policy must be send or skip'')
       else if (case (sch_EndAt item, sch_RunAt item) of (Some e, Some r) \<Rightarrow> sch_ScheduleType item = ''once'' \<and> r > e | _ \<Rightarrow> False)
       then Inl (Err ''one-time schedule is after the configured end date'')
       else case find (\<lambda>raw. \<not> date_ok (strings_TrimSpace raw)) (strings_FieldsFunc (sch_ExcludedDates item) address_separator) of
         Some raw \<Rightarrow> Inl (Err (''invalid excluded date '' @ quoted raw @ ''; use YYYY-MM-DD''))
       | None \<Rightarrow> Inr item)"

text \<open>The parameters are a schedule without identifier, history and times.\<close>

definition scheduleFromParams :: "scheduled_notification \<Rightarrow> scheduled_notification" where
  "scheduleFromParams p =
     (let misfire = strings_ToLower (strings_TrimSpace (sch_MisfirePolicy p)) in
      p\<lparr>sch_ID := 0, sch_ScheduleType := strings_ToLower (strings_TrimSpace (sch_ScheduleType p)),
        sch_CronExpression := strings_TrimSpace (sch_CronExpression p),
        sch_ExcludedDates := strings_TrimSpace (sch_ExcludedDates p), sch_Timezone := valueOr (sch_Timezone p) ''UTC'',
        sch_MisfirePolicy := (if misfire = '''' then ''send'' else misfire), sch_RunCount := 0, sch_LastRunAt := None,
        sch_NextRunAt := None, sch_LastStatus := '''', sch_LastError := '''', sch_CreatedAt := zero_time,
        sch_UpdatedAt := zero_time\<rparr>)"

definition planned :: "'w automation_api \<Rightarrow> scheduled_notification \<Rightarrow> ('w automation_state, scheduled_notification) handler" where
  "planned api item =
     (case validateSchedule (au_zones api) item of
        Inl e \<Rightarrow> aborted 400 e
      | Inr item \<Rightarrow>
          h_bind (h_now api) (\<lambda>now.
          let item = item\<lparr>sch_NextRunAt := NextScheduleRun (au_zones api) item now\<rparr> in
          h_then (require (\<not> (sch_Enabled item \<and> sch_NextRunAt item = None)) ''schedule does not have a future run time'')
            (successOrAbort 500 (db_SaveScheduledNotification item))))"

definition GetSchedules :: "('w, scheduled_notification list) handler" where
  "GetSchedules = successOrAbort 500 GetScheduledNotifications"

definition CreateSchedule :: "'w automation_api \<Rightarrow> scheduled_notification res \<Rightarrow>
    ('w automation_state, scheduled_notification) handler" where
  "CreateSchedule api bound =
     h_bind (h_ShouldBind bound) (\<lambda>p.
     h_then (channelExists (sch_ApplicationID p)) (planned api (scheduleFromParams p)))"

definition UpdateSchedule :: "'w automation_api \<Rightarrow> string \<Rightarrow> scheduled_notification res \<Rightarrow>
    ('w automation_state, scheduled_notification) handler" where
  "UpdateSchedule api param bound = withID param (\<lambda>i.
     h_bind (found ''schedule not found'' (GetScheduledNotificationByID i)) (\<lambda>item.
     h_bind (h_ShouldBind bound) (\<lambda>p.
     h_then (channelExists (sch_ApplicationID p))
       (planned api ((scheduleFromParams p)\<lparr>sch_ID := sch_ID item, sch_CreatedAt := sch_CreatedAt item\<rparr>)))))"

definition GetScheduleRuns :: "string \<Rightarrow> string \<Rightarrow> ('w, scheduled_notification_run list) handler" where
  "GetScheduleRuns param raw = withID param (\<lambda>i.
     h_bind (found ''schedule not found'' (GetScheduledNotificationByID i)) (\<lambda>_.
       successOrAbort 500 (GetScheduledNotificationRuns i (query_limit 50 raw))))"

definition DeleteSchedule :: "string \<Rightarrow> ('w, unit) handler" where
  "DeleteSchedule param = withID param (\<lambda>i. successOrAbort 500 (DeleteScheduledNotification i))"

section \<open>Quiet hours and digests\<close>

definition default_quiet :: "nat \<Rightarrow> quiet_hours_policy" where
  "default_quiet u = \<lparr>qh_ID = 0, qh_UserID = u, qh_Enabled = False, qh_StartMinute = 1320, qh_EndMinute = 420,
     qh_Timezone = ''UTC'', qh_AllowPriority = 8, qh_Mode = ''suppress'', qh_CreatedAt = zero_time, qh_UpdatedAt = zero_time\<rparr>"

definition GetQuietHours :: "('w, quiet_hours_policy) handler" where
  "GetQuietHours =
     h_bind h_user (\<lambda>userID.
     h_bind (successOrAbort 500 (db_GetQuietHoursPolicy userID)) (\<lambda>item.
       h_return (case item of None \<Rightarrow> default_quiet userID | Some item \<Rightarrow> item)))"

text \<open>The parameters are a policy of which the handler sets owner, identifier and times.\<close>

definition SaveQuietHours :: "'w automation_api \<Rightarrow> quiet_hours_policy res \<Rightarrow> ('w automation_state, quiet_hours_policy) handler" where
  "SaveQuietHours api bound =
     h_bind (h_ShouldBind bound) (\<lambda>p.
     h_then (require (0 \<le> qh_StartMinute p \<and> qh_StartMinute p \<le> 1439 \<and> 0 \<le> qh_EndMinute p \<and> qh_EndMinute p \<le> 1439)
         ''quiet hours must be valid times of day'')
     (h_then (require (LoadLocation (au_zones api) (valueOr (qh_Timezone p) ''UTC'') \<noteq> None) ''invalid timezone'')
       (let mode = strings_ToLower (strings_TrimSpace (qh_Mode p)); mode = (if mode = '''' then ''suppress'' else mode) in
        h_then (require (mode = ''suppress'' \<or> mode = ''defer'') ''quiet-hours mode must be suppress or defer'')
        (h_bind h_user (\<lambda>userID.
         successOrAbort 500 (SaveQuietHoursPolicy (p\<lparr>qh_ID := 0, qh_UserID := userID,
           qh_Timezone := valueOr (qh_Timezone p) ''UTC'', qh_Mode := mode, qh_CreatedAt := zero_time,
           qh_UpdatedAt := zero_time\<rparr>)))))))"

definition default_digest :: "nat \<Rightarrow> digest_policy" where
  "default_digest u = \<lparr>dp_ID = 0, dp_UserID = u, dp_Enabled = False, dp_IntervalMinutes = 60, dp_ImmediatePriority = 8,
     dp_LastSentAt = None, dp_NextRunAt = None, dp_CreatedAt = zero_time, dp_UpdatedAt = zero_time\<rparr>"

definition GetDigest :: "('w, digest_policy) handler" where
  "GetDigest =
     h_bind h_user (\<lambda>userID.
     h_bind (successOrAbort 500 (db_GetDigestPolicy userID)) (\<lambda>item.
       h_return (case item of None \<Rightarrow> default_digest userID | Some item \<Rightarrow> item)))"

text \<open>The parameters: enabled or not, the interval and the immediate priority.\<close>

definition SaveDigest :: "'w automation_api \<Rightarrow> (bool \<times> int \<times> int) res \<Rightarrow> ('w automation_state, digest_policy) handler" where
  "SaveDigest api bound =
     h_bind (h_ShouldBind bound) (\<lambda>(enabled, intervalMinutes, immediatePriority).
     h_then (require (15 \<le> intervalMinutes \<and> intervalMinutes \<le> 10080) ''digest interval must be between 15 minutes and 7 days'')
     (h_bind h_user (\<lambda>userID.
      h_bind (successOrAbort 500 (db_GetDigestPolicy userID)) (\<lambda>existing.
      let item = (default_digest userID)\<lparr>dp_Enabled := enabled, dp_IntervalMinutes := intervalMinutes,
            dp_ImmediatePriority := immediatePriority\<rparr>;
          item = (case existing of None \<Rightarrow> item | Some e \<Rightarrow>
            item\<lparr>dp_ID := dp_ID e, dp_CreatedAt := dp_CreatedAt e, dp_LastSentAt := dp_LastSentAt e\<rparr>) in
      h_bind (if enabled
        then h_bind (h_now api) (\<lambda>now. h_return (item\<lparr>dp_NextRunAt := Some (now + intervalMinutes * minute)\<rparr>))
        else h_then (successOrAbort 500 (db_DeleteDigestItems userID)) (h_return item)) (\<lambda>item.
        successOrAbort 500 (db_SaveDigestPolicy item))))))"

section \<open>Escalations\<close>

definition GetEscalations :: "('w, escalation_rule list) handler" where
  "GetEscalations = successOrAbort 500 GetEscalationRules"

text \<open>The kind and the identifier of the target.\<close>

definition validateEscalationTarget :: "escalation_rule \<Rightarrow> ('w, string \<times> nat) handler" where
  "validateEscalationTarget p =
     (let kind = strings_ToLower (strings_TrimSpace (er_TargetType p));
          kind = (if kind = '''' then ''channel'' else kind);
          target = (if er_TargetID p = 0 then er_TargetApplicationID p else er_TargetID p) in
      h_then (require (target \<noteq> 0) ''escalation target is required'')
      (if kind = ''channel'' then
         h_then (require (er_SourceApplicationID p \<noteq> target) ''source and target Channels must be different'')
           (h_then (channelExists target) (h_return (kind, target)))
       else if kind = ''user'' then
         h_bind (successOrAbort 500 (db_GetUserByID target)) (\<lambda>user.
         h_then (require (user \<noteq> None) ''escalation user not found'') (h_return (kind, target)))
       else if kind = ''group'' then
         h_bind (successOrAbort 500 (GetUserGroupByID target)) (\<lambda>group.
         h_then (require (group \<noteq> None) ''escalation Group not found'') (h_return (kind, target)))
       else aborted 400 (Err ''escalation target type must be channel, user, or group'')))"

definition fill_rule :: "escalation_rule \<Rightarrow> string \<Rightarrow> nat \<Rightarrow> escalation_rule \<Rightarrow> escalation_rule" where
  "fill_rule p kind target item = item\<lparr>er_Name := er_Name p, er_SourceApplicationID := er_SourceApplicationID p,
     er_TargetType := kind, er_TargetID := target, er_TargetApplicationID := (if kind = ''channel'' then target else 0),
     er_MinPriority := er_MinPriority p, er_DelayMinutes := er_DelayMinutes p, er_RepeatMinutes := er_RepeatMinutes p,
     er_MaxRepeats := er_MaxRepeats p, er_Enabled := er_Enabled p\<rparr>"

definition new_rule :: escalation_rule where
  "new_rule = \<lparr>er_ID = 0, er_Name = '''', er_SourceApplicationID = 0, er_TargetApplicationID = 0, er_TargetType = '''',
     er_TargetID = 0, er_MinPriority = 0, er_DelayMinutes = 0, er_RepeatMinutes = 0, er_MaxRepeats = 0,
     er_Enabled = False, er_CreatedAt = zero_time, er_UpdatedAt = zero_time\<rparr>"

definition store_rule :: "escalation_rule \<Rightarrow> escalation_rule \<Rightarrow> ('w, escalation_rule) handler" where
  "store_rule p item =
     h_then (channelExists (er_SourceApplicationID p))
     (h_bind (validateEscalationTarget p) (\<lambda>(kind, target).
      h_then (require (0 \<le> er_RepeatMinutes p \<and> er_RepeatMinutes p \<le> 10080 \<and> 0 \<le> er_MaxRepeats p \<and> er_MaxRepeats p \<le> 1000)
          ''invalid escalation repeat settings'')
        (successOrAbort 500 (SaveEscalationRule (fill_rule p kind target item)))))"

definition CreateEscalation :: "escalation_rule res \<Rightarrow> ('w, escalation_rule) handler" where
  "CreateEscalation bound = h_bind (h_ShouldBind bound) (\<lambda>p. store_rule p new_rule)"

definition UpdateEscalation :: "string \<Rightarrow> escalation_rule res \<Rightarrow> ('w, escalation_rule) handler" where
  "UpdateEscalation param bound = withID param (\<lambda>i.
     h_bind (found ''escalation not found'' (db_GetEscalationRuleByID i)) (\<lambda>item.
     h_bind (h_ShouldBind bound) (\<lambda>p. store_rule p item)))"

definition DeleteEscalation :: "string \<Rightarrow> ('w, unit) handler" where
  "DeleteEscalation param = withID param (\<lambda>i. successOrAbort 500 (DeleteEscalationRule i))"

section \<open>Acknowledgements\<close>

definition canAccessMessage :: "nat \<Rightarrow> ('w, unit) handler" where
  "canAccessMessage i =
     h_bind (found ''message not found'' (db_GetMessageByID i)) (\<lambda>msg.
     h_bind h_user (\<lambda>userID.
     h_bind (found ''message not found'' (db_GetApplicationMembership (msg_ApplicationID msg) userID)) (\<lambda>_. h_return ())))"

definition GetAcknowledgement :: "string \<Rightarrow> ('w, bool \<times> acknowledgement_view list) handler" where
  "GetAcknowledgement param = withID param (\<lambda>i.
     h_then (canAccessMessage i)
     (h_bind h_user (\<lambda>userID.
      h_bind (successOrAbort 500 (db_IsMessageAcknowledgedByUser userID i)) (\<lambda>value.
      h_bind (successOrAbort 500 (GetMessageAcknowledgements i)) (\<lambda>history. h_return (value, history))))))"

definition acknowledge :: "'w automation_api \<Rightarrow> bool \<Rightarrow> string \<Rightarrow> ('w automation_state, bool) handler" where
  "acknowledge api value param = withID param (\<lambda>i.
     h_then (canAccessMessage i)
     (h_bind h_user (\<lambda>userID.
      h_bind (h_now api) (\<lambda>now.
      h_then (successOrAbort 500 (SetMessageAcknowledgement userID i value now)) (h_return value)))))"

definition AcknowledgeMessage :: "'w automation_api \<Rightarrow> string \<Rightarrow> ('w automation_state, bool) handler" where
  "AcknowledgeMessage api = acknowledge api True"

definition UnacknowledgeMessage :: "'w automation_api \<Rightarrow> string \<Rightarrow> ('w automation_state, bool) handler" where
  "UnacknowledgeMessage api = acknowledge api False"

section \<open>Requests\<close>

text \<open>The requests that \<open>src/router/router.go\<close> passes to these handlers, without their answers.\<close>

datatype automation_request =
    ListWebhooks | PostWebhook "webhook_view res" | PutWebhook string "webhook_view res" | NewWebhookSecret string
  | TryWebhook string | DropWebhook string | ListDeliveries string string | InboundWebhook webhook_request
  | ListMQTT | PostMQTT "mqtt_params res" | PutMQTT string "mqtt_params res" | TryMQTT string | DropMQTT string
  | ListHomes | PostHome "home_params res" | PutHome string "home_params res" | NewPairing string
  | Pair "(string \<times> string) res" | HomeEvent string "(string \<times> json_object) res" | RevokeHome string
  | SendHome string "(string \<times> json_object) res" | DropHome string
  | ListSchedules | PostSchedule "scheduled_notification res" | PutSchedule string "scheduled_notification res"
  | ListRuns string string | DropSchedule string
  | ReadQuiet | PutQuiet "quiet_hours_policy res" | ReadDigest | PutDigest "(bool \<times> int \<times> int) res"
  | ListEscalations | PostEscalation "escalation_rule res" | PutEscalation string "escalation_rule res" | DropEscalation string
  | ReadAcknowledgement string | Acknowledge string | Unacknowledge string

definition run_handler :: "('w, 'a) handler \<Rightarrow> 'w server gin \<Rightarrow> 'w server gin" where
  "run_handler m s = snd (m s)"

fun serve_automation :: "'w automation_api \<Rightarrow> automation_request \<Rightarrow> 'w automation_state server gin \<Rightarrow>
    'w automation_state server gin" where
  "serve_automation api ListWebhooks = run_handler (GetWebhookRoutes api)"
| "serve_automation api (PostWebhook b) = run_handler (CreateWebhookRoute api b)"
| "serve_automation api (PutWebhook p b) = run_handler (UpdateWebhookRoute api p b)"
| "serve_automation api (NewWebhookSecret p) = run_handler (RegenerateWebhookSecret api p)"
| "serve_automation api (TryWebhook p) = run_handler (TestWebhookRoute api p)"
| "serve_automation api (DropWebhook p) = run_handler (DeleteWebhookRoute p)"
| "serve_automation api (ListDeliveries p l) = run_handler (GetWebhookDeliveries api p l)"
| "serve_automation api (InboundWebhook q) = run_handler (ReceiveWebhook api q)"
| "serve_automation api ListMQTT = run_handler (GetMQTT api)"
| "serve_automation api (PostMQTT b) = run_handler (CreateMQTT api b)"
| "serve_automation api (PutMQTT p b) = run_handler (UpdateMQTT api p b)"
| "serve_automation api (TryMQTT p) = run_handler (TestMQTT api p)"
| "serve_automation api (DropMQTT p) = run_handler (DeleteMQTT api p)"
| "serve_automation api ListHomes = run_handler (GetHomeAssistant api)"
| "serve_automation api (PostHome b) = run_handler (CreateHomeAssistant api b)"
| "serve_automation api (PutHome p b) = run_handler (UpdateHomeAssistant api p b)"
| "serve_automation api (NewPairing p) = run_handler (RegenerateHomeAssistantPairing api p)"
| "serve_automation api (Pair b) = run_handler (PairNativeHomeAssistant api b)"
| "serve_automation api (HomeEvent p b) = run_handler (ReceiveNativeHomeAssistantEvent api p b)"
| "serve_automation api (RevokeHome p) = run_handler (RevokeNativeHomeAssistant api p)"
| "serve_automation api (SendHome p b) = run_handler (SendHomeAssistantEvent api p b)"
| "serve_automation api (DropHome p) = run_handler (DeleteHomeAssistant api p)"
| "serve_automation api ListSchedules = run_handler GetSchedules"
| "serve_automation api (PostSchedule b) = run_handler (CreateSchedule api b)"
| "serve_automation api (PutSchedule p b) = run_handler (UpdateSchedule api p b)"
| "serve_automation api (ListRuns p l) = run_handler (GetScheduleRuns p l)"
| "serve_automation api (DropSchedule p) = run_handler (DeleteSchedule p)"
| "serve_automation api ReadQuiet = run_handler GetQuietHours"
| "serve_automation api (PutQuiet b) = run_handler (SaveQuietHours api b)"
| "serve_automation api ReadDigest = run_handler GetDigest"
| "serve_automation api (PutDigest b) = run_handler (SaveDigest api b)"
| "serve_automation api ListEscalations = run_handler GetEscalations"
| "serve_automation api (PostEscalation b) = run_handler (CreateEscalation b)"
| "serve_automation api (PutEscalation p b) = run_handler (UpdateEscalation p b)"
| "serve_automation api (DropEscalation p) = run_handler (DeleteEscalation p)"
| "serve_automation api (ReadAcknowledgement p) = run_handler (GetAcknowledgement p)"
| "serve_automation api (Acknowledge p) = run_handler (AcknowledgeMessage api p)"
| "serve_automation api (Unacknowledge p) = run_handler (UnacknowledgeMessage api p)"

end
