(* ===== verification/Webhook_Laws.thy ===== *)
theory Webhook_Laws
  imports Webhook
begin

text \<open>
  Who can make the server publish through a webhook: what an admitted request has passed, that a signed request
  is published once, and how far the rendering of payloads and the freshness of timestamps go.
\<close>

section \<open>Steps of the handler\<close>

lemma refuse_None [simp]: "fst (refuse q item st d c e s) = None"
  by (simp add: refuse_def h_then_def h_bind_def record_delivery_def h_ignore_def)

lemma refuse_Some [simp]: "refuse q item st d c e s = (Some x, s') \<longleftrightarrow> False"
  using refuse_None [of q item st d c e s] by (metis fst_conv option.distinct(1))

abbreviation cache :: "'w automation_state server gin \<Rightarrow> ReplayCache option" where
  "cache s \<equiv> as_replay (srv_world (ctx_world s))"

abbreviation limiter :: "'w automation_state server gin \<Rightarrow> limiter_map option" where
  "limiter s \<equiv> as_limiter (srv_world (ctx_world s))"

lemma limit_webhook_Some:
  assumes "limit_webhook q item s = (Some u, s')"
  shows "srv_tables s' = srv_tables s \<and> cache s' = cache s \<and>
    (\<forall>es. limiter s = Some es \<longrightarrow> fst (fst (DynamicAllow (wq_limitNow q) (show_nat (wr_ID item) @ ''|'' @ wq_clientIP q)
       (normalizedWebhookRateLimit (wr_RateLimitPerMinute item)) minute es)))"
  using assms by (auto simp: limit_webhook_def Let_def split: option.splits prod.splits if_splits)

lemma read_body_Some:
  assumes "read_body q item s = (Some body, s')"
  shows "s' = s \<and> length body \<le> maxWebhookBytes \<and> wq_body q = Inr body"
  using assms by (auto simp: read_body_def Let_def split: sum.splits if_splits)

lemma check_replay_Some:
  assumes "check_replay api q item s = (Some u, s')"
  shows "(cache s = None \<longrightarrow> s' = s) \<and> (\<forall>c. cache s = Some c \<longrightarrow>
    fst (Remember (wq_replayNow q) (replay_key api q) (10 * minute) c) \<and>
    cache s' = Some (snd (Remember (wq_replayNow q) (replay_key api q) (10 * minute) c)))"
  using assms by (auto simp: check_replay_def Let_def split: option.splits prod.splits if_splits)

abbreviation signed :: "'w automation_api \<Rightarrow> webhook_request \<Rightarrow> bytes \<Rightarrow> bool" where
  "signed api q body \<equiv> validWebhookSignature api (strings_TrimSpace (wq_secret q)) (strings_TrimSpace (wq_timestamp q))
     (strings_TrimSpace (wq_signature q)) body (wq_signNow q)"

lemma check_signature_Some:
  assumes "check_signature api q item body s = (Some u, s')" and "wr_RequireSignature item"
  shows "signed api q body \<and> check_replay api q item s = (Some u, s')"
  using assms by (auto simp: check_signature_def split: if_splits)

lemma query_one_Some:
  assumes "query_one f q s = (Inr (Some y), s')"
  shows "\<exists>x. q (tables s) = Some x \<and> f x = Inr y \<and> tables s' = tables s"
proof -
  obtain row s1 where "query q s = (Inr row, s1)" and l: "db_lift (res_option f row) s1 = (Inr (Some y), s')"
    using assms unfolding query_one_def db_bind_Inr by blast
  then have "row = q (tables s) \<and> tables s1 = tables s" using query_Inr by metis
  then show ?thesis using l by (auto simp: db_lift_def res_option_def res_bind_Inr_iff split: option.splits)
qed

text \<open>What a request has passed when it is admitted.\<close>

lemma admit_webhook_Some:
  assumes "admit_webhook api q s = (Some (Some (item, title, message, priority)), s')"
  obtains row body s0 s1 s2 where
    "row \<in> set (webhooks (srv_tables s))" "wr_Enabled row"
    "wr_SecretHash row = HashSecret (au_crypto api) (strings_TrimSpace (wq_secret q))"
    "plain_route (au_crypto api) row = Inr item"
    "webhookIPAllowed (wq_clientIP q) (wr_AllowedCIDRs item)"
    "limit_webhook q item s0 = (Some (), s1)" "srv_world (ctx_world s0) = srv_world (ctx_world s)"
    "read_body q item s1 = (Some body, s1)" "check_signature api q item body s1 = (Some (), s')"
    "matches api item (au_Unmarshal api body)"
    "(title, message, priority) = message_fields api item body (au_Unmarshal api body)"
    "strings_TrimSpace message \<noteq> ''''"
proof -
  obtain found s0 where f: "successOrAbort 500 (GetWebhookRouteBySecret (au_crypto api) (strings_TrimSpace (wq_secret q))) s = (Some found, s0)"
    and r: "(case found of None \<Rightarrow> aborted 404 (Err '''') | Some item \<Rightarrow>
     if \<not> webhookIPAllowed (wq_clientIP q) (wr_AllowedCIDRs item)
     then refuse q item ''rejected'' ''source IP is not allowed'' 403 (Err '''')
     else h_then (limit_webhook q item)
       (h_bind (read_body q item) (\<lambda>body.
        h_then (check_signature api q item body)
          (let parsed = au_Unmarshal api body in
           if \<not> matches api item parsed
           then h_then (record_delivery q item ''ignored''
               (case parsed of Inl _ \<Rightarrow> ''conditional rule requires a JSON payload''
                | Inr _ \<Rightarrow> ''conditional routing rule did not match'') 0) (h_return None)
           else
             let (title, message, priority) = message_fields api item body parsed in
             if strings_TrimSpace message = ''''
             then refuse q item ''failed'' ''payload did not contain a message'' 400
               (Err ''webhook payload did not contain a message'')
             else h_return (Some (item, title, message, priority)))))) s0 = (Some (Some (item, title, message, priority)), s')"
    using assms unfolding admit_webhook_def h_bind_Some by blast
  obtain it where it: "found = Some it" using r by (cases found) auto
  have allowed: "webhookIPAllowed (wq_clientIP q) (wr_AllowedCIDRs it)"
    using r by (simp add: it split: if_splits)
  obtain s1 body s1' s2 where l: "limit_webhook q it s0 = (Some (), s1)" and b: "read_body q it s1 = (Some body, s1')"
    and c: "check_signature api q it body s1' = (Some (), s2)"
    and fin: "(let parsed = au_Unmarshal api body in
           if \<not> matches api it parsed
           then h_then (record_delivery q it ''ignored''
               (case parsed of Inl _ \<Rightarrow> ''conditional rule requires a JSON payload''
                | Inr _ \<Rightarrow> ''conditional routing rule did not match'') 0) (h_return None)
           else
             let (title, message, priority) = message_fields api it body parsed in
             if strings_TrimSpace message = ''''
             then refuse q it ''failed'' ''payload did not contain a message'' 400
               (Err ''webhook payload did not contain a message'')
             else h_return (Some (it, title, message, priority))) s2 = (Some (Some (item, title, message, priority)), s')"
    using r allowed by (simp only: it option.case not_not if_True if_False not_True_eq_False simp_thms h_then_Some h_bind_Some) blast
  have m: "matches api it (au_Unmarshal api body)"
    using fin by (auto simp: Let_def h_then_Some split: if_splits)
  obtain ti me pr where mf: "message_fields api it body (au_Unmarshal api body) = (ti, me, pr)" by (metis prod_cases3)
  have e: "it = item" "ti = title" "me = message" "pr = priority" "s2 = s'" "strings_TrimSpace me \<noteq> ''''"
    using fin m by (simp_all add: Let_def mf split: if_splits)
  have "srv_world (ctx_world s0) = srv_world (ctx_world s)" and
    g: "GetWebhookRouteBySecret (au_crypto api) (strings_TrimSpace (wq_secret q)) (srv_db (ctx_world s)) = (Inr (Some item), srv_db (ctx_world s0))"
    using successOrAbort_Some [OF f] by (auto simp: it e)
  moreover obtain row where "find (\<lambda>r. wr_SecretHash r = HashSecret (au_crypto api) (strings_TrimSpace (wq_secret q)) \<and> wr_Enabled r)
      (sort_key wr_ID (webhooks (srv_tables s))) = Some row" "plain_route (au_crypto api) row = Inr item"
    using query_one_Some [OF g [unfolded GetWebhookRouteBySecret_def]] by blast
  moreover from this(1) have "row \<in> set (webhooks (srv_tables s)) \<and> wr_Enabled row \<and>
      wr_SecretHash row = HashSecret (au_crypto api) (strings_TrimSpace (wq_secret q))"
    by (auto dest!: find_SomeD)
  moreover have "s1' = s1" using read_body_Some [OF b] by simp
  ultimately show thesis using that allowed l b c m mf e by (metis (no_types, lifting))
qed

section \<open>The replay cache across requests\<close>

definition remembers :: "time \<Rightarrow> string \<Rightarrow> 'w automation_state server gin \<Rightarrow> bool" where
  "remembers e k s \<longleftrightarrow> (\<exists>c. cache s = Some c \<and> live_until e k c)"

text \<open>Handlers that keep an entry of the cache.\<close>

definition keeps_entry :: "time \<Rightarrow> string \<Rightarrow> ('w automation_state, 'a) handler \<Rightarrow> bool" where
  "keeps_entry e k m \<longleftrightarrow> (\<forall>s. remembers e k s \<longrightarrow> remembers e k (snd (m s)))"

lemma keeps_entryD: "keeps_entry e k m \<Longrightarrow> remembers e k s \<Longrightarrow> remembers e k (snd (m s))"
  by (simp add: keeps_entry_def)

named_theorems entry_rules \<open>handlers that keep an entry of the replay cache\<close>

lemma keeps_entry_simple [entry_rules]:
  "keeps_entry e k (h_return x)" "keeps_entry e k (aborted c f)" "keeps_entry e k (h_ignore m)"
  "keeps_entry e k (successOrAbort c m)"
  by (auto simp: keeps_entry_def remembers_def h_ignore_def successOrAbort_def split: prod.splits sum.splits)

lemma keeps_entry_bind [entry_rules]:
  "keeps_entry e k m \<Longrightarrow> (\<And>x. keeps_entry e k (f x)) \<Longrightarrow> keeps_entry e k (h_bind m f)"
  unfolding keeps_entry_def h_bind_def by (auto split: prod.splits option.splits)

lemma keeps_entry_then [entry_rules]: "keeps_entry e k m \<Longrightarrow> keeps_entry e k n \<Longrightarrow> keeps_entry e k (h_then m n)"
  unfolding h_then_def by (rule keeps_entry_bind)

lemma keeps_entry_if [entry_rules]: "keeps_entry e k m \<Longrightarrow> keeps_entry e k n \<Longrightarrow> keeps_entry e k (if b then m else n)"
  by simp

lemma keeps_entry_refuse [entry_rules]: "keeps_entry e k (refuse q item st d c f)"
  unfolding refuse_def record_delivery_def by (intro entry_rules)

lemma keeps_entry_record [entry_rules]: "keeps_entry e k (record_delivery q item st d i)"
  unfolding record_delivery_def by (intro entry_rules)

lemma keeps_entry_engine [entry_rules]: "keeps_entry e k (engine_call c f)"
  by (auto simp: keeps_entry_def remembers_def engine_call_def h_call_def aborted_def abort_def split: prod.splits sum.splits)

lemma keeps_entry_limit [entry_rules]: "keeps_entry e k (limit_webhook q item)"
  unfolding keeps_entry_def
proof (intro allI impI)
  fix s :: "'a automation_state server gin" assume r: "remembers e k s"
  show "remembers e k (snd (limit_webhook q item s))"
  proof (cases "limiter s")
    case (Some es)
    obtain ok retry es' where d: "DynamicAllow (wq_limitNow q) (show_nat (wr_ID item) @ ''|'' @ wq_clientIP q)
        (normalizedWebhookRateLimit (wr_RateLimitPerMinute item)) minute es = ((ok, retry), es')" by (metis prod.exhaust)
    let ?s = "s\<lparr>ctx_world := (ctx_world s)\<lparr>srv_world := (srv_world (ctx_world s))\<lparr>as_limiter := Some es'\<rparr>\<rparr>\<rparr>"
    have "remembers e k ?s" using r by (simp add: remembers_def)
    then show ?thesis
      unfolding limit_webhook_def Some Let_def option.case d prod.case
      by (cases ok) (simp_all add: keeps_entryD [OF keeps_entry_refuse])
  qed (simp add: limit_webhook_def r)
qed

lemma keeps_entry_body [entry_rules]: "keeps_entry e k (read_body q item)"
  unfolding read_body_def by (cases "wq_body q") (simp_all add: Let_def entry_rules)

lemma keeps_entry_replay: "wq_replayNow q < e \<Longrightarrow> keeps_entry e k (check_replay api q item)"
  unfolding keeps_entry_def
proof (intro allI impI)
  fix s :: "'a automation_state server gin" assume t: "wq_replayNow q < e" and "remembers e k s"
  then obtain c where c: "cache s = Some c" "live_until e k c" by (auto simp: remembers_def)
  obtain ok c' where r: "Remember (wq_replayNow q) (replay_key api q) (10 * minute) c = (ok, c')" by fastforce
  let ?s = "s\<lparr>ctx_world := (ctx_world s)\<lparr>srv_world := (srv_world (ctx_world s))\<lparr>as_replay := Some c'\<rparr>\<rparr>\<rparr>"
  have "live_until e k c'" using Remember_live(1) [OF c(2) t, of "replay_key api q" "10 * minute"] r by simp
  then have "remembers e k ?s" by (simp add: remembers_def)
  then show "remembers e k (snd (check_replay api q item s))"
    unfolding check_replay_def c(1) Let_def option.case r prod.case
    by (cases ok) (simp_all add: keeps_entryD [OF keeps_entry_refuse])
qed

lemma keeps_entry_publish [entry_rules]: "keeps_entry e k (publish_webhook api q d)"
proof (cases d)
  case (Some x)
  obtain item title message priority where x: "x = (item, title, message, priority)" by (metis prod_cases4)
  show ?thesis
    unfolding keeps_entry_def
  proof (intro allI impI)
    fix s :: "'a automation_state server gin" assume r: "remembers e k s"
    let ?call = "engine_call 500 (\<lambda>v. case au_Publish api (wr_ApplicationID item) title message priority v of
      (r, v) \<Rightarrow> (Inr r, v)) :: ('a automation_state, message res) handler"
    obtain out s1 where c: "?call s = (out, s1)" by fastforce
    have s1: "remembers e k s1" using keeps_entryD [OF keeps_entry_engine r, of 500] by (metis c snd_conv)
    have finished: "remembers e k (snd (h_then (record_delivery q item a b i) (h_return y) s1))" for a b i y
      by (intro keeps_entryD [OF _ s1] entry_rules)
    show "remembers e k (snd (publish_webhook api q d s))"
      unfolding publish_webhook_def Some x option.case prod.case c
      by (auto simp: s1 finished keeps_entryD [OF keeps_entry_refuse s1] split: option.split sum.split)
  qed
qed (simp add: keeps_entry_def publish_webhook_def)

lemma keeps_entry_admit: "wq_replayNow q < e \<Longrightarrow> keeps_entry e k (admit_webhook api q)"
  unfolding admit_webhook_def check_signature_def Let_def
  by (intro entry_rules; simp add: entry_rules keeps_entry_replay split: option.split prod.split)

lemma keeps_entry_ReceiveWebhook: "wq_replayNow q < e \<Longrightarrow> keeps_entry e k (ReceiveWebhook api q)"
  unfolding ReceiveWebhook_def by (intro entry_rules keeps_entry_admit)

lemma remembers_run:
  "remembers e k s \<Longrightarrow> \<forall>q\<in>set qs. wq_replayNow q < e \<Longrightarrow>
     remembers e k (fold (\<lambda>q s. snd (ReceiveWebhook api q s)) qs s)"
proof (induction qs arbitrary: s)
  case (Cons q qs)
  then have "remembers e k (snd (ReceiveWebhook api q s))"
    by (intro keeps_entryD [OF keeps_entry_ReceiveWebhook]) simp_all
  then show ?case using Cons by simp
qed simp

lemma check_replay_new:
  assumes "check_replay api q item s = (Some u, s')" "cache s = Some c" "distinct (map fst c)"
  shows "remembers (wq_replayNow q + 10 * minute) (replay_key api q) s'"
  using check_replay_Some [OF assms(1)] assms(2) Remember_new [OF assms(3)]
  by (auto simp: remembers_def minute_def second_def)

lemma check_replay_again:
  assumes "check_replay api q item s = (Some u, s')" "remembers e k s" "replay_key api q = k"
  shows "\<not> wq_replayNow q < e"
proof
  assume t: "wq_replayNow q < e"
  obtain c where c: "cache s = Some c" "live_until e k c" using assms(2) by (auto simp: remembers_def)
  then show False using check_replay_Some [OF assms(1)] Remember_live(2) [OF c(2) t] assms(3) by blast
qed

section \<open>Freshness\<close>

text \<open>
  A timestamp that is fresh at two instants lies within five minutes of both, unless it is so far in the future
  that the difference saturates.
\<close>

lemma fresh_timestamp_near:
  assumes "fresh_timestamp seconds now" "time_of_Unix seconds - now \<le> max_int64"
  shows "\<bar>now - time_of_Unix seconds\<bar> \<le> 5 * minute"
proof -
  let ?d = "now - time_of_Unix seconds"
  have "min_int64 < ?d" using assms(2) by (simp add: min_int64_def max_int64_def)
  then consider "?d < 0" "min_int64 < ?d" | "0 \<le> ?d" "?d \<le> max_int64" | "max_int64 < ?d" by linarith
  then show ?thesis
  proof cases
    case 1
    then have "time_Sub now (time_of_Unix seconds) = ?d" by (intro time_Sub_id) (auto simp: min_int64_def max_int64_def)
    moreover have "wrap64 (- ?d) = - ?d" using 1 by (intro wrap64_id) (auto simp: min_int64_def max_int64_def)
    ultimately show ?thesis using assms(1) 1 by (simp add: fresh_timestamp_def Let_def)
  next
    case 2
    then have "time_Sub now (time_of_Unix seconds) = ?d" by (intro time_Sub_id) (auto simp: min_int64_def max_int64_def)
    then show ?thesis using assms(1) 2 by (simp add: fresh_timestamp_def Let_def)
  next
    case 3
    then have "time_Sub now (time_of_Unix seconds) = max_int64"
      by (auto simp: time_Sub_def min_int64_def max_int64_def)
    then show ?thesis
      using assms(1) by (simp add: fresh_timestamp_def Let_def max_int64_def minute_def second_def)
  qed
qed

text \<open>
  A timestamp more than 292 years ahead is always fresh: the difference saturates at the smallest duration,
  whose negation is itself.
\<close>

lemma far_future_timestamp_always_fresh:
  assumes "max_int64 + 1 \<le> time_of_Unix seconds - now" shows "fresh_timestamp seconds now"
proof -
  have "time_Sub now (time_of_Unix seconds) = min_int64"
    using assms by (auto simp: time_Sub_def min_int64_def max_int64_def)
  moreover have "wrap64 (- min_int64) = min_int64" by (simp add: wrap64_def min_int64_def)
  ultimately show ?thesis by (simp add: fresh_timestamp_def Let_def min_int64_def minute_def second_def)
qed

text \<open>The spelling of a signature does not matter to its verification, but it does to the replay cache.\<close>

lemma ascii_lower_idem [simp]: "strings_ToLower (strings_ToLower s) = strings_ToLower s"
proof -
  have "ascii_lower (ascii_lower c) = ascii_lower c" for c
    by (auto simp: ascii_lower_def byte_in_def)
  then show ?thesis by (simp add: strings_ToLower_def comp_def)
qed

lemma signature_spelling:
  assumes "strings_ToLower sig = strings_ToLower sig'" "sig \<noteq> ''''" "sig' \<noteq> ''''"
  shows "validWebhookSignature api secret timestamp sig body now = validWebhookSignature api secret timestamp sig' body now"
  unfolding validWebhookSignature_def assms(1) using assms(2,3) by simp

section \<open>What the engine is called for\<close>

lemma payload_Publish [simp]: "payloadString (api\<lparr>au_Publish := P\<rparr>) v = payloadString api v"
  by (simp add: payloadString_def split: json.split)

lemma render_Publish [simp]:
  "renderPayloadTemplate (api\<lparr>au_Publish := P\<rparr>) template payload raw = renderPayloadTemplate api template payload raw"
proof (induction api template payload raw rule: renderPayloadTemplate.induct)
  case (1 api template payload raw)
  then show ?case by (subst (1 2) renderPayloadTemplate.simps) (simp add: Let_def cong: if_cong option.case_cong)
qed

lemma fields_Publish [simp]:
  "message_fields (api\<lparr>au_Publish := P\<rparr>) item body parsed = message_fields api item body parsed"
  "matches (api\<lparr>au_Publish := P\<rparr>) item parsed = matches api item parsed"
  by (cases parsed; simp add: message_fields_def field_or_def matches_def Let_def split: option.split sum.split)+

lemma check_Publish [simp]:
  "check_signature (api\<lparr>au_Publish := P\<rparr>) q item body = check_signature api q item body"
proof -
  have e: "au_hmac_sha256 (api\<lparr>au_Publish := P\<rparr>) = au_hmac_sha256 api" "au_crypto (api\<lparr>au_Publish := P\<rparr>) = au_crypto api"
    by simp_all
  have "check_replay (api\<lparr>au_Publish := P\<rparr>) q item = check_replay api q item"
    unfolding check_replay_def replay_key_def e ..
  then show ?thesis unfolding check_signature_def validWebhookSignature_def e by (simp only:)
qed

lemma admit_Publish: "admit_webhook (api\<lparr>au_Publish := P\<rparr>) q = admit_webhook api q"
proof -
  have "au_Unmarshal (api\<lparr>au_Publish := P\<rparr>) = au_Unmarshal api" "au_crypto (api\<lparr>au_Publish := P\<rparr>) = au_crypto api"
    by simp_all
  then show ?thesis unfolding admit_webhook_def check_Publish fields_Publish by (simp only:)
qed

text \<open>
  Property C12. Whatever the engine does, it gets to see nothing of a webhook request unless a route that is
  enabled stores the hash of the secret in the path, the client address is in the list of the route, the
  limiter of this route and client admits the request, the body could be read and has at most 1 MiB,
  and, where the route requires it, the signature of this very body verifies and the replay cache has not seen it.
  Exchanging \<open>Publish\<close> for any other function changes nothing in all other cases.
\<close>

theorem webhook_reaches_engine_only_authentic:
  assumes "ReceiveWebhook (api\<lparr>au_Publish := P\<rparr>) q s \<noteq> ReceiveWebhook api q s"
  shows "\<exists>row item body. row \<in> set (webhooks (srv_tables s)) \<and> wr_Enabled row \<and>
    wr_SecretHash row = HashSecret (au_crypto api) (strings_TrimSpace (wq_secret q)) \<and>
    plain_route (au_crypto api) row = Inr item \<and> webhookIPAllowed (wq_clientIP q) (wr_AllowedCIDRs item) \<and>
    (\<forall>es. limiter s = Some es \<longrightarrow> fst (fst (DynamicAllow (wq_limitNow q)
       (show_nat (wr_ID item) @ ''|'' @ wq_clientIP q) (normalizedWebhookRateLimit (wr_RateLimitPerMinute item)) minute es))) \<and>
    wq_body q = Inr body \<and> length body \<le> maxWebhookBytes \<and>
    (wr_RequireSignature item \<longrightarrow> signed api q body \<and>
       (\<forall>c. cache s = Some c \<longrightarrow> fst (Remember (wq_replayNow q) (replay_key api q) (10 * minute) c)))"
proof -
  obtain decision s' where a: "admit_webhook api q s = (Some (Some decision), s')"
  proof (cases "admit_webhook api q s")
    case (Pair d s')
    have "ReceiveWebhook (api\<lparr>au_Publish := P\<rparr>) q s = ReceiveWebhook api q s" if "d = None \<or> d = Some None"
      using that by (auto simp: ReceiveWebhook_def admit_Publish h_bind_def Pair publish_webhook_def)
    then obtain x where "d = Some (Some x)" using assms by (metis not_Some_eq)
    then show thesis using that Pair by blast
  qed
  obtain item title message priority where "decision = (item, title, message, priority)" by (metis prod_cases4)
  then have "admit_webhook api q s = (Some (Some (item, title, message, priority)), s')" using a by simp
  then obtain row body s0 s1 where row: "row \<in> set (webhooks (srv_tables s))" "wr_Enabled row"
      "wr_SecretHash row = HashSecret (au_crypto api) (strings_TrimSpace (wq_secret q))"
      "plain_route (au_crypto api) row = Inr item" "webhookIPAllowed (wq_clientIP q) (wr_AllowedCIDRs item)"
    and l: "limit_webhook q item s0 = (Some (), s1)" and w: "srv_world (ctx_world s0) = srv_world (ctx_world s)"
    and b: "read_body q item s1 = (Some body, s1)" and c: "check_signature api q item body s1 = (Some (), s')"
    by (rule admit_webhook_Some)
  have "signed api q body \<and> (\<forall>c. cache s = Some c \<longrightarrow> fst (Remember (wq_replayNow q) (replay_key api q) (10 * minute) c))"
    if r: "wr_RequireSignature item"
    using check_signature_Some [OF c r] check_replay_Some [of api q item s1 "()" s'] limit_webhook_Some [OF l] w by simp
  then show ?thesis using row limit_webhook_Some [OF l] w read_body_Some [OF b] by (intro exI conjI) auto
qed

text \<open>
  Property C13. A signed request is not admitted again in the same spelling. After it was admitted with a working replay
  cache, and after any other webhook requests, a request with the same texts of secret, timestamp and signature,
  whatever its body and sender, is not admitted by a route that requires signatures, under one of two conditions: all
  clock readings of the cache up to then are within ten minutes of the first (then the cache refuses it), or
  the signature is checked more than ten minutes after the first check, for a timestamp that was at most 292
  years ahead (then the timestamp is stale). Another spelling of the same signature, or a timestamp further
  ahead, is a repetition that the code lets through.
\<close>

theorem signed_webhook_not_repeated:
  fixes s :: "'w automation_state server gin"
  assumes admitted: "admit_webhook api q s = (Some (Some (item, content)), s1)" "wr_RequireSignature item"
    and cache: "cache s = Some c" "distinct (map fst c)"
    and same: "strings_TrimSpace (wq_secret q') = strings_TrimSpace (wq_secret q)"
      "strings_TrimSpace (wq_timestamp q') = strings_TrimSpace (wq_timestamp q)"
      "strings_TrimSpace (wq_signature q') = strings_TrimSpace (wq_signature q)"
    and times: "(\<forall>p\<in>set qs \<union> {q'}. wq_replayNow p < wq_replayNow q + 10 * minute) \<or>
      wq_signNow q + 10 * minute < wq_signNow q' \<and>
      (\<forall>seconds. ParseInt64 (strings_TrimSpace (wq_timestamp q)) = Inr seconds \<longrightarrow>
         time_of_Unix seconds - wq_signNow q \<le> max_int64)"
    and later: "s3 = fold (\<lambda>p s. snd (ReceiveWebhook api p s)) qs (snd (ReceiveWebhook api q s))"
  shows "\<forall>item' content'. fst (admit_webhook api q' s3) = Some (Some (item', content')) \<longrightarrow> \<not> wr_RequireSignature item'"
proof (intro allI impI notI)
  fix item' content' assume a: "fst (admit_webhook api q' s3) = Some (Some (item', content'))" and req: "wr_RequireSignature item'"
  obtain s4 where again: "admit_webhook api q' s3 = (Some (Some (item', content')), s4)" using a by (metis prod.collapse)
  obtain title message priority where f: "content = (title, message, priority)" by (metis prod_cases3)
  obtain row body s0 sa where l: "limit_webhook q item s0 = (Some (), sa)" and w: "srv_world (ctx_world s0) = srv_world (ctx_world s)"
    and sig: "check_signature api q item body sa = (Some (), s1)"
    by (rule admit_webhook_Some [OF admitted(1) [unfolded f]])
  obtain title' message' priority' where f': "content' = (title', message', priority')" by (metis prod_cases3)
  obtain row' body' s0' sb where l': "limit_webhook q' item' s0' = (Some (), sb)"
    and w': "srv_world (ctx_world s0') = srv_world (ctx_world s3)"
    and sig': "check_signature api q' item' body' sb = (Some (), s4)"
    by (rule admit_webhook_Some [OF again [unfolded f']])
  note first = check_signature_Some [OF sig admitted(2)]
  note second = check_signature_Some [OF sig' req]
  show False using times
  proof
    let ?e = "wq_replayNow q + 10 * minute" and ?k = "replay_key api q"
    assume t: "\<forall>p\<in>set qs \<union> {q'}. wq_replayNow p < ?e"
    have "cache sa = Some c" using limit_webhook_Some [OF l] w cache(1) by simp
    then have "remembers ?e ?k s1" using check_replay_new [of api q item sa "()" s1 c] first cache(2) by blast
    moreover have "snd (ReceiveWebhook api q s) = snd (publish_webhook api q (Some (item, content)) s1)"
      by (simp add: ReceiveWebhook_def h_bind_def admitted(1))
    ultimately have "remembers ?e ?k (snd (ReceiveWebhook api q s))" by (simp add: keeps_entryD [OF keeps_entry_publish])
    then have "remembers ?e ?k s3" unfolding later by (rule remembers_run) (use t in simp)
    then have "remembers ?e ?k sb" using limit_webhook_Some [OF l'] w' by (simp add: remembers_def)
    moreover have "replay_key api q' = ?k" by (simp add: replay_key_def same)
    ultimately show False using check_replay_again [of api q' item' sb "()" s4] second t by blast
  next
    assume t: "wq_signNow q + 10 * minute < wq_signNow q' \<and> (\<forall>seconds.
      ParseInt64 (strings_TrimSpace (wq_timestamp q)) = Inr seconds \<longrightarrow> time_of_Unix seconds - wq_signNow q \<le> max_int64)"
    obtain seconds where p: "ParseInt64 (strings_TrimSpace (wq_timestamp q)) = Inr seconds"
      and f1: "fresh_timestamp seconds (wq_signNow q)"
      using first by (auto simp: validWebhookSignature_def split: sum.splits if_splits)
    have f2: "fresh_timestamp seconds (wq_signNow q')"
      using second p by (auto simp: validWebhookSignature_def same split: sum.splits if_splits)
    have n: "\<bar>wq_signNow q - time_of_Unix seconds\<bar> \<le> 5 * minute" using fresh_timestamp_near [OF f1] t p by blast
    then have "time_of_Unix seconds - wq_signNow q' \<le> max_int64" using t by (auto simp: max_int64_def minute_def second_def)
    then have "\<bar>wq_signNow q' - time_of_Unix seconds\<bar> \<le> 5 * minute" by (rule fresh_timestamp_near [OF f2])
    then show False using n t by auto
  qed
qed

section \<open>A signed request\<close>

definition hook_route :: webhook_route where
  "hook_route = \<lparr>wr_ID = 1, wr_Name = ''alarm'', wr_ApplicationID = 7, wr_Secret = ''5'', wr_SecretHash = HashSecret demo_crypto ''5'',
     wr_Enabled = True, wr_RequireSignature = True, wr_AllowedCIDRs = '''', wr_RateLimitPerMinute = 0, wr_TitleField = ''title'',
     wr_MessageField = ''message'', wr_PriorityField = ''priority'', wr_MatchField = '''', wr_MatchValue = '''',
     wr_TitleTemplate = '''', wr_MessageTemplate = '''', wr_DefaultTitle = ''Alarm'', wr_DefaultPriority = 5,
     wr_CreatedAt = 0, wr_UpdatedAt = 0\<rparr>"

definition hook_api :: "unit automation_api" where
  "hook_api = \<lparr>au_crypto = demo_crypto, au_hmac_sha256 = (\<lambda>k m. [17]), au_Rand = (\<lambda>n w. (Inr (replicate n 0), w)),
     au_now = (\<lambda>w. 0), au_zones = \<lparr>LoadLocation = (\<lambda>_. Some UTC), cron_Parse = (\<lambda>_. None)\<rparr>,
     au_Unmarshal = (\<lambda>b. Inl (Err ''invalid character'')), au_Marshal = (\<lambda>j. Inr ''null''), au_MarshalIndent = (\<lambda>j. Inr ''null''),
     au_Publish = (\<lambda>i t m p w. (Inr (new_message\<lparr>msg_ID := 9, msg_Message := m\<rparr>), w)), au_ReloadIntegrations = id,
     au_SendHomeAssistantEvent = (\<lambda>i t d w. (Inr (), w)), au_ReceiveHomeAssistantEvent = (\<lambda>i t d w. (Inr True, w)),
     au_TestMQTTConnection = (\<lambda>i w. (Inr (), w))\<rparr>"

definition hook_state :: "unit automation_state server gin" where
  "hook_state = \<lparr>ctx_request = \<lparr>rq_query = (\<lambda>_. ''''), rq_header = (\<lambda>_. ''''), rq_cookie = (\<lambda>_. None), rq_basic = None, rq_path = ''''\<rparr>,
     ctx_auth = None, ctx_service = None, ctx_aborts = [], ctx_cookies = [], ctx_nexts = [],
     ctx_world = \<lparr>srv_db = \<lparr>tables = on_automation (\<lambda>a. a\<lparr>at_webhooks := \<lparr>tb_rows = [hook_route], tb_next = 2\<rparr>\<rparr>) demo_tables, faults = []\<rparr>,
       srv_world = \<lparr>as_limiter = None, as_replay = Some [], as_world = ()\<rparr>\<rparr>\<rparr>"

definition hook_request :: "time \<Rightarrow> webhook_request" where
  "hook_request t = \<lparr>wq_secret = ''5'', wq_clientIP = ''10.0.0.1'', wq_body = Inr (bytes_of ''42''), wq_timestamp = ''0'',
     wq_signature = ''11'', wq_limitNow = t, wq_signNow = t, wq_replayNow = t\<rparr>"

lemma hook_trims [simp]: "strings_TrimSpace ''5'' = ''5''" "strings_TrimSpace ''0'' = ''0''" "strings_TrimSpace ''11'' = ''11''"
  "strings_TrimSpace ''42'' = ''42''"
  by (rule trim_decimal, simp add: decimal_def byte_in_def)+

lemma hook_signed: "validWebhookSignature hook_api ''5'' ''0'' ''11'' body 0"
proof -
  have "strings_ToLower ''11'' = ''11''" by (simp add: strings_ToLower_def ascii_lower_def byte_in_def)
  moreover have "strings_TrimPrefix ''11'' ''sha256='' = ''11''" by (simp add: strings_TrimPrefix_def strings_HasPrefix_def)
  moreover have "hex_DecodeString ''11'' = Inr [17]" by (simp add: hex_value_def decimal_def byte_in_def)
  moreover have "ParseInt64 ''0'' = Inr 0"
    by (simp add: ParseInt64_def decimal_def byte_in_def read_nat_def min_int64_def max_int64_def)
  moreover have "fresh_timestamp 0 0"
    by (simp add: fresh_timestamp_def time_of_Unix_def wrap64_def time_Sub_def min_int64_def max_int64_def minute_def second_def)
  ultimately show ?thesis by (simp add: validWebhookSignature_def hook_api_def)
qed

lemma hook_admitted: "\<exists>s1. admit_webhook hook_api (hook_request 0) hook_state = (Some (Some (hook_route, ''Alarm'', ''42'', 5)), s1)"
proof -
  let ?db = "srv_db (ctx_world hook_state)"
  have r: "GetWebhookRouteBySecret demo_crypto ''5'' ?db = (Inr (Some hook_route), ?db)"
    by (simp add: GetWebhookRouteBySecret_def query_one_def query_def statement_def db_bind_def db_lift_def res_option_def
        plain_route_def Decrypt_def strings_HasPrefix_def encryptedPrefix_def hook_state_def on_automation_def hook_route_def)
  have f: "fst (Remember 0 k (10 * minute) [])" for k by (simp add: Remember_def Let_def)
  obtain c where c: "Remember 0 (replay_key hook_api (hook_request 0)) (10 * minute) [] = (True, c)"
    using f by (metis prod.collapse)
  have "\<exists>s1. check_replay hook_api (hook_request 0) hook_route hook_state = (Some (), s1)"
    unfolding check_replay_def by (simp add: hook_state_def hook_request_def [of 0, THEN arg_cong [of _ _ wq_replayNow]] c)
  then obtain s1 where replay: "check_replay hook_api (hook_request 0) hook_route hook_state = (Some (), s1)" by blast
  have q: "wq_secret (hook_request 0) = ''5''" "wq_timestamp (hook_request 0) = ''0''" "wq_signature (hook_request 0) = ''11''"
    "wq_signNow (hook_request 0) = 0" "wq_body (hook_request 0) = Inr (bytes_of ''42'')"
    by (simp_all add: hook_request_def)
  have i: "wr_AllowedCIDRs hook_route = ''''" "wr_RequireSignature hook_route" "wr_MatchField hook_route = ''''"
    "wr_DefaultTitle hook_route = ''Alarm''" "wr_DefaultPriority hook_route = 5" by (simp_all add: hook_route_def)
  have a: "au_crypto hook_api = demo_crypto" "au_Unmarshal hook_api b = Inl (Err ''invalid character'')" for b
    by (simp_all add: hook_api_def)
  have "successOrAbort 500 (GetWebhookRouteBySecret demo_crypto ''5'') hook_state = (Some (Some hook_route), hook_state)"
    by (simp add: successOrAbort_def r)
  moreover have "limit_webhook (hook_request 0) hook_route hook_state = (Some (), hook_state)"
    by (simp add: limit_webhook_def hook_state_def)
  moreover have "read_body (hook_request 0) hook_route hook_state = (Some (bytes_of ''42''), hook_state)"
    by (simp add: read_body_def q maxWebhookBytes_def Let_def bytes_of_def)
  moreover have "check_signature hook_api (hook_request 0) hook_route (bytes_of ''42'') hook_state = (Some (), s1)"
    by (simp add: check_signature_def i q hook_signed replay)
  moreover have "message_fields hook_api hook_route (bytes_of ''42'') (Inl e) = (''Alarm'', ''42'', 5)" for e
    by (simp add: message_fields_def i)
  ultimately show ?thesis
    by (simp add: admit_webhook_def h_bind_def h_then_def q a i matches_def webhookIPAllowed_def Let_def)
qed

theorem webhook_reaches_engine_only_authentic_witness:
  "\<exists>row item body. row \<in> set (webhooks (srv_tables hook_state)) \<and> wr_Enabled row \<and>
    wr_SecretHash row = HashSecret (au_crypto hook_api) (strings_TrimSpace (wq_secret (hook_request 0))) \<and>
    plain_route (au_crypto hook_api) row = Inr item \<and> webhookIPAllowed (wq_clientIP (hook_request 0)) (wr_AllowedCIDRs item) \<and>
    wq_body (hook_request 0) = Inr body \<and> length body \<le> maxWebhookBytes"
proof -
  let ?broken = "\<lambda>i t m p w. (Inl (Err ''down''), w) :: message res \<times> unit server"
  obtain s1 where s1: "admit_webhook hook_api (hook_request 0) hook_state = (Some (Some (hook_route, ''Alarm'', ''42'', 5)), s1)"
    using hook_admitted by blast
  have "fst (ReceiveWebhook (hook_api\<lparr>au_Publish := ?broken\<rparr>) (hook_request 0) hook_state) = None"
    by (simp add: ReceiveWebhook_def admit_Publish h_bind_def s1 publish_webhook_def engine_call_def h_call_def)
  moreover have "fst (ReceiveWebhook hook_api (hook_request 0) hook_state) = Some (Accepted 9)"
    by (simp add: ReceiveWebhook_def h_bind_def s1 publish_webhook_def engine_call_def h_call_def h_then_def
        record_delivery_def h_ignore_def) (simp add: hook_api_def new_message_def h_then_def h_bind_def record_delivery_def h_ignore_def)
  ultimately have "ReceiveWebhook (hook_api\<lparr>au_Publish := ?broken\<rparr>) (hook_request 0) hook_state \<noteq>
      ReceiveWebhook hook_api (hook_request 0) hook_state" by (metis option.distinct(1))
  from webhook_reaches_engine_only_authentic [OF this] show ?thesis by blast
qed

theorem signed_webhook_not_repeated_witness:
  "fst (admit_webhook hook_api (hook_request minute) (snd (ReceiveWebhook hook_api (hook_request 0) hook_state))) \<noteq>
     Some (Some (hook_route, ''Alarm'', ''42'', 5))"
proof -
  obtain s1 where s1: "admit_webhook hook_api (hook_request 0) hook_state = (Some (Some (hook_route, ''Alarm'', ''42'', 5)), s1)"
    using hook_admitted by blast
  have "\<forall>item content. fst (admit_webhook hook_api (hook_request minute)
      (snd (ReceiveWebhook hook_api (hook_request 0) hook_state))) = Some (Some (item, content)) \<longrightarrow> \<not> wr_RequireSignature item"
    by (rule signed_webhook_not_repeated [OF s1, of "[]" "hook_request minute" "[]"])
      (simp_all add: hook_route_def hook_state_def hook_request_def minute_def second_def)
  then show ?thesis by (auto simp: hook_route_def)
qed

end
