(* ===== verification/Automation_Laws.thy ===== *)
theory Automation_Laws
  imports Automation_Api Webhook_Laws Channel_Requests
begin

text \<open>
  What the requests of \<open>src/api/automation.go\<close> store: credentials only in encrypted form, one webhook per secret,
  and schedules, policies, connections and rules only with values that the handlers accept.
\<close>

section \<open>Stored settings\<close>

definition sealed :: "string \<Rightarrow> bool" where
  "sealed c \<longleftrightarrow> c = '''' \<or> strings_HasPrefix c encryptedPrefix"

definition broker_ok :: "mqtt_integration \<Rightarrow> bool" where
  "broker_ok r \<longleftrightarrow> sealed (mqi_Password r) \<and> sealed (mqi_ClientKey r) \<and> mqi_ProtocolVersion r \<in> {4, 5} \<and>
     0 \<le> mqi_QoS r \<and> mqi_QoS r \<le> 2 \<and> validMQTTURL (mqi_BrokerURL r)"

definition schedule_ok :: "zone_env \<Rightarrow> scheduled_notification \<Rightarrow> bool" where
  "schedule_ok z r \<longleftrightarrow> schedule_type_ok z r = Inr () \<and> 0 \<le> sch_MaxRuns r \<and>
     (sch_MisfirePolicy r = ''send'' \<or> sch_MisfirePolicy r = ''skip'')"

definition quiet_ok :: "quiet_hours_policy \<Rightarrow> bool" where
  "quiet_ok p \<longleftrightarrow> 0 \<le> qh_StartMinute p \<and> qh_StartMinute p \<le> 1439 \<and> 0 \<le> qh_EndMinute p \<and> qh_EndMinute p \<le> 1439 \<and>
     (qh_Mode p = ''suppress'' \<or> qh_Mode p = ''defer'')"

definition rule_ok :: "escalation_rule \<Rightarrow> bool" where
  "rule_ok r \<longleftrightarrow> er_TargetID r \<noteq> 0 \<and> 0 \<le> er_RepeatMinutes r \<and> er_RepeatMinutes r \<le> 10080 \<and> 0 \<le> er_MaxRepeats r \<and>
     er_MaxRepeats r \<le> 1000 \<and>
     (if er_TargetType r = ''channel'' then er_TargetApplicationID r = er_TargetID r \<and> er_SourceApplicationID r \<noteq> er_TargetID r
      else er_TargetApplicationID r = 0 \<and> (er_TargetType r = ''user'' \<or> er_TargetType r = ''group''))"

text \<open>The settings: everything that the invariant reads, and that the engine leaves alone.\<close>

definition home_credentials :: "home_assistant_integration \<Rightarrow> string \<times> string \<times> string" where
  "home_credentials r = (ha_Token r, ha_NativeWebhookURL r, ha_NativeSecret r)"

record automation_settings =
  se_webhooks :: "webhook_route table"
  se_brokers :: "mqtt_integration list"
  se_homes :: "(string \<times> string \<times> string) list"
  se_schedules :: "scheduled_notification list"
  se_quiet :: "quiet_hours_policy list"
  se_intervals :: "int list"
  se_rules :: "escalation_rule list"

definition settings :: "gorm_db \<Rightarrow> automation_settings" where
  "settings t = \<lparr>se_webhooks = at_webhooks (tb_automation t), se_brokers = brokers t,
     se_homes = map home_credentials (homes t), se_schedules = schedules t, se_quiet = quiet_policies t,
     se_intervals = map dp_IntervalMinutes (digest_policies t), se_rules = rules t\<rparr>"

definition settings_ok :: "zone_env \<Rightarrow> automation_settings \<Rightarrow> bool" where
  "settings_ok z s \<longleftrightarrow>
     table_ok wr_ID (se_webhooks s) \<and> distinct (map wr_SecretHash (tb_rows (se_webhooks s))) \<and>
     list_all (\<lambda>r. sealed (wr_Secret r)) (tb_rows (se_webhooks s)) \<and> list_all broker_ok (se_brokers s) \<and>
     list_all (\<lambda>(a, b, c). sealed a \<and> sealed b \<and> sealed c) (se_homes s) \<and>
     list_all (schedule_ok z) (se_schedules s) \<and> list_all quiet_ok (se_quiet s) \<and>
     list_all (\<lambda>i. 15 \<le> i \<and> i \<le> 10080) (se_intervals s) \<and> list_all rule_ok (se_rules s)"

definition automation_ok :: "zone_env \<Rightarrow> gorm_db \<Rightarrow> bool" where
  "automation_ok z t \<longleftrightarrow> settings_ok z (settings t)"

lemma Encrypt_sealed: "Encrypt cr n v = Inr c \<Longrightarrow> sealed c"
  by (auto simp: Encrypt_def sealed_def Let_def res_bind_Inr_iff strings_HasPrefix_def split: if_splits)

section \<open>Statements\<close>

lemma save_row_rows: "save_row key row i t = (j, t') \<Longrightarrow> set (tb_rows t') \<subseteq> insert (row j) (set (tb_rows t))"
  by (auto simp: save_row_def split: if_splits)

lemma save_row_all:
  "save_row key row i t = (j, t') \<Longrightarrow> list_all P (tb_rows t) \<Longrightarrow> P (row j) \<Longrightarrow> list_all P (tb_rows t')"
  using save_row_rows [of key row i t j t'] by (auto simp: list_all_iff)

lemma distinct_replace:
  assumes "distinct (map key xs)" "distinct (map f xs)" "\<forall>r\<in>set xs. key r \<noteq> i \<longrightarrow> f r \<noteq> v" "f new = v"
  shows "distinct (map f (map (\<lambda>r. if key r = i then new else r) xs))"
  using assms by (induction xs) (auto simp: image_iff)

lemma save_row_distinct:
  assumes "table_ok key t" "distinct (map f (tb_rows t))" "\<forall>r\<in>set (tb_rows t). key r \<noteq> i \<longrightarrow> f r \<noteq> v"
    and "save_row key row i t = (j, t')" "\<And>j. f (row j) = v"
  shows "distinct (map f (tb_rows t'))"
proof -
  have new: "v \<notin> f ` set (tb_rows t)" if "i = 0 \<or> i \<notin> key ` set (tb_rows t)"
    using assms(1,3) that by (fastforce simp: table_ok_def)
  consider "i = 0 \<or> i \<notin> key ` set (tb_rows t)" | "i \<noteq> 0" "i \<in> key ` set (tb_rows t)" by blast
  then show ?thesis
  proof cases
    case 1
    then have "tb_rows t' = tb_rows t @ [row j]" using assms(4) by (auto simp: save_row_def split: if_splits)
    then show ?thesis using assms(2,5) new [OF 1] by simp
  next
    case 2
    then have r: "tb_rows t' = map (\<lambda>r. if key r = i then row i else r) (tb_rows t)"
      using assms(4) by (auto simp: save_row_def)
    have "distinct (map key (tb_rows t))" using assms(1) by (simp add: table_ok_def)
    then show ?thesis unfolding r by (rule distinct_replace [OF _ assms(2,3,5)])
  qed
qed

text \<open>Operations that leave the settings, or replace one part of them.\<close>

lemma keeps_settings: "(\<And>t. settings (f t) = settings t) \<Longrightarrow> keeps (automation_ok z) (exec f)"
  by (rule keeps_exec) (simp add: automation_ok_def)

lemma keeps_lift [keeps_rules]: "keeps P (db_lift r)"
  by (rule keeps_reads) (rule atomic_rules)

lemma keeps_queries [keeps_rules]: "keeps P (query_all f q)" "keeps P (query_one f' q')"
  unfolding query_all_def query_one_def by (intro keeps_rules)+

lemma keeps_put_row:
  assumes "\<And>t tb j. automation_ok z t \<Longrightarrow> save_row key (row t) i (get (tb_automation t)) = (j, tb) \<Longrightarrow>
    automation_ok z (on_automation (put tb) t)"
  shows "keeps (automation_ok z) (put_row key get put i row)"
  unfolding put_row_def using assms by (intro keeps_statement) (auto split: prod.split)

lemmas automation_simps = automation_ok_def settings_ok_def settings_def on_automation_def on_accounts_def

lemma bind_lift_keeps:
  "(\<And>x. r = Inr x \<Longrightarrow> keeps P (f x)) \<Longrightarrow> keeps P (db_bind (db_lift r) f)"
  by (cases r) (auto simp: keeps_def db_bind_def db_lift_def db_return_def db_fail_def)

named_theorems automation_ops \<open>operations that keep the settings valid\<close>

lemma keeps_put_route:
  assumes "sealed encrypted" shows "keeps (automation_ok z) (put_route encrypted item)"
  unfolding put_route_def
proof (rule keeps_statement)
  fix t assume ok: "automation_ok z t"
  let ?row = "\<lambda>i. item\<lparr>wr_ID := i, wr_Secret := encrypted, wr_CreatedAt := created (wr_CreatedAt item) t, wr_UpdatedAt := db_now t\<rparr>"
  let ?hit = "\<exists>r\<in>set (webhooks t). wr_ID r \<noteq> wr_ID item \<and> wr_SecretHash r = wr_SecretHash item"
  obtain j tb where s: "save_row wr_ID ?row (wr_ID item) (at_webhooks (tb_automation t)) = (j, tb)" by fastforce
  have "automation_ok z (on_automation (\<lambda>a. a\<lparr>at_webhooks := tb\<rparr>) t)" if free: "\<not> ?hit"
  proof -
    have ids: "table_ok wr_ID (at_webhooks (tb_automation t))" and hashes: "distinct (map wr_SecretHash (webhooks t))"
      and secrets: "list_all (\<lambda>r. sealed (wr_Secret r)) (webhooks t)" using ok by (simp_all add: automation_simps)
    have "table_ok wr_ID tb" using save_row_ok [OF ids _ s] by simp
    moreover have "distinct (map wr_SecretHash (tb_rows tb))"
      by (rule save_row_distinct [OF ids hashes _ s, where v = "wr_SecretHash item"]) (use free in auto)
    moreover have "list_all (\<lambda>r. sealed (wr_Secret r)) (tb_rows tb)"
      by (rule save_row_all [OF s secrets]) (simp add: assms)
    ultimately show ?thesis using ok by (simp add: automation_simps)
  qed
  then show "automation_ok z (snd (let row = ?row in if ?hit then (Inl duplicated_key, t)
     else case save_row wr_ID row (wr_ID item) (at_webhooks (tb_automation t)) of
       (j, tb) \<Rightarrow> (Inr (row j), on_automation (\<lambda>a. a\<lparr>at_webhooks := tb\<rparr>) t)))"
    using ok by (simp add: Let_def s)
qed

lemma keeps_SaveWebhookRoute [automation_ops]: "keeps (automation_ok z) (SaveWebhookRoute cr n item)"
  unfolding SaveWebhookRoute_def Let_def
  by (intro bind_lift_keeps keeps_bind [OF keeps_put_route] keeps_return) (rule Encrypt_sealed)

lemma keeps_SaveMQTTIntegration [automation_ops]:
  assumes "mqi_ProtocolVersion item \<in> {4, 5}" "0 \<le> mqi_QoS item" "mqi_QoS item \<le> 2" "validMQTTURL (mqi_BrokerURL item)"
  shows "keeps (automation_ok z) (SaveMQTTIntegration cr n n' item)"
  unfolding SaveMQTTIntegration_def
proof (intro bind_lift_keeps keeps_bind keeps_return keeps_put_row)
  fix plain c key k t tb j assume e: "Encrypt cr n plain = Inr c" "Encrypt cr n' key = Inr k" and ok: "automation_ok z t"
    and s: "save_row mqi_ID (\<lambda>i. item\<lparr>mqi_ID := i, mqi_Password := c, mqi_ClientKey := k,
          mqi_CreatedAt := created (mqi_CreatedAt item) t, mqi_UpdatedAt := db_now t\<rparr>) (mqi_ID item)
        (at_mqtt (tb_automation t)) = (j, tb)"
  have "list_all broker_ok (tb_rows tb)"
    by (rule save_row_all [OF s]) (use ok assms Encrypt_sealed [OF e(1)] Encrypt_sealed [OF e(2)] in
      \<open>simp_all add: automation_simps broker_ok_def\<close>)
  then show "automation_ok z (on_automation (\<lambda>a. a\<lparr>at_mqtt := tb\<rparr>) t)" using ok by (simp add: automation_simps)
qed

lemma keeps_SaveHomeAssistantIntegration [automation_ops]:
  "keeps (automation_ok z) (SaveHomeAssistantIntegration cr n1 n2 n3 item)"
  unfolding SaveHomeAssistantIntegration_def
proof (intro bind_lift_keeps keeps_bind keeps_return keeps_put_row)
  fix a b c a' b' c' t tb j
  assume e: "Encrypt cr n1 a = Inr a'" "Encrypt cr n2 b = Inr b'" "Encrypt cr n3 c = Inr c'" and ok: "automation_ok z t"
    and s: "save_row ha_ID (\<lambda>i. item\<lparr>ha_ID := i, ha_Token := a', ha_NativeWebhookURL := b',
          ha_NativeSecret := c', ha_CreatedAt := created (ha_CreatedAt item) t,
          ha_UpdatedAt := db_now t\<rparr>) (ha_ID item) (at_hass (tb_automation t)) = (j, tb)"
  let ?P = "\<lambda>r. (\<lambda>(a, b, c). sealed a \<and> sealed b \<and> sealed c) (home_credentials r)"
  have "list_all ?P (tb_rows tb)"
    by (rule save_row_all [OF s]) (use ok e [THEN Encrypt_sealed] in
      \<open>simp_all add: automation_simps home_credentials_def list.pred_map comp_def\<close>)
  then show "automation_ok z (on_automation (\<lambda>a. a\<lparr>at_hass := tb\<rparr>) t)"
    using ok by (simp add: automation_simps list.pred_map comp_def)
qed

lemma schedule_type_row [simp]:
  "schedule_type_ok z (item\<lparr>sch_ID := j, sch_CreatedAt := c, sch_UpdatedAt := u\<rparr>) = schedule_type_ok z item"
  "schedule_type_ok z (item\<lparr>sch_NextRunAt := n\<rparr>) = schedule_type_ok z item"
  "schedule_type_ok z (item\<lparr>sch_MisfirePolicy := m\<rparr>) = schedule_type_ok z item"
  by (simp_all add: schedule_type_ok_def Let_def cong: if_cong)

text \<open>Tables whose rows only have to satisfy a predicate.\<close>

lemma keeps_rows:
  assumes "\<And>t. automation_ok z t \<Longrightarrow> list_all P (tb_rows (get (tb_automation t)))"
    and "\<And>t tb. automation_ok z t \<Longrightarrow> list_all P (tb_rows tb) \<Longrightarrow> automation_ok z (on_automation (put tb) t)"
    and "\<And>t j. P (row t j)"
  shows "keeps (automation_ok z) (put_row key get put i row)"
  by (rule keeps_put_row) (metis assms save_row_all)

lemma keeps_saves [automation_ops]:
  "schedule_ok z item \<Longrightarrow> keeps (automation_ok z) (db_SaveScheduledNotification item)"
  "rule_ok rule \<Longrightarrow> keeps (automation_ok z) (SaveEscalationRule rule)"
  "keeps (automation_ok z) (CreateWebhookDelivery d)"
proof -
  show "keeps (automation_ok z) (db_SaveScheduledNotification item)" if "schedule_ok z item"
    unfolding db_SaveScheduledNotification_def
    by (rule keeps_rows [where P = "schedule_ok z"])
      (use that in \<open>simp_all add: automation_simps schedule_ok_def\<close>)
  show "keeps (automation_ok z) (SaveEscalationRule rule)" if "rule_ok rule"
    unfolding SaveEscalationRule_def
    by (rule keeps_rows [where P = rule_ok]) (use that in \<open>simp_all add: automation_simps rule_ok_def\<close>)
  show "keeps (automation_ok z) (CreateWebhookDelivery d)"
    unfolding CreateWebhookDelivery_def
    by (rule keeps_rows [where P = "\<lambda>_. True"]) (simp_all add: automation_simps list_all_iff)
qed

lemma upsert_row_all:
  "upsert_row key same change i row tb = (j, tb') \<Longrightarrow> list_all P (tb_rows tb) \<Longrightarrow> (\<And>r. P (change r)) \<Longrightarrow> (\<And>j. P (row j)) \<Longrightarrow>
     list_all P (tb_rows tb')"
  by (auto simp: upsert_row_def update_rows_def list_all_iff split: option.splits dest!: save_row_rows)

lemma keeps_policies [automation_ops]:
  "quiet_ok p \<Longrightarrow> keeps (automation_ok z) (SaveQuietHoursPolicy p)"
  "15 \<le> dp_IntervalMinutes d \<Longrightarrow> dp_IntervalMinutes d \<le> 10080 \<Longrightarrow> keeps (automation_ok z) (db_SaveDigestPolicy d)"
proof -
  show "keeps (automation_ok z) (SaveQuietHoursPolicy p)" if p: "quiet_ok p"
    unfolding SaveQuietHoursPolicy_def Let_def
  proof (rule keeps_statement)
    fix t assume ok: "automation_ok z t"
    let ?p = "p\<lparr>qh_CreatedAt := created (qh_CreatedAt p) t, qh_UpdatedAt := created (qh_UpdatedAt p) t\<rparr>"
    let ?u = "upsert_row qh_ID (\<lambda>r. qh_UserID r = qh_UserID ?p) (\<lambda>r. ?p\<lparr>qh_ID := qh_ID r, qh_CreatedAt := qh_CreatedAt r\<rparr>)
      (qh_ID ?p) (\<lambda>i. ?p\<lparr>qh_ID := i\<rparr>) (ac_quiet (tb_accounts t))"
    obtain j tb where u: "?u = (j, tb)" by fastforce
    have "list_all quiet_ok (tb_rows tb)"
      by (rule upsert_row_all [OF u]) (use ok p in \<open>simp_all add: automation_simps quiet_ok_def\<close>)
    then show "automation_ok z (snd (case ?u of (i, tb) \<Rightarrow> (Inr (?p\<lparr>qh_ID := i\<rparr>), on_accounts (\<lambda>a. a\<lparr>ac_quiet := tb\<rparr>) t)))"
      unfolding u prod.case using ok by (simp add: automation_simps)
  qed
  show "keeps (automation_ok z) (db_SaveDigestPolicy d)" if d: "15 \<le> dp_IntervalMinutes d" "dp_IntervalMinutes d \<le> 10080"
    unfolding db_SaveDigestPolicy_def Let_def
  proof (rule keeps_statement)
    fix t assume ok: "automation_ok z t"
    let ?d = "d\<lparr>dp_CreatedAt := created (dp_CreatedAt d) t, dp_UpdatedAt := created (dp_UpdatedAt d) t\<rparr>"
    let ?u = "upsert_row dp_ID (\<lambda>r. dp_UserID r = dp_UserID ?d) (\<lambda>r. ?d\<lparr>dp_ID := dp_ID r, dp_CreatedAt := dp_CreatedAt r\<rparr>)
      (dp_ID ?d) (\<lambda>i. ?d\<lparr>dp_ID := i\<rparr>) (ac_digests (tb_accounts t))"
    obtain j tb where u: "?u = (j, tb)" by fastforce
    have "list_all (\<lambda>p. 15 \<le> dp_IntervalMinutes p \<and> dp_IntervalMinutes p \<le> 10080) (tb_rows tb)"
      by (rule upsert_row_all [OF u]) (use ok d in \<open>simp_all add: automation_simps list.pred_map comp_def\<close>)
    then show "automation_ok z (snd (case ?u of (i, tb) \<Rightarrow> (Inr (?d\<lparr>dp_ID := i\<rparr>), on_accounts (\<lambda>a. a\<lparr>ac_digests := tb\<rparr>) t)))"
      unfolding u prod.case using ok by (simp add: automation_simps list.pred_map comp_def)
  qed
qed

lemma list_all_filter: "list_all P xs \<Longrightarrow> list_all P (filter Q xs)"
  by (simp add: list_all_iff)

lemma keeps_deletes [automation_ops]:
  "keeps (automation_ok z) (db_DeleteWebhookRoute i)" "keeps (automation_ok z) (DeleteMQTTIntegration i)"
  "keeps (automation_ok z) (DeleteHomeAssistantIntegration i)" "keeps (automation_ok z) (DeleteScheduledNotification i)"
  "keeps (automation_ok z) (DeleteEscalationRule i)" "keeps (automation_ok z) (db_DeleteDigestItems u)"
  "keeps (automation_ok z) (SetMessageAcknowledgement u i v now)"
proof -
  note delete = delete_rows_def list_all_filter automation_simps list.pred_map comp_def
  have hooks: "automation_ok z (on_automation (\<lambda>a. a\<lparr>at_webhooks := delete_rows Q (at_webhooks a)\<rparr>) t)"
    if "automation_ok z t" for Q t
    using that table_ok_delete [of wr_ID "at_webhooks (tb_automation t)" Q]
    by (simp add: delete distinct_map_filter)
  show "keeps (automation_ok z) (db_DeleteWebhookRoute i)"
    unfolding db_DeleteWebhookRoute_def exec_all_def
    by (simp, intro keeps_rules hooks) (simp_all add: automation_simps)
  show "keeps (automation_ok z) (DeleteMQTTIntegration i)" "keeps (automation_ok z) (DeleteHomeAssistantIntegration i)"
    unfolding DeleteMQTTIntegration_def DeleteHomeAssistantIntegration_def
    by (intro keeps_exec; simp add: delete)+
  show "keeps (automation_ok z) (DeleteScheduledNotification i)" "keeps (automation_ok z) (DeleteEscalationRule i)"
    unfolding DeleteScheduledNotification_def DeleteScheduledNotificationWithRuns_def DeleteEscalationRule_def exec_all_def
    by (simp, intro keeps_rules; simp add: delete)+
  show "keeps (automation_ok z) (db_DeleteDigestItems u)" "keeps (automation_ok z) (SetMessageAcknowledgement u i v now)"
    unfolding db_DeleteDigestItems_def SetMessageAcknowledgement_def
    by (intro keeps_settings; simp add: settings_def)+
qed

section \<open>The engine and the steps of the handlers\<close>

text \<open>
  What the handlers rely on: the calls of the interface \<open>AutomationEngine\<close> write messages, announcements and the
  status of connections, never settings.
\<close>

definition leaves_settings :: "('w server \<Rightarrow> 'a \<times> 'w server) \<Rightarrow> bool" where
  "leaves_settings f \<longleftrightarrow> (\<forall>v. settings (tables (srv_db (snd (f v)))) = settings (tables (srv_db v)))"

definition engine_leaves_settings :: "'w automation_api \<Rightarrow> bool" where
  "engine_leaves_settings api \<longleftrightarrow>
     (\<forall>a title message priority. leaves_settings (au_Publish api a title message priority)) \<and>
     (\<forall>i kind data. leaves_settings (au_SendHomeAssistantEvent api i kind data)) \<and>
     (\<forall>i kind data. leaves_settings (au_ReceiveHomeAssistantEvent api i kind data)) \<and>
     (\<forall>i. leaves_settings (au_TestMQTTConnection api i))"

lemma leaves_settingsD: "leaves_settings f \<Longrightarrow> f v = (r, w) \<Longrightarrow> settings (tables (srv_db w)) = settings (tables (srv_db v))"
  by (metis leaves_settings_def snd_conv)

lemma h_keeps_engine: "leaves_settings f \<Longrightarrow> h_keeps (automation_ok z) (engine_call c f)"
  unfolding h_keeps_def engine_call_def h_call_def
  by (fastforce simp: automation_ok_def dest: leaves_settingsD split: prod.splits sum.splits)

lemma h_keeps_bind_post:
  assumes "h_keeps P m" "\<And>s x s'. m s = (Some x, s') \<Longrightarrow> R x" "\<And>x. R x \<Longrightarrow> h_keeps P (f x)"
  shows "h_keeps P (h_bind m f)"
  using assms unfolding h_keeps_def h_bind_def by (fastforce split: prod.splits option.splits)

lemma require_Some [simp]: "require b msg s = (Some x, s') \<longleftrightarrow> b \<and> s' = s"
  by (auto simp: require_def)

lemma h_keeps_require: "(b \<Longrightarrow> h_keeps P k) \<Longrightarrow> h_keeps P (h_then (require b msg) k)"
  by (auto simp: h_then_def h_bind_def require_def h_keeps_def)

lemma h_keeps_steps [h_rules]:
  "h_keeps P (h_ShouldBind bound)" "h_keeps P (require b msg)" "h_keeps P (draw api n)" "h_keeps P (ReloadIntegrations api)"
  "h_keeps P (h_now api)" "h_keeps P (draw_nonce api)" "h_keeps P (generateIntegrationSecret api)"
  "keeps P m \<Longrightarrow> h_keeps P (found msg m)" "h_keeps P (channelExists i)"
proof -
  show bind: "h_keeps P (h_ShouldBind bound)" and req: "h_keeps P (require b msg)" for bound :: "'b res" and b msg
    unfolding h_ShouldBind_def require_def by (intro h_rules)+
  show draw: "h_keeps P (draw api n)" for api and n
    unfolding h_keeps_def draw_def by (auto split: prod.splits)
  show "h_keeps P (draw_nonce api)" "h_keeps P (generateIntegrationSecret api)"
    unfolding draw_nonce_def generateIntegrationSecret_def by (intro h_rules draw)+
  show "h_keeps P (ReloadIntegrations api)" "h_keeps P (h_now api)"
    unfolding ReloadIntegrations_def h_now_def by (intro h_rules)+
  show "h_keeps P (found msg m)" if "keeps P m"
    unfolding found_def by (intro h_rules that)
  show "h_keeps P (channelExists i)"
    unfolding channelExists_def by (intro h_rules keeps_reads reads_GetUserGroupMembers)
qed

lemma h_keeps_saves [h_rules]:
  "h_keeps (automation_ok z) (save_route api item)" "h_keeps (automation_ok z) (save_home api home)"
  unfolding save_route_def save_home_def by (intro h_rules automation_ops)+

lemma h_keeps_save_broker:
  assumes "validMQTTURL (mqi_BrokerURL item)" "mqi_ProtocolVersion item \<in> {4, 5}" "0 \<le> mqi_QoS item \<and> mqi_QoS item \<le> 2"
  shows "h_keeps (automation_ok z) (save_broker api item)"
  unfolding save_broker_def using assms by (intro h_rules automation_ops) simp_all

section \<open>The handlers\<close>

lemma h_keeps_ignore: "keeps P m \<Longrightarrow> h_keeps P (h_ignore m)"
  by (simp add: h_keeps_def keeps_def h_ignore_def)

lemma kept_record:
  "h_keeps (automation_ok z) (record_delivery q item st d i)" "h_keeps (automation_ok z) (refuse q item st d c e)"
  unfolding refuse_def record_delivery_def by (intro h_rules h_keeps_ignore automation_ops)+

text \<open>Steps that change the state outside the database and may then refuse the request.\<close>

lemma kept_limit:
  assumes refused: "\<And>st d c e. h_keeps P (refuse q item st d c e :: ('w automation_state, unit) handler)"
  shows "h_keeps P (limit_webhook q item :: ('w automation_state, unit) handler)"
  unfolding h_keeps_def
proof (intro allI impI)
  fix s :: "'w automation_state server gin" assume P: "P (srv_tables s)"
  show "P (srv_tables (snd (limit_webhook q item s)))"
  proof (cases "limiter s")
    case (Some es)
    obtain ok retry es' where d: "DynamicAllow (wq_limitNow q) (show_nat (wr_ID item) @ ''|'' @ wq_clientIP q)
        (normalizedWebhookRateLimit (wr_RateLimitPerMinute item)) minute es = ((ok, retry), es')" by (metis prod.exhaust)
    show ?thesis
      unfolding limit_webhook_def Some Let_def option.case d prod.case
      by (cases ok) (simp_all add: P h_keepsD [OF refused])
  qed (simp add: limit_webhook_def P)
qed

lemma kept_replay:
  fixes api :: "'w automation_api"
  assumes refused: "\<And>st d c e. h_keeps P (refuse q item st d c e :: ('w automation_state, unit) handler)"
  shows "h_keeps P (check_replay api q item)"
  unfolding h_keeps_def
proof (intro allI impI)
  fix s :: "'w automation_state server gin" assume P: "P (srv_tables s)"
  show "P (srv_tables (snd (check_replay api q item s)))"
  proof (cases "cache s")
    case (Some c)
    obtain ok c' where r: "Remember (wq_replayNow q) (replay_key api q) (10 * minute) c = (ok, c')" by fastforce
    show ?thesis
      unfolding check_replay_def Some Let_def option.case r prod.case
      by (cases ok) (simp_all add: P h_keepsD [OF refused])
  qed (simp add: check_replay_def P)
qed

lemma kept_body: "h_keeps (automation_ok z) (read_body q item)"
  unfolding read_body_def Let_def by (intro h_rules kept_record)

lemma kept_admit: "h_keeps (automation_ok z) (admit_webhook api q)"
  unfolding admit_webhook_def check_signature_def GetWebhookRouteBySecret_def Let_def case_prod_beta
  by (intro h_rules keeps_rules kept_record kept_limit kept_replay kept_body)

lemma kept_publish:
  assumes "engine_leaves_settings api" shows "h_keeps (automation_ok z) (publish_webhook api q d)"
proof (cases d)
  case (Some x)
  obtain item title message priority where x: "x = (item, title, message, priority)" by (metis prod_cases4)
  let ?call = "engine_call 500 (\<lambda>v. case au_Publish api (wr_ApplicationID item) title message priority v of
      (r, v) \<Rightarrow> (Inr r, v)) :: ('a automation_state, message res) handler"
  have "publish_webhook api q d = h_bind ?call (\<lambda>out. case out of
      Inl e \<Rightarrow> refuse q item ''failed'' ''message delivery failed'' 500 e
    | Inr msg \<Rightarrow> h_then (record_delivery q item ''delivered'' '''' (msg_ID msg)) (h_return (Accepted (msg_ID msg))))"
    by (rule ext) (auto simp: publish_webhook_def Some x h_bind_def split: prod.split option.split sum.split)
  moreover have "leaves_settings (\<lambda>v. case au_Publish api (wr_ApplicationID item) title message priority v of (r, v) \<Rightarrow> (Inr r :: message res res, v))"
  proof -
    have p: "leaves_settings (au_Publish api (wr_ApplicationID item) title message priority)"
      using assms by (simp add: engine_leaves_settings_def)
    show ?thesis
      unfolding leaves_settings_def by (auto dest: leaves_settingsD [OF p] split: prod.split)
  qed
  ultimately show ?thesis by (simp only:) (intro h_rules h_keeps_engine kept_record)
qed (simp add: h_keeps_def publish_webhook_def)

lemma kept_webhooks:
  assumes "engine_leaves_settings api"
  shows "h_keeps (automation_ok z) (GetWebhookRoutes api)" "h_keeps (automation_ok z) (CreateWebhookRoute api b)"
    "h_keeps (automation_ok z) (UpdateWebhookRoute api p b)" "h_keeps (automation_ok z) (RegenerateWebhookSecret api p)"
    "h_keeps (automation_ok z) (TestWebhookRoute api p)" "h_keeps (automation_ok z) (DeleteWebhookRoute p)"
    "h_keeps (automation_ok z) (GetWebhookDeliveries api p l)" "h_keeps (automation_ok z) (ReceiveWebhook api q)"
proof -
  have e: "h_keeps (automation_ok z) (engine_call c (au_Publish api a t m k))" for c a t m k
    using assms by (auto simp: engine_leaves_settings_def intro: h_keeps_engine)
  have hooks: "h_keeps (automation_ok z) (found_route api i)" for i
    unfolding found_route_def GetWebhookRouteByID_def by (intro h_rules keeps_rules)
  show "h_keeps (automation_ok z) (GetWebhookRoutes api)" "h_keeps (automation_ok z) (GetWebhookDeliveries api p l)"
    unfolding GetWebhookRoutes_def db_GetWebhookRoutes_def GetWebhookDeliveries_def db_GetWebhookDeliveries_def Let_def
    by (intro h_rules keeps_rules hooks)+
  show "h_keeps (automation_ok z) (CreateWebhookRoute api b)" "h_keeps (automation_ok z) (UpdateWebhookRoute api p b)"
    "h_keeps (automation_ok z) (RegenerateWebhookSecret api p)" "h_keeps (automation_ok z) (TestWebhookRoute api p)"
    "h_keeps (automation_ok z) (DeleteWebhookRoute p)"
    unfolding CreateWebhookRoute_def UpdateWebhookRoute_def RegenerateWebhookSecret_def TestWebhookRoute_def DeleteWebhookRoute_def
    by (intro h_rules hooks e automation_ops)+
  show "h_keeps (automation_ok z) (ReceiveWebhook api q)"
    unfolding ReceiveWebhook_def by (intro h_rules kept_admit kept_publish assms)
qed

lemma kept_brokers:
  assumes "engine_leaves_settings api"
  shows "h_keeps (automation_ok z) (GetMQTT api)" "h_keeps (automation_ok z) (CreateMQTT api b)"
    "h_keeps (automation_ok z) (UpdateMQTT api p b)" "h_keeps (automation_ok z) (TestMQTT api p)"
    "h_keeps (automation_ok z) (DeleteMQTT api p)"
proof -
  have save: "h_keeps (automation_ok z) (h_then (mqtt_url p) (h_then (mqtt_limits p') (h_then (require c msg)
      (h_bind (save_broker api (fill_broker p' item)) (\<lambda>item. h_then (ReloadIntegrations api) (h_return (mqttView item)))))))"
    if "mp_BrokerURL p' = mp_BrokerURL p" for p p' c msg item
  proof -
    have s: "h_keeps (automation_ok z) (save_broker api (fill_broker p' item))"
      if "validMQTTURL (mp_BrokerURL p)" "mp_ProtocolVersion p' = 4 \<or> mp_ProtocolVersion p' = 5" "0 \<le> mp_QoS p' \<and> mp_QoS p' \<le> 2"
      by (rule h_keeps_save_broker) (use that \<open>mp_BrokerURL p' = _\<close> in \<open>auto simp: fill_broker_def\<close>)
    have assoc: "h_then (h_then a b) c = h_then a (h_then b c)" for a b and c :: "('x, 'y) handler"
      by (rule ext) (simp add: h_then_def h_bind_def split: prod.split option.split)
    show ?thesis
      unfolding mqtt_url_def mqtt_limits_def assoc
      by (rule h_keeps_require)+ (intro h_rules s; assumption)
  qed
  show "h_keeps (automation_ok z) (CreateMQTT api b)"
    unfolding CreateMQTT_def Let_def by (intro h_keeps_bind h_keeps_then [OF h_keeps_steps(9)] h_keeps_steps save) simp
  show "h_keeps (automation_ok z) (UpdateMQTT api p b)"
    unfolding UpdateMQTT_def Let_def GetMQTTIntegrationByID_def
    by (intro h_keeps_withID h_keeps_bind h_keeps_then [OF h_keeps_steps(9)] h_keeps_steps keeps_queries save) simp
  have e: "leaves_settings (au_TestMQTTConnection api i)" for i using assms by (simp add: engine_leaves_settings_def)
  show "h_keeps (automation_ok z) (GetMQTT api)" "h_keeps (automation_ok z) (TestMQTT api p)"
    "h_keeps (automation_ok z) (DeleteMQTT api p)"
    unfolding GetMQTT_def GetMQTTIntegrations_def TestMQTT_def DeleteMQTT_def
    by (intro h_rules keeps_queries automation_ops h_keeps_engine e)+
qed

lemma kept_homes:
  assumes "engine_leaves_settings api"
  shows "h_keeps (automation_ok z) (GetHomeAssistant api)" "h_keeps (automation_ok z) (CreateHomeAssistant api b)"
    "h_keeps (automation_ok z) (UpdateHomeAssistant api p b)" "h_keeps (automation_ok z) (RegenerateHomeAssistantPairing api p)"
    "h_keeps (automation_ok z) (ReceiveNativeHomeAssistantEvent api p be)"
    "h_keeps (automation_ok z) (RevokeNativeHomeAssistant api p)" "h_keeps (automation_ok z) (SendHomeAssistantEvent api p be)"
    "h_keeps (automation_ok z) (DeleteHomeAssistant api p)"
proof -
  have prepare: "h_keeps (automation_ok z) (prepareHomeAssistantPairing api item)" and
    mode: "h_keeps (automation_ok z) (mode_of pr :: ('w automation_state, string) handler)" and
    checks: "h_keeps (automation_ok z) (http_url u)" "h_keeps (automation_ok z) (token_needed u)"
    for item and pr and u
    unfolding prepareHomeAssistantPairing_def mode_of_def http_url_def token_needed_def Let_def by (intro h_rules)+
  have credential: "h_keeps (automation_ok z) (bridge_credential item)" for item
    by (simp add: h_keeps_def bridge_credential_def)
  have bridge: "h_keeps (automation_ok z) (bridge_of api e i)" for e i
    unfolding bridge_of_def GetHomeAssistantIntegrationByID_def by (intro h_rules keeps_queries credential)
  show "h_keeps (automation_ok z) (GetHomeAssistant api)" "h_keeps (automation_ok z) (CreateHomeAssistant api b)"
    "h_keeps (automation_ok z) (UpdateHomeAssistant api p b)" "h_keeps (automation_ok z) (RegenerateHomeAssistantPairing api p)"
    unfolding GetHomeAssistant_def GetHomeAssistantIntegrations_def CreateHomeAssistant_def UpdateHomeAssistant_def
      RegenerateHomeAssistantPairing_def GetHomeAssistantIntegrationByID_def Let_def case_prod_beta
    by (intro h_rules keeps_queries prepare mode checks)+
  have e: "leaves_settings (au_SendHomeAssistantEvent api i k d)" "leaves_settings (au_ReceiveHomeAssistantEvent api i k d)"
    for i k d using assms by (simp_all add: engine_leaves_settings_def)
  show "h_keeps (automation_ok z) (ReceiveNativeHomeAssistantEvent api p be)" "h_keeps (automation_ok z) (RevokeNativeHomeAssistant api p)"
    "h_keeps (automation_ok z) (SendHomeAssistantEvent api p be)" "h_keeps (automation_ok z) (DeleteHomeAssistant api p)"
    unfolding ReceiveNativeHomeAssistantEvent_def RevokeNativeHomeAssistant_def SendHomeAssistantEvent_def
      DeleteHomeAssistant_def case_prod_beta
    by (intro h_rules h_keeps_engine bridge automation_ops e)+
qed

lemma h_keeps_list [h_rules]:
  "h_keeps P m \<Longrightarrow> (\<And>x xs. h_keeps P (f x xs)) \<Longrightarrow> h_keeps P (case ys of [] \<Rightarrow> m | x # xs \<Rightarrow> f x xs)"
  by (cases ys) simp_all

lemma kept_pairing: "h_keeps (automation_ok z) (PairNativeHomeAssistant api b)"
  unfolding PairNativeHomeAssistant_def GetHomeAssistantIntegrationByID_def Let_def case_prod_beta
  by (intro h_rules keeps_queries)

lemma validateSchedule_ok: "validateSchedule z item = Inr item' \<Longrightarrow> schedule_ok z item'"
  by (auto simp: validateSchedule_def schedule_ok_def res_bind_Inr_iff Let_def split: if_splits option.splits)

lemma schedule_ok_next [simp]: "schedule_ok z (item\<lparr>sch_NextRunAt := n\<rparr>) = schedule_ok z item"
  by (simp add: schedule_ok_def)

lemma kept_planned: "h_keeps (automation_ok (au_zones api)) (planned api item)"
proof (cases "validateSchedule (au_zones api) item")
  case (Inr item')
  then show ?thesis
    unfolding planned_def Inr sum.case Let_def
    by (intro h_rules keeps_saves) (simp add: validateSchedule_ok [OF Inr])
qed (simp add: planned_def h_keeps_simple)

lemma kept_schedules:
  "h_keeps (automation_ok (au_zones api)) GetSchedules" "h_keeps (automation_ok (au_zones api)) (CreateSchedule api b)"
  "h_keeps (automation_ok (au_zones api)) (UpdateSchedule api p b)" "h_keeps (automation_ok (au_zones api)) (GetScheduleRuns p l)"
  "h_keeps (automation_ok (au_zones api)) (DeleteSchedule p)"
  unfolding GetSchedules_def GetScheduledNotifications_def CreateSchedule_def UpdateSchedule_def GetScheduleRuns_def
    GetScheduledNotificationByID_def GetScheduledNotificationRuns_def DeleteSchedule_def Let_def
  by (intro h_rules keeps_query kept_planned automation_ops)+

lemma kept_policies:
  "h_keeps (automation_ok z) GetQuietHours" "h_keeps (automation_ok z) (SaveQuietHours api bq)"
  "h_keeps (automation_ok z) GetDigest" "h_keeps (automation_ok z) (SaveDigest api bd)"
proof -
  show "h_keeps (automation_ok z) GetQuietHours" "h_keeps (automation_ok z) GetDigest"
    unfolding GetQuietHours_def db_GetQuietHoursPolicy_def GetDigest_def db_GetDigestPolicy_def
    by (intro h_rules keeps_query)+
  show "h_keeps (automation_ok z) (SaveQuietHours api bq)"
    unfolding SaveQuietHours_def Let_def
    by (intro h_keeps_bind h_keeps_require h_keeps_steps h_keeps_simple h_keeps_call keeps_policies)
      (auto simp: quiet_ok_def)
  show "h_keeps (automation_ok z) (SaveDigest api bd)"
    unfolding SaveDigest_def
  proof (rule h_keeps_bind [OF h_keeps_steps(1)], clarify)
    fix enabled :: bool and interval prio :: int
    let ?valid = "\<lambda>item. dp_IntervalMinutes item = interval"

    have next_run: "h_keeps (automation_ok z) (h_bind (if enabled
        then h_bind (h_now api) (\<lambda>now. h_return (item\<lparr>dp_NextRunAt := Some (now + interval * minute)\<rparr>))
        else h_then (successOrAbort 500 (db_DeleteDigestItems u)) (h_return item)) (\<lambda>item. successOrAbort 500 (db_SaveDigestPolicy item)))"
      if "15 \<le> interval \<and> interval \<le> 10080" "?valid item" for item u
    proof (rule h_keeps_bind_post [where R = ?valid])
      show "h_keeps (automation_ok z) (if enabled
        then h_bind (h_now api) (\<lambda>now. h_return (item\<lparr>dp_NextRunAt := Some (now + interval * minute)\<rparr>))
        else h_then (successOrAbort 500 (db_DeleteDigestItems u)) (h_return item))"
        by (intro h_rules automation_ops)
    qed (use that in \<open>auto simp: h_bind_Some h_then_Some intro!: h_keeps_call keeps_policies split: if_splits\<close>)
    show "h_keeps (automation_ok z) (h_then (require (15 \<le> interval \<and> interval \<le> 10080) ''digest interval must be between 15 minutes and 7 days'')
     (h_bind h_user (\<lambda>userID.
      h_bind (successOrAbort 500 (db_GetDigestPolicy userID)) (\<lambda>existing.
      let item = (default_digest userID)\<lparr>dp_Enabled := enabled, dp_IntervalMinutes := interval, dp_ImmediatePriority := prio\<rparr>;
          item = (case existing of None \<Rightarrow> item | Some e \<Rightarrow>
            item\<lparr>dp_ID := dp_ID e, dp_CreatedAt := dp_CreatedAt e, dp_LastSentAt := dp_LastSentAt e\<rparr>) in
      h_bind (if enabled
        then h_bind (h_now api) (\<lambda>now. h_return (item\<lparr>dp_NextRunAt := Some (now + interval * minute)\<rparr>))
        else h_then (successOrAbort 500 (db_DeleteDigestItems userID)) (h_return item)) (\<lambda>item.
        successOrAbort 500 (db_SaveDigestPolicy item))))))"
      unfolding Let_def db_GetDigestPolicy_def
      by (intro h_keeps_require h_keeps_bind h_keeps_simple h_keeps_call keeps_query next_run) (auto split: option.split)
  qed
qed

lemma escalation_target:
  assumes "validateEscalationTarget p s = (Some (kind, target), s')"
  shows "target \<noteq> 0 \<and> (if kind = ''channel'' then er_SourceApplicationID p \<noteq> target else kind = ''user'' \<or> kind = ''group'')"
  using assms
  by (auto simp: validateEscalationTarget_def Let_def h_then_Some h_bind_Some split: if_splits)

lemma kept_target: "h_keeps (automation_ok z) (validateEscalationTarget p)"
  unfolding validateEscalationTarget_def Let_def by (intro h_rules keeps_reads atomic_rules)

lemma kept_rule: "h_keeps (automation_ok z) (store_rule p item)"
  unfolding store_rule_def
proof (intro h_keeps_then [OF h_keeps_steps(9)] h_keeps_bind_post [OF kept_target], clarify)
  let ?R = "\<lambda>(kind, target). target \<noteq> 0 \<and>
    (if kind = ''channel'' then er_SourceApplicationID p \<noteq> target else kind = ''user'' \<or> kind = ''group'')"
  show "?R (a, b)" if "validateEscalationTarget p s = (Some (a, b), s')" for s a b s'
    using escalation_target [OF that] by simp
  fix x assume R: "?R x"
  obtain kind target where x: "x = (kind, target)" by fastforce
  show "h_keeps (automation_ok z) (case x of (kind, target) \<Rightarrow>
      h_then (require (0 \<le> er_RepeatMinutes p \<and> er_RepeatMinutes p \<le> 10080 \<and> 0 \<le> er_MaxRepeats p \<and> er_MaxRepeats p \<le> 1000)
          ''invalid escalation repeat settings'')
        (successOrAbort 500 (SaveEscalationRule (fill_rule p kind target item))))"
    unfolding x prod.case
    by (intro h_keeps_require h_keeps_call keeps_saves) (use R in \<open>auto simp: x rule_ok_def fill_rule_def\<close>)
qed

lemma kept_escalations:
  "h_keeps (automation_ok z) GetEscalations" "h_keeps (automation_ok z) (CreateEscalation b)"
  "h_keeps (automation_ok z) (UpdateEscalation p b)" "h_keeps (automation_ok z) (DeleteEscalation p)"
  unfolding GetEscalations_def GetEscalationRules_def CreateEscalation_def UpdateEscalation_def
    db_GetEscalationRuleByID_def DeleteEscalation_def
  by (intro h_rules keeps_query kept_rule automation_ops)+

lemma kept_acknowledgements:
  "h_keeps (automation_ok z) (GetAcknowledgement p)" "h_keeps (automation_ok z) (AcknowledgeMessage api p)"
  "h_keeps (automation_ok z) (UnacknowledgeMessage api p)"
proof -
  have access: "h_keeps (automation_ok z) (canAccessMessage i)" for i
    unfolding canAccessMessage_def db_GetMessageByID_def Let_def by (intro h_rules keeps_reads atomic_rules)
  show "h_keeps (automation_ok z) (GetAcknowledgement p)" "h_keeps (automation_ok z) (AcknowledgeMessage api p)"
    "h_keeps (automation_ok z) (UnacknowledgeMessage api p)"
    unfolding GetAcknowledgement_def AcknowledgeMessage_def UnacknowledgeMessage_def acknowledge_def
      db_IsMessageAcknowledgedByUser_def GetMessageAcknowledgements_def
    by (intro h_rules keeps_rules access automation_ops)+
qed

lemma kept_request:
  assumes "engine_leaves_settings api" "automation_ok (au_zones api) (srv_tables s)"
  shows "automation_ok (au_zones api) (srv_tables (serve_automation api req s))"
  using assms(2)
  by (cases req)
    (simp_all add: run_handler_def kept_webhooks [OF assms(1), THEN h_keepsD] kept_brokers [OF assms(1), THEN h_keepsD]
      kept_homes [OF assms(1), THEN h_keepsD] kept_pairing [THEN h_keepsD] kept_schedules [THEN h_keepsD]
      kept_policies [THEN h_keepsD] kept_escalations [THEN h_keepsD] kept_acknowledgements [THEN h_keepsD])

section \<open>Properties\<close>

text \<open>
  Property C15. Whatever sequence of automation requests the server answers, with whatever parameters and database
  failures, the settings it stores stay valid: credentials are empty or encrypted, no two webhooks have the same
  secret, broker connections, quiet hours, digests, schedules and escalation rules have the values the handlers
  accept; in particular no channel escalates to itself. Assumed is that the engine's calls do not write settings.
\<close>

theorem automation_settings_stay_valid:
  assumes "engine_leaves_settings api" "automation_ok (au_zones api) (srv_tables s)"
  shows "automation_ok (au_zones api) (srv_tables (fold (serve_automation api) reqs s))"
  using assms(2)
proof (induction reqs arbitrary: s)
  case (Cons req reqs)
  show ?case using Cons.IH [OF kept_request [OF assms(1) Cons.prems]] by simp
qed simp

definition sealed_state :: "unit automation_state server gin" where
  "sealed_state = hook_state\<lparr>ctx_world := (ctx_world hook_state)\<lparr>srv_db := \<lparr>tables = on_automation (\<lambda>a. a\<lparr>at_webhooks :=
     \<lparr>tb_rows = [hook_route\<lparr>wr_Secret := ''enc:v1:AAAA''\<rparr>], tb_next = 2\<rparr>\<rparr>) demo_tables, faults = [None, Some (Err ''down'')]\<rparr>\<rparr>\<rparr>"

theorem automation_settings_stay_valid_witness:
  "automation_ok (au_zones hook_api) (srv_tables (fold (serve_automation hook_api)
     [NewWebhookSecret ''1'', PutDigest (Inr (True, 60, 8)), PutEscalation ''1'' (Inr new_rule)] sealed_state))"
proof (rule automation_settings_stay_valid)
  show "engine_leaves_settings hook_api"
    by (simp add: engine_leaves_settings_def leaves_settings_def hook_api_def)
  have "automation_ok z (tables (srv_db (ctx_world sealed_state)))" for z
    by (simp add: sealed_state_def automation_simps demo_tables_def table_ok_def sealed_def encryptedPrefix_def
        strings_HasPrefix_def hook_route_def no_rows_def no_automation_def no_accounts_def)
  then show "automation_ok (au_zones hook_api) (srv_tables sealed_state)" .
qed

end
