(* ===== verification/Spec2Isabelle.thy ===== *)
theory Spec2Isabelle
  imports Fracdex_Keys DecayMap Limiter User_Requests Service Stream_Safety Due Mqtt Lease Message_Rights Collaboration Automation_Laws
begin

text \<open>
  A model of the server of Gotify MU (Monita), the Go program under \<open>src/\<close>: users subscribe to channels
  (called applications in the code), messages are pushed to the members of a channel over WebSockets, and an
  automation engine adds schedules, digests, quiet hours, escalations and MQTT input.

  How a message travels: a request passes the authentication middleware (\<open>auth/\<close>) and a handler of \<open>api/\<close>;
  the handler gives the message to the engine (\<open>automation/engine.go\<close>), which stores it through the database
  layer (\<open>database/\<close>), asks the policies of every recipient whether to announce, collect or defer it, and
  announces it through the WebSocket hub (\<open>api/stream/\<close>). The scheduler of the engine, guarded by a lease in the
  database, creates the messages of schedules, digests and escalations.

  Conventions. Structs are records with the fields of the code behind a prefix, in \<open>Model\<close>; strings are lists of
  bytes; \<open>uint\<close> is \<open>nat\<close> and signed integers are \<open>int\<close>, wrapped by \<open>wrap64\<close> where the code multiplies durations
  or timestamps; bytes and packet identifiers are words. Times are nanoseconds. A Go function with an error is
  a function to \<open>fail + 'a\<close>, where a panic is the value \<open>Panic\<close>. Interfaces of the code (\<open>Database\<close>, \<open>Notifier\<close>)
  and packages that are not part of the repository (cryptography, JSON, time zones, GORM) are records of
  functions over a world \<open>'w\<close>, passed to the definitions that use them. Mutexes make operations atomic; goroutines
  are steps of a relation. What the engine and the MQTT session record as published are the calls they make, whether
  or not the call succeeds.

  Theories, in the order of the imports:

  \<^item> \<open>Prelude\<close>: results, byte strings, the functions of \<open>strings\<close>, \<open>strconv\<close>, \<open>time\<close> and \<open>encoding/binary\<close> the code
    uses, and the lemmas on them; the functions on case map the letters of ASCII only. \<open>Model\<close>: the records of
    \<open>model/\<close>, client expiry and channel roles. Decoded JSON is a tree in which integer literals are kept apart from
    other numbers and every key of an object occurs once, with its last value.

  \<^item> \<open>Base64\<close>, \<open>Token\<close>, \<open>Secrets\<close>: tokens (\<open>auth/token.go\<close>), one-time codes and the secret store
    (\<open>security/totp.go\<close>, \<open>security/secretstore.go\<close>): round trips, verification, panics on short keys.

  \<^item> \<open>Auth\<close>, \<open>Auth_Guards\<close>, \<open>Service\<close>, \<open>Users\<close>: the middleware of \<open>auth/authentication.go\<close> over an explicit request
    context, the guards as instances of the locale \<open>guard\<close>, service accounts, and the user handlers of
    \<open>api/user.go\<close> behind them: who gets through, and with which second factor. The locale \<open>user_store\<close> holds what the
    user handlers need of their database; \<open>User_Requests\<close> interprets it on the tables of \<open>Accounts\<close> with statements that
    fail at will, and proves over all sequences of requests that an administrator remains and that registration
    never creates one.

  \<^item> \<open>Fracdex\<close>, \<open>Fracdex_Order\<close>, \<open>Fracdex_Keys\<close>: the sort keys of \<open>fracdex/fracdex.go\<close>: totality, strict betweenness, sequences
    of keys, with the locale \<open>key_walk\<close> for the two directions.

  \<^item> \<open>DecayMap\<close>, \<open>Limiter\<close>: \<open>decaymap/decaymap.go\<close> against an abstract map of timed entries; \<open>security/ratelimit.go\<close> and
    \<open>security/replay.go\<close> with the locale \<open>keyed_limiter\<close>: bounds and independence of keys.

  \<^item> \<open>Stream\<close>, \<open>Stream_Safety\<close>: the registry of connections and its operations (\<open>api/stream/\<close>), the life cycle of a
    connection and \<open>Notify\<close> as the step relation \<open>hub_step\<close>; the invariant, progress of \<open>Notify\<close>, and the exact effect of
    every removal, with the locale \<open>hub_operation\<close> for what each operation keeps.

  \<^item> \<open>Schedule\<close>, \<open>Engine\<close>, \<open>Delivery\<close>, \<open>Due\<close>, \<open>Mqtt\<close>: \<open>automation/engine.go\<close>. The engine state is the world with a trace
    of its observable events. \<open>Schedule\<close> computes quiet hours and next runs, \<open>Engine\<close> stores and delivers,
    \<open>Delivery\<close> proves who gets what, with the inductive relations \<open>turn\<close> and \<open>turns\<close> for the events of one recipient and
    of all, \<open>Due\<close> runs one round of the scheduler, \<open>Mqtt\<close> is the packet codec and the
    session of an MQTT integration.

  \<^item> \<open>Tables\<close>, \<open>Database\<close>, \<open>Database_Laws\<close>, \<open>Lease\<close>: the message, collaboration and lease side of \<open>database/\<close>. The
    tables are lists of rows, every statement of the code is one step that may fail as the session says, and a
    transaction undoes its statements after a failure. Proved are atomicity, referential integrity
    of the ten tables whose rows belong to a message (not of the links between messages), deduplication, the personal archive (locale \<open>personal_operation\<close>) and exclusive leases (locale
    \<open>lease_service\<close>).

  \<^item> \<open>Membership\<close>, \<open>Membership_Laws\<close>, \<open>Accounts\<close>: memberships, groups and their synchronisation, users, clients and the
    deletion of channels and users (\<open>database/application_membership.go\<close>, \<open>group.go\<close>, \<open>user.go\<close>, \<open>client.go\<close>); what the
    synchronisation with groups grants.

  \<^item> \<open>Handler\<close>, \<open>Channels\<close>, \<open>Channels_Laws\<close>, \<open>Channel_Requests\<close>: handlers over the database, and those of
    \<open>api/application.go\<close>, \<open>api/application_membership.go\<close> and \<open>api/group.go\<close>; the invariant of channels, members and
    owners, and the rights behind every change.

  \<^item> \<open>Messages\<close>, \<open>Messages_Laws\<close>, \<open>Message_Rights\<close>, \<open>Collaboration\<close>: the handlers of \<open>api/message.go\<close> and
    \<open>api/collaboration.go\<close>; paging gives every message once, and who may post and remove.

  \<^item> \<open>Integrations\<close>, \<open>Netip\<close>, \<open>Webhook\<close>, \<open>Webhook_Laws\<close>, \<open>Automation_Api\<close>, \<open>Automation_Laws\<close>: the tables of
    \<open>database/automation.go\<close> with encrypted credentials, the parsing of addresses and blocks, and the handlers of
    \<open>api/automation.go\<close>: what an inbound webhook has passed before the engine sees it, that a signed one is not
    admitted again in the same spelling, and that only valid settings are stored.

  Bounds. \<open>NextScheduleRun\<close> tries 10000 candidates as the code does; the loop of \<open>escalationWouldCycle\<close> visits at most
  eight messages and the depth of an escalation is below five; the length of an MQTT packet has at most four
  bytes. These are bounds of the code, not fuel; all functions terminate.

  Not modelled: reading key files and random bytes (inputs of the definitions), \<open>Float64Approx\<close>, HTTP plumbing, uploads of
  files, the handlers of clients, sessions, identity providers, passkeys, plugins, connectors and updates, the
  Home Assistant socket, TLS and dialling of the integrations, native plugins, the fetching and sending of
  outbound connectors, configuration, routing, backup and the generated front end. The manifest lists them part by
  part.
\<close>

end
